(* ===== verification/UbossPrelude.thy ===== *)
theory UbossPrelude
  imports Main "HOL-Library.Sublist"
begin

text \<open>
  What the components share: the names of the model's basic types, the result type of operations
  that throw, tables with their where-clauses, the list idioms of the source (a Set used to drop
  duplicates, a stable sort, find) and the fact collections the component proofs draw on.
\<close>

section \<open>Basic types\<close>

text \<open>
  Identifiers and free text are strings.  A Date is its \<open>getTime()\<close>: milliseconds since the epoch.
  An operation that throws returns a sum, the exception on the left.
\<close>

type_synonym uid = string
type_synonym instant = int

named_theorems table_simps \<open>how where-clauses read after a table was updated\<close>
named_theorems result_simps \<open>when a chain of fallible steps succeeds\<close>

section \<open>Fallible steps\<close>

definition bind_result :: "'e + 'a \<Rightarrow> ('a \<Rightarrow> 'e + 'b) \<Rightarrow> 'e + 'b" where
  "bind_result r f = (case r of Inl e \<Rightarrow> Inl e | Inr a \<Rightarrow> f a)"

definition check_that :: "bool \<Rightarrow> 'e \<Rightarrow> 'e + unit" where
  "check_that b e = (if b then Inr () else Inl e)"

lemma bind_result_Inl [simp]: "bind_result (Inl e) f = Inl e"
  by (simp add: bind_result_def)

lemma bind_result_Inr [simp]: "bind_result (Inr a) f = f a"
  by (simp add: bind_result_def)

lemma bind_result_eq_Inr [result_simps]:
  "bind_result r f = Inr b \<longleftrightarrow> (\<exists>a. r = Inr a \<and> f a = Inr b)"
  by (simp add: bind_result_def split: sum.split)

lemma check_that_eq_Inr [result_simps]: "check_that b e = Inr u \<longleftrightarrow> b"
  by (simp add: check_that_def)

lemma check_that_eq_Inl [result_simps]: "check_that b e = Inl e' \<longleftrightarrow> \<not> b \<and> e' = e"
  by (auto simp add: check_that_def)

section \<open>List idioms of the source\<close>

text \<open>\<open>[...new Set(xs)]\<close>: the first occurrence of each element, in order.\<close>

fun dedupe :: "'a list \<Rightarrow> 'a list" where
  "dedupe [] = []"
| "dedupe (x # xs) = x # removeAll x (dedupe xs)"

lemma set_dedupe [simp]: "set (dedupe xs) = set xs"
  by (induction xs) auto

lemma distinct_dedupe [simp]: "distinct (dedupe xs)"
  by (induction xs) (auto simp add: distinct_removeAll)

lemma dedupe_id: "distinct xs \<Longrightarrow> dedupe xs = xs"
  by (induction xs) auto

lemma dedupe_eq_Nil [simp]: "dedupe xs = [] \<longleftrightarrow> xs = []"
  by (cases xs) auto

text \<open>\<open>String.prototype.trim\<close> on the ASCII white space, and the emptiness test the guards make.\<close>

definition is_space :: "char \<Rightarrow> bool" where
  "is_space c \<longleftrightarrow> c \<in> {CHR '' '', CHR 0x09, CHR 0x0A, CHR 0x0B, CHR 0x0C, CHR 0x0D}"

definition trim :: "string \<Rightarrow> string" where
  "trim s = rev (dropWhile is_space (rev (dropWhile is_space s)))"

definition blank :: "string \<Rightarrow> bool" where
  "blank s \<longleftrightarrow> trim s = []"

lemma blank_iff: "blank s \<longleftrightarrow> (\<forall>c \<in> set s. is_space c)"
proof -
  have "set (dropWhile is_space s) \<subseteq> {c. is_space c} \<longleftrightarrow> dropWhile is_space s = []"
    by (metis (no_types, lifting) dropWhile_eq_Nil_conv hd_dropWhile hd_in_set mem_Collect_eq
        subsetD empty_subsetI list.set(1))
  then show ?thesis
    by (auto simp add: blank_def trim_def dropWhile_eq_Nil_conv dest: set_dropWhileD)
qed

lemma find_SomeD: "List.find P xs = Some x \<Longrightarrow> x \<in> set xs \<and> P x"
  by (auto simp add: find_Some_iff in_set_conv_nth)

lemma find_NoneD: "List.find P xs = None \<Longrightarrow> x \<in> set xs \<Longrightarrow> \<not> P x"
  by (auto simp add: find_None_iff)

section \<open>Tables\<close>

text \<open>
  A database table is the list of its rows in insertion order.  A where-clause is a predicate; an
  update rewrites the rows it selects and keeps their order.
\<close>

definition update_where :: "('a \<Rightarrow> bool) \<Rightarrow> ('a \<Rightarrow> 'a) \<Rightarrow> 'a list \<Rightarrow> 'a list" where
  "update_where P f rows = map (\<lambda>r. if P r then f r else r) rows"

lemma update_where_Nil [simp, table_simps]: "update_where P f [] = []"
  by (simp add: update_where_def)

lemma update_where_Cons [table_simps]:
  "update_where P f (r # rs) = (if P r then f r else r) # update_where P f rs"
  by (simp add: update_where_def)

lemma length_update_where [simp]: "length (update_where P f rows) = length rows"
  by (simp add: update_where_def)

lemma set_update_where:
  "set (update_where P f rows) = (\<lambda>r. if P r then f r else r) ` set rows"
  by (simp add: update_where_def)

lemma map_update_where_kept:
  assumes "\<And>r. r \<in> set rows \<Longrightarrow> P r \<Longrightarrow> g (f r) = g r"
  shows "map g (update_where P f rows) = map g rows"
  using assms by (induction rows) (auto simp add: update_where_def)

lemma map_update_where_same:
  assumes "\<And>r. g (f r) = g r"
  shows "map g (update_where P f rows) = map g rows"
  using assms by (induction rows) (auto simp add: update_where_def)

lemma update_where_untouched:
  assumes "\<And>r. r \<in> set rows \<Longrightarrow> Q r \<Longrightarrow> \<not> P r" and "\<And>r. Q (f r) = Q r"
  shows "filter Q (update_where P f rows) = filter Q rows"
  using assms by (induction rows) (auto simp add: update_where_def)

lemma find_update_where_same:
  assumes "\<And>r. Q (f r) = Q r"
  shows "List.find Q (update_where P f rows)
         = map_option (\<lambda>r. if P r then f r else r) (List.find Q rows)"
  using assms by (induction rows) (auto simp add: update_where_def)

lemma find_append:
  "List.find P (xs @ ys) = (case List.find P xs of Some x \<Rightarrow> Some x | None \<Rightarrow> List.find P ys)"
  by (induction xs) auto

lemma distinct_key_unique:
  assumes "distinct (map k rows)" and "r \<in> set rows" and "r' \<in> set rows" and "k r = k r'"
  shows "r = r'"
  using assms by (induction rows) (auto simp add: rev_image_eqI)

lemma find_by_key:
  assumes "distinct (map k rows)" and "r \<in> set rows"
  shows "List.find (\<lambda>x. k x = k r) rows = Some r"
  using assms by (induction rows) (auto simp add: rev_image_eqI)

end
