(* ===== verification/Doubles.thy ===== *)
theory Doubles
  imports UbossPrelude Complex_Main "HOL-Library.Log_Nat"
begin

text \<open>
  A JavaScript number is an IEEE 754 double.  Whole amounts (minor units, tokens, milliseconds)
  stay below 2 ^ 53 and are modelled as integers; a quotient is rounded to 53 significant bits, to
  the nearest and on a tie to the even neighbour.  That rounding, \<open>fl\<close>, is defined here on the
  rationals (without the exponent bounds of the format, which no amount of the program comes near),
  together with what the budget arithmetic needs of it: it is monotone, exact on the safe
  integers, within one part in 2 ^ 53, and the floor of a rounded quotient of safe integers is the
  integer quotient.
\<close>

section \<open>Rounding to 53 bits\<close>

definition exponent_of :: "rat \<Rightarrow> int" where
  "exponent_of x = (let (p, q) = quotient_of x; e = bitlen p - bitlen q
     in if 2 powi e \<le> x then e else e - 1)"

definition round_half_even :: "rat \<Rightarrow> int" where
  "round_half_even x = (let n = \<lfloor>x\<rfloor>; d = x - of_int n
     in if d < 1 / 2 then n else if 1 / 2 < d then n + 1 else if even n then n else n + 1)"

definition fl_pos :: "rat \<Rightarrow> rat" where
  "fl_pos x = (let u = 2 powi (exponent_of x - 52) in of_int (round_half_even (x / u)) * u)"

definition fl :: "rat \<Rightarrow> rat" where
  "fl x = (if x = 0 then 0 else if x < 0 then - fl_pos (- x) else fl_pos x)"

text \<open>\<open>a / b\<close>, \<open>Math.floor\<close>, \<open>Math.ceil\<close> and \<open>Math.round\<close> on such numbers.\<close>

definition js_div :: "int \<Rightarrow> int \<Rightarrow> rat" where
  "js_div a b = fl (of_int a / of_int b)"

definition js_trunc :: "rat \<Rightarrow> int" where
  "js_trunc x = (if x < 0 then - \<lfloor>- x\<rfloor> else \<lfloor>x\<rfloor>)"

definition js_round :: "rat \<Rightarrow> int" where
  "js_round x = \<lfloor>x + 1 / 2\<rfloor>"

section \<open>Its error\<close>

lemma bitlen_powi_bounds:
  assumes "0 < p"
  shows "2 powi (bitlen p - 1) \<le> (of_int p :: rat)" and "(of_int p :: rat) < 2 powi (bitlen p)"
proof -
  have b: "1 \<le> bitlen p"
    using assms by (metis bitlen_eq_zero_iff bitlen_nonneg linorder_not_le zless_imp_add1_zle
        add_0 order_le_less)
  have "of_int (2 ^ nat (bitlen p - 1)) \<le> (of_int p :: rat)"
    and "(of_int p :: rat) < of_int (2 ^ nat (bitlen p))"
    using bitlen_bounds [OF assms] by (simp_all only: of_int_le_iff of_int_less_iff)
  then show "2 powi (bitlen p - 1) \<le> (of_int p :: rat)" and "(of_int p :: rat) < 2 powi (bitlen p)"
    using b by (simp_all add: power_int_def)
qed

lemma exponent_bounds:
  assumes "0 < x"
  shows "2 powi (exponent_of x) \<le> x" and "x < 2 powi (exponent_of x + 1)"
proof -
  obtain p q where pq: "quotient_of x = (p, q)" by fastforce
  then have q: "0 < q" and x: "x = of_int p / of_int q"
    by (auto dest: quotient_of_denom_pos quotient_of_div)
  with assms have p: "0 < p" by (simp add: zero_less_divide_iff)
  note bp = bitlen_powi_bounds [OF p] and bq = bitlen_powi_bounds [OF q]
  have "x < 2 powi (bitlen p) / 2 powi (bitlen q - 1)"
    unfolding x using bp bq p q by (intro frac_less) (auto simp add: order_less_imp_le)
  then have up: "x < 2 powi (bitlen p - bitlen q + 1)"
    by (simp add: power_int_diff power_int_add)
  have "2 powi (bitlen p - 1) / 2 powi (bitlen q) \<le> x"
    unfolding x using bp bq p q by (intro frac_le) auto
  then have low: "2 powi (bitlen p - bitlen q - 1) \<le> x"
    by (simp add: power_int_diff power_int_add)
  show "2 powi (exponent_of x) \<le> x" and "x < 2 powi (exponent_of x + 1)"
    using up low by (auto simp add: exponent_of_def pq Let_def)
qed

lemma pow2_less_iff [simp]: "(2::rat) powi a < 2 powi b \<longleftrightarrow> a < b"
  using power_int_strict_increasing [of a b "2::rat"] power_int_increasing [of b a "2::rat"]
  by (cases "a < b") auto

lemma exponent_unique:
  assumes "2 powi e \<le> x" and "x < 2 powi (e + 1)"
  shows "exponent_of x = e"
proof -
  have "(0::rat) < 2 powi e" by simp
  then have x: "0 < x" using assms(1) by (rule order_less_le_trans)
  note b = exponent_bounds [OF x]
  have "(2::rat) powi e < 2 powi (exponent_of x + 1)"
    using assms(1) b(2) by (rule order_le_less_trans)
  moreover have "(2::rat) powi exponent_of x < 2 powi (e + 1)"
    using b(1) assms(2) by (rule order_le_less_trans)
  ultimately have "e < exponent_of x + 1" and "exponent_of x < e + 1"
    by (simp_all only: pow2_less_iff)
  then show ?thesis by simp
qed

lemma exponent_mono:
  assumes "0 < x" and "x \<le> y"
  shows "exponent_of x \<le> exponent_of y"
proof -
  have y: "0 < y" using assms by (rule order_less_le_trans)
  have "(2::rat) powi exponent_of x \<le> y"
    using exponent_bounds(1) [OF assms(1)] assms(2) by (rule order_trans)
  then have "(2::rat) powi exponent_of x < 2 powi (exponent_of y + 1)"
    using exponent_bounds(2) [OF y] by (rule order_le_less_trans)
  then have "exponent_of x < exponent_of y + 1" by (simp only: pow2_less_iff)
  then show ?thesis by simp
qed

lemma round_half_even_error: "\<bar>of_int (round_half_even x) - x\<bar> \<le> 1 / 2"
proof -
  have "of_int \<lfloor>x\<rfloor> \<le> x" "x < of_int \<lfloor>x\<rfloor> + 1" by linarith+
  then show ?thesis by (auto simp add: round_half_even_def Let_def abs_le_iff)
qed

lemma round_half_even_of_int [simp]: "round_half_even (of_int n) = n"
  by (simp add: round_half_even_def)

lemma round_half_even_mono: "x \<le> y \<Longrightarrow> round_half_even x \<le> round_half_even y"
proof -
  assume le: "x \<le> y"
  have fx: "of_int \<lfloor>x\<rfloor> \<le> x" "x < of_int \<lfloor>x\<rfloor> + 1" and fy: "of_int \<lfloor>y\<rfloor> \<le> y" by linarith+
  show ?thesis
  proof (cases "\<lfloor>x\<rfloor> = \<lfloor>y\<rfloor>")
    case True
    with le fx fy show ?thesis by (auto simp add: round_half_even_def Let_def)
  next
    case False
    with floor_mono [OF le] have "\<lfloor>x\<rfloor> + 1 \<le> \<lfloor>y\<rfloor>" by simp
    moreover have "round_half_even x \<le> \<lfloor>x\<rfloor> + 1" "\<lfloor>y\<rfloor> \<le> round_half_even y"
      by (auto simp add: round_half_even_def Let_def)
    ultimately show ?thesis by simp
  qed
qed

lemma fl_pos_error:
  assumes "0 < x"
  shows "\<bar>fl_pos x - x\<bar> \<le> x / 2 ^ 53"
proof -
  define u where "u = (2::rat) powi (exponent_of x - 52)"
  have u: "0 < u" by (simp add: u_def)
  have "u * 2 ^ 52 = 2 powi (exponent_of x)" by (simp add: u_def power_int_diff)
  with exponent_bounds [OF assms] have ux: "u * 2 ^ 52 \<le> x" by simp
  have "\<bar>fl_pos x - x\<bar> = \<bar>of_int (round_half_even (x / u)) - x / u\<bar> * u"
    using u by (simp add: fl_pos_def Let_def u_def [symmetric] abs_mult_pos left_diff_distrib)
  also have "\<dots> \<le> 1 / 2 * u"
    using u by (intro mult_right_mono round_half_even_error) auto
  also have "\<dots> \<le> x / 2 ^ 53" using ux by simp
  finally show ?thesis .
qed

lemma fl_pos_between:
  assumes "0 < x"
  shows "2 powi (exponent_of x) \<le> fl_pos x" and "fl_pos x \<le> 2 powi (exponent_of x + 1)"
proof -
  define u where "u = (2::rat) powi (exponent_of x - 52)"
  have u: "0 < u" by (simp add: u_def)
  have e: "2 powi (exponent_of x) = 2 ^ 52 * u" "2 powi (exponent_of x + 1) = 2 ^ 53 * u"
    by (simp_all add: u_def power_int_diff power_int_add)
  have "of_int (2 ^ 52) \<le> x / u" and "x / u \<le> of_int (2 ^ 53)"
    using exponent_bounds [OF assms] u e by (simp_all add: field_simps)
  then have "2 ^ 52 \<le> round_half_even (x / u)" and "round_half_even (x / u) \<le> 2 ^ 53"
    using round_half_even_mono [of "of_int (2 ^ 52)" "x / u"] round_half_even_mono [of "x / u" "of_int (2 ^ 53)"]
    by (simp_all only: round_half_even_of_int)
  then have "of_int (2 ^ 52) \<le> (of_int (round_half_even (x / u)) :: rat)"
    and "(of_int (round_half_even (x / u)) :: rat) \<le> of_int (2 ^ 53)"
    by (simp_all only: of_int_le_iff)
  then have "(2::rat) ^ 52 \<le> of_int (round_half_even (x / u))"
    and "of_int (round_half_even (x / u)) \<le> (2::rat) ^ 53"
    by simp_all
  then show "2 powi (exponent_of x) \<le> fl_pos x" and "fl_pos x \<le> 2 powi (exponent_of x + 1)"
    unfolding e fl_pos_def Let_def u_def [symmetric] using u by (auto intro: mult_right_mono)
qed

lemma fl_pos_mono:
  assumes "0 < x" and "x \<le> y"
  shows "fl_pos x \<le> fl_pos y"
proof (cases "exponent_of x = exponent_of y")
  case True
  define u where "u = (2::rat) powi (exponent_of y - 52)"
  have u: "0 < u" by (simp add: u_def)
  then have "round_half_even (x / u) \<le> round_half_even (y / u)"
    using assms by (intro round_half_even_mono divide_right_mono) auto
  then show ?thesis
    using u True by (simp add: fl_pos_def Let_def u_def [symmetric])
next
  case False
  with exponent_mono [OF assms] have "exponent_of x + 1 \<le> exponent_of y" by simp
  then have "(2::rat) powi (exponent_of x + 1) \<le> 2 powi (exponent_of y)"
    by (intro power_int_increasing) auto
  then show ?thesis
    using fl_pos_between [of x] fl_pos_between [of y] assms by auto
qed

lemma fl_pos_pos: "0 < x \<Longrightarrow> 0 < fl_pos x"
  using fl_pos_between(1) [of x] by (meson order_less_le_trans zero_less_power_int zero_less_numeral)

section \<open>What the arithmetic uses\<close>

lemma fl_0 [simp]: "fl 0 = 0"
  by (simp add: fl_def)

lemma fl_minus: "fl (- x) = - fl x"
  by (simp add: fl_def)

lemma fl_nonneg: "0 \<le> x \<Longrightarrow> 0 \<le> fl x"
  using fl_pos_pos [of x] by (auto simp add: fl_def)

lemma fl_error: "0 \<le> x \<Longrightarrow> \<bar>fl x - x\<bar> \<le> x / 2 ^ 53"
  using fl_pos_error [of x] by (auto simp add: fl_def)

lemma fl_le: "0 \<le> x \<Longrightarrow> fl x \<le> x + x / 2 ^ 53"
  using fl_error [of x] by linarith

lemma fl_ge: "0 \<le> x \<Longrightarrow> x - x / 2 ^ 53 \<le> fl x"
  using fl_error [of x] by linarith

lemma fl_mono: "x \<le> y \<Longrightarrow> fl x \<le> fl y"
proof -
  assume le: "x \<le> y"
  consider "0 \<le> x" | "x < 0" "0 \<le> y" | "y < 0" by linarith
  then show ?thesis
  proof cases
    case 1
    with le show ?thesis using fl_pos_mono [of x y] fl_nonneg [of y] by (auto simp add: fl_def)
  next
    case 2
    then show ?thesis using fl_pos_pos [of "- x"] fl_nonneg [of y] by (auto simp add: fl_def)
  next
    case 3
    with le show ?thesis using fl_pos_mono [of "- y" "- x"] by (auto simp add: fl_def)
  qed
qed

lemma fl_of_int:
  assumes "\<bar>n\<bar> \<le> 2 ^ 53"
  shows "fl (of_int n) = of_int n"
proof -
  have pos: "fl (of_int m) = of_int m" if m: "0 < m" "m \<le> 2 ^ 53" for m :: int
  proof -
    let ?e = "exponent_of (of_int m)"
    show ?thesis
    proof (cases "m = 2 ^ 53")
      case True
      then have "?e = 53" by (intro exponent_unique) (simp_all add: power_int_def)
      with True show ?thesis
        using round_half_even_of_int [of "2 ^ 52"] by (simp add: fl_def fl_pos_def)
    next
      case False
      have m1: "(1::rat) \<le> of_int m" using m by simp
      have "(2::rat) powi ?e < 2 powi 53"
        using exponent_bounds(1) [of "of_int m"] False m
        by (simp add: power_int_def order_le_less_trans of_int_less_numeral_power_cancel_iff)
      then have e: "?e \<le> 52" by (simp only: pow2_less_iff)
      have "of_int m / (2::rat) powi (?e - 52) = of_int (m * 2 ^ nat (52 - ?e))"
        using e by (simp add: power_int_def power_int_minus field_simps split: if_splits)
      then show ?thesis
        using m by (simp add: fl_def fl_pos_def Let_def del: of_int_mult) (simp add: power_int_def field_simps)
    qed
  qed
  consider "n = 0" | "0 < n" | "n < 0" by linarith
  then show ?thesis
    using assms pos [of n] pos [of "- n"] fl_minus [of "of_int n"] by cases auto
qed

lemma quotient_le_of_int: "0 < d \<Longrightarrow> of_int m / of_int d \<le> (of_int k :: rat) \<longleftrightarrow> m \<le> k * d"
  by (metis of_int_0_less_iff of_int_le_iff of_int_mult pos_divide_le_eq)

lemma of_int_le_quotient: "0 < d \<Longrightarrow> (of_int k :: rat) \<le> of_int m / of_int d \<longleftrightarrow> k * d \<le> m"
  by (metis of_int_0_less_iff of_int_le_iff of_int_mult pos_le_divide_eq)

lemma div_times_le: "0 < d \<Longrightarrow> n div d * d \<le> (n::int)"
  using pos_mod_sign [of d n] div_mult_mod_eq [of n d] by linarith

text \<open>The floor of a rounded quotient of safe integers is the integer quotient.\<close>

lemma floor_js_div:
  assumes "0 \<le> n" and "n < 2 ^ 53" and d: "0 < d"
  shows "\<lfloor>js_div n d\<rfloor> = n div d"
proof -
  let ?q = "of_int n / of_int d :: rat"
  have q: "0 \<le> ?q" using assms by simp
  have lower: "of_int (n div d) \<le> js_div n d"
  proof -
    have "n div d \<le> n" using assms zdiv_mono2 [of n 1 d] by simp
    then have "fl (of_int (n div d)) = of_int (n div d)"
      using assms by (intro fl_of_int) (simp add: pos_imp_zdiv_nonneg_iff)
    moreover have "of_int (n div d) \<le> ?q"
      using d by (simp add: of_int_le_quotient div_times_le)
    ultimately show ?thesis using fl_mono [of "of_int (n div d)" ?q] by (simp add: js_div_def)
  qed
  have "js_div n d \<le> ?q + ?q / 2 ^ 53" using fl_le [OF q] by (simp add: js_div_def)
  also have "\<dots> < ?q + 1 / of_int d"
  proof -
    have "(of_int n :: rat) < of_int (2 ^ 53)" using assms(2) by (simp only: of_int_less_iff)
    then show ?thesis using d by (simp add: field_simps)
  qed
  also have "\<dots> = of_int (n + 1) / of_int d" by (simp add: add_divide_distrib)
  also have "\<dots> \<le> of_int (n div d + 1)"
  proof -
    have "n + 1 \<le> (n div d + 1) * d"
      using pos_mod_bound [OF d, of n] by (simp add: algebra_simps minus_mult_div_eq_mod [symmetric])
    then show ?thesis using d by (simp only: quotient_le_of_int)
  qed
  finally have upper: "js_div n d < of_int (n div d + 1)" .
  from lower upper show ?thesis by (simp add: floor_eq_iff)
qed

text \<open>And the ceiling is the integer ceiling.\<close>

lemma ceiling_js_div:
  assumes "0 \<le> n" and "n < 2 ^ 53" and d: "0 < d"
  shows "\<lceil>js_div n d\<rceil> = (n + d - 1) div d"
proof -
  define k where "k = (n + d - 1) div d"
  let ?q = "of_int n / of_int d :: rat"
  have q: "0 \<le> ?q" using assms by simp
  have kd: "k * d + (n + d - 1) mod d = n + d - 1" by (simp only: k_def div_mult_mod_eq)
  then have k1: "n \<le> k * d" using pos_mod_bound [OF d, of "n + d - 1"] by linarith
  have k2: "(k - 1) * d < n"
    using kd pos_mod_sign [OF d, of "n + d - 1"] by (simp only: left_diff_distrib)
  have "k \<le> n"
  proof (cases "n = 0")
    case True
    then show ?thesis using d by (simp add: k_def)
  next
    case False
    with assms have "(k - 1) * 1 \<le> (k - 1) * d \<or> k \<le> 1" by (auto intro: mult_left_mono)
    with k2 False assms show ?thesis by auto
  qed
  moreover have "0 \<le> k" using assms by (simp add: k_def pos_imp_zdiv_nonneg_iff)
  ultimately have "fl (of_int k) = of_int k" using assms by (intro fl_of_int) auto
  moreover have "?q \<le> of_int k" using d k1 by (simp only: quotient_le_of_int)
  ultimately have upper: "js_div n d \<le> of_int k" using fl_mono [of ?q "of_int k"] by (simp add: js_div_def)
  have "(of_int (k - 1) :: rat) \<le> of_int (n - 1) / of_int d"
    using d k2 by (simp only: of_int_le_quotient)
  also have "\<dots> = ?q - 1 / of_int d" by (simp add: diff_divide_distrib)
  also have "\<dots> < ?q - ?q / 2 ^ 53"
  proof -
    have "(of_int n :: rat) < of_int (2 ^ 53)" using assms(2) by (simp only: of_int_less_iff)
    then show ?thesis using d by (simp add: field_simps)
  qed
  also have "\<dots> \<le> js_div n d" using fl_ge [OF q] by (simp add: js_div_def)
  finally have "of_int (k - 1) < js_div n d" .
  with upper show ?thesis unfolding k_def [symmetric] by (simp add: ceiling_eq_iff)
qed

lemma ceiling_js_div_ge:
  assumes "0 \<le> n" and "n < 2 ^ 53" and d: "0 < d"
  shows "n \<le> d * \<lceil>js_div n d\<rceil>"
  using pos_mod_bound [OF d, of "n + d - 1"] mult_div_mod_eq [of d "n + d - 1"]
  unfolding ceiling_js_div [OF assms] by linarith

text \<open>
  A percentage computed as \<open>Math.floor((n / d) * 100)\<close> rounds twice before the floor: it never
  exceeds the exact percentage and falls short of it by at most one.
\<close>

definition js_percent :: "int \<Rightarrow> int \<Rightarrow> int" where
  "js_percent n d = \<lfloor>fl (js_div n d * 100)\<rfloor>"

lemma js_percent_mono:
  assumes "n \<le> m" and "0 < d"
  shows "js_percent n d \<le> js_percent m d"
proof -
  have "js_div n d \<le> js_div m d"
    unfolding js_div_def using assms by (intro fl_mono divide_right_mono) auto
  then show ?thesis unfolding js_percent_def by (intro floor_mono fl_mono) auto
qed

lemma js_percent_bounds:
  assumes "0 \<le> n" and "n \<le> 2 ^ 44" and d: "0 < d"
  shows "js_percent n d \<le> 100 * n div d" and "100 * n div d - 1 \<le> js_percent n d"
proof -
  define t :: rat where "t = of_int n / of_int d"
  have t: "0 \<le> t" using assms by (simp add: t_def)
  have small: "t * 100 * 3 / 2 ^ 53 < 1 / of_int d"
  proof -
    have "(of_int n :: rat) \<le> of_int (2 ^ 44)" using assms(2) by (simp only: of_int_le_iff)
    then show ?thesis using d by (simp add: t_def field_simps)
  qed
  have e: "t * 100 = of_int (100 * n) / of_int d" by (simp add: t_def)
  note a = fl_le [OF t] and b = fl_ge [OF t]
  have ft: "0 \<le> fl t * 100" using fl_nonneg [OF t] by simp
  note a' = fl_le [OF ft] and b' = fl_ge [OF ft]
  have tt: "t / 2 ^ 53 \<ge> 0" "t / 2 ^ 106 \<le> t / 2 ^ 53" using t by (auto simp add: divide_left_mono)
  have "fl (fl t * 100) \<le> t * 100 + t * 100 * 3 / 2 ^ 53"
    using a a' tt by (simp add: field_simps)
  also have "\<dots> < of_int (100 * n + 1) / of_int d"
    using small e by (simp add: add_divide_distrib)
  also have "\<dots> \<le> of_int (100 * n div d + 1)"
  proof -
    have "100 * n + 1 \<le> (100 * n div d + 1) * d"
      using pos_mod_bound [OF d, of "100 * n"]
      by (simp add: algebra_simps minus_mult_div_eq_mod [symmetric])
    then show ?thesis using d by (simp only: quotient_le_of_int)
  qed
  finally have "fl (fl t * 100) < of_int (100 * n div d + 1)" .
  then have "\<lfloor>fl (fl t * 100)\<rfloor> < 100 * n div d + 1" by (simp only: floor_less_iff)
  then show "js_percent n d \<le> 100 * n div d"
    by (simp add: js_percent_def js_div_def t_def [symmetric])
  have "1 / of_int d \<le> (1 :: rat)" using d by simp
  then have "t * 100 - 1 \<le> fl (fl t * 100)"
    using b b' tt small by (simp add: field_simps)
  moreover have "of_int (100 * n div d) \<le> t * 100"
    unfolding e using d by (simp only: of_int_le_quotient div_times_le)
  ultimately have "of_int (100 * n div d - 1) \<le> fl (fl t * 100)" by simp
  then show "100 * n div d - 1 \<le> js_percent n d"
    by (simp add: js_percent_def js_div_def t_def [symmetric] le_floor_iff)
qed

end
