(* ===== verification/Calendar.thy ===== *)
theory Calendar
  imports UbossPrelude
begin

text \<open>
  ECMAScript's UTC calendar (sections Day Number, Year Number, Month Number and MakeDay of the
  language's time values), as much of it as the period arithmetic of the cost code uses, and
  \<open>nextReset\<close> of \<open>packages/types/src/cost.ts\<close> on top of it.  A time value is whole milliseconds
  since the epoch; the language's limit of 8.64e15 on it is not reached.
\<close>

section \<open>Days, years and months\<close>

definition ms_per_day :: int where
  "ms_per_day = 86400000"

definition day_of :: "instant \<Rightarrow> int" where
  "day_of t = t div ms_per_day"

definition time_within_day :: "instant \<Rightarrow> int" where
  "time_within_day t = t mod ms_per_day"

definition day_from_year :: "int \<Rightarrow> int" where
  "day_from_year y = 365 * (y - 1970) + (y - 1969) div 4 - (y - 1901) div 100 + (y - 1601) div 400"

definition leap :: "int \<Rightarrow> int" where
  "leap y = (if y mod 4 = 0 \<and> (y mod 100 \<noteq> 0 \<or> y mod 400 = 0) then 1 else 0)"

lemma div_step:
  assumes "0 < (k::int)"
  shows "(x + 1) div k = x div k + (if (x + 1) mod k = 0 then 1 else 0)"
proof (cases "x mod k = k - 1")
  case True
  then have "x + 1 = k * (x div k + 1)" using mult_div_mod_eq [of k x] by (simp add: distrib_left)
  then show ?thesis using assms by simp
next
  case False
  then have r: "0 \<le> x mod k" "x mod k + 1 < k"
    using assms pos_mod_bound [of k x] pos_mod_sign [of k x] by linarith+
  have x: "x + 1 = k * (x div k) + (x mod k + 1)" by simp
  have "(x + 1) div k = x div k" using int_div_pos_eq [OF x] r by auto
  moreover have "(x + 1) mod k = x mod k + 1" using int_mod_pos_eq [OF x] r by auto
  ultimately show ?thesis using r by simp
qed

lemma mod_shift:
  "(y - 1968) mod 4 = 0 \<longleftrightarrow> y mod 4 = (0::int)" "(y - 1900) mod 100 = 0 \<longleftrightarrow> y mod 100 = (0::int)"
  "(y - 1600) mod 400 = 0 \<longleftrightarrow> y mod 400 = (0::int)"
proof -
  have "k dvd c \<Longrightarrow> (y - c) mod k = 0 \<longleftrightarrow> y mod k = 0" for c k :: int
    unfolding mod_eq_0_iff_dvd using dvd_diff_right_iff dvd_diff_left_iff by blast
  then show "(y - 1968) mod 4 = 0 \<longleftrightarrow> y mod 4 = (0::int)" "(y - 1900) mod 100 = 0 \<longleftrightarrow> y mod 100 = (0::int)"
    "(y - 1600) mod 400 = 0 \<longleftrightarrow> y mod 400 = (0::int)"
    by simp_all
qed

lemma mod_finer: "y mod 100 = 0 \<Longrightarrow> y mod 4 = (0::int)" "y mod 400 = 0 \<Longrightarrow> y mod 100 = (0::int)"
proof -
  have "k dvd m \<Longrightarrow> y mod m = 0 \<Longrightarrow> y mod k = 0" for k m :: int
    unfolding mod_eq_0_iff_dvd using dvd_trans by blast
  from this [of 4 100] this [of 100 400] show "y mod 100 = 0 \<Longrightarrow> y mod 4 = (0::int)"
    "y mod 400 = 0 \<Longrightarrow> y mod 100 = (0::int)" by simp_all
qed

lemma leap_parts:
  "leap y = (if y mod 4 = 0 then 1 else 0) - (if y mod 100 = 0 then 1 else 0) + (if y mod 400 = 0 then 1 else 0)"
proof (cases "y mod 400 = 0")
  case True
  then show ?thesis using mod_finer [of y] by (simp add: leap_def)
next
  case False
  then show ?thesis using mod_finer(1) [of y] unfolding leap_def by (cases "y mod 100 = 0") simp_all
qed

lemma day_from_year_step: "day_from_year (y + 1) = day_from_year y + 365 + leap y"
proof -
  have "(y - 1968) div 4 = (y - 1969) div 4 + (if y mod 4 = 0 then 1 else 0)"
    using div_step [of 4 "y - 1969"] by (simp add: mod_shift)
  moreover have "(y - 1900) div 100 = (y - 1901) div 100 + (if y mod 100 = 0 then 1 else 0)"
    using div_step [of 100 "y - 1901"] by (simp add: mod_shift)
  moreover have "(y - 1600) div 400 = (y - 1601) div 400 + (if y mod 400 = 0 then 1 else 0)"
    using div_step [of 400 "y - 1601"] by (simp add: mod_shift)
  moreover have "day_from_year (y + 1)
      = 365 * (y - 1970) + 365 + (y - 1968) div 4 - (y - 1900) div 100 + (y - 1600) div 400"
    by (simp add: day_from_year_def)
  moreover have "day_from_year y = 365 * (y - 1970) + (y - 1969) div 4 - (y - 1901) div 100 + (y - 1601) div 400"
    by (rule day_from_year_def)
  ultimately show ?thesis using leap_parts [of y] by linarith
qed

lemma leap_bounds: "0 \<le> leap y" "leap y \<le> 1"
  by (simp_all add: leap_def)

text \<open>The largest year that starts no later than the day, searched upwards from a year below it.\<close>

function year_search :: "int \<Rightarrow> int \<Rightarrow> int" where
  "year_search d y = (if day_from_year (y + 1) \<le> d then year_search d (y + 1) else y)"
  by pat_completeness auto
termination
proof (relation "measure (\<lambda>(d, y). nat (d - day_from_year y))")
  fix d y :: int
  assume "day_from_year (y + 1) \<le> d"
  then show "((d, y + 1), d, y) \<in> measure (\<lambda>(d, y). nat (d - day_from_year y))"
    using day_from_year_step [of y] leap_bounds [of y] by simp
qed simp

declare year_search.simps [simp del]

definition year_of_day :: "int \<Rightarrow> int" where
  "year_of_day d = year_search d (1970 + d div (if d < 0 then 365 else 366))"

lemma day_from_year_1970 [simp]: "day_from_year 1970 = 0"
  by (simp add: day_from_year_def)

lemma day_from_year_up: "day_from_year (y + int n) \<ge> day_from_year y + 365 * int n \<and>
    day_from_year (y + int n) \<le> day_from_year y + 366 * int n"
proof (induction n)
  case (Suc n)
  then show ?case
    using day_from_year_step [of "y + int n"] leap_bounds [of "y + int n"] by (simp add: ac_simps)
qed simp

lemma day_from_year_le:
  assumes "a \<le> b"
  shows "day_from_year a + 365 * (b - a) \<le> day_from_year b" "day_from_year b \<le> day_from_year a + 366 * (b - a)"
  using day_from_year_up [of a "nat (b - a)"] assms by simp_all

lemma day_from_year_strict: "a < b \<Longrightarrow> day_from_year a < day_from_year b"
  using day_from_year_le(1) [of a b] by simp

lemma year_search_correct:
  assumes "day_from_year y \<le> d"
  shows "day_from_year (year_search d y) \<le> d \<and> d < day_from_year (year_search d y + 1)"
  using assms
proof (induction d y rule: year_search.induct)
  case (1 d y)
  show ?case
  proof (cases "day_from_year (y + 1) \<le> d")
    case True
    then show ?thesis using 1(1) by (simp add: year_search.simps [of d y])
  next
    case False
    then show ?thesis using 1(2) by (simp add: year_search.simps [of d y])
  qed
qed

lemma year_of_day_correct: "day_from_year (year_of_day d) \<le> d" "d < day_from_year (year_of_day d + 1)"
proof -
  have "day_from_year (1970 + d div (if d < 0 then 365 else 366)) \<le> d"
  proof (cases "d < 0")
    case True
    then have "1970 + d div 365 \<le> 1970" by (simp add: div_int_pos_iff not_le)
    then have "day_from_year (1970 + d div 365) \<le> 365 * (d div 365)"
      using day_from_year_le(1) [of "1970 + d div 365" 1970] by simp
    then show ?thesis using True mult_div_mod_eq [of 365 d] pos_mod_sign [of 365 d] by simp
  next
    case False
    then have "day_from_year (1970 + d div 366) \<le> 366 * (d div 366)"
      using day_from_year_le(2) [of 1970 "1970 + d div 366"] by (simp add: pos_imp_zdiv_nonneg_iff)
    then show ?thesis using False mult_div_mod_eq [of 366 d] pos_mod_sign [of 366 d] by simp
  qed
  then show "day_from_year (year_of_day d) \<le> d" "d < day_from_year (year_of_day d + 1)"
    using year_search_correct by (simp_all add: year_of_day_def)
qed

lemma year_of_day_unique:
  assumes "day_from_year y \<le> d" and "d < day_from_year (y + 1)"
  shows "year_of_day d = y"
  using assms year_of_day_correct [of d] day_from_year_strict [of "year_of_day d + 1" y]
    day_from_year_strict [of "y + 1" "year_of_day d"] day_from_year_strict [of y "year_of_day d"]
  by (metis add1_zle_eq linorder_neqE_linordered_idom not_less order_le_less order_less_le_trans order_less_trans)

text \<open>The day of the year on which a month starts, months counted from 0.\<close>

fun month_start :: "int \<Rightarrow> int \<Rightarrow> int" where
  "month_start l m =
     (if m \<le> 0 then 0 else if m = 1 then 31 else if m = 2 then 59 + l else if m = 3 then 90 + l
      else if m = 4 then 120 + l else if m = 5 then 151 + l else if m = 6 then 181 + l
      else if m = 7 then 212 + l else if m = 8 then 243 + l else if m = 9 then 273 + l
      else if m = 10 then 304 + l else if m = 11 then 334 + l else 365 + l)"

definition month_of_day :: "int \<Rightarrow> int \<Rightarrow> int" where
  "month_of_day l yd =
     (if yd < 31 then 0 else if yd < 59 + l then 1 else if yd < 90 + l then 2 else if yd < 120 + l then 3
      else if yd < 151 + l then 4 else if yd < 181 + l then 5 else if yd < 212 + l then 6
      else if yd < 243 + l then 7 else if yd < 273 + l then 8 else if yd < 304 + l then 9
      else if yd < 334 + l then 10 else 11)"

declare month_start.simps [simp del]

definition days_in_month :: "int \<Rightarrow> int \<Rightarrow> int" where
  "days_in_month y m = month_start (leap y) (m + 1) - month_start (leap y) m"

definition year_month :: "int \<Rightarrow> int \<times> int" where
  "year_month d = (let y = year_of_day d in (y, month_of_day (leap y) (d - day_from_year y)))"

definition getUTCFullYear :: "instant \<Rightarrow> int" where
  "getUTCFullYear t = fst (year_month (day_of t))"

definition getUTCMonth :: "instant \<Rightarrow> int" where
  "getUTCMonth t = snd (year_month (day_of t))"

definition date_of_day :: "int \<Rightarrow> int" where
  "date_of_day d = (let (y, m) = year_month d in d - day_from_year y - month_start (leap y) m + 1)"

definition getUTCDate :: "instant \<Rightarrow> int" where
  "getUTCDate t = date_of_day (day_of t)"

definition make_day :: "int \<Rightarrow> int \<Rightarrow> int \<Rightarrow> int" where
  "make_day year month date =
     (let ym = year + month div 12; mn = month mod 12
      in day_from_year ym + month_start (leap ym) mn + date - 1)"

definition make_date :: "int \<Rightarrow> int \<Rightarrow> instant" where
  "make_date day time = day * ms_per_day + time"

definition setUTCDate :: "instant \<Rightarrow> int \<Rightarrow> instant" where
  "setUTCDate t date = make_date (make_day (getUTCFullYear t) (getUTCMonth t) date) (time_within_day t)"

definition setUTCMonth :: "instant \<Rightarrow> int \<Rightarrow> instant" where
  "setUTCMonth t month = make_date (make_day (getUTCFullYear t) month (getUTCDate t)) (time_within_day t)"

text \<open>\<open>Date.UTC\<close> reads the years 0 to 99 as 1900 to 1999.\<close>

definition date_UTC :: "int \<Rightarrow> int \<Rightarrow> int \<Rightarrow> instant" where
  "date_UTC year month date =
     make_date (make_day (if 0 \<le> year \<and> year \<le> 99 then 1900 + year else year) month date) 0"

section \<open>The calendar agrees with itself\<close>

lemma month_cases:
  assumes "0 \<le> (m::int)" "m < 12"
  shows "m \<in> {0, 1, 2, 3, 4, 5, 6, 7, 8, 9, 10, 11}"
proof -
  have "m = 0 \<or> m = 1 \<or> m = 2 \<or> m = 3 \<or> m = 4 \<or> m = 5 \<or> m = 6 \<or> m = 7 \<or> m = 8 \<or> m = 9 \<or> m = 10 \<or> m = 11"
    using assms by presburger
  then show ?thesis by simp
qed

lemma month_start_mono:
  assumes "0 \<le> l" "l \<le> 1" "0 \<le> m" "m < 12"
  shows "month_start l m + 28 \<le> month_start l (m + 1)"
proof -
  note month_cases [OF assms(3,4)]
  then show ?thesis using assms(1,2) by (auto simp add: month_start.simps)
qed

lemma month_start_0 [simp]: "month_start l 0 = 0" by (simp add: month_start.simps)

lemma month_start_12 [simp]: "month_start l 12 = 365 + l" by (simp add: month_start.simps)

lemma month_of_day_correct:
  assumes "0 \<le> l" "l \<le> 1" "0 \<le> yd" "yd < 365 + l"
  defines "m \<equiv> month_of_day l yd"
  shows "0 \<le> m" "m < 12" "month_start l m \<le> yd" "yd < month_start l (m + 1)"
  using assms by (auto simp add: month_of_day_def month_start.simps)

lemma month_of_day_unique:
  assumes "0 \<le> l" "l \<le> 1" "0 \<le> m" "m < 12" "month_start l m \<le> yd" "yd < month_start l (m + 1)"
  shows "month_of_day l yd = m"
proof -
  note month_cases [OF assms(3,4)]
  then show ?thesis using assms(1,2,5,6) by (auto simp add: month_of_day_def month_start.simps)
qed

lemma year_month_correct:
  assumes "year_month d = (y, m)"
  shows "0 \<le> m" "m < 12" "day_from_year y + month_start (leap y) m \<le> d"
    "d < day_from_year y + month_start (leap y) (m + 1)"
proof -
  have y: "y = year_of_day d" and m: "m = month_of_day (leap y) (d - day_from_year y)"
    using assms by (auto simp add: year_month_def Let_def)
  have "0 \<le> d - day_from_year y" "d - day_from_year y < 365 + leap y"
    using year_of_day_correct [of d] day_from_year_step [of y] by (simp_all add: y)
  from month_of_day_correct [OF leap_bounds this]
  show "0 \<le> m" "m < 12" "day_from_year y + month_start (leap y) m \<le> d"
    "d < day_from_year y + month_start (leap y) (m + 1)"
    by (simp_all add: m)
qed

text \<open>Composing a civil date and reading it back.\<close>

lemma year_month_make_day:
  assumes "0 \<le> m" "m < 12" "1 \<le> date" "date \<le> days_in_month y m"
  shows "year_month (make_day y m date) = (y, m)" "date_of_day (make_day y m date) = date"
proof -
  let ?l = "leap y" and ?d = "make_day y m date"
  have d: "?d = day_from_year y + month_start ?l m + date - 1"
    using assms(1,2) by (simp add: make_day_def Let_def)
  have mono: "0 \<le> month_start ?l m" "month_start ?l (m + 1) \<le> 365 + ?l"
  proof -
    note month_cases [OF assms(1,2)]
    then show "0 \<le> month_start ?l m" "month_start ?l (m + 1) \<le> 365 + ?l"
      using leap_bounds [of y] by (auto simp add: month_start.simps)
  qed
  have "year_of_day ?d = y"
    using assms(3,4) mono day_from_year_step [of y] by (intro year_of_day_unique) (auto simp add: d days_in_month_def)
  moreover have "month_of_day ?l (?d - day_from_year y) = m"
    using assms leap_bounds by (intro month_of_day_unique) (auto simp add: d days_in_month_def)
  ultimately show "year_month ?d = (y, m)" by (simp add: year_month_def Let_def)
  then show "date_of_day ?d = date" by (simp add: date_of_day_def d)
qed

lemma date_of_day_bounds:
  assumes "year_month d = (y, m)"
  shows "1 \<le> date_of_day d" "date_of_day d \<le> days_in_month y m" "d = make_day y m (date_of_day d)"
  using year_month_correct [OF assms] assms
  by (simp_all add: date_of_day_def days_in_month_def make_day_def Let_def)

lemma make_date_parts [simp]:
  assumes "0 \<le> time" "time < ms_per_day"
  shows "day_of (make_date d time) = d" "time_within_day (make_date d time) = time"
proof -
  have p: "make_date d time = ms_per_day * d + time" by (simp add: make_date_def mult.commute)
  show "day_of (make_date d time) = d" "time_within_day (make_date d time) = time"
    using int_div_pos_eq [OF p assms] int_mod_pos_eq [OF p assms] by (simp_all add: day_of_def time_within_day_def)
qed

lemma time_within_day_bounds [simp]: "0 \<le> time_within_day t" "time_within_day t < ms_per_day"
  by (simp_all add: time_within_day_def ms_per_day_def)

lemma make_date_day [simp]: "make_date (day_of t) (time_within_day t) = t"
  by (simp add: make_date_def day_of_def time_within_day_def)

section \<open>The next reset of a recurring allowance\<close>

datatype ResetCadence = NoCadence | Daily | Weekly | Monthly

definition nextReset :: "instant \<Rightarrow> ResetCadence \<Rightarrow> instant option" where
  "nextReset from cadence =
     (case cadence of
        NoCadence \<Rightarrow> None
      | Daily \<Rightarrow> Some (setUTCDate from (getUTCDate from + 1))
      | Weekly \<Rightarrow> Some (setUTCDate from (getUTCDate from + 7))
      | Monthly \<Rightarrow>
          (let day = getUTCDate from;
               first = setUTCDate from 1;
               next = setUTCMonth first (getUTCMonth first + 1);
               lastDay = getUTCDate (date_UTC (getUTCFullYear next) (getUTCMonth next + 1) 0)
           in Some (setUTCDate next (min day lastDay))))"

definition next_month :: "int \<times> int \<Rightarrow> int \<times> int" where
  "next_month ym = (case ym of (y, m) \<Rightarrow> if m = 11 then (y + 1, 0) else (y, m + 1))"

lemma make_day_date: "make_day y m a = make_day y m 1 + (a - 1)"
  by (simp add: make_day_def Let_def)

lemma make_day_next_month:
  assumes "0 \<le> m" "m < 12" "next_month (y, m) = (y', m')"
  shows "make_day y (m + 1) a = make_day y' m' a" "0 \<le> m'" "m' < 12"
    "make_day y' m' 1 = make_day y m 1 + days_in_month y m"
  using assms day_from_year_step [of y]
  by (auto simp add: next_month_def make_day_def Let_def days_in_month_def split: if_splits)

lemma days_in_month_28: "0 \<le> m \<Longrightarrow> m < 12 \<Longrightarrow> 28 \<le> days_in_month y m"
  using month_start_mono [of "leap y" m] leap_bounds [of y] by (simp add: days_in_month_def)

lemma fields_of_make_date:
  assumes "0 \<le> m" "m < 12" "1 \<le> date" "date \<le> days_in_month y m" "0 \<le> time" "time < ms_per_day"
  shows "getUTCFullYear (make_date (make_day y m date) time) = y"
    "getUTCMonth (make_date (make_day y m date) time) = m"
    "getUTCDate (make_date (make_day y m date) time) = date"
  using year_month_make_day [OF assms(1-4)] assms(5,6)
  by (simp_all add: getUTCFullYear_def getUTCMonth_def getUTCDate_def)

lemma fields_of:
  "year_month (day_of t) = (getUTCFullYear t, getUTCMonth t)"
  by (simp add: getUTCFullYear_def getUTCMonth_def)

text \<open>Daily and weekly cadences move by whole days; the calendar fields cancel out.\<close>

lemma setUTCDate_shift: "setUTCDate t (getUTCDate t + k) = t + k * ms_per_day"
proof -
  have "make_day (getUTCFullYear t) (getUTCMonth t) (getUTCDate t + k) = day_of t + k"
    using date_of_day_bounds(3) [OF fields_of [of t]]
      make_day_date [of "getUTCFullYear t" "getUTCMonth t" "getUTCDate t"]
      make_day_date [of "getUTCFullYear t" "getUTCMonth t" "getUTCDate t + k"]
    by (simp add: getUTCDate_def)
  then show ?thesis
    using make_date_day [of t] by (simp add: setUTCDate_def make_date_def algebra_simps)
qed

text \<open>
  The monthly cadence lands in the following month, on the same day or on that month's last day,
  at the same time of day.
\<close>

lemma nextReset_monthly:
  assumes "next_month (getUTCFullYear t, getUTCMonth t) = (y', m')" and "\<not> (0 \<le> y' \<and> y' \<le> 99)"
  shows "nextReset t Monthly
         = Some (make_date (make_day y' m' (min (getUTCDate t) (days_in_month y' m'))) (time_within_day t))"
proof -
  let ?y = "getUTCFullYear t" and ?m = "getUTCMonth t" and ?tm = "time_within_day t"
  note ym = year_month_correct [OF fields_of [of t]]
  note nm = make_day_next_month [OF ym(1,2) assms(1)]
  note dim = days_in_month_28 [OF ym(1,2), of ?y] days_in_month_28 [OF nm(2,3), of y']
  let ?first = "make_date (make_day ?y ?m 1) ?tm" and ?next = "make_date (make_day y' m' 1) ?tm"
  have first: "setUTCDate t 1 = ?first" by (simp add: setUTCDate_def)
  have res: "setUTCMonth ?first (getUTCMonth ?first + 1) = ?next"
    using fields_of_make_date [OF ym(1,2), of 1 ?y ?tm] dim(1) nm(1) by (simp add: setUTCMonth_def)
  have nf: "getUTCFullYear ?next = y'" "getUTCMonth ?next = m'" "getUTCDate ?next = 1"
    using fields_of_make_date [OF nm(2,3), of 1 y' ?tm] dim(2) by simp_all
  have "make_day y' (m' + 1) 0 = make_day y' m' (days_in_month y' m')"
  proof -
    obtain y2 m2 where n2: "next_month (y', m') = (y2, m2)" by fastforce
    note nm2 = make_day_next_month [OF nm(2,3) n2]
    show ?thesis using nm2(1) [of 0] nm2(4) make_day_date [of y2 m2 0] make_day_date [of y' m' "days_in_month y' m'"]
      by simp
  qed
  then have last: "getUTCDate (date_UTC y' (m' + 1) 0) = days_in_month y' m'"
    using assms(2) dim(2) year_month_make_day(2) [OF nm(2,3), of "days_in_month y' m'" y']
    by (auto simp add: date_UTC_def getUTCDate_def ms_per_day_def)
  have "time_within_day ?next = ?tm" by simp
  then show ?thesis
    by (simp add: nextReset_def Let_def first res nf last) (simp add: setUTCDate_def nf)
qed

lemma getUTCFullYear_epoch:
  assumes "0 \<le> t"
  shows "1970 \<le> getUTCFullYear t"
proof (rule ccontr)
  assume "\<not> 1970 \<le> getUTCFullYear t"
  then have "day_from_year (getUTCFullYear t + 1) \<le> 0"
    using day_from_year_le(1) [of "getUTCFullYear t + 1" 1970] by simp
  moreover have "0 \<le> day_of t"
    using assms by (simp add: day_of_def ms_per_day_def pos_imp_zdiv_nonneg_iff)
  moreover have "day_of t < day_from_year (getUTCFullYear t + 1)"
    using year_of_day_correct(2) [of "day_of t"] by (simp add: getUTCFullYear_def year_month_def Let_def)
  ultimately show False by simp
qed

text \<open>A cadence always moves forwards, so a loop that advances by it makes progress.\<close>

lemma nextReset_by_a_day:
  assumes "0 \<le> from" and "nextReset from cadence = Some next"
  shows "from + ms_per_day \<le> next"
proof (cases cadence)
  case Monthly
  obtain y' m' where n: "next_month (getUTCFullYear from, getUTCMonth from) = (y', m')" by fastforce
  note ym = year_month_correct [OF fields_of [of "from"]]
  note nm = make_day_next_month [OF ym(1,2) n]
  have "\<not> (0 \<le> y' \<and> y' \<le> 99)"
    using n getUTCFullYear_epoch [OF assms(1)] by (auto simp add: next_month_def split: if_splits)
  from nextReset_monthly [OF n this]
  have res: "next = make_date (make_day y' m' (min (getUTCDate from) (days_in_month y' m'))) (time_within_day from)"
    using assms(2) Monthly by simp
  note d = date_of_day_bounds [OF fields_of [of "from"]]
  have "1 \<le> min (getUTCDate from) (days_in_month y' m')"
    using d(1) days_in_month_28 [OF nm(2,3), of y'] by (simp add: getUTCDate_def)
  then have "day_of from < make_day y' m' (min (getUTCDate from) (days_in_month y' m'))"
    using d(2,3) nm(4) make_day_date [of y' m' "min (getUTCDate from) (days_in_month y' m')"]
      make_day_date [of "getUTCFullYear from" "getUTCMonth from" "date_of_day (day_of from)"] by linarith
  then have "make_date (day_of from) (time_within_day from) + ms_per_day \<le> next"
    by (simp add: res make_date_def ms_per_day_def)
  then show ?thesis by simp
qed (use assms in \<open>auto simp add: nextReset_def setUTCDate_shift ms_per_day_def\<close>)

lemma nextReset_advances: "0 \<le> from \<Longrightarrow> nextReset from cadence = Some next \<Longrightarrow> from < next"
  using nextReset_by_a_day [of "from" cadence "next"] by (simp add: ms_per_day_def)

end
