(* ===== verification/Budget.thy ===== *)
theory Budget
  imports Doubles Calendar
begin

text \<open>
  The budget arithmetic of \<open>packages/types/src/cost.ts\<close>: the hierarchy of budgets a spend must
  satisfy, what a wallet has left and how much of it is committed, the thresholds, the decision at
  one level and over all of them, the life of a reservation, and the ledger from which a balance
  can be rebuilt.  A message of the source is a constructor that carries the interpolated values.
\<close>

section \<open>The hierarchy\<close>

datatype BudgetScope = Company_Budget | Department_Budget | Person_Budget | Objective_Budget | Agent_Budget

fun BUDGET_SCOPE_ORDER :: "BudgetScope \<Rightarrow> nat" where
  "BUDGET_SCOPE_ORDER Company_Budget = 0"
| "BUDGET_SCOPE_ORDER Department_Budget = 1"
| "BUDGET_SCOPE_ORDER Person_Budget = 2"
| "BUDGET_SCOPE_ORDER Objective_Budget = 3"
| "BUDGET_SCOPE_ORDER Agent_Budget = 4"

definition BUDGET_SCOPES :: "BudgetScope list" where
  "BUDGET_SCOPES = [Company_Budget, Department_Budget, Person_Budget, Objective_Budget, Agent_Budget]"

type_synonym level_key = "BudgetScope \<times> uid option"

definition scopesToCheck :: "uid option \<Rightarrow> uid option \<Rightarrow> uid option \<Rightarrow> uid option \<Rightarrow> level_key list" where
  "scopesToCheck departmentId objectiveId engineAgentId actorUserId =
     [(Company_Budget, None)]
     @ (case departmentId of None \<Rightarrow> [] | Some d \<Rightarrow> [(Department_Budget, Some d)])
     @ (case actorUserId of None \<Rightarrow> [] | Some u \<Rightarrow> [(Person_Budget, Some u)])
     @ (case objectiveId of None \<Rightarrow> [] | Some obj \<Rightarrow> [(Objective_Budget, Some obj)])
     @ (case engineAgentId of None \<Rightarrow> [] | Some a \<Rightarrow> [(Agent_Budget, Some a)])"

section \<open>Balances\<close>

record balance =
  allowanceMinor :: int
  usedMinor :: int
  reservedMinor :: int

definition remainingMinor :: "('a) balance_scheme \<Rightarrow> int" where
  "remainingMinor w = allowanceMinor w - usedMinor w - reservedMinor w"

definition committedPercent :: "('a) balance_scheme \<Rightarrow> int" where
  "committedPercent w =
     (if allowanceMinor w \<le> 0 then 0
      else js_percent (usedMinor w + reservedMinor w) (allowanceMinor w))"

section \<open>Thresholds\<close>

datatype CostThreshold = Information | Warning | Critical | HardStop

fun DEFAULT_COST_THRESHOLD_PERCENTS :: "CostThreshold \<Rightarrow> int" where
  "DEFAULT_COST_THRESHOLD_PERCENTS Information = 50"
| "DEFAULT_COST_THRESHOLD_PERCENTS Warning = 75"
| "DEFAULT_COST_THRESHOLD_PERCENTS Critical = 90"
| "DEFAULT_COST_THRESHOLD_PERCENTS HardStop = 100"

text \<open>A partial record of percentages overrides the defaults key by key.\<close>

definition crossedThreshold :: "int \<Rightarrow> (CostThreshold \<Rightarrow> int option) \<Rightarrow> CostThreshold option" where
  "crossedThreshold percent given =
     (let percents = (\<lambda>t. case given t of Some p \<Rightarrow> p | None \<Rightarrow> DEFAULT_COST_THRESHOLD_PERCENTS t)
      in List.find (\<lambda>t. percents t \<le> percent) [HardStop, Critical, Warning, Information])"

datatype order_problem =
    MustBeAbove CostThreshold int CostThreshold int
  | OutsideRange

fun first_disorder :: "(CostThreshold \<Rightarrow> int) \<Rightarrow> CostThreshold list \<Rightarrow> order_problem option" where
  "first_disorder percents (previous # current # rest) =
     (if percents current \<le> percents previous
      then Some (MustBeAbove current (percents current) previous (percents previous))
      else first_disorder percents (current # rest))"
| "first_disorder percents _ = None"

definition thresholdsAreOrdered :: "(CostThreshold \<Rightarrow> int) \<Rightarrow> order_problem + unit" where
  "thresholdsAreOrdered percents =
     (case first_disorder percents [Information, Warning, Critical, HardStop] of
        Some p \<Rightarrow> Inl p
      | None \<Rightarrow> if percents Information < 1 \<or> 200 < percents HardStop then Inl OutsideRange
                else Inr ())"

section \<open>Deciding a spend\<close>

datatype SpendDecision = Allowed | NeedsApproval | HardStopped

datatype level_reason =
    NoBudgetSet BudgetScope
  | PastHardStop BudgetScope int int
  | PastApprovalThreshold BudgetScope int int
  | WithinBudget BudgetScope int

record SpendCheckLevel = balance +
  lv_scope :: BudgetScope
  lv_subjectId :: "uid option"
  lv_remainingMinor :: int
  percentAfter :: int
  lv_decision :: SpendDecision
  lv_reason :: level_reason

text \<open>The ceiling is \<open>Math.floor((allowance * percent) / 100)\<close>: one rounding, then the floor.\<close>

definition hardStopCeilingMinor :: "int \<Rightarrow> int \<Rightarrow> int" where
  "hardStopCeilingMinor allowance hardStopPercent = \<lfloor>js_div (allowance * hardStopPercent) 100\<rfloor>"

definition decideLevel ::
  "BudgetScope \<Rightarrow> uid option \<Rightarrow> int option \<Rightarrow> int \<Rightarrow> int \<Rightarrow> int \<Rightarrow> int \<Rightarrow> int \<Rightarrow> SpendCheckLevel" where
  "decideLevel scope subjectId allowance used reserved estimate approvalThresholdPercent hardStopPercent =
     (case allowance of
        None \<Rightarrow>
          \<lparr>allowanceMinor = 0, usedMinor = used, reservedMinor = reserved,
           lv_scope = scope, lv_subjectId = subjectId, lv_remainingMinor = 0, percentAfter = 0,
           lv_decision = Allowed, lv_reason = NoBudgetSet scope\<rparr>
      | Some allowed \<Rightarrow>
          (let remaining = remainingMinor \<lparr>allowanceMinor = allowed, usedMinor = used, reservedMinor = reserved\<rparr>;
               after = committedPercent
                 \<lparr>allowanceMinor = allowed, usedMinor = used, reservedMinor = reserved + estimate\<rparr>;
               committedAfterMinor = used + reserved + estimate;
               base = (\<lambda>d r.
                 \<lparr>allowanceMinor = allowed, usedMinor = used, reservedMinor = reserved,
                  lv_scope = scope, lv_subjectId = subjectId, lv_remainingMinor = remaining,
                  percentAfter = after, lv_decision = d, lv_reason = r\<rparr>)
           in if hardStopCeilingMinor allowed hardStopPercent < committedAfterMinor
              then base HardStopped (PastHardStop scope hardStopPercent after)
              else if approvalThresholdPercent \<le> after
              then base NeedsApproval (PastApprovalThreshold scope after approvalThresholdPercent)
              else base Allowed (WithinBudget scope after)))"

datatype outcome_reason = OfLevel level_reason | WithinEveryBudget

record SpendCheckOutcome =
  oc_decision :: SpendDecision
  bindingLevel :: "SpendCheckLevel option"
  oc_levels :: "SpendCheckLevel list"
  oc_reason :: outcome_reason

definition combineLevels :: "SpendCheckLevel list \<Rightarrow> SpendCheckOutcome" where
  "combineLevels levels =
     (let ordered = sort_key (\<lambda>l. BUDGET_SCOPE_ORDER (lv_scope l)) levels
      in case List.find (\<lambda>l. lv_decision l = HardStopped) ordered of
           Some l \<Rightarrow> \<lparr>oc_decision = HardStopped, bindingLevel = Some l, oc_levels = ordered,
                      oc_reason = OfLevel (lv_reason l)\<rparr>
         | None \<Rightarrow>
             (case List.find (\<lambda>l. lv_decision l = NeedsApproval) ordered of
                Some l \<Rightarrow> \<lparr>oc_decision = NeedsApproval, bindingLevel = Some l, oc_levels = ordered,
                           oc_reason = OfLevel (lv_reason l)\<rparr>
              | None \<Rightarrow> \<lparr>oc_decision = Allowed, bindingLevel = None, oc_levels = ordered,
                         oc_reason = WithinEveryBudget\<rparr>))"

section \<open>Reservations\<close>

datatype ReservationState = Held | Settled | Released | Expired

definition reservationIsOpen :: "ReservationState \<Rightarrow> bool" where
  "reservationIsOpen s \<longleftrightarrow> s = Held"

definition mayMoveReservation :: "ReservationState \<Rightarrow> ReservationState \<Rightarrow> bool" where
  "mayMoveReservation from to = (if from = to then True else from = Held \<and> to \<noteq> Held)"

definition RESERVATION_EXPIRY_MINUTES :: int where
  "RESERVATION_EXPIRY_MINUTES = 60"

definition reservationHasExpired :: "ReservationState \<Rightarrow> instant \<Rightarrow> instant \<Rightarrow> int option \<Rightarrow> bool" where
  "reservationHasExpired state heldAt now expiryMinutes =
     (if state \<noteq> Held then False
      else of_int (case expiryMinutes of None \<Rightarrow> RESERVATION_EXPIRY_MINUTES | Some m \<Rightarrow> m)
           \<le> js_div (now - heldAt) 60000)"

section \<open>The ledger\<close>

datatype LedgerEntryKind =
    TopUp | Adjustment | Reallocation | Reserve | ReleaseReserve | Settle | Refund | Expiry

text \<open>The effect table: the sign with which a kind moves allowance, used and reserved.\<close>

fun LEDGER_EFFECT :: "LedgerEntryKind \<Rightarrow> int \<times> int \<times> int" where
  "LEDGER_EFFECT TopUp = (1, 0, 0)"
| "LEDGER_EFFECT Adjustment = (1, 0, 0)"
| "LEDGER_EFFECT Reallocation = (1, 0, 0)"
| "LEDGER_EFFECT Reserve = (0, 0, 1)"
| "LEDGER_EFFECT ReleaseReserve = (0, 0, - 1)"
| "LEDGER_EFFECT Settle = (0, 1, 0)"
| "LEDGER_EFFECT Refund = (0, - 1, 0)"
| "LEDGER_EFFECT Expiry = (- 1, 0, 0)"

definition applyLedgerEntry :: "balance \<Rightarrow> LedgerEntryKind \<times> int \<Rightarrow> balance" where
  "applyLedgerEntry b entry =
     (case entry of (kind, amount) \<Rightarrow> case LEDGER_EFFECT kind of (ea, eu, er) \<Rightarrow>
        \<lparr>allowanceMinor = allowanceMinor b + ea * amount,
         usedMinor = usedMinor b + eu * amount,
         reservedMinor = reservedMinor b + er * amount\<rparr>)"

definition zero_balance :: balance where
  "zero_balance = \<lparr>allowanceMinor = 0, usedMinor = 0, reservedMinor = 0\<rparr>"

definition replayLedger :: "(LedgerEntryKind \<times> int) list \<Rightarrow> balance" where
  "replayLedger entries = foldl applyLedgerEntry zero_balance entries"

datatype balance_field = AllowanceMinor | UsedMinor | ReservedMinor

fun read_field :: "balance \<Rightarrow> balance_field \<Rightarrow> int" where
  "read_field b AllowanceMinor = allowanceMinor b"
| "read_field b UsedMinor = usedMinor b"
| "read_field b ReservedMinor = reservedMinor b"

record ReconciliationFinding =
  rf_scope :: BudgetScope
  rf_subjectId :: "uid option"
  rf_field :: balance_field
  storedMinor :: int
  replayedMinor :: int
  driftMinor :: int

definition reconcileBalance ::
  "BudgetScope \<Rightarrow> uid option \<Rightarrow> balance \<Rightarrow> (LedgerEntryKind \<times> int) list \<Rightarrow> ReconciliationFinding list" where
  "reconcileBalance scope subjectId stored entries =
     (let replayed = replayLedger entries
      in concat (map (\<lambda>f.
           let s = read_field stored f; r = read_field replayed f
           in if s \<noteq> r
              then [\<lparr>rf_scope = scope, rf_subjectId = subjectId, rf_field = f,
                     storedMinor = s, replayedMinor = r, driftMinor = s - r\<rparr>]
              else [])
         [AllowanceMinor, UsedMinor, ReservedMinor]))"

section \<open>Projection and estimate\<close>

text \<open>
  Every quotient and product of the projection is a double.  The date is the instant, cut to whole
  milliseconds as the Date constructor does; the days carry one decimal.
\<close>

definition projectedExhaustion :: "int \<Rightarrow> int \<Rightarrow> int \<Rightarrow> instant \<Rightarrow> instant \<Rightarrow> (instant \<times> rat) option" where
  "projectedExhaustion used reserved allowance periodStart now =
     (let committed = used + reserved; remaining = allowance - committed
      in if remaining \<le> 0 \<or> committed \<le> 0 then None
         else
           (let hoursElapsed = js_div (now - periodStart) 3600000
            in if hoursElapsed < 1 then None
               else
                 (let perHour = fl (of_int committed / hoursElapsed)
                  in if perHour \<le> 0 then None
                     else
                       (let hoursLeft = fl (of_int remaining / perHour)
                        in Some (js_trunc (fl (of_int now + fl (hoursLeft * 3600000))),
                                 fl (of_int (js_round (fl (fl (hoursLeft / 24) * 10))) / 10))))))"

definition estimateMinor :: "int \<Rightarrow> int \<Rightarrow> int \<Rightarrow> int" where
  "estimateMinor maxTokens inputPerMillion outputPerMillion =
     (let dearest = max inputPerMillion outputPerMillion
      in \<lceil>js_div (maxTokens * dearest) 1000000\<rceil>)"

section \<open>Lemmas\<close>

text \<open>The levels are checked, reported and locked outermost first, each at most once.\<close>

lemma scopesToCheck_ascending:
  "sorted_wrt (\<lambda>a b. BUDGET_SCOPE_ORDER (fst a) < BUDGET_SCOPE_ORDER (fst b)) (scopesToCheck d obj a u)"
  by (simp add: scopesToCheck_def split: option.split)

lemma scopesToCheck_company [simp]: "(Company_Budget, s) \<in> set (scopesToCheck d obj a u) \<longleftrightarrow> s = None"
  by (auto simp add: scopesToCheck_def split: option.splits)

lemma scopesToCheck_eq_Cons: "\<exists>rest. scopesToCheck d obj a u = (Company_Budget, None) # rest"
  by (simp add: scopesToCheck_def)

lemma distinct_scopesToCheck [simp]: "distinct (scopesToCheck d obj a u)"
  by (simp add: scopesToCheck_def split: option.split)

lemma committedPercent_mono:
  assumes "allowanceMinor v = allowanceMinor w"
    and "usedMinor v + reservedMinor v \<le> usedMinor w + reservedMinor w"
  shows "committedPercent v \<le> committedPercent w"
  using assms by (simp add: committedPercent_def js_percent_mono)

lemma crossedThreshold_Some:
  assumes "crossedThreshold p given = Some t"
  shows "(case given t of Some q \<Rightarrow> q | None \<Rightarrow> DEFAULT_COST_THRESHOLD_PERCENTS t) \<le> p"
  using assms by (auto simp add: crossedThreshold_def split: if_splits)

lemma hardStopCeilingMinor_exact:
  assumes "0 \<le> allowance" and "0 \<le> p" and "allowance * p < 2 ^ 53"
  shows "hardStopCeilingMinor allowance p = allowance * p div 100"
  unfolding hardStopCeilingMinor_def using assms by (intro floor_js_div) auto

lemma decideLevel_fields [simp]:
  "lv_scope (decideLevel sc su al u r e ap hs) = sc"
  "lv_subjectId (decideLevel sc su al u r e ap hs) = su"
  by (simp_all add: decideLevel_def Let_def split: option.split)

lemma decideLevel_HardStopped:
  "lv_decision (decideLevel sc su al u r e ap hs) = HardStopped
   \<longleftrightarrow> (\<exists>a. al = Some a \<and> hardStopCeilingMinor a hs < u + r + e)"
  by (simp add: decideLevel_def Let_def split: option.split)

lemma decideLevel_NeedsApproval:
  "lv_decision (decideLevel sc su al u r e ap hs) = NeedsApproval
   \<longleftrightarrow> (\<exists>a. al = Some a \<and> u + r + e \<le> hardStopCeilingMinor a hs
          \<and> ap \<le> committedPercent \<lparr>allowanceMinor = a, usedMinor = u, reservedMinor = r + e\<rparr>)"
  by (auto simp add: decideLevel_def Let_def not_less split: option.split)

lemma replayLedger_snoc: "replayLedger (es @ [e]) = applyLedgerEntry (replayLedger es) e"
  by (simp add: replayLedger_def)

lemma replayLedger_Nil [simp]: "replayLedger [] = zero_balance"
  by (simp add: replayLedger_def)

lemma reconcileBalance_Nil_iff: "reconcileBalance sc su stored es = [] \<longleftrightarrow> stored = replayLedger es"
  by (auto simp add: reconcileBalance_def Let_def intro: balance.equality split: if_splits)

text \<open>Estimates err upwards: the ceiling of the exact price at the dearer rate, or one above it.\<close>

lemma estimateMinor_covers:
  assumes "0 \<le> maxTokens" and "0 \<le> i" and "0 \<le> out" and "maxTokens * max i out < 2 ^ 53"
    and "0 \<le> ti" and "0 \<le> to" and "ti + to \<le> maxTokens"
  shows "ti * i + to * out \<le> 1000000 * estimateMinor maxTokens i out"
proof -
  let ?n = "maxTokens * max i out"
  have le: "ti * i + to * out \<le> ?n"
  proof -
    have "ti * i + to * out \<le> ti * max i out + to * max i out"
      using assms by (intro add_mono mult_left_mono) auto
    also have "\<dots> = (ti + to) * max i out" by (simp add: distrib_right)
    also have "\<dots> \<le> ?n" using assms by (intro mult_right_mono) auto
    finally show ?thesis .
  qed
  have n0: "0 \<le> ?n" using assms by auto
  have "?n \<le> 1000000 * estimateMinor maxTokens i out"
    using ceiling_js_div_ge [OF n0 assms(4), of 1000000] by (simp add: estimateMinor_def Let_def)
  with le show ?thesis by simp
qed

end
