(* ===== verification/Cost_Engine.thy ===== *)
theory Cost_Engine
  imports Budget
begin

text \<open>
  The cost engine, \<open>apps/api/src/cost/cost-engine.service.ts\<close>.  The state holds the tables the
  service reads and writes (wallets, reservations, holds, the ledger, the tenants' AI budget
  policies) and the calls it makes to the audit and notification services, in order.  A transaction
  is a function from state to a thrown error or a new state, so an error leaves the state as it was.
  Generated identifiers, the clock and the correlation id are arguments.
\<close>

section \<open>State\<close>

record wallet = balance +
  wa_id :: uid
  wa_tenant :: uid
  wa_scope :: BudgetScope
  wa_subject :: "uid option"
  wa_currency :: string
  wa_periodStart :: instant
  wa_resetsAt :: "instant option"
  wa_expiresAt :: "instant option"
  wa_cadence :: ResetCadence
  wa_recurringGrant :: "int option"
  wa_version :: nat

datatype close_reason =
    ClosedBecause string
  | ChargedAboveReserved int int
  | ChargedOfReserved int int
  | HeldTooLong int

record reservation =
  rs_id :: uid
  rs_tenant :: uid
  rs_wallet :: uid
  rs_state :: ReservationState
  rs_estimate :: int
  rs_settled :: "int option"
  rs_currency :: string
  rs_agentRun :: "uid option"
  rs_objective :: "uid option"
  rs_department :: "uid option"
  rs_engineAgent :: "uid option"
  rs_profile :: string
  rs_purpose :: string
  rs_gatewayCall :: "uid option"
  rs_heldAt :: instant
  rs_closedAt :: "instant option"
  rs_closeReason :: "close_reason option"
  rs_version :: nat

record hold =
  ho_tenant :: uid
  ho_reservation :: uid
  ho_wallet :: uid
  ho_amount :: int

datatype entry_reason =
    Stated string
  | OpeningAllowance
  | ReservedFor string
  | ReleasedOnSettlement
  | ChargedFor string
  | ReleasedBecause close_reason
  | UnusedLapsed ResetCadence
  | NewPeriodAllowance ResetCadence

text \<open>What a ledger entry records of the spend it belongs to.\<close>

record attribution =
  at_profile :: string
  at_agentRun :: "uid option"
  at_objective :: "uid option"
  at_department :: "uid option"
  at_engineAgent :: "uid option"

record ledger_entry =
  le_tenant :: uid
  le_wallet :: uid
  le_kind :: LedgerEntryKind
  le_amount :: int
  le_currency :: string
  le_reason :: entry_reason
  le_after :: balance
  le_actor :: "uid option"
  le_reference :: "string option"
  le_reservation :: "uid option"
  le_pricing :: "uid option"
  le_tokens :: "(int \<times> int \<times> int) option"
  le_context :: "attribution option"
  le_correlation :: "string option"
  le_occurredAt :: instant

record ai_budget_policy =
  monthlyAllowanceMinor :: int
  warningPercent :: int
  approvalThresholdMinor :: int
  hardStopMinor :: int

datatype cost_call =
    AllowanceSetAudited uid uid BudgetScope int int string
  | ThresholdRaised uid uid CostThreshold

record cost_state =
  wallets :: "wallet list"
  reservations :: "reservation list"
  holds :: "hold list"
  ledger :: "ledger_entry list"
  policies :: "uid \<Rightarrow> ai_budget_policy option"
  companyAdmins :: "uid \<Rightarrow> uid list"
  calls :: "cost_call list"

record moment =
  now_at :: instant
  correlation :: "string option"

datatype cost_error =
    NegativeAllowance
  | RecurringNothing
  | MustNameSubject BudgetScope
  | ZeroMovement
  | KindMovesNoAllowance LedgerEntryKind
  | AmountIsAMagnitude LedgerEntryKind
  | BlankReason
  | AllowanceWouldBeNegative BudgetScope int
  | NoCompanyWallet
  | NegativeCharge
  | SettledTwice ReservationState
  | AlreadyClosed ReservationState
  | NoSuchReservation
  | NoSuchWallet

section \<open>Rows\<close>

definition balance_of :: "wallet \<Rightarrow> balance" where
  "balance_of w = balance.truncate w"

definition new_wallet :: "uid \<Rightarrow> uid \<Rightarrow> BudgetScope \<Rightarrow> uid option \<Rightarrow> string \<Rightarrow> instant \<Rightarrow> wallet" where
  "new_wallet wid tenant scope subject currency now =
     \<lparr>allowanceMinor = 0, usedMinor = 0, reservedMinor = 0,
      wa_id = wid, wa_tenant = tenant, wa_scope = scope, wa_subject = subject,
      wa_currency = currency, wa_periodStart = now, wa_resetsAt = None, wa_expiresAt = None,
      wa_cadence = NoCadence, wa_recurringGrant = None, wa_version = 1\<rparr>"

text \<open>\<open>budgetWallet.update\<close> by id: the row after the update, or an error when there is none.\<close>

definition update_wallet :: "uid \<Rightarrow> (wallet \<Rightarrow> wallet) \<Rightarrow> cost_state \<Rightarrow> cost_error + (wallet \<times> cost_state)" where
  "update_wallet wid f st =
     (case List.find (\<lambda>w. wa_id w = wid) (wallets st) of
        None \<Rightarrow> Inl NoSuchWallet
      | Some w \<Rightarrow> Inr (f w, st\<lparr>wallets := update_where (\<lambda>r. wa_id r = wid) f (wallets st)\<rparr>))"

definition bump :: "wallet \<Rightarrow> wallet" where
  "bump w = w\<lparr>wa_version := Suc (wa_version w)\<rparr>"

definition find_wallet :: "uid \<Rightarrow> BudgetScope \<Rightarrow> uid option \<Rightarrow> cost_state \<Rightarrow> wallet option" where
  "find_wallet tenant scope subject st =
     List.find (\<lambda>w. wa_tenant w = tenant \<and> wa_scope w = scope \<and> wa_subject w = subject) (wallets st)"

text \<open>
  \<open>appendEntry\<close>.  Its guard against an unknown kind cannot fire here: \<open>LEDGER_EFFECT\<close> is total on
  the kinds.
\<close>

definition appendEntry :: "ledger_entry \<Rightarrow> cost_state \<Rightarrow> cost_state" where
  "appendEntry e st = st\<lparr>ledger := ledger st @ [e]\<rparr>"

definition plain_entry ::
  "uid \<Rightarrow> moment \<Rightarrow> wallet \<Rightarrow> LedgerEntryKind \<Rightarrow> int \<Rightarrow> string \<Rightarrow> entry_reason \<Rightarrow> balance \<Rightarrow> ledger_entry" where
  "plain_entry tenant m w kind amount currency reason after =
     \<lparr>le_tenant = tenant, le_wallet = wa_id w, le_kind = kind, le_amount = amount,
      le_currency = currency, le_reason = reason, le_after = after, le_actor = None,
      le_reference = None, le_reservation = None, le_pricing = None, le_tokens = None,
      le_context = None, le_correlation = correlation m, le_occurredAt = now_at m\<rparr>"

definition lockWallet ::
  "uid \<Rightarrow> BudgetScope \<Rightarrow> uid option \<Rightarrow> string \<Rightarrow> uid \<Rightarrow> moment \<Rightarrow> cost_state \<Rightarrow> wallet option \<times> cost_state" where
  "lockWallet tenant scope subject currency newId m st =
     (case find_wallet tenant scope subject st of
        Some w \<Rightarrow> (Some w, st)
      | None \<Rightarrow>
          if scope \<noteq> Company_Budget then (None, st)
          else (let created = new_wallet newId tenant scope None currency (now_at m)
                in (Some created, st\<lparr>wallets := wallets st @ [created]\<rparr>)))"

definition lockOrCreateWallet ::
  "uid \<Rightarrow> BudgetScope \<Rightarrow> uid option \<Rightarrow> string \<Rightarrow> uid \<Rightarrow> moment \<Rightarrow> cost_state \<Rightarrow> wallet \<times> cost_state" where
  "lockOrCreateWallet tenant scope subject currency newId m st =
     (case lockWallet tenant scope subject currency newId m st of
        (Some w, st') \<Rightarrow> (w, st')
      | (None, st') \<Rightarrow>
          (let created = new_wallet newId tenant scope subject currency (now_at m)
           in (created, st'\<lparr>wallets := wallets st' @ [created]\<rparr>)))"

definition lockWalletById :: "uid \<Rightarrow> uid \<Rightarrow> cost_state \<Rightarrow> wallet option" where
  "lockWalletById tenant wid st = List.find (\<lambda>w. wa_tenant w = tenant \<and> wa_id w = wid) (wallets st)"

definition lockReservation :: "uid \<Rightarrow> uid \<Rightarrow> cost_state \<Rightarrow> cost_error + reservation" where
  "lockReservation tenant rid st =
     (case List.find (\<lambda>r. rs_tenant r = tenant \<and> rs_id r = rid) (reservations st) of
        None \<Rightarrow> Inl NoSuchReservation
      | Some r \<Rightarrow> Inr r)"

section \<open>Thresholds and prices\<close>

definition as_percent :: "ai_budget_policy \<Rightarrow> int \<Rightarrow> int" where
  "as_percent p minor = max 1 (js_round (fl (js_div minor (monthlyAllowanceMinor p) * 100)))"

definition thresholds :: "uid \<Rightarrow> cost_state \<Rightarrow> CostThreshold \<Rightarrow> int" where
  "thresholds tenant st =
     (case policies st tenant of
        None \<Rightarrow> DEFAULT_COST_THRESHOLD_PERCENTS
      | Some p \<Rightarrow>
          if monthlyAllowanceMinor p \<le> 0 then DEFAULT_COST_THRESHOLD_PERCENTS
          else
            (let warning = warningPercent p;
                 critical = as_percent p (approvalThresholdMinor p);
                 hardStop = as_percent p (hardStopMinor p)
             in (\<lambda>t. case t of
                   Information \<Rightarrow> min (DEFAULT_COST_THRESHOLD_PERCENTS Information) (max 1 (warning - 25))
                 | Warning \<Rightarrow> warning
                 | Critical \<Rightarrow> max critical (warning + 1)
                 | HardStop \<Rightarrow> max hardStop (max critical (warning + 1) + 1))))"

text \<open>
  The setting read from the platform table: \<open>None\<close> when the read failed or the value is no finite
  number, which both fall back to selling at cost.
\<close>

definition sellMultiplier :: "rat option \<Rightarrow> rat" where
  "sellMultiplier setting = (case setting of None \<Rightarrow> 1 | Some v \<Rightarrow> if v < 1 then 1 else v)"

definition sellPriceFor :: "int \<Rightarrow> rat option \<Rightarrow> int" where
  "sellPriceFor costMinor setting =
     (if costMinor \<le> 0 then costMinor else \<lceil>fl (of_int costMinor * sellMultiplier setting)\<rceil>)"

record pricing =
  pr_id :: uid
  inputPerMillionMinorUnits :: int
  outputPerMillionMinorUnits :: int
  pr_currency :: string

text \<open>\<open>estimate\<close>, given the pricing in force on the route the tenant would use.\<close>

definition estimate :: "pricing option \<Rightarrow> int \<Rightarrow> rat option \<Rightarrow> int \<times> string \<times> uid option" where
  "estimate route maxTokens setting =
     (case route of
        None \<Rightarrow> (0, ''INR'', None)
      | Some p \<Rightarrow>
          (sellPriceFor (estimateMinor maxTokens (inputPerMillionMinorUnits p) (outputPerMillionMinorUnits p)) setting,
           pr_currency p, Some (pr_id p)))"

section \<open>Reading wallets\<close>

record WalletView = balance +
  wv_id :: uid
  wv_scope :: BudgetScope
  wv_subject :: "uid option"
  wv_currency :: string
  wv_remaining :: int
  wv_percent :: int
  wv_threshold :: "CostThreshold option"
  wv_periodStart :: instant
  wv_resetsAt :: "instant option"
  wv_expiresAt :: "instant option"
  wv_exhaustion :: "(instant \<times> rat) option"

definition toWalletView :: "wallet \<Rightarrow> (CostThreshold \<Rightarrow> int) \<Rightarrow> instant \<Rightarrow> WalletView" where
  "toWalletView w percents now =
     (let percent = committedPercent w
      in \<lparr>allowanceMinor = allowanceMinor w, usedMinor = usedMinor w, reservedMinor = reservedMinor w,
          wv_id = wa_id w, wv_scope = wa_scope w, wv_subject = wa_subject w, wv_currency = wa_currency w,
          wv_remaining = remainingMinor w, wv_percent = percent,
          wv_threshold = crossedThreshold percent (\<lambda>t. Some (percents t)),
          wv_periodStart = wa_periodStart w, wv_resetsAt = wa_resetsAt w, wv_expiresAt = wa_expiresAt w,
          wv_exhaustion = projectedExhaustion (usedMinor w) (reservedMinor w) (allowanceMinor w)
            (wa_periodStart w) now\<rparr>)"

definition walletSnapshot :: "uid \<Rightarrow> BudgetScope \<Rightarrow> uid option \<Rightarrow> cost_state \<Rightarrow> (uid \<times> balance \<times> int \<times> string) option" where
  "walletSnapshot tenant scope subject st =
     map_option (\<lambda>w. (wa_id w, balance_of w, remainingMinor w, wa_currency w)) (find_wallet tenant scope subject st)"

definition companyWallet :: "uid \<Rightarrow> uid \<Rightarrow> moment \<Rightarrow> cost_state \<Rightarrow> (uid \<times> string) \<times> cost_state" where
  "companyWallet tenant newId m st =
     (case find_wallet tenant Company_Budget None st of
        Some w \<Rightarrow> ((wa_id w, wa_currency w), st)
      | None \<Rightarrow>
          (let opening = (case policies st tenant of None \<Rightarrow> 0 | Some p \<Rightarrow> monthlyAllowanceMinor p);
               created = (new_wallet newId tenant Company_Budget None ''INR'' (now_at m))\<lparr>allowanceMinor := opening\<rparr>;
               st1 = st\<lparr>wallets := wallets st @ [created]\<rparr>;
               st2 = (if 0 < opening
                      then appendEntry (plain_entry tenant m created TopUp opening (wa_currency created)
                             OpeningAllowance (balance_of created)) st1
                      else st1)
           in ((wa_id created, wa_currency created), st2)))"

text \<open>The listing is ordered by the scope's name, then by age; rows are kept in order of creation.\<close>

fun scope_name_order :: "BudgetScope \<Rightarrow> nat" where
  "scope_name_order Agent_Budget = 0"
| "scope_name_order Company_Budget = 1"
| "scope_name_order Department_Budget = 2"
| "scope_name_order Objective_Budget = 3"
| "scope_name_order Person_Budget = 4"

definition wallets_view :: "uid \<Rightarrow> instant \<Rightarrow> cost_state \<Rightarrow> WalletView list" where
  "wallets_view tenant now st =
     map (\<lambda>w. toWalletView w (thresholds tenant st) now)
       (sort_key (\<lambda>w. scope_name_order (wa_scope w)) (filter (\<lambda>w. wa_tenant w = tenant) (wallets st)))"

section \<open>Setting and moving an allowance\<close>

definition set_allowance_entry ::
  "uid \<Rightarrow> moment \<Rightarrow> uid \<Rightarrow> string \<Rightarrow> BudgetScope \<Rightarrow> int \<Rightarrow> string \<Rightarrow> wallet \<Rightarrow> ledger_entry" where
  "set_allowance_entry tenant m actor currency scope delta reason w =
     (plain_entry tenant m w (if scope = Company_Budget then Adjustment else Reallocation) delta
        currency (Stated reason) (balance_of w))\<lparr>le_actor := Some actor\<rparr>"

definition setAllowance ::
  "uid \<Rightarrow> uid \<Rightarrow> BudgetScope \<Rightarrow> uid option \<Rightarrow> int \<Rightarrow> string \<Rightarrow> ResetCadence option
   \<Rightarrow> uid \<times> uid \<Rightarrow> moment \<Rightarrow> cost_state
   \<Rightarrow> cost_error + (WalletView \<times> cost_state)" where
  "setAllowance tenant actor scope subject allowance reason resetCadence newIds m st =
     (if allowance < 0 then Inl NegativeAllowance
      else let cadence = (case resetCadence of None \<Rightarrow> NoCadence | Some c \<Rightarrow> c) in
      if cadence \<noteq> NoCadence \<and> allowance = 0 then Inl RecurringNothing
      else if scope \<noteq> Company_Budget \<and> subject = None then Inl (MustNameSubject scope)
      else
        (let percents = thresholds tenant st;
             (company, st1) = lockOrCreateWallet tenant Company_Budget None ''INR'' (fst newIds) m st;
             (w, st2) = (if scope = Company_Budget then (company, st1)
                         else lockOrCreateWallet tenant scope subject (wa_currency company) (snd newIds) m st1);
             recur = (\<lambda>r. if cadence = NoCadence
                then r\<lparr>wa_cadence := NoCadence, wa_recurringGrant := None, wa_resetsAt := None\<rparr>
                else r\<lparr>wa_cadence := cadence, wa_recurringGrant := Some allowance,
                       wa_resetsAt := nextReset (now_at m) cadence\<rparr>);
             delta = allowance - allowanceMinor w
         in if delta = 0
            then bind_result (update_wallet (wa_id w) (bump \<circ> recur) st2)
                   (\<lambda>(unchanged, st3). Inr (toWalletView unchanged percents (now_at m), st3))
            else bind_result (update_wallet (wa_id w) (\<lambda>r. bump (recur (r\<lparr>allowanceMinor := allowance\<rparr>))) st2)
                   (\<lambda>(updated, st3).
                      let st4 = appendEntry (set_allowance_entry tenant m actor (wa_currency w) scope delta reason updated) st3;
                          st5 = st4\<lparr>calls := calls st4 @ [AllowanceSetAudited (wa_id w) actor scope delta allowance reason]\<rparr>
                      in Inr (toWalletView updated percents (now_at m), st5))))"

definition LEDGER_KINDS_WITH_A_SIGNED_AMOUNT :: "LedgerEntryKind list" where
  "LEDGER_KINDS_WITH_A_SIGNED_AMOUNT = [Adjustment, Reallocation]"

definition adjustAllowance ::
  "uid \<Rightarrow> BudgetScope \<Rightarrow> uid option \<Rightarrow> int \<Rightarrow> LedgerEntryKind \<Rightarrow> string \<Rightarrow> uid option \<Rightarrow> string option
   \<Rightarrow> uid \<Rightarrow> moment \<Rightarrow> cost_state \<Rightarrow> cost_error + ((uid \<times> int) \<times> cost_state)" where
  "adjustAllowance tenant scope subject delta kind reason actor reference newId m st =
     (let effect = fst (LEDGER_EFFECT kind)
      in if delta = 0 then Inl ZeroMovement
         else if effect = 0 then Inl (KindMovesNoAllowance kind)
         else if kind \<notin> set LEDGER_KINDS_WITH_A_SIGNED_AMOUNT \<and> delta < 0 then Inl (AmountIsAMagnitude kind)
         else if blank reason then Inl BlankReason
         else
           (let (w, st1) = lockOrCreateWallet tenant scope subject ''INR'' newId m st;
                next = allowanceMinor w + effect * delta
            in if next < 0 then Inl (AllowanceWouldBeNegative scope next)
               else bind_result (update_wallet (wa_id w) (\<lambda>r. bump (r\<lparr>allowanceMinor := next\<rparr>)) st1)
                 (\<lambda>(updated, st2).
                    Inr ((wa_id w, allowanceMinor updated),
                         appendEntry ((plain_entry tenant m updated kind delta (wa_currency w) (Stated reason)
                             (balance_of updated))\<lparr>le_actor := actor, le_reference := reference\<rparr>) st2))))"

section \<open>Checking and reserving\<close>

record spend_context =
  sp_tenant :: uid
  sp_department :: "uid option"
  sp_objective :: "uid option"
  sp_engineAgent :: "uid option"
  sp_agentRun :: "uid option"
  sp_actor :: "uid option"
  sp_profile :: string
  sp_purpose :: string

definition levels_of :: "spend_context \<Rightarrow> level_key list" where
  "levels_of c = scopesToCheck (sp_department c) (sp_objective c) (sp_engineAgent c) (sp_actor c)"

definition decide_for :: "(CostThreshold \<Rightarrow> int) \<Rightarrow> int \<Rightarrow> level_key \<times> wallet option \<Rightarrow> SpendCheckLevel" where
  "decide_for percents est lw =
     (case lw of ((scope, subject), w) \<Rightarrow>
        decideLevel scope subject (map_option allowanceMinor w)
          (case w of None \<Rightarrow> 0 | Some r \<Rightarrow> usedMinor r) (case w of None \<Rightarrow> 0 | Some r \<Rightarrow> reservedMinor r)
          est (percents Critical) (percents HardStop))"

definition check_spend :: "spend_context \<Rightarrow> int \<Rightarrow> cost_state \<Rightarrow> SpendCheckOutcome" where
  "check_spend c est st =
     combineLevels (map (\<lambda>(scope, subject).
        decide_for (thresholds (sp_tenant c) st) est
          ((scope, subject), find_wallet (sp_tenant c) scope subject st)) (levels_of c))"

fun lock_levels ::
  "uid \<Rightarrow> uid \<Rightarrow> moment \<Rightarrow> level_key list \<Rightarrow> cost_state \<Rightarrow> (level_key \<times> wallet option) list \<times> cost_state" where
  "lock_levels tenant newId m [] st = ([], st)"
| "lock_levels tenant newId m ((scope, subject) # rest) st =
     (let (w, st1) = lockWallet tenant scope subject ''INR'' newId m st;
          (locked, st2) = lock_levels tenant newId m rest st1
      in (((scope, subject), w) # locked, st2))"

definition attribution_of :: "spend_context \<Rightarrow> attribution" where
  "attribution_of c =
     \<lparr>at_profile = sp_profile c, at_agentRun = sp_agentRun c, at_objective = sp_objective c,
      at_department = sp_department c, at_engineAgent = sp_engineAgent c\<rparr>"

definition raise_highest :: "CostThreshold option \<Rightarrow> CostThreshold option \<Rightarrow> CostThreshold option" where
  "raise_highest highest crossed =
     (case crossed of None \<Rightarrow> highest
      | Some t \<Rightarrow> if highest = None \<or> t = HardStop then Some t else highest)"

definition hold_one ::
  "spend_context \<Rightarrow> (CostThreshold \<Rightarrow> int) \<Rightarrow> int \<Rightarrow> string \<Rightarrow> uid \<Rightarrow> moment \<Rightarrow> wallet \<Rightarrow> cost_state
   \<Rightarrow> cost_error + (CostThreshold option \<times> cost_state)" where
  "hold_one c percents est currency rid m w st =
     bind_result (update_wallet (wa_id w) (\<lambda>r. bump (r\<lparr>reservedMinor := reservedMinor r + est\<rparr>)) st)
       (\<lambda>(updated, st1).
          let st2 = st1\<lparr>holds := holds st1 @ [\<lparr>ho_tenant = sp_tenant c, ho_reservation = rid,
                      ho_wallet = wa_id w, ho_amount = est\<rparr>]\<rparr>;
              e = (plain_entry (sp_tenant c) m updated Reserve est currency (ReservedFor (sp_purpose c))
                     (balance_of updated))\<lparr>le_reservation := Some rid, le_context := Some (attribution_of c)\<rparr>
          in Inr (crossedThreshold (committedPercent updated) (\<lambda>t. Some (percents t)), appendEntry e st2))"

fun hold_all ::
  "spend_context \<Rightarrow> (CostThreshold \<Rightarrow> int) \<Rightarrow> int \<Rightarrow> string \<Rightarrow> uid \<Rightarrow> moment \<Rightarrow> wallet option list
   \<Rightarrow> CostThreshold option \<Rightarrow> cost_state \<Rightarrow> cost_error + (CostThreshold option \<times> cost_state)" where
  "hold_all c percents est currency rid m [] highest st = Inr (highest, st)"
| "hold_all c percents est currency rid m (None # ws) highest st =
     hold_all c percents est currency rid m ws highest st"
| "hold_all c percents est currency rid m (Some w # ws) highest st =
     bind_result (hold_one c percents est currency rid m w st)
       (\<lambda>(crossed, st1). hold_all c percents est currency rid m ws (raise_highest highest crossed) st1)"

definition notifyThreshold :: "uid \<Rightarrow> CostThreshold \<Rightarrow> cost_state \<Rightarrow> cost_state" where
  "notifyThreshold tenant t st =
     st\<lparr>calls := calls st @ map (\<lambda>a. ThresholdRaised tenant a t) (take 10 (companyAdmins st tenant))\<rparr>"

definition new_reservation :: "spend_context \<Rightarrow> int \<Rightarrow> string \<Rightarrow> uid \<Rightarrow> uid \<Rightarrow> moment \<Rightarrow> reservation" where
  "new_reservation c est currency rid wid m =
     \<lparr>rs_id = rid, rs_tenant = sp_tenant c, rs_wallet = wid, rs_state = Held, rs_estimate = est,
      rs_settled = None, rs_currency = currency, rs_agentRun = sp_agentRun c,
      rs_objective = sp_objective c, rs_department = sp_department c,
      rs_engineAgent = sp_engineAgent c, rs_profile = sp_profile c, rs_purpose = sp_purpose c,
      rs_gatewayCall = None, rs_heldAt = now_at m, rs_closedAt = None, rs_closeReason = None,
      rs_version = 1\<rparr>"

definition company_of :: "(level_key \<times> wallet option) list \<Rightarrow> wallet option" where
  "company_of locked =
     (case List.find (\<lambda>(k, w). fst k = Company_Budget) locked of None \<Rightarrow> None | Some (k, w) \<Rightarrow> w)"

text \<open>The reservation when one was made, and the outcome of the check.\<close>

definition reserve ::
  "spend_context \<Rightarrow> int \<Rightarrow> string \<Rightarrow> uid \<times> uid \<Rightarrow> moment \<Rightarrow> cost_state
   \<Rightarrow> cost_error + ((reservation option \<times> SpendCheckOutcome) \<times> cost_state)" where
  "reserve c est currency newIds m st =
     (let percents = thresholds (sp_tenant c) st;
          (locked, st1) = lock_levels (sp_tenant c) (fst newIds) m (levels_of c) st;
          outcome = combineLevels (map (decide_for percents est) locked)
      in if oc_decision outcome = HardStopped then Inr ((None, outcome), st1)
         else
           (case company_of locked of
              None \<Rightarrow> Inl NoCompanyWallet
            | Some cw \<Rightarrow>
                (let r = new_reservation c est currency (snd newIds) (wa_id cw) m;
                     st2 = st1\<lparr>reservations := reservations st1 @ [r]\<rparr>
                 in bind_result (hold_all c percents est currency (rs_id r) m (map snd locked) None st2)
                      (\<lambda>(highest, st3).
                         Inr ((Some r, outcome),
                              case highest of None \<Rightarrow> st3 | Some t \<Rightarrow> notifyThreshold (sp_tenant c) t st3)))))"

section \<open>Settling and releasing\<close>

definition holds_of :: "uid \<Rightarrow> uid \<Rightarrow> cost_state \<Rightarrow> hold list" where
  "holds_of tenant rid st = filter (\<lambda>h. ho_tenant h = tenant \<and> ho_reservation h = rid) (holds st)"

definition settle_one ::
  "uid \<Rightarrow> reservation \<Rightarrow> int \<Rightarrow> uid option \<Rightarrow> (int \<times> int \<times> int) option \<Rightarrow> moment \<Rightarrow> hold \<Rightarrow> cost_state
   \<Rightarrow> cost_error + cost_state" where
  "settle_one tenant r actual pricingVersion tokens m h st =
     (case lockWalletById tenant (ho_wallet h) st of
        None \<Rightarrow> Inr st
      | Some w \<Rightarrow>
          bind_result (update_wallet (wa_id w)
             (\<lambda>x. bump (x\<lparr>reservedMinor := reservedMinor x - ho_amount h, usedMinor := usedMinor x + actual\<rparr>)) st)
            (\<lambda>(released, st1).
               let b = balance_of released;
                   e1 = (plain_entry tenant m released ReleaseReserve (ho_amount h) (rs_currency r)
                           ReleasedOnSettlement (b\<lparr>usedMinor := usedMinor b - actual\<rparr>))
                        \<lparr>le_reservation := Some (rs_id r)\<rparr>;
                   e2 = (plain_entry tenant m released Settle actual (rs_currency r)
                           (ChargedFor (rs_purpose r)) b)
                        \<lparr>le_reservation := Some (rs_id r),
                         le_context := Some \<lparr>at_profile = rs_profile r, at_agentRun = rs_agentRun r,
                           at_objective = rs_objective r, at_department = rs_department r,
                           at_engineAgent = rs_engineAgent r\<rparr>,
                         le_pricing := pricingVersion, le_tokens := tokens\<rparr>
               in Inr (appendEntry e2 (appendEntry e1 st1))))"

fun settle_all ::
  "uid \<Rightarrow> reservation \<Rightarrow> int \<Rightarrow> uid option \<Rightarrow> (int \<times> int \<times> int) option \<Rightarrow> moment \<Rightarrow> hold list \<Rightarrow> cost_state
   \<Rightarrow> cost_error + cost_state" where
  "settle_all tenant r actual pv tokens m [] st = Inr st"
| "settle_all tenant r actual pv tokens m (h # hs) st =
     bind_result (settle_one tenant r actual pv tokens m h st) (settle_all tenant r actual pv tokens m hs)"

definition close_reservation :: "uid \<Rightarrow> (reservation \<Rightarrow> reservation) \<Rightarrow> cost_state \<Rightarrow> cost_state" where
  "close_reservation rid f st = st\<lparr>reservations := update_where (\<lambda>x. rs_id x = rid) f (reservations st)\<rparr>"

definition as_settled :: "int \<Rightarrow> uid option \<Rightarrow> instant \<Rightarrow> reservation \<Rightarrow> reservation" where
  "as_settled actual gatewayCall now r =
     r\<lparr>rs_state := Settled, rs_settled := Some actual, rs_closedAt := Some now,
       rs_closeReason := Some (if rs_estimate r < actual then ChargedAboveReserved actual (rs_estimate r)
                               else ChargedOfReserved actual (rs_estimate r)),
       rs_gatewayCall := (case gatewayCall of None \<Rightarrow> rs_gatewayCall r | Some g \<Rightarrow> Some g),
       rs_version := Suc (rs_version r)\<rparr>"

definition settle ::
  "uid \<Rightarrow> uid \<Rightarrow> int \<Rightarrow> uid option \<Rightarrow> uid option \<Rightarrow> (int \<times> int \<times> int) option \<Rightarrow> moment \<Rightarrow> cost_state
   \<Rightarrow> cost_error + (reservation \<times> cost_state)" where
  "settle tenant rid actual gatewayCall pricingVersion tokens m st =
     (if actual < 0 then Inl NegativeCharge
      else bind_result (lockReservation tenant rid st)
        (\<lambda>r. if rs_state r \<noteq> Held then Inl (SettledTwice (rs_state r))
              else bind_result (settle_all tenant r actual pricingVersion tokens m (holds_of tenant (rs_id r) st) st)
                (\<lambda>st1. Inr (as_settled actual gatewayCall (now_at m) r,
                            close_reservation (rs_id r) (as_settled actual gatewayCall (now_at m)) st1))))"

definition release_one ::
  "uid \<Rightarrow> reservation \<Rightarrow> close_reason \<Rightarrow> moment \<Rightarrow> hold \<Rightarrow> cost_state \<Rightarrow> cost_error + cost_state" where
  "release_one tenant r reason m h st =
     (case lockWalletById tenant (ho_wallet h) st of
        None \<Rightarrow> Inr st
      | Some w \<Rightarrow>
          bind_result (update_wallet (wa_id w) (\<lambda>x. bump (x\<lparr>reservedMinor := reservedMinor x - ho_amount h\<rparr>)) st)
            (\<lambda>(updated, st1).
               Inr (appendEntry ((plain_entry tenant m updated ReleaseReserve (ho_amount h) (rs_currency r)
                       (ReleasedBecause reason) (balance_of updated))\<lparr>le_reservation := Some (rs_id r)\<rparr>) st1)))"

fun release_all ::
  "uid \<Rightarrow> reservation \<Rightarrow> close_reason \<Rightarrow> moment \<Rightarrow> hold list \<Rightarrow> cost_state \<Rightarrow> cost_error + cost_state" where
  "release_all tenant r reason m [] st = Inr st"
| "release_all tenant r reason m (h # hs) st =
     bind_result (release_one tenant r reason m h st) (release_all tenant r reason m hs)"

definition as_released :: "ReservationState \<Rightarrow> close_reason \<Rightarrow> instant \<Rightarrow> reservation \<Rightarrow> reservation" where
  "as_released state reason now r =
     r\<lparr>rs_state := state, rs_closedAt := Some now, rs_closeReason := Some reason,
       rs_version := Suc (rs_version r)\<rparr>"

text \<open>The final state a caller may name is Released or Expired; none named means Released.\<close>

datatype release_state = AsReleased | AsExpired

definition release_target :: "release_state option \<Rightarrow> ReservationState" where
  "release_target s = (case s of Some AsExpired \<Rightarrow> Expired | _ \<Rightarrow> Released)"

definition release ::
  "uid \<Rightarrow> uid \<Rightarrow> close_reason \<Rightarrow> release_state option \<Rightarrow> moment \<Rightarrow> cost_state
   \<Rightarrow> cost_error + (reservation \<times> cost_state)" where
  "release tenant rid reason state m st =
     bind_result (lockReservation tenant rid st)
       (\<lambda>r. if rs_state r \<noteq> Held then Inl (AlreadyClosed (rs_state r))
             else bind_result (release_all tenant r reason m (holds_of tenant (rs_id r) st) st)
               (\<lambda>st1. Inr (as_released (release_target state) reason (now_at m) r,
                           close_reservation (rs_id r) (as_released (release_target state) reason (now_at m)) st1)))"

text \<open>
  The sweep releases the expired ones among the first five hundred held reservations, each in a
  transaction of its own; a throw ends it with what was already committed.
\<close>

fun sweep_each ::
  "uid \<Rightarrow> int option \<Rightarrow> moment \<Rightarrow> reservation list \<Rightarrow> nat \<Rightarrow> cost_state \<Rightarrow> cost_error option \<times> nat \<times> cost_state" where
  "sweep_each tenant expiryMinutes m [] n st = (None, n, st)"
| "sweep_each tenant expiryMinutes m (r # rs) n st =
     (if \<not> reservationHasExpired Held (rs_heldAt r) (now_at m) expiryMinutes
      then sweep_each tenant expiryMinutes m rs n st
      else case release tenant (rs_id r)
             (HeldTooLong (case expiryMinutes of None \<Rightarrow> RESERVATION_EXPIRY_MINUTES | Some k \<Rightarrow> k))
             (Some AsExpired) m st of
             Inl e \<Rightarrow> (Some e, n, st)
           | Inr (_, st1) \<Rightarrow> sweep_each tenant expiryMinutes m rs (Suc n) st1)"

definition sweepExpiredReservations ::
  "uid \<Rightarrow> int option \<Rightarrow> moment \<Rightarrow> cost_state \<Rightarrow> cost_error option \<times> nat \<times> cost_state" where
  "sweepExpiredReservations tenant expiryMinutes m st =
     sweep_each tenant expiryMinutes m
       (take 500 (filter (\<lambda>r. rs_tenant r = tenant \<and> rs_state r = Held) (reservations st))) 0 st"

section \<open>Reconciling and reporting\<close>

definition entries_of :: "uid \<Rightarrow> uid \<Rightarrow> ledger_entry list \<Rightarrow> ledger_entry list" where
  "entries_of tenant wid es = filter (\<lambda>e. le_tenant e = tenant \<and> le_wallet e = wid) es"

definition movement :: "ledger_entry \<Rightarrow> LedgerEntryKind \<times> int" where
  "movement e = (le_kind e, le_amount e)"

definition reconcile :: "uid \<Rightarrow> cost_state \<Rightarrow> nat \<times> ReconciliationFinding list" where
  "reconcile tenant st =
     (let ws = filter (\<lambda>w. wa_tenant w = tenant) (wallets st)
      in (length ws,
          concat (map (\<lambda>w. reconcileBalance (wa_scope w) (wa_subject w) (balance_of w)
                     (map movement (entries_of tenant (wa_id w) (ledger st)))) ws)))"

text \<open>The latest entries first; entries are kept in the order they occurred.\<close>

definition ledger_view :: "uid \<Rightarrow> uid option \<Rightarrow> uid option \<Rightarrow> nat option \<Rightarrow> cost_state \<Rightarrow> ledger_entry list" where
  "ledger_view tenant wid agentRun limit st =
     take (min (case limit of None \<Rightarrow> 200 | Some n \<Rightarrow> n) 500)
       (rev (filter (\<lambda>e. le_tenant e = tenant
              \<and> (case wid of None \<Rightarrow> True | Some i \<Rightarrow> le_wallet e = i)
              \<and> (case agentRun of None \<Rightarrow> True
                 | Some a \<Rightarrow> (case le_context e of None \<Rightarrow> False | Some c \<Rightarrow> at_agentRun c = Some a)))
            (ledger st)))"

datatype usage_key = ByDepartment | ByObjective | ByAgent | ByUser

definition usage_column :: "usage_key \<Rightarrow> ledger_entry \<Rightarrow> uid option" where
  "usage_column by e =
     (case by of
        ByDepartment \<Rightarrow> Option.bind (le_context e) at_department
      | ByObjective \<Rightarrow> Option.bind (le_context e) at_objective
      | ByAgent \<Rightarrow> Option.bind (le_context e) at_engineAgent
      | ByUser \<Rightarrow> le_actor e)"

record usage_row =
  us_key :: "uid option"
  us_spent :: int
  us_tokens :: int
  us_calls :: int
  us_uncosted :: int

definition entry_tokens :: "ledger_entry \<Rightarrow> int" where
  "entry_tokens e = (case le_tokens e of None \<Rightarrow> 0 | Some (i, out, cached) \<Rightarrow> i + out)"

definition add_usage :: "ledger_entry \<Rightarrow> usage_row \<Rightarrow> usage_row" where
  "add_usage e r =
     r\<lparr>us_spent := us_spent r + le_amount e, us_tokens := us_tokens r + entry_tokens e,
       us_calls := us_calls r + 1,
       us_uncosted := us_uncosted r + (if le_pricing e = None then 1 else 0)\<rparr>"

fun group_usage :: "usage_key \<Rightarrow> ledger_entry \<Rightarrow> usage_row list \<Rightarrow> usage_row list" where
  "group_usage by e [] =
     [add_usage e \<lparr>us_key = usage_column by e, us_spent = 0, us_tokens = 0, us_calls = 0, us_uncosted = 0\<rparr>]"
| "group_usage by e (r # rs) =
     (if us_key r = usage_column by e then add_usage e r # rs else r # group_usage by e rs)"

record usage_report =
  ur_currency :: "string option"
  ur_rows :: "usage_row list"
  ur_spent :: int
  ur_tokens :: int
  ur_calls :: int
  ur_uncosted :: int

definition in_window :: "instant option \<Rightarrow> instant option \<Rightarrow> instant \<Rightarrow> bool" where
  "in_window from to x =
     ((case from of None \<Rightarrow> True | Some f \<Rightarrow> f \<le> x) \<and> (case to of None \<Rightarrow> True | Some t \<Rightarrow> x \<le> t))"

definition usage_entries :: "uid \<Rightarrow> instant option \<Rightarrow> instant option \<Rightarrow> cost_state \<Rightarrow> ledger_entry list" where
  "usage_entries tenant from to st =
     filter (\<lambda>e. le_tenant e = tenant \<and> le_kind e \<in> {Settle, Refund} \<and> in_window from to (le_occurredAt e))
       (ledger st)"

definition usageBreakdown ::
  "uid \<Rightarrow> usage_key \<Rightarrow> instant option \<Rightarrow> instant option \<Rightarrow> cost_state \<Rightarrow> usage_report" where
  "usageBreakdown tenant by from to st =
     (let es = usage_entries tenant from to st;
          rows = sort_key (\<lambda>r. - us_tokens r) (fold (group_usage by) es [])
      in \<lparr>ur_currency = (case es of [] \<Rightarrow> None | e # _ \<Rightarrow> Some (le_currency e)), ur_rows = rows,
          ur_spent = sum_list (map us_spent rows), ur_tokens = sum_list (map us_tokens rows),
          ur_calls = sum_list (map us_calls rows), ur_uncosted = sum_list (map us_uncosted rows)\<rparr>)"

section \<open>Moving an allowance at a period boundary\<close>

definition recordPeriodMovement ::
  "uid \<Rightarrow> uid \<Rightarrow> LedgerEntryKind \<Rightarrow> int \<Rightarrow> entry_reason \<Rightarrow> moment \<Rightarrow> cost_state \<Rightarrow> cost_error + cost_state" where
  "recordPeriodMovement tenant wid kind amount reason m st =
     (if amount \<le> 0 then Inr st
      else (case List.find (\<lambda>w. wa_id w = wid) (wallets st) of
              None \<Rightarrow> Inl NoSuchWallet
            | Some w \<Rightarrow>
                (let next = (if kind = Expiry then max 0 (allowanceMinor w - amount) else allowanceMinor w + amount)
                 in bind_result (update_wallet (wa_id w) (\<lambda>r. bump (r\<lparr>allowanceMinor := next\<rparr>)) st)
                      (\<lambda>(updated, st1).
                         Inr (appendEntry (plain_entry tenant m updated kind amount (wa_currency w) reason
                                (balance_of updated)) st1)))))"

end
