(* ===== verification/Cost_Invariants.thy ===== *)
theory Cost_Invariants
  imports Cost_Engine
begin

text \<open>
  What the cost engine keeps: every stored balance is the replay of its ledger and every entry
  records the balance it left, what a wallet has reserved is exactly what its open reservations
  hold, and wallets, reservations and holds refer to each other within one tenant.  The lemmas
  show it for the two movements the service is built from, a row update with its ledger entry and
  the holds of one reservation.
\<close>

section \<open>The invariant\<close>

fun running_balances :: "balance \<Rightarrow> ledger_entry list \<Rightarrow> bool" where
  "running_balances b [] = True"
| "running_balances b (e # es) =
     (le_after e = applyLedgerEntry b (movement e) \<and> running_balances (le_after e) es)"

definition entries_at :: "wallet \<Rightarrow> ledger_entry list \<Rightarrow> ledger_entry list" where
  "entries_at w es = entries_of (wa_tenant w) (wa_id w) es"

definition backed :: "ledger_entry list \<Rightarrow> wallet \<Rightarrow> bool" where
  "backed es w \<longleftrightarrow> running_balances zero_balance (entries_at w es)
     \<and> balance_of w = replayLedger (map movement (entries_at w es))"

definition ledger_agrees :: "wallet list \<Rightarrow> ledger_entry list \<Rightarrow> bool" where
  "ledger_agrees ws es \<longleftrightarrow> (\<forall>w \<in> set ws. backed es w) \<and> le_wallet ` set es \<subseteq> wa_id ` set ws"

definition wallet_key :: "wallet \<Rightarrow> uid \<times> BudgetScope \<times> uid option" where
  "wallet_key w = (wa_tenant w, wa_scope w, wa_subject w)"

definition keys_ok :: "wallet list \<Rightarrow> bool" where
  "keys_ok ws \<longleftrightarrow> distinct (map wa_id ws) \<and> distinct (map wallet_key ws)"

definition amount_on :: "(hold \<Rightarrow> bool) \<Rightarrow> hold list \<Rightarrow> uid \<Rightarrow> int" where
  "amount_on P hs wid = sum_list (map ho_amount (filter (\<lambda>h. ho_wallet h = wid \<and> P h) hs))"

definition open_ids :: "reservation list \<Rightarrow> uid set" where
  "open_ids rs = rs_id ` {r \<in> set rs. rs_state r = Held}"

definition held_on :: "reservation list \<Rightarrow> hold list \<Rightarrow> uid \<Rightarrow> int" where
  "held_on rs hs wid = amount_on (\<lambda>h. ho_reservation h \<in> open_ids rs) hs wid"

definition holds_agree :: "wallet list \<Rightarrow> reservation list \<Rightarrow> hold list \<Rightarrow> bool" where
  "holds_agree ws rs hs \<longleftrightarrow> (\<forall>w \<in> set ws. reservedMinor w = held_on rs hs (wa_id w))"

definition refs_ok :: "wallet list \<Rightarrow> reservation list \<Rightarrow> hold list \<Rightarrow> bool" where
  "refs_ok ws rs hs \<longleftrightarrow> distinct (map rs_id rs)
     \<and> (\<forall>h \<in> set hs. 0 \<le> ho_amount h
          \<and> (\<exists>r \<in> set rs. rs_id r = ho_reservation h \<and> rs_tenant r = ho_tenant h)
          \<and> (\<exists>w \<in> set ws. wa_id w = ho_wallet h \<and> wa_tenant w = ho_tenant h))"

definition amounts_ok :: "wallet list \<Rightarrow> bool" where
  "amounts_ok ws \<longleftrightarrow> (\<forall>w \<in> set ws. 0 \<le> allowanceMinor w \<and> 0 \<le> usedMinor w)"

definition engine_inv :: "cost_state \<Rightarrow> bool" where
  "engine_inv st \<longleftrightarrow> keys_ok (wallets st) \<and> ledger_agrees (wallets st) (ledger st)
     \<and> holds_agree (wallets st) (reservations st) (holds st)
     \<and> refs_ok (wallets st) (reservations st) (holds st) \<and> amounts_ok (wallets st)"

lemmas inv_parts = keys_ok_def ledger_agrees_def holds_agree_def refs_ok_def amounts_ok_def

lemma engine_invI:
  assumes "keys_ok (wallets st)" and "ledger_agrees (wallets st) (ledger st)"
    and "holds_agree (wallets st) (reservations st) (holds st)"
    and "refs_ok (wallets st) (reservations st) (holds st)" and "amounts_ok (wallets st)"
  shows "engine_inv st"
  using assms by (simp add: engine_inv_def)

lemma engine_invD:
  assumes "engine_inv st"
  shows "keys_ok (wallets st)" "ledger_agrees (wallets st) (ledger st)"
    "holds_agree (wallets st) (reservations st) (holds st)"
    "refs_ok (wallets st) (reservations st) (holds st)" "amounts_ok (wallets st)"
  using assms by (simp_all add: engine_inv_def)

section \<open>Balances and entries\<close>

lemma balance_of_sel [simp]:
  "allowanceMinor (balance_of w) = allowanceMinor w"
  "usedMinor (balance_of w) = usedMinor w"
  "reservedMinor (balance_of w) = reservedMinor w"
  by (simp_all add: balance_of_def balance.truncate_def)

lemma balance_of_eq_iff:
  "balance_of v = b \<longleftrightarrow> allowanceMinor v = allowanceMinor b \<and> usedMinor v = usedMinor b
     \<and> reservedMinor v = reservedMinor b"
  by (cases b) (simp add: balance_of_def balance.truncate_def)

lemma balance_of_new_wallet [simp]: "balance_of (new_wallet i t s u c n) = zero_balance"
  by (simp add: balance_of_eq_iff new_wallet_def zero_balance_def)

lemma new_wallet_sel [simp]:
  "wa_id (new_wallet i t s u c n) = i" "wa_tenant (new_wallet i t s u c n) = t"
  "wa_scope (new_wallet i t s u c n) = s" "wa_subject (new_wallet i t s u c n) = u"
  "wa_currency (new_wallet i t s u c n) = c"
  "allowanceMinor (new_wallet i t s u c n) = 0" "usedMinor (new_wallet i t s u c n) = 0"
  "reservedMinor (new_wallet i t s u c n) = 0"
  by (simp_all add: new_wallet_def)

lemma bump_sel [simp]:
  "wa_id (bump w) = wa_id w" "wa_tenant (bump w) = wa_tenant w" "wa_scope (bump w) = wa_scope w"
  "wa_subject (bump w) = wa_subject w" "wa_currency (bump w) = wa_currency w"
  "wa_resetsAt (bump w) = wa_resetsAt w" "wa_cadence (bump w) = wa_cadence w"
  "wa_recurringGrant (bump w) = wa_recurringGrant w"
  "allowanceMinor (bump w) = allowanceMinor w" "usedMinor (bump w) = usedMinor w"
  "reservedMinor (bump w) = reservedMinor w"
  by (simp_all add: bump_def)

lemma plain_entry_sel [simp]:
  "le_tenant (plain_entry t m w k a c r b) = t" "le_wallet (plain_entry t m w k a c r b) = wa_id w"
  "le_after (plain_entry t m w k a c r b) = b"
  "movement (plain_entry t m w k a c r b) = (k, a)"
  by (simp_all add: plain_entry_def movement_def)

lemma movement_update [simp]:
  "movement (e\<lparr>le_actor := x\<rparr>) = movement e" "movement (e\<lparr>le_reference := y\<rparr>) = movement e"
  "movement (e\<lparr>le_reservation := z\<rparr>) = movement e" "movement (e\<lparr>le_context := c\<rparr>) = movement e"
  "movement (e\<lparr>le_pricing := p\<rparr>) = movement e" "movement (e\<lparr>le_tokens := u\<rparr>) = movement e"
  by (simp_all add: movement_def)

lemma appendEntry_sel [simp]:
  "wallets (appendEntry e st) = wallets st" "ledger (appendEntry e st) = ledger st @ [e]"
  "holds (appendEntry e st) = holds st" "reservations (appendEntry e st) = reservations st"
  "policies (appendEntry e st) = policies st" "companyAdmins (appendEntry e st) = companyAdmins st"
  by (simp_all add: appendEntry_def)

lemma running_balances_snoc:
  "running_balances b (es @ [e]) \<longleftrightarrow> running_balances b es
     \<and> le_after e = applyLedgerEntry (foldl applyLedgerEntry b (map movement es)) (movement e)"
proof (induction es arbitrary: b)
  case (Cons a es)
  then show ?case by (cases "le_after a = applyLedgerEntry b (movement a)") simp_all
qed simp

lemma entries_at_snoc:
  "entries_at w (es @ [e]) = (if le_tenant e = wa_tenant w \<and> le_wallet e = wa_id w
     then entries_at w es @ [e] else entries_at w es)"
  by (simp add: entries_at_def entries_of_def)

lemma entries_at_cong:
  "wa_id v = wa_id w \<Longrightarrow> wa_tenant v = wa_tenant w \<Longrightarrow> entries_at v es = entries_at w es"
  by (simp add: entries_at_def)

section \<open>Updating one row\<close>

lemma update_wallet_found:
  assumes "keys_ok (wallets st)" and "w \<in> set (wallets st)"
  shows "update_wallet (wa_id w) f st
         = Inr (f w, st\<lparr>wallets := update_where (\<lambda>r. wa_id r = wa_id w) f (wallets st)\<rparr>)"
  using find_by_key [of wa_id "wallets st" w] assms by (simp add: update_wallet_def keys_ok_def)

lemma lockWalletById_Some:
  assumes "lockWalletById t i st = Some w"
  shows "w \<in> set (wallets st)" "wa_id w = i" "wa_tenant w = t"
  using assms find_SomeD unfolding lockWalletById_def by fastforce+

lemma find_wallet_Some:
  assumes "find_wallet t s u st = Some w"
  shows "w \<in> set (wallets st)" "wa_tenant w = t" "wa_scope w = s" "wa_subject w = u"
  using assms find_SomeD unfolding find_wallet_def by fastforce+

lemma keys_ok_update:
  assumes "keys_ok ws" and "\<And>r. wa_id (f r) = wa_id r" and "\<And>r. wallet_key (f r) = wallet_key r"
  shows "keys_ok (update_where P f ws)"
  using assms by (simp add: keys_ok_def map_update_where_same)

lemma update_where_key_memE:
  assumes "keys_ok ws" and "w \<in> set ws" and "v \<in> set (update_where (\<lambda>r. wa_id r = wa_id w) f ws)"
  obtains "v = f w" | "v \<in> set ws" "wa_id v \<noteq> wa_id w"
proof -
  from assms(3) obtain r where r: "r \<in> set ws" "v = (if wa_id r = wa_id w then f r else r)"
    by (auto simp add: set_update_where)
  show thesis
  proof (cases "wa_id r = wa_id w")
    case True
    then have "r = w" using assms(1,2) r(1) distinct_key_unique [of wa_id ws r w] by (simp add: keys_ok_def)
    with r that(1) show thesis by simp
  next
    case False
    with r that(2) show thesis by simp
  qed
qed

lemma ids_update_where:
  assumes "\<And>r. wa_id (f r) = wa_id r"
  shows "wa_id ` set (update_where P f ws) = wa_id ` set ws"
  using map_update_where_same [of wa_id f P ws] assms by (metis list.set_map)

text \<open>A row update together with the entry that explains it.\<close>

lemma ledger_agrees_post:
  assumes agrees: "ledger_agrees ws es" and keys: "keys_ok ws" and w: "w \<in> set ws"
    and f: "\<And>r. wa_id (f r) = wa_id r" "\<And>r. wa_tenant (f r) = wa_tenant r"
    and e: "le_wallet e = wa_id w" "le_tenant e = wa_tenant w" "le_after e = balance_of (f w)"
    and step: "balance_of (f w) = applyLedgerEntry (balance_of w) (movement e)"
  shows "ledger_agrees (update_where (\<lambda>r. wa_id r = wa_id w) f ws) (es @ [e])"
proof -
  have bw: "backed es w" using agrees w by (simp add: ledger_agrees_def)
  have "backed (es @ [e]) (f w)"
    using bw f e step entries_at_cong [of "f w" w es]
    by (simp add: backed_def entries_at_snoc running_balances_snoc replayLedger_def)
  moreover have "backed (es @ [e]) v" if "v \<in> set ws" "wa_id v \<noteq> wa_id w" for v
    using agrees that e by (simp add: ledger_agrees_def backed_def entries_at_snoc)
  ultimately have "\<forall>v \<in> set (update_where (\<lambda>r. wa_id r = wa_id w) f ws). backed (es @ [e]) v"
    using update_where_key_memE [OF keys w] by metis
  then show ?thesis
    using agrees e w ids_update_where [of f, OF f(1)] by (auto simp add: ledger_agrees_def)
qed

text \<open>A row update that moves no amount.\<close>

lemma ledger_agrees_quiet:
  assumes "ledger_agrees ws es"
    and "\<And>r. wa_id (f r) = wa_id r" "\<And>r. wa_tenant (f r) = wa_tenant r"
    and "\<And>r. balance_of (f r) = balance_of r"
  shows "ledger_agrees (update_where P f ws) es"
proof -
  have "backed es (f r) \<longleftrightarrow> backed es r" for r
    using assms(2-4) entries_at_cong [of "f r" r es] by (simp add: backed_def)
  then show ?thesis
    using assms(1) ids_update_where [of f P ws, OF assms(2)]
    by (auto simp add: ledger_agrees_def set_update_where)
qed

lemma entries_at_fresh:
  assumes "ledger_agrees ws es" and "wa_id w \<notin> wa_id ` set ws"
  shows "entries_at w es = []"
proof -
  have "le_wallet e \<noteq> wa_id w" if "e \<in> set es" for e
    using assms that unfolding ledger_agrees_def by (metis image_subset_iff)
  then show ?thesis by (simp add: entries_at_def entries_of_def filter_empty_conv)
qed

lemma ledger_agrees_create:
  assumes "ledger_agrees ws es" and "wa_id w \<notin> wa_id ` set ws" and "balance_of w = zero_balance"
  shows "ledger_agrees (ws @ [w]) es"
  using assms entries_at_fresh [OF assms(1,2)] by (auto simp add: ledger_agrees_def backed_def)

section \<open>Holds\<close>

lemma amount_on_Nil [simp]: "amount_on P [] wid = 0"
  by (simp add: amount_on_def)

lemma amount_on_Cons [simp]:
  "amount_on P (h # hs) wid = (if ho_wallet h = wid \<and> P h then ho_amount h else 0) + amount_on P hs wid"
  by (simp add: amount_on_def)

lemma amount_on_append [simp]: "amount_on P (hs @ hs') wid = amount_on P hs wid + amount_on P hs' wid"
  by (simp add: amount_on_def)

lemma amount_on_cong:
  "(\<And>h. h \<in> set hs \<Longrightarrow> P h \<longleftrightarrow> Q h) \<Longrightarrow> amount_on P hs wid = amount_on Q hs wid"
  by (induction hs) auto

lemma amount_on_filter: "amount_on P (filter Q hs) wid = amount_on (\<lambda>h. Q h \<and> P h) hs wid"
  by (induction hs) auto

lemma amount_on_split:
  "amount_on P hs wid = amount_on (\<lambda>h. P h \<and> Q h) hs wid + amount_on (\<lambda>h. P h \<and> \<not> Q h) hs wid"
  by (induction hs) auto

lemma amount_on_none: "(\<And>h. h \<in> set hs \<Longrightarrow> ho_wallet h = wid \<Longrightarrow> \<not> P h) \<Longrightarrow> amount_on P hs wid = 0"
  by (induction hs) auto

lemma amount_on_nonneg: "(\<And>h. h \<in> set hs \<Longrightarrow> 0 \<le> ho_amount h) \<Longrightarrow> 0 \<le> amount_on P hs wid"
  by (induction hs) auto

lemma held_on_nonneg: "refs_ok ws rs hs \<Longrightarrow> 0 \<le> held_on rs hs wid"
  unfolding held_on_def refs_ok_def by (intro amount_on_nonneg) auto

lemma engine_inv_reserved:
  assumes "engine_inv st" and "w \<in> set (wallets st)"
  shows "0 \<le> reservedMinor w"
  using assms held_on_nonneg [of "wallets st" "reservations st" "holds st" "wa_id w"]
  by (simp add: engine_inv_def holds_agree_def)

lemma refs_ok_update_wallets:
  assumes "refs_ok ws rs hs" and "\<And>r. wa_id (f r) = wa_id r" and "\<And>r. wa_tenant (f r) = wa_tenant r"
  shows "refs_ok (update_where P f ws) rs hs"
proof -
  have "\<exists>v \<in> set (update_where P f ws). wa_id v = i \<and> wa_tenant v = t"
    if "w \<in> set ws" "wa_id w = i" "wa_tenant w = t" for w i t
    using that assms(2,3) by (intro bexI [of _ "if P w then f w else w"]) (auto simp add: set_update_where)
  then show ?thesis using assms(1) unfolding refs_ok_def by metis
qed

lemma refs_ok_create_wallet: "refs_ok ws rs hs \<Longrightarrow> refs_ok (ws @ [w]) rs hs"
  unfolding refs_ok_def by (metis Un_iff set_append)

text \<open>No hold names a wallet or a reservation that is not there yet.\<close>

lemma held_on_fresh_wallet:
  assumes "refs_ok ws rs hs" and "wid \<notin> wa_id ` set ws"
  shows "held_on rs hs wid = 0"
proof -
  have "ho_wallet h \<noteq> wid" if "h \<in> set hs" for h
    using assms that unfolding refs_ok_def by (metis imageI)
  then show ?thesis unfolding held_on_def by (intro amount_on_none) blast
qed

lemma held_on_new_reservation:
  assumes "refs_ok ws rs hs" and "rs_id r \<notin> rs_id ` set rs"
  shows "held_on (rs @ [r]) hs wid = held_on rs hs wid"
proof -
  have "ho_reservation h \<noteq> rs_id r" if "h \<in> set hs" for h
    using assms that unfolding refs_ok_def by (metis imageI)
  then show ?thesis
    unfolding held_on_def by (intro amount_on_cong) (auto simp add: open_ids_def)
qed

end
