(* ===== verification/Services.thy ===== *)
theory Services
  imports UbossPrelude
begin

text \<open>
  The shape the stateful services share.  An operation is a transaction: it returns a new state, or
  throws and leaves the state as it was.  A service is run on a list of operations; an invariant
  its transactions keep, given what the environment guarantees (fresh identifiers, checked
  configuration), holds of every state a run reaches.
\<close>

definition attempt :: "('op \<Rightarrow> 's \<Rightarrow> 'e + 's) \<Rightarrow> 'op \<Rightarrow> 's \<Rightarrow> 's" where
  "attempt step op s = (case step op s of Inl e \<Rightarrow> s | Inr s' \<Rightarrow> s')"

fun run_ops :: "('op \<Rightarrow> 's \<Rightarrow> 'e + 's) \<Rightarrow> 'op list \<Rightarrow> 's \<Rightarrow> 's" where
  "run_ops step [] s = s"
| "run_ops step (op # ops) s = run_ops step ops (attempt step op s)"

text \<open>The environment's guarantee holds at every operation of the run.\<close>

fun env_ok :: "('op \<Rightarrow> 's \<Rightarrow> bool) \<Rightarrow> ('op \<Rightarrow> 's \<Rightarrow> 'e + 's) \<Rightarrow> 'op list \<Rightarrow> 's \<Rightarrow> bool" where
  "env_ok allowed step [] s = True"
| "env_ok allowed step (op # ops) s = (allowed op s \<and> env_ok allowed step ops (attempt step op s))"

lemma run_ops_append: "run_ops step (xs @ ys) s = run_ops step ys (run_ops step xs s)"
  by (induction xs arbitrary: s) auto

lemma attempt_Inl: "step op s = Inl e \<Longrightarrow> attempt step op s = s"
  by (simp add: attempt_def)

locale transactional =
  fixes step :: "'op \<Rightarrow> 's \<Rightarrow> 'e + 's"
    and allowed :: "'op \<Rightarrow> 's \<Rightarrow> bool"
    and inv :: "'s \<Rightarrow> bool"
  assumes step_inv: "inv s \<Longrightarrow> allowed op s \<Longrightarrow> step op s = Inr s' \<Longrightarrow> inv s'"
begin

lemma attempt_inv: "inv s \<Longrightarrow> allowed op s \<Longrightarrow> inv (attempt step op s)"
  using step_inv by (auto simp add: attempt_def split: sum.split)

lemma run_inv: "inv s \<Longrightarrow> env_ok allowed step ops s \<Longrightarrow> inv (run_ops step ops s)"
  by (induction ops arbitrary: s) (auto intro: attempt_inv)

text \<open>Every state the run passes through, not only the last.\<close>

lemma run_inv_prefix:
  assumes "inv s" and "env_ok allowed step (xs @ ys) s"
  shows "inv (run_ops step xs s)"
proof (rule run_inv [OF assms(1)])
  show "env_ok allowed step xs s"
    using assms(2) by (induction xs arbitrary: s) auto
qed

end

text \<open>
  A transactional service with a second, transitive relation between the states before and after:
  what never decreases, never disappears, never changes.
\<close>

locale monotone_service = transactional +
  fixes rel :: "'b \<Rightarrow> 'b \<Rightarrow> bool"
  assumes rel_refl: "rel s s"
    and rel_trans: "rel s t \<Longrightarrow> rel t u \<Longrightarrow> rel s u"
    and step_rel: "inv s \<Longrightarrow> allowed op s \<Longrightarrow> step op s = Inr s' \<Longrightarrow> rel s s'"
begin

lemma attempt_rel: "inv s \<Longrightarrow> allowed op s \<Longrightarrow> rel s (attempt step op s)"
  using step_rel rel_refl by (auto simp add: attempt_def split: sum.split)

lemma run_rel: "inv s \<Longrightarrow> env_ok allowed step ops s \<Longrightarrow> rel s (run_ops step ops s)"
proof (induction ops arbitrary: s)
  case (Cons op ops)
  then show ?case using attempt_inv [of s op] attempt_rel [of s op] rel_trans by auto
qed (simp add: rel_refl)

end

end
