(* ===== verification/Cost_Safety.thy ===== *)
theory Cost_Safety
  imports Cost_Invariants Services
begin

text \<open>
  Every operation of the cost engine keeps the invariant of \<open>Cost_Invariants\<close>: locking and creating
  wallets, moving an allowance, reserving, settling, releasing, sweeping and the period movements.
  Settling and releasing walk the holds of one reservation, so they are shown through a form of the
  invariant in which that reservation's remaining holds are counted apart.
\<close>

section \<open>Calls and creations\<close>

lemma engine_inv_calls [simp]: "engine_inv (st\<lparr>calls := cs\<rparr>) = engine_inv st"
  by (simp add: engine_inv_def)

lemma engine_inv_notify [simp]: "engine_inv (notifyThreshold t k st) = engine_inv st"
  by (simp add: notifyThreshold_def)

lemma keys_ok_create:
  assumes "keys_ok ws" and "wa_id w \<notin> wa_id ` set ws" and "wallet_key w \<notin> wallet_key ` set ws"
  shows "keys_ok (ws @ [w])"
  using assms by (simp add: keys_ok_def)

lemma engine_inv_create:
  assumes inv: "engine_inv st" and fresh: "wa_id w \<notin> wa_id ` set (wallets st)"
    and key: "wallet_key w \<notin> wallet_key ` set (wallets st)" and zero: "balance_of w = zero_balance"
  shows "engine_inv (st\<lparr>wallets := wallets st @ [w]\<rparr>)"
proof (rule engine_invI)
  note parts = engine_invD [OF inv]
  have b: "allowanceMinor w = 0" "usedMinor w = 0" "reservedMinor w = 0"
    using zero by (simp_all add: balance_of_eq_iff zero_balance_def)
  show "keys_ok (wallets (st\<lparr>wallets := wallets st @ [w]\<rparr>))"
    using keys_ok_create [OF parts(1) fresh key] by simp
  show "ledger_agrees (wallets (st\<lparr>wallets := wallets st @ [w]\<rparr>)) (ledger (st\<lparr>wallets := wallets st @ [w]\<rparr>))"
    using ledger_agrees_create [OF parts(2) fresh zero] by simp
  show "holds_agree (wallets (st\<lparr>wallets := wallets st @ [w]\<rparr>)) (reservations (st\<lparr>wallets := wallets st @ [w]\<rparr>))
          (holds (st\<lparr>wallets := wallets st @ [w]\<rparr>))"
    using parts(3) held_on_fresh_wallet [OF parts(4) fresh] b by (simp add: holds_agree_def)
  show "refs_ok (wallets (st\<lparr>wallets := wallets st @ [w]\<rparr>)) (reservations (st\<lparr>wallets := wallets st @ [w]\<rparr>))
          (holds (st\<lparr>wallets := wallets st @ [w]\<rparr>))"
    using refs_ok_create_wallet [OF parts(4)] by simp
  show "amounts_ok (wallets (st\<lparr>wallets := wallets st @ [w]\<rparr>))"
    using parts(5) b by (simp add: amounts_ok_def)
qed

lemma find_wallet_None:
  assumes "find_wallet t s u st = None"
  shows "(t, s, u) \<notin> wallet_key ` set (wallets st)"
  using assms by (auto simp add: find_wallet_def find_None_iff wallet_key_def)

lemma find_wallet_keyed:
  assumes "keys_ok (wallets st)" and "w \<in> set (wallets st)"
  shows "find_wallet (wa_tenant w) (wa_scope w) (wa_subject w) st = Some w"
  using find_by_key [of wallet_key "wallets st" w] assms
  by (simp add: find_wallet_def wallet_key_def keys_ok_def)

text \<open>What locking a wallet leaves: the invariant, every row there was, and the row it returns.\<close>

definition grows :: "cost_state \<Rightarrow> cost_state \<Rightarrow> bool" where
  "grows st st' \<longleftrightarrow> (\<exists>new. wallets st' = wallets st @ new \<and> (\<forall>w \<in> set new. balance_of w = zero_balance))
     \<and> ledger st' = ledger st \<and> reservations st' = reservations st \<and> holds st' = holds st
     \<and> policies st' = policies st \<and> companyAdmins st' = companyAdmins st \<and> calls st' = calls st"

lemma grows_refl [simp]: "grows st st"
  by (simp add: grows_def)

lemma grows_trans: "grows a b \<Longrightarrow> grows b c \<Longrightarrow> grows a c"
  unfolding grows_def by (metis Un_iff append_assoc set_append)

lemma grows_wallets: "grows st st' \<Longrightarrow> set (wallets st) \<subseteq> set (wallets st')"
  by (auto simp add: grows_def)

lemma grows_create: "balance_of w = zero_balance \<Longrightarrow> grows st (st\<lparr>wallets := wallets st @ [w]\<rparr>)"
  by (simp add: grows_def)

lemma lockWallet_inv:
  assumes lock: "lockWallet t s u c newId m st = (r, st')" and inv: "engine_inv st"
    and fresh: "newId \<notin> wa_id ` set (wallets st)" and company: "s \<noteq> Company_Budget \<or> u = None"
  shows "engine_inv st'" and "grows st st'"
    and "wa_id ` set (wallets st') \<subseteq> insert newId (wa_id ` set (wallets st))"
    and "r = None \<Longrightarrow> s \<noteq> Company_Budget \<and> st' = st \<and> find_wallet t s u st = None"
    and "r = Some w \<Longrightarrow> w \<in> set (wallets st') \<and> wa_tenant w = t \<and> wa_scope w = s \<and> wa_subject w = u"
proof -
  let ?new = "new_wallet newId t s None c (now_at m)"
  have "engine_inv st' \<and> grows st st' \<and> wa_id ` set (wallets st') \<subseteq> insert newId (wa_id ` set (wallets st))
      \<and> (r = None \<longrightarrow> s \<noteq> Company_Budget \<and> st' = st \<and> find_wallet t s u st = None)
      \<and> (r = Some w \<longrightarrow> w \<in> set (wallets st') \<and> wa_tenant w = t \<and> wa_scope w = s \<and> wa_subject w = u)"
  proof (cases "find_wallet t s u st")
    case None
    show ?thesis
    proof (cases "s = Company_Budget")
      case True
      then have "wallet_key ?new \<notin> wallet_key ` set (wallets st)"
        using find_wallet_None [OF None] company by (simp add: wallet_key_def)
      then have "engine_inv (st\<lparr>wallets := wallets st @ [?new]\<rparr>)"
        using engine_inv_create [OF inv, of ?new] fresh by simp
      then show ?thesis using lock None True company grows_create [of ?new st] by (auto simp add: lockWallet_def Let_def)
    next
      case False
      then show ?thesis using lock None inv by (auto simp add: lockWallet_def)
    qed
  next
    case (Some v)
    then show ?thesis using lock inv find_wallet_Some [OF Some] by (auto simp add: lockWallet_def)
  qed
  then show "engine_inv st'" "grows st st'"
    "wa_id ` set (wallets st') \<subseteq> insert newId (wa_id ` set (wallets st))"
    "r = None \<Longrightarrow> s \<noteq> Company_Budget \<and> st' = st \<and> find_wallet t s u st = None"
    "r = Some w \<Longrightarrow> w \<in> set (wallets st') \<and> wa_tenant w = t \<and> wa_scope w = s \<and> wa_subject w = u"
    by blast+
qed

lemma lockOrCreateWallet_inv:
  assumes lock: "lockOrCreateWallet t s u c newId m st = (w, st')" and inv: "engine_inv st"
    and fresh: "newId \<notin> wa_id ` set (wallets st)" and company: "s \<noteq> Company_Budget \<or> u = None"
  shows "engine_inv st'" and "grows st st'"
    and "wa_id ` set (wallets st') \<subseteq> insert newId (wa_id ` set (wallets st))"
    and "w \<in> set (wallets st')" and "wa_tenant w = t" and "wa_scope w = s" and "wa_subject w = u"
proof -
  obtain r st1 where l: "lockWallet t s u c newId m st = (r, st1)" by fastforce
  note li = lockWallet_inv [OF l inv fresh company]
  have "engine_inv st' \<and> grows st st' \<and> wa_id ` set (wallets st') \<subseteq> insert newId (wa_id ` set (wallets st))
      \<and> w \<in> set (wallets st') \<and> wa_tenant w = t \<and> wa_scope w = s \<and> wa_subject w = u"
  proof (cases r)
    case None
    let ?new = "new_wallet newId t s u c (now_at m)"
    have eq: "w = ?new" "st' = st\<lparr>wallets := wallets st @ [?new]\<rparr>"
      using lock l None li(4) by (auto simp add: lockOrCreateWallet_def Let_def)
    have "wallet_key ?new \<notin> wallet_key ` set (wallets st)"
      using find_wallet_None [of t s u st] li(4) [OF None] by (simp add: wallet_key_def)
    then have "engine_inv (st\<lparr>wallets := wallets st @ [?new]\<rparr>)"
      using engine_inv_create [OF inv, of ?new] fresh by simp
    then show ?thesis using eq grows_create [of ?new st] by auto
  next
    case (Some v)
    then show ?thesis using lock l li(1,2,3) li(5) [OF Some] by (simp add: lockOrCreateWallet_def)
  qed
  then show "engine_inv st'" "grows st st'"
    "wa_id ` set (wallets st') \<subseteq> insert newId (wa_id ` set (wallets st))"
    "w \<in> set (wallets st')" "wa_tenant w = t" "wa_scope w = s" "wa_subject w = u"
    by blast+
qed

section \<open>Moving an allowance\<close>

lemma wallet_key_simps: "wallet_key (bump w) = wallet_key w"
  by (simp add: wallet_key_def)

text \<open>A row update that leaves identity and reserve alone, with the entry that explains it.\<close>

lemma engine_inv_post:
  assumes inv: "engine_inv st" and w: "w \<in> set (wallets st)"
    and f: "\<And>r. wa_id (f r) = wa_id r" "\<And>r. wa_tenant (f r) = wa_tenant r"
      "\<And>r. wa_scope (f r) = wa_scope r" "\<And>r. wa_subject (f r) = wa_subject r"
      "\<And>r. reservedMinor (f r) = reservedMinor r"
    and e: "le_wallet e = wa_id w" "le_tenant e = wa_tenant w" "le_after e = balance_of (f w)"
    and step: "balance_of (f w) = applyLedgerEntry (balance_of w) (movement e)"
    and nonneg: "0 \<le> allowanceMinor (f w)" "0 \<le> usedMinor (f w)"
  shows "engine_inv (appendEntry e (st\<lparr>wallets := update_where (\<lambda>r. wa_id r = wa_id w) f (wallets st)\<rparr>))"
proof (rule engine_invI)
  note parts = engine_invD [OF inv]
  let ?ws = "update_where (\<lambda>r. wa_id r = wa_id w) f (wallets st)"
  have k: "wallet_key (f r) = wallet_key r" for r using f by (simp add: wallet_key_def)
  have "keys_ok ?ws" using keys_ok_update [OF parts(1) f(1) k] .
  moreover have "ledger_agrees ?ws (ledger st @ [e])"
    using ledger_agrees_post [OF parts(2,1) w f(1,2) e step] .
  moreover have "holds_agree ?ws (reservations st) (holds st)"
    using parts(3) f by (auto simp add: holds_agree_def set_update_where)
  moreover have "refs_ok ?ws (reservations st) (holds st)"
    using refs_ok_update_wallets [OF parts(4) f(1,2)] .
  moreover have "amounts_ok ?ws"
  proof -
    have "0 \<le> allowanceMinor v \<and> 0 \<le> usedMinor v" if "v \<in> set ?ws" for v
      using update_where_key_memE [OF parts(1) w that] nonneg parts(5) by (metis amounts_ok_def)
    then show ?thesis by (simp add: amounts_ok_def)
  qed
  ultimately show "keys_ok (wallets (appendEntry e (st\<lparr>wallets := ?ws\<rparr>)))"
    "ledger_agrees (wallets (appendEntry e (st\<lparr>wallets := ?ws\<rparr>))) (ledger (appendEntry e (st\<lparr>wallets := ?ws\<rparr>)))"
    "holds_agree (wallets (appendEntry e (st\<lparr>wallets := ?ws\<rparr>))) (reservations (appendEntry e (st\<lparr>wallets := ?ws\<rparr>)))
       (holds (appendEntry e (st\<lparr>wallets := ?ws\<rparr>)))"
    "refs_ok (wallets (appendEntry e (st\<lparr>wallets := ?ws\<rparr>))) (reservations (appendEntry e (st\<lparr>wallets := ?ws\<rparr>)))
       (holds (appendEntry e (st\<lparr>wallets := ?ws\<rparr>)))"
    "amounts_ok (wallets (appendEntry e (st\<lparr>wallets := ?ws\<rparr>)))"
    by simp_all
qed

text \<open>A row update that moves no amount and writes no entry.\<close>

lemma engine_inv_quiet:
  assumes inv: "engine_inv st"
    and f: "\<And>r. wa_id (f r) = wa_id r" "\<And>r. wa_tenant (f r) = wa_tenant r"
      "\<And>r. wa_scope (f r) = wa_scope r" "\<And>r. wa_subject (f r) = wa_subject r"
      "\<And>r. balance_of (f r) = balance_of r"
  shows "engine_inv (st\<lparr>wallets := update_where P f (wallets st)\<rparr>)"
proof -
  note parts = engine_invD [OF inv]
  have k: "wallet_key (f r) = wallet_key r" for r using f by (simp add: wallet_key_def)
  have b: "allowanceMinor (f r) = allowanceMinor r" "usedMinor (f r) = usedMinor r"
    "reservedMinor (f r) = reservedMinor r" for r
    using f(5) [of r] by (simp_all add: balance_of_eq_iff)
  show ?thesis
    using keys_ok_update [OF parts(1) f(1) k, of P] ledger_agrees_quiet [OF parts(2) f(1,2,5), of P]
      refs_ok_update_wallets [OF parts(4) f(1,2), of P] parts(3,5) b f(1)
    by (auto simp add: engine_inv_def holds_agree_def amounts_ok_def set_update_where)
qed

lemma setAllowance_inv:
  assumes ok: "setAllowance t a s u amount reason cad ids m st = Inr (view, st')" and inv: "engine_inv st"
    and fresh: "fst ids \<notin> wa_id ` set (wallets st)" "snd ids \<notin> wa_id ` set (wallets st)" "fst ids \<noteq> snd ids"
  shows "engine_inv st'"
proof -
  obtain company st1 where l1: "lockOrCreateWallet t Company_Budget None ''INR'' (fst ids) m st = (company, st1)"
    by fastforce
  note i1 = lockOrCreateWallet_inv [OF l1 inv fresh(1)]
  obtain w st2 where l2: "(if s = Company_Budget then (company, st1)
      else lockOrCreateWallet t s u (wa_currency company) (snd ids) m st1) = (w, st2)" by fastforce
  have i2: "engine_inv st2 \<and> w \<in> set (wallets st2) \<and> wa_tenant w = t"
  proof (cases "s = Company_Budget")
    case False
    then have "lockOrCreateWallet t s u (wa_currency company) (snd ids) m st1 = (w, st2)" using l2 by simp
    moreover have "snd ids \<notin> wa_id ` set (wallets st1)" using i1(3) fresh by auto
    ultimately show ?thesis using lockOrCreateWallet_inv [of t s u _ _ m st1 w st2] i1(1) False by simp
  qed (use l2 i1 in simp)
  show ?thesis
  proof (cases "amount = allowanceMinor w")
    case True
    then show ?thesis
      using ok l1 l2 i2 update_wallet_found [of st2 w] engine_invD(1) [of st2]
      by (auto simp add: setAllowance_def Let_def balance_of_eq_iff intro!: engine_inv_quiet split: if_splits)
  next
    case False
    then show ?thesis
      using ok l1 l2 i2 update_wallet_found [of st2 w] engine_invD(1,5) [of st2]
      by (auto simp add: setAllowance_def Let_def balance_of_eq_iff applyLedgerEntry_def set_allowance_entry_def
            amounts_ok_def not_less intro!: engine_inv_post split: if_splits)
  qed
qed

lemma adjustAllowance_inv:
  assumes ok: "adjustAllowance t s u delta kind reason a ref newId m st = Inr (out, st')" and inv: "engine_inv st"
    and fresh: "newId \<notin> wa_id ` set (wallets st)" and company: "s \<noteq> Company_Budget \<or> u = None"
  shows "engine_inv st'"
proof -
  obtain w st1 where l: "lockOrCreateWallet t s u ''INR'' newId m st = (w, st1)" by fastforce
  note i = lockOrCreateWallet_inv [OF l inv fresh company]
  have effect: "LEDGER_EFFECT kind = (fst (LEDGER_EFFECT kind), 0, 0)" if "fst (LEDGER_EFFECT kind) \<noteq> 0"
    using that by (cases kind) auto
  show ?thesis
    using ok l i(4,5) effect update_wallet_found [OF engine_invD(1) [OF i(1)] i(4)] engine_invD(5) [OF i(1)]
    by (auto simp add: adjustAllowance_def Let_def balance_of_eq_iff applyLedgerEntry_def amounts_ok_def not_less
          intro!: engine_inv_post [OF i(1,4)] split: if_splits prod.splits)
qed

lemma companyWallet_inv:
  assumes ok: "companyWallet t newId m st = (out, st')" and inv: "engine_inv st"
    and fresh: "newId \<notin> wa_id ` set (wallets st)"
    and policy: "\<And>p. policies st t = Some p \<Longrightarrow> 0 \<le> monthlyAllowanceMinor p"
  shows "engine_inv st'"
proof (cases "find_wallet t Company_Budget None st")
  case None
  let ?new = "new_wallet newId t Company_Budget None ''INR'' (now_at m)"
  let ?st = "st\<lparr>wallets := wallets st @ [?new]\<rparr>"
  let ?opening = "case policies st t of None \<Rightarrow> 0 | Some p \<Rightarrow> monthlyAllowanceMinor p"
  let ?f = "\<lambda>w. w\<lparr>allowanceMinor := ?opening\<rparr>"
  have i: "engine_inv ?st"
    using engine_inv_create [OF inv, of ?new] fresh find_wallet_None [OF None] by (simp add: wallet_key_def)
  have "update_where (\<lambda>r. wa_id r = newId) ?f (wallets st) = wallets st"
    unfolding update_where_def using fresh by (intro map_idI) auto
  then have up: "update_where (\<lambda>r. wa_id r = wa_id ?new) ?f (wallets ?st) = wallets st @ [?f ?new]"
    by (simp add: update_where_def)
  show ?thesis
  proof (cases "0 < ?opening")
    case True
    let ?e = "plain_entry t m (?f ?new) TopUp ?opening (wa_currency (?f ?new)) OpeningAllowance (balance_of (?f ?new))"
    have "engine_inv (appendEntry ?e (?st\<lparr>wallets := update_where (\<lambda>r. wa_id r = wa_id ?new) ?f (wallets ?st)\<rparr>))"
      using True by (intro engine_inv_post [OF i]) (simp_all add: balance_of_eq_iff applyLedgerEntry_def zero_balance_def)
    then show ?thesis using ok None True up by (simp add: companyWallet_def Let_def)
  next
    case False
    then have zero: "?opening = 0" using policy by (cases "policies st t") fastforce+
    have same: "?new\<lparr>allowanceMinor := 0\<rparr> = ?new" by (simp add: new_wallet_def)
    have "st' = st\<lparr>wallets := wallets st @ [?new\<lparr>allowanceMinor := 0\<rparr>]\<rparr>"
      using ok None False zero by (simp add: companyWallet_def Let_def)
    then show ?thesis using i by (simp only: same)
  qed
next
  case (Some w)
  then show ?thesis using ok inv by (simp add: companyWallet_def)
qed

lemma recordPeriodMovement_inv:
  assumes ok: "recordPeriodMovement t wid kind amount reason m st = Inr st'" and inv: "engine_inv st"
    and owned: "\<And>w. w \<in> set (wallets st) \<Longrightarrow> wa_id w = wid \<Longrightarrow> wa_tenant w = t"
    and kind: "LEDGER_EFFECT kind = (1, 0, 0) \<or> kind = Expiry"
    and lapse: "\<And>w. w \<in> set (wallets st) \<Longrightarrow> wa_id w = wid \<Longrightarrow> kind = Expiry \<Longrightarrow> amount \<le> allowanceMinor w"
  shows "engine_inv st'"
proof (cases "amount \<le> 0")
  case True
  then show ?thesis using ok inv by (simp add: recordPeriodMovement_def)
next
  case False
  then obtain w where find: "List.find (\<lambda>w. wa_id w = wid) (wallets st) = Some w"
    using ok by (auto simp add: recordPeriodMovement_def split: option.splits)
  then have w: "w \<in> set (wallets st)" "wa_id w = wid" using find_SomeD by fastforce+
  note up = update_wallet_found [OF engine_invD(1) [OF inv] w(1)]
  show ?thesis
    using ok False find kind owned [OF w] lapse [OF w] engine_invD(5) [OF inv] w(1) up
    by (auto simp add: recordPeriodMovement_def Let_def balance_of_eq_iff applyLedgerEntry_def amounts_ok_def
          intro!: engine_inv_post [OF inv w(1)] split: if_splits)
qed

section \<open>Reserving\<close>

lemma levels_of_company: "(s, u) \<in> set (levels_of c) \<Longrightarrow> s \<noteq> Company_Budget \<or> u = None"
  by (auto simp add: levels_of_def)

lemma lock_levels_inv:
  assumes "lock_levels t newId m ks st = (locked, st')" and "engine_inv st"
    and "newId \<notin> wa_id ` set (wallets st) \<or> (find_wallet t Company_Budget None st \<noteq> None)"
    and "\<forall>(s, u) \<in> set ks. s \<noteq> Company_Budget \<or> u = None"
  shows "engine_inv st' \<and> grows st st' \<and> map fst locked = ks
     \<and> (\<forall>(k, r) \<in> set locked. \<forall>w. r = Some w \<longrightarrow> w \<in> set (wallets st') \<and> wa_tenant w = t
          \<and> wa_scope w = fst k \<and> wa_subject w = snd k)
     \<and> (\<forall>(k, r) \<in> set locked. fst k = Company_Budget \<longrightarrow> r \<noteq> None)"
  using assms
proof (induction ks arbitrary: st locked)
  case (Cons k ks)
  obtain s u where k: "k = (s, u)" by fastforce
  obtain r st1 where l1: "lockWallet t s u ''INR'' newId m st = (r, st1)" by fastforce
  obtain rest where l2: "lock_levels t newId m ks st1 = (rest, st')" "locked = (k, r) # rest"
    using Cons.prems(1) k l1 by (auto split: prod.splits)
  have company: "s \<noteq> Company_Budget \<or> u = None" using Cons.prems(4) by (simp add: k)
  have step: "engine_inv st1 \<and> grows st st1
      \<and> (newId \<notin> wa_id ` set (wallets st1) \<or> find_wallet t Company_Budget None st1 \<noteq> None)
      \<and> (\<forall>w. r = Some w \<longrightarrow> w \<in> set (wallets st1) \<and> wa_tenant w = t \<and> wa_scope w = s \<and> wa_subject w = u)
      \<and> (s = Company_Budget \<longrightarrow> r \<noteq> None)"
  proof (cases "find_wallet t s u st")
    case (Some w)
    then have "r = Some w" "st1 = st" using l1 by (simp_all add: lockWallet_def)
    then show ?thesis using Cons.prems(2,3) find_wallet_Some [OF Some] by simp
  next
    case None
    show ?thesis
    proof (cases "s = Company_Budget")
      case True
      then have "newId \<notin> wa_id ` set (wallets st)" using None company Cons.prems(3) by simp
      note i = lockWallet_inv [OF l1 Cons.prems(2) this company]
      obtain w where r: "r = Some w" using i(4) True by blast
      then have "find_wallet t Company_Budget None st1 = Some w"
        using i(5) [OF r] find_wallet_keyed [OF engine_invD(1) [OF i(1)], of w] True company by simp
      then show ?thesis using i(1,2) i(5) r by simp
    next
      case False
      then show ?thesis using l1 None Cons.prems(2,3) by (simp add: lockWallet_def)
    qed
  qed
  have ih: "engine_inv st' \<and> grows st1 st' \<and> map fst rest = ks
     \<and> (\<forall>(k, r) \<in> set rest. \<forall>w. r = Some w \<longrightarrow> w \<in> set (wallets st') \<and> wa_tenant w = t
          \<and> wa_scope w = fst k \<and> wa_subject w = snd k)
     \<and> (\<forall>(k, r) \<in> set rest. fst k = Company_Budget \<longrightarrow> r \<noteq> None)"
    using Cons.IH [OF l2(1)] step Cons.prems(4) by simp
  then show ?case
    using step grows_trans [of st st1 st'] grows_wallets [of st1 st'] l2(2) k by auto
qed simp

text \<open>One hold, with its row update and its entry.\<close>

lemma hold_one_inv:
  assumes ok: "hold_one c ps est cur rid m w st = Inr (crossed, st')" and inv: "engine_inv st"
    and w: "v \<in> set (wallets st)" "wa_id v = wa_id w" "wa_tenant v = sp_tenant c"
    and r: "r \<in> set (reservations st)" "rs_id r = rid" "rs_tenant r = sp_tenant c" "rs_state r = Held"
    and est: "0 \<le> est"
  shows "engine_inv st'"
proof -
  note parts = engine_invD [OF inv]
  let ?f = "\<lambda>r. bump (r\<lparr>reservedMinor := reservedMinor r + est\<rparr>)"
  let ?ws = "update_where (\<lambda>r. wa_id r = wa_id v) ?f (wallets st)"
  let ?h = "\<lparr>ho_tenant = sp_tenant c, ho_reservation = rid, ho_wallet = wa_id w, ho_amount = est\<rparr>"
  let ?e = "(plain_entry (sp_tenant c) m (?f v) Reserve est cur (ReservedFor (sp_purpose c))
              (balance_of (?f v)))\<lparr>le_reservation := Some rid, le_context := Some (attribution_of c)\<rparr>"
  have st': "st' = appendEntry ?e (st\<lparr>wallets := ?ws, holds := holds st @ [?h]\<rparr>)"
    using ok update_wallet_found [OF parts(1) w(1)] w(2) by (simp add: hold_one_def Let_def)
  have f: "wa_id (?f x) = wa_id x" "wa_tenant (?f x) = wa_tenant x" "wallet_key (?f x) = wallet_key x" for x
    by (simp_all add: wallet_key_def)
  have "keys_ok ?ws" using keys_ok_update [OF parts(1) f(1,3)] .
  moreover have "ledger_agrees ?ws (ledger st @ [?e])"
    using w by (intro ledger_agrees_post [OF parts(2,1) w(1)]) (simp_all add: balance_of_eq_iff applyLedgerEntry_def)
  moreover have "refs_ok ?ws (reservations st) (holds st @ [?h])"
  proof -
    have "\<exists>x \<in> set ?ws. wa_id x = wa_id w \<and> wa_tenant x = sp_tenant c"
      using w by (intro bexI [of _ "?f v"]) (auto simp add: set_update_where)
    then show ?thesis
      using refs_ok_update_wallets [OF parts(4) f(1,2), of "\<lambda>r. wa_id r = wa_id v"] r est
      by (auto simp add: refs_ok_def)
  qed
  moreover have "holds_agree ?ws (reservations st) (holds st @ [?h])"
  proof -
    have "rid \<in> open_ids (reservations st)" using r by (auto simp add: open_ids_def)
    then have "held_on (reservations st) (holds st @ [?h]) i
        = held_on (reservations st) (holds st) i + (if i = wa_id w then est else 0)" for i
      by (simp add: held_on_def)
    then show ?thesis using parts(3) w(2) by (auto simp add: holds_agree_def set_update_where)
  qed
  moreover have "amounts_ok ?ws" using parts(5) by (auto simp add: amounts_ok_def set_update_where)
  ultimately show ?thesis by (simp add: st' engine_inv_def)
qed

text \<open>What the row-level steps keep of the state around the wallets.\<close>

definition same_rows :: "cost_state \<Rightarrow> cost_state \<Rightarrow> bool" where
  "same_rows st st' \<longleftrightarrow> map wa_id (wallets st') = map wa_id (wallets st)
     \<and> map wa_tenant (wallets st') = map wa_tenant (wallets st) \<and> reservations st' = reservations st"

lemma same_rows_trans: "same_rows a b \<Longrightarrow> same_rows b c \<Longrightarrow> same_rows a c"
  by (simp add: same_rows_def)

lemma same_rows_wallet:
  assumes "same_rows st st'" and "w \<in> set (wallets st)"
  obtains v where "v \<in> set (wallets st')" "wa_id v = wa_id w" "wa_tenant v = wa_tenant w"
proof -
  obtain i where i: "i < length (wallets st)" "w = wallets st ! i" using assms(2) by (auto simp add: in_set_conv_nth)
  have len: "length (wallets st') = length (wallets st)"
    using assms(1) by (metis length_map same_rows_def)
  have "wa_id (wallets st' ! i) = wa_id w" "wa_tenant (wallets st' ! i) = wa_tenant w"
    using assms(1) i len by (metis nth_map same_rows_def)+
  then show thesis using that i(1) len by (metis nth_mem)
qed

lemma hold_one_rows:
  assumes "hold_one c ps est cur rid m w st = Inr (crossed, st')"
  shows "same_rows st st'"
  using assms by (auto simp add: hold_one_def update_wallet_def same_rows_def Let_def map_update_where_same
      split: option.splits)

lemma hold_all_inv:
  assumes "engine_inv st" and "0 \<le> est"
    and "\<forall>w. Some w \<in> set ws \<longrightarrow> (\<exists>v \<in> set (wallets st). wa_id v = wa_id w \<and> wa_tenant v = sp_tenant c)"
    and "r \<in> set (reservations st)" "rs_id r = rid" "rs_tenant r = sp_tenant c" "rs_state r = Held"
  shows "\<exists>highest' st'. hold_all c ps est cur rid m ws highest st = Inr (highest', st')
           \<and> engine_inv st' \<and> same_rows st st'"
  using assms
proof (induction ws arbitrary: highest st)
  case (Cons x ws)
  show ?case
  proof (cases x)
    case None
    then show ?thesis using Cons by simp
  next
    case (Some w)
    then obtain v where v: "v \<in> set (wallets st)" "wa_id v = wa_id w" "wa_tenant v = sp_tenant c"
      using Cons.prems(3) by auto
    obtain crossed st1 where one: "hold_one c ps est cur rid m w st = Inr (crossed, st1)"
      using update_wallet_found [OF engine_invD(1) [OF Cons.prems(1)] v(1)] v(2)
      by (simp add: hold_one_def Let_def)
    note rows = hold_one_rows [OF one]
    have "\<forall>w. Some w \<in> set ws \<longrightarrow> (\<exists>v \<in> set (wallets st1). wa_id v = wa_id w \<and> wa_tenant v = sp_tenant c)"
      using Cons.prems(3) same_rows_wallet [OF rows] by (metis list.set_intros(2))
    then obtain h' st' where "hold_all c ps est cur rid m ws (raise_highest highest crossed) st1 = Inr (h', st')
        \<and> engine_inv st' \<and> same_rows st1 st'"
      using Cons.IH [of st1] hold_one_inv [OF one Cons.prems(1) v Cons.prems(4-7,2)] Cons.prems rows
      unfolding same_rows_def by metis
    then show ?thesis using Some one rows same_rows_trans by auto
  qed
qed (simp add: same_rows_def)

lemma company_of_locked:
  assumes "map fst locked = levels_of c" and "\<forall>(k, r) \<in> set locked. fst k = Company_Budget \<longrightarrow> r \<noteq> None"
  shows "company_of locked \<noteq> None"
proof -
  obtain rest where "levels_of c = (Company_Budget, None) # rest"
    using scopesToCheck_eq_Cons unfolding levels_of_def by blast
  then obtain r where "hd locked = ((Company_Budget, None), r)" "locked \<noteq> []"
    using assms(1) by (cases locked) (auto simp add: prod_eq_iff)
  then show ?thesis using assms(2) by (cases locked) (auto simp add: company_of_def)
qed

text \<open>
  A reservation of a non-negative estimate always goes through, to a hard stop or to a hold, and
  keeps the invariant.
\<close>

lemma reserve_total:
  assumes inv: "engine_inv st" and est: "0 \<le> est"
    and fresh: "fst ids \<notin> wa_id ` set (wallets st)" "snd ids \<notin> rs_id ` set (reservations st)"
  shows "\<exists>out st'. reserve c est cur ids m st = Inr (out, st') \<and> engine_inv st'"
proof -
  let ?ps = "thresholds (sp_tenant c) st"
  obtain locked st1 where lock: "lock_levels (sp_tenant c) (fst ids) m (levels_of c) st = (locked, st1)"
    by fastforce
  have "\<forall>(s, u) \<in> set (levels_of c). s \<noteq> Company_Budget \<or> u = None"
    using levels_of_company by blast
  then have l: "engine_inv st1" "grows st st1" "map fst locked = levels_of c"
     "\<forall>(k, r) \<in> set locked. \<forall>w. r = Some w \<longrightarrow> w \<in> set (wallets st1) \<and> wa_tenant w = sp_tenant c
        \<and> wa_scope w = fst k \<and> wa_subject w = snd k"
     "\<forall>(k, r) \<in> set locked. fst k = Company_Budget \<longrightarrow> r \<noteq> None"
    using lock_levels_inv [OF lock inv] fresh(1) by blast+
  show ?thesis
  proof (cases "oc_decision (combineLevels (map (decide_for ?ps est) locked)) = HardStopped")
    case True
    then show ?thesis using lock l(1) by (simp add: reserve_def Let_def)
  next
    case False
    obtain cw where cw: "company_of locked = Some cw" using company_of_locked [OF l(3,5)] by blast
    let ?r = "new_reservation c est cur (snd ids) (wa_id cw) m"
    let ?st2 = "st1\<lparr>reservations := reservations st1 @ [?r]\<rparr>"
    have r: "?r \<in> set (reservations ?st2)" "rs_id ?r = snd ids" "rs_tenant ?r = sp_tenant c" "rs_state ?r = Held"
      by (simp_all add: new_reservation_def)
    have "reservations st1 = reservations st" using l(2) by (simp add: grows_def)
    then have "rs_id ?r \<notin> rs_id ` set (reservations st1)" using r(2) fresh(2) by simp
    then have "engine_inv ?st2"
      using engine_invD [OF l(1)] held_on_new_reservation [of "wallets st1" "reservations st1" "holds st1" ?r]
      by (auto simp add: engine_inv_def holds_agree_def refs_ok_def)
    moreover have "\<forall>w. Some w \<in> set (map snd locked) \<longrightarrow>
        (\<exists>v \<in> set (wallets ?st2). wa_id v = wa_id w \<and> wa_tenant v = sp_tenant c)"
      using l(4) by fastforce
    ultimately obtain h st3 where "hold_all c ?ps est cur (rs_id ?r) m (map snd locked) None ?st2 = Inr (h, st3)"
        "engine_inv st3"
      using hold_all_inv [OF _ est _ r(1) refl r(3,4)] by blast
    then show ?thesis
      using lock False cw by (cases h) (simp_all add: reserve_def Let_def)
  qed
qed

section \<open>Closing a reservation\<close>

text \<open>
  Midway through closing the reservation \<open>rid\<close>, its remaining holds \<open>rest\<close> are still reserved and
  every other open reservation is.
\<close>

definition closing_inv :: "uid \<Rightarrow> hold list \<Rightarrow> cost_state \<Rightarrow> bool" where
  "closing_inv rid rest st \<longleftrightarrow> keys_ok (wallets st) \<and> ledger_agrees (wallets st) (ledger st)
     \<and> refs_ok (wallets st) (reservations st) (holds st) \<and> amounts_ok (wallets st)
     \<and> (\<forall>w \<in> set (wallets st). reservedMinor w
          = amount_on (\<lambda>h. ho_reservation h \<in> open_ids (reservations st) - {rid}) (holds st) (wa_id w)
            + amount_on (\<lambda>_. True) rest (wa_id w))"

lemma closing_start:
  assumes inv: "engine_inv st" and r: "r \<in> set (reservations st)" "rs_state r = Held"
  shows "closing_inv (rs_id r) (holds_of (rs_tenant r) (rs_id r) st) st"
proof -
  note parts = engine_invD [OF inv]
  have rid: "rs_id r \<in> open_ids (reservations st)" using r by (auto simp add: open_ids_def)
  have tenant: "ho_tenant h = rs_tenant r" if "h \<in> set (holds st)" "ho_reservation h = rs_id r" for h
    using parts(4) that r(1) unfolding refs_ok_def by (metis distinct_key_unique)
  have "held_on (reservations st) (holds st) i
      = amount_on (\<lambda>h. ho_reservation h \<in> open_ids (reservations st) - {rs_id r}) (holds st) i
        + amount_on (\<lambda>_. True) (holds_of (rs_tenant r) (rs_id r) st) i" for i
  proof -
    have "amount_on (\<lambda>_. True) (holds_of (rs_tenant r) (rs_id r) st) i
        = amount_on (\<lambda>h. ho_reservation h \<in> open_ids (reservations st) \<and> ho_reservation h = rs_id r) (holds st) i"
      unfolding holds_of_def amount_on_filter using rid tenant by (intro amount_on_cong) auto
    moreover have "amount_on (\<lambda>h. ho_reservation h \<in> open_ids (reservations st) - {rs_id r}) (holds st) i
        = amount_on (\<lambda>h. ho_reservation h \<in> open_ids (reservations st) \<and> ho_reservation h \<noteq> rs_id r) (holds st) i"
      by (intro amount_on_cong) auto
    ultimately show ?thesis
      using amount_on_split [of "\<lambda>h. ho_reservation h \<in> open_ids (reservations st)" "holds st" i
          "\<lambda>h. ho_reservation h = rs_id r"] by (simp add: held_on_def)
  qed
  then show ?thesis using parts by (simp add: closing_inv_def holds_agree_def)
qed

lemma open_ids_close:
  assumes "\<And>x. rs_id (g x) = rs_id x" and "\<And>x. rs_state (g x) \<noteq> Held"
  shows "open_ids (update_where (\<lambda>x. rs_id x = rid) g rs) = open_ids rs - {rid}"
  using assms by (auto simp add: open_ids_def set_update_where image_iff)

lemma closing_end:
  assumes inv: "closing_inv rid [] st"
    and g: "\<And>x. rs_id (g x) = rs_id x" "\<And>x. rs_tenant (g x) = rs_tenant x" "\<And>x. rs_state (g x) \<noteq> Held"
  shows "engine_inv (close_reservation rid g st)"
proof -
  let ?rs = "update_where (\<lambda>x. rs_id x = rid) g (reservations st)"
  have "refs_ok (wallets st) ?rs (holds st)"
  proof -
    have "\<exists>y \<in> set ?rs. rs_id y = i \<and> rs_tenant y = t" if "x \<in> set (reservations st)" "rs_id x = i" "rs_tenant x = t" for x i t
      using that g by (intro bexI [of _ "if rs_id x = rid then g x else x"]) (auto simp add: set_update_where)
    moreover have "distinct (map rs_id ?rs)"
      using inv g(1) by (simp add: closing_inv_def refs_ok_def map_update_where_same)
    moreover have "refs_ok (wallets st) (reservations st) (holds st)" using inv by (simp add: closing_inv_def)
    ultimately show ?thesis unfolding refs_ok_def by blast
  qed
  moreover have "holds_agree (wallets st) ?rs (holds st)"
    using inv open_ids_close [of g, OF g(1,3)] by (simp add: closing_inv_def holds_agree_def held_on_def)
  ultimately show ?thesis
    using inv by (simp add: closing_inv_def engine_inv_def close_reservation_def)
qed

text \<open>Returning one hold: the row gives up the amount, the entries explain it.\<close>

lemma closing_step:
  assumes inv: "closing_inv rid (h # rest) st" and w: "w \<in> set (wallets st)" "wa_id w = ho_wallet h"
    and f: "\<And>r. wa_id (f r) = wa_id r" "\<And>r. wa_tenant (f r) = wa_tenant r"
      "\<And>r. wallet_key (f r) = wallet_key r" "\<And>r. reservedMinor (f r) = reservedMinor r - ho_amount h"
      "\<And>r. allowanceMinor (f r) = allowanceMinor r" "\<And>r. usedMinor r \<le> usedMinor (f r)"
    and ledger: "ledger_agrees (update_where (\<lambda>r. wa_id r = wa_id w) f (wallets st)) es"
  shows "closing_inv rid rest (st\<lparr>wallets := update_where (\<lambda>r. wa_id r = wa_id w) f (wallets st), ledger := es\<rparr>)"
proof -
  let ?ws = "update_where (\<lambda>r. wa_id r = wa_id w) f (wallets st)"
  have "keys_ok ?ws" using inv keys_ok_update [of "wallets st" f, OF _ f(1,3)] by (simp add: closing_inv_def)
  moreover have "refs_ok ?ws (reservations st) (holds st)"
    using inv refs_ok_update_wallets [of "wallets st" _ _ f, OF _ f(1,2)] by (simp add: closing_inv_def)
  moreover have "amounts_ok ?ws"
    using inv f(5,6) by (auto simp add: closing_inv_def amounts_ok_def set_update_where intro: order_trans)
  moreover have "reservedMinor v
      = amount_on (\<lambda>h. ho_reservation h \<in> open_ids (reservations st) - {rid}) (holds st) (wa_id v)
        + amount_on (\<lambda>_. True) rest (wa_id v)" if v: "v \<in> set ?ws" for v
  proof -
    obtain x where x: "x \<in> set (wallets st)" "v = (if wa_id x = wa_id w then f x else x)"
      using v unfolding set_update_where by blast
    then have "reservedMinor x = amount_on (\<lambda>h. ho_reservation h \<in> open_ids (reservations st) - {rid}) (holds st) (wa_id x)
        + amount_on (\<lambda>_. True) (h # rest) (wa_id x)"
      using inv by (simp add: closing_inv_def)
    then show ?thesis using x(2) w(2) f(1,4) by auto
  qed
  ultimately show ?thesis using inv ledger by (simp add: closing_inv_def)
qed

text \<open>Which holds a wallet can be found for: all of them, under the invariant.\<close>

lemma closing_wallet:
  assumes "closing_inv rid rest st" and "h \<in> set (holds st)"
  obtains w where "lockWalletById (ho_tenant h) (ho_wallet h) st = Some w"
    "w \<in> set (wallets st)" "wa_id w = ho_wallet h" "wa_tenant w = ho_tenant h"
proof -
  obtain v where v: "v \<in> set (wallets st)" "wa_id v = ho_wallet h" "wa_tenant v = ho_tenant h"
    using assms unfolding closing_inv_def refs_ok_def by blast
  then have "lockWalletById (ho_tenant h) (ho_wallet h) st \<noteq> None"
    by (auto simp add: lockWalletById_def find_None_iff)
  then show thesis using that lockWalletById_Some by blast
qed

lemma update_where_twice:
  assumes "\<And>r. P (f r) = P r"
  shows "update_where P g (update_where P f rows) = update_where P (g \<circ> f) rows"
  using assms by (simp add: update_where_def)

lemma settle_one_closing:
  assumes inv: "closing_inv (rs_id r) (h # rest) st" and h: "h \<in> set (holds st)" and actual: "0 \<le> actual"
  shows "\<exists>st'. settle_one (ho_tenant h) r actual pv tokens m h st = Inr st'
           \<and> closing_inv (rs_id r) rest st' \<and> holds st' = holds st \<and> reservations st' = reservations st"
proof -
  obtain w where w: "lockWalletById (ho_tenant h) (ho_wallet h) st = Some w"
    "w \<in> set (wallets st)" "wa_id w = ho_wallet h" "wa_tenant w = ho_tenant h"
    using closing_wallet [OF inv h] .
  have keys: "keys_ok (wallets st)" and agrees: "ledger_agrees (wallets st) (ledger st)"
    using inv by (simp_all add: closing_inv_def)
  let ?P = "\<lambda>x. wa_id x = wa_id w"
  let ?f1 = "\<lambda>x. x\<lparr>reservedMinor := reservedMinor x - ho_amount h\<rparr>"
  let ?f2 = "\<lambda>x. bump (x\<lparr>usedMinor := usedMinor x + actual\<rparr>)"
  let ?f = "\<lambda>x. bump (x\<lparr>reservedMinor := reservedMinor x - ho_amount h, usedMinor := usedMinor x + actual\<rparr>)"
  let ?e1 = "(plain_entry (ho_tenant h) m (?f w) ReleaseReserve (ho_amount h) (rs_currency r)
     ReleasedOnSettlement ((balance_of (?f w))\<lparr>usedMinor := usedMinor (balance_of (?f w)) - actual\<rparr>))
     \<lparr>le_reservation := Some (rs_id r)\<rparr>"
  let ?e2 = "(plain_entry (ho_tenant h) m (?f w) Settle actual (rs_currency r) (ChargedFor (rs_purpose r))
     (balance_of (?f w)))\<lparr>le_reservation := Some (rs_id r),
       le_context := Some \<lparr>at_profile = rs_profile r, at_agentRun = rs_agentRun r,
         at_objective = rs_objective r, at_department = rs_department r,
         at_engineAgent = rs_engineAgent r\<rparr>, le_pricing := pv, le_tokens := tokens\<rparr>"
  have comp: "?f2 (?f1 x) = ?f x" for x :: wallet by (simp add: bump_def)
  have one: "ledger_agrees (update_where ?P ?f1 (wallets st)) (ledger st @ [?e1])"
    using w by (intro ledger_agrees_post [OF agrees keys w(2)])
      (simp_all add: balance_of_eq_iff applyLedgerEntry_def)
  have keys1: "keys_ok (update_where ?P ?f1 (wallets st))"
    by (rule keys_ok_update [OF keys]) (simp_all add: wallet_key_def)
  have w1: "?f1 w \<in> set (update_where ?P ?f1 (wallets st))"
    unfolding set_update_where using w(2) by (rule rev_image_eqI) simp
  have "ledger_agrees (update_where (\<lambda>x. wa_id x = wa_id (?f1 w)) ?f2 (update_where ?P ?f1 (wallets st)))
      ((ledger st @ [?e1]) @ [?e2])"
    using w comp by (intro ledger_agrees_post [OF one keys1 w1])
      (simp_all add: balance_of_eq_iff applyLedgerEntry_def)
  moreover have "update_where (\<lambda>x. wa_id x = wa_id (?f1 w)) ?f2 (update_where ?P ?f1 (wallets st))
      = update_where ?P ?f (wallets st)"
    using update_where_twice [of ?P ?f1 ?f2 "wallets st"] comp by (simp add: comp_def)
  ultimately have two: "ledger_agrees (update_where ?P ?f (wallets st)) (ledger st @ [?e1, ?e2])" by simp
  have "closing_inv (rs_id r) rest
      (st\<lparr>wallets := update_where ?P ?f (wallets st), ledger := ledger st @ [?e1, ?e2]\<rparr>)"
    using actual by (intro closing_step [OF inv w(2,3) _ _ _ _ _ _ two]) (simp_all add: wallet_key_def)
  then show ?thesis
    using w(1) find_by_key [of wa_id "wallets st" w] keys w(2)
    by (simp add: settle_one_def update_wallet_def keys_ok_def Let_def appendEntry_def)
qed

lemma release_one_closing:
  assumes inv: "closing_inv (rs_id r) (h # rest) st" and h: "h \<in> set (holds st)"
  shows "\<exists>st'. release_one (ho_tenant h) r reason m h st = Inr st'
           \<and> closing_inv (rs_id r) rest st' \<and> holds st' = holds st \<and> reservations st' = reservations st"
proof -
  obtain w where w: "lockWalletById (ho_tenant h) (ho_wallet h) st = Some w"
    "w \<in> set (wallets st)" "wa_id w = ho_wallet h" "wa_tenant w = ho_tenant h"
    using closing_wallet [OF inv h] .
  have keys: "keys_ok (wallets st)" and agrees: "ledger_agrees (wallets st) (ledger st)"
    using inv by (simp_all add: closing_inv_def)
  let ?P = "\<lambda>x. wa_id x = wa_id w"
  let ?f = "\<lambda>x. bump (x\<lparr>reservedMinor := reservedMinor x - ho_amount h\<rparr>)"
  let ?e = "(plain_entry (ho_tenant h) m (?f w) ReleaseReserve (ho_amount h) (rs_currency r)
     (ReleasedBecause reason) (balance_of (?f w)))\<lparr>le_reservation := Some (rs_id r)\<rparr>"
  have one: "ledger_agrees (update_where ?P ?f (wallets st)) (ledger st @ [?e])"
    using w by (intro ledger_agrees_post [OF agrees keys w(2)])
      (simp_all add: balance_of_eq_iff applyLedgerEntry_def)
  have "closing_inv (rs_id r) rest (st\<lparr>wallets := update_where ?P ?f (wallets st), ledger := ledger st @ [?e]\<rparr>)"
    by (intro closing_step [OF inv w(2,3) _ _ _ _ _ _ one]) (simp_all add: wallet_key_def)
  then show ?thesis
    using w(1) find_by_key [of wa_id "wallets st" w] keys w(2)
    by (simp add: release_one_def update_wallet_def keys_ok_def Let_def appendEntry_def)
qed

lemma settle_all_closing:
  assumes "closing_inv (rs_id r) hs st" and "set hs \<subseteq> set (holds st)" and "0 \<le> actual"
    and "\<forall>h \<in> set hs. ho_tenant h = t"
  shows "\<exists>st'. settle_all t r actual pv tokens m hs st = Inr st' \<and> closing_inv (rs_id r) [] st'"
  using assms
proof (induction hs arbitrary: st)
  case (Cons h hs)
  then obtain st1 where "settle_one t r actual pv tokens m h st = Inr st1" "closing_inv (rs_id r) hs st1"
      "holds st1 = holds st"
    using settle_one_closing [of r h hs st actual pv tokens m] by auto
  then show ?case using Cons.IH [of st1] Cons.prems by auto
qed simp

lemma release_all_closing:
  assumes "closing_inv (rs_id r) hs st" and "set hs \<subseteq> set (holds st)" and "\<forall>h \<in> set hs. ho_tenant h = t"
  shows "\<exists>st'. release_all t r reason m hs st = Inr st' \<and> closing_inv (rs_id r) [] st'"
  using assms
proof (induction hs arbitrary: st)
  case (Cons h hs)
  then obtain st1 where "release_one t r reason m h st = Inr st1" "closing_inv (rs_id r) hs st1"
      "holds st1 = holds st"
    using release_one_closing [of r h hs st reason m] by auto
  then show ?case using Cons.IH [of st1] Cons.prems by auto
qed simp

lemma lockReservation_Inr:
  assumes "lockReservation t rid st = Inr r"
  shows "r \<in> set (reservations st)" "rs_id r = rid" "rs_tenant r = t"
  using assms find_SomeD unfolding lockReservation_def by (fastforce split: option.splits)+

lemma lockReservation_found:
  assumes "refs_ok ws (reservations st) hs" and "r \<in> set (reservations st)"
  shows "lockReservation (rs_tenant r) (rs_id r) st = Inr r"
proof -
  have "lockReservation (rs_tenant r) (rs_id r) st \<noteq> Inl NoSuchReservation"
    using assms(2) by (auto simp add: lockReservation_def find_None_iff split: option.splits)
  then obtain x where x: "lockReservation (rs_tenant r) (rs_id r) st = Inr x"
    by (auto simp add: lockReservation_def split: option.splits)
  then have "x = r"
    using lockReservation_Inr [OF x] assms distinct_key_unique [of rs_id "reservations st" x r]
    by (simp add: refs_ok_def)
  with x show ?thesis by simp
qed

lemma holds_of_props:
  "set (holds_of t rid st) \<subseteq> set (holds st)" "\<forall>h \<in> set (holds_of t rid st). ho_tenant h = t"
  by (auto simp add: holds_of_def)

text \<open>An open reservation always closes, by settlement or by release, and the invariant survives.\<close>

lemma settle_total:
  assumes inv: "engine_inv st" and r: "r \<in> set (reservations st)" "rs_state r = Held" and actual: "0 \<le> actual"
  shows "\<exists>st'. settle (rs_tenant r) (rs_id r) actual gc pv tokens m st
           = Inr (as_settled actual gc (now_at m) r, st') \<and> engine_inv st'"
proof -
  obtain st1 where "settle_all (rs_tenant r) r actual pv tokens m (holds_of (rs_tenant r) (rs_id r) st) st = Inr st1"
      "closing_inv (rs_id r) [] st1"
    using settle_all_closing [OF closing_start [OF inv r] holds_of_props(1) actual holds_of_props(2)] by blast
  then show ?thesis
    using lockReservation_found [OF engine_invD(4) [OF inv] r(1)] r actual
      closing_end [of "rs_id r" st1 "as_settled actual gc (now_at m)"]
    by (simp add: settle_def as_settled_def)
qed

lemma release_target_not_held [simp]: "release_target s \<noteq> Held"
  by (simp add: release_target_def split: option.split release_state.split)

lemma release_total:
  assumes inv: "engine_inv st" and r: "r \<in> set (reservations st)" "rs_state r = Held"
  shows "\<exists>st'. release (rs_tenant r) (rs_id r) reason s m st
           = Inr (as_released (release_target s) reason (now_at m) r, st') \<and> engine_inv st'"
proof -
  obtain st1 where "release_all (rs_tenant r) r reason m (holds_of (rs_tenant r) (rs_id r) st) st = Inr st1"
      "closing_inv (rs_id r) [] st1"
    using release_all_closing [OF closing_start [OF inv r] holds_of_props] by blast
  then show ?thesis
    using lockReservation_found [OF engine_invD(4) [OF inv] r(1)] r
      closing_end [of "rs_id r" st1 "as_released (release_target s) reason (now_at m)"]
    by (simp add: release_def as_released_def)
qed

lemma settle_inv:
  assumes "settle t rid actual gc pv tokens m st = Inr (r', st')" and "engine_inv st"
  shows "engine_inv st'"
proof -
  obtain r where r: "lockReservation t rid st = Inr r" "rs_state r = Held" "0 \<le> actual"
    using assms(1) by (auto simp add: settle_def result_simps not_less split: if_splits)
  then show ?thesis
    using assms settle_total [OF assms(2) lockReservation_Inr(1) [OF r(1)] r(2,3), of gc pv tokens m]
      lockReservation_Inr [OF r(1)] by auto
qed

lemma release_inv:
  assumes "release t rid reason s m st = Inr (r', st')" and "engine_inv st"
  shows "engine_inv st'"
proof -
  obtain r where r: "lockReservation t rid st = Inr r" "rs_state r = Held"
    using assms(1) by (auto simp add: release_def result_simps split: if_splits)
  then show ?thesis
    using assms release_total [OF assms(2) lockReservation_Inr(1) [OF r(1)] r(2), of reason s m]
      lockReservation_Inr [OF r(1)] by auto
qed

lemma sweep_each_inv:
  assumes "sweep_each t expiry m rs n st = (err, n', st')" and "engine_inv st"
  shows "engine_inv st'"
  using assms
proof (induction rs arbitrary: n st)
  case (Cons r rs)
  show ?case
  proof (cases "reservationHasExpired Held (rs_heldAt r) (now_at m) expiry")
    case True
    then show ?thesis
      using Cons.prems Cons.IH by (auto split: sum.splits dest: release_inv)
  qed (use Cons in auto)
qed simp

end
