(* ===== verification/Budget_Reset.thy ===== *)
theory Budget_Reset
  imports Cost_Safety
begin

text \<open>
  The reset of recurring allowances, \<open>apps/api/src/cost/budget-reset.runner.ts\<close>: for each wallet
  whose period has turned over, a transaction that lapses what was not spent, grants the period's
  allowance and moves the boundary, repeated until the wallet has caught up (at most 400 periods).
\<close>

definition find_by_id :: "uid \<Rightarrow> cost_state \<Rightarrow> wallet option" where
  "find_by_id wid st = List.find (\<lambda>w. wa_id w = wid) (wallets st)"

text \<open>The boundary moves only on the row that still has it: \<open>update\<close> where id and resetsAt match.\<close>

definition advance_boundary :: "uid \<Rightarrow> instant \<Rightarrow> instant option \<Rightarrow> cost_state \<Rightarrow> cost_error + cost_state" where
  "advance_boundary wid boundary advanced st =
     (if \<exists>w \<in> set (wallets st). wa_id w = wid \<and> wa_resetsAt w = Some boundary
      then Inr (st\<lparr>wallets := update_where (\<lambda>w. wa_id w = wid \<and> wa_resetsAt w = Some boundary)
                   (\<lambda>w. bump (w\<lparr>wa_periodStart := boundary, wa_resetsAt := advanced\<rparr>)) (wallets st)\<rparr>)
      else Inl NoSuchWallet)"

text \<open>Whether the wallet has a period to turn over, and what it is granted.\<close>

definition period_due :: "wallet \<Rightarrow> instant \<Rightarrow> (instant \<times> int) option" where
  "period_due w now =
     (case wa_resetsAt w of
        None \<Rightarrow> None
      | Some boundary \<Rightarrow>
          if now < boundary then None
          else if wa_cadence w = NoCadence then None
          else map_option (Pair boundary) (wa_recurringGrant w))"

definition reset_period :: "uid \<Rightarrow> wallet \<Rightarrow> instant \<Rightarrow> int \<Rightarrow> moment \<Rightarrow> cost_state \<Rightarrow> cost_error + cost_state" where
  "reset_period tenant w boundary grant m st =
     bind_result
       (if 0 < remainingMinor w
        then recordPeriodMovement tenant (wa_id w) Expiry (remainingMinor w) (UnusedLapsed (wa_cadence w)) m st
        else Inr st)
       (\<lambda>st1. bind_result
          (recordPeriodMovement tenant (wa_id w) Adjustment grant (NewPeriodAllowance (wa_cadence w)) m st1)
          (advance_boundary (wa_id w) boundary (nextReset boundary (wa_cadence w))))"

fun reset_loop :: "nat \<Rightarrow> uid \<Rightarrow> uid \<Rightarrow> moment \<Rightarrow> instant \<Rightarrow> nat \<Rightarrow> cost_state \<Rightarrow> cost_error + (nat \<times> cost_state)" where
  "reset_loop 0 tenant wid m now periods st = Inr (periods, st)"
| "reset_loop (Suc guard) tenant wid m now periods st =
     (case find_by_id wid st of
        None \<Rightarrow> Inr (periods, st)
      | Some w \<Rightarrow>
          (case period_due w now of
             None \<Rightarrow> Inr (periods, st)
           | Some (boundary, grant) \<Rightarrow>
               bind_result (reset_period tenant w boundary grant m st)
                 (reset_loop guard tenant wid m now (Suc periods))))"

definition resetOne :: "uid \<Rightarrow> uid \<Rightarrow> moment \<Rightarrow> instant \<Rightarrow> cost_state \<Rightarrow> cost_error + (nat \<times> cost_state)" where
  "resetOne tenant wid m now st = reset_loop 400 tenant wid m now 0 st"

text \<open>One wallet's failure is logged and leaves the others to be reset.\<close>

fun sweep_wallets :: "moment \<Rightarrow> instant \<Rightarrow> wallet list \<Rightarrow> uid list \<times> nat \<Rightarrow> cost_state \<Rightarrow> (uid list \<times> nat) \<times> cost_state" where
  "sweep_wallets m now [] acc st = (acc, st)"
| "sweep_wallets m now (w # ws) (tenants, n) st =
     (case resetOne (wa_tenant w) (wa_id w) m now st of
        Inl e \<Rightarrow> sweep_wallets m now ws (tenants, n) st
      | Inr (moved, st1) \<Rightarrow>
          sweep_wallets m now ws
            (if 0 < moved then (List.insert (wa_tenant w) tenants, Suc n) else (tenants, n)) st1)"

definition due_wallets :: "instant \<Rightarrow> cost_state \<Rightarrow> wallet list" where
  "due_wallets now st =
     take 2000 (sort_key (\<lambda>w. case wa_resetsAt w of None \<Rightarrow> 0 | Some r \<Rightarrow> r)
       (filter (\<lambda>w. wa_cadence w \<noteq> NoCadence \<and> (case wa_resetsAt w of None \<Rightarrow> False | Some r \<Rightarrow> r \<le> now))
         (wallets st)))"

definition sweepBudgets :: "instant \<Rightarrow> moment \<Rightarrow> cost_state \<Rightarrow> (nat \<times> nat) \<times> cost_state" where
  "sweepBudgets now m st =
     (let ((tenants, n), st') = sweep_wallets m now (due_wallets now st) ([], 0) st
      in ((length tenants, n), st'))"

section \<open>The invariant\<close>

lemma find_by_id_Some: "find_by_id wid st = Some w \<Longrightarrow> w \<in> set (wallets st) \<and> wa_id w = wid"
  unfolding find_by_id_def using find_SomeD by fastforce

lemma recordPeriodMovement_rows:
  assumes "recordPeriodMovement t wid kind amount reason m st = Inr st'"
  shows "same_rows st st'"
  using assms by (auto simp add: recordPeriodMovement_def update_wallet_def same_rows_def Let_def
      map_update_where_same split: if_splits option.splits)

lemma advance_boundary_inv:
  assumes "advance_boundary wid b adv st = Inr st'" and "engine_inv st"
  shows "engine_inv st'" "same_rows st st'"
  using assms
  by (auto simp add: advance_boundary_def same_rows_def map_update_where_same balance_of_eq_iff
      intro!: engine_inv_quiet split: if_splits)

lemma reset_period_inv:
  assumes ok: "reset_period t w b g m st = Inr st'" and inv: "engine_inv st"
    and w: "w \<in> set (wallets st)" "wa_tenant w = t"
  shows "engine_inv st'" "same_rows st st'"
proof -
  have unique: "v = w" if "v \<in> set (wallets st)" "wa_id v = wa_id w" for v
    using that w(1) engine_invD(1) [OF inv] distinct_key_unique [of wa_id] by (auto simp add: keys_ok_def)
  have remaining: "remainingMinor w \<le> allowanceMinor w"
  proof -
    have "0 \<le> usedMinor w" using engine_invD(5) [OF inv] w(1) by (simp add: amounts_ok_def)
    then show ?thesis using engine_inv_reserved [OF inv w(1)] by (simp add: remainingMinor_def)
  qed
  obtain st1 st2 where
    1: "(if 0 < remainingMinor w
         then recordPeriodMovement t (wa_id w) Expiry (remainingMinor w) (UnusedLapsed (wa_cadence w)) m st
         else Inr st) = Inr st1"
    and 2: "recordPeriodMovement t (wa_id w) Adjustment g (NewPeriodAllowance (wa_cadence w)) m st1 = Inr st2"
    and 3: "advance_boundary (wa_id w) b (nextReset b (wa_cadence w)) st2 = Inr st'"
    using ok by (auto simp add: reset_period_def result_simps)
  have i1: "engine_inv st1 \<and> same_rows st st1"
  proof (cases "0 < remainingMinor w")
    case True
    then have m: "recordPeriodMovement t (wa_id w) Expiry (remainingMinor w) (UnusedLapsed (wa_cadence w)) m st = Inr st1"
      using 1 by simp
    show ?thesis
      using recordPeriodMovement_inv [OF m inv] recordPeriodMovement_rows [OF m] unique w(2) remaining by blast
  next
    case False
    then show ?thesis using 1 inv by (simp add: same_rows_def)
  qed
  have owned: "wa_tenant v = t" if v: "v \<in> set (wallets st1)" "wa_id v = wa_id w" for v
  proof -
    obtain x where "x \<in> set (wallets st1)" "wa_id x = wa_id w" "wa_tenant x = wa_tenant w"
      using same_rows_wallet [of st st1 w] i1 w(1) by blast
    moreover have "x = v"
      using calculation(1,2) v distinct_key_unique [of wa_id "wallets st1" x v] engine_invD(1) [of st1] i1
      by (simp add: keys_ok_def)
    ultimately show ?thesis using w(2) by simp
  qed
  have i2: "engine_inv st2 \<and> same_rows st1 st2"
    using recordPeriodMovement_inv [OF 2] recordPeriodMovement_rows [OF 2] i1 owned by simp
  show "engine_inv st'" "same_rows st st'"
    using advance_boundary_inv [OF 3] i1 i2 same_rows_trans by blast+
qed

lemma reset_loop_inv:
  assumes "reset_loop n t wid m now p st = Inr (p', st')" and "engine_inv st"
    and "\<forall>w \<in> set (wallets st). wa_id w = wid \<longrightarrow> wa_tenant w = t"
  shows "engine_inv st' \<and> same_rows st st'"
  using assms
proof (induction n arbitrary: p st)
  case (Suc n)
  show ?case
  proof (cases "find_by_id wid st")
    case None
    then show ?thesis using Suc.prems by (simp add: same_rows_def)
  next
    case (Some w)
    note w = find_by_id_Some [OF Some]
    show ?thesis
    proof (cases "period_due w now")
      case None
      then show ?thesis using Suc.prems Some by (simp add: same_rows_def)
    next
      case due: (Some d)
      obtain b g where d: "d = (b, g)" by fastforce
      obtain st1 where 1: "reset_period t w b g m st = Inr st1" "reset_loop n t wid m now (Suc p) st1 = Inr (p', st')"
        using Suc.prems(1) Some due d by (auto simp add: result_simps)
      have w': "w \<in> set (wallets st)" "wa_tenant w = t" using w Suc.prems(3) by auto
      note r = reset_period_inv [OF 1(1) Suc.prems(2) w']
      have "\<forall>v \<in> set (wallets st1). wa_id v = wid \<longrightarrow> wa_tenant v = t"
      proof (intro ballI impI)
        fix v assume v: "v \<in> set (wallets st1)" "wa_id v = wid"
        have "same_rows st1 st" using r(2) by (simp add: same_rows_def)
        then obtain x where "x \<in> set (wallets st)" "wa_id x = wa_id v" "wa_tenant x = wa_tenant v"
          using same_rows_wallet v(1) by blast
        then show "wa_tenant v = t" using Suc.prems(3) v(2) by auto
      qed
      then show ?thesis using Suc.IH [OF 1(2) r(1)] r(2) same_rows_trans by blast
    qed
  qed
qed (simp add: same_rows_def)

lemma sweep_wallets_inv:
  assumes "sweep_wallets m now ws acc st = (acc', st')" and "engine_inv st"
    and "\<forall>w \<in> set ws. \<forall>v \<in> set (wallets st). wa_id v = wa_id w \<longrightarrow> wa_tenant v = wa_tenant w"
  shows "engine_inv st'"
  using assms
proof (induction m now ws acc st rule: sweep_wallets.induct)
  case (2 m now w ws tenants n st)
  show ?case
  proof (cases "resetOne (wa_tenant w) (wa_id w) m now st")
    case (Inl e)
    have rest: "\<forall>x \<in> set ws. \<forall>v \<in> set (wallets st). wa_id v = wa_id x \<longrightarrow> wa_tenant v = wa_tenant x"
      using 2(5) by (meson list.set_intros(2))
    show ?thesis by (rule 2(1) [OF Inl _ 2(4) rest]) (use 2(3) Inl in simp)
  next
    case (Inr r)
    obtain moved st1 where r: "r = (moved, st1)" by fastforce
    have loop: "reset_loop 400 (wa_tenant w) (wa_id w) m now 0 st = Inr (moved, st1)"
      using Inr r by (simp add: resetOne_def)
    have "\<forall>v \<in> set (wallets st). wa_id v = wa_id w \<longrightarrow> wa_tenant v = wa_tenant w"
      using 2(5) by (meson list.set_intros(1))
    from reset_loop_inv [OF loop 2(4) this] have one: "engine_inv st1 \<and> same_rows st st1" .
    have rest: "wa_tenant v = wa_tenant x" if x: "x \<in> set ws" "v \<in> set (wallets st1)" "wa_id v = wa_id x" for x v
    proof -
      have "same_rows st1 st" using one by (simp add: same_rows_def)
      then obtain y where "y \<in> set (wallets st)" "wa_id y = wa_id v" "wa_tenant y = wa_tenant v"
        using same_rows_wallet x(2) by blast
      moreover have "x \<in> set (w # ws)" using x(1) by simp
      ultimately show ?thesis using 2(5) x(3) by metis
    qed
    show ?thesis
    proof (rule 2(2) [OF Inr r [symmetric]])
      show "engine_inv st1" using one by simp
      show "\<forall>x \<in> set ws. \<forall>v \<in> set (wallets st1). wa_id v = wa_id x \<longrightarrow> wa_tenant v = wa_tenant x"
        using rest by blast
    qed (use 2(3) Inr r in simp)
  qed
qed simp

lemma sweepBudgets_inv:
  assumes "engine_inv st"
  shows "engine_inv (snd (sweepBudgets now m st))"
proof -
  obtain acc st' where s: "sweep_wallets m now (due_wallets now st) ([], 0) st = (acc, st')" by fastforce
  have "set (due_wallets now st) \<subseteq> set (wallets st)"
    by (auto simp add: due_wallets_def dest: in_set_takeD)
  then have "\<forall>w \<in> set (due_wallets now st). \<forall>v \<in> set (wallets st). wa_id v = wa_id w \<longrightarrow> wa_tenant v = wa_tenant w"
    using engine_invD(1) [OF assms] distinct_key_unique [of wa_id "wallets st"]
    by (metis keys_ok_def subsetD)
  from sweep_wallets_inv [OF s assms this] show ?thesis
    by (simp add: sweepBudgets_def s split: prod.split)
qed

section \<open>What a turned period leaves\<close>

lemma recordPeriodMovement_find:
  assumes "find_by_id wid st = Some w"
  shows "\<exists>st'. recordPeriodMovement t wid kind a reason m st = Inr st' \<and> find_by_id wid st'
    = Some (if a \<le> 0 then w else bump (w\<lparr>allowanceMinor :=
        (if kind = Expiry then max 0 (allowanceMinor w - a) else allowanceMinor w + a)\<rparr>))"
proof -
  have w: "wa_id w = wid" using find_by_id_Some [OF assms] by simp
  show ?thesis
    using assms w
    by (simp add: recordPeriodMovement_def update_wallet_def find_by_id_def Let_def find_update_where_same)
qed

lemma advance_boundary_find:
  assumes "find_by_id wid st = Some w" and "wa_resetsAt w = Some b"
  shows "\<exists>st'. advance_boundary wid b adv st = Inr st'
    \<and> find_by_id wid st' = Some (bump (w\<lparr>wa_periodStart := b, wa_resetsAt := adv\<rparr>))"
  using assms find_by_id_Some [OF assms(1)]
  by (auto simp add: advance_boundary_def find_by_id_def find_update_where_same)

lemma period_due_Some:
  "period_due w now = Some (b, g) \<longleftrightarrow> wa_resetsAt w = Some b \<and> b \<le> now \<and> wa_cadence w \<noteq> NoCadence
     \<and> wa_recurringGrant w = Some g"
  by (auto simp add: period_due_def split: option.splits if_splits)

lemma reset_period_find:
  assumes find: "find_by_id wid st = Some w" and b: "wa_resetsAt w = Some b"
    and nonneg: "0 \<le> usedMinor w + reservedMinor w"
  obtains st' w' where "reset_period t w b g m st = Inr st'" "find_by_id wid st' = Some w'"
    "remainingMinor w' = min 0 (remainingMinor w) + max 0 g" "usedMinor w' = usedMinor w"
    "reservedMinor w' = reservedMinor w" "wa_cadence w' = wa_cadence w"
    "wa_recurringGrant w' = wa_recurringGrant w" "wa_periodStart w' = b"
    "wa_resetsAt w' = nextReset b (wa_cadence w)"
proof -
  have wid: "wa_id w = wid" using find_by_id_Some [OF find] by simp
  let ?v = "if remainingMinor w \<le> 0 then w
    else bump (w\<lparr>allowanceMinor := max 0 (allowanceMinor w - remainingMinor w)\<rparr>)"
  obtain st1 where 1: "(if 0 < remainingMinor w
      then recordPeriodMovement t wid Expiry (remainingMinor w) (UnusedLapsed (wa_cadence w)) m st
      else Inr st) = Inr st1" "find_by_id wid st1 = Some ?v"
  proof (cases "0 < remainingMinor w")
    case True
    then show thesis
      using recordPeriodMovement_find [OF find, of t Expiry "remainingMinor w" "UnusedLapsed (wa_cadence w)" m] that
      by auto
  next
    case False
    then show thesis using that [of st] find by simp
  qed
  let ?u = "if g \<le> 0 then ?v else bump (?v\<lparr>allowanceMinor := allowanceMinor ?v + g\<rparr>)"
  obtain st2 where 2: "recordPeriodMovement t wid Adjustment g (NewPeriodAllowance (wa_cadence w)) m st1 = Inr st2"
      "find_by_id wid st2 = Some ?u"
    using recordPeriodMovement_find [OF 1(2), of t Adjustment g "NewPeriodAllowance (wa_cadence w)" m] by auto
  have ru: "wa_resetsAt ?u = Some b" using b by simp
  obtain st3 where 3: "advance_boundary wid b (nextReset b (wa_cadence w)) st2 = Inr st3"
      "find_by_id wid st3 = Some (bump (?u\<lparr>wa_periodStart := b, wa_resetsAt := nextReset b (wa_cadence w)\<rparr>))"
    using advance_boundary_find [OF 2(2) ru] by blast
  show thesis
  proof (rule that)
    show "reset_period t w b g m st = Inr st3"
      unfolding reset_period_def wid 1(1) by (simp add: 2(1) 3(1))
    show "find_by_id wid st3 = Some (bump (?u\<lparr>wa_periodStart := b, wa_resetsAt := nextReset b (wa_cadence w)\<rparr>))"
      by (rule 3(2))
  qed (use nonneg in \<open>auto simp add: remainingMinor_def bump_def\<close>)
qed

end
