(* ===== verification/Cost_Service.thy ===== *)
theory Cost_Service
  imports Budget_Reset
begin

text \<open>
  The cost engine as one transactional service: its operations, what the environment guarantees of
  each, and the interpretation of the service locales, so that the invariant holds after every run
  and the ledger is append-only along it.
\<close>

datatype cost_op =
    SetAllowanceOp uid uid BudgetScope "uid option" int string "ResetCadence option" "uid \<times> uid" moment
  | AdjustOp uid BudgetScope "uid option" int LedgerEntryKind string "uid option" "string option" uid moment
  | CompanyWalletOp uid uid moment
  | ReserveOp spend_context int string "uid \<times> uid" moment
  | SettleOp uid uid int "uid option" "uid option" "(int \<times> int \<times> int) option" moment
  | ReleaseOp uid uid close_reason "release_state option" moment
  | SweepReservationsOp uid "int option" moment
  | SweepBudgetsOp instant moment

fun cost_step :: "cost_op \<Rightarrow> cost_state \<Rightarrow> cost_error + cost_state" where
  "cost_step (SetAllowanceOp t a s u amount reason cad ids m) st =
     map_sum id snd (setAllowance t a s u amount reason cad ids m st)"
| "cost_step (AdjustOp t s u delta kind reason a ref newId m) st =
     map_sum id snd (adjustAllowance t s u delta kind reason a ref newId m st)"
| "cost_step (CompanyWalletOp t newId m) st = Inr (snd (companyWallet t newId m st))"
| "cost_step (ReserveOp c est cur ids m) st = map_sum id snd (reserve c est cur ids m st)"
| "cost_step (SettleOp t rid actual gc pv tokens m) st = map_sum id snd (settle t rid actual gc pv tokens m st)"
| "cost_step (ReleaseOp t rid reason s m) st = map_sum id snd (release t rid reason s m st)"
| "cost_step (SweepReservationsOp t expiry m) st = Inr (snd (snd (sweepExpiredReservations t expiry m st)))"
| "cost_step (SweepBudgetsOp now m) st = Inr (snd (sweepBudgets now m st))"

text \<open>
  Generated identifiers are new, an estimate is no refund, a company-scoped movement names no
  subject, and a provisioned policy grants no negative allowance.
\<close>

fun cost_allowed :: "cost_op \<Rightarrow> cost_state \<Rightarrow> bool" where
  "cost_allowed (SetAllowanceOp t a s u amount reason cad ids m) st =
     (fst ids \<notin> wa_id ` set (wallets st) \<and> snd ids \<notin> wa_id ` set (wallets st) \<and> fst ids \<noteq> snd ids)"
| "cost_allowed (AdjustOp t s u delta kind reason a ref newId m) st =
     (newId \<notin> wa_id ` set (wallets st) \<and> (s \<noteq> Company_Budget \<or> u = None))"
| "cost_allowed (CompanyWalletOp t newId m) st =
     (newId \<notin> wa_id ` set (wallets st)
      \<and> (case policies st t of None \<Rightarrow> True | Some p \<Rightarrow> 0 \<le> monthlyAllowanceMinor p))"
| "cost_allowed (ReserveOp c est cur ids m) st =
     (fst ids \<notin> wa_id ` set (wallets st) \<and> snd ids \<notin> rs_id ` set (reservations st) \<and> 0 \<le> est)"
| "cost_allowed (SettleOp t rid actual gc pv tokens m) st = True"
| "cost_allowed (ReleaseOp t rid reason s m) st = True"
| "cost_allowed (SweepReservationsOp t expiry m) st = True"
| "cost_allowed (SweepBudgetsOp now m) st = True"

lemma map_sum_Inr: "map_sum f g r = Inr b \<longleftrightarrow> (\<exists>a. r = Inr a \<and> b = g a)"
  by (cases r) auto

lemma cost_step_inv:
  assumes inv: "engine_inv st" and ok: "cost_allowed op st" and step: "cost_step op st = Inr st'"
  shows "engine_inv st'"
proof (cases op)
  case (SetAllowanceOp t a s u amount reason cad ids m)
  then show ?thesis using step ok setAllowance_inv [of t a s u amount reason cad ids m st _ st'] inv
    by (auto simp add: map_sum_Inr)
next
  case (AdjustOp t s u delta kind reason a ref newId m)
  then show ?thesis using step ok adjustAllowance_inv [of t s u delta kind reason a ref newId m st _ st'] inv
    by (auto simp add: map_sum_Inr)
next
  case (CompanyWalletOp t newId m)
  moreover obtain out st1 where o: "companyWallet t newId m st = (out, st1)" by fastforce
  ultimately show ?thesis using step ok companyWallet_inv [OF o inv] by (auto split: option.splits)
next
  case (ReserveOp c est cur ids m)
  then obtain out st1 where "reserve c est cur ids m st = Inr (out, st1)" "engine_inv st1"
    using ok reserve_total [OF inv, of est ids c cur m] by auto
  then show ?thesis using step ReserveOp by simp
next
  case (SettleOp t rid actual gc pv tokens m)
  then show ?thesis using step settle_inv [of t rid actual gc pv tokens m st _ st'] inv by (auto simp add: map_sum_Inr)
next
  case (ReleaseOp t rid reason s m)
  then show ?thesis using step release_inv [of t rid reason s m st _ st'] inv by (auto simp add: map_sum_Inr)
next
  case (SweepReservationsOp t expiry m)
  moreover obtain err n st1 where s: "sweepExpiredReservations t expiry m st = (err, n, st1)"
    by (metis prod_cases3)
  ultimately show ?thesis
    using step sweep_each_inv [of t expiry m _ 0 st err n st1] inv by (simp add: sweepExpiredReservations_def)
next
  case (SweepBudgetsOp now m)
  then show ?thesis using step sweepBudgets_inv [OF inv] by auto
qed

section \<open>What never changes: the ledger already written and a reservation once closed\<close>

definition preserves_history :: "cost_state \<Rightarrow> cost_state \<Rightarrow> bool" where
  "preserves_history st st' \<longleftrightarrow> prefix (ledger st) (ledger st')
     \<and> (\<forall>r \<in> set (reservations st). rs_state r \<noteq> Held \<longrightarrow> r \<in> set (reservations st'))"

lemma preserves_history_refl [simp]: "preserves_history st st"
  by (simp add: preserves_history_def)

lemma preserves_history_trans: "preserves_history a b \<Longrightarrow> preserves_history b c \<Longrightarrow> preserves_history a c"
  unfolding preserves_history_def using prefix_order.trans by blast

lemma history_append [simp]: "preserves_history st (appendEntry e st)"
  by (simp add: preserves_history_def)

lemma history_same:
  "ledger st' = ledger st \<Longrightarrow> reservations st' = reservations st \<Longrightarrow> preserves_history st st'"
  by (simp add: preserves_history_def)

lemma update_wallet_history:
  "update_wallet i f st = Inr (w, st') \<Longrightarrow> ledger st' = ledger st \<and> reservations st' = reservations st"
  by (auto simp add: update_wallet_def split: option.splits)

lemma lock_history:
  "lockOrCreateWallet t s u c newId m st = (w, st') \<Longrightarrow> ledger st' = ledger st \<and> reservations st' = reservations st"
  by (auto simp add: lockOrCreateWallet_def lockWallet_def Let_def split: option.splits if_splits)

text \<open>Rows move and entries are appended; the reservations stay.\<close>

definition appends :: "cost_state \<Rightarrow> cost_state \<Rightarrow> bool" where
  "appends st st' \<longleftrightarrow> prefix (ledger st) (ledger st') \<and> reservations st' = reservations st"

lemma appends_refl [simp]: "appends st st"
  by (simp add: appends_def)

lemma appends_trans: "appends a b \<Longrightarrow> appends b c \<Longrightarrow> appends a c"
  unfolding appends_def using prefix_order.trans by metis

lemma appends_history: "appends st st' \<Longrightarrow> preserves_history st st'"
  by (simp add: appends_def preserves_history_def)

lemma hold_all_appends:
  "hold_all c ps est cur rid m ws h st = Inr (h', st') \<Longrightarrow> appends st st'"
proof (induction c ps est cur rid m ws h st rule: hold_all.induct)
  case (3 c ps est cur rid m w ws h st)
  then obtain x st1 where 1: "hold_one c ps est cur rid m w st = Inr (x, st1)"
      "hold_all c ps est cur rid m ws (raise_highest h x) st1 = Inr (h', st')"
    by (auto simp add: result_simps)
  have "appends st st1"
    using 1(1) by (auto simp add: hold_one_def update_wallet_def appends_def Let_def split: option.splits)
  then show ?case using 3(1) [OF 1(2)] appends_trans by blast
qed auto

lemma settle_all_appends: "settle_all t r a pv tk m hs st = Inr st' \<Longrightarrow> appends st st'"
proof (induction hs arbitrary: st)
  case (Cons h hs)
  then obtain st1 where 1: "settle_one t r a pv tk m h st = Inr st1" "settle_all t r a pv tk m hs st1 = Inr st'"
    by (auto simp add: result_simps)
  have "appends st st1"
    using 1(1) by (auto simp add: settle_one_def update_wallet_def appends_def Let_def split: option.splits)
  then show ?case using Cons.IH [OF 1(2)] appends_trans by blast
qed simp

lemma release_all_appends: "release_all t r reason m hs st = Inr st' \<Longrightarrow> appends st st'"
proof (induction hs arbitrary: st)
  case (Cons h hs)
  then obtain st1 where 1: "release_one t r reason m h st = Inr st1" "release_all t r reason m hs st1 = Inr st'"
    by (auto simp add: result_simps)
  have "appends st st1"
    using 1(1) by (auto simp add: release_one_def update_wallet_def appends_def split: option.splits)
  then show ?case using Cons.IH [OF 1(2)] appends_trans by blast
qed simp

text \<open>Closing the row of one held reservation leaves the closed rows alone: identifiers are unique.\<close>

lemma close_history:
  assumes "refs_ok ws (reservations st) hs" and "r \<in> set (reservations st)" "rs_state r = Held" and "appends st st1"
  shows "preserves_history st (close_reservation (rs_id r) g st1)"
proof -
  have "x \<in> set (update_where (\<lambda>x. rs_id x = rs_id r) g (reservations st))"
    if "x \<in> set (reservations st)" "rs_state x \<noteq> Held" for x
  proof -
    have "rs_id x \<noteq> rs_id r"
      using that assms(1-3) distinct_key_unique [of rs_id "reservations st" x r] by (auto simp add: refs_ok_def)
    then show ?thesis unfolding set_update_where using that(1) by (intro rev_image_eqI [of x]) auto
  qed
  then show ?thesis
    using assms(4) by (simp add: preserves_history_def appends_def close_reservation_def)
qed

lemma settle_history:
  assumes ok: "settle t rid a gc pv tk m st = Inr (r', st')" and inv: "engine_inv st"
  shows "preserves_history st st'"
proof -
  obtain r st1 where r: "lockReservation t rid st = Inr r" "rs_state r = Held"
      "settle_all t r a pv tk m (holds_of t (rs_id r) st) st = Inr st1"
      "st' = close_reservation (rs_id r) (as_settled a gc (now_at m)) st1"
    using ok by (auto simp add: settle_def result_simps split: if_splits)
  show ?thesis
    using close_history [OF engine_invD(4) [OF inv] lockReservation_Inr(1) [OF r(1)] r(2)
        settle_all_appends [OF r(3)]] r(4) by simp
qed

lemma release_history:
  assumes ok: "release t rid reason s m st = Inr (r', st')" and inv: "engine_inv st"
  shows "preserves_history st st'"
proof -
  obtain r st1 where r: "lockReservation t rid st = Inr r" "rs_state r = Held"
      "release_all t r reason m (holds_of t (rs_id r) st) st = Inr st1"
      "st' = close_reservation (rs_id r) (as_released (release_target s) reason (now_at m)) st1"
    using ok by (auto simp add: release_def result_simps split: if_splits)
  show ?thesis
    using close_history [OF engine_invD(4) [OF inv] lockReservation_Inr(1) [OF r(1)] r(2)
        release_all_appends [OF r(3)]] r(4) by simp
qed

lemma sweep_each_history:
  assumes "sweep_each t expiry m rs n st = (err, n', st')" and "engine_inv st"
  shows "preserves_history st st'"
  using assms
proof (induction rs arbitrary: n st)
  case (Cons r rs)
  show ?case
  proof (cases "reservationHasExpired Held (rs_heldAt r) (now_at m) expiry")
    case True
    then show ?thesis
      using Cons.prems Cons.IH preserves_history_trans
      by (auto split: sum.splits dest: release_inv release_history) (meson preserves_history_trans release_history release_inv)
  qed (use Cons in auto)
qed simp

lemma lock_levels_history: "lock_levels t i m ks st = (locked, st') \<Longrightarrow> ledger st' = ledger st \<and> reservations st' = reservations st"
proof (induction ks arbitrary: st locked)
  case (Cons k ks)
  obtain s u where k: "k = (s, u)" by fastforce
  obtain r st1 where l1: "lockWallet t s u ''INR'' i m st = (r, st1)" by fastforce
  obtain rest where l2: "lock_levels t i m ks st1 = (rest, st')"
    using Cons.prems k l1 by (auto split: prod.splits)
  have "ledger st1 = ledger st \<and> reservations st1 = reservations st"
    using l1 by (auto simp add: lockWallet_def Let_def split: option.splits if_splits)
  then show ?case using Cons.IH [OF l2] by simp
qed simp

lemma reserve_history:
  assumes "reserve c est cur ids m st = Inr (out, st')"
  shows "preserves_history st st'"
proof -
  obtain locked st1 where lock: "lock_levels (sp_tenant c) (fst ids) m (levels_of c) st = (locked, st1)"
    by fastforce
  note l = lock_levels_history [OF lock]
  show ?thesis
  proof (cases "oc_decision (combineLevels (map (decide_for (thresholds (sp_tenant c) st) est) locked)) = HardStopped")
    case True
    then show ?thesis using assms lock l by (auto simp add: reserve_def Let_def intro: history_same)
  next
    case False
    then obtain r h st3 where r: "hold_all c (thresholds (sp_tenant c) st) est cur (rs_id r) m (map snd locked) None
          (st1\<lparr>reservations := reservations st1 @ [r]\<rparr>) = Inr (h, st3)"
        "ledger st' = ledger st3" "reservations st' = reservations st3"
      using assms lock
      by (cases "company_of locked")
        (fastforce simp add: reserve_def Let_def result_simps notifyThreshold_def split: option.splits)+
    then show ?thesis using hold_all_appends [OF r(1)] l by (auto simp add: appends_def preserves_history_def)
  qed
qed

lemma setAllowance_history:
  assumes "setAllowance t a s u amount reason cad ids m st = Inr (v, st')"
  shows "preserves_history st st'"
proof -
  obtain c st1 where 1: "lockOrCreateWallet t Company_Budget None ''INR'' (fst ids) m st = (c, st1)" by fastforce
  obtain w st2 where 2: "(if s = Company_Budget then (c, st1)
      else lockOrCreateWallet t s u (wa_currency c) (snd ids) m st1) = (w, st2)" by fastforce
  have "ledger st2 = ledger st \<and> reservations st2 = reservations st"
    using lock_history [OF 1] 2 lock_history [of t s u "wa_currency c" "snd ids" m st1 w st2] by (simp split: if_splits)
  moreover have "prefix (ledger st2) (ledger st') \<and> reservations st' = reservations st2"
    using assms 1 2
    by (auto simp add: setAllowance_def Let_def result_simps update_wallet_def split: if_splits option.splits)
  ultimately show ?thesis by (simp add: preserves_history_def)
qed

lemma adjustAllowance_history:
  assumes "adjustAllowance t s u delta kind reason a ref i m st = Inr (v, st')"
  shows "preserves_history st st'"
proof -
  obtain w st1 where 1: "lockOrCreateWallet t s u ''INR'' i m st = (w, st1)" by fastforce
  show ?thesis
    using assms 1 lock_history [OF 1]
    by (auto simp add: adjustAllowance_def Let_def result_simps update_wallet_def preserves_history_def
        split: if_splits option.splits)
qed

lemma companyWallet_history: "preserves_history st (snd (companyWallet t i m st))"
  by (auto simp add: companyWallet_def Let_def preserves_history_def split: option.split)

lemma recordPeriodMovement_appends:
  "recordPeriodMovement t wid kind a reason m st = Inr st' \<Longrightarrow> appends st st'"
  by (auto simp add: recordPeriodMovement_def update_wallet_def appends_def Let_def split: if_splits option.splits)

lemma reset_period_appends:
  assumes "reset_period t w b g m st = Inr st'"
  shows "appends st st'"
proof -
  obtain st1 st2 where
    1: "(if 0 < remainingMinor w
         then recordPeriodMovement t (wa_id w) Expiry (remainingMinor w) (UnusedLapsed (wa_cadence w)) m st
         else Inr st) = Inr st1"
    and 2: "recordPeriodMovement t (wa_id w) Adjustment g (NewPeriodAllowance (wa_cadence w)) m st1 = Inr st2"
    and 3: "advance_boundary (wa_id w) b (nextReset b (wa_cadence w)) st2 = Inr st'"
    using assms by (auto simp add: reset_period_def result_simps)
  have "appends st st1" using 1 recordPeriodMovement_appends by (auto split: if_splits)
  moreover have "appends st1 st2" using recordPeriodMovement_appends [OF 2] .
  moreover have "appends st2 st'" using 3 by (auto simp add: advance_boundary_def appends_def split: if_splits)
  ultimately show ?thesis using appends_trans by blast
qed

lemma reset_loop_appends: "reset_loop n t wid m now p st = Inr (p', st') \<Longrightarrow> appends st st'"
proof (induction n arbitrary: p st)
  case (Suc n)
  then show ?case
    by (auto simp add: result_simps split: option.splits prod.splits) (meson appends_trans reset_period_appends)
qed simp

lemma sweep_wallets_appends: "sweep_wallets m now ws acc st = (acc', st') \<Longrightarrow> appends st st'"
proof (induction m now ws acc st rule: sweep_wallets.induct)
  case (2 m now w ws tenants n st)
  show ?case
  proof (cases "resetOne (wa_tenant w) (wa_id w) m now st")
    case (Inl e)
    then show ?thesis using 2(1) [OF Inl] 2(3) by simp
  next
    case (Inr r)
    obtain moved st1 where r: "r = (moved, st1)" by fastforce
    then have "appends st st1" using Inr reset_loop_appends by (simp add: resetOne_def)
    moreover have "appends st1 st'" by (rule 2(2) [OF Inr r [symmetric]]) (use 2(3) Inr r in simp)
    ultimately show ?thesis using appends_trans by blast
  qed
qed simp

lemma cost_step_history:
  assumes inv: "engine_inv st" and ok: "cost_allowed op st" and step: "cost_step op st = Inr st'"
  shows "preserves_history st st'"
proof (cases op)
  case (SweepReservationsOp t expiry m)
  moreover obtain err n st1 where s: "sweepExpiredReservations t expiry m st = (err, n, st1)"
    by (metis prod_cases3)
  ultimately show ?thesis
    using step sweep_each_history [of t expiry m _ 0 st err n st1] inv by (simp add: sweepExpiredReservations_def)
next
  case (SweepBudgetsOp now m)
  obtain acc st1 where s: "sweep_wallets m now (due_wallets now st) ([], 0) st = (acc, st1)" by fastforce
  then show ?thesis
    using SweepBudgetsOp step appends_history [OF sweep_wallets_appends [OF s]]
    by (auto simp add: sweepBudgets_def split: prod.splits)
next
  case (CompanyWalletOp t newId m)
  then show ?thesis using step companyWallet_history by auto
qed (use step inv in \<open>auto simp add: map_sum_Inr intro: setAllowance_history adjustAllowance_history
       reserve_history settle_history release_history\<close>)

interpretation cost: monotone_service cost_step cost_allowed engine_inv preserves_history
  by unfold_locales (use cost_step_inv cost_step_history preserves_history_trans in auto)

definition empty_books :: "(uid \<Rightarrow> ai_budget_policy option) \<Rightarrow> (uid \<Rightarrow> uid list) \<Rightarrow> cost_state" where
  "empty_books pols admins =
     \<lparr>wallets = [], reservations = [], holds = [], ledger = [], policies = pols, companyAdmins = admins, calls = []\<rparr>"

lemma engine_inv_empty_books [simp]: "engine_inv (empty_books pols admins)"
  by (simp add: engine_inv_def empty_books_def inv_parts)

end
