(* ===== verification/Cost_Effects.thy ===== *)
theory Cost_Effects
  imports Cost_Service
begin

text \<open>
  What the operations that spend do to the rows: a reservation holds its estimate once on every
  wallet it locked, so no level passes its hard stop, and a settlement returns the hold and charges
  the actual amount.
\<close>

section \<open>The rows a reservation moves\<close>

definition hold_amount :: "int \<Rightarrow> wallet \<Rightarrow> wallet" where
  "hold_amount est w = bump (w\<lparr>reservedMinor := reservedMinor w + est\<rparr>)"

fun somes :: "'a option list \<Rightarrow> 'a list" where
  "somes [] = []"
| "somes (None # xs) = somes xs"
| "somes (Some x # xs) = x # somes xs"

lemma set_somes: "x \<in> set (somes xs) \<longleftrightarrow> Some x \<in> set xs"
  by (induction xs rule: somes.induct) auto

definition locked_ids :: "wallet option list \<Rightarrow> uid set" where
  "locked_ids ws = wa_id ` set (somes ws)"

lemma locked_ids_simps [simp]:
  "locked_ids [] = {}" "locked_ids (None # ws) = locked_ids ws"
  "locked_ids (Some w # ws) = insert (wa_id w) (locked_ids ws)"
  by (simp_all add: locked_ids_def)

lemma hold_amount_sel [simp]:
  "wa_id (hold_amount e w) = wa_id w" "wa_tenant (hold_amount e w) = wa_tenant w"
  "wa_scope (hold_amount e w) = wa_scope w" "wa_subject (hold_amount e w) = wa_subject w"
  "allowanceMinor (hold_amount e w) = allowanceMinor w" "usedMinor (hold_amount e w) = usedMinor w"
  "reservedMinor (hold_amount e w) = reservedMinor w + e"
  by (simp_all add: hold_amount_def)

lemma hold_one_wallets:
  assumes "hold_one c ps est cur rid m w st = Inr (x, st')"
  shows "wallets st' = update_where (\<lambda>r. wa_id r = wa_id w) (hold_amount est) (wallets st)"
  using assms unfolding hold_amount_def
  by (auto simp add: hold_one_def update_wallet_def Let_def split: option.splits)

lemma update_where_disjoint:
  assumes "\<And>r. wa_id (f r) = wa_id r" and "i \<notin> I"
  shows "update_where (\<lambda>r. wa_id r \<in> I) f (update_where (\<lambda>r. wa_id r = i) f ws)
       = update_where (\<lambda>r. wa_id r \<in> insert i I) f ws"
  using assms by (auto simp add: update_where_def)

lemma hold_all_wallets:
  assumes "hold_all c ps est cur rid m ws h st = Inr (h', st')" and "distinct (map wa_id (somes ws))"
  shows "wallets st' = update_where (\<lambda>r. wa_id r \<in> locked_ids ws) (hold_amount est) (wallets st)"
  using assms
proof (induction c ps est cur rid m ws h st rule: hold_all.induct)
  case (1 c ps est cur rid m h st)
  then show ?case by (simp add: update_where_def)
next
  case (2 c ps est cur rid m ws h st)
  then show ?case by simp
next
  case (3 c ps est cur rid m w ws h st)
  then obtain x st1 where 1: "hold_one c ps est cur rid m w st = Inr (x, st1)"
      "hold_all c ps est cur rid m ws (raise_highest h x) st1 = Inr (h', st')"
    by (auto simp add: result_simps)
  have d: "wa_id w \<notin> locked_ids ws" "distinct (map wa_id (somes ws))"
    using 3(3) by (simp_all add: locked_ids_def)
  have "wallets st' = update_where (\<lambda>r. wa_id r \<in> locked_ids ws) (hold_amount est) (wallets st1)"
    using 3(1) [OF 1(2) d(2)] .
  then show ?case using hold_one_wallets [OF 1(1)] update_where_disjoint [of "hold_amount est"] d(1) by simp
qed

section \<open>What locking finds\<close>

lemma lockWallet_find_other:
  assumes "lockWallet t s u c i m st = (r, st')" and "s' \<noteq> Company_Budget" and "find_wallet t' s' u' st = None"
  shows "find_wallet t' s' u' st' = None"
  using assms by (auto simp add: lockWallet_def Let_def find_wallet_def find_append split: option.splits if_splits)

lemma lock_levels_find_other:
  assumes "lock_levels t i m ks st = (locked, st')" and "s' \<noteq> Company_Budget" and "find_wallet t' s' u' st = None"
  shows "find_wallet t' s' u' st' = None"
  using assms
proof (induction ks arbitrary: st locked)
  case (Cons k ks)
  obtain s u where k: "k = (s, u)" by fastforce
  obtain r st1 where l1: "lockWallet t s u ''INR'' i m st = (r, st1)" by fastforce
  obtain rest where l2: "lock_levels t i m ks st1 = (rest, st')"
    using Cons.prems(1) k l1 by (auto split: prod.splits)
  show ?case using Cons.IH [OF l2 Cons.prems(2) lockWallet_find_other [OF l1 Cons.prems(2,3)]] .
qed simp

text \<open>Every level is locked on the row the final state has for it.\<close>

lemma lock_levels_find:
  assumes lock: "lock_levels t i m ks st = (locked, st')" and inv: "engine_inv st"
    and fresh: "i \<notin> wa_id ` set (wallets st) \<or> find_wallet t Company_Budget None st \<noteq> None"
    and company: "\<forall>(s, u) \<in> set ks. s \<noteq> Company_Budget \<or> u = None"
  shows "\<forall>(k, r) \<in> set locked. r = find_wallet t (fst k) (snd k) st'"
  using assms
proof (induction ks arbitrary: st locked)
  case (Cons k ks)
  obtain s u where k: "k = (s, u)" by fastforce
  obtain r st1 where l1: "lockWallet t s u ''INR'' i m st = (r, st1)" by fastforce
  obtain rest where l2: "lock_levels t i m ks st1 = (rest, st')" "locked = (k, r) # rest"
    using Cons.prems(1) k l1 by (auto split: prod.splits)
  have one: "lock_levels t i m [k] st = ([(k, r)], st1)" using l1 k by simp
  note i1 = lock_levels_inv [OF one Cons.prems(2,3)]
  have c1: "\<forall>(s, u) \<in> set [k]. s \<noteq> Company_Budget \<or> u = None" "\<forall>(s, u) \<in> set ks. s \<noteq> Company_Budget \<or> u = None"
    using Cons.prems(4) by auto
  have inv1: "engine_inv st1" using i1 [OF c1(1)] by blast
  have f1: "i \<notin> wa_id ` set (wallets st1) \<or> find_wallet t Company_Budget None st1 \<noteq> None"
  proof (cases "find_wallet t Company_Budget None st1")
    case None
    then have "s \<noteq> Company_Budget"
      using l1 c1(1) k by (auto simp add: lockWallet_def Let_def find_wallet_def find_append split: option.splits if_splits)
    then have "st1 = st" using l1 by (auto simp add: lockWallet_def split: option.splits)
    then show ?thesis using Cons.prems(3) by simp
  qed simp
  note i2 = lock_levels_inv [OF l2(1) inv1 f1 c1(2)]
  have "r = find_wallet t s u st'"
  proof (cases r)
    case None
    then have "s \<noteq> Company_Budget" "find_wallet t s u st1 = None"
      using l1 by (auto simp add: lockWallet_def Let_def split: option.splits if_splits)
    then show ?thesis using lock_levels_find_other [OF l2(1)] None by simp
  next
    case (Some w)
    then have w: "w \<in> set (wallets st1)" "wa_tenant w = t" "wa_scope w = s" "wa_subject w = u"
      using i1 [OF c1(1)] k Some by simp_all
    have "w \<in> set (wallets st')" "keys_ok (wallets st')"
      using i2 grows_wallets w(1) engine_invD(1) by blast+
    then show ?thesis using find_wallet_keyed [of st' w] w(2-4) Some by simp
  qed
  then have first: "case (k, r) of (k, r) \<Rightarrow> r = find_wallet t (fst k) (snd k) st'" by (simp add: k)
  show ?case
  proof (intro ballI)
    fix x assume "x \<in> set locked"
    then consider "x = (k, r)" | "x \<in> set rest" using l2(2) by auto
    then show "case x of (k, r) \<Rightarrow> r = find_wallet t (fst k) (snd k) st'"
    proof cases
      case 2
      with Cons.IH [OF l2(1) inv1 f1 c1(2)] show ?thesis by (rule bspec)
    qed (use first in simp)
  qed
qed simp

section \<open>No level passes its hard stop\<close>

lemma combineLevels_not_stopped:
  assumes "oc_decision (combineLevels levels) \<noteq> HardStopped" and "l \<in> set levels"
  shows "lv_decision l \<noteq> HardStopped"
  using assms by (auto simp add: combineLevels_def Let_def find_None_iff split: option.splits)

lemma decide_for_not_stopped:
  assumes "lv_decision (decide_for ps est (k, Some w)) \<noteq> HardStopped"
  shows "usedMinor w + reservedMinor w + est \<le> hardStopCeilingMinor (allowanceMinor w) (ps HardStop)"
  using assms by (cases k) (simp add: decide_for_def decideLevel_HardStopped not_less)

lemma distinct_somes:
  assumes "distinct (map fst locked)" and "keys_ok ws"
    and "\<forall>(k, r) \<in> set locked. \<forall>w. r = Some w \<longrightarrow> w \<in> set ws \<and> wa_tenant w = t
           \<and> wa_scope w = fst k \<and> wa_subject w = snd k"
  shows "distinct (map wa_id (somes (map snd locked)))"
  using assms
proof (induction locked)
  case (Cons x locked)
  obtain k r where x: "x = (k, r)" by fastforce
  have ih: "distinct (map wa_id (somes (map snd locked)))" using Cons by simp
  show ?case
  proof (cases r)
    case (Some w)
    have ne: "wa_id v \<noteq> wa_id w" if v: "v \<in> set (somes (map snd locked))" for v
    proof
      assume eq: "wa_id v = wa_id w"
      obtain k' where k': "(k', Some v) \<in> set locked" using v by (auto simp add: set_somes)
      have w: "w \<in> set ws" "wa_scope w = fst k" "wa_subject w = snd k"
        and v': "v \<in> set ws" "wa_scope v = fst k'" "wa_subject v = snd k'"
        using Cons.prems(3) x Some k' by fastforce+
      have "v = w" using distinct_key_unique [of wa_id ws v w] Cons.prems(2) w(1) v'(1) eq by (simp add: keys_ok_def)
      then have "k' = k" using w v' by (simp add: prod_eq_iff)
      then show False using Cons.prems(1) x k' by force
    qed
    have "wa_id w \<notin> wa_id ` set (somes (map snd locked))" using ne by (metis imageE)
    then show ?thesis using ih x Some by simp
  qed (use ih x in simp)
qed simp

text \<open>A reservation that went through, taken apart.\<close>

lemma reserve_parts:
  assumes ok: "reserve c est cur ids m st = Inr ((Some r, out), st')"
  obtains locked st1 where "lock_levels (sp_tenant c) (fst ids) m (levels_of c) st = (locked, st1)"
    "out = combineLevels (map (decide_for (thresholds (sp_tenant c) st) est) locked)"
    "oc_decision out \<noteq> HardStopped"
    "\<exists>h st3. hold_all c (thresholds (sp_tenant c) st) est cur (rs_id r) m (map snd locked) None
       (st1\<lparr>reservations := reservations st1 @ [r]\<rparr>) = Inr (h, st3) \<and> wallets st' = wallets st3
       \<and> reservations st' = reservations st3 \<and> holds st' = holds st3 \<and> ledger st' = ledger st3"
    "\<exists>wid. r = new_reservation c est cur (snd ids) wid m"
proof -
  obtain locked st1 where lock: "lock_levels (sp_tenant c) (fst ids) m (levels_of c) st = (locked, st1)"
    by fastforce
  let ?ps = "thresholds (sp_tenant c) st"
  let ?out = "combineLevels (map (decide_for ?ps est) locked)"
  have ns: "oc_decision ?out \<noteq> HardStopped" using ok lock by (auto simp add: reserve_def Let_def split: if_splits)
  obtain cw where cw: "company_of locked = Some cw"
    using ok lock ns by (cases "company_of locked") (auto simp add: reserve_def Let_def)
  let ?r = "new_reservation c est cur (snd ids) (wa_id cw) m"
  obtain h st3 where h: "hold_all c ?ps est cur (rs_id ?r) m (map snd locked) None
      (st1\<lparr>reservations := reservations st1 @ [?r]\<rparr>) = Inr (h, st3)"
      "r = ?r" "out = ?out" "st' = (case h of None \<Rightarrow> st3 | Some t \<Rightarrow> notifyThreshold (sp_tenant c) t st3)"
    using ok lock ns cw by (auto simp add: reserve_def Let_def result_simps)
  have "wallets st' = wallets st3 \<and> reservations st' = reservations st3 \<and> holds st' = holds st3 \<and> ledger st' = ledger st3"
    using h(4) by (simp add: notifyThreshold_def split: option.splits)
  then show thesis using that [OF lock] h(1-3) ns by blast
qed

lemma reserve_levels:
  assumes ok: "reserve c est cur ids m st = Inr ((Some r, out), st')" and inv: "engine_inv st"
    and fresh: "fst ids \<notin> wa_id ` set (wallets st)"
    and level: "(s, u) \<in> set (levels_of c)" and w: "find_wallet (sp_tenant c) s u st' = Some w"
  obtains w0 where "w = hold_amount est w0"
    "usedMinor w0 + reservedMinor w0 + est
       \<le> hardStopCeilingMinor (allowanceMinor w0) (thresholds (sp_tenant c) st HardStop)"
proof -
  let ?t = "sp_tenant c" and ?ps = "thresholds (sp_tenant c) st"
  obtain locked st1 where parts: "lock_levels ?t (fst ids) m (levels_of c) st = (locked, st1)"
    "out = combineLevels (map (decide_for ?ps est) locked)" "oc_decision out \<noteq> HardStopped"
    "\<exists>h st3. hold_all c ?ps est cur (rs_id r) m (map snd locked) None
       (st1\<lparr>reservations := reservations st1 @ [r]\<rparr>) = Inr (h, st3) \<and> wallets st' = wallets st3
       \<and> reservations st' = reservations st3 \<and> holds st' = holds st3 \<and> ledger st' = ledger st3"
    using reserve_parts [OF ok] by metis
  obtain h st3 where hold: "hold_all c ?ps est cur (rs_id r) m (map snd locked) None
       (st1\<lparr>reservations := reservations st1 @ [r]\<rparr>) = Inr (h, st3)" "wallets st' = wallets st3"
    using parts(4) by blast
  have company: "\<forall>(s, u) \<in> set (levels_of c). s \<noteq> Company_Budget \<or> u = None"
    using levels_of_company by blast
  have fresh': "fst ids \<notin> wa_id ` set (wallets st) \<or> find_wallet ?t Company_Budget None st \<noteq> None"
    using fresh by simp
  note li = lock_levels_inv [OF parts(1) inv fresh' company]
  note lf = lock_levels_find [OF parts(1) inv fresh' company]
  have keys: "map fst locked = levels_of c" "keys_ok (wallets st1)" using li engine_invD(1) by blast+
  have "distinct (map fst locked)" by (simp add: keys levels_of_def)
  then have "distinct (map wa_id (somes (map snd locked)))"
    using distinct_somes [of locked "wallets st1" ?t] keys(2) li by blast
  then have ws: "wallets st' = update_where (\<lambda>x. wa_id x \<in> locked_ids (map snd locked)) (hold_amount est) (wallets st1)"
    using hold_all_wallets [OF hold(1)] hold(2) by simp
  let ?g = "\<lambda>x. if wa_id x \<in> locked_ids (map snd locked) then hold_amount est x else x"
  have found: "find_wallet ?t s u st' = map_option ?g (find_wallet ?t s u st1)"
    unfolding find_wallet_def ws by (rule find_update_where_same) simp
  then have "find_wallet ?t s u st1 \<noteq> None" using w by (metis map_option_is_None option.distinct(1))
  then obtain w0 where w0: "find_wallet ?t s u st1 = Some w0" by blast
  have ww: "w = ?g w0" using found unfolding w w0 by simp
  have "(s, u) \<in> fst ` set locked" using level by (simp flip: keys(1))
  then obtain r0 where r0: "((s, u), r0) \<in> set locked" by (elim imageE) (metis prod.collapse)
  have "r0 = find_wallet ?t s u st1" using bspec [OF lf r0] by simp
  with r0 w0 have mem: "((s, u), Some w0) \<in> set locked" by simp
  then have "wa_id w0 \<in> locked_ids (map snd locked)" by (force simp add: locked_ids_def set_somes)
  moreover have "lv_decision (decide_for ?ps est ((s, u), Some w0)) \<noteq> HardStopped"
    using combineLevels_not_stopped [of "map (decide_for ?ps est) locked"] parts(2,3) mem by auto
  ultimately show thesis using that ww decide_for_not_stopped by simp
qed

end
