(* ===== verification/Cost_Properties.thy ===== *)
theory Cost_Properties
  imports Cost_Effects
begin

text \<open>
  The properties of the cost engine, the budget reset and the calendar they rest on, each with a
  run of the model on which its hypotheses hold.
\<close>

section \<open>A small company\<close>

definition noon :: moment where
  "noon = \<lparr>now_at = 1000000000000, correlation = None\<rparr>"

definition acme_policy :: ai_budget_policy where
  "acme_policy = \<lparr>monthlyAllowanceMinor = 1000, warningPercent = 80, approvalThresholdMinor = 900, hardStopMinor = 1000\<rparr>"

definition acme_books :: cost_state where
  "acme_books = empty_books (\<lambda>t. if t = ''acme'' then Some acme_policy else None) (\<lambda>t. [''ada''])"

definition acme_run :: spend_context where
  "acme_run = \<lparr>sp_tenant = ''acme'', sp_department = None, sp_objective = None, sp_engineAgent = None,
     sp_agentRun = None, sp_actor = Some ''bob'', sp_profile = ''fast'', sp_purpose = ''draft''\<rparr>"

definition acme_day :: "cost_op list" where
  "acme_day = [CompanyWalletOp ''acme'' ''w1'' noon,
     ReserveOp acme_run 300 ''INR'' (''w2'', ''r1'') noon,
     SettleOp ''acme'' ''r1'' 250 None None None noon]"

text \<open>C1. After any run of the cost engine from empty books, reconciliation finds no drift in any company.\<close>

theorem books_always_reconcile:
  assumes "env_ok cost_allowed cost_step ops (empty_books pols admins)"
  shows "snd (reconcile t (run_ops cost_step ops (empty_books pols admins))) = []"
proof -
  let ?st = "run_ops cost_step ops (empty_books pols admins)"
  have inv: "engine_inv ?st" using cost.run_inv [OF engine_inv_empty_books assms] .
  have "reconcileBalance (wa_scope w) (wa_subject w) (balance_of w)
      (map movement (entries_of t (wa_id w) (ledger ?st))) = []"
    if "w \<in> set (wallets ?st)" "wa_tenant w = t" for w
    using engine_invD(2) [OF inv] that
    by (auto simp add: reconcileBalance_Nil_iff ledger_agrees_def backed_def entries_at_def)
  then show ?thesis by (auto simp add: reconcile_def Let_def)
qed

theorem books_always_reconcile_witness:
  "snd (reconcile ''acme'' (run_ops cost_step acme_day (empty_books (\<lambda>t. Some acme_policy) (\<lambda>t. [])))) = []"
  by (rule books_always_reconcile) code_simp

text \<open>C4. A reservation that is made leaves no budget it had to satisfy past its hard stop.\<close>

theorem reserve_within_hard_stop:
  assumes "engine_inv st" and "fst ids \<notin> wa_id ` set (wallets st)"
    and "reserve c est cur ids m st = Inr ((Some r, out), st')"
    and "(s, u) \<in> set (levels_of c)" and "find_wallet (sp_tenant c) s u st' = Some w"
  shows "usedMinor w + reservedMinor w
         \<le> hardStopCeilingMinor (allowanceMinor w) (thresholds (sp_tenant c) st HardStop)"
proof -
  obtain w0 where "w = hold_amount est w0" "usedMinor w0 + reservedMinor w0 + est
      \<le> hardStopCeilingMinor (allowanceMinor w0) (thresholds (sp_tenant c) st HardStop)"
    using reserve_levels [OF assms(3,1,2,4,5)] .
  then show ?thesis by (simp add: algebra_simps)
qed

definition acme_open :: cost_state where
  "acme_open = run_ops cost_step [CompanyWalletOp ''acme'' ''w1'' noon] acme_books"

lemma acme_open_inv: "engine_inv acme_open"
  unfolding acme_open_def acme_books_def by (rule cost.run_inv) (simp, code_simp)

definition acme_held :: "(reservation option \<times> SpendCheckOutcome) \<times> cost_state" where
  "acme_held = projr (reserve acme_run 300 ''INR'' (''w2'', ''r1'') noon acme_open)"

lemma projr_made:
  "\<not> isl x \<Longrightarrow> fst (fst (projr x)) \<noteq> None
   \<Longrightarrow> x = Inr ((Some (the (fst (fst (projr x)))), snd (fst (projr x))), snd (projr x))"
  by (cases x) auto

theorem reserve_within_hard_stop_witness:
  "\<exists>r out st' w. reserve acme_run 300 ''INR'' (''w2'', ''r1'') noon acme_open = Inr ((Some r, out), st')
     \<and> find_wallet ''acme'' Company_Budget None st' = Some w \<and> reservedMinor w = 300
     \<and> usedMinor w + reservedMinor w \<le> hardStopCeilingMinor (allowanceMinor w) (thresholds ''acme'' acme_open HardStop)"
proof -
  let ?r = "the (fst (fst acme_held))" and ?st' = "snd acme_held"
  let ?w = "the (find_wallet ''acme'' Company_Budget None ?st')"
  have 1: "reserve acme_run 300 ''INR'' (''w2'', ''r1'') noon acme_open = Inr ((Some ?r, snd (fst acme_held)), ?st')"
    unfolding acme_held_def by (rule projr_made) code_simp+
  have 2: "find_wallet (sp_tenant acme_run) Company_Budget None ?st' = Some ?w" "reservedMinor ?w = 300"
    by code_simp+
  have "fst (''w2'', ''r1'') \<notin> wa_id ` set (wallets acme_open)" "(Company_Budget, None) \<in> set (levels_of acme_run)"
    by code_simp+
  from reserve_within_hard_stop [OF acme_open_inv this(1) 1 this(2) 2(1)]
  show ?thesis using 1 2 by (intro exI [of _ ?r] exI [of _ "snd (fst acme_held)"] exI [of _ ?st'] exI [of _ ?w])
      (simp add: acme_run_def)
qed



section \<open>Settling once\<close>

lemma find_closed:
  assumes "distinct (map rs_id rs)" and "r \<in> set rs" and "rs_id (g r) = rs_id r" "rs_tenant (g r) = rs_tenant r"
  shows "List.find (\<lambda>x. rs_tenant x = rs_tenant r \<and> rs_id x = rs_id r)
           (update_where (\<lambda>x. rs_id x = rs_id r) g rs) = Some (g r)"
  using assms
proof (induction rs)
  case (Cons x rs)
  show ?case
  proof (cases "x = r")
    case True
    then show ?thesis using Cons.prems by (simp add: update_where_Cons)
  next
    case False
    then have "rs_id x \<noteq> rs_id r" "r \<in> set rs" using Cons.prems by (auto simp add: rev_image_eqI)
    then show ?thesis using Cons by (simp add: update_where_Cons)
  qed
qed simp

text \<open>
  C25. A settlement charges a reservation once: whoever settles or releases it again is refused, and
  the refusal names the state it is in.
\<close>

theorem settle_exactly_once:
  assumes "engine_inv st" and "settle t rid actual gc pv tokens m st = Inr (r', st')"
  shows "(0 \<le> a \<longrightarrow> settle t rid a gc' pv' tokens' m' st' = Inl (SettledTwice Settled))
    \<and> release t rid reason s m' st' = Inl (AlreadyClosed Settled)"
proof -
  obtain r st1 where r: "lockReservation t rid st = Inr r" "rs_state r = Held"
      "settle_all t r actual pv tokens m (holds_of t (rs_id r) st) st = Inr st1"
      "st' = close_reservation (rs_id r) (as_settled actual gc (now_at m)) st1"
    using assms(2) by (auto simp add: settle_def result_simps split: if_splits)
  note l = lockReservation_Inr [OF r(1)]
  have "reservations st1 = reservations st" using settle_all_appends [OF r(3)] by (simp add: appends_def)
  then have "lockReservation t rid st' = Inr (as_settled actual gc (now_at m) r)"
    using find_closed [of "reservations st" r "as_settled actual gc (now_at m)"] l engine_invD(4) [OF assms(1)] r(4)
    by (simp add: lockReservation_def close_reservation_def refs_ok_def as_settled_def)
  then show ?thesis
    by (simp add: settle_def release_def as_settled_def)
qed

definition acme_reserved :: cost_state where
  "acme_reserved = run_ops cost_step (take 2 acme_day) acme_books"

lemma acme_reserved_inv: "engine_inv acme_reserved"
  unfolding acme_reserved_def acme_books_def by (rule cost.run_inv) (simp, code_simp)

theorem settle_exactly_once_witness:
  "\<exists>st'. settle ''acme'' ''r1'' 250 None None None noon acme_reserved = Inr st'
     \<and> settle ''acme'' ''r1'' 250 None None None noon (snd st') = Inl (SettledTwice Settled)
     \<and> release ''acme'' ''r1'' (ClosedBecause ''late'') None noon (snd st') = Inl (AlreadyClosed Settled)"
proof -
  let ?x = "settle ''acme'' ''r1'' 250 None None None noon acme_reserved"
  have "\<not> isl ?x" by code_simp
  then have x: "?x = Inr (fst (projr ?x), snd (projr ?x))" by (cases ?x) auto
  show ?thesis
    using x settle_exactly_once [OF acme_reserved_inv x, of 250 None None None noon "ClosedBecause ''late''" None]
    by (intro exI [of _ "projr ?x"]) simp
qed



text \<open>
  C33. Over any run no balance is negative and what a wallet has reserved is exactly what its open
  reservations hold on it, so the database's checks on the row never fire.
\<close>

theorem balances_stay_sound:
  assumes "env_ok cost_allowed cost_step ops (empty_books pols admins)"
    and "w \<in> set (wallets (run_ops cost_step ops (empty_books pols admins)))"
  shows "0 \<le> allowanceMinor w \<and> 0 \<le> usedMinor w \<and> 0 \<le> reservedMinor w
    \<and> reservedMinor w = held_on (reservations (run_ops cost_step ops (empty_books pols admins)))
        (holds (run_ops cost_step ops (empty_books pols admins))) (wa_id w)"
proof -
  have inv: "engine_inv (run_ops cost_step ops (empty_books pols admins))"
    using cost.run_inv [OF engine_inv_empty_books assms(1)] .
  show ?thesis
    using engine_invD(3,5) [OF inv] engine_inv_reserved [OF inv assms(2)] assms(2)
    by (simp add: amounts_ok_def holds_agree_def)
qed

theorem balances_stay_sound_witness:
  "\<exists>w \<in> set (wallets (run_ops cost_step (take 2 acme_day) (empty_books (\<lambda>t. Some acme_policy) (\<lambda>t. [])))).
     reservedMinor w = 300 \<and> 0 \<le> reservedMinor w"
proof -
  let ?st = "run_ops cost_step (take 2 acme_day) (empty_books (\<lambda>t. Some acme_policy) (\<lambda>t. []))"
  have env: "env_ok cost_allowed cost_step (take 2 acme_day) (empty_books (\<lambda>t. Some acme_policy) (\<lambda>t. []))"
    by code_simp
  have "wallets ?st \<noteq> []" "reservedMinor (hd (wallets ?st)) = 300" by code_simp+
  then show ?thesis using balances_stay_sound [OF env, of "hd (wallets ?st)"] by (intro bexI [of _ "hd (wallets ?st)"]) auto
qed

text \<open>
  History is append-only: after any run the ledger written before is a prefix of the ledger, and
  every reservation that was closed is still there, unchanged.
\<close>

theorem history_is_append_only:
  assumes "engine_inv st" and "env_ok cost_allowed cost_step ops st"
  shows "prefix (ledger st) (ledger (run_ops cost_step ops st))
    \<and> (\<forall>r \<in> set (reservations st). rs_state r \<noteq> Held \<longrightarrow> r \<in> set (reservations (run_ops cost_step ops st)))"
  using cost.run_rel [OF assms] by (simp add: preserves_history_def)

theorem history_is_append_only_witness:
  "prefix (ledger acme_open) (ledger (run_ops cost_step (tl acme_day) acme_open)) \<and> ledger acme_open \<noteq> []"
proof -
  have "env_ok cost_allowed cost_step (tl acme_day) acme_open" "ledger acme_open \<noteq> []" by code_simp+
  then show ?thesis using history_is_append_only [OF acme_open_inv] by blast
qed

section \<open>Checking before spending\<close>

lemma lockWallet_existing:
  "find_wallet t s u st = Some w \<Longrightarrow> lockWallet t s u c i m st = (Some w, st)"
  by (simp add: lockWallet_def)

lemma lock_levels_existing:
  assumes "find_wallet t Company_Budget None st \<noteq> None" and "\<forall>(s, u) \<in> set ks. s \<noteq> Company_Budget \<or> u = None"
  shows "lock_levels t i m ks st = (map (\<lambda>(s, u). ((s, u), find_wallet t s u st)) ks, st)"
  using assms(2)
proof (induction ks)
  case (Cons k ks)
  obtain s u where k: "k = (s, u)" by fastforce
  have "lockWallet t s u ''INR'' i m st = (find_wallet t s u st, st)"
    using assms(1) Cons.prems k by (cases "find_wallet t s u st") (auto simp add: lockWallet_def)
  then show ?case using Cons k by simp
qed simp

text \<open>
  For a company that has its wallet, the check answers exactly what the reservation would decide:
  the same decision, binding level and reasons, and a hard stop is the only way to make none.
\<close>

theorem check_agrees_with_reserve:
  assumes "find_wallet (sp_tenant c) Company_Budget None st \<noteq> None"
    and "reserve c est cur ids m st = Inr ((made, out), st')"
  shows "out = check_spend c est st"
proof -
  have "\<forall>(s, u) \<in> set (levels_of c). s \<noteq> Company_Budget \<or> u = None"
    using levels_of_company by blast
  note locked = lock_levels_existing [OF assms(1) this, of "fst ids" m]
  have "decide_for ps est \<circ> (\<lambda>(s, u). ((s, u), find_wallet (sp_tenant c) s u st))
      = (\<lambda>(s, u). decide_for ps est ((s, u), find_wallet (sp_tenant c) s u st))" for ps
    by (rule ext) (simp split: prod.split)
  then show ?thesis
    using assms(2) locked
    by (auto simp add: reserve_def check_spend_def Let_def result_simps split: if_splits option.splits)
qed

theorem check_agrees_with_reserve_witness:
  "\<exists>made st'. reserve acme_run 950 ''INR'' (''w2'', ''r1'') noon acme_open
       = Inr ((made, check_spend acme_run 950 acme_open), st')
     \<and> oc_decision (check_spend acme_run 950 acme_open) = NeedsApproval"
proof -
  let ?x = "reserve acme_run 950 ''INR'' (''w2'', ''r1'') noon acme_open"
  have "\<not> isl ?x" by code_simp
  then have x: "?x = Inr ((fst (fst (projr ?x)), snd (fst (projr ?x))), snd (projr ?x))" by (cases ?x) auto
  have c: "find_wallet (sp_tenant acme_run) Company_Budget None acme_open \<noteq> None"
    and d: "oc_decision (check_spend acme_run 950 acme_open) = NeedsApproval" by code_simp+
  show ?thesis using x d unfolding check_agrees_with_reserve [OF c x] by blast
qed

text \<open>
  C40. An estimate covers every call within its token limit, whatever the split between input and
  output tokens: reserving it never reserves less than the call can cost.
\<close>

theorem estimate_covers_the_call:
  assumes "0 \<le> maxTokens" and "0 \<le> i" and "0 \<le> out" and "maxTokens * max i out < 2 ^ 53"
    and "0 \<le> ti" and "0 \<le> to" and "ti + to \<le> maxTokens"
  shows "ti * i + to * out \<le> 1000000 * estimateMinor maxTokens i out"
  using estimateMinor_covers [OF assms] .

theorem estimate_covers_the_call_witness:
  "(1000 * 300 + 3000 * 1500 :: int) \<le> 1000000 * estimateMinor 4000 300 1500"
  using estimate_covers_the_call [of 4000 300 1500 1000 3000] by simp

section \<open>Periods\<close>

text \<open>
  The calendar advances: a recurring allowance's next boundary is strictly later, by whole days
  for a daily or weekly cadence, and for a monthly one it falls in the following month, on the same
  day of the month or on that month's last day, at the same time of day.
\<close>

theorem next_reset_is_the_next_period:
  assumes "0 \<le> t"
  shows "nextReset t Daily = Some (t + 86400000) \<and> nextReset t Weekly = Some (t + 7 * 86400000)
    \<and> (\<exists>n. nextReset t Monthly = Some n \<and> t < n
         \<and> (getUTCFullYear n, getUTCMonth n) = next_month (getUTCFullYear t, getUTCMonth t)
         \<and> getUTCDate n = min (getUTCDate t) (days_in_month (getUTCFullYear n) (getUTCMonth n))
         \<and> time_within_day n = time_within_day t)"
proof -
  obtain y' m' where n: "next_month (getUTCFullYear t, getUTCMonth t) = (y', m')" by fastforce
  note ym = year_month_correct [OF fields_of [of t]]
  note nm = make_day_next_month [OF ym(1,2) n]
  have "\<not> (0 \<le> y' \<and> y' \<le> 99)"
    using n getUTCFullYear_epoch [OF assms] by (auto simp add: next_month_def split: if_splits)
  note next_is = nextReset_monthly [OF n this]
  let ?d = "min (getUTCDate t) (days_in_month y' m')"
  have "1 \<le> ?d" "?d \<le> days_in_month y' m'"
    using date_of_day_bounds(1) [OF fields_of [of t]] days_in_month_28 [OF nm(2,3), of y']
    by (simp_all add: getUTCDate_def)
  note fields = fields_of_make_date [OF nm(2,3) this time_within_day_bounds]
  have "time_within_day (make_date (make_day y' m' ?d) (time_within_day t)) = time_within_day t" by simp
  then show ?thesis
    using nextReset_advances [OF assms next_is] next_is fields n
    by (simp add: nextReset_def setUTCDate_shift ms_per_day_def)
qed

text \<open>31 January 2024, 10:00: the allowance returns on 29 February.\<close>

theorem next_reset_is_the_next_period_witness:
  "nextReset 1706695200000 Monthly = Some 1709200800000 \<and> nextReset 1706695200000 Daily = Some 1706781600000"
proof -
  have "nextReset 1706695200000 Monthly = Some 1709200800000" by code_simp
  then show ?thesis using next_reset_is_the_next_period [of 1706695200000] by simp
qed

text \<open>
  When a period turns over what was not spent lapses and exactly the recurring allowance is
  available again (less what the wallet had overdrawn); usage and holds are untouched and the
  boundary moves to the next one.
\<close>

theorem period_reset_grants_exactly:
  assumes "engine_inv st" and "find_by_id wid st = Some w" and "period_due w now = Some (b, g)"
  shows "\<exists>st' w'. reset_period t w b g m st = Inr st' \<and> find_by_id wid st' = Some w'
    \<and> remainingMinor w' = min 0 (remainingMinor w) + max 0 g
    \<and> usedMinor w' = usedMinor w \<and> reservedMinor w' = reservedMinor w
    \<and> wa_periodStart w' = b \<and> wa_resetsAt w' = nextReset b (wa_cadence w)"
proof -
  have w: "w \<in> set (wallets st)" using find_by_id_Some [OF assms(2)] by simp
  have b: "wa_resetsAt w = Some b" using assms(3) by (simp add: period_due_Some)
  have "0 \<le> usedMinor w + reservedMinor w"
    using engine_inv_reserved [OF assms(1) w] engine_invD(5) [OF assms(1)] w by (simp add: amounts_ok_def)
  from reset_period_find [OF assms(2) b this, of t g m] show ?thesis by metis
qed

definition daily_books :: cost_state where
  "daily_books = run_ops cost_step
     [SetAllowanceOp ''acme'' ''ada'' Person_Budget (Some ''bob'') 100 ''daily'' (Some Daily) (''w1'', ''w2'') noon]
     acme_books"

lemma daily_books_inv: "engine_inv daily_books"
  unfolding daily_books_def acme_books_def by (rule cost.run_inv) (simp, code_simp)

lemma some_the: "x \<noteq> None \<Longrightarrow> x = Some (the x)"
  by (cases x) auto

theorem period_reset_grants_exactly_witness:
  "\<exists>st' w'. reset_period ''acme'' (the (find_by_id ''w2'' daily_books)) 1000086400000 100 noon daily_books = Inr st'
     \<and> find_by_id ''w2'' st' = Some w' \<and> wa_periodStart w' = 1000086400000"
proof -
  have "find_by_id ''w2'' daily_books \<noteq> None" by code_simp
  note w = some_the [OF this]
  have "period_due (the (find_by_id ''w2'' daily_books)) 1000100000000 = Some (1000086400000, 100)" by code_simp
  from period_reset_grants_exactly [OF daily_books_inv w this] show ?thesis by blast
qed




end
