(* ===== verification/Authorization_Types.thy ===== *)
theory Authorization_Types
  imports UbossPrelude
begin

text \<open>
  The vocabulary of access control, \<open>packages/types/src/authorization.ts\<close>: user types and their
  ceilings, roles, scopes from the narrowest to the widest, modules, actions, policy layers and the
  permission set.  A module key is the string the code uses; the closed sets of the code are
  datatypes, read from strings by the \<open>is...\<close> guards.  Scopes and layers are linear orders.
\<close>

section \<open>Actions and modules\<close>

datatype Action =
    ActView | ActComment | ActCreate | ActEditDraft | ActAssign | ActApprove | ActPublish | ActRun
  | ActSchedule | ActPause | ActExport | ActManageAccess | ActAdminister | ActAudit

definition ACTIONS :: "Action list" where
  "ACTIONS = [ActView, ActComment, ActCreate, ActEditDraft, ActAssign, ActApprove, ActPublish, ActRun,
     ActSchedule, ActPause, ActExport, ActManageAccess, ActAdminister, ActAudit]"

fun action_name :: "Action \<Rightarrow> string" where
  "action_name ActView = ''View''"
| "action_name ActComment = ''Comment''"
| "action_name ActCreate = ''Create''"
| "action_name ActEditDraft = ''EditDraft''"
| "action_name ActAssign = ''Assign''"
| "action_name ActApprove = ''Approve''"
| "action_name ActPublish = ''Publish''"
| "action_name ActRun = ''Run''"
| "action_name ActSchedule = ''Schedule''"
| "action_name ActPause = ''Pause''"
| "action_name ActExport = ''Export''"
| "action_name ActManageAccess = ''ManageAccess''"
| "action_name ActAdminister = ''Administer''"
| "action_name ActAudit = ''Audit''"

text \<open>\<open>isAction\<close>: the action a string names.\<close>

definition isAction :: "string \<Rightarrow> Action option" where
  "isAction s = List.find (\<lambda>a. action_name a = s) ACTIONS"

lemma set_ACTIONS [simp]: "set ACTIONS = UNIV"
proof -
  have "a \<in> set ACTIONS" for a by (cases a) (simp_all add: ACTIONS_def)
  then show ?thesis by blast
qed

lemma inj_action_name: "action_name a = action_name b \<longleftrightarrow> a = b"
  by (cases a; cases b) simp_all

lemma isAction_name [simp]: "isAction (action_name a) = Some a"
  unfolding isAction_def inj_action_name by (cases a) (simp_all add: ACTIONS_def)

lemma isAction_Some: "isAction s = Some a \<longleftrightarrow> s = action_name a"
  using isAction_name find_SomeD unfolding isAction_def by fastforce

definition WRITE_ACTIONS :: "Action list" where
  "WRITE_ACTIONS = [ActCreate, ActEditDraft, ActAssign, ActApprove, ActPublish, ActRun, ActSchedule,
     ActPause, ActManageAccess, ActAdminister]"

definition isWriteAction :: "Action \<Rightarrow> bool" where
  "isWriteAction a \<longleftrightarrow> a \<in> set WRITE_ACTIONS"

definition HIGH_RISK_ACTIONS :: "Action list" where
  "HIGH_RISK_ACTIONS = [ActApprove, ActPublish, ActManageAccess, ActAdminister, ActExport]"

type_synonym module_key = string

definition COMPANY_MODULES :: "module_key list" where
  "COMPANY_MODULES = [''dashboard'', ''hierarchy'', ''objective'', ''agent-builder'', ''todo'', ''agents'',
     ''executor'', ''approvals'', ''performance'', ''reports'', ''users'', ''roles'', ''profile-search'', ''settings'']"

definition PLATFORM_MODULES :: "module_key list" where
  "PLATFORM_MODULES = [''platform-dashboard'', ''companies'', ''create-company'', ''plans'', ''billing'',
     ''credits'', ''providers'', ''skills'', ''testing'', ''release'', ''dev-ops'', ''support'', ''security'',
     ''system-health'', ''platform-settings'']"

definition MODULE_KEYS :: "module_key list" where
  "MODULE_KEYS = COMPANY_MODULES @ PLATFORM_MODULES"

definition isModuleKey :: "string \<Rightarrow> bool" where
  "isModuleKey s \<longleftrightarrow> s \<in> set MODULE_KEYS"

definition isCompanyModule :: "module_key \<Rightarrow> bool" where
  "isCompanyModule m \<longleftrightarrow> m \<in> set COMPANY_MODULES"

definition isPlatformModule :: "module_key \<Rightarrow> bool" where
  "isPlatformModule m \<longleftrightarrow> m \<in> set PLATFORM_MODULES"

section \<open>User types and roles\<close>

datatype UserType = InternalUser | ExternalGuest | PlatformUser

fun USER_TYPE_CEILINGS :: "UserType \<Rightarrow> Action list" where
  "USER_TYPE_CEILINGS InternalUser = []"
| "USER_TYPE_CEILINGS ExternalGuest =
     [ActApprove, ActPublish, ActRun, ActSchedule, ActPause, ActManageAccess, ActAdminister, ActAudit, ActExport]"
| "USER_TYPE_CEILINGS PlatformUser = [ActApprove, ActAssign, ActPublish, ActRun, ActSchedule, ActPause]"

datatype RoleKind = Employee | Manager | Head | CompanyAdmin | ApproverRole | Auditor | CustomRole

section \<open>Scopes\<close>

datatype ScopeKind = OwnWork | SelectedResource | TeamSubtree | Department | MultipleDepartments | WholeCompany

fun SCOPE_BREADTH :: "ScopeKind \<Rightarrow> nat" where
  "SCOPE_BREADTH OwnWork = 0"
| "SCOPE_BREADTH SelectedResource = 1"
| "SCOPE_BREADTH TeamSubtree = 2"
| "SCOPE_BREADTH Department = 3"
| "SCOPE_BREADTH MultipleDepartments = 4"
| "SCOPE_BREADTH WholeCompany = 5"

lemma SCOPE_BREADTH_inj: "SCOPE_BREADTH a = SCOPE_BREADTH b \<longleftrightarrow> a = b"
  by (cases a; cases b) simp_all

definition SCOPE_KINDS :: "ScopeKind list" where
  "SCOPE_KINDS = [OwnWork, SelectedResource, TeamSubtree, Department, MultipleDepartments, WholeCompany]"

fun scope_name :: "ScopeKind \<Rightarrow> string" where
  "scope_name OwnWork = ''OwnWork''"
| "scope_name SelectedResource = ''SelectedResource''"
| "scope_name TeamSubtree = ''TeamSubtree''"
| "scope_name Department = ''Department''"
| "scope_name MultipleDepartments = ''MultipleDepartments''"
| "scope_name WholeCompany = ''WholeCompany''"

definition isScopeKind :: "string \<Rightarrow> ScopeKind option" where
  "isScopeKind s = List.find (\<lambda>k. scope_name k = s) SCOPE_KINDS"

text \<open>The breadth orders the scopes: \<open>a \<le> b\<close> when \<open>a\<close> is no wider than \<open>b\<close>.\<close>

instantiation ScopeKind :: linorder
begin

definition less_eq_ScopeKind :: "ScopeKind \<Rightarrow> ScopeKind \<Rightarrow> bool" where
  "less_eq_ScopeKind a b \<longleftrightarrow> SCOPE_BREADTH a \<le> SCOPE_BREADTH b"

definition less_ScopeKind :: "ScopeKind \<Rightarrow> ScopeKind \<Rightarrow> bool" where
  "less_ScopeKind a b \<longleftrightarrow> SCOPE_BREADTH a < SCOPE_BREADTH b"

instance
  by standard (auto simp add: less_eq_ScopeKind_def less_ScopeKind_def SCOPE_BREADTH_inj)

end

definition isScopeNoWiderThan :: "ScopeKind \<Rightarrow> ScopeKind \<Rightarrow> bool" where
  "isScopeNoWiderThan candidate ceiling \<longleftrightarrow> SCOPE_BREADTH candidate \<le> SCOPE_BREADTH ceiling"

definition narrowerScope :: "ScopeKind \<Rightarrow> ScopeKind \<Rightarrow> ScopeKind" where
  "narrowerScope a b = (if SCOPE_BREADTH a \<le> SCOPE_BREADTH b then a else b)"

lemma isScopeNoWiderThan_le [simp]: "isScopeNoWiderThan a b \<longleftrightarrow> a \<le> b"
  by (simp add: isScopeNoWiderThan_def less_eq_ScopeKind_def)

lemma narrowerScope_min [simp]: "narrowerScope a b = min a b"
  by (simp add: narrowerScope_def min_def less_eq_ScopeKind_def)

lemma WholeCompany_widest [simp]: "s \<le> WholeCompany"
  by (cases s) (simp_all add: less_eq_ScopeKind_def)

lemma OwnWork_narrowest [simp]: "OwnWork \<le> s"
  by (simp add: less_eq_ScopeKind_def)

section \<open>Policy layers and controls\<close>

datatype PolicyLayer = PlatformLayer | CompanyLayer | DepartmentLayer | ObjectiveLayer | EngineAgentLayer

fun POLICY_LAYER_ORDER :: "PolicyLayer \<Rightarrow> nat" where
  "POLICY_LAYER_ORDER PlatformLayer = 0"
| "POLICY_LAYER_ORDER CompanyLayer = 1"
| "POLICY_LAYER_ORDER DepartmentLayer = 2"
| "POLICY_LAYER_ORDER ObjectiveLayer = 3"
| "POLICY_LAYER_ORDER EngineAgentLayer = 4"

fun layer_name :: "PolicyLayer \<Rightarrow> string" where
  "layer_name PlatformLayer = ''Platform''"
| "layer_name CompanyLayer = ''Company''"
| "layer_name DepartmentLayer = ''Department''"
| "layer_name ObjectiveLayer = ''Objective''"
| "layer_name EngineAgentLayer = ''EngineAgent''"

definition POLICY_LAYERS :: "PolicyLayer list" where
  "POLICY_LAYERS = [PlatformLayer, CompanyLayer, DepartmentLayer, ObjectiveLayer, EngineAgentLayer]"

definition isPolicyLayer :: "string \<Rightarrow> PolicyLayer option" where
  "isPolicyLayer s = List.find (\<lambda>l. layer_name l = s) POLICY_LAYERS"

datatype PolicyEffect = Deny | Allow

datatype SodRule = NoSelfApproval | FourEyes

definition isSodRule :: "string \<Rightarrow> SodRule option" where
  "isSodRule s = (if s = ''NoSelfApproval'' then Some NoSelfApproval
     else if s = ''FourEyes'' then Some FourEyes else None)"

section \<open>Permission sets\<close>

text \<open>A record of modules to actions, in insertion order, each module at most once.\<close>

type_synonym permission_set = "(module_key \<times> Action list) list"

definition actions_on :: "permission_set \<Rightarrow> module_key \<Rightarrow> Action list" where
  "actions_on p m = (case map_of p m of None \<Rightarrow> [] | Some xs \<Rightarrow> xs)"

text \<open>
  What \<open>sanitisePermissionSet\<close> reads: a list (its elements strings, or \<open>None\<close> for anything else) or
  a value that is no list.
\<close>

datatype raw_value = Elements "string option list" | NotAList

text \<open>\<open>None\<close> is a value that is no object; the keys of an object are distinct.\<close>

definition sanitisePermissionSet :: "(string \<times> raw_value) list option \<Rightarrow> permission_set" where
  "sanitisePermissionSet value =
     (case value of
        None \<Rightarrow> []
      | Some entries \<Rightarrow>
          concat (map (\<lambda>(module, actions).
            if \<not> isModuleKey module then []
            else (case actions of
                    NotAList \<Rightarrow> []
                  | Elements es \<Rightarrow>
                      (let valid = List.map_filter (\<lambda>e. Option.bind e isAction) es
                       in if valid = [] then [] else [(module, valid)]))) entries))"

lemma sanitise_known:
  assumes "(m, acts) \<in> set (sanitisePermissionSet v)"
  shows "isModuleKey m \<and> acts \<noteq> []"
  using assms by (auto simp add: sanitisePermissionSet_def Let_def split: option.splits if_splits raw_value.splits)

lemma actions_on_in: "a \<in> set (actions_on p m) \<Longrightarrow> \<exists>acts. (m, acts) \<in> set p \<and> a \<in> set acts"
  by (auto simp add: actions_on_def split: option.splits dest: map_of_SomeD [OF sym])

end
