(* ===== verification/Scope_Evaluation.thy ===== *)
theory Scope_Evaluation
  imports Authorization_Types
begin

text \<open>
  Scope and separation of duties, \<open>packages/types/src/scope-evaluation.ts\<close>: whether a resource is
  inside a grant, how the grants of several assignments are summarised, and the controls that keep
  one person from deciding twice.  The reporting hierarchy is an interface: a function from tenant,
  manager and subject, present or not.
\<close>

section \<open>Grants and resources\<close>

record resource =
  re_id :: uid
  ownerUserId :: "uid option"
  createdByUserId :: "uid option"
  re_departmentId :: "uid option"
  priorActorUserIds :: "uid list option"

record scope_grant =
  gr_kind :: ScopeKind
  selectedResourceIds :: "uid list option"
  departmentIds :: "uid list option"

definition ids :: "uid list option \<Rightarrow> uid list" where
  "ids xs = (case xs of None \<Rightarrow> [] | Some l \<Rightarrow> l)"

lemma ids_simps [simp]: "ids None = []" "ids (Some l) = l"
  by (simp_all add: ids_def)

datatype scope_detail =
    WholeCompanyScope | BelongsToActor | ExplicitlySelected | InAssignedDepartment | InActorsSubtree
  | BelongsToSomeoneElse | NothingSelected | NotAmongSelected | NoDepartmentAssigned
  | ResourceHasNoDepartment | OutsideDepartments | NeedsHierarchy | NeedsOwner | OutsideSubtree

datatype scope_refusal = OutOfScope | ScopeUnevaluable

datatype scope_outcome = InScope scope_detail | NotInScope scope_refusal scope_detail

fun in_scope :: "scope_outcome \<Rightarrow> bool" where
  "in_scope (InScope d) = True"
| "in_scope (NotInScope r d) = False"

definition isInScope :: "scope_grant \<Rightarrow> resource \<Rightarrow> uid \<Rightarrow> scope_outcome" where
  "isInScope grant r actor =
     (case gr_kind grant of
        WholeCompany \<Rightarrow> InScope WholeCompanyScope
      | OwnWork \<Rightarrow>
          if ownerUserId r = Some actor then InScope BelongsToActor
          else NotInScope OutOfScope BelongsToSomeoneElse
      | SelectedResource \<Rightarrow>
          (let selected = ids (selectedResourceIds grant)
           in if re_id r \<in> set selected then InScope ExplicitlySelected
              else NotInScope OutOfScope (if selected = [] then NothingSelected else NotAmongSelected))
      | TeamSubtree \<Rightarrow> NotInScope ScopeUnevaluable NeedsHierarchy
      | _ \<Rightarrow>
          (let departments = ids (departmentIds grant)
           in if departments = [] then NotInScope OutOfScope NoDepartmentAssigned
              else (case re_departmentId r of
                      None \<Rightarrow> NotInScope OutOfScope ResourceHasNoDepartment
                    | Some d \<Rightarrow> if d \<in> set departments then InScope InAssignedDepartment
                                else NotInScope OutOfScope OutsideDepartments)))"

text \<open>\<open>isInSubtree tenant manager subject\<close>.\<close>

type_synonym hierarchy_resolver = "uid \<Rightarrow> uid \<Rightarrow> uid \<Rightarrow> bool"

definition isInScopeAsync ::
  "scope_grant \<Rightarrow> resource \<Rightarrow> uid \<Rightarrow> uid \<Rightarrow> hierarchy_resolver option \<Rightarrow> scope_outcome" where
  "isInScopeAsync grant r actor tenant hierarchy =
     (if gr_kind grant \<noteq> TeamSubtree then isInScope grant r actor
      else (case hierarchy of
              None \<Rightarrow> isInScope grant r actor
            | Some isInSubtree \<Rightarrow>
                (case ownerUserId r of
                   None \<Rightarrow> NotInScope OutOfScope NeedsOwner
                 | Some owner \<Rightarrow>
                     if owner = actor then InScope BelongsToActor
                     else if isInSubtree tenant actor owner then InScope InActorsSubtree
                     else NotInScope OutOfScope OutsideSubtree)))"

section \<open>Several grants\<close>

text \<open>The rank the reduction compares by is a table of its own, with the values of the breadth.\<close>

fun SCOPE_RANK :: "ScopeKind \<Rightarrow> nat" where
  "SCOPE_RANK OwnWork = 0"
| "SCOPE_RANK SelectedResource = 1"
| "SCOPE_RANK TeamSubtree = 2"
| "SCOPE_RANK Department = 3"
| "SCOPE_RANK MultipleDepartments = 4"
| "SCOPE_RANK WholeCompany = 5"

definition mergeSameKind :: "scope_grant \<Rightarrow> scope_grant \<Rightarrow> scope_grant option" where
  "mergeSameKind a b =
     (if gr_kind a \<noteq> gr_kind b then None
      else if gr_kind a = SelectedResource then
        Some \<lparr>gr_kind = gr_kind a,
              selectedResourceIds = Some (dedupe (ids (selectedResourceIds a) @ ids (selectedResourceIds b))),
              departmentIds = None\<rparr>
      else if gr_kind a = Department \<or> gr_kind a = MultipleDepartments then
        (let departments = dedupe (ids (departmentIds a) @ ids (departmentIds b))
         in Some \<lparr>gr_kind = (if 1 < length departments then MultipleDepartments else gr_kind a),
                  selectedResourceIds = None, departmentIds = Some departments\<rparr>)
      else Some a)"

definition wider :: "scope_grant \<Rightarrow> scope_grant \<Rightarrow> scope_grant" where
  "wider widest candidate =
     (case mergeSameKind widest candidate of
        Some merged \<Rightarrow> merged
      | None \<Rightarrow> if SCOPE_RANK (gr_kind widest) < SCOPE_RANK (gr_kind candidate) then candidate else widest)"

definition widestGrant :: "scope_grant list \<Rightarrow> scope_grant option" where
  "widestGrant grants = (case grants of [] \<Rightarrow> None | g # gs \<Rightarrow> Some (foldl wider g gs))"

section \<open>Separation of duties\<close>

record sod_policy =
  so_action :: Action
  so_module :: "string option"
  so_rule :: SodRule
  so_mandatory :: bool
  so_reason :: string

datatype sod_detail =
    NoControlApplies | ControlsSatisfied | ControlReason string | AgentCannotSatisfy string | AlreadyActed string

datatype sod_outcome = Satisfied sod_detail | Violated SodRule sod_detail

definition sod_applies :: "Action \<Rightarrow> string \<Rightarrow> sod_policy \<Rightarrow> bool" where
  "sod_applies action module p \<longleftrightarrow>
     so_action p = action \<and> (case so_module p of None \<Rightarrow> True | Some m \<Rightarrow> m = module)"

fun check_controls :: "sod_policy list \<Rightarrow> uid \<Rightarrow> resource \<Rightarrow> bool \<Rightarrow> bool \<Rightarrow> sod_outcome" where
  "check_controls [] actor r agent admin = Satisfied ControlsSatisfied"
| "check_controls (p # ps) actor r agent admin =
     (if so_rule p = NoSelfApproval then
        (if admin then check_controls ps actor r agent admin
         else if createdByUserId r = Some actor then Violated (so_rule p) (ControlReason (so_reason p))
         else check_controls ps actor r agent admin)
      else if agent then Violated (so_rule p) (AgentCannotSatisfy (so_reason p))
      else if createdByUserId r = Some actor then Violated (so_rule p) (ControlReason (so_reason p))
      else if actor \<in> set (ids (priorActorUserIds r)) then Violated (so_rule p) (AlreadyActed (so_reason p))
      else check_controls ps actor r agent admin)"

definition checkSeparationOfDuties ::
  "sod_policy list \<Rightarrow> Action \<Rightarrow> string \<Rightarrow> uid \<Rightarrow> resource \<Rightarrow> bool \<Rightarrow> bool \<Rightarrow> sod_outcome" where
  "checkSeparationOfDuties policies action module actor r agent admin =
     (let applicable = filter (sod_applies action module) policies
      in if applicable = [] then Satisfied NoControlApplies
         else check_controls applicable actor r agent admin)"

definition orElse :: "'a option \<Rightarrow> 'a option \<Rightarrow> 'a option" where
  "orElse a b = (case a of None \<Rightarrow> b | Some x \<Rightarrow> Some x)"

definition governingSodPolicy :: "sod_policy list \<Rightarrow> Action \<Rightarrow> string \<Rightarrow> sod_policy option" where
  "governingSodPolicy policies action module =
     (let applicable = filter (sod_applies action module) policies
      in orElse (List.find (\<lambda>p. so_mandatory p \<and> so_rule p = FourEyes) applicable)
          (orElse (List.find (\<lambda>p. so_rule p = FourEyes) applicable)
             (orElse (List.find so_mandatory applicable)
                (case applicable of [] \<Rightarrow> None | p # _ \<Rightarrow> Some p))))"

section \<open>Lemmas\<close>

text \<open>Exactly when a control stands in the way.\<close>

definition blocks :: "uid \<Rightarrow> resource \<Rightarrow> bool \<Rightarrow> bool \<Rightarrow> sod_policy \<Rightarrow> bool" where
  "blocks actor r agent admin p \<longleftrightarrow>
     (case so_rule p of
        NoSelfApproval \<Rightarrow> \<not> admin \<and> createdByUserId r = Some actor
      | FourEyes \<Rightarrow> agent \<or> createdByUserId r = Some actor \<or> actor \<in> set (ids (priorActorUserIds r)))"

fun sod_ok :: "sod_outcome \<Rightarrow> bool" where
  "sod_ok (Satisfied d) = True"
| "sod_ok (Violated r d) = False"

lemma check_controls_ok:
  "sod_ok (check_controls ps actor r agent admin) \<longleftrightarrow> (\<forall>p \<in> set ps. \<not> blocks actor r agent admin p)"
proof (induction ps)
  case (Cons p ps)
  then show ?case by (cases "so_rule p") (auto simp add: blocks_def)
qed simp

lemma checkSeparationOfDuties_ok:
  "sod_ok (checkSeparationOfDuties policies action module actor r agent admin)
   \<longleftrightarrow> (\<forall>p \<in> set policies. sod_applies action module p \<longrightarrow> \<not> blocks actor r agent admin p)"
  by (auto simp add: checkSeparationOfDuties_def Let_def check_controls_ok filter_empty_conv)

lemma SCOPE_RANK_breadth: "SCOPE_RANK k = SCOPE_BREADTH k"
  by (cases k) simp_all

lemma isInScopeAsync_wholeCompany [simp]:
  "gr_kind g = WholeCompany \<Longrightarrow> in_scope (isInScopeAsync g r actor t h)"
  by (simp add: isInScopeAsync_def isInScope_def)

end
