(* ===== verification/Policy_Precedence.thy ===== *)
theory Policy_Precedence
  imports Scope_Evaluation
begin

text \<open>
  The policy precedence engine, \<open>packages/types/src/policy-precedence.ts\<close>: the user type's ceiling,
  the role, then the policy layers from the platform down, each able to narrow the scope, to deny
  (for good when mandatory) or to grant an exception to a standing denial.  The decision carries the
  trace the code builds.
\<close>

section \<open>Rules and decisions\<close>

record policy_rule =
  ru_layer :: PolicyLayer
  ru_module :: "module_key option"
  ru_action :: "Action option"
  ru_effect :: PolicyEffect
  ru_mandatory :: bool
  ru_maxScope :: "ScopeKind option"
  ru_reason :: string

datatype DenialReason =
    NoMembership | AccountState | CompanyLifecycle | UserTypeCeiling | NoRoleAssignment | RoleLacksAction
  | ModuleNotVisible | OutOfScopeReason | ScopeUnevaluableReason | PolicyDenied | SeparationOfDuties
  | UnknownModule | UnknownAction

datatype trace_layer = AtLayer PolicyLayer | AtUserType | AtRole | AtScope | AtSeparationOfDuties

datatype trace_outcome = TAllow | TDeny | TNarrow | TNoop

datatype trace_detail =
    MayNever UserType Action
  | DoesNotForbid UserType Action
  | NoAssignmentShows module_key
  | GrantedWithout module_key "Action list" Action
  | RoleGrants Action module_key
  | NarrowedTo ScopeKind string
  | IgnoredWidening ScopeKind ScopeKind
  | MandatoryDenial string
  | StandingDenial string
  | RefusedOverride PolicyLayer string
  | ExceptionGranted PolicyLayer string
  | NothingToOverride string
  | ScopeNote scope_detail
  | SodNote sod_detail

record trace_step =
  ts_layer :: trace_layer
  ts_outcome :: trace_outcome
  ts_detail :: "trace_detail"

datatype decision_message =
    NotAvailableTo UserType
  | NoAccessToModule
  | RoleDoesNotInclude Action
  | RuleReason string
  | Permitted
  | NeedsRole
  | UnknownModuleMessage
  | UnknownActionMessage
  | HierarchyNotAvailable
  | OutsideYourRole
  | SodMessage sod_detail

record decision =
  de_allowed :: bool
  de_reason :: "DenialReason option"
  de_message :: "decision_message"
  de_decidedBy :: "PolicyLayer option"
  de_effectiveScope :: "ScopeKind option"
  de_trace :: "trace_step list option"

record precedence_result =
  pr_allowed :: bool
  effectiveScope :: ScopeKind
  pr_decision :: "decision"

definition applies :: "module_key \<Rightarrow> Action \<Rightarrow> policy_rule \<Rightarrow> bool" where
  "applies module action r \<longleftrightarrow>
     (case ru_module r of None \<Rightarrow> True | Some m \<Rightarrow> m = module)
     \<and> (case ru_action r of None \<Rightarrow> True | Some a \<Rightarrow> a = action)"

section \<open>Evaluation\<close>

text \<open>The state of the walk: scope so far, the sealed and the standing denial, the trace.\<close>

record walk =
  wk_scope :: ScopeKind
  sealedDenial :: "policy_rule option"
  standingDenial :: "policy_rule option"
  wk_trace :: "trace_step list"

definition noted :: "trace_layer \<Rightarrow> trace_outcome \<Rightarrow> trace_detail \<Rightarrow> walk \<Rightarrow> walk" where
  "noted l out d w = w\<lparr>wk_trace := wk_trace w @ [\<lparr>ts_layer = l, ts_outcome = out, ts_detail = d\<rparr>]\<rparr>"

definition narrow_by :: "policy_rule \<Rightarrow> walk \<Rightarrow> walk" where
  "narrow_by r w =
     (case ru_maxScope r of
        None \<Rightarrow> w
      | Some s \<Rightarrow>
          if isScopeNoWiderThan s (wk_scope w)
          then noted (AtLayer (ru_layer r)) TNarrow (NarrowedTo s (ru_reason r)) (w\<lparr>wk_scope := s\<rparr>)
          else noted (AtLayer (ru_layer r)) TNoop (IgnoredWidening (wk_scope w) s) w)"

definition take_effect :: "policy_rule \<Rightarrow> walk \<Rightarrow> walk" where
  "take_effect r w =
     (if ru_effect r = Deny then
        (if ru_mandatory r
         then noted (AtLayer (ru_layer r)) TDeny (MandatoryDenial (ru_reason r)) (w\<lparr>sealedDenial := Some r\<rparr>)
         else noted (AtLayer (ru_layer r)) TDeny (StandingDenial (ru_reason r)) (w\<lparr>standingDenial := Some r\<rparr>))
      else (case sealedDenial w of
              Some s \<Rightarrow> noted (AtLayer (ru_layer r)) TNoop (RefusedOverride (ru_layer s) (ru_reason s)) w
            | None \<Rightarrow>
                (case standingDenial w of
                   Some s \<Rightarrow> noted (AtLayer (ru_layer r)) TAllow (ExceptionGranted (ru_layer s) (ru_reason r))
                               (w\<lparr>standingDenial := None\<rparr>)
                 | None \<Rightarrow> noted (AtLayer (ru_layer r)) TNoop (NothingToOverride (ru_reason r)) w)))"

definition walk_rule :: "walk \<Rightarrow> policy_rule \<Rightarrow> walk" where
  "walk_rule w r = take_effect r (narrow_by r w)"

definition in_order :: "module_key \<Rightarrow> Action \<Rightarrow> policy_rule list \<Rightarrow> policy_rule list" where
  "in_order module action rules =
     sort_key (\<lambda>r. POLICY_LAYER_ORDER (ru_layer r)) (filter (applies module action) rules)"

definition refuse_early ::
  "ScopeKind \<Rightarrow> DenialReason \<Rightarrow> decision_message \<Rightarrow> trace_step list \<Rightarrow> precedence_result" where
  "refuse_early scope reason message trace =
     \<lparr>pr_allowed = False, effectiveScope = scope,
      pr_decision = \<lparr>de_allowed = False, de_reason = Some reason, de_message = message,
        de_decidedBy = None, de_effectiveScope = Some scope, de_trace = Some trace\<rparr>\<rparr>"

definition evaluatePrecedence ::
  "UserType \<Rightarrow> module_key \<Rightarrow> Action \<Rightarrow> Action list \<Rightarrow> module_key list \<Rightarrow> ScopeKind \<Rightarrow> policy_rule list
   \<Rightarrow> precedence_result" where
  "evaluatePrecedence userType module action grantedActions visibleModules assignedScope rules =
     (let step = (\<lambda>l out d. \<lparr>ts_layer = l, ts_outcome = out, ts_detail = d\<rparr>) in
      if action \<in> set (USER_TYPE_CEILINGS userType) then
        refuse_early assignedScope UserTypeCeiling (NotAvailableTo userType)
          [step AtUserType TDeny (MayNever userType action)]
      else (let t1 = step AtUserType TNoop (DoesNotForbid userType action) in
      if module \<notin> set visibleModules then
        refuse_early assignedScope ModuleNotVisible NoAccessToModule
          [t1, step AtRole TDeny (NoAssignmentShows module)]
      else if action \<notin> set grantedActions then
        refuse_early assignedScope RoleLacksAction (RoleDoesNotInclude action)
          [t1, step AtRole TDeny (GrantedWithout module grantedActions action)]
      else
        (let start = \<lparr>wk_scope = assignedScope, sealedDenial = None, standingDenial = None,
                      wk_trace = [t1, step AtRole TAllow (RoleGrants action module)]\<rparr>;
             w = foldl walk_rule start (in_order module action rules);
             blocking = (case sealedDenial w of Some r \<Rightarrow> Some r | None \<Rightarrow> standingDenial w)
         in (case blocking of
               Some r \<Rightarrow>
                 \<lparr>pr_allowed = False, effectiveScope = wk_scope w,
                  pr_decision = \<lparr>de_allowed = False, de_reason = Some PolicyDenied,
                    de_message = RuleReason (ru_reason r), de_decidedBy = Some (ru_layer r),
                    de_effectiveScope = Some (wk_scope w), de_trace = Some (wk_trace w)\<rparr>\<rparr>
             | None \<Rightarrow>
                 \<lparr>pr_allowed = True, effectiveScope = wk_scope w,
                  pr_decision = \<lparr>de_allowed = True, de_reason = None, de_message = Permitted,
                    de_decidedBy = None, de_effectiveScope = Some (wk_scope w),
                    de_trace = Some (wk_trace w)\<rparr>\<rparr>))))"

definition effectiveScopeFor :: "ScopeKind \<Rightarrow> module_key \<Rightarrow> Action \<Rightarrow> policy_rule list \<Rightarrow> ScopeKind" where
  "effectiveScopeFor assignedScope module action rules =
     foldl (\<lambda>scope r. narrowerScope scope (the (ru_maxScope r))) assignedScope
       (sort_key (\<lambda>r. POLICY_LAYER_ORDER (ru_layer r))
         (filter (\<lambda>r. applies module action r \<and> ru_maxScope r \<noteq> None) rules))"

definition permittedActions ::
  "UserType \<Rightarrow> module_key \<Rightarrow> Action list \<Rightarrow> module_key list \<Rightarrow> ScopeKind \<Rightarrow> policy_rule list \<Rightarrow> Action list
   \<Rightarrow> Action list" where
  "permittedActions userType module grantedActions visibleModules assignedScope rules actions =
     filter (\<lambda>a. pr_allowed (evaluatePrecedence userType module a grantedActions visibleModules assignedScope rules)) actions"

section \<open>Where the walk ends\<close>

lemma noted_sel [simp]:
  "wk_scope (noted l out d w) = wk_scope w" "sealedDenial (noted l out d w) = sealedDenial w"
  "standingDenial (noted l out d w) = standingDenial w"
  by (simp_all add: noted_def)

lemma walk_rule_scope [simp]:
  "wk_scope (walk_rule w r) = (case ru_maxScope r of None \<Rightarrow> wk_scope w | Some s \<Rightarrow> min s (wk_scope w))"
  by (simp add: walk_rule_def take_effect_def narrow_by_def min_def split: option.split)

lemma narrow_by_denials [simp]:
  "sealedDenial (narrow_by r w) = sealedDenial w" "standingDenial (narrow_by r w) = standingDenial w"
  by (simp_all add: narrow_by_def split: option.split)

lemma walk_rule_sealed [simp]:
  "sealedDenial (walk_rule w r) = (if ru_effect r = Deny \<and> ru_mandatory r then Some r else sealedDenial w)"
  by (simp add: walk_rule_def take_effect_def split: option.split)

lemma walk_rule_standing [simp]:
  "standingDenial (walk_rule w r)
   = (if ru_effect r = Deny then (if ru_mandatory r then standingDenial w else Some r)
      else if sealedDenial w = None then None else standingDenial w)"
  by (simp add: walk_rule_def take_effect_def split: option.split)

definition mandatory_denial :: "policy_rule \<Rightarrow> bool" where
  "mandatory_denial r \<longleftrightarrow> ru_effect r = Deny \<and> ru_mandatory r"

lemma walk_sealed:
  "sealedDenial (foldl walk_rule w rs) = None
   \<longleftrightarrow> sealedDenial w = None \<and> (\<forall>r \<in> set rs. \<not> mandatory_denial r)"
  by (induction rs arbitrary: w) (auto simp add: mandatory_denial_def)

lemma walk_standing:
  assumes "\<forall>r \<in> set rs. \<not> mandatory_denial r" and "sealedDenial w = None"
  shows "standingDenial (foldl walk_rule w rs) = None
    \<longleftrightarrow> (if rs = [] then standingDenial w = None else ru_effect (last rs) = Allow)"
  using assms
proof (induction rs rule: rev_induct)
  case (snoc r rs)
  have "sealedDenial (foldl walk_rule w rs) = None"
    using snoc.prems by (simp add: walk_sealed)
  then show ?case using snoc.prems by (cases "ru_effect r") (auto simp add: mandatory_denial_def)
qed simp

definition caps :: "policy_rule list \<Rightarrow> ScopeKind list" where
  "caps rs = List.map_filter ru_maxScope rs"

lemma caps_simps [simp]:
  "caps [] = []" "caps (r # rs) = (case ru_maxScope r of None \<Rightarrow> caps rs | Some s \<Rightarrow> s # caps rs)"
  by (simp_all add: caps_def map_filter_simps split: option.split)

lemma walk_scope: "wk_scope (foldl walk_rule w rs) = foldl min (wk_scope w) (caps rs)"
  by (induction rs arbitrary: w) (auto simp add: min.commute split: option.split)

lemma foldl_min: "foldl min a xs = Min (insert a (set xs))"
proof (induction xs arbitrary: a)
  case (Cons x xs)
  have "foldl min a (x # xs) = Min (insert (min a x) (set xs))" by (simp add: Cons)
  also have "\<dots> = Min (insert a (insert x (set xs)))"
  proof (cases "xs = []")
    case False
    then show ?thesis by (simp add: ac_simps)
  qed simp
  finally show ?case by simp
qed simp

lemma set_caps: "set (caps rs) = {s. \<exists>r \<in> set rs. ru_maxScope r = Some s}"
  by (induction rs) (auto split: option.splits)

lemma set_in_order [simp]: "set (in_order module action rules) = {r \<in> set rules. applies module action r}"
  by (auto simp add: in_order_def)

text \<open>Whether a person may act, as a condition on the input.\<close>

definition role_admits :: "UserType \<Rightarrow> module_key \<Rightarrow> Action \<Rightarrow> Action list \<Rightarrow> module_key list \<Rightarrow> bool" where
  "role_admits userType module action grantedActions visibleModules \<longleftrightarrow>
     action \<notin> set (USER_TYPE_CEILINGS userType) \<and> module \<in> set visibleModules \<and> action \<in> set grantedActions"

definition policy_admits :: "module_key \<Rightarrow> Action \<Rightarrow> policy_rule list \<Rightarrow> bool" where
  "policy_admits module action rules \<longleftrightarrow>
     (\<forall>r \<in> set rules. applies module action r \<longrightarrow> \<not> mandatory_denial r)
     \<and> (let ordered = in_order module action rules in ordered = [] \<or> ru_effect (last ordered) = Allow)"

lemma evaluatePrecedence_allowed:
  "pr_allowed (evaluatePrecedence u m a granted visible scope rules)
   \<longleftrightarrow> role_admits u m a granted visible \<and> policy_admits m a rules"
proof (cases "role_admits u m a granted visible")
  case False
  then show ?thesis
    by (auto simp add: evaluatePrecedence_def Let_def role_admits_def refuse_early_def)
next
  case True
  let ?start = "\<lparr>wk_scope = scope, sealedDenial = None, standingDenial = None,
      wk_trace = [\<lparr>ts_layer = AtUserType, ts_outcome = TNoop, ts_detail = DoesNotForbid u a\<rparr>,
                  \<lparr>ts_layer = AtRole, ts_outcome = TAllow, ts_detail = RoleGrants a m\<rparr>]\<rparr>"
  let ?w = "foldl walk_rule ?start (in_order m a rules)"
  have "pr_allowed (evaluatePrecedence u m a granted visible scope rules)
      \<longleftrightarrow> sealedDenial ?w = None \<and> standingDenial ?w = None"
    using True by (auto simp add: evaluatePrecedence_def Let_def role_admits_def split: option.split)
  moreover have "sealedDenial ?w = None \<longleftrightarrow> (\<forall>r \<in> set rules. applies m a r \<longrightarrow> \<not> mandatory_denial r)"
    by (auto simp add: walk_sealed)
  moreover have "standingDenial ?w = None \<longleftrightarrow> in_order m a rules = [] \<or> ru_effect (last (in_order m a rules)) = Allow"
    if "\<forall>r \<in> set rules. applies m a r \<longrightarrow> \<not> mandatory_denial r"
    using walk_standing [where rs = "in_order m a rules" and w = ?start] that by auto
  ultimately show ?thesis using True by (auto simp add: policy_admits_def Let_def)
qed

lemma evaluatePrecedence_scope:
  assumes "role_admits u m a granted visible"
  shows "effectiveScope (evaluatePrecedence u m a granted visible scope rules)
         = foldl min scope (caps (in_order m a rules))"
  using assms by (simp add: evaluatePrecedence_def Let_def role_admits_def walk_scope split: option.split)

lemma evaluatePrecedence_decision [simp]:
  "de_allowed (pr_decision (evaluatePrecedence u m a granted visible scope rules))
   = pr_allowed (evaluatePrecedence u m a granted visible scope rules)"
  by (simp add: evaluatePrecedence_def Let_def refuse_early_def split: option.split)

lemma foldl_min_le: "foldl min a xs \<le> (a :: ScopeKind)"
  by (simp add: foldl_min)

lemma evaluatePrecedence_narrows:
  "effectiveScope (evaluatePrecedence u m a granted visible scope rules) \<le> scope"
proof (cases "role_admits u m a granted visible")
  case True
  then show ?thesis by (simp add: evaluatePrecedence_scope foldl_min_le)
next
  case False
  then show ?thesis by (auto simp add: evaluatePrecedence_def Let_def refuse_early_def role_admits_def)
qed

lemma effectiveScopeFor_min:
  "effectiveScopeFor scope m a rules = Min (insert scope {s. \<exists>r \<in> set rules. applies m a r \<and> ru_maxScope r = Some s})"
proof -
  let ?L = "sort_key (\<lambda>r. POLICY_LAYER_ORDER (ru_layer r)) (filter (\<lambda>r. applies m a r \<and> ru_maxScope r \<noteq> None) rules)"
  have "foldl (\<lambda>s r. narrowerScope s (the (ru_maxScope r))) s rs = foldl min s (map (the \<circ> ru_maxScope) rs)" for s rs
    by (induction rs arbitrary: s) auto
  then have "effectiveScopeFor scope m a rules = Min (insert scope ((the \<circ> ru_maxScope) ` set ?L))"
    unfolding effectiveScopeFor_def foldl_min set_map .
  moreover have "(the \<circ> ru_maxScope) ` set ?L = {s. \<exists>r \<in> set rules. applies m a r \<and> ru_maxScope r = Some s}"
    by (force simp add: image_iff)
  ultimately show ?thesis by simp
qed

end
