(* ===== verification/Role_Templates.thy ===== *)
theory Role_Templates
  imports Authorization_Types
begin

text \<open>
  The role catalogue: the company templates of \<open>packages/types/src/role-templates.ts\<close>, the platform
  roles of \<open>platform-roles.ts\<close>, which may only subtract from the platform's permissions, and the
  access levels per section of \<open>access-levels.ts\<close>.
\<close>

section \<open>Company roles\<close>

record role_template =
  maxScope :: ScopeKind
  defaultScope :: ScopeKind
  permissions :: permission_set

definition READ_ONLY :: "Action list" where
  "READ_ONLY = [ActView]"

definition COLLABORATE :: "Action list" where
  "COLLABORATE = [ActView, ActComment]"

definition acrossCompany :: "Action list \<Rightarrow> permission_set" where
  "acrossCompany actions = map (\<lambda>m. (m, actions)) COMPANY_MODULES"

definition acrossPlatform :: "Action list \<Rightarrow> permission_set" where
  "acrossPlatform actions = map (\<lambda>m. (m, actions)) PLATFORM_MODULES"

text \<open>A later key of an object literal or a spread overwrites in place, or is added at the end.\<close>

fun set_key :: "module_key \<Rightarrow> Action list \<Rightarrow> permission_set \<Rightarrow> permission_set" where
  "set_key m acts [] = [(m, acts)]"
| "set_key m acts ((k, v) # p) = (if k = m then (k, acts) # p else (k, v) # set_key m acts p)"

definition spread :: "permission_set \<Rightarrow> permission_set \<Rightarrow> permission_set" where
  "spread p q = foldl (\<lambda>p (m, acts). set_key m acts p) p q"

fun ROLE_TEMPLATES :: "RoleKind \<Rightarrow> role_template option" where
  "ROLE_TEMPLATES Employee = Some \<lparr>maxScope = OwnWork, defaultScope = OwnWork, permissions =
     [(''dashboard'', READ_ONLY), (''todo'', [ActView, ActComment, ActEditDraft]),
      (''agents'', [ActView, ActComment, ActRun]), (''approvals'', READ_ONLY),
      (''performance'', READ_ONLY), (''settings'', READ_ONLY)]\<rparr>"
| "ROLE_TEMPLATES Manager = Some \<lparr>maxScope = TeamSubtree, defaultScope = TeamSubtree, permissions =
     [(''dashboard'', READ_ONLY), (''hierarchy'', COLLABORATE),
      (''objective'', [ActView, ActComment, ActCreate, ActEditDraft, ActAssign]),
      (''agent-builder'', [ActView, ActComment]),
      (''todo'', [ActView, ActComment, ActCreate, ActEditDraft, ActAssign]),
      (''agents'', [ActView, ActComment, ActRun, ActSchedule, ActPause]),
      (''executor'', COLLABORATE), (''approvals'', [ActView, ActComment, ActApprove]),
      (''performance'', READ_ONLY), (''reports'', [ActView, ActExport]), (''users'', READ_ONLY),
      (''profile-search'', READ_ONLY), (''settings'', READ_ONLY)]\<rparr>"
| "ROLE_TEMPLATES Head = Some \<lparr>maxScope = MultipleDepartments, defaultScope = Department, permissions =
     [(''dashboard'', READ_ONLY), (''hierarchy'', [ActView, ActComment, ActCreate, ActEditDraft]),
      (''objective'', [ActView, ActComment, ActCreate, ActEditDraft, ActAssign, ActApprove, ActPublish]),
      (''agent-builder'', [ActView, ActComment]),
      (''todo'', [ActView, ActComment, ActCreate, ActEditDraft, ActAssign]),
      (''agents'', [ActView, ActComment, ActRun, ActSchedule, ActPause, ActApprove, ActPublish]),
      (''executor'', [ActView, ActComment, ActPause]), (''approvals'', [ActView, ActComment, ActApprove]),
      (''performance'', [ActView, ActExport]), (''reports'', [ActView, ActExport]),
      (''users'', COLLABORATE), (''profile-search'', READ_ONLY), (''settings'', READ_ONLY)]\<rparr>"
| "ROLE_TEMPLATES CompanyAdmin = Some \<lparr>maxScope = WholeCompany, defaultScope = WholeCompany, permissions =
     [(''dashboard'', READ_ONLY),
      (''hierarchy'', [ActView, ActComment, ActCreate, ActEditDraft, ActAdminister]),
      (''objective'', [ActView, ActComment, ActCreate, ActEditDraft, ActAssign, ActApprove, ActPublish, ActExport]),
      (''agent-builder'', [ActView, ActComment, ActCreate, ActEditDraft, ActRun, ActPublish]),
      (''todo'', [ActView, ActComment, ActCreate, ActEditDraft, ActAssign]),
      (''agents'', [ActView, ActComment, ActRun, ActSchedule, ActPause, ActApprove, ActPublish]),
      (''executor'', [ActView, ActComment, ActPause, ActAdminister]),
      (''approvals'', [ActView, ActComment, ActApprove]),
      (''performance'', [ActView, ActExport, ActAdminister]), (''reports'', [ActView, ActExport]),
      (''users'', [ActView, ActComment, ActCreate, ActEditDraft, ActManageAccess, ActAdminister]),
      (''roles'', [ActView, ActCreate, ActEditDraft, ActManageAccess, ActAdminister]),
      (''profile-search'', [ActView]),
      (''settings'', [ActView, ActEditDraft, ActAdminister, ActAudit, ActExport])]\<rparr>"
| "ROLE_TEMPLATES ApproverRole = Some \<lparr>maxScope = MultipleDepartments, defaultScope = SelectedResource, permissions =
     [(''dashboard'', READ_ONLY), (''objective'', [ActView, ActComment, ActApprove]),
      (''agent-builder'', [ActView, ActComment, ActApprove]), (''todo'', COLLABORATE),
      (''agents'', [ActView, ActComment, ActApprove]), (''executor'', COLLABORATE),
      (''approvals'', [ActView, ActComment, ActApprove]), (''performance'', READ_ONLY),
      (''reports'', READ_ONLY), (''hierarchy'', READ_ONLY), (''profile-search'', READ_ONLY),
      (''settings'', [ActView, ActApprove])]\<rparr>"
| "ROLE_TEMPLATES Auditor = Some \<lparr>maxScope = WholeCompany, defaultScope = WholeCompany,
     permissions = acrossCompany [ActView, ActExport, ActAudit]\<rparr>"
| "ROLE_TEMPLATES CustomRole = None"

definition COMPANY_GRANTABLE_ROLES :: "RoleKind list" where
  "COMPANY_GRANTABLE_ROLES = [CompanyAdmin, Head, Employee]"

definition COMPANY_ASSIGNABLE_ROLE_KINDS :: "RoleKind list" where
  "COMPANY_ASSIGNABLE_ROLE_KINDS = COMPANY_GRANTABLE_ROLES @ [CustomRole]"

definition PLATFORM_PERMISSIONS :: permission_set where
  "PLATFORM_PERMISSIONS =
     spread (acrossPlatform [ActView, ActComment, ActCreate, ActEditDraft, ActExport, ActAdminister, ActAudit])
       [(''create-company'', [ActView, ActCreate, ActAdminister]),
        (''companies'', [ActView, ActComment, ActEditDraft, ActAdminister, ActExport, ActAudit]),
        (''security'', [ActView, ActExport, ActAudit, ActAdminister])]"

definition templateActions :: "RoleKind \<Rightarrow> module_key \<Rightarrow> Action list" where
  "templateActions kind m = (case ROLE_TEMPLATES kind of None \<Rightarrow> [] | Some t \<Rightarrow> actions_on (permissions t) m)"

definition templateModules :: "RoleKind \<Rightarrow> module_key list" where
  "templateModules kind = (case ROLE_TEMPLATES kind of None \<Rightarrow> [] | Some t \<Rightarrow> map fst (permissions t))"

definition unrestrictedPermissionSet :: permission_set where
  "unrestrictedPermissionSet = spread (acrossCompany ACTIONS) (acrossPlatform ACTIONS)"

section \<open>Platform roles\<close>

datatype PlatformRoleKind =
    PlatformOwner | PlatformAdmin | PlatformCommercial | PlatformSupport | PlatformSecurity | PlatformEngineer

definition PLATFORM_ROLE_KINDS :: "PlatformRoleKind list" where
  "PLATFORM_ROLE_KINDS =
     [PlatformOwner, PlatformAdmin, PlatformCommercial, PlatformSupport, PlatformSecurity, PlatformEngineer]"

datatype platform_role_error =
    NotAPlatformModule PlatformRoleKind module_key
  | GrantsBeyondPlatform PlatformRoleKind "Action list" module_key

fun sanitisePlatformRole :: "PlatformRoleKind \<Rightarrow> permission_set \<Rightarrow> platform_role_error + permission_set" where
  "sanitisePlatformRole kind [] = Inr []"
| "sanitisePlatformRole kind ((module, actions) # rest) =
     (case map_of PLATFORM_PERMISSIONS module of
        None \<Rightarrow> Inl (NotAPlatformModule kind module)
      | Some ceiling \<Rightarrow>
          (let excess = filter (\<lambda>a. a \<notin> set ceiling) actions
           in if excess \<noteq> [] then Inl (GrantsBeyondPlatform kind excess module)
              else bind_result (sanitisePlatformRole kind rest) (\<lambda>safe. Inr ((module, actions) # safe))))"

definition PLATFORM_READ :: "Action list" where
  "PLATFORM_READ = [ActView]"

definition PLATFORM_READ_EXPORT :: "Action list" where
  "PLATFORM_READ_EXPORT = [ActView, ActExport]"

definition PLATFORM_OPERATE :: "Action list" where
  "PLATFORM_OPERATE = [ActView, ActComment, ActCreate, ActEditDraft]"

definition PLATFORM_ADMINISTER :: "Action list" where
  "PLATFORM_ADMINISTER = [ActView, ActComment, ActCreate, ActEditDraft, ActExport, ActAdminister, ActAudit]"

definition withoutModules :: "permission_set \<Rightarrow> permission_set \<Rightarrow> platform_role_error + permission_set" where
  "withoutModules ceiling narrowed = sanitisePlatformRole PlatformAdmin (spread ceiling narrowed)"

definition platform_role :: "PlatformRoleKind \<Rightarrow> permission_set \<Rightarrow> platform_role_error + permission_set" where
  "platform_role kind overrides =
     sanitisePlatformRole kind (spread (map (\<lambda>m. (m, PLATFORM_READ)) PLATFORM_MODULES) overrides)"

text \<open>The permissions of each role; building the table throws when one is not a subset.\<close>

fun PLATFORM_ROLE_TEMPLATES :: "PlatformRoleKind \<Rightarrow> platform_role_error + permission_set" where
  "PLATFORM_ROLE_TEMPLATES PlatformOwner = Inr PLATFORM_PERMISSIONS"
| "PLATFORM_ROLE_TEMPLATES PlatformAdmin = withoutModules PLATFORM_PERMISSIONS
     [(''release'', PLATFORM_READ), (''platform-settings'', PLATFORM_READ), (''security'', PLATFORM_READ_EXPORT)]"
| "PLATFORM_ROLE_TEMPLATES PlatformCommercial = platform_role PlatformCommercial
     [(''plans'', PLATFORM_ADMINISTER), (''billing'', PLATFORM_ADMINISTER), (''credits'', PLATFORM_ADMINISTER),
      (''companies'', PLATFORM_READ_EXPORT)]"
| "PLATFORM_ROLE_TEMPLATES PlatformSupport = platform_role PlatformSupport
     [(''support'', PLATFORM_ADMINISTER), (''companies'', PLATFORM_READ), (''system-health'', PLATFORM_READ)]"
| "PLATFORM_ROLE_TEMPLATES PlatformSecurity = platform_role PlatformSecurity
     [(''security'', actions_on PLATFORM_PERMISSIONS ''security''), (''companies'', PLATFORM_READ_EXPORT),
      (''support'', PLATFORM_READ_EXPORT), (''system-health'', PLATFORM_READ), (''dev-ops'', PLATFORM_READ_EXPORT)]"
| "PLATFORM_ROLE_TEMPLATES PlatformEngineer = platform_role PlatformEngineer
     [(''providers'', PLATFORM_ADMINISTER), (''skills'', PLATFORM_ADMINISTER), (''testing'', PLATFORM_ADMINISTER),
      (''dev-ops'', PLATFORM_ADMINISTER), (''system-health'', PLATFORM_OPERATE), (''release'', PLATFORM_READ)]"

definition role_permissions :: "PlatformRoleKind \<Rightarrow> permission_set" where
  "role_permissions kind = (case PLATFORM_ROLE_TEMPLATES kind of Inl e \<Rightarrow> [] | Inr p \<Rightarrow> p)"

definition add_missing :: "Action list \<Rightarrow> Action list \<Rightarrow> Action list" where
  "add_missing existing actions = foldl (\<lambda>xs a. if a \<in> set xs then xs else xs @ [a]) existing actions"

definition merge_entry :: "permission_set \<Rightarrow> module_key \<times> Action list \<Rightarrow> permission_set" where
  "merge_entry merged entry =
     (case entry of (m, actions) \<Rightarrow> set_key m (add_missing (actions_on merged m) actions) merged)"

definition unionPlatformPermissions :: "PlatformRoleKind list \<Rightarrow> permission_set" where
  "unionPlatformPermissions kinds = foldl (\<lambda>merged k. foldl merge_entry merged (role_permissions k)) [] kinds"

section \<open>Access levels\<close>

datatype AccessLevel = LevelViewer | LevelCreator | LevelApprover | LevelAdmin

definition ACCESS_LEVELS :: "AccessLevel list" where
  "ACCESS_LEVELS = [LevelViewer, LevelCreator, LevelApprover, LevelAdmin]"

fun accessLevelRank :: "AccessLevel \<Rightarrow> nat" where
  "accessLevelRank LevelViewer = 0"
| "accessLevelRank LevelCreator = 1"
| "accessLevelRank LevelApprover = 2"
| "accessLevelRank LevelAdmin = 3"

fun LEVEL_STEPS :: "AccessLevel \<Rightarrow> Action list" where
  "LEVEL_STEPS LevelViewer = [ActView, ActComment, ActExport]"
| "LEVEL_STEPS LevelCreator = [ActCreate, ActEditDraft, ActRun]"
| "LEVEL_STEPS LevelApprover = [ActApprove]"
| "LEVEL_STEPS LevelAdmin = [ActAssign, ActPublish, ActSchedule, ActPause, ActManageAccess, ActAdminister, ActAudit]"

definition actionsForLevel :: "AccessLevel \<Rightarrow> Action list" where
  "actionsForLevel level = dedupe (concat (map LEVEL_STEPS (take (accessLevelRank level + 1) ACCESS_LEVELS)))"

definition SECTION_LEVELS :: "(module_key \<times> AccessLevel list) list" where
  "SECTION_LEVELS =
     [(''dashboard'', [LevelViewer]), (''hierarchy'', [LevelViewer, LevelCreator, LevelAdmin]),
      (''objective'', [LevelViewer, LevelCreator, LevelApprover, LevelAdmin]),
      (''agent-builder'', [LevelViewer, LevelCreator, LevelAdmin]),
      (''todo'', [LevelViewer, LevelCreator, LevelAdmin]),
      (''agents'', [LevelViewer, LevelCreator, LevelApprover, LevelAdmin]),
      (''executor'', [LevelViewer, LevelAdmin]), (''approvals'', [LevelViewer, LevelApprover, LevelAdmin]),
      (''performance'', [LevelViewer, LevelAdmin]), (''reports'', [LevelViewer, LevelAdmin]),
      (''users'', [LevelViewer, LevelCreator, LevelAdmin]), (''roles'', [LevelViewer, LevelAdmin]),
      (''profile-search'', [LevelViewer]), (''settings'', [LevelViewer, LevelAdmin])]"

definition section_levels :: "module_key \<Rightarrow> AccessLevel list" where
  "section_levels m = (case map_of SECTION_LEVELS m of None \<Rightarrow> [] | Some ls \<Rightarrow> ls)"

definition sectionOffers :: "module_key \<Rightarrow> AccessLevel \<Rightarrow> bool" where
  "sectionOffers m level \<longleftrightarrow> level \<in> set (section_levels m)"

datatype grant_problem = NoAccessYourself module_key | AboveYourAccess AccessLevel module_key AccessLevel

definition levelGrantProblem ::
  "AccessLevel option \<Rightarrow> AccessLevel \<Rightarrow> module_key \<Rightarrow> bool \<Rightarrow> grant_problem option" where
  "levelGrantProblem granterLevel requested module granterIsCompanyAdmin =
     (if granterIsCompanyAdmin then None
      else (case granterLevel of
              None \<Rightarrow> Some (NoAccessYourself module)
            | Some held \<Rightarrow>
                if accessLevelRank held < accessLevelRank requested
                then Some (AboveYourAccess requested module held) else None))"

definition level_needs :: "module_key \<Rightarrow> AccessLevel \<Rightarrow> Action list" where
  "level_needs m level =
     filter (\<lambda>a. \<exists>c \<in> set (section_levels m). a \<in> set (actionsForLevel c)) (actionsForLevel level)"

definition levelFromActions :: "module_key \<Rightarrow> Action list \<Rightarrow> AccessLevel option" where
  "levelFromActions m actions =
     foldl (\<lambda>best level. if \<forall>a \<in> set (level_needs m level). a \<in> set actions then Some level else best)
       None (section_levels m)"

end
