(* ===== verification/Authorization_Service.thy ===== *)
theory Authorization_Service
  imports Policy_Precedence Role_Templates
begin

text \<open>
  The authorization service, \<open>apps/api/src/authorization/authorization.service.ts\<close>: the context a
  person acts in, assembled from their live assignments and the policy rows of the company and the
  platform, and the decision on one request.  Rows of the database are records of the raw strings;
  what the plan entitles a company to and the reporting hierarchy are arguments.
\<close>

section \<open>Rows\<close>

record custom_role =
  cr_permissions :: "(string \<times> raw_value) list option"
  cr_enabled :: bool
  cr_maxScope :: string
  cr_displayName :: string

record assignment =
  as_roleKind :: RoleKind
  as_scopeKind :: string
  as_departmentIds :: "uid list"
  as_selectedResourceIds :: "uid list"
  as_customRole :: "custom_role option"
  as_expiresAt :: "instant option"

record policy_row =
  pw_layer :: string
  pw_module :: "string option"
  pw_action :: "string option"
  pw_effect :: string
  pw_mandatory :: bool
  pw_maxScope :: "string option"
  pw_reason :: string

record sod_row =
  sw_module :: "string option"
  sw_action :: string
  sw_rule :: string
  sw_mandatory :: bool
  sw_reason :: string

record authz_db =
  db_userType :: "UserType option option"
  db_assignments :: "assignment list"
  db_companyRules :: "policy_row list"
  db_companySod :: "sod_row list"
  db_platformRules :: "policy_row list"
  db_platformSod :: "sod_row list"

section \<open>The context\<close>

record role_summary =
  sm_roleKind :: RoleKind
  sm_customRoleName :: "string option"
  sm_scopeKind :: string

record permission_unit =
  un_permissions :: permission_set
  un_scope :: scope_grant

record authz_context =
  cx_tenantId :: uid
  cx_userId :: uid
  cx_userType :: UserType
  cx_granted :: permission_set
  cx_visibleModules :: "module_key list"
  cx_scope :: scope_grant
  cx_rules :: "policy_rule list"
  cx_sodPolicies :: "sod_policy list"
  cx_roleSummary :: "role_summary list"
  cx_units :: "permission_unit list"

text \<open>\<open>listLiveAssignments\<close>: the ones that have not expired.\<close>

definition listLiveAssignments :: "instant \<Rightarrow> assignment list \<Rightarrow> assignment list" where
  "listLiveAssignments now as = filter (\<lambda>a. case as_expiresAt a of None \<Rightarrow> True | Some e \<Rightarrow> now < e) as"

definition permissionsFor :: "assignment \<Rightarrow> permission_set" where
  "permissionsFor a =
     (if as_roleKind a = CustomRole then
        (case as_customRole a of
           None \<Rightarrow> []
         | Some c \<Rightarrow> if \<not> cr_enabled c then [] else sanitisePermissionSet (cr_permissions c))
      else (case ROLE_TEMPLATES (as_roleKind a) of None \<Rightarrow> [] | Some t \<Rightarrow> permissions t))"

definition scope_ceiling :: "assignment \<Rightarrow> ScopeKind" where
  "scope_ceiling a =
     (if as_roleKind a = CustomRole then
        (case Option.bind (as_customRole a) (\<lambda>c. isScopeKind (cr_maxScope c)) of None \<Rightarrow> OwnWork | Some k \<Rightarrow> k)
      else (case ROLE_TEMPLATES (as_roleKind a) of None \<Rightarrow> OwnWork | Some t \<Rightarrow> maxScope t))"

definition scopeGrantFor :: "assignment \<Rightarrow> scope_grant option" where
  "scopeGrantFor a =
     (case isScopeKind (as_scopeKind a) of
        None \<Rightarrow> None
      | Some k \<Rightarrow>
          (let ceiling = scope_ceiling a;
               kind = (if SCOPE_BREADTH ceiling < SCOPE_BREADTH k then ceiling else k)
           in Some \<lparr>gr_kind = kind, selectedResourceIds = Some (as_selectedResourceIds a),
                    departmentIds = Some (as_departmentIds a)\<rparr>))"

definition toPolicyRules :: "policy_row list \<Rightarrow> policy_rule list" where
  "toPolicyRules rows = concat (map (\<lambda>row.
     (case isPolicyLayer (pw_layer row) of
        None \<Rightarrow> []
      | Some layer \<Rightarrow>
          (let module = Option.bind (pw_module row) (\<lambda>m. if isModuleKey m then Some m else None);
               action = Option.bind (pw_action row) isAction
           in if (pw_module row \<noteq> None \<and> module = None) \<or> (pw_action row \<noteq> None \<and> action = None) then []
              else [\<lparr>ru_layer = layer, ru_module = module, ru_action = action,
                     ru_effect = (if pw_effect row = ''Allow'' then Allow else Deny),
                     ru_mandatory = pw_mandatory row, ru_maxScope = Option.bind (pw_maxScope row) isScopeKind,
                     ru_reason = pw_reason row\<rparr>]))) rows)"

definition toSodPolicies :: "sod_row list \<Rightarrow> sod_policy list" where
  "toSodPolicies rows = concat (map (\<lambda>row.
     (case (isAction (sw_action row), isSodRule (sw_rule row)) of
        (Some a, Some r) \<Rightarrow> [\<lparr>so_action = a, so_module = sw_module row, so_rule = r,
                             so_mandatory = sw_mandatory row, so_reason = sw_reason row\<rparr>]
      | _ \<Rightarrow> [])) rows)"

definition withinPlan :: "module_key list option \<Rightarrow> module_key list \<Rightarrow> module_key list" where
  "withinPlan entitled modules = (case entitled of None \<Rightarrow> modules | Some es \<Rightarrow> filter (\<lambda>m. m \<in> set es) modules)"

text \<open>The union of the granted actions per module, new ones after those already there.\<close>

definition grant_actions :: "permission_set \<Rightarrow> module_key \<times> Action list \<Rightarrow> permission_set" where
  "grant_actions granted entry =
     (case entry of (m, actions) \<Rightarrow>
        if isModuleKey m then set_key m (dedupe (actions_on granted m @ actions)) granted else granted)"

definition grant_all :: "assignment list \<Rightarrow> permission_set" where
  "grant_all as = foldl (\<lambda>g a. foldl grant_actions g (permissionsFor a)) [] as"

definition unit_of :: "assignment \<Rightarrow> permission_unit option" where
  "unit_of a = map_option (\<lambda>s. \<lparr>un_permissions = permissionsFor a, un_scope = s\<rparr>) (scopeGrantFor a)"

definition summary_of :: "assignment \<Rightarrow> role_summary" where
  "summary_of a = \<lparr>sm_roleKind = as_roleKind a, sm_customRoleName = map_option cr_displayName (as_customRole a),
     sm_scopeKind = as_scopeKind a\<rparr>"

definition whole_company :: scope_grant where
  "whole_company = \<lparr>gr_kind = WholeCompany, selectedResourceIds = None, departmentIds = None\<rparr>"

text \<open>
  \<open>contextFor\<close>: somebody without a membership here is a platform user with the platform's
  permissions; the platform's rules come before the company's.
\<close>

definition contextFor :: "uid \<Rightarrow> uid \<Rightarrow> instant \<Rightarrow> module_key list option \<Rightarrow> authz_db \<Rightarrow> authz_context" where
  "contextFor tenant user now entitled db =
     (case db_userType db of
        None \<Rightarrow>
          \<lparr>cx_tenantId = tenant, cx_userId = user, cx_userType = PlatformUser,
           cx_granted = PLATFORM_PERMISSIONS, cx_visibleModules = map fst PLATFORM_PERMISSIONS,
           cx_scope = whole_company, cx_rules = [], cx_sodPolicies = toSodPolicies (db_platformSod db),
           cx_roleSummary = [],
           cx_units = [\<lparr>un_permissions = PLATFORM_PERMISSIONS, un_scope = whole_company\<rparr>]\<rparr>
      | Some userType \<Rightarrow>
          (let assignments = listLiveAssignments now (db_assignments db);
               granted = grant_all assignments
           in \<lparr>cx_tenantId = tenant, cx_userId = user,
               cx_userType = (case userType of None \<Rightarrow> InternalUser | Some u \<Rightarrow> u),
               cx_granted = granted, cx_visibleModules = withinPlan entitled (map fst granted),
               cx_scope = (case widestGrant (List.map_filter scopeGrantFor assignments) of
                             None \<Rightarrow> \<lparr>gr_kind = OwnWork, selectedResourceIds = Some [], departmentIds = None\<rparr>
                           | Some g \<Rightarrow> g),
               cx_rules = toPolicyRules (db_platformRules db) @ toPolicyRules (db_companyRules db),
               cx_sodPolicies = toSodPolicies (db_platformSod db) @ toSodPolicies (db_companySod db),
               cx_roleSummary = map summary_of assignments,
               cx_units = List.map_filter unit_of assignments\<rparr>))"

definition platformContext :: "uid \<Rightarrow> PlatformRoleKind list \<Rightarrow> authz_db \<Rightarrow> authz_context" where
  "platformContext user kinds db =
     (let granted = (if kinds \<noteq> [] then unionPlatformPermissions kinds else [])
      in \<lparr>cx_tenantId = [], cx_userId = user, cx_userType = PlatformUser, cx_granted = granted,
          cx_visibleModules = map fst granted, cx_scope = whole_company,
          cx_rules = toPolicyRules (db_platformRules db), cx_sodPolicies = toSodPolicies (db_platformSod db),
          cx_roleSummary = map (\<lambda>k. \<lparr>sm_roleKind = CompanyAdmin, sm_customRoleName = None,
                                       sm_scopeKind = scope_name WholeCompany\<rparr>) kinds,
          cx_units = [\<lparr>un_permissions = granted, un_scope = whole_company\<rparr>]\<rparr>)"

definition reachForPermission :: "authz_context \<Rightarrow> module_key \<Rightarrow> Action \<Rightarrow> (ScopeKind \<times> uid list) option" where
  "reachForPermission cx m a =
     (let reaching = filter (\<lambda>u. a \<in> set (actions_on (un_permissions u) m)) (cx_units cx)
      in if reaching = [] then None
         else (case widestGrant (map un_scope reaching) of
                 None \<Rightarrow> None
               | Some g \<Rightarrow> Some (gr_kind g,
                   dedupe (concat (map (\<lambda>u. ids (departmentIds (un_scope u)))
                     (filter (\<lambda>u. gr_kind (un_scope u) \<in> {Department, MultipleDepartments}) reaching))))))"

section \<open>The decision\<close>

record authorize_input =
  in_module :: string
  in_action :: string
  in_resource :: "resource option"
  in_actingAsAgent :: bool
  in_additionalSod :: "sod_policy list"

definition plain_refusal :: "DenialReason \<Rightarrow> decision_message \<Rightarrow> decision" where
  "plain_refusal reason message =
     \<lparr>de_allowed = False, de_reason = Some reason, de_message = message, de_decidedBy = None,
      de_effectiveScope = None, de_trace = None\<rparr>"

definition noRoleRefusal :: decision where
  "noRoleRefusal = plain_refusal NoRoleAssignment NeedsRole"

text \<open>The most telling refusal is kept: one about scope outranks one about role or policy.\<close>

definition refusal_rank :: "decision \<Rightarrow> nat" where
  "refusal_rank d = (if de_reason d \<in> {Some OutOfScopeReason, Some ScopeUnevaluableReason} then 2 else 1)"

definition keep :: "decision \<Rightarrow> decision option \<Rightarrow> decision option" where
  "keep d refusal =
     (case refusal of None \<Rightarrow> Some d | Some r \<Rightarrow> if refusal_rank r < refusal_rank d then Some d else Some r)"

definition precedenceFor :: "authz_context \<Rightarrow> module_key \<Rightarrow> Action \<Rightarrow> permission_unit \<Rightarrow> precedence_result" where
  "precedenceFor cx m a u =
     evaluatePrecedence (cx_userType cx) m a (actions_on (un_permissions u) m) (cx_visibleModules cx)
       (gr_kind (un_scope u)) (cx_rules cx)"

definition refusal_or_none :: "decision option \<Rightarrow> decision" where
  "refusal_or_none refusal = (case refusal of None \<Rightarrow> noRoleRefusal | Some d \<Rightarrow> d)"

fun first_allowing :: "authz_context \<Rightarrow> module_key \<Rightarrow> Action \<Rightarrow> permission_unit list \<Rightarrow> decision option \<Rightarrow> decision" where
  "first_allowing cx m a [] refusal = refusal_or_none refusal"
| "first_allowing cx m a (u # us) refusal =
     (let p = precedenceFor cx m a u
      in if pr_allowed p then pr_decision p else first_allowing cx m a us (keep (pr_decision p) refusal))"

definition traced :: "precedence_result \<Rightarrow> trace_step list \<Rightarrow> trace_step list option" where
  "traced p steps = Some ((case de_trace (pr_decision p) of None \<Rightarrow> [] | Some t \<Rightarrow> t) @ steps)"

definition step_at :: "trace_layer \<Rightarrow> trace_outcome \<Rightarrow> trace_detail \<Rightarrow> trace_step" where
  "step_at l out d = \<lparr>ts_layer = l, ts_outcome = out, ts_detail = d\<rparr>"

fun denial_of :: "scope_refusal \<Rightarrow> DenialReason" where
  "denial_of OutOfScope = OutOfScopeReason"
| "denial_of ScopeUnevaluable = ScopeUnevaluableReason"

definition scope_refusal_decision :: "precedence_result \<Rightarrow> scope_refusal \<Rightarrow> scope_detail \<Rightarrow> decision" where
  "scope_refusal_decision p reason detail =
     \<lparr>de_allowed = False, de_reason = Some (denial_of reason),
      de_message = (if reason = ScopeUnevaluable then HierarchyNotAvailable else OutsideYourRole),
      de_decidedBy = None, de_effectiveScope = Some (effectiveScope p),
      de_trace = traced p [step_at AtScope TDeny (ScopeNote detail)]\<rparr>"

text \<open>The unit that allows the request on this resource, or the refusal to give.\<close>

fun unit_for ::
  "authz_context \<Rightarrow> hierarchy_resolver option \<Rightarrow> module_key \<Rightarrow> Action \<Rightarrow> resource \<Rightarrow> permission_unit list
   \<Rightarrow> decision option \<Rightarrow> decision option + (precedence_result \<times> scope_detail)" where
  "unit_for cx h m a r [] refusal = Inl refusal"
| "unit_for cx h m a r (u # us) refusal =
     (let p = precedenceFor cx m a u
      in if \<not> pr_allowed p then unit_for cx h m a r us (keep (pr_decision p) refusal)
         else (case isInScopeAsync ((un_scope u)\<lparr>gr_kind := effectiveScope p\<rparr>) r (cx_userId cx) (cx_tenantId cx) h of
                 NotInScope reason detail \<Rightarrow>
                   unit_for cx h m a r us (keep (scope_refusal_decision p reason detail) refusal)
               | InScope detail \<Rightarrow> Inr (p, detail)))"

datatype security_call = SodBlocked uid uid module_key uid SodRule Action bool

definition holds_company_admin :: "authz_context \<Rightarrow> bool" where
  "holds_company_admin cx \<longleftrightarrow> (\<exists>s \<in> set (cx_roleSummary cx). sm_roleKind s = CompanyAdmin)"

definition units_of :: "authz_context \<Rightarrow> permission_unit list" where
  "units_of cx = (if cx_units cx \<noteq> [] then cx_units cx
     else [\<lparr>un_permissions = cx_granted cx, un_scope = cx_scope cx\<rparr>])"

text \<open>The decision, and the security events recorded on the way.\<close>

definition authorize ::
  "authz_context \<Rightarrow> hierarchy_resolver option \<Rightarrow> authorize_input \<Rightarrow> decision \<times> security_call list" where
  "authorize cx h i =
     (if \<not> isModuleKey (in_module i) then (plain_refusal UnknownModule UnknownModuleMessage, [])
      else (case isAction (in_action i) of
              None \<Rightarrow> (plain_refusal UnknownAction UnknownActionMessage, [])
            | Some a \<Rightarrow>
                if cx_roleSummary cx = [] \<and> cx_userType cx \<noteq> PlatformUser then (noRoleRefusal, [])
                else (case in_resource i of
                        None \<Rightarrow> (first_allowing cx (in_module i) a (units_of cx) None, [])
                      | Some r \<Rightarrow>
                          (case unit_for cx h (in_module i) a r (units_of cx) None of
                             Inl refusal \<Rightarrow> (refusal_or_none refusal, [])
                           | Inr (p, detail) \<Rightarrow>
                               (case checkSeparationOfDuties (cx_sodPolicies cx @ in_additionalSod i) a
                                       (in_module i) (cx_userId cx) r (in_actingAsAgent i) (holds_company_admin cx) of
                                  Violated rule d \<Rightarrow>
                                    (\<lparr>de_allowed = False, de_reason = Some SeparationOfDuties,
                                      de_message = SodMessage d, de_decidedBy = None,
                                      de_effectiveScope = Some (effectiveScope p),
                                      de_trace = traced p [step_at AtScope TAllow (ScopeNote detail),
                                                           step_at AtSeparationOfDuties TDeny (SodNote d)]\<rparr>,
                                     [SodBlocked (cx_userId cx) (cx_tenantId cx) (in_module i) (re_id r) rule a
                                        (in_actingAsAgent i)])
                                | Satisfied d \<Rightarrow>
                                    (\<lparr>de_allowed = True, de_reason = None, de_message = Permitted,
                                      de_decidedBy = None, de_effectiveScope = Some (effectiveScope p),
                                      de_trace = traced p [step_at AtScope TAllow (ScopeNote detail),
                                                           step_at AtSeparationOfDuties TAllow (SodNote d)]\<rparr>,
                                     []))))))"

definition assertCan :: "authz_context \<Rightarrow> hierarchy_resolver option \<Rightarrow> authorize_input \<Rightarrow> decision_message + unit" where
  "assertCan cx h i =
     (let d = fst (authorize cx h i) in if de_allowed d then Inr () else Inl (de_message d))"

definition matrixFor :: "authz_context \<Rightarrow> permission_set" where
  "matrixFor cx =
     concat (map (\<lambda>m.
       (let allowed = permittedActions (cx_userType cx) m (actions_on (cx_granted cx) m) (cx_visibleModules cx)
              (gr_kind (cx_scope cx)) (cx_rules cx) ACTIONS
        in if allowed = [] then [] else [(m, allowed)])) MODULE_KEYS)"

definition scopeForListing :: "authz_context \<Rightarrow> module_key \<Rightarrow> Action \<Rightarrow> ScopeKind" where
  "scopeForListing cx m a = effectiveScopeFor (gr_kind (cx_scope cx)) m a (cx_rules cx)"

definition governingSod :: "authz_context \<Rightarrow> module_key \<Rightarrow> Action \<Rightarrow> sod_policy option" where
  "governingSod cx m a = governingSodPolicy (cx_sodPolicies cx) a m"

definition unavailableNavKeys :: "authz_context \<Rightarrow> hierarchy_resolver option \<Rightarrow> string list" where
  "unavailableNavKeys cx h =
     (if de_allowed (fst (authorize cx h \<lparr>in_module = ''performance'', in_action = ''View'', in_resource = None,
           in_actingAsAgent = False, in_additionalSod = []\<rparr>))
      then [] else [''performance''])"

end
