(* ===== verification/Authorization_Decision.thy ===== *)
theory Authorization_Decision
  imports Authorization_Service
begin

text \<open>
  The decision of \<open>authorization.service.ts\<close> in closed form: which assignment allows a request, and that
  every separation-of-duties control in force is clear when it is allowed.
\<close>

section \<open>When a request is allowed\<close>

definition unit_allows ::
  "authz_context \<Rightarrow> hierarchy_resolver option \<Rightarrow> module_key \<Rightarrow> Action \<Rightarrow> resource option \<Rightarrow> permission_unit \<Rightarrow> bool" where
  "unit_allows cx h m a resource u \<longleftrightarrow>
     pr_allowed (precedenceFor cx m a u)
     \<and> (case resource of
          None \<Rightarrow> True
        | Some r \<Rightarrow> in_scope (isInScopeAsync ((un_scope u)\<lparr>gr_kind := effectiveScope (precedenceFor cx m a u)\<rparr>) r
                      (cx_userId cx) (cx_tenantId cx) h))"

lemma first_allowing_allowed:
  assumes "\<forall>d. refusal = Some d \<longrightarrow> \<not> de_allowed d"
  shows "de_allowed (first_allowing cx m a us refusal) \<longleftrightarrow> (\<exists>u \<in> set us. pr_allowed (precedenceFor cx m a u))"
  using assms
proof (induction us arbitrary: refusal)
  case Nil
  then show ?case
    by (auto simp add: refusal_or_none_def noRoleRefusal_def plain_refusal_def split: option.split)
next
  case (Cons u us)
  show ?case
  proof (cases "pr_allowed (precedenceFor cx m a u)")
    case True
    then show ?thesis by (simp add: Let_def precedenceFor_def)
  next
    case False
    then have "\<forall>d. keep (pr_decision (precedenceFor cx m a u)) refusal = Some d \<longrightarrow> \<not> de_allowed d"
      using Cons.prems by (auto simp add: keep_def precedenceFor_def split: option.splits if_splits)
    then show ?thesis using Cons.IH False by (simp add: Let_def)
  qed
qed

lemma unit_for_Inr:
  "(\<exists>x. unit_for cx h m a r us refusal = Inr x) \<longleftrightarrow> (\<exists>u \<in> set us. unit_allows cx h m a (Some r) u)"
proof (induction us arbitrary: refusal)
  case (Cons u us)
  then show ?case
    by (cases "isInScopeAsync ((un_scope u)\<lparr>gr_kind := effectiveScope (precedenceFor cx m a u)\<rparr>) r
          (cx_userId cx) (cx_tenantId cx) h")
      (auto simp add: unit_allows_def Let_def)
qed simp

lemma unit_for_Inl:
  assumes "unit_for cx h m a r us refusal = Inl d" and "\<forall>d. refusal = Some d \<longrightarrow> \<not> de_allowed d"
  shows "\<not> de_allowed (refusal_or_none d)"
  using assms
proof (induction us arbitrary: refusal)
  case Nil
  then show ?case
    by (auto simp add: refusal_or_none_def noRoleRefusal_def plain_refusal_def split: option.split)
next
  case (Cons u us)
  let ?p = "precedenceFor cx m a u"
  have k: "\<forall>d. keep (pr_decision ?p) refusal = Some d \<longrightarrow> \<not> de_allowed d" if "\<not> pr_allowed ?p"
    using that Cons.prems(2) by (auto simp add: keep_def precedenceFor_def split: option.splits if_splits)
  have s: "\<forall>d. keep (scope_refusal_decision ?p reason detail) refusal = Some d \<longrightarrow> \<not> de_allowed d" for reason detail
    using Cons.prems(2) by (auto simp add: keep_def scope_refusal_decision_def split: option.splits if_splits)
  show ?case
    using Cons.prems(1) Cons.IH k s by (auto simp add: Let_def split: if_splits scope_outcome.splits)
qed

definition no_role :: "authz_context \<Rightarrow> bool" where
  "no_role cx \<longleftrightarrow> cx_roleSummary cx = [] \<and> cx_userType cx \<noteq> PlatformUser"

definition sod_clear :: "authz_context \<Rightarrow> authorize_input \<Rightarrow> Action \<Rightarrow> bool" where
  "sod_clear cx i a \<longleftrightarrow>
     (case in_resource i of
        None \<Rightarrow> True
      | Some r \<Rightarrow> \<forall>p \<in> set (cx_sodPolicies cx @ in_additionalSod i). sod_applies a (in_module i) p \<longrightarrow>
          \<not> blocks (cx_userId cx) r (in_actingAsAgent i) (holds_company_admin cx) p)"

lemma authorize_allowed:
  "de_allowed (fst (authorize cx h i))
   \<longleftrightarrow> isModuleKey (in_module i) \<and> \<not> no_role cx
       \<and> (\<exists>a. isAction (in_action i) = Some a \<and> sod_clear cx i a
            \<and> (\<exists>u \<in> set (units_of cx). unit_allows cx h (in_module i) a (in_resource i) u))"
proof (cases "isModuleKey (in_module i) \<and> \<not> no_role cx \<and> isAction (in_action i) \<noteq> None")
  case False
  then show ?thesis
    by (auto simp add: authorize_def plain_refusal_def noRoleRefusal_def no_role_def split: option.split)
next
  case True
  then obtain a where a: "isAction (in_action i) = Some a" by blast
  show ?thesis
  proof (cases "in_resource i")
    case None
    have "de_allowed (first_allowing cx (in_module i) a (units_of cx) None)
        \<longleftrightarrow> (\<exists>u \<in> set (units_of cx). unit_allows cx h (in_module i) a None u)"
      by (simp add: first_allowing_allowed unit_allows_def)
    then show ?thesis using True a None by (auto simp add: authorize_def no_role_def sod_clear_def)
  next
    case (Some r)
    let ?f = "unit_for cx h (in_module i) a r (units_of cx) None"
    show ?thesis
    proof (cases ?f)
      case (Inl d)
      then have "\<not> (\<exists>u \<in> set (units_of cx). unit_allows cx h (in_module i) a (Some r) u)"
        by (simp flip: unit_for_Inr [where refusal = None])
      then show ?thesis
        using True a Some Inl unit_for_Inl [OF Inl] by (auto simp add: authorize_def no_role_def)
    next
      case (Inr x)
      obtain p detail where x: "x = (p, detail)" by fastforce
      have u: "\<exists>u \<in> set (units_of cx). unit_allows cx h (in_module i) a (Some r) u"
        using Inr by (simp flip: unit_for_Inr [where refusal = None])
      let ?s = "checkSeparationOfDuties (cx_sodPolicies cx @ in_additionalSod i) a (in_module i) (cx_userId cx) r
         (in_actingAsAgent i) (holds_company_admin cx)"
      have "sod_ok ?s \<longleftrightarrow> sod_clear cx i a" by (simp add: sod_clear_def Some checkSeparationOfDuties_ok)
      then show ?thesis
        using True a Some Inr x u by (cases ?s) (auto simp add: authorize_def no_role_def)
    qed
  qed
qed

lemma unit_allows_role:
  assumes "unit_allows cx h m a r u"
  shows "role_admits (cx_userType cx) m a (actions_on (un_permissions u) m) (cx_visibleModules cx)"
    "policy_admits m a (cx_rules cx)"
  using assms by (simp_all add: unit_allows_def precedenceFor_def evaluatePrecedence_allowed)

end
