(* ===== verification/Authorization_Properties.thy ===== *)
theory Authorization_Properties
  imports Authorization_Decision
begin

text \<open>
  The properties of access control: when a request is allowed, what can never be overridden, that a
  permission is only ever exercised within the assignment that grants it, and that what the screens
  are told agrees with what is enforced.
\<close>

section \<open>A company with three people\<close>

definition seal :: policy_row where
  "seal = \<lparr>pw_layer = ''Platform'', pw_module = Some ''settings'', pw_action = Some ''Export'', pw_effect = ''Deny'',
     pw_mandatory = True, pw_maxScope = None, pw_reason = ''no exports''\<rparr>"

definition exception :: policy_row where
  "exception = \<lparr>pw_layer = ''Company'', pw_module = Some ''settings'', pw_action = None, pw_effect = ''Allow'',
     pw_mandatory = False, pw_maxScope = None, pw_reason = ''we need them''\<rparr>"

definition four_eyes :: sod_row where
  "four_eyes = \<lparr>sw_module = None, sw_action = ''Approve'', sw_rule = ''FourEyes'', sw_mandatory = True, sw_reason = ''two people''\<rparr>"

definition staff :: "RoleKind \<Rightarrow> string \<Rightarrow> uid list \<Rightarrow> assignment" where
  "staff role scope deps = \<lparr>as_roleKind = role, as_scopeKind = scope, as_departmentIds = deps,
     as_selectedResourceIds = [], as_customRole = None, as_expiresAt = None\<rparr>"

definition db_with :: "assignment list \<Rightarrow> authz_db" where
  "db_with as = \<lparr>db_userType = Some (Some InternalUser), db_assignments = as, db_companyRules = [exception],
     db_companySod = [four_eyes], db_platformRules = [seal], db_platformSod = []\<rparr>"

definition kavya :: authz_context where
  "kavya = contextFor ''acme'' ''kavya'' 0 None
     (db_with [staff Employee ''OwnWork'' [], staff ApproverRole ''Department'' [''d1'']])"

definition ask :: "module_key \<Rightarrow> string \<Rightarrow> resource option \<Rightarrow> authorize_input" where
  "ask m a r = \<lparr>in_module = m, in_action = a, in_resource = r, in_actingAsAgent = False, in_additionalSod = []\<rparr>"

definition task_of :: "uid \<Rightarrow> uid \<Rightarrow> resource" where
  "task_of owner dep = \<lparr>re_id = ''t1'', ownerUserId = Some owner, createdByUserId = Some owner,
     re_departmentId = Some dep, priorActorUserIds = None\<rparr>"

section \<open>The properties\<close>

text \<open>
  C16. A request is allowed exactly when the module and the action exist, the person has a role, no
  separation-of-duties control stands in the way, and one of their assignments by itself grants the
  action, passes every policy layer and reaches the resource.
\<close>

theorem authorize_allows_iff:
  "de_allowed (fst (authorize cx h i))
   \<longleftrightarrow> isModuleKey (in_module i) \<and> \<not> no_role cx
       \<and> (\<exists>a. isAction (in_action i) = Some a \<and> sod_clear cx i a
            \<and> (\<exists>u \<in> set (units_of cx). unit_allows cx h (in_module i) a (in_resource i) u))"
  by (rule authorize_allowed)

text \<open>
  C7. A mandatory denial cannot be overridden: while one applies no request for that action is
  allowed, whatever other rules say at any layer, whoever asks and for whatever resource.
\<close>

theorem mandatory_denial_is_final:
  assumes "r \<in> set (cx_rules cx)" and "ru_effect r = Deny" and "ru_mandatory r"
    and "isAction (in_action i) = Some a" and "applies (in_module i) a r"
  shows "\<not> de_allowed (fst (authorize cx h i))"
  using assms unit_allows_role(2)
  by (auto simp add: authorize_allowed policy_admits_def mandatory_denial_def)

definition asha :: authz_context where
  "asha = contextFor ''acme'' ''asha'' 0 None (db_with [staff CompanyAdmin ''WholeCompany'' []])"

theorem mandatory_denial_is_final_witness:
  "\<not> de_allowed (fst (authorize asha None (ask ''settings'' ''Export'' None)))
   \<and> de_allowed (fst (authorize asha None (ask ''settings'' ''Audit'' None)))"
proof -
  let ?r = "hd (cx_rules asha)"
  have "?r \<in> set (cx_rules asha)" "ru_effect ?r = Deny" "ru_mandatory ?r"
    "isAction (in_action (ask ''settings'' ''Export'' None)) = Some ActExport"
    "applies (in_module (ask ''settings'' ''Export'' None)) ActExport ?r" by code_simp+
  from mandatory_denial_is_final [OF this, of None]
  show ?thesis by (intro conjI) (simp, code_simp)
qed

text \<open>
  C26. The user type is a ceiling: an action forbidden to the type is refused whatever roles, rules
  and resources are involved.
\<close>

theorem user_type_ceiling_is_absolute:
  assumes "isAction (in_action i) = Some a" and "a \<in> set (USER_TYPE_CEILINGS (cx_userType cx))"
  shows "\<not> de_allowed (fst (authorize cx h i))"
  using assms unit_allows_role(1) by (auto simp add: authorize_allowed role_admits_def)

theorem user_type_ceiling_is_absolute_witness:
  "\<not> de_allowed (fst (authorize (asha\<lparr>cx_userType := ExternalGuest\<rparr>) None (ask ''settings'' ''Audit'' None)))"
  by (rule user_type_ceiling_is_absolute [of _ ActAudit]) code_simp+



text \<open>
  C27. Four eyes hold: where a four-eyes control applies, nobody decides who created the resource or
  already acted on it, company administrators included, and no agent does.
\<close>

theorem four_eyes_hold:
  assumes "de_allowed (fst (authorize cx h i))" and "in_resource i = Some r"
    and "p \<in> set (cx_sodPolicies cx)" and "so_rule p = FourEyes"
    and "isAction (in_action i) = Some a" and "sod_applies a (in_module i) p"
  shows "\<not> in_actingAsAgent i \<and> createdByUserId r \<noteq> Some (cx_userId cx)
    \<and> cx_userId cx \<notin> set (ids (priorActorUserIds r))"
  using assms by (auto simp add: authorize_allowed sod_clear_def blocks_def)

definition rajivs_objective :: resource where
  "rajivs_objective = task_of ''rajiv'' ''d1''"

theorem four_eyes_hold_witness:
  "de_allowed (fst (authorize kavya None (ask ''objective'' ''Approve'' (Some rajivs_objective))))
   \<and> createdByUserId rajivs_objective \<noteq> Some (cx_userId kavya)"
proof -
  let ?i = "ask ''objective'' ''Approve'' (Some rajivs_objective)" and ?p = "hd (cx_sodPolicies kavya)"
  have "de_allowed (fst (authorize kavya None ?i))" "in_resource ?i = Some rajivs_objective"
    "?p \<in> set (cx_sodPolicies kavya)" "so_rule ?p = FourEyes" "isAction (in_action ?i) = Some ActApprove"
    "sod_applies ActApprove (in_module ?i) ?p" by code_simp+
  with four_eyes_hold [OF this] show ?thesis by blast
qed

text \<open>
  Policy only narrows, and a list is as wide as the decision: the scope a listing uses is the
  scope the evaluation ends with, the narrowest of the assigned one and every applicable cap, so no
  rule added anywhere widens it.
\<close>

theorem policy_only_narrows:
  assumes "role_admits u m a granted visible"
  shows "effectiveScope (evaluatePrecedence u m a granted visible scope rules) = effectiveScopeFor scope m a rules
    \<and> effectiveScopeFor scope m a rules \<le> scope
    \<and> (\<forall>r. effectiveScopeFor scope m a (r # rules) \<le> effectiveScopeFor scope m a rules)"
proof -
  let ?caps = "\<lambda>rs. {s. \<exists>r \<in> set rs. applies m a r \<and> ru_maxScope r = Some s}"
  have fin: "finite (?caps rs)" for rs
    by (rule finite_subset [OF _ finite_imageI [OF finite_set [of rs], of "\<lambda>r. the (ru_maxScope r)"]]) force
  have "set (caps (in_order m a rules)) = ?caps rules" by (auto simp add: set_caps)
  then have "effectiveScope (evaluatePrecedence u m a granted visible scope rules) = effectiveScopeFor scope m a rules"
    by (simp add: evaluatePrecedence_scope [OF assms] foldl_min effectiveScopeFor_min)
  moreover have "effectiveScopeFor scope m a rules \<le> scope"
    unfolding effectiveScopeFor_min by (rule Min_le) (simp_all only: finite_insert fin insert_iff simp_thms)
  moreover have "effectiveScopeFor scope m a (r # rules) \<le> effectiveScopeFor scope m a rules" for r
  proof -
    have sub: "insert scope (?caps rules) \<subseteq> insert scope (?caps (r # rules))" by auto
    show ?thesis unfolding effectiveScopeFor_min
      by (rule Min_antimono [OF sub]) (simp_all only: finite_insert fin insert_not_empty not_False_eq_True)
  qed
  ultimately show ?thesis by blast
qed

theorem policy_only_narrows_witness:
  "effectiveScopeFor WholeCompany ''todo'' ActView [(hd (cx_rules asha))\<lparr>ru_module := None, ru_action := None,
     ru_maxScope := Some TeamSubtree\<rparr>] \<le> effectiveScopeFor WholeCompany ''todo'' ActView []"
proof -
  have "role_admits InternalUser ''todo'' ActView [ActView] [''todo'']" by code_simp
  from policy_only_narrows [OF this, of WholeCompany "[]"] show ?thesis by blast
qed

section \<open>The screens agree with the enforcement\<close>

lemma map_of_set_key: "map_of (set_key m acts p) k = (if k = m then Some acts else map_of p k)"
  by (induction m acts p rule: set_key.induct) auto

lemma actions_on_grant:
  "a \<in> set (actions_on (grant_actions g (m', acts)) m)
   \<longleftrightarrow> a \<in> set (actions_on g m) \<or> (isModuleKey m' \<and> m' = m \<and> a \<in> set acts)"
  by (simp add: grant_actions_def actions_on_def map_of_set_key)

lemma actions_on_foldl_grant:
  "a \<in> set (actions_on (foldl grant_actions g p) m)
   \<longleftrightarrow> a \<in> set (actions_on g m) \<or> (isModuleKey m \<and> (\<exists>acts. (m, acts) \<in> set p \<and> a \<in> set acts))"
proof (induction p arbitrary: g)
  case (Cons e p)
  obtain m' acts where e: "e = (m', acts)" by fastforce
  show ?case unfolding e foldl_Cons Cons.IH actions_on_grant by auto
qed simp

lemma actions_on_grant_all:
  "a \<in> set (actions_on (grant_all as) m)
   \<longleftrightarrow> isModuleKey m \<and> (\<exists>x \<in> set as. \<exists>acts. (m, acts) \<in> set (permissionsFor x) \<and> a \<in> set acts)"
proof -
  have "a \<in> set (actions_on (foldl (\<lambda>g x. foldl grant_actions g (permissionsFor x)) g as) m)
      \<longleftrightarrow> a \<in> set (actions_on g m) \<or> (isModuleKey m \<and> (\<exists>x \<in> set as. \<exists>acts. (m, acts) \<in> set (permissionsFor x) \<and> a \<in> set acts))" for g
  proof (induction as arbitrary: g)
    case (Cons x as)
    show ?case unfolding foldl_Cons Cons.IH actions_on_foldl_grant by auto
  qed simp
  then show ?thesis by (simp add: grant_all_def actions_on_def)
qed

text \<open>The keys of a stored permission set are distinct, as those of any object are.\<close>

definition keys_distinct :: "assignment \<Rightarrow> bool" where
  "keys_distinct x \<longleftrightarrow>
     (case as_customRole x of None \<Rightarrow> True
      | Some c \<Rightarrow> (case cr_permissions c of None \<Rightarrow> True | Some es \<Rightarrow> distinct (map fst es)))"

lemma distinct_sanitise: "distinct (map fst es) \<Longrightarrow> distinct (map fst (sanitisePermissionSet (Some es)))"
proof (induction es)
  case (Cons e es)
  obtain m v where e: "e = (m, v)" by fastforce
  have dist: "distinct (map fst (sanitisePermissionSet (Some es)))" using Cons by simp
  have sub: "fst ` set (sanitisePermissionSet (Some es)) \<subseteq> fst ` set es"
    by (auto simp add: sanitisePermissionSet_def Let_def rev_image_eqI split: if_splits raw_value.splits)
  have eq: "sanitisePermissionSet (Some (e # es)) = sanitisePermissionSet (Some [e]) @ sanitisePermissionSet (Some es)"
    by (simp add: sanitisePermissionSet_def)
  have one: "sanitisePermissionSet (Some [e]) = [] \<or> (\<exists>acts. sanitisePermissionSet (Some [e]) = [(m, acts)])"
    by (simp add: sanitisePermissionSet_def e Let_def split: raw_value.split)
  have "m \<notin> fst ` set es" using Cons.prems e by simp
  with sub have "m \<notin> fst ` set (sanitisePermissionSet (Some es))" by blast
  then have "\<forall>acts. (m, acts) \<notin> set (sanitisePermissionSet (Some es))" by (metis fst_conv imageI)
  then show ?case using eq one dist by auto
qed (simp add: sanitisePermissionSet_def)

lemma distinct_template: "ROLE_TEMPLATES k = Some t \<Longrightarrow> distinct (map fst (permissions t))"
  by (cases k) (auto simp add: acrossCompany_def COMPANY_MODULES_def)

lemma distinct_permissionsFor: "keys_distinct x \<Longrightarrow> distinct (map fst (permissionsFor x))"
proof -
  have "distinct (map fst (sanitisePermissionSet None))" by (simp add: sanitisePermissionSet_def)
  then show "keys_distinct x \<Longrightarrow> distinct (map fst (permissionsFor x))"
    using distinct_sanitise distinct_template
    by (auto simp add: permissionsFor_def keys_distinct_def split: option.splits)
qed

lemma actions_on_distinct:
  "distinct (map fst p) \<Longrightarrow> a \<in> set (actions_on p m) \<longleftrightarrow> (\<exists>acts. (m, acts) \<in> set p \<and> a \<in> set acts)"
  by (auto simp add: actions_on_def split: option.splits dest: map_of_SomeD [OF sym] map_of_is_SomeI)

lemma isModuleKey_distinct: "distinct MODULE_KEYS"
  by code_simp

lemma matrixFor_actions:
  assumes "isModuleKey m"
  shows "a \<in> set (actions_on (matrixFor cx) m)
    \<longleftrightarrow> role_admits (cx_userType cx) m a (actions_on (cx_granted cx) m) (cx_visibleModules cx)
        \<and> policy_admits m a (cx_rules cx)"
proof -
  let ?al = "\<lambda>m. permittedActions (cx_userType cx) m (actions_on (cx_granted cx) m) (cx_visibleModules cx)
              (gr_kind (cx_scope cx)) (cx_rules cx) ACTIONS"
  have gen: "map_of (concat (map (\<lambda>m. if ?al m = [] then [] else [(m, ?al m)]) ks)) m
      = (if m \<in> set ks \<and> ?al m \<noteq> [] then Some (?al m) else None)" for ks
    by (induction ks) (auto simp add: map_of_append map_add_def)
  have "map_of (matrixFor cx) m = (if m \<in> set MODULE_KEYS \<and> ?al m \<noteq> [] then Some (?al m) else None)"
    unfolding matrixFor_def Let_def by (rule gen)
  then have "actions_on (matrixFor cx) m = ?al m"
    using assms by (cases "?al m = []") (simp_all add: actions_on_def isModuleKey_def)
  then show ?thesis by (simp add: permittedActions_def evaluatePrecedence_allowed)
qed

text \<open>
  C28. The permission matrix a screen is drawn from agrees with the enforcement: it lists an action on
  a module exactly when the request for it, without a resource, is allowed.
\<close>

theorem matrix_agrees_with_enforcement:
  assumes "\<forall>x \<in> set (listLiveAssignments now (db_assignments db)). isScopeKind (as_scopeKind x) \<noteq> None \<and> keys_distinct x"
    and "isModuleKey m" and cx: "cx = contextFor tenant user now entitled db"
  shows "a \<in> set (actions_on (matrixFor cx) m)
    \<longleftrightarrow> de_allowed (fst (authorize cx h (ask m (action_name a) None)))"
proof -
  let ?as = "listLiveAssignments now (db_assignments db)"
  have allowed: "de_allowed (fst (authorize cx h (ask m (action_name a) None)))
      \<longleftrightarrow> \<not> no_role cx \<and> policy_admits m a (cx_rules cx)
          \<and> (\<exists>u \<in> set (units_of cx). role_admits (cx_userType cx) m a (actions_on (un_permissions u) m) (cx_visibleModules cx))"
    using assms(2)
    by (auto simp add: authorize_allowed ask_def sod_clear_def unit_allows_def precedenceFor_def evaluatePrecedence_allowed)
  have "(\<not> no_role cx \<and> (\<exists>u \<in> set (units_of cx). a \<in> set (actions_on (un_permissions u) m)))
      \<longleftrightarrow> a \<in> set (actions_on (cx_granted cx) m)"
  proof (cases "db_userType db")
    case None
    then show ?thesis by (simp add: cx contextFor_def units_of_def no_role_def)
  next
    case (Some ut)
    have scopes: "\<exists>s. scopeGrantFor x = Some s" if "x \<in> set ?as" for x
      using assms(1) that by (auto simp add: scopeGrantFor_def Let_def)
    have units: "cx_units cx = map (\<lambda>x. \<lparr>un_permissions = permissionsFor x, un_scope = the (scopeGrantFor x)\<rparr>) ?as"
    proof -
      have "List.map_filter unit_of xs = map (\<lambda>x. \<lparr>un_permissions = permissionsFor x, un_scope = the (scopeGrantFor x)\<rparr>) xs"
        if "set xs \<subseteq> set ?as" for xs
        using that
      proof (induction xs)
        case (Cons x xs)
        then obtain s where "scopeGrantFor x = Some s" using scopes by auto
        then show ?case using Cons by (simp add: map_filter_simps unit_of_def)
      qed (simp add: map_filter_simps)
      then show ?thesis by (simp add: cx contextFor_def Some Let_def)
    qed
    have granted: "cx_granted cx = grant_all ?as" "cx_roleSummary cx = map summary_of ?as"
      by (simp_all add: cx contextFor_def Some Let_def)
    have mem: "a \<in> set (actions_on (permissionsFor x) m) \<longleftrightarrow> (\<exists>acts. (m, acts) \<in> set (permissionsFor x) \<and> a \<in> set acts)"
      if "x \<in> set ?as" for x
      using that assms(1) actions_on_distinct [OF distinct_permissionsFor] by blast
    show ?thesis
    proof (cases "?as = []")
      case True
      then show ?thesis
        using units granted by (simp add: units_of_def grant_all_def actions_on_def)
    next
      case False
      then have "units_of cx = cx_units cx" "\<not> no_role cx" using units granted by (auto simp add: units_of_def no_role_def)
      then show ?thesis using units granted mem assms(2) by (auto simp add: actions_on_grant_all)
    qed
  qed
  then show ?thesis
    unfolding allowed matrixFor_actions [OF assms(2)] role_admits_def by blast
qed

theorem matrix_agrees_with_enforcement_witness:
  "(ActExport \<in> set (actions_on (matrixFor asha) ''reports'')
    \<longleftrightarrow> de_allowed (fst (authorize asha None (ask ''reports'' (action_name ActExport) None))))
   \<and> ActExport \<in> set (actions_on (matrixFor asha) ''reports'')"
  by (intro conjI matrix_agrees_with_enforcement [OF _ _ asha_def]) (code_simp+)

section \<open>The catalogue\<close>

lemma sanitisePlatformRole_ceiling:
  assumes "sanitisePlatformRole kind p = Inr q" and "(m, acts) \<in> set q" and "a \<in> set acts"
  shows "a \<in> set (actions_on PLATFORM_PERMISSIONS m)"
  using assms
  by (induction kind p arbitrary: q rule: sanitisePlatformRole.induct)
    (auto simp add: Let_def result_simps actions_on_def filter_empty_conv split: option.splits if_splits)

lemma role_permissions_ceiling:
  assumes "(m, acts) \<in> set (role_permissions k)" and "a \<in> set acts"
  shows "a \<in> set (actions_on PLATFORM_PERMISSIONS m)"
proof (cases "k = PlatformOwner")
  case True
  have "distinct (map fst PLATFORM_PERMISSIONS)" by code_simp
  then show ?thesis using assms True by (auto simp add: role_permissions_def actions_on_distinct)
next
  case False
  then show ?thesis
    using assms
    by (cases k) (auto simp add: role_permissions_def withoutModules_def platform_role_def
        split: sum.splits dest: sanitisePlatformRole_ceiling [OF sym])
qed

lemma add_missing_set: "set (add_missing xs ys) = set xs \<union> set ys"
proof -
  have "set (foldl (\<lambda>xs a. if a \<in> set xs then xs else xs @ [a]) xs ys) = set xs \<union> set ys"
    by (induction ys arbitrary: xs) auto
  then show ?thesis by (simp add: add_missing_def)
qed

lemma merge_entries:
  "a \<in> set (actions_on (foldl merge_entry g p) m)
   \<longleftrightarrow> a \<in> set (actions_on g m) \<or> (\<exists>acts. (m, acts) \<in> set p \<and> a \<in> set acts)"
proof (induction p arbitrary: g)
  case (Cons e p)
  obtain m' acts where e: "e = (m', acts)" by fastforce
  have "a \<in> set (actions_on (merge_entry g e) m) \<longleftrightarrow> a \<in> set (actions_on g m) \<or> (m' = m \<and> a \<in> set acts)"
    by (simp add: merge_entry_def e actions_on_def map_of_set_key add_missing_set)
  then show ?case unfolding foldl_Cons Cons.IH using e by auto
qed simp

text \<open>
  A platform role only subtracts: building the roles throws for none of them, and no combination
  of roles is granted an action on a module beyond the platform's permissions.
\<close>

theorem platform_roles_only_subtract:
  "(\<forall>k. \<exists>p. PLATFORM_ROLE_TEMPLATES k = Inr p)
   \<and> set (actions_on (unionPlatformPermissions kinds) m) \<subseteq> set (actions_on PLATFORM_PERMISSIONS m)"
proof
  have "\<not> isl (PLATFORM_ROLE_TEMPLATES PlatformOwner)" "\<not> isl (PLATFORM_ROLE_TEMPLATES PlatformAdmin)"
    "\<not> isl (PLATFORM_ROLE_TEMPLATES PlatformCommercial)" "\<not> isl (PLATFORM_ROLE_TEMPLATES PlatformSupport)"
    "\<not> isl (PLATFORM_ROLE_TEMPLATES PlatformSecurity)" "\<not> isl (PLATFORM_ROLE_TEMPLATES PlatformEngineer)"
    by code_simp+
  then have "\<not> isl (PLATFORM_ROLE_TEMPLATES k)" for k by (cases k) simp_all
  then show "\<forall>k. \<exists>p. PLATFORM_ROLE_TEMPLATES k = Inr p" by (metis sum.collapse(2))
next
  have "set (actions_on (foldl (\<lambda>g k. foldl merge_entry g (role_permissions k)) g kinds) m)
      \<subseteq> set (actions_on g m) \<union> set (actions_on PLATFORM_PERMISSIONS m)" for g
  proof (induction kinds arbitrary: g)
    case (Cons k kinds)
    have "set (actions_on (foldl merge_entry g (role_permissions k)) m)
        \<subseteq> set (actions_on g m) \<union> set (actions_on PLATFORM_PERMISSIONS m)"
      using role_permissions_ceiling by (auto simp add: merge_entries)
    then show ?case using Cons by fastforce
  qed simp
  from this [of "[]"]
  show "set (actions_on (unionPlatformPermissions kinds) m) \<subseteq> set (actions_on PLATFORM_PERMISSIONS m)"
    by (simp add: unionPlatformPermissions_def actions_on_def)
qed

definition template_sound :: "RoleKind \<Rightarrow> bool" where
  "template_sound k =
     (case ROLE_TEMPLATES k of None \<Rightarrow> True
      | Some t \<Rightarrow> isScopeNoWiderThan (defaultScope t) (maxScope t) \<and> list_all isCompanyModule (map fst (permissions t)))"

definition grants_none :: "RoleKind \<Rightarrow> Action list \<Rightarrow> bool" where
  "grants_none k actions =
     (case ROLE_TEMPLATES k of None \<Rightarrow> True
      | Some t \<Rightarrow> list_all (\<lambda>(m, acts). list_all (\<lambda>a. a \<notin> set acts) actions) (permissions t))"

text \<open>
  The role catalogue keeps its promises: no role's default scope is wider than its maximum, every
  module it names is a company module, an auditor can change nothing, an approver creates and edits
  nothing, and an employee approves nothing.
\<close>

theorem role_catalogue_keeps_its_promises:
  "template_sound k \<and> grants_none Auditor WRITE_ACTIONS \<and> grants_none ApproverRole [ActCreate, ActEditDraft]
   \<and> grants_none Employee [ActApprove, ActPublish, ActAssign, ActManageAccess, ActAdminister]"
proof -
  have "template_sound Employee" "template_sound Manager" "template_sound Head" "template_sound CompanyAdmin"
    "template_sound ApproverRole" "template_sound Auditor" "template_sound CustomRole" by code_simp+
  then have "template_sound k" by (cases k) simp_all
  moreover have "grants_none Auditor WRITE_ACTIONS" "grants_none ApproverRole [ActCreate, ActEditDraft]"
    "grants_none Employee [ActApprove, ActPublish, ActAssign, ActManageAccess, ActAdminister]" by code_simp+
  ultimately show ?thesis by simp
qed

text \<open>
  Access levels are recovered from the actions they stand for: in every section, the actions of a
  level the section offers read back as that level.
\<close>

theorem access_levels_round_trip:
  assumes "sectionOffers m level"
  shows "levelFromActions m (actionsForLevel level) = Some level"
proof -
  have all: "list_all (\<lambda>(m, ls). list_all (\<lambda>l. levelFromActions m (actionsForLevel l) = Some l) ls) SECTION_LEVELS"
    by code_simp
  obtain ls where "(m, ls) \<in> set SECTION_LEVELS" "level \<in> set ls"
    using assms by (auto simp add: sectionOffers_def section_levels_def split: option.splits dest: map_of_SomeD [OF sym])
  then show ?thesis using all by (fastforce simp add: list_all_iff)
qed

theorem access_levels_round_trip_witness:
  "levelFromActions ''objective'' (actionsForLevel LevelApprover) = Some LevelApprover"
  by (rule access_levels_round_trip) code_simp

section \<open>Where the code departs from its comments\<close>

text \<open>
  The union of three single-department grants loses the third: after the first two merge into a
  multiple-department grant the third is of another kind and is dropped.
\<close>

definition department_grant :: "uid \<Rightarrow> scope_grant" where
  "department_grant d = \<lparr>gr_kind = Department, selectedResourceIds = None, departmentIds = Some [d]\<rparr>"

lemma widest_grant_drops_a_department:
  "widestGrant [department_grant ''d1'', department_grant ''d2'', department_grant ''d3'']
   = Some \<lparr>gr_kind = MultipleDepartments, selectedResourceIds = None, departmentIds = Some [''d1'', ''d2'']\<rparr>"
  by code_simp

text \<open>
  Narrowing a department grant to own work can reach a resource the grant did not: one's own in
  another department.
\<close>

lemma narrowing_is_not_containment:
  "OwnWork \<le> Department
   \<and> \<not> in_scope (isInScope (department_grant ''d1'') (task_of ''asha'' ''d2'') ''asha'')
   \<and> in_scope (isInScope ((department_grant ''d1'')\<lparr>gr_kind := OwnWork\<rparr>) (task_of ''asha'' ''d2'') ''asha'')"
  by code_simp

end
