(* ===== verification/Rendering.thy ===== *)
theory Rendering
  imports UbossPrelude Doubles
begin

text \<open>
  Strings as the source builds and reads them: decimal rendering in template literals, \<open>join\<close>,
  \<open>split\<close>, \<open>slice\<close> and the \<open>Number\<close> conversion of a string.
\<close>

section \<open>Writing\<close>

definition digit_char :: "nat \<Rightarrow> char" where
  "digit_char d = char_of (48 + d)"

fun show_nat :: "nat \<Rightarrow> string" where
  "show_nat n = (if n < 10 then [digit_char n] else show_nat (n div 10) @ [digit_char (n mod 10)])"

declare show_nat.simps [simp del]

definition show_int :: "int \<Rightarrow> string" where
  "show_int i = (if i < 0 then ''-'' @ show_nat (nat (- i)) else show_nat (nat i))"

fun join :: "string \<Rightarrow> string list \<Rightarrow> string" where
  "join sep [] = []"
| "join sep [x] = x"
| "join sep (x # y # ys) = x @ sep @ join sep (y # ys)"

text \<open>\<open>s.slice(0, n)\<close>.\<close>

definition slice_to :: "nat \<Rightarrow> string \<Rightarrow> string" where
  "slice_to n s = take n s"

lemma slice_to_short [simp]: "length s \<le> n \<Longrightarrow> slice_to n s = s"
  by (simp add: slice_to_def)

lemma length_slice_to [simp]: "length (slice_to n s) \<le> n"
  by (simp add: slice_to_def)

section \<open>Splitting\<close>

text \<open>\<open>s.split(c)\<close> for one character: there is always a last piece, an empty one included.\<close>

fun split_on :: "char \<Rightarrow> string \<Rightarrow> string list" where
  "split_on c [] = [[]]"
| "split_on c (x # xs) =
     (if x = c then [] # split_on c xs
      else (case split_on c xs of [] \<Rightarrow> [[x]] | p # ps \<Rightarrow> (x # p) # ps))"

lemma length_dropWhile_space:
  "dropWhile (\<lambda>c. \<not> is_space c) s \<noteq> []
   \<Longrightarrow> length (dropWhile is_space (dropWhile (\<lambda>c. \<not> is_space c) s)) < length s"
proof -
  let ?more = "dropWhile (\<lambda>c. \<not> is_space c) s"
  assume ne: "?more \<noteq> []"
  then have "is_space (hd ?more)" using hd_dropWhile by blast
  then have "length (dropWhile is_space ?more) < length ?more"
    using ne by (cases ?more) (auto simp add: le_imp_less_Suc length_dropWhile_le)
  then show ?thesis using length_dropWhile_le [of "\<lambda>c. \<not> is_space c" s] by linarith
qed

text \<open>\<open>s.split(/\s+/)\<close>: a run of white space separates once.\<close>

function split_spaces :: "string \<Rightarrow> string list" where
  "split_spaces s =
     (let field = takeWhile (\<lambda>c. \<not> is_space c) s;
          more = dropWhile (\<lambda>c. \<not> is_space c) s
      in if more = [] then [field] else field # split_spaces (dropWhile is_space more))"
  by pat_completeness auto

termination by (relation "measure length") (auto simp add: length_dropWhile_space)

declare split_spaces.simps [simp del]

lemma split_on_not_Nil [simp]: "split_on c s \<noteq> []"
  by (induction s) (auto split: list.splits)

lemma split_on_no: "c \<notin> set s \<Longrightarrow> split_on c s = [s]"
  by (induction s) auto

lemma split_on_sep: "c \<notin> set x \<Longrightarrow> split_on c (x @ c # s) = x # split_on c s"
  by (induction x) auto

lemma split_on_join:
  "xs \<noteq> [] \<Longrightarrow> \<forall>x \<in> set xs. c \<notin> set x \<Longrightarrow> split_on c (join [c] xs) = xs"
  by (induction "[c]" xs rule: join.induct) (auto simp add: split_on_no split_on_sep)

lemma split_spaces_last: "\<forall>c \<in> set x. \<not> is_space c \<Longrightarrow> split_spaces x = [x]"
  by (subst split_spaces.simps) (simp add: takeWhile_eq_all_conv [THEN iffD2] dropWhile_eq_Nil_conv [THEN iffD2])

lemma split_spaces_more:
  assumes "\<forall>c \<in> set x. \<not> is_space c" and "is_space b" and "\<not> is_space c"
  shows "split_spaces (x @ b # c # s) = x # split_spaces (c # s)"
proof -
  have "takeWhile (\<lambda>c. \<not> is_space c) (x @ b # c # s) = x"
    using assms by (simp add: takeWhile_append2 [of x])
  moreover have "dropWhile (\<lambda>c. \<not> is_space c) (x @ b # c # s) = b # c # s"
    using assms by (simp add: dropWhile_append2 [of x])
  ultimately show ?thesis using assms by (subst split_spaces.simps) simp
qed

definition is_word :: "string \<Rightarrow> bool" where
  "is_word s \<longleftrightarrow> s \<noteq> [] \<and> (\<forall>c \<in> set s. \<not> is_space c)"

lemma split_spaces_join:
  "ws \<noteq> [] \<Longrightarrow> \<forall>w \<in> set ws. is_word w \<Longrightarrow> split_spaces (join '' '' ws) = ws"
proof (induction ws rule: induct_list012)
  case (3 x y zs)
  define rest where "rest = join '' '' (y # zs)"
  have y: "y \<noteq> []" "\<not> is_space (hd y)" using 3(4) by (simp_all add: is_word_def)
  obtain c s where rest: "rest = c # s" "\<not> is_space c"
    using y by (cases y; cases zs) (auto simp add: rest_def)
  have "split_spaces (x @ CHR '' '' # c # s) = x # split_spaces (c # s)"
    using 3(4) rest(2) by (intro split_spaces_more) (auto simp add: is_word_def is_space_def)
  then show ?case using 3 rest(1) by (simp add: rest_def)
qed (auto simp add: is_word_def intro: split_spaces_last)

lemma trim_ends:
  assumes "s \<noteq> []" and "\<not> is_space (hd s)" and "\<not> is_space (last s)"
  shows "trim s = s"
proof -
  have "dropWhile is_space s = s" using assms by (cases s) auto
  moreover have "dropWhile is_space (rev s) = rev s"
    using assms by (cases s rule: rev_cases) auto
  ultimately show ?thesis by (simp add: trim_def)
qed

lemma join_ends:
  "ws \<noteq> [] \<Longrightarrow> \<forall>w \<in> set ws. is_word w \<Longrightarrow>
   join '' '' ws \<noteq> [] \<and> \<not> is_space (hd (join '' '' ws)) \<and> \<not> is_space (last (join '' '' ws))"
proof (induction ws rule: induct_list012)
  case (3 x y zs)
  then show ?case by (auto simp add: is_word_def hd_append)
qed (auto simp add: is_word_def)

lemma trim_join: "ws \<noteq> [] \<Longrightarrow> \<forall>w \<in> set ws. is_word w \<Longrightarrow> trim (join '' '' ws) = join '' '' ws"
  by (intro trim_ends) (use join_ends [of ws] in auto)

section \<open>Reading numbers\<close>

definition digit_value :: "nat \<Rightarrow> char \<Rightarrow> nat option" where
  "digit_value base c =
     (let n = (of_char c :: nat);
          v = (if 48 \<le> n \<and> n \<le> 57 then n - 48
               else if 97 \<le> n \<and> n \<le> 122 then n - 87
               else if 65 \<le> n \<and> n \<le> 90 then n - 55 else base)
      in if v < base then Some v else None)"

fun read_digits :: "nat \<Rightarrow> nat \<Rightarrow> string \<Rightarrow> nat option" where
  "read_digits base acc [] = Some acc"
| "read_digits base acc (c # cs) =
     (case digit_value base c of None \<Rightarrow> None | Some d \<Rightarrow> read_digits base (acc * base + d) cs)"

text \<open>
  \<open>Number\<close> of a string: white space is trimmed, the empty string is zero, then a prefixed hexadecimal,
  octal or binary integer or a decimal literal with an optional sign, fraction and exponent.  None
  stands for NaN and for the infinities, which the callers treat alike.
\<close>

definition before :: "(char \<Rightarrow> bool) \<Rightarrow> string \<Rightarrow> string" where
  "before P s = takeWhile (\<lambda>c. \<not> P c) s"

definition after :: "(char \<Rightarrow> bool) \<Rightarrow> string \<Rightarrow> string option" where
  "after P s = (case dropWhile (\<lambda>c. \<not> P c) s of [] \<Rightarrow> None | _ # r \<Rightarrow> Some r)"

definition signed :: "(string \<Rightarrow> 'a option) \<Rightarrow> ('a \<Rightarrow> 'a) \<Rightarrow> string \<Rightarrow> 'a option" where
  "signed f neg s = (case s of [] \<Rightarrow> f s
     | c # r \<Rightarrow> if c = CHR ''-'' then map_option neg (f r) else if c = CHR ''+'' then f r else f s)"

definition read_exponent :: "string option \<Rightarrow> int option" where
  "read_exponent e = (case e of None \<Rightarrow> Some 0
     | Some s \<Rightarrow> signed (\<lambda>d. if d = [] then None else map_option int (read_digits 10 0 d)) uminus s)"

definition read_mantissa :: "string \<Rightarrow> (nat \<times> nat) option" where
  "read_mantissa s =
     (let whole = before (\<lambda>c. c = CHR ''.'') s;
          fraction = (case after (\<lambda>c. c = CHR ''.'') s of None \<Rightarrow> [] | Some f \<Rightarrow> f)
      in if whole @ fraction = [] then None
         else map_option (\<lambda>n. (n, length fraction)) (read_digits 10 0 (whole @ fraction)))"

definition read_unsigned :: "string \<Rightarrow> rat option" where
  "read_unsigned s =
     (case (read_mantissa (before (\<lambda>c. c = CHR ''e'' \<or> c = CHR ''E'') s),
            read_exponent (after (\<lambda>c. c = CHR ''e'' \<or> c = CHR ''E'') s)) of
        (Some (n, places), Some e) \<Rightarrow> Some (of_nat n * 10 powi (e - int places))
      | _ \<Rightarrow> None)"

definition nearest_double :: "rat \<Rightarrow> rat option" where
  "nearest_double x =
     (if \<bar>x\<bar> \<le> 2 powi (- 1075) then Some 0
      else if 2 powi 1024 \<le> \<bar>fl x\<bar> then None else Some (fl x))"

definition prefixed :: "string \<Rightarrow> (nat \<times> string) option" where
  "prefixed s = (case s of
       z # b # r \<Rightarrow>
         (if z = CHR ''0'' then
            (if b = CHR ''x'' \<or> b = CHR ''X'' then Some (16, r)
             else if b = CHR ''o'' \<or> b = CHR ''O'' then Some (8, r)
             else if b = CHR ''b'' \<or> b = CHR ''B'' then Some (2, r) else None)
          else None)
     | _ \<Rightarrow> None)"

definition Number :: "string \<Rightarrow> rat option" where
  "Number s =
     (let t = trim s
      in if t = [] then Some 0
         else (case prefixed t of
                 Some (base, r) \<Rightarrow>
                   if r = [] then None
                   else Option.bind (map_option of_nat (read_digits base 0 r)) nearest_double
               | None \<Rightarrow> Option.bind (signed read_unsigned uminus t) nearest_double))"

text \<open>\<open>Number.isInteger\<close> with the bounds the callers check.\<close>

definition integer_between :: "int \<Rightarrow> int \<Rightarrow> string \<Rightarrow> int option" where
  "integer_between lo hi s =
     (case Number s of None \<Rightarrow> None
      | Some x \<Rightarrow> if of_int \<lfloor>x\<rfloor> = x \<and> lo \<le> \<lfloor>x\<rfloor> \<and> \<lfloor>x\<rfloor> \<le> hi then Some \<lfloor>x\<rfloor> else None)"

section \<open>A rendered number reads back\<close>

lemma digit_value_digit: "d < 10 \<Longrightarrow> digit_value 10 (digit_char d) = Some d"
proof -
  have "of_char (char_of (48 + d) :: char) = (48 + d) mod 256" by simp
  moreover assume "d < 10"
  ultimately show ?thesis by (simp add: digit_value_def digit_char_def)
qed

lemma read_digits_append:
  "read_digits b acc (xs @ ys) = Option.bind (read_digits b acc xs) (\<lambda>a. read_digits b a ys)"
  by (induction xs arbitrary: acc) (auto split: option.splits)

lemma read_show_nat: "read_digits 10 0 (show_nat n) = Some n"
proof (induction n rule: show_nat.induct)
  case (1 n)
  then show ?case
    by (cases "n < 10") (simp_all add: show_nat.simps [of n] read_digits_append digit_value_digit)
qed

lemma show_nat_not_Nil [simp]: "show_nat n \<noteq> []"
  by (subst show_nat.simps) simp

definition is_digit :: "char \<Rightarrow> bool" where
  "is_digit c \<longleftrightarrow> (\<exists>d \<in> {0..<10}. c = digit_char d)"

lemma show_nat_digits: "c \<in> set (show_nat n) \<Longrightarrow> is_digit c"
proof (induction n rule: show_nat.induct)
  case (1 n)
  then show ?case by (auto simp add: show_nat.simps [of n] is_digit_def split: if_splits)
qed

lemma digits_are_digits:
  "is_digit c \<Longrightarrow> \<not> is_space c \<and> c \<notin> {CHR ''.'', CHR ''e'', CHR ''E'', CHR ''-'', CHR ''+'', CHR '','', CHR ''*'',
     CHR ''x'', CHR ''X'', CHR ''o'', CHR ''O'', CHR ''b'', CHR ''B''}"
proof -
  have "\<forall>d \<in> {0..<10}. \<not> is_space (digit_char d) \<and> digit_char d \<notin> {CHR ''.'', CHR ''e'', CHR ''E'', CHR ''-'', CHR ''+'',
     CHR '','', CHR ''*'', CHR ''x'', CHR ''X'', CHR ''o'', CHR ''O'', CHR ''b'', CHR ''B''}"
    by code_simp
  then show "is_digit c \<Longrightarrow> ?thesis" by (auto simp add: is_digit_def)
qed

lemma trim_no_space:
  assumes "\<forall>c \<in> set s. \<not> is_space c"
  shows "trim s = s"
proof -
  have no: "dropWhile is_space t = t" if "\<forall>c \<in> set t. \<not> is_space c" for t
    using that by (cases t) auto
  show ?thesis using no [of s] no [of "rev s"] assms by (simp add: trim_def)
qed

lemma nearest_double_nat:
  assumes "n < 2 ^ 53"
  shows "nearest_double (of_nat n) = Some (of_nat n)"
proof (cases "n = 0")
  case False
  have "(2::rat) powi (- 1075) < 2 powi 0" by (subst pow2_less_iff) simp
  then have tiny: "\<not> (of_nat n :: rat) \<le> 2 powi (- 1075)"
    using False by (simp add: not_le order_less_le_trans)
  have "fl (of_int (int n)) = of_int (int n)" using assms by (intro fl_of_int) simp
  then have fl: "fl (of_nat n) = of_nat n" by simp
  have "(of_nat n :: rat) < of_nat (2 ^ 53)" using assms by (simp only: of_nat_less_iff)
  also have "\<dots> = 2 powi 53" by (simp add: power_int_def)
  also have "\<dots> < 2 powi 1024" by (subst pow2_less_iff) simp
  finally show ?thesis using tiny by (simp add: nearest_double_def fl)
qed (simp add: nearest_double_def)

lemma before_none: "\<forall>c \<in> set s. \<not> P c \<Longrightarrow> before P s = s" and after_none: "\<forall>c \<in> set s. \<not> P c \<Longrightarrow> after P s = None"
  by (simp_all add: before_def after_def takeWhile_eq_all_conv dropWhile_eq_Nil_conv [THEN iffD2])

lemma read_unsigned_show_nat: "read_unsigned (show_nat n) = Some (of_nat n)"
proof -
  have "\<forall>c \<in> set (show_nat n). c \<noteq> CHR ''.'' \<and> c \<noteq> CHR ''e'' \<and> c \<noteq> CHR ''E''"
    using show_nat_digits digits_are_digits by blast
  then show ?thesis
    by (simp add: read_unsigned_def read_mantissa_def read_exponent_def read_show_nat before_none after_none)
qed

lemma prefixed_show_nat: "prefixed (show_nat n) = None"
proof (cases "show_nat n")
  case (Cons z r)
  show ?thesis
  proof (cases r)
    case (Cons b r')
    then have "is_digit b" using show_nat_digits [of b n] \<open>show_nat n = z # r\<close> by simp
    then show ?thesis
      using digits_are_digits [of b] Cons \<open>show_nat n = z # r\<close> by (simp add: prefixed_def)
  qed (simp add: prefixed_def Cons)
qed simp

lemma signed_show_nat: "signed f g (show_nat n) = f (show_nat n)"
proof (cases "show_nat n")
  case (Cons z r)
  then have "is_digit z" using show_nat_digits [of z n] by simp
  then show ?thesis using digits_are_digits [of z] Cons by (simp add: signed_def)
qed simp

lemma show_nat_no_space: "\<forall>c \<in> set (show_nat n). \<not> is_space c"
  using show_nat_digits digits_are_digits by blast

lemma Number_show_nat:
  assumes "n < 2 ^ 53"
  shows "Number (show_nat n) = Some (of_nat n)"
  by (simp add: Number_def Let_def trim_no_space [OF show_nat_no_space] prefixed_show_nat
      signed_show_nat read_unsigned_show_nat nearest_double_nat [OF assms])

lemma integer_between_show_nat:
  "lo \<le> int n \<Longrightarrow> int n \<le> hi \<Longrightarrow> n < 2 ^ 53 \<Longrightarrow> integer_between lo hi (show_nat n) = Some (int n)"
  by (simp add: integer_between_def Number_show_nat)

lemma integer_between_nothing: "lo \<le> 0 \<Longrightarrow> 0 \<le> hi \<Longrightarrow> integer_between lo hi [] = Some 0"
  by (simp add: integer_between_def Number_def trim_def)


lemma show_nat_word: "is_word (show_nat n)"
  using show_nat_no_space by (simp add: is_word_def)

section \<open>A numeral has no comma\<close>

lemma digit_value_no_comma: "digit_value b (CHR '','') \<noteq> Some d"
  by (simp add: digit_value_def)

lemma read_digits_no_comma: "read_digits b acc s = Some n \<Longrightarrow> CHR '','' \<notin> set s"
  by (induction s arbitrary: acc) (auto split: option.splits simp add: digit_value_no_comma)

lemma in_before_or_after:
  assumes "c \<in> set s" and "\<not> P c"
  shows "c \<in> set (before P s) \<or> (\<exists>r. after P s = Some r \<and> c \<in> set r)"
proof (cases "dropWhile (\<lambda>c. \<not> P c) s")
  case Nil
  then have "before P s = s" by (metis append_Nil2 before_def takeWhile_dropWhile_id)
  then show ?thesis using assms by simp
next
  case (Cons d r)
  then have "P d" by (metis hd_dropWhile list.distinct(1) list.sel(1))
  then have "c \<noteq> d" using assms by auto
  moreover have "s = before P s @ d # r" by (metis Cons before_def takeWhile_dropWhile_id)
  ultimately show ?thesis using assms(1) Cons by (auto simp add: after_def) (metis Un_iff set_append set_ConsD)
qed

lemma signed_no_comma:
  assumes "signed f g s = Some x" and "\<And>r y. f r = Some y \<Longrightarrow> CHR '','' \<notin> set r"
  shows "CHR '','' \<notin> set s"
proof (cases s)
  case Nil
  then show ?thesis by simp
next
  case (Cons c r)
  consider y where "f r = Some y" "c = CHR ''-'' \<or> c = CHR ''+''" | y where "f s = Some y"
    using assms(1) Cons by (auto simp add: signed_def split: if_splits)
  then show ?thesis
  proof cases
    case 1
    then show ?thesis using assms(2) [of r] Cons by auto
  next
    case 2
    then show ?thesis by (rule assms(2))
  qed
qed

lemma read_unsigned_no_comma:
  assumes "read_unsigned s = Some x"
  shows "CHR '','' \<notin> set s"
proof
  assume comma: "CHR '','' \<in> set s"
  let ?e = "\<lambda>c. c = CHR ''e'' \<or> c = CHR ''E''"
  obtain n places e where m: "read_mantissa (before ?e s) = Some (n, places)" and e: "read_exponent (after ?e s) = Some e"
    using assms by (auto simp add: read_unsigned_def split: option.splits)
  consider "CHR '','' \<in> set (before ?e s)" | r where "after ?e s = Some r" "CHR '','' \<in> set r"
    using in_before_or_after [OF comma, of ?e] by auto
  then show False
  proof cases
    case 1
    then show False
      using m in_before_or_after [OF 1, of "\<lambda>c. c = CHR ''.''"]
      by (auto simp add: read_mantissa_def Let_def split: if_splits option.splits dest!: read_digits_no_comma)
  next
    case 2
    then have "signed (\<lambda>d. if d = [] then None else map_option int (read_digits 10 0 d)) uminus r = Some e"
      using e by (simp add: read_exponent_def)
    then have "CHR '','' \<notin> set r"
      by (rule signed_no_comma) (auto split: if_splits dest: read_digits_no_comma)
    then show False using 2(2) by simp
  qed
qed

lemma Number_no_comma:
  assumes "Number s = Some x"
  shows "CHR '','' \<notin> set (trim s)"
proof (cases "prefixed (trim s)")
  case None
  then show ?thesis
    using assms signed_no_comma [of read_unsigned uminus "trim s"] read_unsigned_no_comma
    by (auto simp add: Number_def Let_def bind_eq_Some_conv split: if_splits)
next
  case (Some p)
  then obtain z b r where "trim s = z # b # r" "p = (fst p, r)" "z = CHR ''0''" "b \<noteq> CHR '',''"
    by (auto simp add: prefixed_def split: list.splits if_splits)
  then show ?thesis
    using assms Some by (cases p) (auto simp add: Number_def bind_eq_Some_conv split: if_splits dest!: read_digits_no_comma)
qed

end
