(* ===== verification/Runs.thy ===== *)
theory Runs
  imports Rendering
begin

text \<open>
  \<open>src/packages/types/src/runs.ts\<close>: the states of an agent run and the moves between them, retries and
  their delay, what an agent does when a run is still in flight, the business calendar, the key
  that identifies an occurrence, and a schedule with its cron expression.
\<close>

section \<open>States and moves\<close>

datatype RunState = Queued | Reserved | Running | WaitingForHumanInput | WaitingForApproval | Retrying
  | Completed | Failed | Cancelled | BlockedByBudget | BlockedByConnection | BlockedByPermission
  | BlockedByProvider

definition TERMINAL_RUN_STATES :: "RunState list" where
  "TERMINAL_RUN_STATES = [Completed, Failed, Cancelled]"

definition isRunFinished :: "RunState \<Rightarrow> bool" where
  "isRunFinished s \<longleftrightarrow> s \<in> set TERMINAL_RUN_STATES"

definition BLOCKED_RUN_STATES :: "RunState list" where
  "BLOCKED_RUN_STATES = [BlockedByBudget, BlockedByConnection, BlockedByPermission, BlockedByProvider]"

definition isRunBlocked :: "RunState \<Rightarrow> bool" where
  "isRunBlocked s \<longleftrightarrow> s \<in> set BLOCKED_RUN_STATES"

fun ALLOWED_RUN_TRANSITIONS :: "RunState \<Rightarrow> RunState list" where
  "ALLOWED_RUN_TRANSITIONS Queued =
     [Reserved, Cancelled, BlockedByBudget, BlockedByConnection, BlockedByPermission, BlockedByProvider]"
| "ALLOWED_RUN_TRANSITIONS Reserved =
     [Running, Cancelled, BlockedByBudget, BlockedByConnection, BlockedByPermission, BlockedByProvider]"
| "ALLOWED_RUN_TRANSITIONS Running =
     [WaitingForHumanInput, WaitingForApproval, Retrying, Completed, Failed, Cancelled,
      BlockedByBudget, BlockedByConnection, BlockedByPermission, BlockedByProvider]"
| "ALLOWED_RUN_TRANSITIONS WaitingForHumanInput = [Running, Cancelled, Failed]"
| "ALLOWED_RUN_TRANSITIONS WaitingForApproval = [Running, Cancelled, Failed]"
| "ALLOWED_RUN_TRANSITIONS Retrying = [Reserved, Failed, Cancelled]"
| "ALLOWED_RUN_TRANSITIONS Completed = []"
| "ALLOWED_RUN_TRANSITIONS Failed = []"
| "ALLOWED_RUN_TRANSITIONS Cancelled = []"
| "ALLOWED_RUN_TRANSITIONS BlockedByBudget = [Queued, Cancelled, Failed]"
| "ALLOWED_RUN_TRANSITIONS BlockedByConnection = [Queued, Cancelled, Failed]"
| "ALLOWED_RUN_TRANSITIONS BlockedByPermission = [Queued, Cancelled, Failed]"
| "ALLOWED_RUN_TRANSITIONS BlockedByProvider = [Queued, Retrying, Cancelled, Failed]"

definition mayMoveRun :: "RunState \<Rightarrow> RunState \<Rightarrow> bool" where
  "mayMoveRun start to \<longleftrightarrow> to \<in> set (ALLOWED_RUN_TRANSITIONS start)"

definition mayCancelRun :: "RunState \<Rightarrow> bool" where
  "mayCancelRun s \<longleftrightarrow> mayMoveRun s Cancelled"

datatype RunTrigger = Manual | OneTime | Scheduled | Event | Retry

fun trigger_name :: "RunTrigger \<Rightarrow> string" where
  "trigger_name Manual = ''Manual''"
| "trigger_name OneTime = ''OneTime''"
| "trigger_name Scheduled = ''Scheduled''"
| "trigger_name Event = ''Event''"
| "trigger_name Retry = ''Retry''"

section \<open>Retries\<close>

datatype Retryability = Retryable | Terminal | NeedsIntervention

definition DEFAULT_MAX_RUN_ATTEMPTS :: int where
  "DEFAULT_MAX_RUN_ATTEMPTS = 3"

definition retryDelayMs :: "int \<Rightarrow> int \<Rightarrow> int \<Rightarrow> int" where
  "retryDelayMs attempt baseMs capMs =
     (if attempt < 1 then baseMs else min (baseMs * 2 ^ nat (attempt - 1)) capMs)"

text \<open>The default base and cap of the delay.\<close>

definition retry_delay :: "int \<Rightarrow> int" where
  "retry_delay attempt = retryDelayMs attempt 30000 (15 * 60000)"

text \<open>Whether a failed run is tried again, and the reason written on it.\<close>

definition all_attempts_used :: "int \<Rightarrow> string" where
  "all_attempts_used n = ''All '' @ show_int n @ '' attempts are used. It goes to the dead-letter path.''"

definition mayRetryRun :: "Retryability \<Rightarrow> int \<Rightarrow> int \<Rightarrow> bool \<times> string" where
  "mayRetryRun r attempt maxAttempts =
     (if r = Terminal then
        (False, ''This failure will not succeed on a retry, so retrying would only delay the report.'')
      else if r = NeedsIntervention then
        (False, ''Somebody has to act before this can succeed. It is raised as an exception instead.'')
      else if maxAttempts \<le> attempt then (False, all_attempts_used maxAttempts)
      else (True, ''Retryable, and attempts remain.''))"

section \<open>Overlapping and missed runs\<close>

datatype MissedRunPolicy = RunOnce | RunAll | SkipMissed
datatype OverlapPolicy = Skip | Queue | AllowOverlap

definition DEFAULT_MISSED_RUN_POLICY :: MissedRunPolicy where
  "DEFAULT_MISSED_RUN_POLICY = SkipMissed"

definition DEFAULT_OVERLAP_POLICY :: OverlapPolicy where
  "DEFAULT_OVERLAP_POLICY = Skip"

record overlap =
  ov_start :: bool
  ov_queue :: bool
  ov_reason :: string

definition overlapDecision :: "OverlapPolicy \<Rightarrow> nat \<Rightarrow> overlap" where
  "overlapDecision policy unfinishedRuns =
     (if unfinishedRuns = 0 then \<lparr>ov_start = True, ov_queue = False, ov_reason = ''Nothing is in flight.''\<rparr>
      else (case policy of
          AllowOverlap \<Rightarrow> \<lparr>ov_start = True, ov_queue = False,
              ov_reason = ''Concurrent runs are permitted for this agent.''\<rparr>
        | Queue \<Rightarrow> \<lparr>ov_start = False, ov_queue = True,
              ov_reason = show_nat unfinishedRuns @ '' run(s) still in flight; this one waits behind them.''\<rparr>
        | Skip \<Rightarrow> \<lparr>ov_start = False, ov_queue = False,
              ov_reason = show_nat unfinishedRuns @ '' run(s) still in flight, and this agent skips overlaps.''\<rparr>))"

section \<open>Identity of an occurrence\<close>

definition runIdempotencyKey :: "uid \<Rightarrow> uid option \<Rightarrow> RunTrigger \<Rightarrow> string \<Rightarrow> string" where
  "runIdempotencyKey agent assignment trigger occurrence =
     join '':'' [agent, (case assignment of None \<Rightarrow> ''no-assignment'' | Some a \<Rightarrow> a), trigger_name trigger, occurrence]"

section \<open>Business calendar\<close>

datatype Weekday = Sunday | Monday | Tuesday | Wednesday | Thursday | Friday | Saturday

definition WEEKDAYS :: "Weekday list" where
  "WEEKDAYS = [Sunday, Monday, Tuesday, Wednesday, Thursday, Friday, Saturday]"

definition DEFAULT_WORKING_DAYS :: "Weekday list" where
  "DEFAULT_WORKING_DAYS = [Monday, Tuesday, Wednesday, Thursday, Friday]"

text \<open>
  What \<open>Intl.DateTimeFormat\<close> knows of a time zone: the weekday, the date and the wall clock it shows at
  an instant.  It is a parameter of everything that reads a calendar.
\<close>

record time_zone =
  tz_weekday :: "instant \<Rightarrow> Weekday"
  tz_date :: "instant \<Rightarrow> string"
  tz_hour :: "instant \<Rightarrow> int"
  tz_minute :: "instant \<Rightarrow> int"

record BusinessCalendar =
  timezone :: time_zone
  workingDays :: "Weekday list"
  holidays :: "string list"

definition weekdayIn :: "instant \<Rightarrow> time_zone \<Rightarrow> Weekday" where
  "weekdayIn moment zone = tz_weekday zone moment"

definition dateIn :: "instant \<Rightarrow> time_zone \<Rightarrow> string" where
  "dateIn moment zone = tz_date zone moment"

definition isWorkingMoment :: "instant \<Rightarrow> BusinessCalendar \<Rightarrow> bool" where
  "isWorkingMoment moment cal \<longleftrightarrow>
     weekdayIn moment (timezone cal) \<in> set (workingDays cal) \<and> dateIn moment (timezone cal) \<notin> set (holidays cal)"

definition day_ms :: int where
  "day_ms = 24 * 60 * 60 * 1000"

text \<open>The loop of \<open>nextWorkingMoment\<close>; its first argument is how many candidates remain.\<close>

fun next_working_from :: "nat \<Rightarrow> instant \<Rightarrow> BusinessCalendar \<Rightarrow> instant option" where
  "next_working_from 0 candidate cal = None"
| "next_working_from (Suc n) candidate cal =
     (if isWorkingMoment candidate cal then Some candidate else next_working_from n (candidate + day_ms) cal)"

definition nextWorkingMoment :: "instant \<Rightarrow> BusinessCalendar \<Rightarrow> nat \<Rightarrow> instant option" where
  "nextWorkingMoment start cal horizonDays =
     (if workingDays cal = [] then None else next_working_from (Suc horizonDays) start cal)"

section \<open>Schedules\<close>

record AgentSchedule =
  sc_weekdays :: "Weekday list"
  sc_hour :: int
  sc_minute :: int

datatype schedule_problem = HourOutOfRange | MinuteOutOfRange

definition agentScheduleProblems :: "AgentSchedule \<Rightarrow> schedule_problem list" where
  "agentScheduleProblems s =
     (if sc_hour s < 0 \<or> 23 < sc_hour s then [HourOutOfRange] else [])
     @ (if sc_minute s < 0 \<or> 59 < sc_minute s then [MinuteOutOfRange] else [])"

fun weekday_index :: "Weekday \<Rightarrow> nat" where
  "weekday_index Sunday = 0"
| "weekday_index Monday = 1"
| "weekday_index Tuesday = 2"
| "weekday_index Wednesday = 3"
| "weekday_index Thursday = 4"
| "weekday_index Friday = 5"
| "weekday_index Saturday = 6"

definition day_of_week_field :: "Weekday list \<Rightarrow> string" where
  "day_of_week_field days =
     (if days = [] then ''*'' else join '','' (map show_nat (sort (dedupe (map weekday_index days)))))"

definition agentScheduleToBusinessCron :: "AgentSchedule \<Rightarrow> string" where
  "agentScheduleToBusinessCron s =
     show_int (sc_minute s) @ '' '' @ show_int (sc_hour s) @ '' * * '' @ day_of_week_field (sc_weekdays s)"

fun read_weekdays :: "string list \<Rightarrow> Weekday list option" where
  "read_weekdays [] = Some []"
| "read_weekdays (p # ps) =
     (case integer_between 0 6 (trim p) of None \<Rightarrow> None
      | Some i \<Rightarrow> map_option (\<lambda>ds. WEEKDAYS ! nat i # ds) (read_weekdays ps))"

definition scheduleFromBusinessCron :: "string \<Rightarrow> AgentSchedule option" where
  "scheduleFromBusinessCron expression =
     (case split_spaces (trim expression) of
        [minuteField, hourField, domField, monthField, dowField] \<Rightarrow>
          (if domField \<noteq> ''*'' \<or> monthField \<noteq> ''*'' then None
           else (case (integer_between 0 59 minuteField, integer_between 0 23 hourField) of
               (Some m, Some h) \<Rightarrow>
                 (if dowField = ''*'' then Some \<lparr>sc_weekdays = [], sc_hour = h, sc_minute = m\<rparr>
                  else map_option (\<lambda>ds. \<lparr>sc_weekdays = ds, sc_hour = h, sc_minute = m\<rparr>)
                         (read_weekdays (split_on (CHR '','') dowField)))
             | _ \<Rightarrow> None))
      | _ \<Rightarrow> None)"


section \<open>Lemmas\<close>

subsection \<open>Moves\<close>

lemmas run_states = isRunFinished_def TERMINAL_RUN_STATES_def isRunBlocked_def BLOCKED_RUN_STATES_def
  mayMoveRun_def mayCancelRun_def

lemma finished_moves_nowhere: "isRunFinished s \<Longrightarrow> \<not> mayMoveRun s t"
  by (cases s) (simp_all add: run_states)

lemma mayCancelRun_iff: "mayCancelRun s \<longleftrightarrow> \<not> isRunFinished s"
  by (cases s) (simp_all add: run_states)

lemma may_reserve: "mayMoveRun s Reserved \<longleftrightarrow> s = Queued \<or> s = Retrying"
  by (cases s) (simp_all add: run_states)

lemma may_run: "mayMoveRun s Running \<longleftrightarrow> s = Reserved \<or> s = WaitingForHumanInput \<or> s = WaitingForApproval"
  by (cases s) (simp_all add: run_states)

lemma may_queue: "mayMoveRun s Queued \<longleftrightarrow> isRunBlocked s"
  by (cases s) (simp_all add: run_states)

lemma may_complete: "mayMoveRun s Completed \<longleftrightarrow> s = Running"
  by (cases s) (simp_all add: run_states)

subsection \<open>Retries\<close>

lemma mayRetryRun_iff: "fst (mayRetryRun r attempt n) \<longleftrightarrow> r = Retryable \<and> attempt < n"
  by (cases r) (auto simp add: mayRetryRun_def)

lemma retry_delay_bounds: "30000 \<le> retry_delay n \<and> retry_delay n \<le> 900000"
proof -
  have "(1::int) \<le> 2 ^ nat (n - 1)" by simp
  then show ?thesis by (auto simp add: retry_delay_def retryDelayMs_def min_def)
qed

lemma retry_delay_mono:
  assumes "m \<le> n"
  shows "retry_delay m \<le> retry_delay n"
proof (cases "m < 1")
  case True
  then show ?thesis using retry_delay_bounds [of n] by (simp add: retry_delay_def retryDelayMs_def)
next
  case False
  then have "(2::int) ^ nat (m - 1) \<le> 2 ^ nat (n - 1)"
    using assms by (intro power_increasing) auto
  then have "min (30000 * 2 ^ nat (m - 1)) 900000 \<le> min (30000 * 2 ^ nat (n - 1)) (900000 :: int)"
    by (intro min.mono mult_left_mono) auto
  then show ?thesis using False assms by (simp only: retry_delay_def retryDelayMs_def) simp
qed

subsection \<open>Identity of an occurrence\<close>

text \<open>Identifiers without a colon keep the parts of the key apart.\<close>

definition plain_id :: "uid \<Rightarrow> bool" where
  "plain_id s \<longleftrightarrow> CHR '':'' \<notin> set s \<and> s \<noteq> ''no-assignment''"

lemma colon_splits:
  "CHR '':'' \<notin> set a \<Longrightarrow> CHR '':'' \<notin> set b \<Longrightarrow> a @ CHR '':'' # x = b @ CHR '':'' # y \<longleftrightarrow> a = b \<and> x = y"
proof (induction a arbitrary: b)
  case Nil
  then show ?case by (cases b) auto
next
  case (Cons c a)
  then show ?case by (cases b) auto
qed

lemma trigger_name_plain: "CHR '':'' \<notin> set (trigger_name t)"
  by (cases t) auto

lemma trigger_name_eq_iff: "trigger_name t = trigger_name u \<longleftrightarrow> t = u"
  by (cases t; cases u) auto

lemma runIdempotencyKey_eq:
  assumes "plain_id a" and "plain_id b"
    and "\<And>x. p = Some x \<Longrightarrow> plain_id x" and "\<And>x. q = Some x \<Longrightarrow> plain_id x"
  shows "runIdempotencyKey a p t x = runIdempotencyKey b q u y \<longleftrightarrow> a = b \<and> p = q \<and> t = u \<and> x = y"
proof -
  define word where "word = (\<lambda>p. case p of None \<Rightarrow> ''no-assignment'' | Some (a :: uid) \<Rightarrow> a)"
  have plain: "CHR '':'' \<notin> set (word p)" "CHR '':'' \<notin> set (word q)"
    using assms(3,4) by (auto simp add: word_def plain_id_def split: option.splits)
  have same: "word p = word q \<longleftrightarrow> p = q"
    using assms(3,4) by (auto simp add: word_def plain_id_def split: option.splits)
  have key: "runIdempotencyKey c r v z = c @ CHR '':'' # word r @ CHR '':'' # trigger_name v @ CHR '':'' # z" for c r v z
    by (simp add: runIdempotencyKey_def word_def)
  show ?thesis
    using assms(1,2) plain same
    by (simp add: key colon_splits plain_id_def trigger_name_plain trigger_name_eq_iff)
qed

subsection \<open>Calendar\<close>

lemma next_working_from_SomeD:
  "next_working_from n c cal = Some m \<Longrightarrow>
   \<exists>k < n. m = c + int k * day_ms \<and> isWorkingMoment m cal \<and> (\<forall>j < k. \<not> isWorkingMoment (c + int j * day_ms) cal)"
proof (induction n arbitrary: c)
  case (Suc n)
  show ?case
  proof (cases "isWorkingMoment c cal")
    case True
    then show ?thesis using Suc.prems by (intro exI [of _ 0]) simp
  next
    case False
    then obtain k where k: "k < n" "m = c + day_ms + int k * day_ms" "isWorkingMoment m cal"
      "\<forall>j < k. \<not> isWorkingMoment (c + day_ms + int j * day_ms) cal"
      using Suc.IH [of "c + day_ms"] Suc.prems by auto
    have "\<not> isWorkingMoment (c + int j * day_ms) cal" if "j < Suc k" for j
      using False k(4) that by (cases j) (auto simp add: algebra_simps)
    then show ?thesis using k by (intro exI [of _ "Suc k"]) (auto simp add: algebra_simps)
  qed
qed simp

lemma next_working_from_NoneD:
  "next_working_from n c cal = None \<Longrightarrow> k < n \<Longrightarrow> \<not> isWorkingMoment (c + int k * day_ms) cal"
proof (induction n arbitrary: c k)
  case (Suc n)
  then have c: "\<not> isWorkingMoment c cal" "next_working_from n (c + day_ms) cal = None"
    by (auto split: if_splits)
  show ?case
  proof (cases k)
    case (Suc j)
    then show ?thesis using Suc.IH [OF c(2), of j] Suc.prems(2) by (simp add: algebra_simps)
  qed (use c in simp)
qed simp

subsection \<open>Schedules\<close>

lemma WEEKDAYS_index: "WEEKDAYS ! weekday_index d = d"
  by (cases d) (simp_all add: WEEKDAYS_def)

lemma weekday_index_less: "weekday_index d < 7"
  by (cases d) simp_all

lemma inj_weekday_index: "inj weekday_index"
  by (metis WEEKDAYS_index injI)

lemma WEEKDAYS_all: "d \<in> set WEEKDAYS"
  by (cases d) (simp_all add: WEEKDAYS_def)

text \<open>The days of a schedule as its cron field lists them: each once, in the order of the week.\<close>

definition days_in_order :: "Weekday list \<Rightarrow> Weekday list" where
  "days_in_order ds = map (\<lambda>i. WEEKDAYS ! i) (sort (dedupe (map weekday_index ds)))"

lemma set_days_in_order: "set (days_in_order ds) = set ds"
  by (simp add: days_in_order_def image_image WEEKDAYS_index)

lemma days_in_order_empty [simp]: "days_in_order ds = [] \<longleftrightarrow> ds = []"
  by (metis set_days_in_order set_empty)

lemma small_number_reads:
  "lo \<le> int n \<Longrightarrow> int n \<le> hi \<Longrightarrow> n < 100 \<Longrightarrow> integer_between lo hi (trim (show_nat n)) = Some (int n)"
  by (simp add: trim_no_space [OF show_nat_no_space] integer_between_show_nat)

lemma read_weekdays_show:
  "\<forall>n \<in> set ns. n < 7 \<Longrightarrow> read_weekdays (map show_nat ns) = Some (map (\<lambda>i. WEEKDAYS ! i) ns)"
  by (induction ns) (simp_all add: small_number_reads)

lemma show_nat_no_comma: "CHR '','' \<notin> set (show_nat n)"
  using show_nat_digits digits_are_digits by blast

lemma sort_eq_Nil [simp]: "sort xs = [] \<longleftrightarrow> xs = []"
  by (metis length_0_conv length_sort)

lemma day_field_splits:
  assumes "ds \<noteq> []"
  shows "split_on (CHR '','') (day_of_week_field ds) = map show_nat (sort (dedupe (map weekday_index ds)))"
proof -
  have "split_on c (join [c] xs) = xs" if "xs = map show_nat (sort (dedupe (map weekday_index ds)))" and "c = CHR '',''" for c xs
    using assms that show_nat_no_comma by (intro split_on_join) auto
  then show ?thesis using assms by (simp add: day_of_week_field_def)
qed

lemma show_nat_not_star: "show_nat n \<noteq> ''*''"
proof
  assume "show_nat n = ''*''"
  then have "is_digit (CHR ''*'')" using show_nat_digits [of "CHR ''*''" n] by simp
  then show False using digits_are_digits by blast
qed

lemma day_field_not_star: "ds \<noteq> [] \<Longrightarrow> day_of_week_field ds \<noteq> ''*''"
proof
  assume ds: "ds \<noteq> []" and star: "day_of_week_field ds = ''*''"
  have "map show_nat (sort (dedupe (map weekday_index ds))) = [''*'']"
    using day_field_splits [OF ds] by (simp add: star)
  then show False using show_nat_not_star by auto
qed

end
