(* ===== verification/Schedules.thy ===== *)
theory Schedules
  imports Runs
begin

text \<open>
  The pure half of \<open>src/apps/api/src/runs/run-scheduler.service.ts\<close>: the cron parser, which minutes are
  occurrences of a schedule, the next of them, and which missed occurrences are still started.  The
  lemmas characterise the two searches, show that a schedule written by the product reads back, and
  that the parser and the reader of the editor agree on every expression the editor shows.
\<close>

section \<open>Reading an expression\<close>

record BusinessSchedule =
  bs_minutes :: "int list"
  bs_hours :: "int list"
  bs_weekdays :: "Weekday list"

datatype cron_problem = EmptyExpression | WrongFieldCount nat | DayOrMonthSet
  | BadMinute string | BadHour string | BadWeekday string

fun read_numbers :: "int \<Rightarrow> int \<Rightarrow> string list \<Rightarrow> int list option" where
  "read_numbers lo hi [] = Some []"
| "read_numbers lo hi (p # ps) =
     (case integer_between lo hi (trim p) of None \<Rightarrow> None
      | Some v \<Rightarrow> map_option (\<lambda>vs. v # vs) (read_numbers lo hi ps))"

definition parseNumberField :: "string \<Rightarrow> int \<Rightarrow> int \<Rightarrow> int list option" where
  "parseNumberField field lo hi =
     (if field = ''*'' then Some [lo..hi]
      else map_option (\<lambda>vs. sort (dedupe vs)) (read_numbers lo hi (split_on (CHR '','') field)))"

fun weekday_name :: "Weekday \<Rightarrow> string" where
  "weekday_name Sunday = ''Sunday''"
| "weekday_name Monday = ''Monday''"
| "weekday_name Tuesday = ''Tuesday''"
| "weekday_name Wednesday = ''Wednesday''"
| "weekday_name Thursday = ''Thursday''"
| "weekday_name Friday = ''Friday''"
| "weekday_name Saturday = ''Saturday''"

definition lower_case :: "string \<Rightarrow> string" where
  "lower_case s = map (\<lambda>c. let n = (of_char c :: nat) in if 65 \<le> n \<and> n \<le> 90 then char_of (n + 32) else c) s"

fun parse_weekdays :: "string list \<Rightarrow> cron_problem + Weekday list" where
  "parse_weekdays [] = Inr []"
| "parse_weekdays (p # ps) =
     (case integer_between 0 6 (trim p) of
        Some i \<Rightarrow> bind_result (parse_weekdays ps) (\<lambda>ds. Inr (WEEKDAYS ! nat i # ds))
      | None \<Rightarrow>
          (case List.find (\<lambda>d. lower_case (weekday_name d) = lower_case (trim p)) WEEKDAYS of
             None \<Rightarrow> Inl (BadWeekday (trim p))
           | Some d \<Rightarrow> bind_result (parse_weekdays ps) (\<lambda>ds. Inr (d # ds))))"

definition parseBusinessCron :: "string \<Rightarrow> cron_problem + BusinessSchedule" where
  "parseBusinessCron expression =
     (let trimmed = trim expression;
          fields = split_spaces trimmed
      in if trimmed = [] then Inl EmptyExpression
         else (case fields of
            [minuteField, hourField, domField, monthField, dowField] \<Rightarrow>
              (if domField \<noteq> ''*'' \<or> monthField \<noteq> ''*'' then Inl DayOrMonthSet
               else (case parseNumberField minuteField 0 59 of
                   None \<Rightarrow> Inl (BadMinute minuteField)
                 | Some ms \<Rightarrow>
                     (case parseNumberField hourField 0 23 of
                        None \<Rightarrow> Inl (BadHour hourField)
                      | Some hs \<Rightarrow>
                          (if dowField = ''*'' then
                             Inr \<lparr>bs_minutes = ms, bs_hours = hs, bs_weekdays = []\<rparr>
                           else bind_result (parse_weekdays (split_on (CHR '','') dowField))
                             (\<lambda>ds. Inr \<lparr>bs_minutes = ms, bs_hours = hs, bs_weekdays = ds\<rparr>)))))
          | _ \<Rightarrow> Inl (WrongFieldCount (length fields))))"

section \<open>Occurrences\<close>

definition minute_ms :: int where
  "minute_ms = 60000"

definition matchesSchedule :: "BusinessSchedule \<Rightarrow> instant \<Rightarrow> BusinessCalendar \<Rightarrow> bool" where
  "matchesSchedule s moment cal \<longleftrightarrow>
     tz_minute (timezone cal) moment \<in> set (bs_minutes s)
     \<and> tz_hour (timezone cal) moment \<in> set (bs_hours s)
     \<and> (bs_weekdays s = [] \<or> tz_weekday (timezone cal) moment \<in> set (bs_weekdays s))
     \<and> isWorkingMoment moment cal"

text \<open>The minute after an instant, aligned: where both searches start.\<close>

definition minute_after :: "instant \<Rightarrow> instant" where
  "minute_after start = start div minute_ms * minute_ms + minute_ms"

function minutes_until :: "(instant \<Rightarrow> bool) \<Rightarrow> instant \<Rightarrow> instant \<Rightarrow> instant list" where
  "minutes_until P cursor horizon =
     (if cursor \<le> horizon
      then (if P cursor then [cursor] else []) @ minutes_until P (cursor + minute_ms) horizon
      else [])"
  by pat_completeness auto

termination by (relation "measure (\<lambda>(P, cursor, horizon). nat (horizon + 1 - cursor))")
    (auto simp add: minute_ms_def)

declare minutes_until.simps [simp del]

definition occurrencesBetween ::
  "BusinessSchedule \<Rightarrow> instant \<Rightarrow> instant \<Rightarrow> BusinessCalendar \<Rightarrow> int \<Rightarrow> instant list" where
  "occurrencesBetween s start to cal maxDays =
     minutes_until (\<lambda>m. matchesSchedule s m cal) (minute_after start) (min to (start + maxDays * day_ms))"

function first_minute :: "(instant \<Rightarrow> bool) \<Rightarrow> instant \<Rightarrow> instant \<Rightarrow> instant option" where
  "first_minute P cursor limit =
     (if cursor \<le> limit then (if P cursor then Some cursor else first_minute P (cursor + minute_ms) limit)
      else None)"
  by pat_completeness auto

termination by (relation "measure (\<lambda>(P, cursor, limit). nat (limit + 1 - cursor))")
    (auto simp add: minute_ms_def)

declare first_minute.simps [simp del]

definition nextOccurrenceAfter :: "BusinessSchedule \<Rightarrow> instant \<Rightarrow> BusinessCalendar \<Rightarrow> instant option" where
  "nextOccurrenceAfter s start cal =
     (if workingDays cal = [] then None
      else if bs_weekdays s \<noteq> [] \<and> \<not> list_ex (\<lambda>d. d \<in> set (workingDays cal)) (bs_weekdays s) then None
      else if nextWorkingMoment start cal 366 = None then None
      else first_minute (\<lambda>m. matchesSchedule s m cal) (minute_after start) (start + 366 * day_ms))"

text \<open>\<open>applyMissedRunPolicy\<close>: at most one due occurrence passes whatever the policy says.\<close>

definition applyMissedRunPolicy :: "instant list \<Rightarrow> MissedRunPolicy \<Rightarrow> instant \<Rightarrow> instant list" where
  "applyMissedRunPolicy due policy now =
     (if length due \<le> 1 then due
      else (let sorted = sort due; current = last sorted
            in case policy of RunAll \<Rightarrow> sorted | RunOnce \<Rightarrow> [current]
               | SkipMissed \<Rightarrow> if now - current \<le> 60000 then [current] else []))"

section \<open>The searches\<close>

lemma minutes_until_member:
  "m \<in> set (minutes_until P c h) \<longleftrightarrow> c \<le> m \<and> m \<le> h \<and> minute_ms dvd (m - c) \<and> P m"
proof (induction P c h rule: minutes_until.induct)
  case (1 P c h)
  have split: "c \<le> m \<and> minute_ms dvd (m - c) \<longleftrightarrow> m = c \<or> c + minute_ms \<le> m \<and> minute_ms dvd (m - (c + minute_ms))"
  proof
    assume a: "c \<le> m \<and> minute_ms dvd (m - c)"
    then obtain k where "m - c = minute_ms * k" by auto
    then show "m = c \<or> c + minute_ms \<le> m \<and> minute_ms dvd (m - (c + minute_ms))"
      using a by (cases "k \<le> 0") (auto simp add: minute_ms_def dvd_def intro!: exI [of _ "k - 1"])
  next
    assume "m = c \<or> c + minute_ms \<le> m \<and> minute_ms dvd (m - (c + minute_ms))"
    moreover have "m - c = m - (c + minute_ms) + minute_ms" by simp
    ultimately show "c \<le> m \<and> minute_ms dvd (m - c)"
      by (metis add.commute add_le_same_cancel1 cancel_comm_monoid_add_class.diff_cancel dual_order.trans
          dvd_0_right dvd_add_left_iff dvd_refl le_add_same_cancel1 minute_ms_def order_refl zero_le_numeral)
  qed
  show ?case
  proof (cases "c \<le> h")
    case True
    then show ?thesis using 1 split by (subst minutes_until.simps) auto
  qed (subst minutes_until.simps, auto)
qed

lemma minutes_until_step:
  "c \<le> h \<Longrightarrow> minutes_until P c h = (if P c then [c] else []) @ minutes_until P (c + minute_ms) h"
  by (subst minutes_until.simps) simp

lemma minutes_until_stop: "\<not> c \<le> h \<Longrightarrow> minutes_until P c h = []"
  by (subst minutes_until.simps) simp

lemma minutes_until_sorted: "sorted (minutes_until P c h) \<and> distinct (minutes_until P c h)"
proof (induction P c h rule: minutes_until.induct)
  case (1 P c h)
  have "c < m" if "m \<in> set (minutes_until P (c + minute_ms) h)" for m
    using that by (simp add: minutes_until_member minute_ms_def)
  then show ?case
    using 1 by (cases "c \<le> h") (auto simp add: minutes_until_step [of c h] minutes_until_stop less_imp_le)
qed

lemma first_minute_eq: "first_minute P c h = List.find (\<lambda>_. True) (minutes_until P c h)"
proof (induction P c h rule: first_minute.induct)
  case (1 P c h)
  then show ?case 
    by (cases "c \<le> h") (simp_all add: minutes_until_step [of c h] minutes_until_stop first_minute.simps [of P c h])
qed

lemma first_minute_SomeD:
  assumes "first_minute P c h = Some m"
  shows "m \<in> set (minutes_until P c h) \<and> (\<forall>n \<in> set (minutes_until P c h). m \<le> n)"
  using assms minutes_until_sorted [of P c h] unfolding first_minute_eq
  by (cases "minutes_until P c h") auto

lemma aligned_minute_after:
  assumes "minute_ms dvd m"
  shows "minute_after start \<le> m \<longleftrightarrow> start < m"
proof -
  obtain k where m: "m = minute_ms * k" using assms by auto
  define d r where "d = start div 60000" and "r = start mod 60000"
  have start: "start = 60000 * d + r" by (simp add: d_def r_def)
  have r: "0 \<le> r" "r < 60000" by (simp_all add: r_def)
  have "d * 60000 + 60000 \<le> 60000 * k \<longleftrightarrow> d < k" by auto
  moreover have "60000 * d + r < 60000 * k \<longleftrightarrow> d < k" using r by auto
  ultimately show ?thesis
    unfolding m minute_after_def minute_ms_def d_def [symmetric] by (simp add: start)
qed

lemma minute_after_dvd: "minute_ms dvd (m - minute_after start) \<longleftrightarrow> minute_ms dvd m"
proof -
  have "minute_ms dvd minute_after start" by (simp add: minute_after_def)
  then show ?thesis by (metis dvd_add_left_iff diff_add_cancel)
qed

text \<open>The occurrences in \<open>(start, to]\<close>, at most \<open>maxDays\<close> after the start.\<close>

lemma occurrencesBetween_member:
  "m \<in> set (occurrencesBetween s start to cal maxDays) \<longleftrightarrow>
     minute_ms dvd m \<and> start < m \<and> m \<le> to \<and> m \<le> start + maxDays * day_ms \<and> matchesSchedule s m cal"
  unfolding occurrencesBetween_def minutes_until_member minute_after_dvd
  using aligned_minute_after by auto

lemma nextOccurrenceAfter_SomeD:
  "nextOccurrenceAfter s start cal = Some m \<Longrightarrow>
     minute_ms dvd m \<and> start < m \<and> m \<le> start + 366 * day_ms \<and> matchesSchedule s m cal
     \<and> (\<forall>n. minute_ms dvd n \<longrightarrow> start < n \<longrightarrow> n < m \<longrightarrow> \<not> matchesSchedule s n cal)"
  using aligned_minute_after [of _ start]
  by (auto simp add: nextOccurrenceAfter_def minutes_until_member minute_after_dvd not_le [symmetric]
      split: if_splits dest!: first_minute_SomeD) 


section \<open>The two readers of an expression\<close>

lemma integer_between_SomeD: "integer_between lo hi s = Some v \<Longrightarrow> lo \<le> v \<and> v \<le> hi \<and> CHR '','' \<notin> set (trim s)"
  by (auto simp add: integer_between_def dest: Number_no_comma split: option.splits if_splits)

lemma read_numbers_one: "integer_between lo hi (trim p) = Some v \<Longrightarrow> read_numbers lo hi [p] = Some [v]"
  by simp

lemma split_spaces_no_space: "w \<in> set (split_spaces s) \<Longrightarrow> \<forall>c \<in> set w. \<not> is_space c"
proof (induction s rule: split_spaces.induct)
  case (1 s)
  let ?field = "takeWhile (\<lambda>c. \<not> is_space c) s" and ?more = "dropWhile (\<lambda>c. \<not> is_space c) s"
  have "split_spaces s = (if ?more = [] then [?field] else ?field # split_spaces (dropWhile is_space ?more))"
    by (subst split_spaces.simps) (simp only: Let_def)
  then consider "w = ?field" | "?more \<noteq> []" "w \<in> set (split_spaces (dropWhile is_space ?more))"
    using 1(2) by (auto split: if_splits)
  then show ?case
  proof cases
    case 1
    then show ?thesis by (auto dest: set_takeWhileD)
  next
    case 2
    then show ?thesis using 1(1) by blast
  qed
qed

lemma integer_field:
  assumes "integer_between lo hi w = Some v" and "\<forall>c \<in> set w. \<not> is_space c" and "w \<noteq> ''*''"
  shows "parseNumberField w lo hi = Some [v]"
  using assms integer_between_SomeD [OF assms(1)]
  by (simp add: parseNumberField_def trim_no_space split_on_no)

lemma star_is_no_number: "integer_between lo hi ''*'' = None"
proof -
  have "Number ''*'' = None"
    by (simp add: Number_def trim_def is_space_def prefixed_def signed_def read_unsigned_def before_def after_def
        read_mantissa_def digit_value_def)
  then show ?thesis by (simp add: integer_between_def)
qed

lemma parse_weekdays_read: "read_weekdays ps = Some ds \<Longrightarrow> parse_weekdays ps = Inr ds"
  by (induction ps arbitrary: ds) (auto split: option.splits)

text \<open>What the editor shows is what the engine runs.\<close>

lemma editor_reads_as_engine:
  assumes "scheduleFromBusinessCron e = Some s"
  shows "parseBusinessCron e = Inr \<lparr>bs_minutes = [sc_minute s], bs_hours = [sc_hour s], bs_weekdays = sc_weekdays s\<rparr>"
proof -
  let ?fields = "split_spaces (trim e)"
  obtain mf hf dom mon dow where fields: "?fields = [mf, hf, dom, mon, dow]"
    using assms by (auto simp add: scheduleFromBusinessCron_def split: list.splits)
  have words: "\<forall>c \<in> set w. \<not> is_space c" if "w \<in> {mf, hf}" for w
    using that split_spaces_no_space [of w "trim e"] by (auto simp add: fields)
  have ne: "trim e \<noteq> []"
  proof
    assume "trim e = []"
    then show False using fields by (simp add: split_spaces.simps)
  qed
  obtain m h where dates: "dom = ''*''" "mon = ''*''" and m: "integer_between 0 59 mf = Some m" and h: "integer_between 0 23 hf = Some h"
    using assms by (auto simp add: scheduleFromBusinessCron_def fields split: if_splits option.splits)
  then have "mf \<noteq> ''*''" "hf \<noteq> ''*''" by (auto simp add: star_is_no_number)
  then have nums: "parseNumberField mf 0 59 = Some [m]" "parseNumberField hf 0 23 = Some [h]"
    using m h words by (auto intro: integer_field)
  show ?thesis
    using assms ne nums m h
    by (auto simp add: scheduleFromBusinessCron_def parseBusinessCron_def fields dates parse_weekdays_read
        split: if_splits)
qed

section \<open>A schedule reads back\<close>

lemma cron_is_words:
  assumes "0 \<le> sc_minute s" and "0 \<le> sc_hour s"
  shows "agentScheduleToBusinessCron s
         = join '' '' [show_nat (nat (sc_minute s)), show_nat (nat (sc_hour s)), ''*'', ''*'', day_of_week_field (sc_weekdays s)]"
  using assms by (simp add: agentScheduleToBusinessCron_def show_int_def)

lemma day_field_word: "is_word (day_of_week_field ds)"
proof (cases "ds = []")
  case False
  have comma: "\<not> is_space (CHR '','')" by (simp add: is_space_def)
  have word: "is_word (join '','' ws)" if "ws \<noteq> []" "\<forall>w \<in> set ws. is_word w" for ws
    using that by (induction ws rule: induct_list012) (auto simp add: is_word_def comma)
  have "is_word (join '','' (map show_nat (sort (dedupe (map weekday_index ds)))))"
    using False by (intro word) (auto simp add: show_nat_word)
  then show ?thesis using False by (simp add: day_of_week_field_def)
qed (simp add: day_of_week_field_def is_word_def is_space_def)

lemma editor_round_trip:
  assumes "agentScheduleProblems s = []"
  shows "scheduleFromBusinessCron (agentScheduleToBusinessCron s) = Some (s\<lparr>sc_weekdays := days_in_order (sc_weekdays s)\<rparr>)"
proof -
  let ?ws = "[show_nat (nat (sc_minute s)), show_nat (nat (sc_hour s)), ''*'', ''*'', day_of_week_field (sc_weekdays s)]"
  have r: "0 \<le> sc_minute s" "sc_minute s \<le> 59" "0 \<le> sc_hour s" "sc_hour s \<le> 23"
    using assms by (auto simp add: agentScheduleProblems_def split: if_splits)
  have words: "\<forall>w \<in> set ?ws. is_word w"
    using show_nat_word day_field_word by (auto simp add: is_word_def is_space_def)
  have fields: "split_spaces (trim (agentScheduleToBusinessCron s)) = ?ws"
    using split_spaces_join [of ?ws] trim_join [of ?ws] words cron_is_words [OF r(1,3)] by simp
  have nums: "integer_between 0 59 (show_nat (nat (sc_minute s))) = Some (sc_minute s)"
    "integer_between 0 23 (show_nat (nat (sc_hour s))) = Some (sc_hour s)"
    using r integer_between_show_nat [of 0 "nat (sc_minute s)" 59] integer_between_show_nat [of 0 "nat (sc_hour s)" 23]
    by simp_all
  show ?thesis
  proof (cases "sc_weekdays s = []")
    case True
    then show ?thesis
      by (simp add: scheduleFromBusinessCron_def fields nums day_of_week_field_def days_in_order_def)
  next
    case False
    have "read_weekdays (map show_nat (sort (dedupe (map weekday_index (sc_weekdays s)))))
          = Some (days_in_order (sc_weekdays s))"
      unfolding days_in_order_def by (rule read_weekdays_show) (auto simp add: weekday_index_less)
    then show ?thesis
      using False by (simp add: scheduleFromBusinessCron_def fields nums day_field_not_star day_field_splits)
  qed
qed

end
