(* ===== verification/Assignments.thy ===== *)
theory Assignments
  imports Rendering
begin

text \<open>
  \<open>src/packages/types/src/assignments.ts\<close>: the states of a human task, an assigned piece of AI work and
  an approval request, the moves between them, when a task's dependencies let it start, when it is
  overdue, and what is wrong with a submission or a change request.
\<close>

section \<open>Human tasks\<close>

datatype HumanTaskStatus = TaskWaiting | TaskAssigned | TaskInProgress | TaskBlocked | TaskNeedsInput
  | TaskWaitingApproval | TaskSubmitted | TaskCompleted | TaskCancelled

definition TERMINAL_HUMAN_TASK_STATUSES :: "HumanTaskStatus list" where
  "TERMINAL_HUMAN_TASK_STATUSES = [TaskCompleted, TaskCancelled]"

definition isHumanTaskFinished :: "HumanTaskStatus \<Rightarrow> bool" where
  "isHumanTaskFinished s \<longleftrightarrow> s \<in> set TERMINAL_HUMAN_TASK_STATUSES"

fun ALLOWED_HUMAN_TASK_TRANSITIONS :: "HumanTaskStatus \<Rightarrow> HumanTaskStatus list" where
  "ALLOWED_HUMAN_TASK_TRANSITIONS TaskWaiting = [TaskCancelled]"
| "ALLOWED_HUMAN_TASK_TRANSITIONS TaskAssigned = [TaskInProgress, TaskBlocked, TaskNeedsInput, TaskCancelled]"
| "ALLOWED_HUMAN_TASK_TRANSITIONS TaskInProgress =
     [TaskBlocked, TaskNeedsInput, TaskWaitingApproval, TaskSubmitted, TaskCancelled]"
| "ALLOWED_HUMAN_TASK_TRANSITIONS TaskBlocked = [TaskInProgress, TaskNeedsInput, TaskCancelled]"
| "ALLOWED_HUMAN_TASK_TRANSITIONS TaskNeedsInput = [TaskInProgress, TaskBlocked, TaskCancelled]"
| "ALLOWED_HUMAN_TASK_TRANSITIONS TaskWaitingApproval = [TaskInProgress, TaskSubmitted, TaskCancelled]"
| "ALLOWED_HUMAN_TASK_TRANSITIONS TaskSubmitted =
     [TaskInProgress, TaskWaitingApproval, TaskCompleted, TaskCancelled]"
| "ALLOWED_HUMAN_TASK_TRANSITIONS TaskCompleted = []"
| "ALLOWED_HUMAN_TASK_TRANSITIONS TaskCancelled = []"

definition mayMoveHumanTask :: "HumanTaskStatus \<Rightarrow> HumanTaskStatus \<Rightarrow> bool" where
  "mayMoveHumanTask start to \<longleftrightarrow> to \<in> set (ALLOWED_HUMAN_TASK_TRANSITIONS start)"

definition mayReleaseHumanTask :: "HumanTaskStatus \<Rightarrow> bool" where
  "mayReleaseHumanTask s \<longleftrightarrow> s = TaskWaiting"

definition dependenciesSatisfied :: "uid list \<Rightarrow> uid list \<Rightarrow> uid list \<Rightarrow> bool" where
  "dependenciesSatisfied dependsOn finished planned \<longleftrightarrow>
     list_all (\<lambda>n. n \<notin> set planned \<or> n \<in> set finished) dependsOn"

definition isHumanTaskOverdue :: "HumanTaskStatus \<Rightarrow> instant option \<Rightarrow> instant \<Rightarrow> bool" where
  "isHumanTaskOverdue status dueAt now =
     (case dueAt of None \<Rightarrow> False
      | Some due \<Rightarrow> if isHumanTaskFinished status then False
                    else if status = TaskWaiting then False else due < now)"

datatype submission_problem = CannotSubmit HumanTaskStatus "HumanTaskStatus list" | EvidenceMissing string
  | StillBlocked string

definition validateTaskSubmission :: "HumanTaskStatus \<Rightarrow> string \<Rightarrow> nat \<Rightarrow> string option \<Rightarrow> submission_problem list" where
  "validateTaskSubmission status evidenceRequirement evidenceCount blockedReason =
     (if mayMoveHumanTask status TaskSubmitted then []
      else [CannotSubmit status (ALLOWED_HUMAN_TASK_TRANSITIONS status)])
     @ (if trim evidenceRequirement \<noteq> [] \<and> evidenceCount = 0 then [EvidenceMissing (trim evidenceRequirement)] else [])
     @ (case blockedReason of None \<Rightarrow> []
        | Some r \<Rightarrow> if trim r \<noteq> [] then [StillBlocked (trim r)] else [])"

section \<open>Assigned AI work\<close>

datatype AiAssignmentStatus = AwaitingAgentSetup | MappedToEngineAgent | AssignmentCancelled

section \<open>Approval requests\<close>

datatype ApprovalRequestType = ObjectiveReview | WorkflowPublish | AgentActivation | HighRiskAction
  | OutputApproval | BudgetOverride | GuestAccess | WorkflowStepApproval | ChangeRequest

datatype ApprovalRequestStatus = RequestPending | RequestApproved | RequestRejected | RequestSentBack
  | RequestCancelled

fun ALLOWED_APPROVAL_TRANSITIONS :: "ApprovalRequestStatus \<Rightarrow> ApprovalRequestStatus list" where
  "ALLOWED_APPROVAL_TRANSITIONS RequestPending =
     [RequestApproved, RequestRejected, RequestSentBack, RequestCancelled]"
| "ALLOWED_APPROVAL_TRANSITIONS RequestSentBack = [RequestPending, RequestCancelled]"
| "ALLOWED_APPROVAL_TRANSITIONS RequestApproved = []"
| "ALLOWED_APPROVAL_TRANSITIONS RequestRejected = []"
| "ALLOWED_APPROVAL_TRANSITIONS RequestCancelled = []"

definition mayMoveApproval :: "ApprovalRequestStatus \<Rightarrow> ApprovalRequestStatus \<Rightarrow> bool" where
  "mayMoveApproval start to \<longleftrightarrow> to \<in> set (ALLOWED_APPROVAL_TRANSITIONS start)"

definition CHANGE_REQUEST_KINDS :: "string list" where
  "CHANGE_REQUEST_KINDS = [''Hierarchy'', ''Objective'', ''WorkReassignment'', ''AgentCorrection'', ''Access'', ''Other'']"

datatype change_request_problem = UnknownKind string | ReasonTooShort | ReasonTooLong nat

definition changeRequestProblems :: "string \<Rightarrow> string \<Rightarrow> change_request_problem list" where
  "changeRequestProblems kind reason =
     (if kind \<in> set CHANGE_REQUEST_KINDS then [] else [UnknownKind kind])
     @ (if length (trim reason) < 10 then [ReasonTooShort]
        else if 4000 < length (trim reason) then [ReasonTooLong 4000] else [])"

section \<open>Lemmas\<close>

lemmas human_task_states = mayMoveHumanTask_def mayReleaseHumanTask_def isHumanTaskFinished_def
  TERMINAL_HUMAN_TASK_STATUSES_def

lemma finished_task_stays: "isHumanTaskFinished s \<longleftrightarrow> (\<forall>t. \<not> mayMoveHumanTask s t)"
  by (cases s) (auto simp add: human_task_states)

lemma waiting_task_is_never_overdue: "\<not> isHumanTaskOverdue TaskWaiting due now"
  by (simp add: isHumanTaskOverdue_def split: option.splits)

lemma validateTaskSubmission_ok:
  "validateTaskSubmission s req n b = [] \<longleftrightarrow>
     s \<in> {TaskInProgress, TaskWaitingApproval} \<and> (blank req \<or> 0 < n) \<and> (\<forall>r. b = Some r \<longrightarrow> blank r)"
  by (cases s; cases b) (auto simp add: validateTaskSubmission_def mayMoveHumanTask_def blank_def)

lemma decided_request_stays: "s \<in> {RequestApproved, RequestRejected, RequestCancelled} \<longleftrightarrow> (\<forall>t. \<not> mayMoveApproval s t)"
  by (cases s) (auto simp add: mayMoveApproval_def)

end
