(* ===== verification/Work_Release.thy ===== *)
theory Work_Release
  imports Assignments Runs
begin

text \<open>
  \<open>src/apps/api/src/tasks/work-release.service.ts\<close>: when a step of a workflow finishes, the human tasks
  that waited on it and on nothing else become startable.  The lemmas give the release in closed
  form: which rows change, and that no release is left to a second pass.
\<close>

section \<open>Rows\<close>

record human_task =
  ht_id :: uid
  ht_tenant :: uid
  ht_objective :: uid
  ht_objectiveVersion :: uid
  ht_node :: uid
  ht_title :: string
  ht_assignee :: uid
  ht_dependsOn :: "uid list"
  ht_status :: HumanTaskStatus
  ht_version :: nat

record ai_assignment =
  aw_id :: uid
  aw_tenant :: uid
  aw_agent :: "uid option"
  aw_objective :: "uid option"
  aw_objectiveVersion :: "uid option"
  aw_node :: "uid option"
  aw_status :: AiAssignmentStatus
  aw_createdAt :: instant

text \<open>The columns of an approval request the release reads.\<close>

record step_approval =
  sa_tenant :: uid
  sa_objectiveVersion :: "uid option"
  sa_node :: "uid option"
  sa_status :: ApprovalRequestStatus

record released_task =
  rt_id :: uid
  rt_title :: string
  rt_assignee :: uid
  rt_objective :: uid
  rt_node :: uid

record release_audit =
  ra_task :: uid
  ra_actor :: "uid option"
  ra_node :: uid
  ra_releasedBy :: uid
  ra_dependsOn :: "uid list"

section \<open>The plan\<close>

definition tasks_of :: "uid \<Rightarrow> uid \<Rightarrow> 'a human_task_scheme list \<Rightarrow> 'a human_task_scheme list" where
  "tasks_of tenant version tasks =
     filter (\<lambda>t. ht_tenant t = tenant \<and> ht_objectiveVersion t = version) tasks"

definition assignments_of :: "uid \<Rightarrow> uid \<Rightarrow> 'c ai_assignment_scheme list \<Rightarrow> 'c ai_assignment_scheme list" where
  "assignments_of tenant version rows =
     filter (\<lambda>a. aw_tenant a = tenant \<and> aw_objectiveVersion a = Some version) rows"

definition approvals_of :: "uid \<Rightarrow> uid \<Rightarrow> 'b step_approval_scheme list \<Rightarrow> 'b step_approval_scheme list" where
  "approvals_of tenant version rows =
     filter (\<lambda>a. sa_tenant a = tenant \<and> sa_objectiveVersion a = Some version \<and> sa_node a \<noteq> None) rows"

text \<open>
  The Sets \<open>planned\<close> and \<open>finished\<close>; \<open>completed\<close> are the assignments with a completed run.
\<close>

definition planned_nodes ::
  "'a human_task_scheme list \<Rightarrow> 'c ai_assignment_scheme list \<Rightarrow> 'b step_approval_scheme list \<Rightarrow> uid list" where
  "planned_nodes tasks assignments approvals =
     map ht_node tasks @ List.map_filter aw_node assignments @ List.map_filter sa_node approvals"

definition finished_nodes ::
  "uid list \<Rightarrow> 'a human_task_scheme list \<Rightarrow> 'c ai_assignment_scheme list \<Rightarrow> 'b step_approval_scheme list \<Rightarrow> uid list" where
  "finished_nodes completed tasks assignments approvals =
     map ht_node (filter (\<lambda>t. ht_status t = TaskCompleted \<or> ht_status t = TaskCancelled) tasks)
     @ List.map_filter aw_node (filter (\<lambda>a. aw_status a = AssignmentCancelled \<or> aw_id a \<in> set completed) assignments)
     @ List.map_filter sa_node
         (filter (\<lambda>a. sa_status a = RequestApproved \<or> sa_status a = RequestCancelled) approvals)"

section \<open>The release\<close>

definition released_from :: "'a human_task_scheme \<Rightarrow> released_task" where
  "released_from t = \<lparr>rt_id = ht_id t, rt_title = ht_title t, rt_assignee = ht_assignee t,
     rt_objective = ht_objective t, rt_node = ht_node t\<rparr>"

definition release_row :: "'a human_task_scheme \<Rightarrow> 'a human_task_scheme" where
  "release_row t = t\<lparr>ht_status := TaskAssigned, ht_version := Suc (ht_version t)\<rparr>"

definition startable :: "uid list \<Rightarrow> uid list \<Rightarrow> 'a human_task_scheme \<Rightarrow> bool" where
  "startable finished planned t \<longleftrightarrow>
     mayReleaseHumanTask (ht_status t) \<and> dependenciesSatisfied (ht_dependsOn t) finished planned"

fun release_each ::
  "uid option \<Rightarrow> uid \<Rightarrow> uid list \<Rightarrow> uid list \<Rightarrow> 'a human_task_scheme list \<Rightarrow> 'a human_task_scheme list
   \<Rightarrow> released_task list \<times> release_audit list \<times> 'a human_task_scheme list" where
  "release_each actor finishedNode finished planned [] table = ([], [], table)"
| "release_each actor finishedNode finished planned (t # ts) table =
     (if \<not> startable finished planned t then release_each actor finishedNode finished planned ts table
      else (let (released, audits, table') =
                  release_each actor finishedNode finished planned ts
                    (update_where (\<lambda>r. ht_id r = ht_id t) release_row table)
            in (released_from t # released,
                \<lparr>ra_task = ht_id t, ra_actor = actor, ra_node = ht_node t, ra_releasedBy = finishedNode,
                 ra_dependsOn = ht_dependsOn t\<rparr> # audits, table')))"

record release_input =
  ri_tenant :: uid
  ri_objectiveVersion :: uid
  ri_actor :: "uid option"
  ri_finishedNode :: uid

definition plan_of ::
  "release_input \<Rightarrow> uid list \<Rightarrow> 'a human_task_scheme list \<Rightarrow> 'c ai_assignment_scheme list \<Rightarrow> 'b step_approval_scheme list \<Rightarrow> uid list \<times> uid list" where
  "plan_of i completed tasks assignments approvals =
     (let ts = tasks_of (ri_tenant i) (ri_objectiveVersion i) tasks;
          ws = assignments_of (ri_tenant i) (ri_objectiveVersion i) assignments;
          ps = approvals_of (ri_tenant i) (ri_objectiveVersion i) approvals
      in (finished_nodes completed ts ws ps, planned_nodes ts ws ps))"

definition releaseWithinTransaction ::
  "release_input \<Rightarrow> uid list \<Rightarrow> 'a human_task_scheme list \<Rightarrow> 'c ai_assignment_scheme list \<Rightarrow> 'b step_approval_scheme list
   \<Rightarrow> released_task list \<times> release_audit list \<times> 'a human_task_scheme list" where
  "releaseWithinTransaction i completed tasks assignments approvals =
     (let (finished, planned) = plan_of i completed tasks assignments approvals
      in release_each (ri_actor i) (ri_finishedNode i) finished planned
           (tasks_of (ri_tenant i) (ri_objectiveVersion i) tasks) tasks)"

text \<open>
  \<open>tell\<close> raises one notification per released task; an error of the notification service is logged
  and does not stop the others.
\<close>

record work_notice =
  wn_tenant :: uid
  wn_recipient :: uid
  wn_title :: string
  wn_task :: uid

definition ready_title :: "released_task \<Rightarrow> string" where
  "ready_title t = ''Ready to start: '' @ rt_title t"

definition assigned_title :: "released_task \<Rightarrow> string" where
  "assigned_title t = ''New work assigned: '' @ rt_title t"

definition tell :: "(work_notice \<Rightarrow> bool) \<Rightarrow> (released_task \<Rightarrow> string) \<Rightarrow> uid \<Rightarrow> released_task list \<Rightarrow> work_notice list" where
  "tell raises words tenant ts =
     filter raises (map (\<lambda>t. \<lparr>wn_tenant = tenant, wn_recipient = rt_assignee t, wn_title = words t, wn_task = rt_id t\<rparr>) ts)"

definition announce :: "(work_notice \<Rightarrow> bool) \<Rightarrow> uid \<Rightarrow> released_task list \<Rightarrow> work_notice list" where
  "announce raises tenant ts = tell raises ready_title tenant ts"

definition announceAssigned :: "(work_notice \<Rightarrow> bool) \<Rightarrow> uid \<Rightarrow> released_task list \<Rightarrow> work_notice list" where
  "announceAssigned raises tenant ts = tell raises assigned_title tenant ts"

section \<open>The release in closed form\<close>

lemma release_each_released:
  "fst (release_each actor n finished planned ts table) = map released_from (filter (startable finished planned) ts)"
  by (induction ts arbitrary: table) (auto simp add: case_prod_beta)

lemma release_each_audited:
  "map ra_task (fst (snd (release_each actor n finished planned ts table)))
   = map ht_id (filter (startable finished planned) ts)"
  by (induction ts arbitrary: table) (auto simp add: case_prod_beta)

lemma release_row_id [simp]: "ht_id (release_row t) = ht_id t" "ht_tenant (release_row t) = ht_tenant t"
  "ht_objectiveVersion (release_row t) = ht_objectiveVersion t" "ht_node (release_row t) = ht_node t"
  "ht_dependsOn (release_row t) = ht_dependsOn t" "ht_status (release_row t) = TaskAssigned"
  "ht_title (release_row t) = ht_title t" "ht_assignee (release_row t) = ht_assignee t"
  "ht_objective (release_row t) = ht_objective t"
  by (simp_all add: release_row_def)

lemma release_each_table:
  assumes "distinct (map ht_id ts)"
  shows "snd (snd (release_each actor n finished planned ts table))
         = map (\<lambda>r. if ht_id r \<in> ht_id ` {t \<in> set ts. startable finished planned t} then release_row r else r) table"
  using assms
proof (induction ts arbitrary: table)
  case (Cons t ts)
  let ?later = "\<lambda>r. if ht_id r \<in> ht_id ` {t \<in> set ts. startable finished planned t} then release_row r else r"
  have IH: "snd (snd (release_each actor n finished planned ts table')) = map ?later table'" for table'
    using Cons by simp
  show ?case
  proof (cases "startable finished planned t")
    case True
    have "ht_id t \<notin> ht_id ` {t \<in> set ts. startable finished planned t}" using Cons.prems by auto
    then show ?thesis
      using True IH by (auto simp add: case_prod_beta update_where_def)
  next
    case False
    then show ?thesis using IH by (auto intro!: map_cong)
  qed
qed (simp add: image_iff)

text \<open>The rows a release changes: those of the workflow that wait and whose dependencies are finished.\<close>

definition to_release ::
  "release_input \<Rightarrow> uid list \<Rightarrow> 'a human_task_scheme list \<Rightarrow> 'c ai_assignment_scheme list \<Rightarrow> 'b step_approval_scheme list \<Rightarrow> 'a human_task_scheme \<Rightarrow> bool" where
  "to_release i completed tasks assignments approvals t \<longleftrightarrow>
     ht_tenant t = ri_tenant i \<and> ht_objectiveVersion t = ri_objectiveVersion i
     \<and> (case plan_of i completed tasks assignments approvals of (finished, planned) \<Rightarrow> startable finished planned t)"

lemma release_table:
  assumes "distinct (map ht_id tasks)"
  shows "snd (snd (releaseWithinTransaction i completed tasks assignments approvals))
         = map (\<lambda>t. if to_release i completed tasks assignments approvals t then release_row t else t) tasks"
proof -
  obtain finished planned where plan: "plan_of i completed tasks assignments approvals = (finished, planned)"
    by (cases "plan_of i completed tasks assignments approvals")
  let ?ts = "tasks_of (ri_tenant i) (ri_objectiveVersion i) tasks"
  have d: "distinct (map ht_id ?ts)" using assms by (simp add: tasks_of_def distinct_map_filter)
  have "ht_id r \<in> ht_id ` {t \<in> set ?ts. startable finished planned t} \<longleftrightarrow> to_release i completed tasks assignments approvals r"
    if "r \<in> set tasks" for r
    using that distinct_key_unique [OF assms, of r] by (auto simp add: to_release_def plan tasks_of_def)
  then show ?thesis
    by (simp add: releaseWithinTransaction_def plan release_each_table [OF d])
qed

lemma release_released:
  "fst (releaseWithinTransaction i completed tasks assignments approvals)
   = map released_from (filter (to_release i completed tasks assignments approvals) tasks)"
  by (cases "plan_of i completed tasks assignments approvals")
    (auto simp add: releaseWithinTransaction_def release_each_released to_release_def tasks_of_def
      intro!: arg_cong [where f = "map released_from"] filter_cong)

text \<open>A released task is assigned, not finished, so the plan is the same after the release.\<close>

lemma plan_after_release:
  assumes "\<And>t. Q t \<Longrightarrow> ht_status t = TaskWaiting"
  shows "plan_of i completed (map (\<lambda>t. if Q t then release_row t else t) tasks) assignments approvals
         = plan_of i completed tasks assignments approvals"
proof -
  let ?f = "\<lambda>t. if Q t then release_row t else t"
  have "tasks_of a b (map ?f tasks) = map ?f (tasks_of a b tasks)" for a b
    by (induction tasks) (auto simp add: tasks_of_def)
  moreover have "map ht_node (map ?f ts) = map ht_node ts" for ts by simp
  moreover have "map ht_node (filter (\<lambda>t. ht_status t = TaskCompleted \<or> ht_status t = TaskCancelled) (map ?f ts))
      = map ht_node (filter (\<lambda>t. ht_status t = TaskCompleted \<or> ht_status t = TaskCancelled) ts)" for ts
    using assms by (induction ts) (auto dest!: assms)
  ultimately show ?thesis
    by (simp only: plan_of_def finished_nodes_def planned_nodes_def Let_def)
qed

lemma nothing_left_to_release:
  assumes "distinct (map ht_id tasks)"
  shows "filter (to_release i completed (snd (snd (releaseWithinTransaction i completed tasks assignments approvals))) assignments approvals)
           (snd (snd (releaseWithinTransaction i completed tasks assignments approvals))) = []"
proof -
  define Q where "Q = to_release i completed tasks assignments approvals"
  have waits: "Q t \<Longrightarrow> ht_status t = TaskWaiting" for t
    by (auto simp add: Q_def to_release_def startable_def mayReleaseHumanTask_def split: prod.splits)
  define rows where "rows = map (\<lambda>t. if Q t then release_row t else t) tasks"
  have "plan_of i completed rows assignments approvals = plan_of i completed tasks assignments approvals"
    unfolding rows_def by (rule plan_after_release) (rule waits)
  then have same: "to_release i completed rows assignments approvals t = Q t" for t by (simp add: Q_def to_release_def)
  have "\<not> Q (release_row t)" for t using waits [of "release_row t"] by auto
  then have "filter Q rows = []" by (auto simp add: rows_def filter_empty_conv)
  with same show ?thesis
    unfolding release_table [OF assms] Q_def [symmetric] rows_def [symmetric]
    by (simp only: filter_empty_conv)
qed

end
