(* ===== verification/Fair_Queue.thy ===== *)
theory Fair_Queue
  imports UbossPrelude "HOL-Library.Multiset"
begin

text \<open>
  \<open>fairOrder\<close> and \<open>concurrencySlotsFor\<close> of \<open>src/packages/types/src/rate-limits.ts\<close> and the admission loop
  of \<open>src/apps/api/src/rate-limits/run-fairness.service.ts\<close>: queued work is taken round-robin across
  companies, oldest first within each, under a ceiling per company.  The lemmas give the closed
  form of the order seen from one company and what precedes a company's k-th job.
\<close>

section \<open>The order\<close>

record pending_job =
  pj_id :: uid
  pj_tenant :: uid
  pj_queuedAt :: instant

text \<open>The JavaScript Map of the source: an association list in insertion order.\<close>

fun add_job :: "pending_job \<Rightarrow> (uid \<times> pending_job list) list \<Rightarrow> (uid \<times> pending_job list) list" where
  "add_job j [] = [(pj_tenant j, [j])]"
| "add_job j ((t, js) # m) = (if t = pj_tenant j then (t, js @ [j]) # m else (t, js) # add_job j m)"

definition by_tenant :: "pending_job list \<Rightarrow> (uid \<times> pending_job list) list" where
  "by_tenant pending = foldl (\<lambda>m j. add_job j m) [] pending"

text \<open>The comparison key of a company: \<open>left[1][0]?.queuedAt ?? 0\<close>.\<close>

definition oldest_first :: "uid \<times> pending_job list \<Rightarrow> instant" where
  "oldest_first e = (case snd e of [] \<Rightarrow> 0 | j # _ \<Rightarrow> pj_queuedAt j)"

definition company_queues :: "pending_job list \<Rightarrow> pending_job list list" where
  "company_queues pending =
     map snd (sort_key oldest_first (map (\<lambda>(t, js). (t, sort_key pj_queuedAt js)) (by_tenant pending)))"

text \<open>One pass of the loop takes the job at index \<open>pass\<close> of every company that still has one.\<close>

definition job_at :: "nat \<Rightarrow> 'a list \<Rightarrow> 'a option" where
  "job_at pass jobs = (if pass < length jobs then Some (jobs ! pass) else None)"

definition one_pass :: "nat \<Rightarrow> 'a list list \<Rightarrow> 'a list" where
  "one_pass pass queues = List.map_filter (job_at pass) queues"

lemma fewer_left: "placed < n \<Longrightarrow> xs \<noteq> [] \<Longrightarrow> n - (placed + length xs) < n - placed"
  by (cases xs) auto

function passes :: "nat \<Rightarrow> nat \<Rightarrow> nat \<Rightarrow> 'a list list \<Rightarrow> 'a list" where
  "passes n placed pass queues =
     (if placed < n then
        (let now = one_pass pass queues
         in if now = [] then [] else now @ passes n (placed + length now) (Suc pass) queues)
      else [])"
  by pat_completeness auto

termination by (relation "measure (\<lambda>(n, placed, _, _). n - placed)") (auto intro: fewer_left)

declare passes.simps [simp del]

definition fairOrder :: "pending_job list \<Rightarrow> pending_job list" where
  "fairOrder pending = passes (length pending) 0 0 (company_queues pending)"

definition concurrencySlotsFor :: "int \<Rightarrow> int \<Rightarrow> int" where
  "concurrencySlotsFor inFlight limit = max 0 (limit - inFlight)"

section \<open>The queues of the companies\<close>

definition jobs_of :: "uid \<Rightarrow> pending_job list \<Rightarrow> pending_job list" where
  "jobs_of t pending = filter (\<lambda>j. pj_tenant j = t) pending"

definition queue_of :: "uid \<Rightarrow> pending_job list \<Rightarrow> pending_job list" where
  "queue_of t pending = sort_key pj_queuedAt (jobs_of t pending)"

lemma add_job_keys: "map fst (add_job j m) =
    (if pj_tenant j \<in> set (map fst m) then map fst m else map fst m @ [pj_tenant j])"
  by (induction j m rule: add_job.induct) auto

lemma add_job_entry:
  "map_of (add_job j m) t
   = (if t = pj_tenant j then Some (case map_of m t of None \<Rightarrow> [j] | Some js \<Rightarrow> js @ [j]) else map_of m t)"
  by (induction j m rule: add_job.induct) auto

lemma by_tenant_snoc: "by_tenant (js @ [j]) = add_job j (by_tenant js)"
  by (simp add: by_tenant_def)

lemma by_tenant_distinct: "distinct (map fst (by_tenant js))"
  by (induction js rule: rev_induct) (auto simp add: by_tenant_snoc add_job_keys, simp add: by_tenant_def)

lemma by_tenant_entry:
  "map_of (by_tenant js) t = (if jobs_of t js = [] then None else Some (jobs_of t js))"
  by (induction js rule: rev_induct)
    (auto simp add: by_tenant_snoc add_job_entry jobs_of_def, simp_all add: by_tenant_def)

lemma by_tenant_member: "(t, qs) \<in> set (by_tenant js) \<longleftrightarrow> qs = jobs_of t js \<and> jobs_of t js \<noteq> []"
  using map_of_eq_Some_iff [OF by_tenant_distinct, of js t qs]
  by (auto simp add: by_tenant_entry split: if_splits)

text \<open>The companies in the order in which a pass visits them.\<close>

definition visiting_order :: "pending_job list \<Rightarrow> uid list" where
  "visiting_order pending =
     map fst (sort_key oldest_first (map (\<lambda>(t, js). (t, sort_key pj_queuedAt js)) (by_tenant pending)))"

lemma visiting_order_mset: "mset (visiting_order pending) = mset (map fst (by_tenant pending))"
  by (simp add: visiting_order_def image_mset.compositionality comp_def case_prod_beta)

lemma visiting_order_distinct: "distinct (visiting_order pending)"
  by (metis by_tenant_distinct mset_eq_imp_distinct_iff visiting_order_mset)

lemma company_queues_eq: "company_queues pending = map (\<lambda>t. queue_of t pending) (visiting_order pending)"
  by (auto simp add: company_queues_def visiting_order_def queue_of_def by_tenant_member)

lemma set_visiting_order: "set (visiting_order pending) = pj_tenant ` set pending"
proof -
  have "set (visiting_order pending) = fst ` set (by_tenant pending)"
    by (metis visiting_order_mset list.set_map mset_eq_setD)
  also have "\<dots> = {t. jobs_of t pending \<noteq> []}"
  proof (intro set_eqI iffI)
    fix t assume "t \<in> {t. jobs_of t pending \<noteq> []}"
    then have "(t, jobs_of t pending) \<in> set (by_tenant pending)" by (simp add: by_tenant_member)
    then show "t \<in> fst ` set (by_tenant pending)" by (metis fst_conv image_eqI)
  qed (auto simp add: by_tenant_member)
  finally show ?thesis by (auto simp add: jobs_of_def filter_empty_conv)
qed

section \<open>The order seen from one company\<close>

lemma one_pass_of:
  assumes "distinct ts" and "\<And>t. t \<in> set ts \<Longrightarrow> \<forall>j \<in> set (q t). pj_tenant j = t"
  shows "filter (\<lambda>j. pj_tenant j = t) (one_pass pass (map q ts))
         = (if t \<in> set ts then take 1 (drop pass (q t)) else [])"
  using assms
proof (induction ts)
  case (Cons u us)
  have IH: "filter (\<lambda>j. pj_tenant j = t) (one_pass pass (map q us))
            = (if t \<in> set us then take 1 (drop pass (q t)) else [])"
    using Cons by simp
  show ?case
  proof (cases "pass < length (q u)")
    case True
    then have "pj_tenant (q u ! pass) = u" using Cons.prems by simp
    then show ?thesis using IH True Cons.prems(1)
      by (auto simp add: one_pass_def List.map_filter_simps job_at_def take_Suc hd_drop_conv_nth)
  next
    case False
    then show ?thesis using IH Cons.prems(1)
      by (auto simp add: one_pass_def List.map_filter_simps job_at_def)
  qed
qed (simp add: one_pass_def List.map_filter_def)


text \<open>What is left to place when a pass begins.\<close>

definition left_from :: "nat \<Rightarrow> 'a list list \<Rightarrow> nat" where
  "left_from pass queues = sum_list (map (\<lambda>q. length (drop pass q)) queues)"

lemma left_from_Suc: "left_from pass queues = length (one_pass pass queues) + left_from (Suc pass) queues"
  by (induction queues) (auto simp add: left_from_def one_pass_def List.map_filter_simps job_at_def)

lemma one_pass_empty: "one_pass pass queues = [] \<Longrightarrow> q \<in> set queues \<Longrightarrow> drop pass q = []"
  by (induction queues) (auto simp add: one_pass_def List.map_filter_simps job_at_def split: if_splits)

lemma one_pass_empty_left: "one_pass pass queues = [] \<Longrightarrow> left_from pass queues = 0"
  by (auto simp add: left_from_def dest!: one_pass_empty)

lemma passes_more:
  "placed < n \<Longrightarrow> one_pass pass queues \<noteq> [] \<Longrightarrow>
   passes n placed pass queues
   = one_pass pass queues @ passes n (placed + length (one_pass pass queues)) (Suc pass) queues"
  by (subst passes.simps) (simp add: Let_def)

lemma passes_stop: "\<not> (placed < n \<and> one_pass pass queues \<noteq> []) \<Longrightarrow> passes n placed pass queues = []"
  by (subst passes.simps) (auto simp add: Let_def)

lemma passes_of:
  assumes ts: "distinct ts" "\<And>t. t \<in> set ts \<Longrightarrow> \<forall>j \<in> set (q t). pj_tenant j = t"
    and "n = placed + left_from pass (map q ts)"
  shows "filter (\<lambda>j. pj_tenant j = t) (passes n placed pass (map q ts))
         = (if t \<in> set ts then drop pass (q t) else [])"
  using assms(3)
proof (induction "n - placed" arbitrary: placed pass rule: less_induct)
  case less
  let ?now = "one_pass pass (map q ts)"
  show ?case
  proof (cases "placed < n \<and> ?now \<noteq> []")
    case True
    have "n = placed + length ?now + left_from (Suc pass) (map q ts)"
      using less.prems left_from_Suc [of pass "map q ts"] by simp
    then have IH: "filter (\<lambda>j. pj_tenant j = t) (passes n (placed + length ?now) (Suc pass) (map q ts))
        = (if t \<in> set ts then drop (Suc pass) (q t) else [])"
      using less.hyps [of "placed + length ?now" "Suc pass"] fewer_left True by blast
    have "take 1 (drop pass (q t)) @ drop (Suc pass) (q t) = drop pass (q t)"
      by (metis append_take_drop_id drop_drop plus_1_eq_Suc)
    then show ?thesis
      using True IH one_pass_of [OF ts, where pass = pass and t = t] by (simp add: passes_more)
  next
    case False
    then have "left_from pass (map q ts) = 0"
      using less.prems one_pass_empty_left [of pass "map q ts"] by linarith
    then have "t \<in> set ts \<Longrightarrow> drop pass (q t) = []" by (auto simp add: left_from_def)
    then show ?thesis using passes_stop [OF False] by simp
  qed
qed

lemma sum_over_companies:
  assumes "distinct ts" and "\<forall>j \<in> set js. pj_tenant j \<in> set ts"
  shows "sum_list (map (\<lambda>t. length (jobs_of t js)) ts) = length js"
  using assms(2)
proof (induction js)
  case (Cons j js)
  have "sum_list (map (\<lambda>t. length (jobs_of t (j # js))) ts)
        = sum_list (map (\<lambda>t. (if pj_tenant j = t then 1 else 0) + length (jobs_of t js)) ts)"
    by (rule arg_cong [of _ _ sum_list]) (simp add: jobs_of_def)
  also have "\<dots> = 1 + sum_list (map (\<lambda>t. length (jobs_of t js)) ts)"
    using assms(1) Cons.prems by (simp add: sum_list_addf sum_list_distinct_conv_sum_set)
  finally show ?case using Cons by simp
qed (simp add: jobs_of_def)

lemma queue_of_company: "j \<in> set (queue_of t pending) \<Longrightarrow> pj_tenant j = t"
  by (simp add: queue_of_def jobs_of_def)

lemma all_is_left:
  "left_from 0 (map (\<lambda>t. queue_of t pending) (visiting_order pending)) = length pending"
  using sum_over_companies [OF visiting_order_distinct, of pending]
  by (simp add: left_from_def queue_of_def set_visiting_order comp_def)

text \<open>Seen from one company the order is its own queue, oldest first.\<close>

lemma fairOrder_of: "jobs_of t (fairOrder pending) = queue_of t pending"
proof -
  have "jobs_of t (fairOrder pending)
        = (if t \<in> set (visiting_order pending) then drop 0 (queue_of t pending) else [])"
    unfolding jobs_of_def fairOrder_def company_queues_eq
    by (rule passes_of [OF visiting_order_distinct]) (auto simp add: queue_of_company all_is_left)
  moreover have "queue_of t pending = []" if "t \<notin> set (visiting_order pending)"
  proof -
    have "jobs_of t pending = []"
      using that by (auto simp add: set_visiting_order jobs_of_def filter_empty_conv)
    then show ?thesis by (simp add: queue_of_def)
  qed
  ultimately show ?thesis by auto
qed


text \<open>The first k passes place the first k jobs of every company and nothing else.\<close>

lemma passes_prefix:
  assumes ts: "distinct ts" "\<And>t. t \<in> set ts \<Longrightarrow> \<forall>j \<in> set (q t). pj_tenant j = t"
    and "n = placed + left_from pass (map q ts)"
  shows "\<exists>xs ys. passes n placed pass (map q ts) = xs @ ys
           \<and> (\<forall>t. filter (\<lambda>j. pj_tenant j = t) xs = (if t \<in> set ts then take k (drop pass (q t)) else []))"
  using assms(3)
proof (induction k arbitrary: placed pass)
  case (Suc k)
  let ?now = "one_pass pass (map q ts)"
  show ?case
  proof (cases "placed < n \<and> ?now \<noteq> []")
    case True
    have "n = placed + length ?now + left_from (Suc pass) (map q ts)"
      using Suc.prems left_from_Suc [of pass "map q ts"] by simp
    from Suc.IH [OF this] obtain xs ys where
      xs: "passes n (placed + length ?now) (Suc pass) (map q ts) = xs @ ys"
      and f: "\<And>t. filter (\<lambda>j. pj_tenant j = t) xs = (if t \<in> set ts then take k (drop (Suc pass) (q t)) else [])"
      by blast
    have "take 1 (drop pass (q t)) @ take k (drop (Suc pass) (q t)) = take (Suc k) (drop pass (q t))" for t
      using take_add [of 1 k "drop pass (q t)"] by simp
    then have "filter (\<lambda>j. pj_tenant j = t) (?now @ xs)
               = (if t \<in> set ts then take (Suc k) (drop pass (q t)) else [])" for t
      using f one_pass_of [OF ts, where pass = pass and t = t] by simp
    moreover have "passes n placed pass (map q ts) = (?now @ xs) @ ys"
      using True xs by (simp add: passes_more)
    ultimately show ?thesis by blast
  next
    case False
    then have "left_from pass (map q ts) = 0"
      using Suc.prems one_pass_empty_left [of pass "map q ts"] by linarith
    then have "t \<in> set ts \<Longrightarrow> drop pass (q t) = []" for t by (auto simp add: left_from_def)
    then show ?thesis using passes_stop [OF False] by auto
  qed
next
  case 0
  show ?case by (rule exI [of _ "[]"]) simp
qed

lemma fairOrder_prefix:
  "\<exists>xs ys. fairOrder pending = xs @ ys \<and> (\<forall>t. jobs_of t xs = take k (queue_of t pending))"
proof -
  have "queue_of t pending = []" if "t \<notin> set (visiting_order pending)" for t
  proof -
    have "jobs_of t pending = []"
      using that by (auto simp add: set_visiting_order jobs_of_def filter_empty_conv)
    then show ?thesis by (simp add: queue_of_def)
  qed
  then show ?thesis
    using passes_prefix [OF visiting_order_distinct, of pending "\<lambda>t. queue_of t pending" "length pending" 0 0 k]
    unfolding jobs_of_def fairOrder_def company_queues_eq
    by (auto simp add: queue_of_company all_is_left)
qed

lemma fairOrder_mset: "mset (fairOrder pending) = mset pending"
proof (rule multiset_eqI)
  fix j
  have count: "count (mset js) j = count (mset (jobs_of (pj_tenant j) js)) j" for js
    by (simp add: jobs_of_def mset_filter)
  show "count (mset (fairOrder pending)) j = count (mset pending) j"
    using count [of "fairOrder pending"] count [of pending]
    by (simp add: fairOrder_of queue_of_def)
qed

section \<open>Admission\<close>

text \<open>
  The loop of \<open>admissionPlan\<close>: \<open>used\<close> is the Map of the runs in flight per company, updated as jobs
  are dispatched.
\<close>

definition already :: "(uid \<rightharpoonup> int) \<Rightarrow> uid \<Rightarrow> int" where
  "already used t = (case used t of None \<Rightarrow> 0 | Some n \<Rightarrow> n)"

fun admit_jobs :: "int \<Rightarrow> (uid \<rightharpoonup> int) \<Rightarrow> pending_job list \<Rightarrow> pending_job list \<times> pending_job list" where
  "admit_jobs limit used [] = ([], [])"
| "admit_jobs limit used (j # js) =
     (if 0 < concurrencySlotsFor (already used (pj_tenant j)) limit then
        (let (dispatch, deferred) = admit_jobs limit (used(pj_tenant j \<mapsto> already used (pj_tenant j) + 1)) js
         in (j # dispatch, deferred))
      else
        (let (dispatch, deferred) = admit_jobs limit used js
         in (dispatch, j # deferred)))"

lemma slots_step: "0 < concurrencySlotsFor u limit \<Longrightarrow>
    nat (concurrencySlotsFor u limit) = Suc (nat (concurrencySlotsFor (u + 1) limit))"
  by (simp add: concurrencySlotsFor_def max_def split: if_splits)

text \<open>A company's jobs are dispatched up to its free slots, the rest are deferred, both in order.\<close>

lemma admit_jobs_of:
  "jobs_of t (fst (admit_jobs limit used js)) = take (nat (concurrencySlotsFor (already used t) limit)) (jobs_of t js)
   \<and> jobs_of t (snd (admit_jobs limit used js)) = drop (nat (concurrencySlotsFor (already used t) limit)) (jobs_of t js)"
proof (induction limit used js rule: admit_jobs.induct)
  case (2 limit used j js)
  let ?u = "already used (pj_tenant j)"
  show ?case
  proof (cases "0 < concurrencySlotsFor ?u limit")
    case True
    have a: "already (used(pj_tenant j \<mapsto> ?u + 1)) t = (if t = pj_tenant j then ?u + 1 else already used t)"
      by (simp add: already_def)
    show ?thesis
      using 2(1) [OF True] True slots_step [OF True] by (auto simp add: a jobs_of_def case_prod_beta simp del: fun_upd_apply)
  next
    case False
    then show ?thesis using 2(2) [OF False] by (auto simp add: jobs_of_def case_prod_beta)
  qed
qed (simp add: jobs_of_def)

end
