(* ===== verification/Run_Engine.thy ===== *)
theory Run_Engine
  imports Work_Release Fair_Queue
begin

text \<open>
  \<open>src/apps/api/src/runs/run-engine.service.ts\<close>: starting a run, performing it, waiting, resuming,
  cancelling and failing, each a transaction over the tables of runs and run events.  A worker of the
  queue performs a run in several transactions with the executor between them; the model keeps the
  workers and how far each has come, so that other operations may fall between its steps.  A
  transaction of a tenant sees that tenant's rows.
\<close>

section \<open>Rows\<close>

record engine_agent =
  ag_id :: uid
  ag_tenant :: uid
  ag_name :: string
  ag_status :: string
  ag_currentVersion :: "uid option"
  ag_overlapPolicy :: "OverlapPolicy option"
  ag_missedRunPolicy :: "MissedRunPolicy option"
  ag_scheduleCron :: "string option"
  ag_lastRunAt :: "instant option"
  ag_nextRunAt :: "instant option"

record agent_run =
  rn_id :: uid
  rn_tenant :: uid
  rn_agent :: uid
  rn_agentVersion :: uid
  rn_assignment :: "uid option"
  rn_objective :: "uid option"
  rn_state :: RunState
  rn_trigger :: RunTrigger
  rn_key :: string
  rn_correlation :: string
  rn_attempt :: int
  rn_maxAttempts :: int
  rn_retryability :: "Retryability option"
  rn_scheduledFor :: "instant option"
  rn_reservedAt :: "instant option"
  rn_startedAt :: "instant option"
  rn_finishedAt :: "instant option"
  rn_percent :: "int option"
  rn_message :: "string option"
  rn_output :: "string option"
  rn_inputs :: "string option"
  rn_failureReason :: "string option"
  rn_real :: "bool option"
  rn_cancelledAt :: "instant option"
  rn_cancelledBy :: "uid option"
  rn_deadLetteredAt :: "instant option"
  rn_startedBy :: "uid option"
  rn_createdAt :: instant
  rn_updatedAt :: instant
  rn_version :: nat

record run_event =
  ev_tenant :: uid
  ev_run :: uid
  ev_state :: "RunState option"
  ev_percent :: "int option"
  ev_message :: string
  ev_attempt :: int
  ev_at :: instant

record progress =
  pg_run :: uid
  pg_agent :: uid
  pg_state :: RunState
  pg_percent :: "int option"
  pg_message :: string
  pg_attempt :: int
  pg_at :: instant
  pg_correlation :: string
  pg_assignment :: "uid option"

record run_job =
  jb_run :: uid
  jb_tenant :: uid
  jb_correlation :: string
  jb_attempt :: int

datatype run_audit = RunQueued uid "uid option" RunTrigger nat
  | RunDeadLettered uid int Retryability | RunCancelled uid uid RunState string

datatype run_error = NoSuchAgent | NoConfiguration | AgentNotActive string | NoSuchAssignment
  | OverlapRefused string | NoSuchRun | ForbiddenMove RunState RunState | CannotResume RunState
  | AlreadyFinished RunState | FailureReasonOverflow

datatype run_call = Published uid progress | Enqueued run_job | EnqueuedAfter run_job int
  | RunAudited uid run_audit | ReleaseAudited uid release_audit | Announced uid "released_task list"
  | PerformRejected run_job run_error

datatype stage = Admitted | HoldsReservation | Executing

record worker =
  wk_id :: uid
  wk_job :: run_job
  wk_stage :: stage

text \<open>
  \<open>es_runLimit\<close> is the concurrency limit of the fairness service, None where the service is not
  injected; \<open>es_durable\<close> says whether the queue's transport is durable.
\<close>

record engine_state =
  es_agents :: "engine_agent list"
  es_assignments :: "ai_assignment list"
  es_tasks :: "human_task list"
  es_approvals :: "step_approval list"
  es_runs :: "agent_run list"
  es_events :: "run_event list"
  es_workers :: "worker list"
  es_calls :: "run_call list"
  es_runLimit :: "int option"
  es_durable :: bool

definition called :: "run_call list \<Rightarrow> engine_state \<Rightarrow> engine_state" where
  "called cs st = st\<lparr>es_calls := es_calls st @ cs\<rparr>"

definition find_run :: "uid \<Rightarrow> uid \<Rightarrow> engine_state \<Rightarrow> agent_run option" where
  "find_run tenant rid st = List.find (\<lambda>r. rn_tenant r = tenant \<and> rn_id r = rid) (es_runs st)"

section \<open>Moving a run\<close>

text \<open>The optional columns of \<open>change\<close>; the outer None is a column that is not given.\<close>

record run_change =
  ch_message :: string
  ch_attempt :: "int option"
  ch_percent :: "int option"
  ch_output :: "string option"
  ch_failureReason :: "string option option"
  ch_retryability :: "Retryability option"
  ch_real :: "bool option"
  ch_reservedAt :: "instant option option"
  ch_startedAt :: "instant option option"
  ch_finishedAt :: "instant option"
  ch_cancelledAt :: "instant option"
  ch_cancelledBy :: "uid option"
  ch_deadLetteredAt :: "instant option"

definition says :: "string \<Rightarrow> run_change" where
  "says m = \<lparr>ch_message = m, ch_attempt = None, ch_percent = None, ch_output = None,
     ch_failureReason = None, ch_retryability = None, ch_real = None, ch_reservedAt = None,
     ch_startedAt = None, ch_finishedAt = None, ch_cancelledAt = None, ch_cancelledBy = None,
     ch_deadLetteredAt = None\<rparr>"

definition given :: "'a option \<Rightarrow> 'a \<Rightarrow> 'a" where
  "given new old = (case new of None \<Rightarrow> old | Some x \<Rightarrow> x)"

definition given_value :: "'a option \<Rightarrow> 'a option \<Rightarrow> 'a option" where
  "given_value new old = (case new of None \<Rightarrow> old | Some x \<Rightarrow> Some x)"

definition changed :: "instant \<Rightarrow> RunState \<Rightarrow> run_change \<Rightarrow> agent_run \<Rightarrow> agent_run" where
  "changed now to c r = r\<lparr>
     rn_state := to,
     rn_message := Some (slice_to 500 (ch_message c)),
     rn_attempt := given (ch_attempt c) (rn_attempt r),
     rn_percent := given_value (ch_percent c) (rn_percent r),
     rn_output := given_value (ch_output c) (rn_output r),
     rn_failureReason := given (ch_failureReason c) (rn_failureReason r),
     rn_retryability := given_value (ch_retryability c) (rn_retryability r),
     rn_real := given_value (ch_real c) (rn_real r),
     rn_reservedAt := given (ch_reservedAt c) (rn_reservedAt r),
     rn_startedAt := given (ch_startedAt c) (rn_startedAt r),
     rn_finishedAt := given_value (ch_finishedAt c) (rn_finishedAt r),
     rn_cancelledAt := given_value (ch_cancelledAt c) (rn_cancelledAt r),
     rn_cancelledBy := given_value (ch_cancelledBy c) (rn_cancelledBy r),
     rn_deadLetteredAt := given_value (ch_deadLetteredAt c) (rn_deadLetteredAt r),
     rn_version := Suc (rn_version r),
     rn_updatedAt := now\<rparr>"

text \<open>The column holds 2000 characters; the database refuses a longer reason.\<close>

definition reason_fits :: "run_change \<Rightarrow> bool" where
  "reason_fits c = (case ch_failureReason c of Some (Some s) \<Rightarrow> length s \<le> 2000 | _ \<Rightarrow> True)"

definition event_of :: "uid \<Rightarrow> uid \<Rightarrow> RunState \<Rightarrow> run_change \<Rightarrow> int \<Rightarrow> instant \<Rightarrow> run_event" where
  "event_of tenant rid to c attempt now =
     \<lparr>ev_tenant = tenant, ev_run = rid, ev_state = Some to, ev_percent = ch_percent c,
      ev_message = slice_to 500 (ch_message c), ev_attempt = attempt, ev_at = now\<rparr>"

definition progress_of :: "RunState \<Rightarrow> string \<Rightarrow> instant \<Rightarrow> agent_run \<Rightarrow> progress" where
  "progress_of to message now r =
     \<lparr>pg_run = rn_id r, pg_agent = rn_agent r, pg_state = to, pg_percent = rn_percent r, pg_message = message,
      pg_attempt = rn_attempt r, pg_at = now, pg_correlation = rn_correlation r, pg_assignment = rn_assignment r\<rparr>"

definition move ::
  "uid \<Rightarrow> uid \<Rightarrow> RunState \<Rightarrow> run_change \<Rightarrow> instant \<Rightarrow> engine_state \<Rightarrow> run_error + (agent_run \<times> engine_state)" where
  "move rid tenant to c now st =
     (case find_run tenant rid st of
        None \<Rightarrow> Inl NoSuchRun
      | Some r \<Rightarrow>
          if rn_state r \<noteq> to \<and> \<not> mayMoveRun (rn_state r) to then Inl (ForbiddenMove (rn_state r) to)
          else if \<not> reason_fits c then Inl FailureReasonOverflow
          else (let updated = changed now to c r;
                    st1 = st\<lparr>es_runs := update_where (\<lambda>x. rn_id x = rid) (changed now to c) (es_runs st),
                             es_events := es_events st @ [event_of tenant rid to c (rn_attempt updated) now]\<rparr>
                in Inr (updated, called [Published tenant (progress_of to (ch_message c) now updated)] st1)))"

section \<open>Starting\<close>

record start_input =
  si_tenant :: uid
  si_agent :: uid
  si_trigger :: RunTrigger
  si_assignment :: "uid option"
  si_inputs :: "string option"
  si_occurrence :: "string option"
  si_scheduledFor :: "instant option"
  si_startedBy :: "uid option"
  si_correlation :: "string option"

text \<open>The identifiers drawn at random: of the row, of a nonce and of a correlation.\<close>

record fresh_ids =
  fr_run :: uid
  fr_nonce :: string
  fr_correlation :: string

definition unfinished_of :: "uid \<Rightarrow> uid \<Rightarrow> engine_state \<Rightarrow> agent_run list" where
  "unfinished_of tenant agent st =
     filter (\<lambda>r. rn_tenant r = tenant \<and> rn_agent r = agent \<and> rn_state r \<notin> {Completed, Failed, Cancelled}) (es_runs st)"

definition overlap_policy :: "engine_agent \<Rightarrow> OverlapPolicy" where
  "overlap_policy a = (case ag_overlapPolicy a of None \<Rightarrow> DEFAULT_OVERLAP_POLICY | Some p \<Rightarrow> p)"

definition find_assignment :: "start_input \<Rightarrow> uid \<Rightarrow> engine_state \<Rightarrow> ai_assignment option" where
  "find_assignment i agent st =
     (case si_assignment i of
        None \<Rightarrow> List.find (\<lambda>a. aw_tenant a = si_tenant i \<and> aw_agent a = Some agent)
                  (rev (sort_key aw_createdAt (es_assignments st)))
      | Some w \<Rightarrow> List.find (\<lambda>a. aw_tenant a = si_tenant i \<and> aw_id a = w \<and> aw_agent a = Some agent)
                  (es_assignments st))"

definition new_run ::
  "start_input \<Rightarrow> fresh_ids \<Rightarrow> engine_agent \<Rightarrow> uid \<Rightarrow> ai_assignment option \<Rightarrow> string \<Rightarrow> instant \<Rightarrow> agent_run" where
  "new_run i f a version w key now =
     \<lparr>rn_id = fr_run f, rn_tenant = si_tenant i, rn_agent = ag_id a, rn_agentVersion = version,
      rn_assignment = map_option aw_id w, rn_objective = Option.bind w aw_objective,
      rn_state = Queued, rn_trigger = si_trigger i, rn_key = key,
      rn_correlation = given (si_correlation i) (fr_correlation f),
      rn_attempt = 1, rn_maxAttempts = (if ag_status a = ''Active'' then DEFAULT_MAX_RUN_ATTEMPTS else 1),
      rn_retryability = None, rn_scheduledFor = si_scheduledFor i, rn_reservedAt = None, rn_startedAt = None,
      rn_finishedAt = None, rn_percent = None, rn_message = None, rn_output = None, rn_inputs = si_inputs i,
      rn_failureReason = None, rn_real = None, rn_cancelledAt = None, rn_cancelledBy = None,
      rn_deadLetteredAt = None, rn_startedBy = si_startedBy i, rn_createdAt = now, rn_updatedAt = now,
      rn_version = 1\<rparr>"

definition queued_message :: "RunTrigger \<Rightarrow> string \<Rightarrow> string" where
  "queued_message t reason = ''Queued ('' @ trigger_name t @ ''). '' @ reason"

definition same_occurrence :: string where
  "same_occurrence = ''A run for this occurrence already exists. The idempotency key matched, so this is the same occurrence rather than a new one.''"

definition job_of :: "agent_run \<Rightarrow> run_job" where
  "job_of r = \<lparr>jb_run = rn_id r, jb_tenant = rn_tenant r, jb_correlation = rn_correlation r, jb_attempt = rn_attempt r\<rparr>"

definition record_start ::
  "start_input \<Rightarrow> fresh_ids \<Rightarrow> engine_agent \<Rightarrow> agent_run \<Rightarrow> nat \<Rightarrow> string \<Rightarrow> instant \<Rightarrow> engine_state \<Rightarrow> engine_state" where
  "record_start i f a row unfinished reason now st =
     called [RunAudited (si_tenant i) (RunQueued (rn_id row) (si_startedBy i) (si_trigger i) unfinished)]
       (st\<lparr>es_runs := es_runs st @ [row],
          es_events := es_events st @
            [\<lparr>ev_tenant = si_tenant i, ev_run = rn_id row, ev_state = Some Queued, ev_percent = None,
              ev_message = slice_to 500 (queued_message (si_trigger i) reason), ev_attempt = 1, ev_at = now\<rparr>],
          es_agents := update_where (\<lambda>x. ag_id x = ag_id a) (\<lambda>x. x\<lparr>ag_lastRunAt := Some now\<rparr>) (es_agents st)\<rparr>)"

definition start ::
  "start_input \<Rightarrow> fresh_ids \<Rightarrow> instant \<Rightarrow> engine_state \<Rightarrow> run_error + (bool \<times> agent_run \<times> string \<times> engine_state)" where
  "start i f now st =
     (case List.find (\<lambda>a. ag_tenant a = si_tenant i \<and> ag_id a = si_agent i) (es_agents st) of
        None \<Rightarrow> Inl NoSuchAgent
      | Some a \<Rightarrow>
        (case ag_currentVersion a of
           None \<Rightarrow> Inl NoConfiguration
         | Some version \<Rightarrow>
           if ag_status a \<noteq> ''Active'' then Inl (AgentNotActive (ag_status a))
           else
             (let unfinished = length (unfinished_of (si_tenant i) (ag_id a) st);
                  overlap = overlapDecision (overlap_policy a) unfinished
              in if \<not> ov_start overlap \<and> \<not> ov_queue overlap then Inl (OverlapRefused (ov_reason overlap))
                 else
                   (let w = find_assignment i (ag_id a) st
                    in if si_assignment i \<noteq> None \<and> w = None then Inl NoSuchAssignment
                       else
                         (let key = runIdempotencyKey (ag_id a) (map_option aw_id w) (si_trigger i)
                                      (given (si_occurrence i) (fr_nonce f))
                          in case List.find (\<lambda>r. rn_tenant r = si_tenant i \<and> rn_key r = key) (es_runs st) of
                               Some existing \<Rightarrow> Inr (False, existing, same_occurrence, st)
                             | None \<Rightarrow>
                                 (let row = new_run i f a version w key now
                                  in Inr (True, row, ov_reason overlap,
                                       called [Published (rn_tenant row) (progress_of Queued (ov_reason overlap) now row),
                                               Enqueued (job_of row)]
                                         (record_start i f a row unfinished (ov_reason overlap) now st))))))))"

section \<open>Waiting, resuming, cancelling\<close>

definition waitFor :: "uid \<Rightarrow> uid \<Rightarrow> RunState \<Rightarrow> string \<Rightarrow> instant \<Rightarrow> engine_state \<Rightarrow> run_error + engine_state" where
  "waitFor tenant rid to reason now st = map_sum id snd (move rid tenant to (says reason) now st)"

definition resume :: "uid \<Rightarrow> uid \<Rightarrow> string \<Rightarrow> instant \<Rightarrow> engine_state \<Rightarrow> run_error + engine_state" where
  "resume tenant rid note now st =
     (case find_run tenant rid st of
        None \<Rightarrow> Inl NoSuchRun
      | Some r \<Rightarrow>
          (let to = (if mayMoveRun (rn_state r) Running then Running else Queued)
           in if \<not> mayMoveRun (rn_state r) to then Inl (CannotResume (rn_state r))
              else bind_result
                (move (rn_id r) tenant to
                   ((says (''Resumed: '' @ note))\<lparr>ch_failureReason := (if to = Queued then Some None else None)\<rparr>) now st)
                (\<lambda>(_, st1). Inr (if to = Queued
                   then called [Enqueued \<lparr>jb_run = rid, jb_tenant = tenant, jb_correlation = rn_correlation r,
                                  jb_attempt = rn_attempt r\<rparr>] st1
                   else st1))))"

definition cancel :: "uid \<Rightarrow> uid \<Rightarrow> uid \<Rightarrow> string \<Rightarrow> instant \<Rightarrow> engine_state \<Rightarrow> run_error + engine_state" where
  "cancel tenant rid actor reason now st =
     (case find_run tenant rid st of
        None \<Rightarrow> Inl NoSuchRun
      | Some r \<Rightarrow>
          if \<not> mayCancelRun (rn_state r) then Inl (AlreadyFinished (rn_state r))
          else bind_result
            (move (rn_id r) tenant Cancelled
               ((says (''Cancelled: '' @ reason))\<lparr>ch_finishedAt := Some now, ch_cancelledAt := Some now,
                  ch_cancelledBy := Some actor, ch_failureReason := Some (Some reason)\<rparr>) now st)
            (\<lambda>(_, st1). Inr (called [RunAudited tenant (RunCancelled (rn_id r) actor (rn_state r) reason)] st1)))"


section \<open>Performing\<close>

text \<open>
  \<open>RunFairnessService.mayStart\<close> and \<open>recordDeferral\<close>; a dash outside ASCII is written as a hyphen in
  the message.
\<close>

definition in_flight :: "uid \<Rightarrow> engine_state \<Rightarrow> nat" where
  "in_flight tenant st =
     length (filter (\<lambda>r. rn_tenant r = tenant \<and> rn_state r \<in> {Reserved, Running}) (es_runs st))"

definition mayStart :: "uid \<Rightarrow> engine_state \<Rightarrow> bool" where
  "mayStart tenant st =
     (case es_runLimit st of None \<Rightarrow> True
      | Some limit \<Rightarrow> 0 < concurrencySlotsFor (int (in_flight tenant st)) limit)"

definition deferral_reason :: "nat \<Rightarrow> string" where
  "deferral_reason n = ''Your company already has '' @ show_nat n
     @ '' agent runs in progress, which is the limit. This one is queued and will start as those finish - nothing has been lost, and no other company is holding your place.''"

definition recordDeferral :: "uid \<Rightarrow> uid \<Rightarrow> string \<Rightarrow> engine_state \<Rightarrow> engine_state" where
  "recordDeferral rid tenant reason st =
     st\<lparr>es_runs := update_where (\<lambda>r. rn_id r = rid \<and> rn_tenant r = tenant \<and> rn_state r = Queued)
                     (\<lambda>r. r\<lparr>rn_message := Some (slice_to 500 reason)\<rparr>) (es_runs st)\<rparr>"

definition deferOrLeaveQueued :: "run_job \<Rightarrow> engine_state \<Rightarrow> engine_state" where
  "deferOrLeaveQueued job st = (if es_durable st then called [EnqueuedAfter job 1000] st else st)"

text \<open>A job is delivered to a worker, which asks for admission first.\<close>

definition perform_admit :: "uid \<Rightarrow> run_job \<Rightarrow> engine_state \<Rightarrow> engine_state" where
  "perform_admit w job st =
     (if mayStart (jb_tenant job) st
      then st\<lparr>es_workers := es_workers st @ [\<lparr>wk_id = w, wk_job = job, wk_stage = Admitted\<rparr>]\<rparr>
      else deferOrLeaveQueued job
             (recordDeferral (jb_run job) (jb_tenant job) (deferral_reason (in_flight (jb_tenant job) st)) st))"

definition worker_leaves :: "uid \<Rightarrow> engine_state \<Rightarrow> engine_state" where
  "worker_leaves w st = st\<lparr>es_workers := filter (\<lambda>x. wk_id x \<noteq> w) (es_workers st)\<rparr>"

definition worker_reaches :: "uid \<Rightarrow> stage \<Rightarrow> engine_state \<Rightarrow> engine_state" where
  "worker_reaches w s st =
     st\<lparr>es_workers := update_where (\<lambda>x. wk_id x = w) (\<lambda>x. x\<lparr>wk_stage := s\<rparr>) (es_workers st)\<rparr>"

definition rejects :: "uid \<Rightarrow> run_job \<Rightarrow> run_error \<Rightarrow> engine_state \<Rightarrow> engine_state" where
  "rejects w job e st = worker_leaves w (called [PerformRejected job e] st)"

definition reserve_change :: "instant \<Rightarrow> run_change" where
  "reserve_change now = (says ''Reserved. Budget is set aside before any work starts.'')
     \<lparr>ch_reservedAt := Some (Some now), ch_startedAt := Some None\<rparr>"

definition running_change :: "instant \<Rightarrow> run_change" where
  "running_change now = (says ''Running.'')\<lparr>ch_startedAt := Some (Some now), ch_percent := Some 0\<rparr>"

text \<open>The first transaction: a run that is gone, finished or past reservation is left alone.\<close>

definition perform_reserve :: "uid \<Rightarrow> run_job \<Rightarrow> instant \<Rightarrow> engine_state \<Rightarrow> engine_state" where
  "perform_reserve w job now st =
     (case find_run (jb_tenant job) (jb_run job) st of
        None \<Rightarrow> worker_leaves w st
      | Some r \<Rightarrow>
          if isRunFinished (rn_state r) then worker_leaves w st
          else if \<not> mayMoveRun (rn_state r) Reserved then worker_leaves w st
          else (case move (rn_id r) (jb_tenant job) Reserved
                       (reserve_change now) now st of
                  Inl e \<Rightarrow> rejects w job e st
                | Inr (_, st1) \<Rightarrow> worker_reaches w HoldsReservation st1))"

text \<open>The second transaction stands outside the try block: its error ends the worker.\<close>

definition perform_running :: "uid \<Rightarrow> run_job \<Rightarrow> instant \<Rightarrow> engine_state \<Rightarrow> engine_state" where
  "perform_running w job now st =
     (case move (jb_run job) (jb_tenant job) Running
             (running_change now) now st of
        Inl e \<Rightarrow> rejects w job e st
      | Inr (_, st1) \<Rightarrow> worker_reaches w Executing st1)"

text \<open>What the executor threw: a \<open>RunFailure\<close>, a refusal of the budget, or anything else.\<close>

record run_failure =
  fl_message :: string
  fl_retryability :: Retryability
  fl_blocked :: "RunState option"

datatype caught = CaughtFailure run_failure | BudgetRefused string | CaughtOther string

fun as_failure :: "caught \<Rightarrow> run_failure" where
  "as_failure (CaughtFailure f) = f"
| "as_failure (BudgetRefused m) = \<lparr>fl_message = m, fl_retryability = Terminal, fl_blocked = Some BlockedByBudget\<rparr>"
| "as_failure (CaughtOther m) = \<lparr>fl_message = m, fl_retryability = Retryable, fl_blocked = None\<rparr>"

definition retried_job :: "run_job \<Rightarrow> agent_run \<Rightarrow> run_job" where
  "retried_job job r = \<lparr>jb_run = jb_run job, jb_tenant = jb_tenant job, jb_correlation = rn_correlation r,
     jb_attempt = rn_attempt r + 1\<rparr>"

definition dead_letter :: "run_failure \<Rightarrow> string \<Rightarrow> instant \<Rightarrow> run_change" where
  "dead_letter f reason now =
     (says (''Failed and dead-lettered. '' @ reason))
       \<lparr>ch_finishedAt := Some now, ch_failureReason := Some (Some (fl_message f @ '' '' @ reason)),
        ch_retryability := Some (fl_retryability f), ch_deadLetteredAt := Some now\<rparr>"

definition try_again :: "run_failure \<Rightarrow> agent_run \<Rightarrow> run_change" where
  "try_again f r =
     (says (''Attempt '' @ show_int (rn_attempt r) @ '' failed: '' @ fl_message f @ ''. Retrying.''))
       \<lparr>ch_attempt := Some (rn_attempt r + 1), ch_failureReason := Some (Some (fl_message f)),
        ch_retryability := Some (fl_retryability f), ch_reservedAt := Some None, ch_startedAt := Some None\<rparr>"

definition blocked_by :: "run_failure \<Rightarrow> run_change" where
  "blocked_by f = (says (fl_message f))\<lparr>ch_failureReason := Some (Some (fl_message f)),
     ch_retryability := Some (fl_retryability f)\<rparr>"

definition fail :: "run_job \<Rightarrow> caught \<Rightarrow> instant \<Rightarrow> engine_state \<Rightarrow> run_error + engine_state" where
  "fail job c now st =
     (let f = as_failure c
      in case find_run (jb_tenant job) (jb_run job) st of
           None \<Rightarrow> Inr st
         | Some r \<Rightarrow>
             if isRunFinished (rn_state r) then Inr st
             else (case fl_blocked f of
                 Some b \<Rightarrow> map_sum id snd (move (rn_id r) (jb_tenant job) b (blocked_by f) now st)
               | None \<Rightarrow>
                   (let (allowed, reason) = mayRetryRun (fl_retryability f) (rn_attempt r) (rn_maxAttempts r)
                    in if \<not> allowed then
                         bind_result (move (rn_id r) (jb_tenant job) Failed (dead_letter f reason now) now st)
                           (\<lambda>(_, st1). Inr (called
                              [RunAudited (jb_tenant job) (RunDeadLettered (rn_id r) (rn_attempt r) (fl_retryability f))] st1))
                       else
                         bind_result (move (rn_id r) (jb_tenant job) Retrying (try_again f r) now st)
                           (\<lambda>(_, st1). Inr (called
                              [EnqueuedAfter (retried_job job r) (retry_delay (rn_attempt r))] st1)))))"

text \<open>
  Completing: the run, the release of what waited on its step in the same transaction, then the
  announcement.  The step is the one of the assignment the run was for.
\<close>

definition completed_message :: "bool \<Rightarrow> string" where
  "completed_message live = (if live then ''Completed against a live model provider.''
     else ''Completed against the built-in mock model, not a live provider.'')"

definition completed_change :: "string \<Rightarrow> bool \<Rightarrow> instant \<Rightarrow> run_change" where
  "completed_change output live now = (says (completed_message live))\<lparr>ch_finishedAt := Some now, ch_percent := Some 100,
     ch_output := Some output, ch_real := Some live\<rparr>"

definition step_of_run :: "uid \<Rightarrow> uid \<Rightarrow> engine_state \<Rightarrow> (uid \<times> uid) option" where
  "step_of_run tenant rid st =
     Option.bind (find_run tenant rid st) (\<lambda>r.
     Option.bind (rn_assignment r) (\<lambda>w.
     Option.bind (List.find (\<lambda>a. aw_tenant a = tenant \<and> aw_id a = w) (es_assignments st)) (\<lambda>a.
     Option.bind (aw_objectiveVersion a) (\<lambda>v. map_option (\<lambda>n. (v, n)) (aw_node a)))))"

text \<open>The assignments of the objective version that have a completed run.\<close>

definition ran_assignments :: "uid \<Rightarrow> uid \<Rightarrow> engine_state \<Rightarrow> uid list" where
  "ran_assignments tenant version st =
     (let ws = map aw_id (assignments_of tenant version (es_assignments st))
      in dedupe (List.map_filter rn_assignment
           (filter (\<lambda>r. rn_tenant r = tenant \<and> rn_state r = Completed
                      \<and> (case rn_assignment r of None \<Rightarrow> False | Some w \<Rightarrow> w \<in> set ws)) (es_runs st))))"

definition release_step :: "uid \<Rightarrow> uid \<Rightarrow> uid \<Rightarrow> engine_state \<Rightarrow> released_task list \<times> engine_state" where
  "release_step tenant version node st =
     (let (released, audits, tasks) =
            releaseWithinTransaction
              \<lparr>ri_tenant = tenant, ri_objectiveVersion = version, ri_actor = None, ri_finishedNode = node\<rparr>
              (ran_assignments tenant version st) (es_tasks st) (es_assignments st) (es_approvals st)
      in (released, called (map (ReleaseAudited tenant) audits) (st\<lparr>es_tasks := tasks\<rparr>)))"

definition complete ::
  "run_job \<Rightarrow> string \<Rightarrow> bool \<Rightarrow> instant \<Rightarrow> engine_state \<Rightarrow> run_error + (released_task list \<times> engine_state)" where
  "complete job output live now st =
     bind_result
       (move (jb_run job) (jb_tenant job) Completed
          (completed_change output live now) now st)
       (\<lambda>(_, st1).
          case step_of_run (jb_tenant job) (jb_run job) st1 of
            None \<Rightarrow> Inr ([], st1)
          | Some (version, node) \<Rightarrow> Inr (release_step (jb_tenant job) version node st1))"

fun state_name :: "RunState \<Rightarrow> string" where
  "state_name Queued = ''Queued''"
| "state_name Reserved = ''Reserved''"
| "state_name Running = ''Running''"
| "state_name WaitingForHumanInput = ''WaitingForHumanInput''"
| "state_name WaitingForApproval = ''WaitingForApproval''"
| "state_name Retrying = ''Retrying''"
| "state_name Completed = ''Completed''"
| "state_name Failed = ''Failed''"
| "state_name Cancelled = ''Cancelled''"
| "state_name BlockedByBudget = ''BlockedByBudget''"
| "state_name BlockedByConnection = ''BlockedByConnection''"
| "state_name BlockedByPermission = ''BlockedByPermission''"
| "state_name BlockedByProvider = ''BlockedByProvider''"

text \<open>The messages of the errors that completing can throw; they become the reason of a retry.\<close>

fun error_message :: "run_error \<Rightarrow> string" where
  "error_message (ForbiddenMove a b) =
     ''A run cannot move from '' @ state_name a @ '' to '' @ state_name b @ ''. That is not a transition the engine permits.''"
| "error_message _ = ''There is no such run you can see.''"

datatype outcome = Produced string bool | Raised caught

definition perform_outcome :: "uid \<Rightarrow> run_job \<Rightarrow> outcome \<Rightarrow> instant \<Rightarrow> engine_state \<Rightarrow> engine_state" where
  "perform_outcome w job out now st =
     (let failed = (\<lambda>c. case fail job c now st of Inl e \<Rightarrow> rejects w job e st | Inr st1 \<Rightarrow> worker_leaves w st1)
      in case out of
           Raised c \<Rightarrow> failed c
         | Produced output live \<Rightarrow>
             (case complete job output live now st of
                Inl e \<Rightarrow> failed (CaughtOther (error_message e))
              | Inr (released, st1) \<Rightarrow> worker_leaves w (called [Announced (jb_tenant job) released] st1)))"

text \<open>One delivery performed without interruption.\<close>

definition perform :: "uid \<Rightarrow> run_job \<Rightarrow> outcome \<Rightarrow> instant \<Rightarrow> engine_state \<Rightarrow> engine_state" where
  "perform w job out now st =
     (let here = (\<lambda>s st. \<exists>x \<in> set (es_workers st). wk_id x = w \<and> wk_stage x = s);
          st1 = perform_admit w job st;
          st2 = (if here Admitted st1 then perform_reserve w job now st1 else st1);
          st3 = (if here HoldsReservation st2 then perform_running w job now st2 else st2)
      in if here Executing st3 then perform_outcome w job out now st3 else st3)"

section \<open>Reading\<close>

definition view :: "uid \<Rightarrow> uid \<Rightarrow> engine_state \<Rightarrow> run_error + (agent_run \<times> run_event list)" where
  "view tenant rid st =
     (case find_run tenant rid st of
        None \<Rightarrow> Inl NoSuchRun
      | Some r \<Rightarrow> Inr (r, sort_key ev_at (filter (\<lambda>e. ev_tenant e = tenant \<and> ev_run e = rid) (es_events st))))"

definition newest_first :: "agent_run list \<Rightarrow> agent_run list" where
  "newest_first rs = rev (sort_key rn_createdAt rs)"

definition listForAgent :: "uid \<Rightarrow> uid \<Rightarrow> nat option \<Rightarrow> engine_state \<Rightarrow> agent_run list" where
  "listForAgent tenant agent limit st =
     take (min (given limit 50) 200)
       (newest_first (filter (\<lambda>r. rn_tenant r = tenant \<and> rn_agent r = agent) (es_runs st)))"

definition unfinished_progress :: "agent_run \<Rightarrow> progress" where
  "unfinished_progress r =
     progress_of (rn_state r) (given (rn_message r) (state_name (rn_state r))) (rn_updatedAt r) r"

definition listUnfinished :: "uid \<Rightarrow> nat option \<Rightarrow> engine_state \<Rightarrow> progress list" where
  "listUnfinished tenant limit st =
     map unfinished_progress (take (min (given limit 50) 200)
       (newest_first (filter (\<lambda>r. rn_tenant r = tenant \<and> \<not> isRunFinished (rn_state r)) (es_runs st))))"

section \<open>The operations of the service\<close>

datatype run_op =
    StartRun start_input fresh_ids instant
  | Deliver uid run_job
  | ReserveStep uid instant
  | RunningStep uid instant
  | OutcomeStep uid outcome instant
  | WorkerLost uid
  | WaitFor uid uid RunState string instant
  | ResumeRun uid uid string instant
  | CancelRun uid uid uid string instant

definition worker_at :: "uid \<Rightarrow> stage \<Rightarrow> engine_state \<Rightarrow> worker option" where
  "worker_at w s st = List.find (\<lambda>x. wk_id x = w \<and> wk_stage x = s) (es_workers st)"

text \<open>A step of a worker that is not at that step does nothing.\<close>

fun run_step :: "run_op \<Rightarrow> engine_state \<Rightarrow> run_error + engine_state" where
  "run_step (StartRun i f now) st = map_sum id (\<lambda>(_, _, _, st1). st1) (start i f now st)"
| "run_step (Deliver w job) st = Inr (perform_admit w job st)"
| "run_step (ReserveStep w now) st =
     (case worker_at w Admitted st of None \<Rightarrow> Inr st | Some x \<Rightarrow> Inr (perform_reserve w (wk_job x) now st))"
| "run_step (RunningStep w now) st =
     (case worker_at w HoldsReservation st of None \<Rightarrow> Inr st | Some x \<Rightarrow> Inr (perform_running w (wk_job x) now st))"
| "run_step (OutcomeStep w out now) st =
     (case worker_at w Executing st of None \<Rightarrow> Inr st | Some x \<Rightarrow> Inr (perform_outcome w (wk_job x) out now st))"
| "run_step (WorkerLost w) st = Inr (worker_leaves w st)"
| "run_step (WaitFor tenant rid to reason now) st = waitFor tenant rid to reason now st"
| "run_step (ResumeRun tenant rid note now) st = resume tenant rid note now st"
| "run_step (CancelRun tenant rid actor reason now) st = cancel tenant rid actor reason now st"

text \<open>
  What the environment guarantees: identifiers are fresh, a failure blocks in a blocked state, and
  \<open>waitFor\<close> is called with one of its two states, as their types say.
\<close>

fun run_allowed :: "run_op \<Rightarrow> engine_state \<Rightarrow> bool" where
  "run_allowed (StartRun i f now) st \<longleftrightarrow>
     fr_run f \<notin> rn_id ` set (es_runs st) \<and> fr_run f \<notin> ev_run ` set (es_events st)"
| "run_allowed (Deliver w job) st \<longleftrightarrow> w \<notin> wk_id ` set (es_workers st)"
| "run_allowed (OutcomeStep w (Raised (CaughtFailure f)) now) st \<longleftrightarrow>
     (case fl_blocked f of None \<Rightarrow> True | Some b \<Rightarrow> isRunBlocked b)"
| "run_allowed (WaitFor tenant rid to reason now) st \<longleftrightarrow> to \<in> {WaitingForHumanInput, WaitingForApproval}"
| "run_allowed _ st \<longleftrightarrow> True"

definition no_runs_yet :: "engine_state \<Rightarrow> bool" where
  "no_runs_yet st \<longleftrightarrow> es_runs st = [] \<and> es_events st = [] \<and> es_workers st = [] \<and> es_calls st = []"

end
