(* ===== verification/Run_Invariants.thy ===== *)
theory Run_Invariants
  imports Run_Engine Services
begin

text \<open>
  What every operation of the run engine keeps: identities are unique, a row agrees with its own
  state, the recorded history of a run is a life of the abstract state machine that ends in the
  state of the row, and at most one worker holds a run.  The machine is an inductive set of
  histories; a move of the engine extends one.
\<close>

section \<open>The abstract machine\<close>

inductive run_life :: "RunState list \<Rightarrow> bool" where
  born: "run_life [Queued]"
| goes_on: "run_life h \<Longrightarrow> last h = t \<or> mayMoveRun (last h) t \<Longrightarrow> run_life (h @ [t])"

inductive_simps run_life_none [simp]: "run_life []"
inductive_cases run_life_lastE: "run_life (h @ [t])"

lemma run_life_starts: "run_life h \<Longrightarrow> h \<noteq> [] \<and> hd h = Queued"
  by (induction rule: run_life.induct) auto

section \<open>Histories\<close>

definition history :: "uid \<Rightarrow> run_event list \<Rightarrow> RunState list" where
  "history rid events = List.map_filter ev_state (filter (\<lambda>e. ev_run e = rid) events)"

lemma history_snoc: "history rid (es @ [e]) =
    history rid es @ (if ev_run e = rid then (case ev_state e of None \<Rightarrow> [] | Some s \<Rightarrow> [s]) else [])"
  by (simp add: history_def List.map_filter_def split: option.split)

lemma history_none:
  assumes "rid \<notin> ev_run ` set events"
  shows "history rid events = []"
proof -
  have "filter (\<lambda>e. ev_run e = rid) events = []" using assms by (auto simp add: filter_empty_conv)
  then show ?thesis by (simp only: history_def List.map_filter_simps)
qed

section \<open>Rows\<close>

definition row_ok :: "agent_run \<Rightarrow> bool" where
  "row_ok r \<longleftrightarrow>
     1 \<le> rn_attempt r \<and> rn_attempt r \<le> rn_maxAttempts r
     \<and> (isRunFinished (rn_state r) \<longleftrightarrow> rn_finishedAt r \<noteq> None)
     \<and> (rn_state r = Completed \<longrightarrow> rn_real r \<noteq> None)
     \<and> (rn_state r = Failed \<longrightarrow> rn_deadLetteredAt r \<noteq> None \<and> rn_failureReason r \<noteq> None)
     \<and> (rn_state r = Cancelled \<longrightarrow> rn_cancelledBy r \<noteq> None \<and> rn_failureReason r \<noteq> None)"

definition rows_ok :: "agent_run list \<Rightarrow> run_event list \<Rightarrow> bool" where
  "rows_ok runs events \<longleftrightarrow>
     distinct (map rn_id runs)
     \<and> distinct (map (\<lambda>r. (rn_tenant r, rn_key r)) runs)
     \<and> (\<forall>r \<in> set runs. row_ok r)
     \<and> (\<forall>r \<in> set runs. run_life (history (rn_id r) events) \<and> last (history (rn_id r) events) = rn_state r)
     \<and> (\<forall>e \<in> set events. \<exists>r \<in> set runs. rn_id r = ev_run e \<and> rn_tenant r = ev_tenant e)"

section \<open>One move\<close>

definition moved ::
  "uid \<Rightarrow> uid \<Rightarrow> RunState \<Rightarrow> run_change \<Rightarrow> instant \<Rightarrow> agent_run \<Rightarrow> engine_state \<Rightarrow> engine_state \<Rightarrow> bool" where
  "moved rid tenant to c now r st st1 \<longleftrightarrow>
     find_run tenant rid st = Some r \<and> (rn_state r = to \<or> mayMoveRun (rn_state r) to) \<and> reason_fits c
     \<and> (\<exists>calls. st1 = st\<lparr>es_runs := update_where (\<lambda>x. rn_id x = rid) (changed now to c) (es_runs st),
                es_events := es_events st @ [event_of tenant rid to c (rn_attempt (changed now to c r)) now],
                es_calls := es_calls st @ calls\<rparr>)"

lemma move_Inr:
  "move rid tenant to c now st = Inr (r1, st1) \<Longrightarrow> \<exists>r. r1 = changed now to c r \<and> moved rid tenant to c now r st st1"
  by (auto simp add: move_def moved_def called_def Let_def split: option.splits if_splits)

lemma moved_fields:
  assumes "moved rid tenant to c now r st st1"
  shows "es_runs st1 = update_where (\<lambda>x. rn_id x = rid) (changed now to c) (es_runs st)"
    and "es_events st1 = es_events st @ [event_of tenant rid to c (rn_attempt (changed now to c r)) now]"
    and "es_workers st1 = es_workers st" and "es_agents st1 = es_agents st"
    and "es_assignments st1 = es_assignments st" and "es_tasks st1 = es_tasks st"
    and "es_approvals st1 = es_approvals st" and "es_durable st1 = es_durable st" and "es_runLimit st1 = es_runLimit st"
  using assms by (auto simp add: moved_def)

lemma moved_called: "moved rid tenant to c now r st st1 \<Longrightarrow> moved rid tenant to c now r st (called cs st1)"
  by (auto simp add: moved_def called_def)

lemma find_run_SomeD: "find_run tenant rid st = Some r \<Longrightarrow> r \<in> set (es_runs st) \<and> rn_id r = rid \<and> rn_tenant r = tenant"
  by (auto simp add: find_run_def dest: find_SomeD)

lemma changed_simps [simp]:
  "rn_id (changed now to c r) = rn_id r" "rn_tenant (changed now to c r) = rn_tenant r"
  "rn_key (changed now to c r) = rn_key r" "rn_state (changed now to c r) = to"
  "rn_agent (changed now to c r) = rn_agent r" "rn_maxAttempts (changed now to c r) = rn_maxAttempts r"
  "rn_attempt (changed now to c r) = given (ch_attempt c) (rn_attempt r)"
  "rn_finishedAt (changed now to c r) = given_value (ch_finishedAt c) (rn_finishedAt r)"
  "rn_real (changed now to c r) = given_value (ch_real c) (rn_real r)"
  "rn_failureReason (changed now to c r) = given (ch_failureReason c) (rn_failureReason r)"
  "rn_deadLetteredAt (changed now to c r) = given_value (ch_deadLetteredAt c) (rn_deadLetteredAt r)"
  "rn_cancelledBy (changed now to c r) = given_value (ch_cancelledBy c) (rn_cancelledBy r)"
  "rn_assignment (changed now to c r) = rn_assignment r"
  by (simp_all add: changed_def)

lemma event_of_simps [simp]:
  "ev_tenant (event_of tenant rid to c k now) = tenant" "ev_run (event_of tenant rid to c k now) = rid"
  "ev_state (event_of tenant rid to c k now) = Some to"
  by (simp_all add: event_of_def)

lemma says_simps [simp]:
  "ch_attempt (says m) = None" "ch_finishedAt (says m) = None" "ch_real (says m) = None"
  "ch_failureReason (says m) = None" "ch_deadLetteredAt (says m) = None" "ch_cancelledBy (says m) = None"
  "ch_message (says m) = m"
  by (simp_all add: says_def)

lemma given_simps [simp]: "given None x = x" "given (Some y) x = y"
  "given_value None z = z" "given_value (Some y) z = Some y"
  by (simp_all add: given_def given_value_def)

lemma rows_ok_move:
  assumes ok: "rows_ok (es_runs st) (es_events st)" and m: "moved rid tenant to c now r st st1"
    and row: "row_ok (changed now to c r)"
  shows "rows_ok (es_runs st1) (es_events st1)"
proof -
  let ?runs = "update_where (\<lambda>x. rn_id x = rid) (changed now to c) (es_runs st)"
  let ?e = "event_of tenant rid to c (rn_attempt (changed now to c r)) now"
  have r: "r \<in> set (es_runs st)" "rn_id r = rid" "rn_tenant r = tenant"
    and step: "rn_state r = to \<or> mayMoveRun (rn_state r) to"
    and new: "es_runs st1 = ?runs" "es_events st1 = es_events st @ [?e]"
    using m find_run_SomeD by (auto simp add: moved_def)
  have d: "distinct (map rn_id (es_runs st))" using ok by (simp add: rows_ok_def)
  have only: "x = r" if "x \<in> set (es_runs st)" "rn_id x = rid" for x
    using distinct_key_unique [OF d that(1) r(1)] that(2) r(2) by simp
  have life: "run_life (history (rn_id x) (es_events st @ [?e]))
      \<and> last (history (rn_id x) (es_events st @ [?e])) = rn_state (if rn_id x = rid then changed now to c x else x)"
    if x: "x \<in> set (es_runs st)" for x
  proof (cases "rn_id x = rid")
    case True
    then have "run_life (history rid (es_events st))" "last (history rid (es_events st)) = rn_state r"
      using ok r x only by (auto simp add: rows_ok_def)
    then show ?thesis using step True by (auto simp add: history_snoc intro: run_life.goes_on)
  qed (use ok x in \<open>auto simp add: rows_ok_def history_snoc\<close>)
  have rows: "row_ok (if rn_id x = rid then changed now to c x else x)" if "x \<in> set (es_runs st)" for x
    using ok row only that by (auto simp add: rows_ok_def)
  have ids: "map rn_id ?runs = map rn_id (es_runs st)"
    "map (\<lambda>r. (rn_tenant r, rn_key r)) ?runs = map (\<lambda>r. (rn_tenant r, rn_key r)) (es_runs st)"
    by (simp_all add: map_update_where_same)
  have evs: "\<exists>x \<in> set ?runs. rn_id x = ev_run e \<and> rn_tenant x = ev_tenant e" if e: "e \<in> set (es_events st @ [?e])" for e
  proof -
    obtain x where x: "x \<in> set (es_runs st)" "rn_id x = ev_run e" "rn_tenant x = ev_tenant e"
    proof (cases "e = ?e")
      case True
      then show ?thesis using that [of r] r by simp
    next
      case False
      then show ?thesis using that e ok by (auto simp add: rows_ok_def)
    qed
    have "(if rn_id x = rid then changed now to c x else x) \<in> set ?runs"
      using x(1) by (simp add: set_update_where)
    then show ?thesis by (rule rev_bexI) (use x in simp)
  qed
  have rowsE: "\<exists>y \<in> set (es_runs st). x = (if rn_id y = rid then changed now to c y else y)" if "x \<in> set ?runs" for x
    using that by (auto simp add: set_update_where)
  have ids_ok: "distinct (map rn_id (es_runs st))" "distinct (map (\<lambda>r. (rn_tenant r, rn_key r)) (es_runs st))"
    using ok by (simp_all add: rows_ok_def)
  show ?thesis
    unfolding rows_ok_def new
  proof (intro conjI ballI)
    fix x assume "x \<in> set ?runs"
    then obtain y where y: "y \<in> set (es_runs st)" and x: "x = (if rn_id y = rid then changed now to c y else y)"
      using rowsE by blast
    have id: "rn_id x = rn_id y" using x by simp
    show "row_ok x" using rows [OF y] by (simp only: x)
    show "run_life (history (rn_id x) (es_events st @ [?e]))" using life [OF y] by (simp only: id)
    show "last (history (rn_id x) (es_events st @ [?e])) = rn_state x"
      using life [OF y] id x by metis
  qed (use ids ids_ok evs in \<open>simp_all only:\<close>)
qed

lemma row_ok_found: "rows_ok (es_runs st) ev \<Longrightarrow> find_run tenant rid st = Some r \<Longrightarrow> row_ok r"
  using find_run_SomeD by (fastforce simp add: rows_ok_def)


section \<open>Workers\<close>

text \<open>The states of a run that a worker holds: reserved and not yet given back.\<close>

definition held :: "RunState \<Rightarrow> bool" where
  "held s \<longleftrightarrow> s \<in> {Reserved, Running, WaitingForHumanInput, WaitingForApproval, Cancelled}"

definition holds_run :: "uid \<Rightarrow> worker \<Rightarrow> bool" where
  "holds_run rid w \<longleftrightarrow> wk_stage w \<noteq> Admitted \<and> jb_run (wk_job w) = rid"

definition workers_ok :: "agent_run list \<Rightarrow> worker list \<Rightarrow> bool" where
  "workers_ok runs ws \<longleftrightarrow>
     distinct (map wk_id ws)
     \<and> (\<forall>rid. \<forall>w \<in> set ws. \<forall>v \<in> set ws. holds_run rid w \<longrightarrow> holds_run rid v \<longrightarrow> w = v)
     \<and> (\<forall>rid. \<forall>w \<in> set ws. holds_run rid w \<longrightarrow> (\<exists>r \<in> set runs. rn_id r = rid \<and> held (rn_state r)))"

definition engine_ok :: "engine_state \<Rightarrow> bool" where
  "engine_ok st \<longleftrightarrow> rows_ok (es_runs st) (es_events st) \<and> workers_ok (es_runs st) (es_workers st)"

definition unheld :: "uid \<Rightarrow> worker list \<Rightarrow> bool" where
  "unheld rid ws \<longleftrightarrow> (\<forall>w \<in> set ws. \<not> holds_run rid w)"

lemma workers_ok_update:
  assumes ok: "workers_ok runs ws" and to: "held to \<or> unheld rid ws"
  shows "workers_ok (update_where (\<lambda>x. rn_id x = rid) (changed now to c) runs) ws"
proof -
  let ?runs = "update_where (\<lambda>x. rn_id x = rid) (changed now to c) runs"
  have "\<exists>r \<in> set ?runs. rn_id r = k \<and> held (rn_state r)" if w: "w \<in> set ws" "holds_run k w" for k w
  proof -
    obtain r where r: "r \<in> set runs" "rn_id r = k" "held (rn_state r)"
      using ok w by (auto simp add: workers_ok_def)
    have "(if rn_id r = rid then changed now to c r else r) \<in> set ?runs"
      using r(1) by (simp add: set_update_where)
    moreover have "rn_id (if rn_id r = rid then changed now to c r else r) = k
        \<and> held (rn_state (if rn_id r = rid then changed now to c r else r))"
      using to w r by (auto simp add: unheld_def)
    ultimately show ?thesis by blast
  qed
  then show ?thesis using ok by (simp only: workers_ok_def) blast
qed

lemma workers_ok_leave:
  assumes "workers_ok runs ws"
  shows "workers_ok runs (filter P ws)"
proof -
  have "distinct (map wk_id (filter P ws))" using assms by (simp add: workers_ok_def distinct_map_filter)
  then show ?thesis using assms by (simp only: workers_ok_def set_filter mem_Collect_eq) blast
qed

lemma worker_atD: "worker_at w s st = Some x \<Longrightarrow> x \<in> set (es_workers st) \<and> wk_id x = w \<and> wk_stage x = s"
  by (auto simp add: worker_at_def dest: find_SomeD)

lemma holder_state:
  assumes "workers_ok runs ws" and "x \<in> set ws" and "holds_run (rn_id r) x"
    and "distinct (map rn_id runs)" and "r \<in> set runs"
  shows "held (rn_state r)"
proof -
  obtain r' where "r' \<in> set runs" "rn_id r' = rn_id r" "held (rn_state r')"
    using assms(1-3) by (auto simp add: workers_ok_def)
  then show ?thesis using distinct_key_unique [OF assms(4)] assms(5) by metis
qed

text \<open>Once its only holder is gone nobody holds a run.\<close>

lemma unheld_after_leave:
  assumes ok: "workers_ok runs ws" and x: "x \<in> set ws" "holds_run rid x"
  shows "unheld rid (filter (\<lambda>y. wk_id y \<noteq> wk_id x) ws)"
proof -
  have "y = x" if "y \<in> set ws" "holds_run rid y" for y
    using ok x that by (auto simp add: workers_ok_def)
  then show ?thesis by (auto simp add: unheld_def)
qed

text \<open>A run that may be reserved is not held.\<close>

lemma unheld_by_state:
  assumes "workers_ok runs ws" and "distinct (map rn_id runs)" and "r \<in> set runs" and "\<not> held (rn_state r)"
  shows "unheld (rn_id r) ws"
  using assms holder_state [of runs ws _ r] by (auto simp add: unheld_def)

text \<open>A worker comes to hold a run nobody holds, or goes on holding it.\<close>

lemma workers_ok_reach:
  assumes ok: "workers_ok runs ws" and x: "x \<in> set ws"
    and free: "holds_run rid x \<or> unheld rid ws" and job: "jb_run (wk_job x) = rid"
    and r: "\<exists>r \<in> set runs. rn_id r = rid \<and> held (rn_state r)"
  shows "workers_ok runs (update_where (\<lambda>y. wk_id y = wk_id x) (\<lambda>y. y\<lparr>wk_stage := s\<rparr>) ws)"
proof -
  let ?f = "\<lambda>y. if wk_id y = wk_id x then y\<lparr>wk_stage := s\<rparr> else y"
  have ws: "update_where (\<lambda>y. wk_id y = wk_id x) (\<lambda>y. y\<lparr>wk_stage := s\<rparr>) ws = map ?f ws"
    by (simp add: update_where_def)
  have d: "distinct (map wk_id ws)" using ok by (simp add: workers_ok_def)
  have same: "y = x" if "y \<in> set ws" "wk_id y = wk_id x" for y
    using distinct_key_unique [OF d that(1) x] that(2) by simp
  have f: "?f y = (if y = x then x\<lparr>wk_stage := s\<rparr> else y)" if "y \<in> set ws" for y
    using same [OF that] by auto
  have new: "holds_run k (x\<lparr>wk_stage := s\<rparr>) \<Longrightarrow> k = rid" for k
    using job by (simp add: holds_run_def)
  have others: "\<not> holds_run rid y" if "y \<in> set ws" "y \<noteq> x" for y
    using free ok x that by (auto simp add: unheld_def workers_ok_def)
  have one: "w = v" if mem: "w \<in> set (map ?f ws)" "v \<in> set (map ?f ws)" and hold: "holds_run k w" "holds_run k v" for k w v
  proof -
    obtain w' v' where w': "w' \<in> set ws" "w = ?f w'" and v': "v' \<in> set ws" "v = ?f v'"
      using mem by auto
    show ?thesis
    proof (cases "w' = x \<or> v' = x")
      case True
      then have "k = rid" using new hold w' v' f by metis
      then have "w' = x \<and> v' = x"
        using True others hold w' v' f by metis
      then show ?thesis using w' v' by simp
    next
      case False
      then have "w = w'" "v = v'" using w' v' f by auto
      then show ?thesis using ok w'(1) v'(1) hold by (auto simp add: workers_ok_def)
    qed
  qed
  have runs: "\<exists>r \<in> set runs. rn_id r = k \<and> held (rn_state r)" if mem: "w \<in> set (map ?f ws)" and hold: "holds_run k w" for k w
  proof -
    obtain w' where w': "w' \<in> set ws" "w = ?f w'" using mem by auto
    show ?thesis
    proof (cases "w' = x")
      case True
      then show ?thesis using new r hold w' f by metis
    next
      case False
      then show ?thesis using ok w' f hold by (auto simp add: workers_ok_def)
    qed
  qed
  have "distinct (map wk_id (map ?f ws))" using d by (simp add: comp_def if_distrib [of wk_id] cong: if_cong)
  then show ?thesis unfolding ws workers_ok_def using one runs by blast
qed

end
