(* ===== verification/Run_Safety.thy ===== *)
theory Run_Safety
  imports Run_Invariants
begin

text \<open>
  Every operation of the run engine keeps the invariant and never touches what is finished: the
  operations one by one, then the whole service as a \<open>monotone_service\<close>.
\<close>

section \<open>What only grows\<close>

text \<open>The columns that never change.\<close>

definition identity :: "agent_run \<Rightarrow> uid \<times> uid \<times> uid \<times> string" where
  "identity r = (rn_id r, rn_tenant r, rn_agent r, rn_key r)"

definition run_progress :: "engine_state \<Rightarrow> engine_state \<Rightarrow> bool" where
  "run_progress st st' \<longleftrightarrow>
     prefix (map identity (es_runs st)) (map identity (es_runs st'))
     \<and> (\<forall>r \<in> set (es_runs st). isRunFinished (rn_state r) \<longrightarrow> r \<in> set (es_runs st'))
     \<and> prefix (es_events st) (es_events st')"

lemma run_progress_refl: "run_progress st st"
  by (simp add: run_progress_def)

lemma run_progress_trans: "run_progress a b \<Longrightarrow> run_progress b c \<Longrightarrow> run_progress a c"
  unfolding run_progress_def by (meson prefix_order.trans)

definition good :: "engine_state \<Rightarrow> engine_state \<Rightarrow> bool" where
  "good st st' \<longleftrightarrow> engine_ok st' \<and> run_progress st st'"

lemma good_refl: "engine_ok st \<Longrightarrow> good st st"
  by (simp add: good_def run_progress_refl)

lemma good_called: "good st st1 \<Longrightarrow> good st (called cs st1)"
  by (simp add: good_def engine_ok_def run_progress_def called_def)

lemma good_leaves: "good st st1 \<Longrightarrow> good st (worker_leaves w st1)"
  by (simp add: good_def engine_ok_def run_progress_def worker_leaves_def workers_ok_leave)

lemma good_rejects: "engine_ok st \<Longrightarrow> good st (rejects w job e st)"
  unfolding rejects_def by (intro good_leaves good_called good_refl)

lemma engine_okD:
  "engine_ok st \<Longrightarrow> distinct (map rn_id (es_runs st))"
  "engine_ok st \<Longrightarrow> rows_ok (es_runs st) (es_events st)"
  "engine_ok st \<Longrightarrow> workers_ok (es_runs st) (es_workers st)"
  by (simp_all add: engine_ok_def rows_ok_def)

lemma progress_by_move:
  assumes ids: "distinct (map rn_id (es_runs st))" and m: "moved rid tenant to c now r st st1"
    and open_run: "\<not> isRunFinished (rn_state r)"
    and runs: "es_runs st2 = es_runs st1" "es_events st2 = es_events st1"
  shows "run_progress st st2"
proof -
  have r: "r \<in> set (es_runs st)" "rn_id r = rid" using m find_run_SomeD by (auto simp add: moved_def)
  have new: "es_runs st2 = update_where (\<lambda>x. rn_id x = rid) (changed now to c) (es_runs st)"
    "prefix (es_events st) (es_events st2)"
    unfolding runs moved_fields [OF m] by simp_all
  have "x \<in> set (es_runs st2)" if x: "x \<in> set (es_runs st)" "isRunFinished (rn_state x)" for x
  proof -
    have "x \<noteq> r" using x(2) open_run by auto
    then have "rn_id x \<noteq> rid" using distinct_key_unique [OF ids x(1) r(1)] r(2) by auto
    then show ?thesis unfolding new(1) set_update_where by (intro rev_image_eqI [OF x(1)]) simp
  qed
  moreover have "map identity (es_runs st2) = map identity (es_runs st)"
    unfolding new(1) by (rule map_update_where_same) (simp add: identity_def)
  ultimately show ?thesis using new(2) by (simp only: run_progress_def) blast
qed

text \<open>A move of an open run, with the workers as they are afterwards.\<close>

lemma good_move:
  assumes ok: "engine_ok st" and m: "moved rid tenant to c now r st st1"
    and row: "row_ok (changed now to c r)" and open_run: "\<not> isRunFinished (rn_state r)"
    and ws: "workers_ok (es_runs st) ws" and to: "held to \<or> unheld rid ws"
    and st2: "es_runs st2 = es_runs st1" "es_events st2 = es_events st1" "es_workers st2 = ws"
  shows "good st st2"
proof -
  have "es_runs st1 = update_where (\<lambda>x. rn_id x = rid) (changed now to c) (es_runs st)"
    using m by (auto simp add: moved_def)
  then have "workers_ok (es_runs st2) (es_workers st2)"
    using workers_ok_update [OF ws to] st2 by simp
  moreover have "rows_ok (es_runs st2) (es_events st2)"
    using rows_ok_move [OF engine_okD(2) [OF ok] m row] st2 by simp
  ultimately show ?thesis
    using progress_by_move [OF engine_okD(1) [OF ok] m open_run st2(1,2)] by (simp add: good_def engine_ok_def)
qed

lemmas moved_workers = moved_fields(3)

lemma moved_run: "moved rid tenant to c now r st st1 \<Longrightarrow> find_run tenant rid st = Some r \<and> (rn_state r = to \<or> mayMoveRun (rn_state r) to)"
  by (auto simp add: moved_def)

lemma row_ok_moved: "engine_ok st \<Longrightarrow> moved rid tenant to c now r st st1 \<Longrightarrow> row_ok r"
  using row_ok_found [OF engine_okD(2)] moved_run by blast

lemma row_stays_open:
  "row_ok r \<Longrightarrow> \<not> isRunFinished (rn_state r) \<Longrightarrow> \<not> isRunFinished to \<Longrightarrow> ch_finishedAt c = None \<Longrightarrow> ch_attempt c = None
   \<Longrightarrow> row_ok (changed now to c r)"
  by (auto simp add: row_ok_def run_states)

section \<open>Operations of people\<close>

lemma may_end_open: "rn_state r = to \<or> mayMoveRun (rn_state r) to \<Longrightarrow> \<not> isRunFinished to \<Longrightarrow> \<not> isRunFinished (rn_state r)"
  using finished_moves_nowhere by auto

lemma good_waitFor:
  assumes ok: "engine_ok st" and w: "waitFor tenant rid to reason now st = Inr st1"
    and to: "to \<in> {WaitingForHumanInput, WaitingForApproval}"
  shows "good st st1"
proof -
  obtain r where m: "moved rid tenant to (says reason) now r st st1"
    using w by (auto simp add: waitFor_def map_sum_def split: sum.splits dest!: move_Inr)
  have open_to: "\<not> isRunFinished to" and held: "held to" using to by (auto simp add: run_states held_def)
  have open_run: "\<not> isRunFinished (rn_state r)" using moved_run [OF m] may_end_open open_to by blast
  show ?thesis
    by (rule good_move [OF ok m _ open_run engine_okD(3) [OF ok]])
      (use row_stays_open [OF row_ok_moved [OF ok m] open_run open_to] held moved_workers [OF m] in auto)
qed

lemma good_resume:
  assumes ok: "engine_ok st" and re: "resume tenant rid note now st = Inr st2"
  shows "good st st2"
proof -
  obtain r0 where f: "find_run tenant rid st = Some r0" using re by (auto simp add: resume_def split: option.splits)
  define to where "to = (if mayMoveRun (rn_state r0) Running then Running else Queued)"
  define c where "c = (says (''Resumed: '' @ note))\<lparr>ch_failureReason := (if to = Queued then Some None else None)\<rparr>"
  have may: "mayMoveRun (rn_state r0) to"
    using re unfolding resume_def f option.case Let_def to_def by (metis Inl_Inr_False)
  define q where "q = \<lparr>jb_run = rid, jb_tenant = tenant, jb_correlation = rn_correlation r0, jb_attempt = rn_attempt r0\<rparr>"
  have "resume tenant rid note now st
      = bind_result (move (rn_id r0) tenant to c now st) (\<lambda>(_, st1). Inr (if to = Queued then called [Enqueued q] st1 else st1))"
    using may by (simp only: resume_def f option.case Let_def to_def [symmetric] c_def [symmetric] q_def [symmetric]) simp
  then obtain x st1 where mv: "move (rn_id r0) tenant to c now st = Inr (x, st1)"
    and st2: "st2 = (if to = Queued then called [Enqueued q] st1 else st1)"
    using re by (cases "move (rn_id r0) tenant to c now st") auto
  have id: "rn_id r0 = rid" using find_run_SomeD [OF f] by simp
  obtain r where m: "moved rid tenant to c now r st st1" using move_Inr [OF mv] id by auto
  then have r: "r = r0" using moved_run f by fastforce
  have open_run: "\<not> isRunFinished (rn_state r)" using may r finished_moves_nowhere by blast
  have row: "row_ok (changed now to c r)"
    by (rule row_stays_open [OF row_ok_moved [OF ok m] open_run]) (auto simp add: c_def to_def run_states)
  have "held to \<or> unheld rid (es_workers st)"
  proof (cases "to = Running")
    case False
    then have "isRunBlocked (rn_state r)" using may r may_queue by (auto simp add: to_def split: if_splits)
    then have "\<not> held (rn_state r)" by (cases "rn_state r") (simp_all add: run_states held_def)
    then show ?thesis
      using unheld_by_state [OF engine_okD(3) [OF ok] engine_okD(1) [OF ok]] find_run_SomeD [OF f] r by blast
  qed (simp add: held_def)
  then have "good st st1"
    using good_move [OF ok m row open_run engine_okD(3) [OF ok]] moved_workers [OF m] by auto
  then show ?thesis unfolding st2 by (simp add: good_called)
qed

lemma good_cancel:
  assumes ok: "engine_ok st" and ca: "cancel tenant rid actor reason now st = Inr st2"
  shows "good st st2"
proof -
  obtain r0 where f: "find_run tenant rid st = Some r0" and may: "mayCancelRun (rn_state r0)"
    using ca by (auto simp add: cancel_def split: option.splits if_splits)
  let ?c = "(says (''Cancelled: '' @ reason))\<lparr>ch_finishedAt := Some now, ch_cancelledAt := Some now,
                  ch_cancelledBy := Some actor, ch_failureReason := Some (Some reason)\<rparr>"
  have id: "rn_id r0 = rid" using find_run_SomeD [OF f] by simp
  obtain x st1 where mv: "move rid tenant Cancelled ?c now st = Inr (x, st1)" and st2: "\<exists>cs. st2 = called cs st1"
    using ca f may id by (auto simp add: cancel_def result_simps)
  obtain r where m: "moved rid tenant Cancelled ?c now r st st1" using move_Inr [OF mv] by auto
  then have r: "r = r0" using moved_run f by fastforce
  have open_run: "\<not> isRunFinished (rn_state r)" using may r mayCancelRun_iff by blast
  have row: "row_ok (changed now Cancelled ?c r)"
    using row_ok_moved [OF ok m] by (auto simp add: row_ok_def run_states)
  have "good st st1"
    using good_move [OF ok m row open_run engine_okD(3) [OF ok]] moved_workers [OF m] by (auto simp add: held_def)
  then show ?thesis using st2 good_called by auto
qed

section \<open>Operations of workers\<close>

lemma same_columns:
  assumes "\<And>r. rn_id (f r) = rn_id r" and "\<And>r. rn_state (f r) = rn_state r"
    and "\<And>r. rn_tenant (f r) = rn_tenant r" and "\<And>r. rn_key (f r) = rn_key r"
    and "\<And>r. row_ok (f r) = row_ok r"
  shows "rows_ok (map f runs) events = rows_ok runs events"
    and "workers_ok (map f runs) ws = workers_ok runs ws"
  using assms by (simp_all add: rows_ok_def workers_ok_def comp_def)

definition noted :: "uid \<Rightarrow> uid \<Rightarrow> string \<Rightarrow> agent_run \<Rightarrow> agent_run" where
  "noted rid tenant m r =
     (if rn_id r = rid \<and> rn_tenant r = tenant \<and> rn_state r = Queued then r\<lparr>rn_message := Some m\<rparr> else r)"

lemma noted_simps [simp]:
  "rn_id (noted rid tenant m r) = rn_id r" "rn_state (noted rid tenant m r) = rn_state r"
  "rn_tenant (noted rid tenant m r) = rn_tenant r" "rn_agent (noted rid tenant m r) = rn_agent r" "rn_key (noted rid tenant m r) = rn_key r"
  "row_ok (noted rid tenant m r) = row_ok r"
  by (simp_all add: noted_def row_ok_def)

lemma noted_finished: "isRunFinished (rn_state r) \<Longrightarrow> noted rid tenant m r = r"
  by (auto simp add: noted_def run_states)

lemma recordDeferral_progress:
  assumes ok: "engine_ok st"
  shows "good st (recordDeferral rid tenant reason st)"
proof -
  let ?f = "noted rid tenant (slice_to 500 reason)"
  have st1: "es_runs (recordDeferral rid tenant reason st) = map ?f (es_runs st)"
      "es_events (recordDeferral rid tenant reason st) = es_events st"
      "es_workers (recordDeferral rid tenant reason st) = es_workers st"
    by (simp_all add: recordDeferral_def update_where_def noted_def)
  have "r \<in> set (map ?f (es_runs st))" if "r \<in> set (es_runs st)" "isRunFinished (rn_state r)" for r
    unfolding set_map using noted_finished [OF that(2)] by (intro rev_image_eqI [OF that(1)]) simp
  moreover have "map identity (map ?f (es_runs st)) = map identity (es_runs st)" by (simp add: identity_def)
  ultimately have "run_progress st (recordDeferral rid tenant reason st)"
    unfolding run_progress_def st1 by (metis prefix_order.refl)
  then show ?thesis using ok by (simp add: good_def engine_ok_def st1 same_columns)
qed

lemma good_admit:
  assumes ok: "engine_ok st" and fresh: "w \<notin> wk_id ` set (es_workers st)"
  shows "good st (perform_admit w job st)"
proof (cases "mayStart (jb_tenant job) st")
  case True
  have "workers_ok (es_runs st) (es_workers st @ [\<lparr>wk_id = w, wk_job = job, wk_stage = Admitted\<rparr>])"
    using engine_okD(3) [OF ok] fresh by (auto simp add: workers_ok_def holds_run_def)
  then show ?thesis using True ok by (simp add: perform_admit_def good_def engine_ok_def run_progress_def)
next
  case False
  then show ?thesis
    using recordDeferral_progress [OF ok] by (simp add: perform_admit_def deferOrLeaveQueued_def good_called)
qed

text \<open>A worker moves the run it holds, or one that nobody holds, to a held state.\<close>

lemma good_hold:
  assumes ok: "engine_ok st" and x: "x \<in> set (es_workers st)" and job: "jb_run (wk_job x) = rid"
    and m: "moved rid tenant to c now r st st1"
    and row: "row_ok (changed now to c r)" and open_run: "\<not> isRunFinished (rn_state r)" and to: "held to"
    and free: "holds_run rid x \<or> unheld rid (es_workers st)"
  shows "good st (worker_reaches (wk_id x) s st1)"
proof -
  have g: "good st st1"
    using good_move [OF ok m row open_run engine_okD(3) [OF ok]] to moved_workers [OF m] by simp
  then have ws: "workers_ok (es_runs st1) (es_workers st)"
    using moved_workers [OF m] by (simp add: good_def engine_ok_def)
  have r: "r \<in> set (es_runs st)" "rn_id r = rid" using moved_run [OF m] find_run_SomeD by blast+
  have "changed now to c r \<in> set (es_runs st1)"
    unfolding moved_fields(1) [OF m] set_update_where by (intro rev_image_eqI [OF r(1)]) (simp add: r(2))
  then have ex: "\<exists>r \<in> set (es_runs st1). rn_id r = rid \<and> held (rn_state r)"
    by (rule rev_bexI) (simp add: r(2) to)
  have "workers_ok (es_runs st1)
      (update_where (\<lambda>y. wk_id y = wk_id x) (\<lambda>y. y\<lparr>wk_stage := s\<rparr>) (es_workers st))"
    by (rule workers_ok_reach [OF ws x free job ex])
  then show ?thesis
    using g moved_workers [OF m] by (simp add: good_def engine_ok_def run_progress_def worker_reaches_def)
qed

lemma worker_changes [simp]: "ch_finishedAt (reserve_change now) = None" "ch_attempt (reserve_change now) = None"
  "ch_finishedAt (running_change now) = None" "ch_attempt (running_change now) = None"
  by (simp_all add: reserve_change_def running_change_def)

lemma good_reserve:
  assumes ok: "engine_ok st" and x: "x \<in> set (es_workers st)"
  shows "good st (perform_reserve (wk_id x) (wk_job x) now st)"
proof -
  let ?rid = "jb_run (wk_job x)" and ?tenant = "jb_tenant (wk_job x)"
  have step: "good st (worker_reaches (wk_id x) HoldsReservation st1)"
    if f: "find_run ?tenant ?rid st = Some r0" and may: "mayMoveRun (rn_state r0) Reserved"
      and mv: "move ?rid ?tenant Reserved (reserve_change now) now st = Inr (r1, st1)" for r0 r1 st1
  proof -
    obtain r where m: "moved ?rid ?tenant Reserved (reserve_change now) now r st st1"
      using move_Inr [OF mv] by blast
    have fr: "find_run ?tenant ?rid st = Some r" using moved_run [OF m] by (rule conjunct1)
    have r: "r = r0" using fr f by (simp only: option.inject)
    have r0: "r \<in> set (es_runs st)" "rn_id r = ?rid" using find_run_SomeD [OF fr] by blast+
    have from_state: "rn_state r = Queued \<or> rn_state r = Retrying" using may by (simp only: r may_reserve)
    have open_run: "\<not> isRunFinished (rn_state r)" using from_state by (auto simp add: run_states)
    have row: "row_ok (changed now Reserved (reserve_change now) r)"
      by (rule row_stays_open [OF row_ok_moved [OF ok m] open_run]) (simp_all add: run_states)
    have "\<not> held (rn_state r)" using from_state by (auto simp add: held_def)
    then have free: "unheld ?rid (es_workers st)"
      unfolding r0(2) [symmetric] by (rule unheld_by_state [OF engine_okD(3) [OF ok] engine_okD(1) [OF ok] r0(1)])
    show ?thesis by (rule good_hold [OF ok x refl m row open_run _ disjI2 [OF free]]) (simp add: held_def)
  qed
  have leaves: "good st (worker_leaves (wk_id x) st)" by (rule good_leaves [OF good_refl [OF ok]])
  show ?thesis
  proof (cases "find_run ?tenant ?rid st")
    case None
    then show ?thesis using leaves by (simp add: perform_reserve_def)
  next
    case (Some r0)
    then have id: "rn_id r0 = ?rid" using find_run_SomeD by blast
    show ?thesis
    proof (cases "isRunFinished (rn_state r0) \<or> \<not> mayMoveRun (rn_state r0) Reserved")
      case True
      then show ?thesis using leaves by (auto simp add: perform_reserve_def Some)
    next
      case False
      have unfold: "perform_reserve (wk_id x) (wk_job x) now st
          = (case move ?rid ?tenant Reserved (reserve_change now) now st of
               Inl e \<Rightarrow> rejects (wk_id x) (wk_job x) e st | Inr (_, st1) \<Rightarrow> worker_reaches (wk_id x) HoldsReservation st1)"
        using False by (simp add: perform_reserve_def Some id)
      show ?thesis
        unfolding unfold using step [OF Some] False good_rejects [OF ok]
        by (cases "move ?rid ?tenant Reserved (reserve_change now) now st") auto
    qed
  qed
qed

lemma good_running:
  assumes ok: "engine_ok st" and x: "x \<in> set (es_workers st)" and stage: "wk_stage x = HoldsReservation"
  shows "good st (perform_running (wk_id x) (wk_job x) now st)"
proof -
  let ?rid = "jb_run (wk_job x)" and ?tenant = "jb_tenant (wk_job x)"
  have step: "good st (worker_reaches (wk_id x) Executing st1)"
    if mv: "move ?rid ?tenant Running (running_change now) now st = Inr (r1, st1)" for r1 st1
  proof -
    obtain r where m: "moved ?rid ?tenant Running (running_change now) now r st st1"
      using move_Inr [OF mv] by blast
    have open_run: "\<not> isRunFinished (rn_state r)"
      using moved_run [OF m] may_end_open by (auto simp add: run_states)
    have row: "row_ok (changed now Running (running_change now) r)"
      by (rule row_stays_open [OF row_ok_moved [OF ok m] open_run]) (simp_all add: run_states)
    show ?thesis
      by (intro good_hold [OF ok x refl m row open_run]) (simp_all add: held_def holds_run_def stage)
  qed
  have unfold: "perform_running (wk_id x) (wk_job x) now st
      = (case move ?rid ?tenant Running (running_change now) now st of
           Inl e \<Rightarrow> rejects (wk_id x) (wk_job x) e st | Inr (_, st1) \<Rightarrow> worker_reaches (wk_id x) Executing st1)"
    by (simp add: perform_running_def)
  show ?thesis
    unfolding unfold using step good_rejects [OF ok]
    by (cases "move ?rid ?tenant Running (running_change now) now st") auto
qed

text \<open>The last transaction of a worker: it moves the run it holds and leaves.\<close>

lemma good_last_move:
  assumes ok: "engine_ok st" and x: "x \<in> set (es_workers st)" "wk_stage x \<noteq> Admitted"
    and m: "moved (jb_run (wk_job x)) tenant to c now r st st1"
    and row: "row_ok (changed now to c r)" and open_run: "\<not> isRunFinished (rn_state r)"
    and st2: "es_runs st2 = es_runs st1" "es_events st2 = es_events st1" "es_workers st2 = es_workers st1"
  shows "good st (worker_leaves (wk_id x) st2)"
proof (rule good_move [OF ok m row open_run])
  show "workers_ok (es_runs st) (filter (\<lambda>y. wk_id y \<noteq> wk_id x) (es_workers st))"
    using engine_okD(3) [OF ok] by (rule workers_ok_leave)
  show "held to \<or> unheld (jb_run (wk_job x)) (filter (\<lambda>y. wk_id y \<noteq> wk_id x) (es_workers st))"
    using unheld_after_leave [OF engine_okD(3) [OF ok] x(1)] x(2) by (simp add: holds_run_def)
qed (use st2 moved_workers [OF m] in \<open>simp_all add: worker_leaves_def\<close>)

end
