(* ===== verification/Run_Service.thy ===== *)
theory Run_Service
  imports Run_Safety
begin

text \<open>
  The operations that end an attempt or begin a run, and the run engine as a service: an
  interpretation of \<open>monotone_service\<close> on its operations.
\<close>

section \<open>Ending an attempt\<close>

lemma dead_letter_simps [simp]:
  "ch_finishedAt (dead_letter f reason now) = Some now" "ch_attempt (dead_letter f reason now) = None"
  "ch_deadLetteredAt (dead_letter f reason now) = Some now"
  "ch_failureReason (dead_letter f reason now) = Some (Some (fl_message f @ '' '' @ reason))"
  by (simp_all add: dead_letter_def)

lemma try_again_simps [simp]:
  "ch_finishedAt (try_again f r) = None" "ch_attempt (try_again f r) = Some (rn_attempt r + 1)"
  "ch_deadLetteredAt (try_again f r) = None"
  by (simp_all add: try_again_def)

lemma blocked_by_simps [simp]: "ch_finishedAt (blocked_by f) = None" "ch_attempt (blocked_by f) = None"
  by (simp_all add: blocked_by_def)

lemma completed_change_simps [simp]:
  "ch_finishedAt (completed_change out live now) = Some now" "ch_attempt (completed_change out live now) = None"
  "ch_real (completed_change out live now) = Some live"
  by (simp_all add: completed_change_def)

text \<open>The three moves of \<open>fail\<close>, or none.\<close>

lemma failE:
  assumes "fail job c now st = Inr st1"
  obtains (nothing) "st1 = st"
  | (blocked) r b where "moved (jb_run job) (jb_tenant job) b (blocked_by (as_failure c)) now r st st1"
      "\<not> isRunFinished (rn_state r)" "fl_blocked (as_failure c) = Some b"
  | (dead) r reason where "moved (jb_run job) (jb_tenant job) Failed (dead_letter (as_failure c) reason now) now r st st1"
      "\<not> isRunFinished (rn_state r)"
      "reason = snd (mayRetryRun (fl_retryability (as_failure c)) (rn_attempt r) (rn_maxAttempts r))"
      "\<not> fst (mayRetryRun (fl_retryability (as_failure c)) (rn_attempt r) (rn_maxAttempts r))"
  | (again) r where "moved (jb_run job) (jb_tenant job) Retrying (try_again (as_failure c) r) now r st st1"
      "\<not> isRunFinished (rn_state r)" "rn_attempt r < rn_maxAttempts r"
proof -
  let ?f = "as_failure c"
  consider (gone) "find_run (jb_tenant job) (jb_run job) st = None"
    | (there) r where "find_run (jb_tenant job) (jb_run job) st = Some r" by (cases "find_run (jb_tenant job) (jb_run job) st") auto
  then show thesis
  proof cases
    case gone
    then have "st1 = st" using assms by (simp add: fail_def Let_def)
    then show thesis by (rule nothing)
  next
    case (there r)
    note f = there
    have id: "rn_id r = jb_run job" using find_run_SomeD [OF f] by simp
    have same: "r' = r" if "moved (jb_run job) (jb_tenant job) to ch now r' st s" for r' to ch s
      using moved_run [OF that] f by simp
    show thesis
    proof (cases "isRunFinished (rn_state r)")
      case True
      then have "st1 = st" using assms by (simp add: fail_def Let_def f)
      then show thesis by (rule nothing)
    next
      case False
      show thesis
      proof (cases "fl_blocked ?f")
        case (Some b)
        then have "map_sum id snd (move (jb_run job) (jb_tenant job) b (blocked_by ?f) now st) = Inr st1"
          using assms False by (simp add: fail_def Let_def f id)
        then obtain x where "move (jb_run job) (jb_tenant job) b (blocked_by ?f) now st = Inr (x, st1)"
          by (cases "move (jb_run job) (jb_tenant job) b (blocked_by ?f) now st") auto
        then obtain r' where m: "moved (jb_run job) (jb_tenant job) b (blocked_by ?f) now r' st st1"
          using move_Inr by blast
        show thesis using blocked [OF m] same [OF m] False Some by blast
      next
        case None
        obtain ok reason where retry: "mayRetryRun (fl_retryability ?f) (rn_attempt r) (rn_maxAttempts r) = (ok, reason)"
          by (cases "mayRetryRun (fl_retryability ?f) (rn_attempt r) (rn_maxAttempts r)")
        show thesis
        proof (cases ok)
          case True
          then have "bind_result (move (jb_run job) (jb_tenant job) Retrying (try_again ?f r) now st)
                (\<lambda>(_, st1). Inr (called [EnqueuedAfter (retried_job job r) (retry_delay (rn_attempt r))] st1)) = Inr st1"
            using assms False None by (simp add: fail_def Let_def f id retry)
          then obtain x s where mv: "move (jb_run job) (jb_tenant job) Retrying (try_again ?f r) now st = Inr (x, s)"
            and st1: "st1 = called [EnqueuedAfter (retried_job job r) (retry_delay (rn_attempt r))] s"
            by (cases "move (jb_run job) (jb_tenant job) Retrying (try_again ?f r) now st") auto
          obtain r' where m: "moved (jb_run job) (jb_tenant job) Retrying (try_again ?f r) now r' st s"
            using move_Inr [OF mv] by blast
          have "rn_attempt r < rn_maxAttempts r" using retry True mayRetryRun_iff by (metis fst_conv)
          moreover have "moved (jb_run job) (jb_tenant job) Retrying (try_again ?f r) now r st st1"
            using m same [OF m] moved_called unfolding st1 by blast
          ultimately show thesis using again False by blast
        next
          case no: False
          then have "bind_result (move (jb_run job) (jb_tenant job) Failed (dead_letter ?f reason now) now st)
                (\<lambda>(_, st1). Inr (called [RunAudited (jb_tenant job)
                    (RunDeadLettered (jb_run job) (rn_attempt r) (fl_retryability ?f))] st1)) = Inr st1"
            using assms False None by (simp add: fail_def Let_def f id retry)
          then obtain x s where mv: "move (jb_run job) (jb_tenant job) Failed (dead_letter ?f reason now) now st = Inr (x, s)"
            and st1: "st1 = called [RunAudited (jb_tenant job) (RunDeadLettered (jb_run job) (rn_attempt r) (fl_retryability ?f))] s"
            by (cases "move (jb_run job) (jb_tenant job) Failed (dead_letter ?f reason now) now st") auto
          obtain r' where m: "moved (jb_run job) (jb_tenant job) Failed (dead_letter ?f reason now) now r' st s"
            using move_Inr [OF mv] by blast
          then have "moved (jb_run job) (jb_tenant job) Failed (dead_letter ?f reason now) now r st st1"
            using same [OF m] moved_called unfolding st1 by blast
          then show thesis by (rule dead) (use False no retry in simp_all)
        qed
      qed
    qed
  qed
qed

lemma good_fail:
  assumes ok: "engine_ok st" and x: "x \<in> set (es_workers st)" "wk_stage x = Executing"
    and blocked: "\<And>b. fl_blocked (as_failure c) = Some b \<Longrightarrow> isRunBlocked b"
    and fl: "fail (wk_job x) c now st = Inr st1"
  shows "good st (worker_leaves (wk_id x) st1)"
  using fl
proof (cases rule: failE)
  case nothing
  then show ?thesis using good_leaves [OF good_refl [OF ok]] by simp
next
  case m: (blocked r b)
  have "\<not> isRunFinished b" using blocked [OF m(3)] by (cases b) (simp_all add: run_states)
  then have "row_ok (changed now b (blocked_by (as_failure c)) r)"
    by (intro row_stays_open [OF row_ok_moved [OF ok m(1)] m(2)]) simp_all
  then show ?thesis using good_last_move [OF ok x(1) _ m(1) _ m(2)] x(2) by simp
next
  case m: (dead r reason)
  have "row_ok (changed now Failed (dead_letter (as_failure c) reason now) r)"
    using row_ok_moved [OF ok m(1)] by (simp add: row_ok_def run_states)
  then show ?thesis using good_last_move [OF ok x(1) _ m(1) _ m(2)] x(2) by simp
next
  case m: (again r)
  have "row_ok (changed now Retrying (try_again (as_failure c) r) r)"
    using row_ok_moved [OF ok m(1)] m(2,3) by (simp add: row_ok_def run_states)
  then show ?thesis using good_last_move [OF ok x(1) _ m(1) _ m(2)] x(2) by simp
qed

text \<open>What completing changes outside the run: the tasks and the calls.\<close>

lemma release_step_fields:
  "es_runs (snd (release_step tenant version node st)) = es_runs st"
  "es_events (snd (release_step tenant version node st)) = es_events st"
  "es_workers (snd (release_step tenant version node st)) = es_workers st"
  "es_agents (snd (release_step tenant version node st)) = es_agents st"
  by (simp_all add: release_step_def case_prod_beta called_def Let_def)

lemma completeE:
  assumes "complete job output live now st = Inr (released, st2)"
  obtains r st1 where "moved (jb_run job) (jb_tenant job) Completed (completed_change output live now) now r st st1"
    "es_runs st2 = es_runs st1" "es_events st2 = es_events st1" "es_workers st2 = es_workers st1"
    "es_agents st2 = es_agents st1"
proof -
  obtain x st1 where mv: "move (jb_run job) (jb_tenant job) Completed (completed_change output live now) now st = Inr (x, st1)"
    and st2: "(case step_of_run (jb_tenant job) (jb_run job) st1 of None \<Rightarrow> Inr ([], st1)
          | Some (version, node) \<Rightarrow> Inr (release_step (jb_tenant job) version node st1)) = (Inr (released, st2) :: run_error + _)"
    using assms unfolding complete_def
    by (cases "move (jb_run job) (jb_tenant job) Completed (completed_change output live now) now st") auto
  obtain r where m: "moved (jb_run job) (jb_tenant job) Completed (completed_change output live now) now r st st1"
    using move_Inr [OF mv] by blast
  have "st2 = st1 \<or> (\<exists>version node. st2 = snd (release_step (jb_tenant job) version node st1))"
    using st2 by (auto split: option.splits prod.splits) (metis snd_conv)
  then show thesis using that [OF m] by (auto simp add: release_step_fields)
qed

lemma good_complete:
  assumes ok: "engine_ok st" and x: "x \<in> set (es_workers st)" "wk_stage x = Executing"
    and co: "complete (wk_job x) output live now st = Inr (released, st2)"
  shows "good st (worker_leaves (wk_id x) st2)"
  using co
proof (rule completeE)
  fix r st1
  assume m: "moved (jb_run (wk_job x)) (jb_tenant (wk_job x)) Completed (completed_change output live now) now r st st1"
    and st2: "es_runs st2 = es_runs st1" "es_events st2 = es_events st1" "es_workers st2 = es_workers st1"
  have r: "r \<in> set (es_runs st)" "rn_id r = jb_run (wk_job x)" using moved_run [OF m] find_run_SomeD by blast+
  have "held (rn_state r)"
    by (rule holder_state [OF engine_okD(3) [OF ok] x(1) _ engine_okD(1) [OF ok] r(1)]) (simp add: holds_run_def x(2) r(2))
  moreover have "rn_state r = Completed \<or> rn_state r = Running"
    using moved_run [OF m] may_complete by blast
  ultimately have open_run: "\<not> isRunFinished (rn_state r)" by (auto simp add: held_def run_states)
  have "row_ok (changed now Completed (completed_change output live now) r)"
    using row_ok_moved [OF ok m] by (simp add: row_ok_def run_states)
  then show ?thesis
    using good_last_move [OF ok x(1) _ m _ open_run] x(2) st2 by simp
qed

lemma good_outcome:
  assumes ok: "engine_ok st" and x: "x \<in> set (es_workers st)" "wk_stage x = Executing"
    and blocked: "\<And>c b. out = Raised c \<Longrightarrow> fl_blocked (as_failure c) = Some b \<Longrightarrow> isRunBlocked b"
  shows "good st (perform_outcome (wk_id x) (wk_job x) out now st)"
proof -
  have failed: "good st (case fail (wk_job x) c now st of Inl e \<Rightarrow> rejects (wk_id x) (wk_job x) e st | Inr st1 \<Rightarrow> worker_leaves (wk_id x) st1)"
    if "\<And>b. fl_blocked (as_failure c) = Some b \<Longrightarrow> isRunBlocked b" for c
    using good_fail [OF ok x that] good_rejects [OF ok] by (cases "fail (wk_job x) c now st") auto
  show ?thesis
  proof (cases out)
    case (Raised c)
    then show ?thesis using failed [of c] blocked by (simp add: perform_outcome_def Let_def)
  next
    case (Produced res live)
    show ?thesis
    proof (cases "complete (wk_job x) res live now st")
      case (Inl e)
      then show ?thesis using Produced failed [of "CaughtOther (error_message e)"] by (simp add: perform_outcome_def Let_def)
    next
      case (Inr p)
      have "worker_leaves (wk_id x) (called cs s) = called cs (worker_leaves (wk_id x) s)" for cs s
        by (simp add: worker_leaves_def called_def)
      then show ?thesis
        using Produced Inr good_called [OF good_complete [OF ok x]]
        by (cases p) (simp add: perform_outcome_def Let_def)
    qed
  qed
qed


section \<open>Starting a run\<close>

lemma startE:
  assumes "start i f now st = Inr (created, r, reason, st1)"
  obtains (existing) "created = False" "st1 = st" "r \<in> set (es_runs st)"
  | (new) a version key where "created = True"
      "List.find (\<lambda>a. ag_tenant a = si_tenant i \<and> ag_id a = si_agent i) (es_agents st) = Some a"
      "ag_currentVersion a = Some version" "ag_status a = ''Active''"
      "r = new_run i f a version (find_assignment i (ag_id a) st) key now"
      "key \<notin> {rn_key x | x. x \<in> set (es_runs st) \<and> rn_tenant x = si_tenant i}"
      "unfinished_of (si_tenant i) (ag_id a) st = [] \<or> overlap_policy a \<noteq> Skip"
      "es_runs st1 = es_runs st @ [r]"
      "es_events st1 = es_events st @ [\<lparr>ev_tenant = si_tenant i, ev_run = rn_id r, ev_state = Some Queued, ev_percent = None,
              ev_message = slice_to 500 (queued_message (si_trigger i) reason), ev_attempt = 1, ev_at = now\<rparr>]"
      "es_workers st1 = es_workers st"
      "es_agents st1 = update_where (\<lambda>x. ag_id x = ag_id a) (\<lambda>x. x\<lparr>ag_lastRunAt := Some now\<rparr>) (es_agents st)"
proof -
  obtain a where a: "List.find (\<lambda>a. ag_tenant a = si_tenant i \<and> ag_id a = si_agent i) (es_agents st) = Some a"
    using assms by (auto simp add: start_def split: option.splits)
  obtain version where v: "ag_currentVersion a = Some version"
    using assms by (auto simp add: start_def a split: option.splits)
  define u where "u = length (unfinished_of (si_tenant i) (ag_id a) st)"
  define ov where "ov = overlapDecision (overlap_policy a) u"
  define w where "w = find_assignment i (ag_id a) st"
  define key where "key = runIdempotencyKey (ag_id a) (map_option aw_id w) (si_trigger i) (given (si_occurrence i) (fr_nonce f))"
  define row where "row = new_run i f a version w key now"
  have active: "ag_status a = ''Active''" and go: "ov_start ov \<or> ov_queue ov" and aw: "\<not> (si_assignment i \<noteq> None \<and> w = None)"
    using assms unfolding start_def a v option.case Let_def u_def [symmetric] ov_def [symmetric] w_def [symmetric]
    by (metis Inl_Inr_False)+
  have start: "start i f now st
      = (case List.find (\<lambda>r. rn_tenant r = si_tenant i \<and> rn_key r = key) (es_runs st) of
           Some existing \<Rightarrow> Inr (False, existing, same_occurrence, st)
         | None \<Rightarrow> Inr (True, row, ov_reason ov,
             called [Published (rn_tenant row) (progress_of Queued (ov_reason ov) now row), Enqueued (job_of row)]
               (record_start i f a row u (ov_reason ov) now st)))"
    unfolding start_def a v option.case Let_def u_def [symmetric] ov_def [symmetric] w_def [symmetric] key_def [symmetric]
      row_def [symmetric]
    using active go aw by (simp only: if_False if_True simp_thms not_not de_Morgan_conj de_Morgan_disj) auto
  show thesis
  proof (cases "List.find (\<lambda>r. rn_tenant r = si_tenant i \<and> rn_key r = key) (es_runs st)")
    case (Some e)
    then show thesis using assms existing find_SomeD [OF Some] by (simp add: start)
  next
    case None
    have fresh: "key \<notin> {rn_key x | x. x \<in> set (es_runs st) \<and> rn_tenant x = si_tenant i}"
      using find_NoneD [OF None] by auto
    have skip: "unfinished_of (si_tenant i) (ag_id a) st = [] \<or> overlap_policy a \<noteq> Skip"
      using go by (auto simp add: ov_def u_def overlapDecision_def split: if_splits OverlapPolicy.splits)
    show thesis
      by (rule new [OF _ a v active _ fresh skip])
        (use assms None in \<open>auto simp add: start row_def w_def called_def record_start_def\<close>)
  qed
qed

lemma new_run_simps [simp]:
  "rn_id (new_run i f a version w key now) = fr_run f" "rn_tenant (new_run i f a version w key now) = si_tenant i"
  "rn_agent (new_run i f a version w key now) = ag_id a" "rn_key (new_run i f a version w key now) = key"
  "rn_state (new_run i f a version w key now) = Queued" "rn_attempt (new_run i f a version w key now) = 1"
  "row_ok (new_run i f a version w key now)"
  by (simp_all add: new_run_def row_ok_def run_states DEFAULT_MAX_RUN_ATTEMPTS_def)

lemma rows_ok_new:
  assumes ok: "rows_ok runs events" and row: "row_ok r" "rn_state r = Queued"
    and fresh: "rn_id r \<notin> rn_id ` set runs" "rn_id r \<notin> ev_run ` set events"
    and key: "\<And>x. x \<in> set runs \<Longrightarrow> rn_tenant x = rn_tenant r \<Longrightarrow> rn_key x \<noteq> rn_key r"
    and e: "ev_tenant e = rn_tenant r" "ev_run e = rn_id r" "ev_state e = Some Queued"
  shows "rows_ok (runs @ [r]) (events @ [e])"
proof -
  have new: "history (rn_id r) (events @ [e]) = [Queued]"
    using history_none [OF fresh(2)] e by (simp add: history_snoc)
  have old: "history (rn_id x) (events @ [e]) = history (rn_id x) events" if "x \<in> set runs" for x
    using that fresh(1) e by (auto simp add: history_snoc)
  have "distinct (map (\<lambda>r. (rn_tenant r, rn_key r)) (runs @ [r]))"
    using ok key by (fastforce simp add: rows_ok_def)
  moreover have "\<forall>x \<in> set (runs @ [r]). run_life (history (rn_id x) (events @ [e])) \<and> last (history (rn_id x) (events @ [e])) = rn_state x"
    using ok old new row(2) by (auto simp add: rows_ok_def run_life.born)
  moreover have "\<forall>d \<in> set (events @ [e]). \<exists>x \<in> set (runs @ [r]). rn_id x = ev_run d \<and> rn_tenant x = ev_tenant d"
    using ok e by (auto simp add: rows_ok_def)
  moreover have "distinct (map rn_id (runs @ [r]))" "\<forall>x \<in> set (runs @ [r]). row_ok x"
    using ok row(1) fresh(1) by (auto simp add: rows_ok_def)
  ultimately show ?thesis unfolding rows_ok_def by (intro conjI)
qed

lemma good_start:
  assumes ok: "engine_ok st" and st: "start i f now st = Inr (created, r, reason, st1)"
    and fresh: "fr_run f \<notin> rn_id ` set (es_runs st)" "fr_run f \<notin> ev_run ` set (es_events st)"
  shows "good st st1"
  using st
proof (cases rule: startE)
  case existing
  then show ?thesis using good_refl [OF ok] by simp
next
  case (new a version key)
  have "rows_ok (es_runs st1) (es_events st1)"
    unfolding new(8,9) by (rule rows_ok_new [OF engine_okD(2) [OF ok]]) (use new(5,6) fresh in auto)
  moreover have "workers_ok (es_runs st1) (es_workers st1)"
    using engine_okD(3) [OF ok] new(8,10) by (auto simp add: workers_ok_def)
  moreover have "run_progress st st1" using new(8,9) by (simp add: run_progress_def)
  ultimately show ?thesis by (simp add: good_def engine_ok_def)
qed


section \<open>Overlap\<close>

text \<open>An agent that skips overlaps has at most one run that is not finished.\<close>

definition skips_overlaps :: "engine_state \<Rightarrow> bool" where
  "skips_overlaps st \<longleftrightarrow>
     distinct (map ag_id (es_agents st))
     \<and> (\<forall>a \<in> set (es_agents st). overlap_policy a = Skip
          \<longrightarrow> length (unfinished_of (ag_tenant a) (ag_id a) st) \<le> 1)"

lemma unfinished_state: "rn_state r \<notin> {Completed, Failed, Cancelled} \<longleftrightarrow> \<not> isRunFinished (rn_state r)"
  by (auto simp add: run_states)

lemma length_filter_le_when:
  "list_all2 (\<lambda>x y. Q y \<longrightarrow> P x) xs ys \<Longrightarrow> length (filter Q ys) \<le> length (filter P xs)"
  by (induction xs ys rule: list_all2_induct) auto

text \<open>Everything but a start keeps the agents and the number of runs.\<close>

definition no_new_run :: "engine_state \<Rightarrow> engine_state \<Rightarrow> bool" where
  "no_new_run st st' \<longleftrightarrow> es_agents st' = es_agents st \<and> length (es_runs st') = length (es_runs st)"

lemma no_new_run_refl [simp]: "no_new_run st st"
  by (simp add: no_new_run_def)

lemma no_new_run_called [simp]: "no_new_run st (called cs st1) = no_new_run st st1"
  by (simp add: no_new_run_def called_def)

lemma no_new_run_leaves [simp]: "no_new_run st (worker_leaves w st1) = no_new_run st st1"
  by (simp add: no_new_run_def worker_leaves_def)

lemma no_new_run_reaches [simp]: "no_new_run st (worker_reaches w s st1) = no_new_run st st1"
  by (simp add: no_new_run_def worker_reaches_def)

lemma no_new_run_rejects [simp]: "no_new_run st (rejects w job e st1) = no_new_run st st1"
  by (simp add: rejects_def)

lemma no_new_run_release [simp]: "no_new_run st (snd (release_step tenant v n st1)) = no_new_run st st1"
  by (simp add: no_new_run_def release_step_fields)

lemma no_new_run_move: "move rid tenant to c now st = Inr (r, st1) \<Longrightarrow> no_new_run st st1"
  by (drule move_Inr) (auto simp add: no_new_run_def moved_def)

lemma no_new_run_defer [simp]: "no_new_run st (recordDeferral rid tenant m st1) = no_new_run st st1"
  by (simp add: no_new_run_def recordDeferral_def)

lemma no_new_run_fail: "fail job c now st = Inr st1 \<Longrightarrow> no_new_run st st1"
  by (erule failE) (auto simp add: no_new_run_def moved_def)

lemma no_new_run_complete: "complete job res live now st = Inr (released, st1) \<Longrightarrow> no_new_run st st1"
  by (erule completeE) (auto simp add: no_new_run_def moved_def)

lemma no_new_run_outcome: "no_new_run st (perform_outcome w job out now st)"
  by (auto simp add: perform_outcome_def Let_def dest: no_new_run_fail no_new_run_complete split: outcome.split sum.split)

lemma no_new_run_reserve: "no_new_run st (perform_reserve w job now st)"
  by (auto simp add: perform_reserve_def dest: no_new_run_move split: option.split sum.split)

lemma no_new_run_running: "no_new_run st (perform_running w job now st)"
  by (auto simp add: perform_running_def dest: no_new_run_move split: sum.split)

lemma no_new_run_admit: "no_new_run st (perform_admit w job st)"
  by (simp add: perform_admit_def deferOrLeaveQueued_def) (simp add: no_new_run_def)

lemma no_new_run_resume: "resume tenant rid note now st = Inr st1 \<Longrightarrow> no_new_run st st1"
  by (auto simp add: resume_def Let_def result_simps dest: no_new_run_move split: option.splits if_splits)

lemma no_new_run_cancel: "cancel tenant rid actor reason now st = Inr st1 \<Longrightarrow> no_new_run st st1"
  by (auto simp add: cancel_def result_simps dest: no_new_run_move split: option.splits if_splits)

lemma no_new_run_waitFor: "waitFor tenant rid to reason now st = Inr st1 \<Longrightarrow> no_new_run st st1"
  by (auto simp add: waitFor_def map_sum_def dest: no_new_run_move split: sum.splits)

lemma unfinished_shrink:
  assumes ids: "distinct (map rn_id (es_runs st))" and pr: "run_progress st st'" and len: "length (es_runs st') = length (es_runs st)"
    and ids': "distinct (map rn_id (es_runs st'))"
  shows "length (unfinished_of t a st') \<le> length (unfinished_of t a st)"
  unfolding unfinished_of_def
proof (rule length_filter_le_when, rule list_all2_all_nthI)
  have same: "map identity (es_runs st') = map identity (es_runs st)"
    using pr len by (metis append_eq_conv_conj length_map prefix_def run_progress_def take_all order_refl)
  fix n assume n: "n < length (es_runs st)"
  then have "identity (es_runs st' ! n) = identity (es_runs st ! n)"
    using same len by (metis nth_map)
  then have eq: "rn_id (es_runs st' ! n) = rn_id (es_runs st ! n)" "rn_tenant (es_runs st' ! n) = rn_tenant (es_runs st ! n)"
    "rn_agent (es_runs st' ! n) = rn_agent (es_runs st ! n)" by (simp_all add: identity_def)
  have "es_runs st' ! n = es_runs st ! n" if "isRunFinished (rn_state (es_runs st ! n))"
  proof -
    have "es_runs st ! n \<in> set (es_runs st')" using pr n that by (auto simp add: run_progress_def)
    then show ?thesis using distinct_key_unique [OF ids'] eq(1) n len by (metis nth_mem)
  qed
  then show "rn_tenant (es_runs st' ! n) = t \<and> rn_agent (es_runs st' ! n) = a \<and> rn_state (es_runs st' ! n) \<notin> {Completed, Failed, Cancelled}
    \<longrightarrow> rn_tenant (es_runs st ! n) = t \<and> rn_agent (es_runs st ! n) = a \<and> rn_state (es_runs st ! n) \<notin> {Completed, Failed, Cancelled}"
    unfolding unfinished_state using eq by auto
qed (simp add: len)

lemma skips_kept:
  assumes ok: "engine_ok st" and sk: "skips_overlaps st" and g: "good st st'" and n: "no_new_run st st'"
  shows "skips_overlaps st'"
proof -
  have "length (unfinished_of t a st') \<le> length (unfinished_of t a st)" for t a
    using unfinished_shrink [OF engine_okD(1) [OF ok]] g n engine_okD(1) by (auto simp add: good_def no_new_run_def)
  then show ?thesis using sk n by (auto simp add: skips_overlaps_def no_new_run_def intro: order_trans)
qed

lemma skips_start:
  assumes sk: "skips_overlaps st" and st: "start i f now st = Inr (created, r, reason, st1)"
  shows "skips_overlaps st1"
  using st
proof (cases rule: startE)
  case existing
  then show ?thesis using sk by simp
next
  case (new a version key)
  have a: "a \<in> set (es_agents st)" "ag_tenant a = si_tenant i" using find_SomeD [OF new(2)] by simp_all
  have d: "distinct (map ag_id (es_agents st))" using sk by (simp add: skips_overlaps_def)
  have ids: "map ag_id (es_agents st1) = map ag_id (es_agents st)"
    unfolding new(11) by (rule map_update_where_same) simp
  have "length (unfinished_of (ag_tenant b) (ag_id b) st1) \<le> 1" if b: "b \<in> set (es_agents st1)" "overlap_policy b = Skip" for b
  proof -
    obtain b0 where b0: "b0 \<in> set (es_agents st)" and b_eq: "b = (if ag_id b0 = ag_id a then b0\<lparr>ag_lastRunAt := Some now\<rparr> else b0)"
      using b(1) unfolding new(11) set_update_where by auto
    then have same: "ag_tenant b = ag_tenant b0" "ag_id b = ag_id b0" "overlap_policy b0 = Skip"
      using b(2) by (auto simp add: overlap_policy_def split: if_splits)
    have old: "length (unfinished_of (ag_tenant b0) (ag_id b0) st) \<le> 1"
      using sk b0 same(3) by (simp add: skips_overlaps_def)
    show ?thesis
    proof (cases "ag_id b0 = ag_id a")
      case True
      then have "b0 = a" using distinct_key_unique [OF d b0 a(1)] by simp
      then have "unfinished_of (si_tenant i) (ag_id a) st = []" using new(7) same(3) by auto
      then show ?thesis using same \<open>b0 = a\<close> a(2) new(8) by (simp add: unfinished_of_def)
    next
      case False
      then show ?thesis using old same new(5,8) by (simp add: unfinished_of_def)
    qed
  qed
  then show ?thesis using d ids by (simp add: skips_overlaps_def)
qed

section \<open>The service\<close>

definition engine_inv :: "engine_state \<Rightarrow> bool" where
  "engine_inv st \<longleftrightarrow> engine_ok st \<and> skips_overlaps st"

lemma blocks_allowed:
  "run_allowed (OutcomeStep w out now) st \<Longrightarrow> out = Raised c \<Longrightarrow> fl_blocked (as_failure c) = Some b \<Longrightarrow> isRunBlocked b"
  by (cases c) (auto simp add: run_states)

lemma run_step_good:
  assumes inv: "engine_ok st" and ok: "run_allowed op st" and st: "run_step op st = Inr st'"
  shows "good st st'"
proof (cases op)
  case (StartRun i f now)
  then obtain c r m where "start i f now st = Inr (c, r, m, st')"
    using st by (cases "start i f now st") auto
  then show ?thesis using good_start [OF inv] ok StartRun by simp
next
  case (Deliver w job)
  then show ?thesis using good_admit [OF inv, of w job] ok st by auto
next
  case (ReserveStep w now)
  then show ?thesis using st good_refl [OF inv] good_reserve [OF inv] worker_atD [of w Admitted st]
    by (auto split: option.splits)
next
  case (RunningStep w now)
  then show ?thesis using st good_refl [OF inv] good_running [OF inv] worker_atD [of w HoldsReservation st]
    by (auto split: option.splits)
next
  case (OutcomeStep w out now)
  show ?thesis
  proof (cases "worker_at w Executing st")
    case None
    then show ?thesis using st OutcomeStep good_refl [OF inv] by simp
  next
    case (Some x)
    note x = worker_atD [OF Some]
    have allowed: "run_allowed (OutcomeStep w out now) st" using ok OutcomeStep by simp
    have "good st (perform_outcome (wk_id x) (wk_job x) out now st)"
      by (rule good_outcome [OF inv]) (use x blocks_allowed [OF allowed] in blast)+
    then show ?thesis using st OutcomeStep Some x by simp
  qed
next
  case (WorkerLost w)
  then show ?thesis using st good_leaves [OF good_refl [OF inv]] by auto
next
  case (WaitFor tenant rid to reason now)
  then show ?thesis using st good_waitFor [OF inv] ok by simp
next
  case (ResumeRun tenant rid words now)
  then show ?thesis using st good_resume [OF inv] by simp
next
  case (CancelRun tenant rid actor reason now)
  then show ?thesis using st good_cancel [OF inv] by simp
qed

lemma run_step_skips:
  assumes inv: "engine_ok st" "skips_overlaps st" and ok: "run_allowed op st" and st: "run_step op st = Inr st'"
  shows "skips_overlaps st'"
proof (cases "\<exists>i f now. op = StartRun i f now")
  case True
  then obtain i f now c r m where "start i f now st = Inr (c, r, m, st')"
    using st by (auto simp add: map_sum_def split: sum.splits)
  then show ?thesis by (rule skips_start [OF inv(2)])
next
  case False
  then have "no_new_run st st'"
    using st by (cases op) (auto simp add: no_new_run_admit no_new_run_reserve no_new_run_running no_new_run_outcome
        dest: no_new_run_waitFor no_new_run_resume no_new_run_cancel split: option.splits)
  then show ?thesis using skips_kept [OF inv run_step_good [OF inv(1) ok st]] by simp
qed

interpretation engine: monotone_service run_step run_allowed engine_inv run_progress
proof
  show "engine_inv st'" if "engine_inv st" "run_allowed op st" "run_step op st = Inr st'" for st op st'
    using that run_step_good run_step_skips by (auto simp add: engine_inv_def good_def)
  show "run_progress st st'" if "engine_inv st" "run_allowed op st" "run_step op st = Inr st'" for st op st'
    using that run_step_good by (auto simp add: engine_inv_def good_def)
qed (use run_progress_refl run_progress_trans in blast)+

lemma no_runs_inv: "no_runs_yet st \<Longrightarrow> distinct (map ag_id (es_agents st)) \<Longrightarrow> engine_inv st"
  by (simp add: no_runs_yet_def engine_inv_def engine_ok_def rows_ok_def workers_ok_def skips_overlaps_def unfinished_of_def)

end
