(* ===== verification/Iso_Dates.thy ===== *)
theory Iso_Dates
  imports Calendar Rendering
begin

text \<open>
  \<open>Date.prototype.toISOString\<close>: the date and time of day in UTC, four digits of year for the years
  0 to 9999 and a sign with six otherwise.  Two instants never have the same rendering.
\<close>

text \<open>\<open>BigInt\<close> of a decimal string.\<close>

definition BigInt :: "string \<Rightarrow> int option" where
  "BigInt s = signed (\<lambda>d. map_option int (read_digits 10 0 d)) uminus s"

definition pad :: "nat \<Rightarrow> nat \<Rightarrow> string" where
  "pad w n = replicate (w - length (show_nat n)) (CHR ''0'') @ show_nat n"

definition iso_year :: "int \<Rightarrow> string" where
  "iso_year y = (if 0 \<le> y \<and> y \<le> 9999 then pad 4 (nat y)
                 else (if y < 0 then ''-'' else ''+'') @ pad 6 (nat \<bar>y\<bar>))"

definition iso_time :: "int \<Rightarrow> string" where
  "iso_time ms = pad 2 (nat (ms div 3600000)) @ '':'' @ pad 2 (nat (ms div 60000 mod 60)) @ '':''
     @ pad 2 (nat (ms div 1000 mod 60)) @ ''.'' @ pad 3 (nat (ms mod 1000)) @ ''Z''"

definition toISOString :: "instant \<Rightarrow> string" where
  "toISOString t = iso_year (getUTCFullYear t) @ ''-'' @ pad 2 (nat (getUTCMonth t + 1)) @ ''-''
     @ pad 2 (nat (getUTCDate t)) @ ''T'' @ iso_time (time_within_day t)"

section \<open>Numbers are read back\<close>

lemma read_digits_zeros: "read_digits 10 0 (replicate k (CHR ''0'') @ s) = read_digits 10 0 s"
proof (induction k)
  case (Suc k)
  have "digit_value 10 (CHR ''0'') = Some 0" by (simp add: digit_value_def)
  then show ?case using Suc by simp
qed simp

lemma pad_eq_iff [simp]: "pad w m = pad w n \<longleftrightarrow> m = n"
proof
  assume "pad w m = pad w n"
  then have "read_digits 10 0 (pad w m) = read_digits 10 0 (pad w n)" by simp
  then show "m = n" by (simp add: pad_def read_digits_zeros read_show_nat)
qed simp

lemma show_nat_eq_iff [simp]: "show_nat m = show_nat n \<longleftrightarrow> m = n"
  using read_show_nat option.inject by metis

lemma show_nat_digit: "c \<in> set (show_nat n) \<Longrightarrow> c \<noteq> CHR ''-'' \<and> c \<noteq> CHR ''+''"
  using show_nat_digits digits_are_digits by blast

lemma show_int_eq_iff [simp]: "show_int i = show_int j \<longleftrightarrow> i = j"
proof
  assume eq: "show_int i = show_int j"
  have minus: "CHR ''-'' \<notin> set (show_nat n)" for n using show_nat_digit by blast
  have "i < 0 \<longleftrightarrow> CHR ''-'' \<in> set (show_int i)" for i using minus by (simp add: show_int_def)
  then have "i < 0 \<longleftrightarrow> j < 0" using eq by metis
  then show "i = j" using eq by (auto simp add: show_int_def split: if_splits)
qed simp

lemma BigInt_show_int [simp]: "BigInt (show_int i) = Some i"
proof (cases "i < 0")
  case True
  then show ?thesis by (simp add: BigInt_def show_int_def signed_def read_show_nat)
next
  case False
  then show ?thesis by (simp add: BigInt_def show_int_def signed_show_nat read_show_nat)
qed

lemma length_show_nat: "0 < w \<Longrightarrow> n < 10 ^ w \<Longrightarrow> length (show_nat n) \<le> w"
proof (induction n arbitrary: w rule: show_nat.induct)
  case (1 n)
  show ?case
  proof (cases "n < 10")
    case False
    then obtain v where w: "w = Suc v" "0 < v"
      using 1(2,3) by (cases w; cases "w = 1") auto
    have "n div 10 < 10 ^ v" using 1(3) w by (simp add: less_mult_imp_div_less mult.commute)
    then have "length (show_nat (n div 10)) \<le> v" using 1(1) False w(2) by blast
    then show ?thesis using w False by (subst show_nat.simps) simp
  qed (use 1 in \<open>subst show_nat.simps; simp\<close>)
qed

lemma length_pad: "0 < w \<Longrightarrow> n < 10 ^ w \<Longrightarrow> length (pad w n) = w"
  using length_show_nat [of w n] by (simp add: pad_def)

lemma pad_digits: "c \<in> set (pad w n) \<Longrightarrow> c \<noteq> CHR ''-'' \<and> c \<noteq> CHR ''+''"
  using show_nat_digit by (auto simp add: pad_def)

lemma iso_year_eq_iff: "iso_year x = iso_year y \<longleftrightarrow> x = y"
proof
  assume eq: "iso_year x = iso_year y"
  have no: "CHR ''-'' \<notin> set (pad w n)" "CHR ''+'' \<notin> set (pad w n)" for w n
    using pad_digits by blast+
  have "y < 0 \<longleftrightarrow> CHR ''-'' \<in> set (iso_year y)" "9999 < y \<longleftrightarrow> CHR ''+'' \<in> set (iso_year y)" for y
    using no by (auto simp add: iso_year_def)
  then have "x < 0 \<longleftrightarrow> y < 0" "9999 < x \<longleftrightarrow> 9999 < y" using eq by metis+
  then show "x = y" using eq by (auto simp add: iso_year_def split: if_splits)
qed simp

section \<open>Renderings identify instants\<close>

lemma time_parts:
  fixes ms :: int
  shows "ms = ms div 3600000 * 3600000 + ms div 60000 mod 60 * 60000 + ms div 1000 mod 60 * 1000 + ms mod 1000"
proof -
  have m: "ms div 60000 = ms div 1000 div 60" "ms div 3600000 = ms div 1000 div 60 div 60"
    by (simp_all add: zdiv_zmult2_eq [symmetric])
  define s where "s = ms div 1000"
  define k where "k = s div 60"
  have "ms = s * 1000 + ms mod 1000" "s = k * 60 + s mod 60" "k = k div 60 * 60 + k mod 60"
    by (simp_all add: s_def k_def)
  then show ?thesis unfolding m s_def [symmetric] k_def [symmetric] by linarith
qed

lemma hours_bounds:
  fixes ms :: int
  assumes "0 \<le> ms" "ms < ms_per_day"
  shows "0 \<le> ms div 3600000" "ms div 3600000 < 100"
proof -
  show "0 \<le> ms div 3600000" using assms by (simp add: pos_imp_zdiv_nonneg_iff)
  have "ms div 3600000 * 3600000 \<le> ms"
    using pos_mod_sign [of 3600000 ms] div_mult_mod_eq [of ms 3600000] by linarith
  then show "ms div 3600000 < 100" using assms unfolding ms_per_day_def by linarith
qed

lemma two_digits: "0 \<le> (a::int) \<Longrightarrow> a < 100 \<Longrightarrow> length (pad 2 (nat a)) = 2"
  by (intro length_pad) auto

lemma three_digits: "0 \<le> (a::int) \<Longrightarrow> a < 1000 \<Longrightarrow> length (pad 3 (nat a)) = 3"
  by (intro length_pad) auto

lemma sixty_bounds: "0 \<le> (x::int) mod 60" "(x::int) mod 60 < 100" "0 \<le> (x::int) mod 1000" "(x::int) mod 1000 < 1000"
  using pos_mod_bound [of 60 x] by auto

lemma length_iso_fields:
  assumes "0 \<le> ms" "ms < ms_per_day"
  shows "length (pad 2 (nat (ms div 3600000))) = 2" "length (pad 2 (nat (x mod 60))) = 2"
    "length (pad 3 (nat (x mod 1000))) = 3"
  using hours_bounds [OF assms] sixty_bounds [of x] two_digits three_digits by blast+

lemma length_iso_time:
  assumes "0 \<le> ms" "ms < ms_per_day"
  shows "length (iso_time ms) = 13"
  by (simp add: iso_time_def length_iso_fields [OF assms])

lemma iso_time_eq_iff:
  assumes a: "0 \<le> a" "a < ms_per_day" and b: "0 \<le> b" "b < ms_per_day"
  shows "iso_time a = iso_time b \<longleftrightarrow> a = b"
proof
  assume eq: "iso_time a = iso_time b"
  have "nat (a div 3600000) = nat (b div 3600000)" "nat (a div 60000 mod 60) = nat (b div 60000 mod 60)"
    "nat (a div 1000 mod 60) = nat (b div 1000 mod 60)" "nat (a mod 1000) = nat (b mod 1000)"
    using eq unfolding iso_time_def
    by (simp_all add: append_eq_append_conv length_iso_fields [OF a] length_iso_fields [OF b])
  then have "a div 3600000 = b div 3600000" "a div 60000 mod 60 = b div 60000 mod 60"
    "a div 1000 mod 60 = b div 1000 mod 60" "a mod 1000 = b mod 1000"
    using hours_bounds(1) [OF a] hours_bounds(1) [OF b] sixty_bounds by (metis eq_nat_nat_iff)+
  then show "a = b" using time_parts [of a] time_parts [of b] by metis
qed simp

lemma date_fields:
  "0 \<le> getUTCMonth t" "getUTCMonth t < 12" "1 \<le> getUTCDate t" "getUTCDate t \<le> 31"
proof -
  show m: "0 \<le> getUTCMonth t" "getUTCMonth t < 12" using year_month_correct(1,2) [OF fields_of] .
  show "1 \<le> getUTCDate t" using date_of_day_bounds(1) [OF fields_of] by (simp add: getUTCDate_def)
  have "days_in_month (getUTCFullYear t) (getUTCMonth t) \<le> 31"
    using month_cases [OF m] leap_bounds [of "getUTCFullYear t"]
    by (auto simp add: days_in_month_def month_start.simps)
  then show "getUTCDate t \<le> 31" using date_of_day_bounds(2) [OF fields_of, of t] by (simp add: getUTCDate_def)
qed

lemma instant_of_fields: "t = make_date (make_day (getUTCFullYear t) (getUTCMonth t) (getUTCDate t)) (time_within_day t)"
  using date_of_day_bounds(3) [OF fields_of [of t]] make_date_day [of t] by (simp add: getUTCDate_def)

lemma length_date_fields:
  "length (pad 2 (nat (getUTCMonth t + 1))) = 2" "length (pad 2 (nat (getUTCDate t))) = 2"
  "length (iso_time (time_within_day t)) = 13"
proof -
  show "length (pad 2 (nat (getUTCMonth t + 1))) = 2" using date_fields [of t] by (intro two_digits) auto
  show "length (pad 2 (nat (getUTCDate t))) = 2" using date_fields [of t] by (intro two_digits) auto
  show "length (iso_time (time_within_day t)) = 13" by (intro length_iso_time) simp_all
qed

lemma toISOString_eq_iff [simp]: "toISOString t = toISOString u \<longleftrightarrow> t = u"
proof
  assume eq: "toISOString t = toISOString u"
  have "iso_year (getUTCFullYear t) = iso_year (getUTCFullYear u)"
    "nat (getUTCMonth t + 1) = nat (getUTCMonth u + 1)" "nat (getUTCDate t) = nat (getUTCDate u)"
    "iso_time (time_within_day t) = iso_time (time_within_day u)"
    using eq unfolding toISOString_def by (simp_all add: append_eq_append_conv length_date_fields)
  then have "getUTCFullYear t = getUTCFullYear u" "getUTCMonth t + 1 = getUTCMonth u + 1"
    "getUTCDate t = getUTCDate u" "time_within_day t = time_within_day u"
    using date_fields(1,3) [of t] date_fields(1,3) [of u]
    by (simp_all add: iso_year_eq_iff iso_time_eq_iff nat_eq_iff eq_nat_nat_iff)
  then show "t = u" using instant_of_fields [of t] instant_of_fields [of u] by simp
qed simp

end
