(* ===== verification/Run_Scheduler.thy ===== *)
theory Run_Scheduler
  imports Schedules Run_Service Iso_Dates
begin

text \<open>
  The scheduler of \<open>src/apps/api/src/runs/run-scheduler.service.ts\<close>: a tick looks at every active agent
  with a schedule, starts what fell due since the agent's checkpoint and records the next
  occurrence as the new checkpoint.  Company settings are arguments; the time zones are a parameter.
\<close>

section \<open>The calendar of a company\<close>

record company_settings =
  st_timezone :: "string option"
  st_workingDays :: "string option"
  st_holidays :: "string option"
  st_missedRunPolicy :: "MissedRunPolicy option"

definition weekday_called :: "string \<Rightarrow> Weekday option" where
  "weekday_called s = List.find (\<lambda>d. weekday_name d = s) WEEKDAYS"

definition calendarFor :: "(string \<Rightarrow> time_zone) \<Rightarrow> company_settings \<Rightarrow> BusinessCalendar" where
  "calendarFor zones s =
     (let days = List.map_filter weekday_called (map trim (split_on (CHR '','') (given (st_workingDays s) [])))
      in \<lparr>timezone = zones (given (st_timezone s) ''Asia/Kolkata''),
          workingDays = (if days \<noteq> [] then days else DEFAULT_WORKING_DAYS),
          holidays = filter (\<lambda>d. d \<noteq> []) (map trim (split_on (CHR '','') (given (st_holidays s) [])))\<rparr>)"

section \<open>One agent\<close>

datatype tick_reason = ScheduleUnreadable cron_problem | NothingDue | Summary nat nat MissedRunPolicy nat

record scheduler_outcome =
  so_agent :: uid
  so_name :: string
  so_started :: nat
  so_skipped :: nat
  so_reason :: tick_reason

definition scheduled_start :: "uid \<Rightarrow> uid \<Rightarrow> instant \<Rightarrow> start_input" where
  "scheduled_start tenant agent moment =
     \<lparr>si_tenant = tenant, si_agent = agent, si_trigger = Scheduled, si_assignment = None, si_inputs = None,
      si_occurrence = Some (toISOString moment), si_scheduledFor = Some moment, si_startedBy = None,
      si_correlation = None\<rparr>"

text \<open>An occurrence that cannot start is logged and the next one is tried.\<close>

fun start_all ::
  "uid \<Rightarrow> uid \<Rightarrow> (instant \<Rightarrow> fresh_ids) \<Rightarrow> instant \<Rightarrow> instant list \<Rightarrow> engine_state \<Rightarrow> nat \<times> engine_state" where
  "start_all tenant agent fresh now [] st = (0, st)"
| "start_all tenant agent fresh now (m # ms) st =
     (case start (scheduled_start tenant agent m) (fresh m) now st of
        Inl e \<Rightarrow> start_all tenant agent fresh now ms st
      | Inr (created, r, reason, st1) \<Rightarrow>
          (let (n, st2) = start_all tenant agent fresh now ms st1
           in (if created then Suc n else n, st2)))"

definition recordNext :: "uid \<Rightarrow> BusinessSchedule \<Rightarrow> instant \<Rightarrow> BusinessCalendar \<Rightarrow> engine_state \<Rightarrow> engine_state" where
  "recordNext agent schedule now cal st =
     st\<lparr>es_agents := update_where (\<lambda>a. ag_id a = agent)
          (\<lambda>a. a\<lparr>ag_nextRunAt := nextOccurrenceAfter schedule now cal\<rparr>) (es_agents st)\<rparr>"

definition checkpoint :: "engine_agent \<Rightarrow> instant \<Rightarrow> instant" where
  "checkpoint a now = (case ag_nextRunAt a of None \<Rightarrow> now - 60000 | Some n \<Rightarrow> n)"

definition missed_policy :: "engine_agent \<Rightarrow> company_settings \<Rightarrow> MissedRunPolicy" where
  "missed_policy a s =
     (case ag_missedRunPolicy a of Some p \<Rightarrow> p
      | None \<Rightarrow> (case st_missedRunPolicy s of Some p \<Rightarrow> p | None \<Rightarrow> DEFAULT_MISSED_RUN_POLICY))"

definition tickAgent ::
  "uid \<Rightarrow> company_settings \<Rightarrow> BusinessCalendar \<Rightarrow> (instant \<Rightarrow> fresh_ids) \<Rightarrow> instant \<Rightarrow> engine_agent \<Rightarrow> engine_state
   \<Rightarrow> scheduler_outcome \<times> engine_state" where
  "tickAgent tenant settings cal fresh now a st =
     (let outcome = (\<lambda>started skipped reason. \<lparr>so_agent = ag_id a, so_name = ag_name a, so_started = started,
            so_skipped = skipped, so_reason = reason\<rparr>)
      in case parseBusinessCron (given (ag_scheduleCron a) []) of
           Inl problem \<Rightarrow> (outcome 0 0 (ScheduleUnreadable problem), st)
         | Inr schedule \<Rightarrow>
             (let policy = missed_policy a settings;
                  due = occurrencesBetween schedule (checkpoint a now) now cal 7
              in if due = [] then (outcome 0 0 NothingDue, recordNext (ag_id a) schedule now cal st)
                 else
                   (let toRun = applyMissedRunPolicy due policy now;
                        (started, st1) = start_all tenant (ag_id a) fresh now toRun st
                    in (outcome started (length due - length toRun)
                          (Summary (length due) (length toRun) policy started),
                        recordNext (ag_id a) schedule now cal st1))))"

section \<open>A tick\<close>

definition scheduled_agents :: "uid \<Rightarrow> engine_state \<Rightarrow> engine_agent list" where
  "scheduled_agents tenant st =
     filter (\<lambda>a. ag_tenant a = tenant \<and> ag_status a = ''Active'' \<and> ag_scheduleCron a \<noteq> None) (es_agents st)"

fun tick_each ::
  "uid \<Rightarrow> company_settings \<Rightarrow> BusinessCalendar \<Rightarrow> (uid \<Rightarrow> instant \<Rightarrow> fresh_ids) \<Rightarrow> instant \<Rightarrow> engine_agent list
   \<Rightarrow> engine_state \<Rightarrow> scheduler_outcome list \<times> engine_state" where
  "tick_each tenant settings cal fresh now [] st = ([], st)"
| "tick_each tenant settings cal fresh now (a # as) st =
     (let (o1, st1) = tickAgent tenant settings cal (fresh (ag_id a)) now a st;
          (os, st2) = tick_each tenant settings cal fresh now as st1
      in (o1 # os, st2))"

definition tick ::
  "uid \<Rightarrow> (string \<Rightarrow> time_zone) \<Rightarrow> company_settings \<Rightarrow> (uid \<Rightarrow> instant \<Rightarrow> fresh_ids) \<Rightarrow> instant \<Rightarrow> engine_state
   \<Rightarrow> scheduler_outcome list \<times> engine_state" where
  "tick tenant zones settings fresh now st =
     tick_each tenant settings (calendarFor zones settings) fresh now (scheduled_agents tenant st) st"

fun tickAllCompanies ::
  "(string \<Rightarrow> time_zone) \<Rightarrow> (uid \<Rightarrow> company_settings) \<Rightarrow> (uid \<Rightarrow> uid \<Rightarrow> instant \<Rightarrow> fresh_ids) \<Rightarrow> instant \<Rightarrow> uid list
   \<Rightarrow> engine_state \<Rightarrow> nat \<times> engine_state" where
  "tickAllCompanies zones settings fresh now [] st = (0, st)"
| "tickAllCompanies zones settings fresh now (t # ts) st =
     (let (os, st1) = tick t zones (settings t) (fresh t) now st;
          (n, st2) = tickAllCompanies zones settings fresh now ts st1
      in (sum_list (map so_started os) + n, st2))"

section \<open>Lemmas\<close>

lemma applyMissedRunPolicy_subset: "set (applyMissedRunPolicy due p now) \<subseteq> set due"
proof -
  have "last (sort due) \<in> set due" if "\<not> length due \<le> 1"
  proof -
    have "due \<noteq> []" using that by auto
    then show ?thesis by (metis last_in_set set_sort sort_eq_Nil)
  qed
  then show ?thesis
    by (simp add: applyMissedRunPolicy_def Let_def split: MissedRunPolicy.split)
qed

lemma start_all_scheduledFor:
  "start_all tenant agent fresh now ms st = (n, st') \<Longrightarrow>
   \<exists>new. es_runs st' = es_runs st @ new \<and> (\<forall>r \<in> set new. \<exists>m \<in> set ms. rn_scheduledFor r = Some m)"
proof (induction ms arbitrary: st n)
  case (Cons m ms)
  show ?case
  proof (cases "start (scheduled_start tenant agent m) (fresh m) now st")
    case (Inl e)
    then show ?thesis using Cons by fastforce
  next
    case (Inr p)
    obtain created r reason st1 where p: "p = (created, r, reason, st1)" by (cases p)
    obtain k where rest: "start_all tenant agent fresh now ms st1 = (k, st')"
      using Cons.prems Inr p by (cases "start_all tenant agent fresh now ms st1") auto
    obtain new where new: "es_runs st' = es_runs st1 @ new" "\<forall>r \<in> set new. \<exists>m \<in> set ms. rn_scheduledFor r = Some m"
      using Cons.IH [OF rest] by blast
    have "es_runs st1 = es_runs st \<or> es_runs st1 = es_runs st @ [r] \<and> rn_scheduledFor r = Some m"
      using Inr unfolding p
      by (rule startE) (auto simp add: new_run_def scheduled_start_def)
    then show ?thesis using new by (auto intro: exI [of _ "r # new"])
  qed
qed simp

text \<open>
  A tick never starts the occurrence the checkpoint holds: the search begins after it.
\<close>

lemma checkpoint_not_started:
  assumes "tickAgent tenant settings cal fresh now a st = (o1, st')" and "ag_nextRunAt a = Some n"
  shows "\<exists>new. es_runs st' = es_runs st @ new \<and> (\<forall>r \<in> set new. rn_scheduledFor r \<noteq> Some n)"
proof (cases "parseBusinessCron (given (ag_scheduleCron a) [])")
  case (Inl e)
  then show ?thesis using assms(1) by (simp add: tickAgent_def Let_def)
next
  case (Inr schedule)
  let ?due = "occurrencesBetween schedule (checkpoint a now) now cal 7"
  let ?run = "applyMissedRunPolicy ?due (missed_policy a settings) now"
  have late: "n < m" if "m \<in> set ?run" for m
    using that applyMissedRunPolicy_subset [of ?due "missed_policy a settings" now] assms(2)
    by (auto simp add: occurrencesBetween_member checkpoint_def)
  show ?thesis
  proof (cases "?due = []")
    case True
    then show ?thesis using assms(1) Inr by (auto simp add: tickAgent_def Let_def recordNext_def)
  next
    case False
    obtain k st1 where sa: "start_all tenant (ag_id a) fresh now ?run st = (k, st1)"
      by (cases "start_all tenant (ag_id a) fresh now ?run st")
    then have "es_runs st' = es_runs st1"
      using assms(1) Inr False by (auto simp add: tickAgent_def Let_def recordNext_def)
    then show ?thesis using start_all_scheduledFor [OF sa] late by (metis less_irrefl option.inject)
  qed
qed


lemma checkpoint_after_tick:
  assumes "tickAgent tenant settings cal fresh now a st = (o1, st')" and "parseBusinessCron (given (ag_scheduleCron a) []) = Inr schedule"
    and "b \<in> set (es_agents st')" and "ag_id b = ag_id a"
  shows "ag_nextRunAt b = nextOccurrenceAfter schedule now cal"
proof -
  obtain st1 where "st' = recordNext (ag_id a) schedule now cal st1"
    using assms(1,2) by (auto simp add: tickAgent_def Let_def split: if_splits prod.splits)
  then show ?thesis using assms(3,4) by (auto simp add: recordNext_def set_update_where)
qed

text \<open>A tick that comes before anything else falls due starts nothing at all.\<close>

lemma nothing_due_on_time:
  assumes tick: "tickAgent tenant settings cal fresh now a st = (o1, st')" and n: "ag_nextRunAt a = Some n"
    and cron: "parseBusinessCron (given (ag_scheduleCron a) []) = Inr schedule"
    and quiet: "\<And>m. minute_ms dvd m \<Longrightarrow> n < m \<Longrightarrow> m \<le> now \<Longrightarrow> \<not> matchesSchedule schedule m cal"
  shows "so_started o1 = 0 \<and> es_runs st' = es_runs st"
proof -
  have "occurrencesBetween schedule (checkpoint a now) now cal 7 = []"
  proof -
    have "m \<notin> set (occurrencesBetween schedule n now cal 7)" for m
      using quiet by (auto simp add: occurrencesBetween_member)
    then have "occurrencesBetween schedule n now cal 7 = []" by (meson last_in_set)
    then show ?thesis by (simp add: checkpoint_def n)
  qed
  then show ?thesis using tick cron by (auto simp add: tickAgent_def Let_def recordNext_def)
qed

end
