(* ===== verification/Run_Properties.thy ===== *)
theory Run_Properties
  imports Run_Scheduler
begin

text \<open>
  The properties of agent runs: their life, their identity, who performs them and how a failing run
  ends.  The witnesses run the service on a small company.
\<close>

section \<open>A failing run\<close>

lemma find_run_called [simp]: "find_run tenant rid (called cs st) = find_run tenant rid st"
  by (simp add: find_run_def called_def)

lemma find_run_leaves [simp]: "find_run tenant rid (worker_leaves w st) = find_run tenant rid st"
  by (simp add: find_run_def worker_leaves_def)

lemma find_run_reaches [simp]: "find_run tenant rid (worker_reaches w s st) = find_run tenant rid st"
  by (simp add: find_run_def worker_reaches_def)








section \<open>A small company\<close>

definition an_agent :: "uid \<Rightarrow> OverlapPolicy option \<Rightarrow> engine_agent" where
  "an_agent i p = \<lparr>ag_id = i, ag_tenant = ''t'', ag_name = ''Reporter'', ag_status = ''Active'',
     ag_currentVersion = Some ''v1'', ag_overlapPolicy = p, ag_missedRunPolicy = None, ag_scheduleCron = None,
     ag_lastRunAt = None, ag_nextRunAt = None\<rparr>"

definition small_company :: engine_state where
  "small_company = \<lparr>es_agents = [an_agent ''a'' None, an_agent ''b'' (Some AllowOverlap)], es_assignments = [], es_tasks = [],
     es_approvals = [], es_runs = [], es_events = [], es_workers = [], es_calls = [], es_runLimit = None,
     es_durable = True\<rparr>"

definition a_start :: "uid \<Rightarrow> string \<Rightarrow> start_input" where
  "a_start agent occurrence = \<lparr>si_tenant = ''t'', si_agent = agent, si_trigger = Manual, si_assignment = None,
     si_inputs = None, si_occurrence = Some occurrence, si_scheduledFor = None, si_startedBy = Some ''rajiv'',
     si_correlation = None\<rparr>"

definition some_ids :: "uid \<Rightarrow> fresh_ids" where
  "some_ids r = \<lparr>fr_run = r, fr_nonce = ''n'', fr_correlation = ''c''\<rparr>"

definition a_job :: "uid \<Rightarrow> run_job" where
  "a_job r = \<lparr>jb_run = r, jb_tenant = ''t'', jb_correlation = ''c'', jb_attempt = 1\<rparr>"

definition first_ops :: "run_op list" where
  "first_ops = [StartRun (a_start ''a'' ''o'') (some_ids ''r'') 1, Deliver ''w'' (a_job ''r''), ReserveStep ''w'' 2,
     RunningStep ''w'' 3, Deliver ''x'' (a_job ''r''), ReserveStep ''x'' 4, WaitFor ''t'' ''r'' WaitingForApproval ''m'' 5,
     ResumeRun ''t'' ''r'' ''n'' 6, OutcomeStep ''w'' (Produced ''done'' True) 7]"


lemma company_is_new: "no_runs_yet small_company \<and> distinct (map ag_id (es_agents small_company))"
  by code_simp


lemma first_operations_allowed: "env_ok run_allowed run_step first_ops small_company"
  by code_simp

section \<open>The life of a run\<close>



lemma run_life_reserved:
  "run_life h \<Longrightarrow> n < length h \<Longrightarrow> h ! n \<in> {Running, WaitingForHumanInput, WaitingForApproval, Completed}
   \<Longrightarrow> Reserved \<in> set (take n h)"
proof (induction arbitrary: n rule: run_life.induct)
  case (goes_on h t)
  let ?worked = "{Running, WaitingForHumanInput, WaitingForApproval, Completed}"
  have ne: "h \<noteq> []" using run_life_starts goes_on.hyps(1) by blast
  show ?case
  proof (cases "n < length h")
    case True
    then show ?thesis using goes_on.IH [of n] goes_on.prems by (simp add: nth_append)
  next
    case False
    then have n: "n = length h" and t: "t \<in> ?worked" using goes_on.prems by (auto simp add: nth_append)
    have "last h = Reserved \<or> last h \<in> ?worked"
      using goes_on.hyps(2) t by (cases "last h") (auto simp add: mayMoveRun_def)
    then have "Reserved \<in> set h"
    proof
      assume "last h = Reserved"
      then show ?thesis using ne last_in_set by metis
    next
      assume "last h \<in> ?worked"
      then have "Reserved \<in> set (take (length h - 1) h)"
        using goes_on.IH [of "length h - 1"] ne by (simp add: last_conv_nth)
      then show ?thesis by (rule in_set_takeD)
    qed
    then show ?thesis using n by simp
  qed
qed simp

text \<open>
  No run works before budget was set aside for it: in the history of every run each entry that
  is running, waiting for a person or completed comes after a reservation.
\<close>

theorem work_is_reserved_first:
  assumes "no_runs_yet st" and "distinct (map ag_id (es_agents st))" and "env_ok run_allowed run_step ops st"
    and "r \<in> set (es_runs (run_ops run_step ops st))"
    and "n < length (history (rn_id r) (es_events (run_ops run_step ops st)))"
    and "history (rn_id r) (es_events (run_ops run_step ops st)) ! n \<in> {Running, WaitingForHumanInput, WaitingForApproval, Completed}"
  shows "Reserved \<in> set (take n (history (rn_id r) (es_events (run_ops run_step ops st))))"
proof (rule run_life_reserved [OF _ assms(5,6)])
  show "run_life (history (rn_id r) (es_events (run_ops run_step ops st)))"
    using engine.run_inv [OF no_runs_inv [OF assms(1,2)] assms(3)] assms(4)
    by (simp add: engine_inv_def engine_ok_def rows_ok_def)
qed

theorem work_is_reserved_first_witness:
  "Reserved \<in> set (take 2 (history ''r'' (es_events (run_ops run_step first_ops small_company))))"
proof -
  let ?st = "run_ops run_step first_ops small_company"
  have r: "hd (es_runs ?st) \<in> set (es_runs ?st)" "rn_id (hd (es_runs ?st)) = ''r''" by code_simp+
  have n: "2 < length (history ''r'' (es_events ?st))"
    "history ''r'' (es_events ?st) ! 2 \<in> {Running, WaitingForHumanInput, WaitingForApproval, Completed}"
    by code_simp+
  show ?thesis
    using work_is_reserved_first [OF conjunct1 [OF company_is_new] conjunct2 [OF company_is_new] first_operations_allowed r(1),
        unfolded r(2), OF n] .
qed



text \<open>
  C37. The columns of a run agree with its state after any operations: the attempt lies between one
  and the maximum, exactly the finished runs have an end, a completed run says whether a live model
  produced it, a failed one is dead-lettered with a reason, a cancelled one names who and why.
\<close>

theorem run_rows_are_consistent:
  assumes "no_runs_yet st" and "distinct (map ag_id (es_agents st))" and "env_ok run_allowed run_step ops st"
    and "r \<in> set (es_runs (run_ops run_step ops st))"
  shows "1 \<le> rn_attempt r \<and> rn_attempt r \<le> rn_maxAttempts r
     \<and> (isRunFinished (rn_state r) \<longleftrightarrow> rn_finishedAt r \<noteq> None)
     \<and> (rn_state r = Completed \<longrightarrow> rn_real r \<noteq> None)
     \<and> (rn_state r = Failed \<longrightarrow> rn_deadLetteredAt r \<noteq> None \<and> rn_failureReason r \<noteq> None)
     \<and> (rn_state r = Cancelled \<longrightarrow> rn_cancelledBy r \<noteq> None \<and> rn_failureReason r \<noteq> None)"
  using engine.run_inv [OF no_runs_inv [OF assms(1,2)] assms(3)] assms(4)
  by (simp add: engine_inv_def engine_ok_def rows_ok_def row_ok_def)

theorem run_rows_are_consistent_witness:
  "rn_real (hd (es_runs (run_ops run_step first_ops small_company))) = Some True
   \<and> rn_attempt (hd (es_runs (run_ops run_step first_ops small_company))) \<le> 3"
proof -
  let ?r = "hd (es_runs (run_ops run_step first_ops small_company))"
  have r: "?r \<in> set (es_runs (run_ops run_step first_ops small_company))" "rn_maxAttempts ?r = 3" "rn_real ?r = Some True"
    by code_simp+
  show ?thesis
    using run_rows_are_consistent [OF conjunct1 [OF company_is_new] conjunct2 [OF company_is_new] first_operations_allowed r(1)] r
    by simp
qed

section \<open>Who performs a run\<close>




section \<open>One run per occurrence\<close>

text \<open>
  C12. One occurrence is one run: no two runs of a company share an idempotency key, and starting an
  occurrence whose key is taken creates nothing and returns the run there is.
\<close>

theorem one_run_per_occurrence:
  assumes "no_runs_yet st0" and "distinct (map ag_id (es_agents st0))" and "env_ok run_allowed run_step ops st0"
    and "st = run_ops run_step ops st0"
    and "start i f now st = Inr (created, r, reason, st1)"
    and "x \<in> set (es_runs st)" and "rn_tenant x = rn_tenant r" and "rn_key x = rn_key r"
  shows "\<not> created \<and> r = x \<and> st1 = st"
  using assms(5)
proof (cases rule: startE)
  case existing
  have keys: "distinct (map (\<lambda>r. (rn_tenant r, rn_key r)) (es_runs st))"
    using engine.run_inv [OF no_runs_inv [OF assms(1,2)] assms(3)] assms(4)
    by (simp add: engine_inv_def engine_ok_def rows_ok_def)
  then show ?thesis using distinct_key_unique [OF keys assms(6) existing(3)] assms(7,8) existing by simp
next
  case (new a version key)
  then show ?thesis using assms(6,7,8) by auto
qed

theorem one_run_per_occurrence_witness:
  "\<not> fst (projr (start (a_start ''a'' ''o'') (some_ids ''z'') 99 (run_ops run_step first_ops small_company)))"
proof -
  let ?st = "run_ops run_step first_ops small_company"
  let ?res = "projr (start (a_start ''a'' ''o'') (some_ids ''z'') 99 ?st)"
  have "isl (start (a_start ''a'' ''o'') (some_ids ''z'') 99 ?st) = False" by code_simp
  then have st: "start (a_start ''a'' ''o'') (some_ids ''z'') 99 ?st = Inr (fst ?res, fst (snd ?res), fst (snd (snd ?res)), snd (snd (snd ?res)))"
    by (cases "start (a_start ''a'' ''o'') (some_ids ''z'') 99 ?st") auto
  have x: "hd (es_runs ?st) \<in> set (es_runs ?st)" "rn_tenant (hd (es_runs ?st)) = rn_tenant (fst (snd ?res))"
    "rn_key (hd (es_runs ?st)) = rn_key (fst (snd ?res))"
    by code_simp+
  show ?thesis
    using one_run_per_occurrence [OF conjunct1 [OF company_is_new] conjunct2 [OF company_is_new] first_operations_allowed refl st x]
    by simp
qed

text \<open>
  The key tells occurrences apart: two keys agree only if the agent, the assignment, the trigger
  and the occurrence all agree, for identifiers without a colon.
\<close>

theorem key_identifies_the_occurrence:
  assumes "plain_id a" and "plain_id b"
    and "p = None \<or> plain_id (the p)" and "q = None \<or> plain_id (the q)"
  shows "runIdempotencyKey a p t x = runIdempotencyKey b q u y \<longleftrightarrow> a = b \<and> p = q \<and> t = u \<and> x = y"
  by (rule runIdempotencyKey_eq) (use assms in auto)

theorem key_identifies_the_occurrence_witness:
  "runIdempotencyKey ''a'' None Manual ''x:y'' \<noteq> runIdempotencyKey ''a'' (Some ''b'') Manual ''y''"
  using key_identifies_the_occurrence [of "''a''" "''a''" None "Some ''b''" Manual "''x:y''" Manual "''y''"]
  by (simp add: plain_id_def)

text \<open>
  An agent that skips overlaps, which is the default, never has two unfinished runs.
\<close>

theorem skipping_agents_run_alone:
  assumes "no_runs_yet st" and "distinct (map ag_id (es_agents st))" and "env_ok run_allowed run_step ops st"
    and "a \<in> set (es_agents (run_ops run_step ops st))" and "overlap_policy a = Skip"
  shows "length (unfinished_of (ag_tenant a) (ag_id a) (run_ops run_step ops st)) \<le> 1"
  using engine.run_inv [OF no_runs_inv [OF assms(1,2)] assms(3)] assms(4,5)
  by (simp add: engine_inv_def skips_overlaps_def)

definition pressing_twice :: "run_op list" where
  "pressing_twice = [StartRun (a_start ''a'' ''1'') (some_ids ''r'') 1, StartRun (a_start ''a'' ''2'') (some_ids ''s'') 2]"

theorem skipping_agents_run_alone_witness:
  "length (unfinished_of ''t'' ''a'' (run_ops run_step pressing_twice small_company)) \<le> 1"
proof -
  let ?st = "run_ops run_step pressing_twice small_company"
  have allowed: "env_ok run_allowed run_step pressing_twice small_company" by code_simp
  have a: "hd (es_agents ?st) \<in> set (es_agents ?st)" "overlap_policy (hd (es_agents ?st)) = Skip"
    "ag_tenant (hd (es_agents ?st)) = ''t''" "ag_id (hd (es_agents ?st)) = ''a''"
    by code_simp+
  show ?thesis
    using skipping_agents_run_alone [OF conjunct1 [OF company_is_new] conjunct2 [OF company_is_new] allowed a(1,2)] a(3,4) by simp
qed

section \<open>How a failing run ends\<close>



text \<open>
  The wait before a retry is at least thirty seconds, at most fifteen minutes, and never shorter
  than the wait before an earlier one.
\<close>

theorem retry_delays_back_off:
  "30000 \<le> retry_delay m \<and> retry_delay m \<le> 900000 \<and> retry_delay m \<le> retry_delay (m + int k)"
  using retry_delay_bounds retry_delay_mono [of m "m + int k"] by simp

end
