(* ===== verification/Work_Properties.thy ===== *)
theory Work_Properties
  imports Run_Scheduler
begin

text \<open>
  The properties of what decides when work starts: schedules and the scheduler, the fair order and
  the admission of queued runs, and the release of waiting tasks.
\<close>

section \<open>Schedules\<close>

definition mornings :: AgentSchedule where
  "mornings = \<lparr>sc_weekdays = [Friday, Monday, Friday], sc_hour = 9, sc_minute = 5\<rparr>"

text \<open>
  C38. A schedule reads back: the expression written for a schedule without problems is read by the
  editor as that schedule, its days each once in the order of the week.
\<close>

theorem schedule_reads_back:
  assumes "agentScheduleProblems s = []"
  shows "scheduleFromBusinessCron (agentScheduleToBusinessCron s)
         = Some (s\<lparr>sc_weekdays := days_in_order (sc_weekdays s)\<rparr>)
    \<and> set (days_in_order (sc_weekdays s)) = set (sc_weekdays s)"
  using editor_round_trip [OF assms] set_days_in_order by blast

theorem schedule_reads_back_witness:
  "scheduleFromBusinessCron (agentScheduleToBusinessCron mornings)
   = Some \<lparr>sc_weekdays = [Monday, Friday], sc_hour = 9, sc_minute = 5\<rparr>"
  using schedule_reads_back [of mornings]
  by (simp add: mornings_def agentScheduleProblems_def days_in_order_def WEEKDAYS_def)

text \<open>
  The editor and the engine agree: whatever expression the editor shows as a schedule, the
  engine's parser reads as the same minute, hour and days.
\<close>

theorem editor_agrees_with_engine:
  assumes "scheduleFromBusinessCron e = Some s"
  shows "parseBusinessCron e = Inr \<lparr>bs_minutes = [sc_minute s], bs_hours = [sc_hour s], bs_weekdays = sc_weekdays s\<rparr>"
  by (rule editor_reads_as_engine [OF assms])

theorem editor_agrees_with_engine_witness:
  "parseBusinessCron (agentScheduleToBusinessCron mornings)
   = Inr \<lparr>bs_minutes = [5], bs_hours = [9], bs_weekdays = [Monday, Friday]\<rparr>"
proof -
  have "scheduleFromBusinessCron (agentScheduleToBusinessCron mornings)
      = Some (mornings\<lparr>sc_weekdays := days_in_order (sc_weekdays mornings)\<rparr>)"
    by (rule editor_round_trip) (simp add: mornings_def agentScheduleProblems_def)
  from editor_agrees_with_engine [OF this] show ?thesis
    by (simp add: mornings_def days_in_order_def WEEKDAYS_def)
qed

text \<open>
  The search for occurrences is exact: it lists, in order and each once, the whole minutes after
  the start and up to the end that match the schedule and the company's calendar, within the bound
  in days; and the next occurrence is the first such minute after its start.
\<close>

theorem occurrences_are_exact:
  "(\<forall>m. m \<in> set (occurrencesBetween s since to cal maxDays) \<longleftrightarrow>
        minute_ms dvd m \<and> since < m \<and> m \<le> min to (since + maxDays * day_ms) \<and> matchesSchedule s m cal)
   \<and> sorted (occurrencesBetween s since to cal maxDays) \<and> distinct (occurrencesBetween s since to cal maxDays)
   \<and> (nextOccurrenceAfter s since cal = Some n \<longrightarrow>
        minute_ms dvd n \<and> since < n \<and> matchesSchedule s n cal
        \<and> (\<forall>m. minute_ms dvd m \<and> since < m \<and> m < n \<longrightarrow> \<not> matchesSchedule s m cal))"
  using occurrencesBetween_member [of _ s since to cal maxDays] nextOccurrenceAfter_SomeD [of s since cal n]
    minutes_until_sorted by (auto simp add: occurrencesBetween_def [of s since to])

definition greenwich :: time_zone where
  "greenwich = \<lparr>tz_weekday = (\<lambda>t. WEEKDAYS ! nat ((t div day_ms + 4) mod 7)), tz_date = toISOString,
     tz_hour = (\<lambda>t. t div 3600000 mod 24), tz_minute = (\<lambda>t. t div 60000 mod 60)\<rparr>"

definition office :: BusinessCalendar where
  "office = \<lparr>timezone = greenwich, workingDays = DEFAULT_WORKING_DAYS, holidays = []\<rparr>"

theorem occurrences_are_exact_witness:
  "300000 \<in> set (occurrencesBetween \<lparr>bs_minutes = [5], bs_hours = [0], bs_weekdays = []\<rparr> 0 600000 office 7)"
proof -
  let ?s = "\<lparr>bs_minutes = [5], bs_hours = [0], bs_weekdays = []\<rparr>"
  have "matchesSchedule ?s 300000 office" by code_simp
  then show ?thesis
    using occurrences_are_exact [of ?s 0 600000 office 7 0] by (simp add: minute_ms_def day_ms_def)
qed

text \<open>
  The scheduler skips what it planned: a tick never starts the occurrence it recorded as the
  agent's next one, and when it comes before anything else falls due it starts nothing and plans
  past the present.
\<close>

theorem planned_occurrence_is_skipped:
  assumes "tickAgent tenant settings cal fresh now a st = (o1, st')" and "ag_nextRunAt a = Some n"
    and "parseBusinessCron (given (ag_scheduleCron a) []) = Inr schedule"
    and "\<forall>m. minute_ms dvd m \<and> n < m \<and> m \<le> now \<longrightarrow> \<not> matchesSchedule schedule m cal"
  shows "so_started o1 = 0 \<and> es_runs st' = es_runs st
    \<and> (\<forall>b \<in> set (es_agents st'). ag_id b = ag_id a \<longrightarrow>
         ag_nextRunAt b = nextOccurrenceAfter schedule now cal \<and> (\<forall>k. ag_nextRunAt b = Some k \<longrightarrow> now < k))"
  using nothing_due_on_time [OF assms(1-3)] checkpoint_after_tick [OF assms(1,3)] assms(4)
    nextOccurrenceAfter_SomeD [of schedule now cal] by auto

definition five_past :: engine_agent where
  "five_past = \<lparr>ag_id = ''a'', ag_tenant = ''t'', ag_name = ''Reporter'', ag_status = ''Active'',
     ag_currentVersion = Some ''v1'', ag_overlapPolicy = None, ag_missedRunPolicy = None,
     ag_scheduleCron = Some ''5 0 * * *'', ag_lastRunAt = None, ag_nextRunAt = Some 300000\<rparr>"

definition five_past_company :: engine_state where
  "five_past_company = \<lparr>es_agents = [five_past], es_assignments = [], es_tasks = [], es_approvals = [],
     es_runs = [], es_events = [], es_workers = [], es_calls = [], es_runLimit = None, es_durable = True\<rparr>"

definition no_settings :: company_settings where
  "no_settings = \<lparr>st_timezone = None, st_workingDays = None, st_holidays = None, st_missedRunPolicy = None\<rparr>"

definition any_ids :: "instant \<Rightarrow> fresh_ids" where
  "any_ids m = \<lparr>fr_run = ''r'', fr_nonce = ''n'', fr_correlation = ''c''\<rparr>"

lemma five_past_parses:
  "parseBusinessCron (given (ag_scheduleCron five_past) []) = Inr \<lparr>bs_minutes = [5], bs_hours = [0], bs_weekdays = []\<rparr>"
proof -
  have s: "agentScheduleToBusinessCron \<lparr>sc_weekdays = [], sc_hour = 0, sc_minute = 5\<rparr> = ''5 0 * * *''"
    by code_simp
  have "scheduleFromBusinessCron ''5 0 * * *'' = Some \<lparr>sc_weekdays = [], sc_hour = 0, sc_minute = 5\<rparr>"
    using editor_round_trip [of "\<lparr>sc_weekdays = [], sc_hour = 0, sc_minute = 5\<rparr>"]
    by (simp add: s agentScheduleProblems_def days_in_order_def)
  from editor_reads_as_engine [OF this] show ?thesis by (simp add: five_past_def)
qed

theorem planned_occurrence_is_skipped_witness:
  "so_started (fst (tickAgent ''t'' no_settings office any_ids 310000 five_past five_past_company)) = 0
   \<and> matchesSchedule \<lparr>bs_minutes = [5], bs_hours = [0], bs_weekdays = []\<rparr> 300000 office"
proof
  let ?s = "\<lparr>bs_minutes = [5], bs_hours = [0], bs_weekdays = []\<rparr>"
  let ?tick = "tickAgent ''t'' no_settings office any_ids 310000 five_past five_past_company"
  have quiet: "\<forall>m. minute_ms dvd m \<and> 300000 < m \<and> m \<le> 310000 \<longrightarrow> \<not> matchesSchedule ?s m office"
    by (auto simp add: minute_ms_def)
  have tick: "?tick = (fst ?tick, snd ?tick)" by simp
  have n: "ag_nextRunAt five_past = Some 300000" by (simp add: five_past_def)
  show "so_started (fst ?tick) = 0"
    using planned_occurrence_is_skipped [OF tick n five_past_parses quiet] by blast
  show "matchesSchedule ?s 300000 office" by code_simp
qed

section \<open>Fairness\<close>

text \<open>
  C17. The fair order is round-robin: it is a rearrangement of what was queued, each company's jobs
  keep the order in which they were queued, and for every k it begins with exactly the k oldest
  jobs of every company, so a job never waits behind more of another company's than of its own.
\<close>

theorem fair_order_is_round_robin:
  "mset (fairOrder pending) = mset pending
   \<and> (\<forall>t. jobs_of t (fairOrder pending) = sort_key pj_queuedAt (jobs_of t pending))
   \<and> (\<forall>k. \<exists>xs ys. fairOrder pending = xs @ ys
            \<and> (\<forall>t. jobs_of t xs = take k (sort_key pj_queuedAt (jobs_of t pending))))"
  using fairOrder_mset fairOrder_of [of _ pending] fairOrder_prefix [of pending] by (simp add: queue_of_def)

definition waiting_job :: "uid \<Rightarrow> uid \<Rightarrow> instant \<Rightarrow> pending_job" where
  "waiting_job i t q = \<lparr>pj_id = i, pj_tenant = t, pj_queuedAt = q\<rparr>"

definition a_queue :: "pending_job list" where
  "a_queue = [waiting_job ''1'' ''big'' 1, waiting_job ''2'' ''big'' 2, waiting_job ''3'' ''big'' 3, waiting_job ''4'' ''small'' 9]"

lemma fair_order_example: "map pj_id (fairOrder a_queue) = [''1'', ''4'', ''2'', ''3'']"
  by code_simp

text \<open>
  Admission fills the slots and no more: from the fair order each company's oldest queued jobs
  are dispatched up to the slots it has left, the others are deferred, and with its runs in flight
  no company is taken past the limit.
\<close>

theorem admission_fills_the_slots:
  assumes "already used t \<le> limit"
  shows "jobs_of t (fst (admit_jobs limit used (fairOrder pending)))
           = take (nat (limit - already used t)) (sort_key pj_queuedAt (jobs_of t pending))
     \<and> jobs_of t (snd (admit_jobs limit used (fairOrder pending)))
           = drop (nat (limit - already used t)) (sort_key pj_queuedAt (jobs_of t pending))
     \<and> already used t + int (length (jobs_of t (fst (admit_jobs limit used (fairOrder pending))))) \<le> limit"
  using assms admit_jobs_of [of t limit used "fairOrder pending"]
  by (simp add: fairOrder_of queue_of_def concurrencySlotsFor_def)

theorem admission_fills_the_slots_witness:
  "map pj_id (jobs_of ''big'' (fst (admit_jobs 3 [''big'' \<mapsto> 1] (fairOrder a_queue)))) = [''1'', ''2'']"
proof -
  have "already [''big'' \<mapsto> 1] ''big'' \<le> 3" by (simp add: already_def)
  from admission_fills_the_slots [OF this, of a_queue] show ?thesis
    by (simp add: already_def a_queue_def jobs_of_def waiting_job_def)
qed

section \<open>Release\<close>

text \<open>
  A release is exact and complete: the rows it changes are those of the workflow that were
  waiting and whose planned dependencies have all finished, they become assigned and are the ones
  reported, every other row stays as it is, and nothing is left for a second release.
\<close>

theorem release_is_exact:
  assumes "distinct (map ht_id tasks)"
    and "releaseWithinTransaction i completed tasks assignments approvals = (released, audits, tasks')"
  shows "tasks' = map (\<lambda>t. if to_release i completed tasks assignments approvals t then release_row t else t) tasks
     \<and> released = map released_from (filter (to_release i completed tasks assignments approvals) tasks)
     \<and> (\<forall>t \<in> set tasks'. \<not> to_release i completed tasks' assignments approvals t)"
  using release_table [OF assms(1), of i completed assignments approvals] release_released [of i completed tasks assignments approvals]
    nothing_left_to_release [OF assms(1), of i completed assignments approvals] assms(2)
  by (auto simp add: filter_empty_conv)

definition a_task :: "uid \<Rightarrow> uid \<Rightarrow> uid list \<Rightarrow> HumanTaskStatus \<Rightarrow> human_task" where
  "a_task i node deps s = \<lparr>ht_id = i, ht_tenant = ''t'', ht_objective = ''o'', ht_objectiveVersion = ''v'', ht_node = node,
     ht_title = ''Check'', ht_assignee = ''u'', ht_dependsOn = deps, ht_status = s, ht_version = 1\<rparr>"

definition some_tasks :: "human_task list" where
  "some_tasks = [a_task ''1'' ''n1'' [] TaskCompleted, a_task ''2'' ''n2'' [''n1'', ''nowhere''] TaskWaiting,
     a_task ''3'' ''n3'' [''n2''] TaskWaiting]"

definition a_release :: release_input where
  "a_release = \<lparr>ri_tenant = ''t'', ri_objectiveVersion = ''v'', ri_actor = None, ri_finishedNode = ''n1''\<rparr>"

theorem release_is_exact_witness:
  "map ht_status (snd (snd (releaseWithinTransaction a_release [] some_tasks ([] :: ai_assignment list) ([] :: step_approval list)))) = [TaskCompleted, TaskAssigned, TaskWaiting]
   \<and> map rt_id (fst (releaseWithinTransaction a_release [] some_tasks ([] :: ai_assignment list) ([] :: step_approval list))) = [''2'']"
proof -
  let ?r = "releaseWithinTransaction a_release [] some_tasks ([] :: ai_assignment list) ([] :: step_approval list)"
  have d: "distinct (map ht_id some_tasks)" by code_simp
  have r: "?r = (fst ?r, fst (snd ?r), snd (snd ?r))" by simp
  have "map ht_status (map (\<lambda>t. if to_release a_release [] some_tasks ([] :: ai_assignment list) ([] :: step_approval list) t then release_row t else t) some_tasks)
          = [TaskCompleted, TaskAssigned, TaskWaiting]"
    "map rt_id (map released_from (filter (to_release a_release [] some_tasks ([] :: ai_assignment list) ([] :: step_approval list)) some_tasks)) = [''2'']"
    by code_simp+
  then show ?thesis using release_is_exact [OF d r] by metis
qed

end
