(* ===== verification/Json.thy ===== *)
theory Json
  imports Iso_Dates "HOL-Library.List_Lexorder" "HOL-Library.Char_ord" "HOL-Library.Multiset"
begin

text \<open>
  JSON values and the encodings of \<open>apps/api/src/audit/audit-chain.ts\<close>: \<open>JSON.stringify\<close> of strings,
  and \<open>stableStringify\<close>, which sorts the keys of every object.  Numbers are integers, and a character
  is one code unit below 256; the strings of the trail that the code itself builds are of this kind.
  The encoding determines the value up to the order of keys and to \<open>undefined\<close>.
\<close>

datatype json =
    JUndefined
  | JNull
  | JBool bool
  | JNumber int
  | JString string
  | JArray "json list"
  | JObject "(string \<times> json) list"

section \<open>JSON.stringify of a string\<close>

definition hex_char :: "nat \<Rightarrow> char" where
  "hex_char d = (if d < 10 then char_of (48 + d) else char_of (87 + d))"

definition escape :: "char \<Rightarrow> string" where
  "escape c =
     (if c = CHR 0x22 then [CHR 0x5C, CHR 0x22]
      else if c = CHR 0x5C then [CHR 0x5C, CHR 0x5C]
      else if c = CHR 0x08 then CHR 0x5C # ''b''
      else if c = CHR 0x09 then CHR 0x5C # ''t''
      else if c = CHR 0x0A then CHR 0x5C # ''n''
      else if c = CHR 0x0C then CHR 0x5C # ''f''
      else if c = CHR 0x0D then CHR 0x5C # ''r''
      else (let n = (of_char c :: nat) in
        if n < 32 then CHR 0x5C # ''u00'' @ [hex_char (n div 16), hex_char (n mod 16)] else [c]))"

definition quote :: "string \<Rightarrow> string" where
  "quote s = CHR 0x22 # concat (map escape s) @ [CHR 0x22]"

section \<open>stableStringify\<close>

lemma size_field: "f \<in> set fields \<Longrightarrow> size (snd f) < Suc (size_list (size_prod (\<lambda>_. 0) size) fields)"
  by (induction fields) auto

function stableStringify :: "json \<Rightarrow> string" where
  "stableStringify JUndefined = ''null''"
| "stableStringify JNull = ''null''"
| "stableStringify (JBool b) = (if b then ''true'' else ''false'')"
| "stableStringify (JNumber i) = show_int i"
| "stableStringify (JString s) = quote s"
| "stableStringify (JArray items) = ''['' @ join '','' (map stableStringify items) @ '']''"
| "stableStringify (JObject fields) =
     ''{'' @ join '',''
       (map (\<lambda>f. quote (fst f) @ '':'' @ stableStringify (snd f))
         (sort_key fst (filter (\<lambda>f. snd f \<noteq> JUndefined) fields))) @ ''}''"
  by pat_completeness auto
termination
  by (relation "measure size") (auto dest: size_field simp add: less_Suc_eq_le elim: size_list_estimation')

section \<open>What the encoding is a function of\<close>

text \<open>The value with the keys of its objects sorted and \<open>undefined\<close> left out, as the encoding sees it.\<close>

function canon :: "json \<Rightarrow> json" where
  "canon JUndefined = JNull"
| "canon JNull = JNull"
| "canon (JBool b) = JBool b"
| "canon (JNumber i) = JNumber i"
| "canon (JString s) = JString s"
| "canon (JArray items) = JArray (map canon items)"
| "canon (JObject fields) =
     JObject (map (\<lambda>f. (fst f, canon (snd f)))
       (sort_key fst (filter (\<lambda>f. snd f \<noteq> JUndefined) fields)))"
  by pat_completeness auto
termination
  by (relation "measure size") (auto dest: size_field simp add: less_Suc_eq_le elim: size_list_estimation')

text \<open>Plain printing, in the order the value has.\<close>

fun print :: "json \<Rightarrow> string" where
  "print JUndefined = ''undefined''"
| "print JNull = ''null''"
| "print (JBool b) = (if b then ''true'' else ''false'')"
| "print (JNumber i) = show_int i"
| "print (JString s) = quote s"
| "print (JArray items) = ''['' @ join '','' (map print items) @ '']''"
| "print (JObject fields) =
     ''{'' @ join '','' (map (\<lambda>f. quote (fst f) @ '':'' @ print (snd f)) fields) @ ''}''"

lemma stableStringify_print: "stableStringify j = print (canon j)"
proof (induction j rule: stableStringify.induct)
  case (7 fields)
  let ?kept = "sort_key fst (filter (\<lambda>f. snd f \<noteq> JUndefined) fields)"
  have "stableStringify (snd f) = print (canon (snd f))" if "f \<in> set ?kept" for f
    using 7 [of f] that by auto
  then have "map (\<lambda>f. quote (fst f) @ '':'' @ stableStringify (snd f)) ?kept
      = map (\<lambda>f. quote (fst f) @ '':'' @ print (canon (snd f))) ?kept" by simp
  then show ?case by (simp only: stableStringify.simps canon.simps print.simps map_map comp_def fst_conv snd_conv)
qed (auto simp add: comp_def cong: map_cong)

section \<open>Printing is unambiguous\<close>

text \<open>What may follow a value: nothing, or a separator or closing bracket.\<close>

definition stops :: "string \<Rightarrow> bool" where
  "stops r \<longleftrightarrow> (r = [] \<or> hd r \<in> {CHR '','', CHR '']'', CHR ''}''})"

definition unambiguous :: "('a \<Rightarrow> string) \<Rightarrow> 'a \<Rightarrow> bool" where
  "unambiguous e x \<longleftrightarrow> (\<forall>y r s. stops r \<longrightarrow> stops s \<longrightarrow> e x @ r = e y @ s \<longrightarrow> x = y \<and> r = s)"

subsection \<open>Strings\<close>

lemma hex_char_value: "d < 16 \<Longrightarrow> digit_value 16 (hex_char d) = Some d"
  by (auto simp add: digit_value_def hex_char_def Let_def)

definition unescape :: "string \<Rightarrow> (char \<times> string) option" where
  "unescape s = (case s of [] \<Rightarrow> None
     | c # r \<Rightarrow> if c \<noteq> CHR 0x5C then Some (c, r) else (case r of [] \<Rightarrow> None
       | d # q \<Rightarrow>
          if d = CHR ''b'' then Some (CHR 0x08, q) else if d = CHR ''t'' then Some (CHR 0x09, q)
          else if d = CHR ''n'' then Some (CHR 0x0A, q) else if d = CHR ''f'' then Some (CHR 0x0C, q)
          else if d = CHR ''r'' then Some (CHR 0x0D, q)
          else if d = CHR ''u'' then
            Some (char_of (16 * the (digit_value 16 (q ! 2)) + the (digit_value 16 (q ! 3))), drop 4 q)
          else Some (d, q)))"

definition short_escapes :: "char set" where
  "short_escapes = {CHR 0x22, CHR 0x5C, CHR 0x08, CHR 0x09, CHR 0x0A, CHR 0x0C, CHR 0x0D}"

lemma unescape_short: "c \<in> short_escapes \<Longrightarrow> unescape (escape c @ x) = Some (c, x)"
  unfolding short_escapes_def by (elim insertE emptyE) (simp_all add: escape_def unescape_def)

lemma escape_long:
  assumes "c \<notin> short_escapes"
  shows "escape c = (if (of_char c :: nat) < 32
      then CHR 0x5C # ''u00'' @ [hex_char (of_char c div 16), hex_char (of_char c mod 16)] else [c])"
  using assms unfolding short_escapes_def escape_def Let_def by simp

lemma unescape_control:
  assumes "n < (32::nat)"
  shows "unescape (CHR 0x5C # CHR ''u'' # CHR ''0'' # CHR ''0'' # hex_char (n div 16) # hex_char (n mod 16) # x)
         = Some (char_of n, x)"
proof -
  have "n div 16 < 16" "n mod 16 < 16" using assms by simp_all
  then have "the (digit_value 16 (hex_char (n div 16))) = n div 16"
    "the (digit_value 16 (hex_char (n mod 16))) = n mod 16"
    using hex_char_value by simp_all
  then show ?thesis by (simp add: unescape_def)
qed

lemma unescape_escape: "unescape (escape c @ x) = Some (c, x)"
proof (cases "c \<in> short_escapes")
  case False
  then have "c \<noteq> CHR 0x5C" by (simp add: short_escapes_def)
  then show ?thesis
    using unescape_control [of "of_char c" x] by (simp add: escape_long [OF False] unescape_def [of "c # x"])
qed (rule unescape_short)

lemma escape_not_quote: "escape c \<noteq> [] \<and> hd (escape c) \<noteq> CHR 0x22"
  by (simp add: escape_def Let_def)

lemma escape_split: "escape c @ x = escape d @ y \<Longrightarrow> c = d \<and> x = y"
  by (metis unescape_escape option.inject prod.inject)

lemma escape_opens: "escape c @ x \<noteq> CHR 0x22 # y"
  using escape_not_quote [of c] by (cases "escape c") auto

lemma escapes_split:
  "concat (map escape a) @ CHR 0x22 # r = concat (map escape b) @ CHR 0x22 # s \<Longrightarrow> a = b \<and> r = s"
proof (induction a arbitrary: b)
  case Nil
  then show ?case using escape_opens [of "hd b", symmetric] by (cases b) auto
next
  case (Cons c a)
  note eq = Cons.prems and IH = Cons.IH
  show ?case
  proof (cases b)
    case Nil
    then show ?thesis using eq escape_opens [of c] by simp
  next
    case (Cons d b')
    then have "escape c @ concat (map escape a) @ CHR 0x22 # r
        = escape d @ concat (map escape b') @ CHR 0x22 # s" using eq by simp
    from escape_split [OF this] have "c = d"
      "concat (map escape a) @ CHR 0x22 # r = concat (map escape b') @ CHR 0x22 # s" by auto
    then show ?thesis using IH [of b'] Cons by simp
  qed
qed

lemma quote_split: "quote a @ r = quote b @ s \<Longrightarrow> a = b \<and> r = s"
  using escapes_split [of a r b s] by (simp add: quote_def)

lemma quote_eq_iff [simp]: "quote a = quote b \<longleftrightarrow> a = b"
  using quote_split [of a "[]" b "[]"] by auto

subsection \<open>Numbers\<close>

lemma digits_split:
  assumes "\<forall>c \<in> set a. P c" "\<forall>c \<in> set b. P c" "r = [] \<or> \<not> P (hd r)" "s = [] \<or> \<not> P (hd s)" "a @ r = b @ s"
  shows "a = b \<and> r = s"
proof -
  have "takeWhile P (x @ t) = x" if "\<forall>c \<in> set x. P c" "t = [] \<or> \<not> P (hd t)" for x t
    using that by (cases t) (auto simp add: takeWhile_append)
  then have "a = b" using assms by metis
  then show ?thesis using assms(5) by simp
qed

lemma show_int_chars: "c \<in> set (show_int i) \<Longrightarrow> c \<notin> {CHR '','', CHR '']'', CHR ''}''}"
proof -
  have "\<forall>d \<in> {0..<10}. digit_char d \<notin> {CHR '','', CHR '']'', CHR ''}''}"
    by code_simp
  then have "d \<notin> {CHR '','', CHR '']'', CHR ''}''}" if "is_digit d" for d
    using that by (auto simp add: is_digit_def)
  then show "c \<in> set (show_int i) \<Longrightarrow> c \<notin> {CHR '','', CHR '']'', CHR ''}''}"
    using show_nat_digits by (auto simp add: show_int_def split: if_splits)
qed

lemma show_int_split: "stops r \<Longrightarrow> stops s \<Longrightarrow> show_int i @ r = show_int j @ s \<Longrightarrow> i = j \<and> r = s"
  using digits_split [of "show_int i" "\<lambda>c. c \<notin> {CHR '','', CHR '']'', CHR ''}''}" "show_int j" r s]
    show_int_chars by (auto simp add: stops_def)

subsection \<open>Lists of values\<close>

lemma stops_Nil [simp]: "stops []"
  by (simp add: stops_def)

lemma stops_Cons [simp]: "stops (c # r) \<longleftrightarrow> c \<in> {CHR '','', CHR '']'', CHR ''}''}"
  by (simp add: stops_def)

definition opens :: "('a \<Rightarrow> string) \<Rightarrow> bool" where
  "opens e \<longleftrightarrow> (\<forall>x. e x \<noteq> [] \<and> hd (e x) \<notin> {CHR '','', CHR '']'', CHR ''}''})"

lemma opens_stops: "opens e \<Longrightarrow> e x @ r = s \<Longrightarrow> \<not> stops s"
  unfolding opens_def stops_def by (metis Nil_is_append_conv hd_append2)

lemma join_Cons: "join sep (x # xs) = x @ (if xs = [] then [] else sep @ join sep xs)"
  by (cases xs) auto

text \<open>Separated values up to a closing bracket are read back when each of them is unambiguous.\<close>

lemma joined_split:
  assumes "opens e" and "\<And>x. x \<in> set xs \<Longrightarrow> unambiguous e x"
    and "c \<in> {CHR '']'', CHR ''}''}"
    and "join '','' (map e xs) @ c # r = join '','' (map e ys) @ c # s"
  shows "xs = ys \<and> r = s"
  using assms(2,4)
proof (induction xs arbitrary: ys)
  case Nil
  show ?case
  proof (cases ys)
    case (Cons y ys')
    then have "c # r = e y @ (if ys' = [] then [] else '','' @ join '','' (map e ys')) @ c # s"
      using Nil by (simp add: join_Cons)
    then have "\<not> stops (c # r)" using opens_stops [OF assms(1)] by metis
    then show ?thesis using assms(3) by auto
  qed (use Nil in simp)
next
  case (Cons x xs)
  note prem = Cons.prems and IH = Cons.IH
  define tail where "tail zs q = (if zs = [] then c # q else CHR '','' # join '','' (map e zs) @ c # q)" for zs q
  have joined: "join '','' (map e (z # zs)) @ c # q = e z @ tail zs q" for z zs q
    by (simp add: join_Cons tail_def)
  have stop: "stops (tail zs q)" for zs q using assms(3) by (auto simp add: tail_def)
  show ?case
  proof (cases ys)
    case Nil
    then have "e x @ tail xs r = c # s" using prem(2) joined [of x xs r] by simp
    then have "\<not> stops (c # s)" using opens_stops [OF assms(1)] by metis
    then show ?thesis using assms(3) by auto
  next
    case (Cons y ys')
    then have "e x @ tail xs r = e y @ tail ys' s" using prem(2) joined [of x xs r] joined [of y ys' s] by simp
    moreover have "unambiguous e x" using prem(1) by simp
    ultimately have xy: "x = y" "tail xs r = tail ys' s" using stop unfolding unambiguous_def by blast+
    have "c \<noteq> CHR '',''" using assms(3) by auto
    then have "xs = ys' \<and> r = s"
      using xy(2) prem(1) IH [of ys'] by (auto simp add: tail_def split: if_splits)
    then show ?thesis using xy(1) Cons by simp
  qed
qed

subsection \<open>Values\<close>

definition print_field :: "string \<times> json \<Rightarrow> string" where
  "print_field f = quote (fst f) @ '':'' @ print (snd f)"

lemma opens_print: "opens print"
  unfolding opens_def
proof
  fix j
  show "print j \<noteq> [] \<and> hd (print j) \<notin> {CHR '','', CHR '']'', CHR ''}''}"
  proof (cases j)
    case (JNumber i)
    have "show_int i \<noteq> []" by (simp add: show_int_def)
    then show ?thesis using JNumber show_int_chars [of "hd (show_int i)" i] hd_in_set by auto
  qed (auto simp add: quote_def)
qed

lemma opens_print_field: "opens print_field"
  by (simp add: opens_def print_field_def quote_def)

text \<open>The first character tells the kinds of value apart.\<close>

fun kind :: "json \<Rightarrow> nat" where
  "kind JUndefined = 0" | "kind JNull = 1" | "kind (JBool b) = (if b then 2 else 3)" | "kind (JNumber i) = 4"
| "kind (JString s) = 5" | "kind (JArray js) = 6" | "kind (JObject fs) = 7"

definition kind_of :: "char \<Rightarrow> nat" where
  "kind_of c = (if c = CHR ''u'' then 0 else if c = CHR ''n'' then 1 else if c = CHR ''t'' then 2
     else if c = CHR ''f'' then 3 else if c = CHR 0x22 then 5 else if c = CHR ''['' then 6
     else if c = CHR ''{'' then 7 else 4)"

lemma number_start: "kind_of (hd (show_int i @ r)) = 4"
proof -
  have "\<forall>d \<in> {0..<10}. kind_of (digit_char d) = 4" by code_simp
  then have "kind_of c = 4" if "is_digit c" for c using that by (auto simp add: is_digit_def)
  moreover have "hd (show_nat n) \<in> set (show_nat n)" for n by simp
  ultimately have "kind_of (hd (show_nat n)) = 4" for n using show_nat_digits by blast
  moreover have "kind_of (CHR ''-'') = 4" by (simp add: kind_of_def)
  ultimately show ?thesis by (simp add: show_int_def)
qed

lemma print_kind: "kind_of (hd (print j @ r)) = kind j"
proof (cases j)
  case (JNumber i)
  then show ?thesis using number_start [of i r] by simp
qed (simp_all add: kind_of_def quote_def)

lemma print_same_kind: "print a @ r = print b @ s \<Longrightarrow> kind b = kind a"
  using print_kind [of a r] print_kind [of b s] by simp

lemma kind_iff [simp]:
  "kind y = 0 \<longleftrightarrow> y = JUndefined" "kind y = Suc 0 \<longleftrightarrow> y = JNull" "kind y = 2 \<longleftrightarrow> y = JBool True"
  "kind y = 3 \<longleftrightarrow> y = JBool False" "kind y = 4 \<longleftrightarrow> (\<exists>i. y = JNumber i)" "kind y = 5 \<longleftrightarrow> (\<exists>t. y = JString t)"
  "kind y = 6 \<longleftrightarrow> (\<exists>js. y = JArray js)" "kind y = 7 \<longleftrightarrow> (\<exists>fs. y = JObject fs)"
  by (cases y; simp)+

lemma unambiguousI:
  "(\<And>y r s. stops r \<Longrightarrow> stops s \<Longrightarrow> e x @ r = e y @ s \<Longrightarrow> x = y \<and> r = s) \<Longrightarrow> unambiguous e x"
  unfolding unambiguous_def by blast

lemma unambiguousD:
  "unambiguous e x \<Longrightarrow> stops r \<Longrightarrow> stops s \<Longrightarrow> e x @ r = e y @ s \<Longrightarrow> x = y \<and> r = s"
  unfolding unambiguous_def by blast

lemma leaf_unambiguous:
  "unambiguous print JUndefined" "unambiguous print JNull" "unambiguous print (JBool b)"
  "unambiguous print (JNumber i)" "unambiguous print (JString t)"
proof -
  have fixed: "unambiguous print j" if "\<And>y. kind y = kind j \<Longrightarrow> y = j" for j
  proof (rule unambiguousI)
    fix y r s
    assume eq: "print j @ r = print y @ s"
    then have "y = j" using that print_same_kind by blast
    then show "j = y \<and> r = s" using eq by simp
  qed
  show "unambiguous print JUndefined" by (rule fixed) simp
  show "unambiguous print JNull" by (rule fixed) simp
  show "unambiguous print (JBool b)" by (rule fixed) (cases b; simp)
  show "unambiguous print (JNumber i)"
  proof (rule unambiguousI)
    fix y r s
    assume st: "stops r" "stops s" and eq: "print (JNumber i) @ r = print y @ s"
    obtain j where "y = JNumber j" using print_same_kind [OF eq] by auto
    then show "JNumber i = y \<and> r = s" using show_int_split [OF st, of i j] eq by simp
  qed
  show "unambiguous print (JString t)"
  proof (rule unambiguousI)
    fix y r s
    assume eq: "print (JString t) @ r = print y @ s"
    obtain u where "y = JString u" using print_same_kind [OF eq] by auto
    then show "JString t = y \<and> r = s" using quote_split [of t r u s] eq by simp
  qed
qed

lemma array_unambiguous:
  assumes "\<And>j. j \<in> set items \<Longrightarrow> unambiguous print j"
  shows "unambiguous print (JArray items)"
proof (rule unambiguousI)
  fix y r s
  assume eq: "print (JArray items) @ r = print y @ s"
  then obtain items' where y: "y = JArray items'" using print_same_kind [OF eq] by auto
  have "join '','' (map print items) @ CHR '']'' # r = join '','' (map print items') @ CHR '']'' # s"
    using eq y by simp
  then show "JArray items = y \<and> r = s"
    using joined_split [OF opens_print, of items "CHR '']''"] assms y by blast
qed

lemma field_unambiguous:
  assumes "unambiguous print (snd f)"
  shows "unambiguous print_field f"
proof (rule unambiguousI)
  fix y r s
  assume st: "stops r" "stops s" and eq: "print_field f @ r = print_field y @ s"
  have "quote (fst f) @ CHR '':'' # print (snd f) @ r = quote (fst y) @ CHR '':'' # print (snd y) @ s"
    using eq by (simp add: print_field_def)
  from quote_split [OF this] have "fst f = fst y" "print (snd f) @ r = print (snd y) @ s" by auto
  then show "f = y \<and> r = s" using unambiguousD [OF assms st] by (metis prod_eq_iff)
qed

lemma object_unambiguous:
  assumes "\<And>f. f \<in> set fields \<Longrightarrow> unambiguous print (snd f)"
  shows "unambiguous print (JObject fields)"
proof (rule unambiguousI)
  fix y r s
  assume eq: "print (JObject fields) @ r = print y @ s"
  then obtain fields' where y: "y = JObject fields'" using print_same_kind [OF eq] by auto
  have "join '','' (map print_field fields) @ CHR ''}'' # r = join '','' (map print_field fields') @ CHR ''}'' # s"
    using eq y by (simp add: print_field_def [abs_def])
  then show "JObject fields = y \<and> r = s"
    using joined_split [OF opens_print_field, of fields "CHR ''}''"] assms field_unambiguous y by blast
qed

lemma print_unambiguous: "unambiguous print j"
  by (induction j) (auto intro!: leaf_unambiguous array_unambiguous object_unambiguous simp add: snds.simps)

lemma print_eq_iff [simp]: "print a = print b \<longleftrightarrow> a = b"
  using unambiguousD [OF print_unambiguous, of "[]" "[]" a b] by auto

lemma stableStringify_eq_iff: "stableStringify a = stableStringify b \<longleftrightarrow> canon a = canon b"
  by (simp add: stableStringify_print)

text \<open>The order in which the keys of an object were written does not matter.\<close>

lemma canon_key_order:
  assumes "distinct (map fst fields)" and "mset fields = mset fields'"
  shows "canon (JObject fields) = canon (JObject fields')"
proof -
  let ?kept = "filter (\<lambda>f. snd f \<noteq> JUndefined)"
  have "inj_on fst (set (?kept fields))" using assms(1) by (auto simp add: distinct_map inj_on_def)
  moreover have "mset (?kept fields) = mset (sort_key fst (?kept fields'))" using assms(2) by simp
  ultimately have "sort_key fst (?kept fields) = sort_key fst (?kept fields')"
    by (intro sort_key_inj_key_eq) simp_all
  then show ?thesis by (simp only: canon.simps)
qed

end
