(* ===== verification/Audit_Chain.thy ===== *)
theory Audit_Chain
  imports Json
begin

text \<open>
  \<open>apps/api/src/audit/audit-chain.ts\<close>: the fields a trail row's hash covers, the hashes, and
  \<open>verifyChain\<close>.  SHA-256 is a parameter; what is proved about tampering names the strings that
  would have to collide.  The locale \<open>chain_hash\<close> states what the verifier needs of a row hash, and
  is interpreted for both trails.  In the texts of a break an ellipsis is written as three dots.
\<close>

type_synonym sha = "string \<Rightarrow> string"

definition PLATFORM_CHAIN_KEY :: string where "PLATFORM_CHAIN_KEY = ''platform''"

definition AUDIT_CHAIN_VERSION :: string where "AUDIT_CHAIN_VERSION = ''uboss-audit-chain-v1''"

definition chainKeyForTenant :: "uid option \<Rightarrow> string" where
  "chainKeyForTenant tenant = (case tenant of None \<Rightarrow> PLATFORM_CHAIN_KEY | Some t \<Rightarrow> t)"

section \<open>What the hashes cover\<close>

record audit_payload =
  ap_tenantId :: "uid option"
  ap_action :: string
  ap_resourceType :: string
  ap_resourceId :: "string option"
  ap_actorUserId :: "uid option"
  ap_summary :: "string option"
  ap_reason :: "string option"
  ap_resourceVersion :: "int option"
  ap_resourceRef :: "string option"
  ap_correlationId :: "string option"
  ap_metadata :: json
  ap_occurredAt :: instant

record security_payload =
  sp_tenantId :: "uid option"
  sp_category :: string
  sp_severity :: string
  sp_outcome :: string
  sp_action :: string
  sp_actorUserId :: "uid option"
  sp_subjectUserId :: "uid option"
  sp_resourceType :: "string option"
  sp_resourceId :: "string option"
  sp_reason :: "string option"
  sp_deviceLabel :: "string option"
  sp_clientHint :: "string option"
  sp_correlationId :: "string option"
  sp_metadata :: json
  sp_occurredAt :: instant

text \<open>\<open>value ?? null\<close> on a JSON value.\<close>

definition or_null :: "json \<Rightarrow> json" where
  "or_null j = (if j = JUndefined then JNull else j)"

definition auditChainFields :: "audit_payload \<Rightarrow> string option list" where
  "auditChainFields p =
     [ap_tenantId p, Some (ap_action p), Some (ap_resourceType p), ap_resourceId p, ap_actorUserId p,
      ap_summary p, ap_reason p, map_option show_int (ap_resourceVersion p), ap_resourceRef p,
      ap_correlationId p, Some (stableStringify (or_null (ap_metadata p))), Some (toISOString (ap_occurredAt p))]"

definition securityChainFields :: "security_payload \<Rightarrow> string option list" where
  "securityChainFields p =
     [sp_tenantId p, Some (sp_category p), Some (sp_severity p), Some (sp_outcome p), Some (sp_action p),
      sp_actorUserId p, sp_subjectUserId p, sp_resourceType p, sp_resourceId p, sp_reason p,
      sp_deviceLabel p, sp_clientHint p, sp_correlationId p,
      Some (stableStringify (or_null (sp_metadata p))), Some (toISOString (sp_occurredAt p))]"

text \<open>\<open>JSON.stringify\<close> of an array of strings and nulls.\<close>

definition json_field :: "string option \<Rightarrow> json" where
  "json_field f = (case f of None \<Rightarrow> JNull | Some s \<Rightarrow> JString s)"

definition encode :: "string \<Rightarrow> string \<Rightarrow> int \<Rightarrow> string option \<Rightarrow> string option list \<Rightarrow> string" where
  "encode version chainKey sequence prevHash columns =
     print (JArray (map json_field ([Some version, Some chainKey, Some (show_int sequence), prevHash] @ columns)))"

definition auditRowHash :: "sha \<Rightarrow> string option \<Rightarrow> string \<Rightarrow> int \<Rightarrow> string option \<Rightarrow> audit_payload \<Rightarrow> string" where
  "auditRowHash sha version chainKey sequence prevHash payload =
     sha (encode (case version of None \<Rightarrow> AUDIT_CHAIN_VERSION | Some v \<Rightarrow> v) chainKey sequence prevHash
       (auditChainFields payload))"

definition securityRowHash :: "sha \<Rightarrow> string option \<Rightarrow> string \<Rightarrow> int \<Rightarrow> string option \<Rightarrow> security_payload \<Rightarrow> string" where
  "securityRowHash sha version chainKey sequence prevHash payload =
     sha (encode (case version of None \<Rightarrow> AUDIT_CHAIN_VERSION | Some v \<Rightarrow> v) chainKey sequence prevHash
       (securityChainFields payload))"

section \<open>Verification\<close>

record 'p VerifiableRow =
  vr_id :: uid
  vr_chainKey :: "string option"
  vr_sequence :: "int option"
  vr_prevHash :: "string option"
  vr_rowHash :: "string option"
  vr_payload :: 'p

datatype ChainBreakKind = ContentAltered | LinkBroken | SequenceGap | DuplicateSequence

record ChainBreak =
  cb_kind :: ChainBreakKind
  cb_rowId :: uid
  cb_sequence :: "string option"
  cb_detail :: string

datatype TrailName = AuditTrail | SecurityTrail

record ChainVerificationResult =
  cv_chainKey :: string
  cv_trail :: TrailName
  cv_intact :: bool
  cv_verifiedCount :: nat
  cv_unchainedCount :: nat
  cv_headSequence :: "string option"
  cv_headHash :: "string option"
  cv_breaks :: "ChainBreak list"

type_synonym 'p row_hash = "string \<Rightarrow> int \<Rightarrow> string option \<Rightarrow> 'p \<Rightarrow> string"

definition the_sequence :: "'p VerifiableRow \<Rightarrow> int" where
  "the_sequence row = the (vr_sequence row)"

definition chained :: "'p VerifiableRow list \<Rightarrow> 'p VerifiableRow list" where
  "chained rows = filter (\<lambda>row. vr_sequence row \<noteq> None \<and> vr_rowHash row \<noteq> None) rows"

definition or_none :: "string option \<Rightarrow> string" where
  "or_none h = (case h of None \<Rightarrow> ''(none)'' | Some s \<Rightarrow> s)"

definition duplicate_break :: "'p VerifiableRow \<Rightarrow> ChainBreak" where
  "duplicate_break row = \<lparr>cb_kind = DuplicateSequence, cb_rowId = vr_id row,
     cb_sequence = Some (show_int (the_sequence row)),
     cb_detail = ''Two rows claim position '' @ show_int (the_sequence row) @ ''. The chain cannot be ordered.''\<rparr>"

definition gap_break :: "int \<Rightarrow> 'p VerifiableRow \<Rightarrow> ChainBreak" where
  "gap_break previous row = \<lparr>cb_kind = SequenceGap, cb_rowId = vr_id row,
     cb_sequence = Some (show_int (the_sequence row)),
     cb_detail = ''Position '' @ show_int (the_sequence row) @ '' follows '' @ show_int previous @ '': ''
       @ show_int (the_sequence row - previous - 1) @ '' row(s) are missing.''\<rparr>"

definition link_break :: "string option \<Rightarrow> 'p VerifiableRow \<Rightarrow> ChainBreak" where
  "link_break previous row = \<lparr>cb_kind = LinkBroken, cb_rowId = vr_id row,
     cb_sequence = Some (show_int (the_sequence row)),
     cb_detail = ''Row at position '' @ show_int (the_sequence row) @ '' expects predecessor hash ''
       @ or_none (vr_prevHash row) @ '' but the chain gives '' @ or_none previous @ ''.''\<rparr>"

definition content_break :: "string \<Rightarrow> 'p VerifiableRow \<Rightarrow> ChainBreak" where
  "content_break recomputed row = \<lparr>cb_kind = ContentAltered, cb_rowId = vr_id row,
     cb_sequence = Some (show_int (the_sequence row)),
     cb_detail = ''Row at position '' @ show_int (the_sequence row) @ '' stores hash ''
       @ slice_to 16 (the (vr_rowHash row)) @ ''... but its content hashes to '' @ slice_to 16 recomputed
       @ ''.... The row was altered after it was written.''\<rparr>"

record chain_walk =
  cw_previousHash :: "string option"
  cw_previousSequence :: "int option"
  cw_headHash :: "string option"
  cw_headSequence :: "int option"
  cw_breaks :: "ChainBreak list"

definition recomputed_hash :: "'p row_hash \<Rightarrow> string \<Rightarrow> 'p VerifiableRow \<Rightarrow> string" where
  "recomputed_hash hashRow chainKey row =
     hashRow (case vr_chainKey row of None \<Rightarrow> chainKey | Some k \<Rightarrow> k) (the_sequence row) (vr_prevHash row) (vr_payload row)"

definition verify_row :: "'p row_hash \<Rightarrow> string \<Rightarrow> chain_walk \<Rightarrow> 'p VerifiableRow \<Rightarrow> chain_walk" where
  "verify_row hashRow chainKey w row =
     (if cw_previousSequence w = Some (the_sequence row)
      then w\<lparr>cw_breaks := cw_breaks w @ [duplicate_break row]\<rparr>
      else
        (let gap = (case cw_previousSequence w of None \<Rightarrow> []
               | Some n \<Rightarrow> if the_sequence row \<noteq> n + 1 then [gap_break n row] else []);
             link = (if vr_prevHash row \<noteq> cw_previousHash w then [link_break (cw_previousHash w) row] else []);
             recomputed = recomputed_hash hashRow chainKey row;
             content = (if Some recomputed \<noteq> vr_rowHash row then [content_break recomputed row] else [])
         in \<lparr>cw_previousHash = vr_rowHash row, cw_previousSequence = Some (the_sequence row),
             cw_headHash = vr_rowHash row, cw_headSequence = Some (the_sequence row),
             cw_breaks = cw_breaks w @ gap @ link @ content\<rparr>))"

definition walk_start :: "(int \<times> string) option \<Rightarrow> chain_walk" where
  "walk_start expectedStart =
     \<lparr>cw_previousHash = map_option snd expectedStart, cw_previousSequence = map_option fst expectedStart,
      cw_headHash = map_option snd expectedStart, cw_headSequence = map_option fst expectedStart, cw_breaks = []\<rparr>"

definition verifyChain ::
  "string \<Rightarrow> TrailName \<Rightarrow> 'p VerifiableRow list \<Rightarrow> 'p row_hash \<Rightarrow> (int \<times> string) option \<Rightarrow> ChainVerificationResult" where
  "verifyChain chainKey trail rows hashRow expectedStart =
     (let sorted = sort_key the_sequence (chained rows);
          w = foldl (verify_row hashRow chainKey) (walk_start expectedStart) sorted
      in \<lparr>cv_chainKey = chainKey, cv_trail = trail, cv_intact = (cw_breaks w = []),
          cv_verifiedCount = length sorted, cv_unchainedCount = length rows - length (chained rows),
          cv_headSequence = map_option show_int (cw_headSequence w), cv_headHash = cw_headHash w,
          cv_breaks = cw_breaks w\<rparr>)"

section \<open>The reference definition of an intact chain\<close>

text \<open>
  Each row follows its predecessor: it takes the next position, carries the predecessor's hash and
  stores the hash of its own content.
\<close>

fun linked :: "'p row_hash \<Rightarrow> string \<Rightarrow> int option \<Rightarrow> string option \<Rightarrow> 'p VerifiableRow list \<Rightarrow> bool" where
  "linked hashRow key position hash [] \<longleftrightarrow> True"
| "linked hashRow key position hash (row # rows) \<longleftrightarrow>
     (case position of None \<Rightarrow> True | Some n \<Rightarrow> the_sequence row = n + 1) \<and>
     vr_prevHash row = hash \<and> vr_rowHash row = Some (recomputed_hash hashRow key row) \<and>
     linked hashRow key (Some (the_sequence row)) (vr_rowHash row) rows"

fun head_hash :: "string option \<Rightarrow> 'p VerifiableRow list \<Rightarrow> string option" where
  "head_hash hash [] = hash"
| "head_hash hash (row # rows) = head_hash (vr_rowHash row) rows"

fun head_position :: "int option \<Rightarrow> 'p VerifiableRow list \<Rightarrow> int option" where
  "head_position position [] = position"
| "head_position position (row # rows) = head_position (Some (the_sequence row)) rows"

lemma linked_append:
  "linked hashRow key position hash (xs @ ys) \<longleftrightarrow>
   linked hashRow key position hash xs \<and> linked hashRow key (head_position position xs) (head_hash hash xs) ys"
  by (induction xs arbitrary: position hash) auto

lemma head_hash_append [simp]: "head_hash h (xs @ ys) = head_hash (head_hash h xs) ys"
  by (induction xs arbitrary: h) auto

lemma head_position_append [simp]: "head_position h (xs @ ys) = head_position (head_position h xs) ys"
  by (induction xs arbitrary: h) auto

lemma verify_row_breaks_grow: "\<exists>new. cw_breaks (verify_row hashRow key w row) = cw_breaks w @ new"
  by (auto simp add: verify_row_def Let_def)

lemma walk_breaks_grow: "\<exists>new. cw_breaks (foldl (verify_row hashRow key) w rows) = cw_breaks w @ new"
proof (induction rows arbitrary: w)
  case (Cons row rows)
  obtain a b where "cw_breaks (verify_row hashRow key w row) = cw_breaks w @ a"
    "cw_breaks (foldl (verify_row hashRow key) (verify_row hashRow key w row) rows)
     = cw_breaks (verify_row hashRow key w row) @ b"
    using verify_row_breaks_grow Cons.IH by blast
  then show ?case by simp
qed simp

lemma verify_row_clean:
  "cw_breaks (verify_row hashRow key w row) = [] \<longleftrightarrow>
   cw_breaks w = [] \<and> (case cw_previousSequence w of None \<Rightarrow> True | Some n \<Rightarrow> the_sequence row = n + 1) \<and>
   vr_prevHash row = cw_previousHash w \<and> vr_rowHash row = Some (recomputed_hash hashRow key row)"
  by (auto simp add: verify_row_def Let_def split: option.splits)

lemma verify_row_moves:
  "cw_previousSequence w \<noteq> Some (the_sequence row) \<Longrightarrow>
   cw_previousHash (verify_row hashRow key w row) = vr_rowHash row \<and>
   cw_previousSequence (verify_row hashRow key w row) = Some (the_sequence row) \<and>
   cw_headHash (verify_row hashRow key w row) = vr_rowHash row \<and>
   cw_headSequence (verify_row hashRow key w row) = Some (the_sequence row)"
  by (simp add: verify_row_def Let_def)

lemma walk_clean_iff:
  "cw_breaks (foldl (verify_row hashRow key) w rows) = [] \<longleftrightarrow>
   cw_breaks w = [] \<and> linked hashRow key (cw_previousSequence w) (cw_previousHash w) rows"
proof (induction rows arbitrary: w)
  case (Cons row rows)
  show ?case
  proof (cases "cw_previousSequence w = Some (the_sequence row)")
    case True
    then show ?thesis using verify_row_clean [of hashRow key w row] Cons.IH [of "verify_row hashRow key w row"] by auto
  next
    case False
    then show ?thesis
      using verify_row_clean [of hashRow key w row] verify_row_moves [OF False, of hashRow key]
        Cons.IH [of "verify_row hashRow key w row"] by auto
  qed
qed simp

lemma walk_head:
  assumes "linked hashRow key (cw_previousSequence w) (cw_previousHash w) rows"
    and "cw_headHash w = cw_previousHash w" and "cw_headSequence w = cw_previousSequence w"
  shows "cw_headHash (foldl (verify_row hashRow key) w rows) = head_hash (cw_previousHash w) rows \<and>
    cw_headSequence (foldl (verify_row hashRow key) w rows) = head_position (cw_previousSequence w) rows"
  using assms
proof (induction rows arbitrary: w)
  case (Cons row rows)
  then have "cw_previousSequence w \<noteq> Some (the_sequence row)" by auto
  from verify_row_moves [OF this, of hashRow key] show ?case
    using Cons.IH [of "verify_row hashRow key w row"] Cons.prems by auto
qed simp

text \<open>The verifier's verdict is the reference definition on the chained rows in order.\<close>

lemma walk_start_simps [simp]:
  "cw_previousHash (walk_start e) = map_option snd e" "cw_previousSequence (walk_start e) = map_option fst e"
  "cw_headHash (walk_start e) = map_option snd e" "cw_headSequence (walk_start e) = map_option fst e"
  "cw_breaks (walk_start e) = []"
  by (simp_all add: walk_start_def)

lemma verifyChain_intact_iff:
  "cv_intact (verifyChain key trail rows hashRow expected) \<longleftrightarrow>
   linked hashRow key (map_option fst expected) (map_option snd expected) (sort_key the_sequence (chained rows))"
  by (simp add: verifyChain_def Let_def walk_clean_iff)

lemma verifyChain_head:
  assumes "cv_intact (verifyChain key trail rows hashRow expected)"
  shows "cv_headHash (verifyChain key trail rows hashRow expected)
      = head_hash (map_option snd expected) (sort_key the_sequence (chained rows))"
    "cv_headSequence (verifyChain key trail rows hashRow expected)
      = map_option show_int (head_position (map_option fst expected) (sort_key the_sequence (chained rows)))"
  using walk_head [of hashRow key "walk_start expected"] assms
  by (simp_all add: verifyChain_intact_iff) (simp_all add: verifyChain_def Let_def)

lemma verifyChain_fields [simp]:
  "cv_breaks (verifyChain key trail rows hashRow expected) = [] \<longleftrightarrow> cv_intact (verifyChain key trail rows hashRow expected)"
  "cv_verifiedCount (verifyChain key trail rows hashRow expected) = length (chained rows)"
  by (simp_all add: verifyChain_def Let_def)

section \<open>Row hashes\<close>

text \<open>
  A row hash is a digest of a string that determines the row's key, position, predecessor and
  content.  Two intact chains with the same head hash then hold the same rows, unless the digest
  collides on strings they hash.
\<close>

definition row_key :: "string \<Rightarrow> 'p VerifiableRow \<Rightarrow> string" where
  "row_key key row = (case vr_chainKey row of None \<Rightarrow> key | Some k \<Rightarrow> k)"

definition hashed_strings ::
  "(string \<Rightarrow> int \<Rightarrow> string option \<Rightarrow> 'p \<Rightarrow> string) \<Rightarrow> string \<Rightarrow> 'p VerifiableRow list \<Rightarrow> string set" where
  "hashed_strings covered key rows =
     (\<lambda>row. covered (row_key key row) (the_sequence row) (vr_prevHash row) (vr_payload row)) ` set rows"

definition row_facts :: "('p \<Rightarrow> 'c) \<Rightarrow> string \<Rightarrow> 'p VerifiableRow
    \<Rightarrow> string \<times> int \<times> string option \<times> string option \<times> 'c" where
  "row_facts content key row =
     (row_key key row, the_sequence row, vr_prevHash row, vr_rowHash row, content (vr_payload row))"

lemma linked_head_None: "linked hashRow key position None rows \<Longrightarrow> head_hash None rows = None \<longleftrightarrow> rows = []"
  by (cases rows rule: rev_cases) (auto simp add: linked_append)

locale chain_hash =
  fixes sha :: sha
    and hashRow :: "'p row_hash"
    and covered :: "string \<Rightarrow> int \<Rightarrow> string option \<Rightarrow> 'p \<Rightarrow> string"
    and content :: "'p \<Rightarrow> 'c"
  assumes hash_of: "hashRow k n p x = sha (covered k n p x)"
    and covered_eq: "covered k n p x = covered k' n' p' y \<longleftrightarrow> k = k' \<and> n = n' \<and> p = p' \<and> content x = content y"
begin

lemma recomputed: "recomputed_hash hashRow key row
    = sha (covered (row_key key row) (the_sequence row) (vr_prevHash row) (vr_payload row))"
  by (simp add: recomputed_hash_def row_key_def hash_of)

lemma same_row:
  assumes "vr_rowHash x = Some (recomputed_hash hashRow key x)" "vr_rowHash y = Some (recomputed_hash hashRow key y)"
    and "vr_rowHash x = vr_rowHash y" and "inj_on sha S"
    and "hashed_strings covered key [x] \<subseteq> S" "hashed_strings covered key [y] \<subseteq> S"
  shows "row_facts content key x = row_facts content key y"
proof -
  let ?s = "\<lambda>r. covered (row_key key r) (the_sequence r) (vr_prevHash r) (vr_payload r)"
  have "sha (?s x) = sha (?s y)" using assms(1,2,3) by (simp add: recomputed)
  moreover have "?s x \<in> S" "?s y \<in> S" using assms(5,6) by (simp_all add: hashed_strings_def)
  ultimately have "?s x = ?s y" using assms(4) by (auto dest: inj_onD)
  then show ?thesis using assms(3) by (simp add: covered_eq row_facts_def)
qed

lemma same_head_same_rows:
  assumes "linked hashRow key None None xs" and "linked hashRow key None None ys"
    and "head_hash None xs = head_hash None ys"
    and "inj_on sha S" and "hashed_strings covered key xs \<subseteq> S" and "hashed_strings covered key ys \<subseteq> S"
  shows "map (row_facts content key) xs = map (row_facts content key) ys"
  using assms(1-3,5,6)
proof (induction xs arbitrary: ys rule: rev_induct)
  case Nil
  then show ?case using linked_head_None by fastforce
next
  case (snoc x xs)
  note IH = snoc.IH and xl = snoc.prems(1) and yl = snoc.prems(2) and heads = snoc.prems(3)
  have "ys \<noteq> []" using linked_head_None [OF xl] heads by auto
  then obtain ys' y where ys: "ys = ys' @ [y]" by (cases ys rule: rev_cases) auto
  have hashes: "vr_rowHash x = Some (recomputed_hash hashRow key x)" "vr_rowHash y = Some (recomputed_hash hashRow key y)"
    "vr_rowHash x = vr_rowHash y"
    using xl yl heads ys by (simp_all add: linked_append)
  have covered: "hashed_strings covered key [x] \<subseteq> S" "hashed_strings covered key [y] \<subseteq> S"
    "hashed_strings covered key xs \<subseteq> S" "hashed_strings covered key ys' \<subseteq> S"
    using snoc.prems(4,5) ys by (auto simp add: hashed_strings_def)
  have same: "row_facts content key x = row_facts content key y"
    using same_row [OF hashes assms(4) covered(1,2)] .
  have "head_hash None xs = head_hash None ys'"
    using same xl yl ys by (simp add: linked_append row_facts_def)
  then show ?case using IH [of ys'] xl yl ys covered same by (simp add: linked_append)
qed

end

section \<open>Both trails\<close>

definition audit_covered :: "string \<Rightarrow> int \<Rightarrow> string option \<Rightarrow> audit_payload \<Rightarrow> string" where
  "audit_covered k n p x = encode AUDIT_CHAIN_VERSION k n p (auditChainFields x)"

definition security_covered :: "string \<Rightarrow> int \<Rightarrow> string option \<Rightarrow> security_payload \<Rightarrow> string" where
  "security_covered k n p x = encode AUDIT_CHAIN_VERSION k n p (securityChainFields x)"

text \<open>A row's content: every column, its metadata up to the order of keys.\<close>

definition audit_content :: "audit_payload \<Rightarrow> audit_payload" where
  "audit_content p = p\<lparr>ap_metadata := canon (or_null (ap_metadata p))\<rparr>"

definition security_content :: "security_payload \<Rightarrow> security_payload" where
  "security_content p = p\<lparr>sp_metadata := canon (or_null (sp_metadata p))\<rparr>"

lemma json_field_eq_iff [simp]: "json_field a = json_field b \<longleftrightarrow> a = b"
  by (auto simp add: json_field_def split: option.splits)

lemma map_json_field_eq_iff [simp]: "map json_field xs = map json_field ys \<longleftrightarrow> xs = ys"
  by (intro inj_map_eq_map injI) simp

lemma encode_eq_iff:
  "encode v k n p xs = encode w k' n' p' ys \<longleftrightarrow> v = w \<and> k = k' \<and> n = n' \<and> p = p' \<and> xs = ys"
  unfolding encode_def print_eq_iff json.inject map_json_field_eq_iff by simp

lemma show_int_option_eq_iff: "map_option show_int a = map_option show_int b \<longleftrightarrow> a = b"
  by (cases a; cases b) auto

lemma auditChainFields_eq_iff: "auditChainFields x = auditChainFields y \<longleftrightarrow> audit_content x = audit_content y"
  by (cases x; cases y)
    (auto simp add: auditChainFields_def audit_content_def show_int_option_eq_iff stableStringify_eq_iff)

lemma securityChainFields_eq_iff:
  "securityChainFields x = securityChainFields y \<longleftrightarrow> security_content x = security_content y"
  by (cases x; cases y) (auto simp add: securityChainFields_def security_content_def stableStringify_eq_iff)

interpretation audit_hash: chain_hash sha "auditRowHash sha None" audit_covered audit_content for sha
  by unfold_locales
    (simp_all add: auditRowHash_def audit_covered_def encode_eq_iff auditChainFields_eq_iff)

interpretation security_hash: chain_hash sha "securityRowHash sha None" security_covered security_content for sha
  by unfold_locales
    (simp_all add: securityRowHash_def security_covered_def encode_eq_iff securityChainFields_eq_iff)

end
