(* ===== verification/Security_Actions.thy ===== *)
theory Security_Actions
  imports UbossPrelude
begin

text \<open>
  The closed set of security actions and their classification, and \<open>classify\<close>, of
  \<open>apps/api/src/auth/security-event.publisher.ts\<close>.
\<close>

datatype SecurityCategory = LoginEvent | SessionEvent | AccessEvent | RiskEvent | SupportEvent

datatype SecuritySeverity = InfoSeverity | NoticeSeverity | WarningSeverity | CriticalSeverity

datatype SecurityOutcome = SucceededOutcome | FailedOutcome | BlockedOutcome

fun category_name :: "SecurityCategory \<Rightarrow> string" where
  "category_name LoginEvent = ''Login''"
| "category_name SessionEvent = ''Session''"
| "category_name AccessEvent = ''Access''"
| "category_name RiskEvent = ''Risk''"
| "category_name SupportEvent = ''Support''"

fun severity_name :: "SecuritySeverity \<Rightarrow> string" where
  "severity_name InfoSeverity = ''Info''"
| "severity_name NoticeSeverity = ''Notice''"
| "severity_name WarningSeverity = ''Warning''"
| "severity_name CriticalSeverity = ''Critical''"

fun outcome_name :: "SecurityOutcome \<Rightarrow> string" where
  "outcome_name SucceededOutcome = ''Succeeded''"
| "outcome_name FailedOutcome = ''Failed''"
| "outcome_name BlockedOutcome = ''Blocked''"

record classification =
  cl_category :: SecurityCategory
  cl_severity :: "SecuritySeverity option"
  cl_outcome :: "SecurityOutcome option"

definition SECURITY_ACTIONS :: "(string \<times> string) list" where
  "SECURITY_ACTIONS = [
     (''invitationIssued'', ''security.invitation_issued''),
     (''invitationResent'', ''security.invitation_resent''),
     (''invitationCancelled'', ''security.invitation_cancelled''),
     (''invitationAccepted'', ''security.invitation_accepted''),
     (''invitationRejected'', ''security.invitation_rejected''),
     (''loginSucceeded'', ''security.login_succeeded''),
     (''loginFailed'', ''security.login_failed''),
     (''loginBlockedLockout'', ''security.login_blocked_lockout''),
     (''loginBlockedPolicy'', ''security.login_blocked_policy''),
     (''accountLocked'', ''security.account_locked''),
     (''logout'', ''security.logout''),
     (''logoutAllDevices'', ''security.logout_all_devices''),
     (''sessionRevoked'', ''security.session_revoked''),
     (''sessionRevokedByAdmin'', ''security.session_revoked_by_admin''),
     (''sessionExpired'', ''security.session_expired''),
     (''passwordResetRequested'', ''security.password_reset_requested''),
     (''passwordResetCompleted'', ''security.password_reset_completed''),
     (''passwordResetRejected'', ''security.password_reset_rejected''),
     (''passwordChanged'', ''security.password_changed''),
     (''newDeviceSignIn'', ''security.new_device_sign_in''),
     (''authPolicyChanged'', ''security.auth_policy_changed''),
     (''mfaEnrolmentStarted'', ''security.mfa_enrolment_started''),
     (''mfaEnrolled'', ''security.mfa_enrolled''),
     (''mfaFactorRevoked'', ''security.mfa_factor_revoked''),
     (''mfaChallengeIssued'', ''security.mfa_challenge_issued''),
     (''mfaSucceeded'', ''security.mfa_succeeded''),
     (''mfaFailed'', ''security.mfa_failed''),
     (''mfaReplayRejected'', ''security.mfa_replay_rejected''),
     (''mfaRecoveryCodesGenerated'', ''security.mfa_recovery_codes_generated''),
     (''mfaRecoveryCodeUsed'', ''security.mfa_recovery_code_used''),
     (''ssoConnectionCreated'', ''security.sso_connection_created''),
     (''ssoConnectionUpdated'', ''security.sso_connection_updated''),
     (''ssoConnectionDeleted'', ''security.sso_connection_deleted''),
     (''ssoLoginStarted'', ''security.sso_login_started''),
     (''ssoLoginSucceeded'', ''security.sso_login_succeeded''),
     (''ssoLoginFailed'', ''security.sso_login_failed''),
     (''ssoBackchannelLogout'', ''security.sso_backchannel_logout''),
     (''ssoProviderLogoutRequested'', ''security.sso_provider_logout_requested''),
     (''domainClaimCreated'', ''security.domain_claim_created''),
     (''domainVerified'', ''security.domain_verified''),
     (''domainVerificationFailed'', ''security.domain_verification_failed''),
     (''domainClaimRemoved'', ''security.domain_claim_removed''),
     (''scimClientCreated'', ''security.scim_client_created''),
     (''scimClientRevoked'', ''security.scim_client_revoked''),
     (''scimAuthFailed'', ''security.scim_auth_failed''),
     (''scimUserProvisioned'', ''security.scim_user_provisioned''),
     (''scimUserDeprovisioned'', ''security.scim_user_deprovisioned''),
     (''scimGroupChanged'', ''security.scim_group_changed''),
     (''separationOfDutiesBlocked'', ''security.separation_of_duties_blocked''),
     (''permissionDenied'', ''security.permission_denied''),
     (''roleAssigned'', ''security.role_assigned''),
     (''roleRevoked'', ''security.role_revoked''),
     (''customRoleCreated'', ''security.custom_role_created''),
     (''customRoleUpdated'', ''security.custom_role_updated''),
     (''policyRuleCreated'', ''security.policy_rule_created''),
     (''policyRuleDeleted'', ''security.policy_rule_deleted''),
     (''sodPolicyCreated'', ''security.sod_policy_created''),
     (''sodPolicyDeleted'', ''security.sod_policy_deleted''),
     (''tcsionMappingLoaded'', ''security.tcsion_mapping_loaded''),
     (''tcsionMappingMissing'', ''security.tcsion_mapping_missing''),
     (''userTypeChanged'', ''security.user_type_changed''),
     (''breakGlassRequested'', ''security.break_glass_requested''),
     (''breakGlassIdentityVerified'', ''security.break_glass_identity_verified''),
     (''breakGlassIdentityVerificationFailed'', ''security.break_glass_identity_verification_failed''),
     (''breakGlassApproved'', ''security.break_glass_approved''),
     (''breakGlassDenied'', ''security.break_glass_denied''),
     (''breakGlassActivated'', ''security.break_glass_activated''),
     (''breakGlassUsed'', ''security.break_glass_used''),
     (''breakGlassRevoked'', ''security.break_glass_revoked''),
     (''breakGlassExpired'', ''security.break_glass_expired''),
     (''breakGlassSelfApprovalBlocked'', ''security.break_glass_self_approval_blocked''),
     (''breakGlassCustomerNotified'', ''security.break_glass_customer_notified''),
     (''breakGlassNotificationFailed'', ''security.break_glass_notification_failed''),
     (''breakGlassNotificationSuppressed'', ''security.break_glass_notification_suppressed''),
     (''auditTrailExported'', ''security.audit_trail_exported''),
     (''securityTrailExported'', ''security.security_trail_exported''),
     (''auditChainVerified'', ''security.audit_chain_verified''),
     (''auditChainBroken'', ''security.audit_chain_broken''),
     (''auditChainCheckpointSealed'', ''security.audit_chain_checkpoint_sealed''),
     (''platformRoleGranted'', ''security.platform_role_granted''),
     (''platformRoleRevoked'', ''security.platform_role_revoked''),
     (''platformRoleSelfGrantBlocked'', ''security.platform_role_self_grant_blocked''),
     (''platformRoleDenied'', ''security.platform_role_denied''),
     (''platformLockoutPrevented'', ''security.platform_lockout_prevented''),
     (''platformSettingChanged'', ''security.platform_setting_changed''),
     (''featureFlagChanged'', ''security.feature_flag_changed''),
     (''companyProvisioned'', ''security.company_provisioned''),
     (''companyBootstrapAdminGranted'', ''security.company_bootstrap_admin_granted''),
     (''companyActivationInvitationQueued'', ''security.company_activation_invitation_queued''),
     (''companyLifecycleChanged'', ''security.company_lifecycle_changed''),
     (''commercialSelfDecisionBlocked'', ''security.commercial_self_decision_blocked''),
     (''seatCeilingReached'', ''security.seat_ceiling_reached''),
     (''personIdentityCreated'', ''security.person_identity_created''),
     (''reportingCycleBlocked'', ''security.reporting_cycle_blocked''),
     (''accountSuspended'', ''security.account_suspended''),
     (''accountReinstated'', ''security.account_reinstated''),
     (''accountOffboarded'', ''security.account_offboarded''),
     (''guestAccessGranted'', ''security.guest_access_granted''),
     (''bulkEscalationBlocked'', ''security.bulk_escalation_blocked''),
     (''bulkOperationApplied'', ''security.bulk_operation_applied''),
     (''securityCenterExported'', ''security.security_center_exported''),
     (''sessionRevokedByCompanyAdmin'', ''security.session_revoked_by_company_admin''),
     (''fileUploadRefused'', ''security.file_upload_refused''),
     (''fileScanFoundMalware'', ''security.file_scan_found_malware''),
     (''fileQuarantined'', ''security.file_quarantined''),
     (''fileDownloaded'', ''security.file_downloaded''),
     (''breakGlassCustomerAuthorized'', ''security.break_glass_customer_authorized''),
     (''breakGlassCustomerDeclined'', ''security.break_glass_customer_declined''),
     (''breakGlassCustomerAuthorizationBlocked'', ''security.break_glass_customer_authorization_blocked''),
     (''companyExitRequested'', ''security.company_exit_requested''),
     (''companyExitApproved'', ''security.company_exit_approved''),
     (''companyExitSelfApprovalBlocked'', ''security.company_exit_self_approval_blocked''),
     (''companyExitConfirmationFailed'', ''security.company_exit_confirmation_failed''),
     (''companyExitContentDeleted'', ''security.company_exit_content_deleted''),
     (''companyExitCancelled'', ''security.company_exit_cancelled''),
     (''apiRateLimitTripped'', ''security.api_rate_limit_tripped''),
     (''idempotencyKeyReused'', ''security.idempotency_key_reused'')]"

text \<open>The categories with no severity or outcome of their own, and those with.\<close>

definition unrated :: "SecurityCategory \<Rightarrow> classification" where
  "unrated c = \<lparr>cl_category = c, cl_severity = None, cl_outcome = None\<rparr>"

definition rated :: "SecurityCategory \<Rightarrow> SecuritySeverity \<Rightarrow> classification" where
  "rated c s = \<lparr>cl_category = c, cl_severity = Some s, cl_outcome = None\<rparr>"

definition resulted :: "SecurityCategory \<Rightarrow> SecuritySeverity \<Rightarrow> SecurityOutcome \<Rightarrow> classification" where
  "resulted c s r = \<lparr>cl_category = c, cl_severity = Some s, cl_outcome = Some r\<rparr>"

definition CLASSIFICATION :: "(string \<times> classification) list" where
  "CLASSIFICATION = [
     (''invitationIssued'', unrated AccessEvent),
     (''invitationResent'', unrated AccessEvent),
     (''invitationCancelled'', rated AccessEvent NoticeSeverity),
     (''invitationAccepted'', unrated AccessEvent),
     (''invitationRejected'', resulted AccessEvent NoticeSeverity BlockedOutcome),
     (''loginSucceeded'', unrated LoginEvent),
     (''loginFailed'', resulted LoginEvent NoticeSeverity FailedOutcome),
     (''loginBlockedLockout'', resulted LoginEvent WarningSeverity BlockedOutcome),
     (''loginBlockedPolicy'', resulted LoginEvent NoticeSeverity BlockedOutcome),
     (''accountLocked'', resulted RiskEvent WarningSeverity BlockedOutcome),
     (''logout'', unrated SessionEvent),
     (''logoutAllDevices'', rated SessionEvent NoticeSeverity),
     (''sessionRevoked'', unrated SessionEvent),
     (''sessionRevokedByAdmin'', rated SessionEvent NoticeSeverity),
     (''sessionExpired'', unrated SessionEvent),
     (''passwordResetRequested'', rated LoginEvent NoticeSeverity),
     (''passwordResetCompleted'', rated LoginEvent NoticeSeverity),
     (''passwordResetRejected'', resulted LoginEvent WarningSeverity BlockedOutcome),
     (''passwordChanged'', rated LoginEvent NoticeSeverity),
     (''newDeviceSignIn'', rated RiskEvent WarningSeverity),
     (''authPolicyChanged'', rated AccessEvent WarningSeverity),
     (''mfaEnrolmentStarted'', unrated LoginEvent),
     (''mfaEnrolled'', rated LoginEvent NoticeSeverity),
     (''mfaFactorRevoked'', rated LoginEvent WarningSeverity),
     (''mfaChallengeIssued'', unrated LoginEvent),
     (''mfaSucceeded'', unrated LoginEvent),
     (''mfaFailed'', resulted LoginEvent NoticeSeverity FailedOutcome),
     (''mfaReplayRejected'', resulted RiskEvent WarningSeverity BlockedOutcome),
     (''mfaRecoveryCodesGenerated'', rated LoginEvent NoticeSeverity),
     (''mfaRecoveryCodeUsed'', rated RiskEvent WarningSeverity),
     (''ssoConnectionCreated'', rated AccessEvent WarningSeverity),
     (''ssoConnectionUpdated'', rated AccessEvent WarningSeverity),
     (''ssoConnectionDeleted'', rated AccessEvent WarningSeverity),
     (''ssoLoginStarted'', unrated LoginEvent),
     (''ssoLoginSucceeded'', unrated LoginEvent),
     (''ssoLoginFailed'', resulted LoginEvent NoticeSeverity FailedOutcome),
     (''ssoBackchannelLogout'', unrated SessionEvent),
     (''ssoProviderLogoutRequested'', unrated SessionEvent),
     (''domainClaimCreated'', rated AccessEvent NoticeSeverity),
     (''domainVerified'', rated AccessEvent NoticeSeverity),
     (''domainVerificationFailed'', resulted AccessEvent NoticeSeverity FailedOutcome),
     (''domainClaimRemoved'', rated AccessEvent NoticeSeverity),
     (''scimClientCreated'', rated AccessEvent WarningSeverity),
     (''scimClientRevoked'', rated AccessEvent WarningSeverity),
     (''scimAuthFailed'', resulted RiskEvent WarningSeverity BlockedOutcome),
     (''scimUserProvisioned'', unrated AccessEvent),
     (''scimUserDeprovisioned'', rated AccessEvent NoticeSeverity),
     (''scimGroupChanged'', unrated AccessEvent),
     (''separationOfDutiesBlocked'', resulted RiskEvent WarningSeverity BlockedOutcome),
     (''permissionDenied'', resulted AccessEvent NoticeSeverity BlockedOutcome),
     (''roleAssigned'', rated AccessEvent WarningSeverity),
     (''roleRevoked'', rated AccessEvent WarningSeverity),
     (''customRoleCreated'', rated AccessEvent WarningSeverity),
     (''customRoleUpdated'', rated AccessEvent WarningSeverity),
     (''policyRuleCreated'', rated AccessEvent WarningSeverity),
     (''policyRuleDeleted'', rated AccessEvent WarningSeverity),
     (''sodPolicyCreated'', rated AccessEvent CriticalSeverity),
     (''sodPolicyDeleted'', rated AccessEvent CriticalSeverity),
     (''tcsionMappingLoaded'', rated AccessEvent NoticeSeverity),
     (''tcsionMappingMissing'', resulted AccessEvent WarningSeverity BlockedOutcome),
     (''userTypeChanged'', rated AccessEvent WarningSeverity),
     (''breakGlassRequested'', rated SupportEvent CriticalSeverity),
     (''breakGlassIdentityVerified'', rated SupportEvent WarningSeverity),
     (''breakGlassIdentityVerificationFailed'', resulted SupportEvent CriticalSeverity BlockedOutcome),
     (''breakGlassApproved'', rated SupportEvent CriticalSeverity),
     (''breakGlassDenied'', resulted SupportEvent WarningSeverity BlockedOutcome),
     (''breakGlassActivated'', rated SupportEvent CriticalSeverity),
     (''breakGlassUsed'', rated SupportEvent CriticalSeverity),
     (''breakGlassRevoked'', rated SupportEvent WarningSeverity),
     (''breakGlassExpired'', rated SupportEvent NoticeSeverity),
     (''breakGlassSelfApprovalBlocked'', resulted SupportEvent CriticalSeverity BlockedOutcome),
     (''breakGlassCustomerNotified'', rated SupportEvent NoticeSeverity),
     (''breakGlassNotificationFailed'', resulted SupportEvent WarningSeverity FailedOutcome),
     (''breakGlassNotificationSuppressed'', rated SupportEvent CriticalSeverity),
     (''auditTrailExported'', rated SupportEvent NoticeSeverity),
     (''securityTrailExported'', rated SupportEvent NoticeSeverity),
     (''auditChainVerified'', rated SupportEvent NoticeSeverity),
     (''auditChainBroken'', resulted RiskEvent CriticalSeverity FailedOutcome),
     (''auditChainCheckpointSealed'', rated SupportEvent NoticeSeverity),
     (''platformRoleGranted'', rated AccessEvent CriticalSeverity),
     (''platformRoleRevoked'', rated AccessEvent WarningSeverity),
     (''platformRoleSelfGrantBlocked'', resulted AccessEvent CriticalSeverity BlockedOutcome),
     (''platformRoleDenied'', resulted AccessEvent NoticeSeverity BlockedOutcome),
     (''platformLockoutPrevented'', resulted RiskEvent CriticalSeverity BlockedOutcome),
     (''platformSettingChanged'', rated AccessEvent CriticalSeverity),
     (''featureFlagChanged'', rated AccessEvent WarningSeverity),
     (''companyProvisioned'', rated AccessEvent WarningSeverity),
     (''companyBootstrapAdminGranted'', rated AccessEvent CriticalSeverity),
     (''companyActivationInvitationQueued'', rated AccessEvent NoticeSeverity),
     (''companyLifecycleChanged'', rated AccessEvent WarningSeverity),
     (''commercialSelfDecisionBlocked'', resulted AccessEvent CriticalSeverity BlockedOutcome),
     (''seatCeilingReached'', resulted AccessEvent NoticeSeverity BlockedOutcome),
     (''personIdentityCreated'', rated AccessEvent NoticeSeverity),
     (''reportingCycleBlocked'', resulted AccessEvent WarningSeverity BlockedOutcome),
     (''accountSuspended'', rated AccessEvent WarningSeverity),
     (''accountReinstated'', rated AccessEvent NoticeSeverity),
     (''accountOffboarded'', rated AccessEvent WarningSeverity),
     (''guestAccessGranted'', rated AccessEvent WarningSeverity),
     (''bulkEscalationBlocked'', resulted AccessEvent CriticalSeverity BlockedOutcome),
     (''bulkOperationApplied'', rated AccessEvent WarningSeverity),
     (''securityCenterExported'', rated AccessEvent WarningSeverity),
     (''sessionRevokedByCompanyAdmin'', rated SessionEvent WarningSeverity),
     (''fileUploadRefused'', resulted RiskEvent NoticeSeverity BlockedOutcome),
     (''fileScanFoundMalware'', resulted RiskEvent CriticalSeverity BlockedOutcome),
     (''fileQuarantined'', resulted RiskEvent WarningSeverity FailedOutcome),
     (''fileDownloaded'', rated AccessEvent WarningSeverity),
     (''breakGlassCustomerAuthorized'', rated SupportEvent CriticalSeverity),
     (''breakGlassCustomerDeclined'', resulted SupportEvent WarningSeverity BlockedOutcome),
     (''breakGlassCustomerAuthorizationBlocked'', resulted SupportEvent CriticalSeverity BlockedOutcome),
     (''companyExitRequested'', rated AccessEvent CriticalSeverity),
     (''companyExitApproved'', rated AccessEvent CriticalSeverity),
     (''companyExitSelfApprovalBlocked'', resulted AccessEvent CriticalSeverity BlockedOutcome),
     (''companyExitConfirmationFailed'', resulted RiskEvent WarningSeverity BlockedOutcome),
     (''companyExitContentDeleted'', rated AccessEvent CriticalSeverity),
     (''companyExitCancelled'', rated AccessEvent WarningSeverity),
     (''apiRateLimitTripped'', resulted RiskEvent NoticeSeverity BlockedOutcome),
     (''idempotencyKeyReused'', resulted RiskEvent WarningSeverity BlockedOutcome)]"

text \<open>A Map built from entries keeps the last of two with the same key; the values are distinct.\<close>

definition ACTION_KEY_BY_VALUE :: "string \<Rightarrow> string option" where
  "ACTION_KEY_BY_VALUE v = map_of (rev (map (\<lambda>a. (snd a, fst a)) SECURITY_ACTIONS)) v"

definition classification_of :: "string \<Rightarrow> classification" where
  "classification_of action =
     (case ACTION_KEY_BY_VALUE action of
        Some key \<Rightarrow> the (map_of CLASSIFICATION key)
      | None \<Rightarrow> rated RiskEvent WarningSeverity)"

lemma classification_keys: "map fst CLASSIFICATION = map fst SECURITY_ACTIONS"
  by (simp add: CLASSIFICATION_def SECURITY_ACTIONS_def)

text \<open>Every action of the set has a classification of its own.\<close>

lemma action_classified:
  assumes "ACTION_KEY_BY_VALUE action = Some key"
  shows "map_of CLASSIFICATION key \<noteq> None"
proof -
  have "key \<in> fst ` set SECURITY_ACTIONS"
    using map_of_SomeD [OF assms [unfolded ACTION_KEY_BY_VALUE_def]] by force
  then have "key \<in> fst ` set CLASSIFICATION" using classification_keys by (metis list.set_map)
  then show ?thesis by (simp add: map_of_eq_None_iff)
qed

end
