(* ===== verification/Audit_Trail.thy ===== *)
theory Audit_Trail
  imports Audit_Chain Security_Actions Services Authorization_Service
begin

text \<open>
  The chained, append-only writer and the services over it: \<open>persistence/audit-trail.repository.ts\<close>,
  \<open>audit/audit-event.service.ts\<close>, \<open>audit/security-event.service.ts\<close>, \<open>audit/audit-chain.service.ts\<close>.
  The state is the two trails and the sealed checkpoints.  The advisory lock makes appends to a chain
  serial, so an append reads the head and writes the next row in one step.  The database keeps
  metadata as jsonb, which may reorder the keys of an object: the stored form is a parameter.
\<close>

record trail_env =
  te_sha :: sha
  te_jsonb :: "json \<Rightarrow> json"

record AuditChainCheckpoint =
  ck_id :: uid
  ck_chainKey :: string
  ck_trail :: TrailName
  ck_sequence :: int
  ck_rowHash :: string
  ck_rowCount :: nat
  ck_sealedBy :: "uid option"
  ck_anchorRef :: "string option"
  ck_anchoredAt :: "instant option"
  ck_sealedAt :: instant

record trail_state =
  audit_rows :: "audit_payload VerifiableRow list"
  security_rows :: "security_payload VerifiableRow list"
  checkpoints :: "AuditChainCheckpoint list"

section \<open>The repository\<close>

definition chain_rows :: "string \<Rightarrow> 'p VerifiableRow list \<Rightarrow> 'p VerifiableRow list" where
  "chain_rows key rows = filter (\<lambda>r. vr_chainKey r = Some key) rows"

definition claimNextPosition :: "string \<Rightarrow> 'p VerifiableRow list \<Rightarrow> int \<times> string option" where
  "claimNextPosition key rows =
     (case sort_key (\<lambda>r. - the_sequence r) (filter (\<lambda>r. vr_sequence r \<noteq> None) (chain_rows key rows)) of
        [] \<Rightarrow> (1, None)
      | r # _ \<Rightarrow> (the_sequence r + 1, vr_rowHash r))"

text \<open>What the column holds: NULL for a missing value, the jsonb form otherwise.\<close>

definition stored_json :: "trail_env \<Rightarrow> json \<Rightarrow> json" where
  "stored_json env j = (if or_null j = JNull then JNull else te_jsonb env j)"

definition new_row :: "uid \<Rightarrow> string \<Rightarrow> int \<Rightarrow> string option \<Rightarrow> string \<Rightarrow> 'p \<Rightarrow> 'p VerifiableRow" where
  "new_row newId key sequence prevHash rowHash stored =
     \<lparr>vr_id = newId, vr_chainKey = Some key, vr_sequence = Some sequence, vr_prevHash = prevHash,
      vr_rowHash = Some rowHash, vr_payload = stored\<rparr>"

definition appendAuditEvent :: "trail_env \<Rightarrow> audit_payload \<Rightarrow> uid \<Rightarrow> trail_state \<Rightarrow> trail_state" where
  "appendAuditEvent env payload newId st =
     (let key = chainKeyForTenant (ap_tenantId payload);
          (sequence, prevHash) = claimNextPosition key (audit_rows st);
          rowHash = auditRowHash (te_sha env) None key sequence prevHash payload
      in st\<lparr>audit_rows := audit_rows st @
           [new_row newId key sequence prevHash rowHash
             (payload\<lparr>ap_metadata := stored_json env (ap_metadata payload)\<rparr>)]\<rparr>)"

definition appendSecurityEvent :: "trail_env \<Rightarrow> security_payload \<Rightarrow> uid \<Rightarrow> trail_state \<Rightarrow> trail_state" where
  "appendSecurityEvent env payload newId st =
     (let key = chainKeyForTenant (sp_tenantId payload);
          (sequence, prevHash) = claimNextPosition key (security_rows st);
          rowHash = securityRowHash (te_sha env) None key sequence prevHash payload
      in st\<lparr>security_rows := security_rows st @
           [new_row newId key sequence prevHash rowHash
             (payload\<lparr>sp_metadata := stored_json env (sp_metadata payload)\<rparr>)]\<rparr>)"

text \<open>\<open>orderBy sequence asc\<close>, rows without a sequence last; a lower bound leaves them out.\<close>

definition readChain :: "string \<Rightarrow> int option \<Rightarrow> 'p VerifiableRow list \<Rightarrow> 'p VerifiableRow list" where
  "readChain key fromSequence rows =
     (let mine = chain_rows key rows;
          placed = filter (\<lambda>r. vr_sequence r \<noteq> None) mine
      in case fromSequence of
           None \<Rightarrow> sort_key the_sequence placed @ filter (\<lambda>r. vr_sequence r = None) mine
         | Some n \<Rightarrow> sort_key the_sequence (filter (\<lambda>r. n < the_sequence r) placed))"

definition countUnchainedAuditRows :: "uid option \<Rightarrow> trail_state \<Rightarrow> nat" where
  "countUnchainedAuditRows tenant st =
     length (filter (\<lambda>r. ap_tenantId (vr_payload r) = tenant \<and> vr_chainKey r = None) (audit_rows st))"

definition listCheckpoints :: "string \<Rightarrow> TrailName option \<Rightarrow> trail_state \<Rightarrow> AuditChainCheckpoint list" where
  "listCheckpoints key trail st =
     take 50 (sort_key (\<lambda>c. - ck_sealedAt c)
       (filter (\<lambda>c. ck_chainKey c = key \<and> (case trail of None \<Rightarrow> True | Some t \<Rightarrow> ck_trail c = t)) (checkpoints st)))"

definition latestCheckpoint :: "string \<Rightarrow> TrailName \<Rightarrow> trail_state \<Rightarrow> AuditChainCheckpoint option" where
  "latestCheckpoint key trail st =
     (case sort_key (\<lambda>c. - ck_sequence c)
        (filter (\<lambda>c. ck_chainKey c = key \<and> ck_trail c = trail) (checkpoints st)) of
        [] \<Rightarrow> None | c # _ \<Rightarrow> Some c)"

section \<open>Recording\<close>

text \<open>ASCII lower case, as a pattern with the \<open>i\<close> flag compares.\<close>

definition lower_char :: "char \<Rightarrow> char" where
  "lower_char c = (let n = (of_char c :: nat) in if 65 \<le> n \<and> n \<le> 90 then char_of (n + 32) else c)"

fun occurs_in :: "string \<Rightarrow> string \<Rightarrow> bool" where
  "occurs_in sub [] \<longleftrightarrow> sub = []"
| "occurs_in sub (c # s) \<longleftrightarrow> take (length sub) (c # s) = sub \<or> occurs_in sub s"

definition forbidden_words :: "string list" where
  "forbidden_words = [''password'', ''passphrase'', ''secret'', ''token'', ''credential'', ''authorization'',
     ''cookie'', ''aadhaar'', ''privatekey'', ''private_key'', ''private-key'']"

definition forbidden_key :: "string \<Rightarrow> bool" where
  "forbidden_key key = list_ex (\<lambda>w. occurs_in w (map lower_char key)) forbidden_words"

type_synonym TrailMetadata = "(string \<times> json) list"

fun redact_entry :: "string \<times> json \<Rightarrow> string \<times> json" where
  "redact_entry (key, JString s) = (key, if forbidden_key key then JString ''[redacted]'' else JString s)"
| "redact_entry (key, v) = (key, v)"

definition redactMetadata :: "TrailMetadata option \<Rightarrow> TrailMetadata option" where
  "redactMetadata metadata = map_option (map redact_entry) metadata"

definition metadata_json :: "TrailMetadata option \<Rightarrow> json" where
  "metadata_json metadata = (case metadata of None \<Rightarrow> JNull | Some entries \<Rightarrow> JObject entries)"

text \<open>The ellipsis, one code unit of the source's strings, is written as one character.\<close>

definition fit :: "string option \<Rightarrow> nat \<Rightarrow> string option" where
  "fit value limit = map_option
     (\<lambda>v. if length v \<le> limit then v else slice_to (limit - 1) v @ [CHR 0x85]) value"

record AuditEventInput =
  ai_action :: string
  ai_resourceType :: string
  ai_resourceId :: "string option"
  ai_reason :: "string option"
  ai_summary :: "string option"
  ai_resourceVersion :: "int option"
  ai_resourceRef :: "string option"
  ai_actorUserId :: "uid option"
  ai_metadata :: "TrailMetadata option"
  ai_correlationId :: "string option"
  ai_occurredAt :: "instant option"

text \<open>What the request carries, and the clock.\<close>

record request_env =
  rq_actorUserId :: "uid option"
  rq_correlationId :: "string option"
  rq_now :: instant

definition or_else :: "'a option \<Rightarrow> 'a option \<Rightarrow> 'a option" where
  "or_else a b = (case a of None \<Rightarrow> b | Some x \<Rightarrow> Some x)"

definition normalise :: "request_env \<Rightarrow> uid option \<Rightarrow> AuditEventInput \<Rightarrow> audit_payload" where
  "normalise rq tenant i =
     \<lparr>ap_tenantId = tenant, ap_action = ai_action i, ap_resourceType = ai_resourceType i,
      ap_resourceId = ai_resourceId i, ap_actorUserId = or_else (ai_actorUserId i) (rq_actorUserId rq),
      ap_summary = fit (ai_summary i) 500, ap_reason = fit (ai_reason i) 1000,
      ap_resourceVersion = ai_resourceVersion i, ap_resourceRef = fit (ai_resourceRef i) 120,
      ap_correlationId = or_else (ai_correlationId i) (rq_correlationId rq),
      ap_metadata = metadata_json (redactMetadata (ai_metadata i)),
      ap_occurredAt = (case ai_occurredAt i of None \<Rightarrow> rq_now rq | Some t \<Rightarrow> t)\<rparr>"

definition appendWithinCurrentScope ::
  "trail_env \<Rightarrow> request_env \<Rightarrow> uid option \<Rightarrow> AuditEventInput \<Rightarrow> uid \<Rightarrow> trail_state \<Rightarrow> trail_state" where
  "appendWithinCurrentScope env rq tenant i newId st = appendAuditEvent env (normalise rq tenant i) newId st"

record SecurityEventInput =
  sv_action :: string
  sv_category :: SecurityCategory
  sv_severity :: "SecuritySeverity option"
  sv_outcome :: "SecurityOutcome option"
  sv_actorUserId :: "uid option"
  sv_subjectUserId :: "uid option"
  sv_tenantId :: "uid option"
  sv_resourceType :: "string option"
  sv_resourceId :: "string option"
  sv_reason :: "string option"
  sv_deviceLabel :: "string option"
  sv_clientHint :: "string option"
  sv_metadata :: "TrailMetadata option"
  sv_occurredAt :: "instant option"

definition security_event_of :: "request_env \<Rightarrow> SecurityEventInput \<Rightarrow> security_payload" where
  "security_event_of rq i =
     \<lparr>sp_tenantId = sv_tenantId i, sp_category = category_name (sv_category i),
      sp_severity = severity_name (case sv_severity i of None \<Rightarrow> InfoSeverity | Some s \<Rightarrow> s),
      sp_outcome = outcome_name (case sv_outcome i of None \<Rightarrow> SucceededOutcome | Some r \<Rightarrow> r),
      sp_action = sv_action i, sp_actorUserId = sv_actorUserId i, sp_subjectUserId = sv_subjectUserId i,
      sp_resourceType = sv_resourceType i, sp_resourceId = sv_resourceId i, sp_reason = sv_reason i,
      sp_deviceLabel = sv_deviceLabel i, sp_clientHint = sv_clientHint i,
      sp_correlationId = rq_correlationId rq,
      sp_metadata = metadata_json (redactMetadata (sv_metadata i)),
      sp_occurredAt = (case sv_occurredAt i of None \<Rightarrow> rq_now rq | Some t \<Rightarrow> t)\<rparr>"

definition record_security :: "trail_env \<Rightarrow> request_env \<Rightarrow> SecurityEventInput \<Rightarrow> uid \<Rightarrow> trail_state \<Rightarrow> trail_state" where
  "record_security env rq i newId st = appendSecurityEvent env (security_event_of rq i) newId st"

text \<open>\<open>{ severity: 'Warning', ...input }\<close>: the input's own severity wins.\<close>

definition recordSuspicious :: "trail_env \<Rightarrow> request_env \<Rightarrow> SecurityEventInput \<Rightarrow> uid \<Rightarrow> trail_state \<Rightarrow> trail_state" where
  "recordSuspicious env rq i newId st =
     record_security env rq (i\<lparr>sv_severity := or_else (sv_severity i) (Some WarningSeverity)\<rparr>) newId st"

record published_event =
  pe_action :: string
  pe_actorUserId :: "uid option"
  pe_tenantId :: "uid option"
  pe_subjectUserId :: "uid option"
  pe_resourceType :: "string option"
  pe_resourceId :: "string option"
  pe_summary :: "string option"
  pe_metadata :: "TrailMetadata option"

definition classify :: "published_event \<Rightarrow> SecurityEventInput" where
  "classify e =
     (let c = classification_of (pe_action e) in
      \<lparr>sv_action = pe_action e, sv_category = cl_category c, sv_severity = cl_severity c,
       sv_outcome = cl_outcome c, sv_actorUserId = pe_actorUserId e, sv_subjectUserId = pe_subjectUserId e,
       sv_tenantId = pe_tenantId e, sv_resourceType = pe_resourceType e, sv_resourceId = pe_resourceId e,
       sv_reason = pe_summary e, sv_deviceLabel = None, sv_clientHint = None, sv_metadata = pe_metadata e,
       sv_occurredAt = None\<rparr>)"

definition publish :: "trail_env \<Rightarrow> request_env \<Rightarrow> published_event \<Rightarrow> uid \<Rightarrow> trail_state \<Rightarrow> trail_state" where
  "publish env rq e newId st = record_security env rq (classify e) newId st"

end
