(* ===== verification/Audit_Service.thy ===== *)
theory Audit_Service
  imports Audit_Trail
begin

text \<open>
  Verifying the chains and sealing checkpoints, \<open>audit/audit-chain.service.ts\<close>, and the trails as a
  service: whatever is recorded, verified and sealed, every chain stays intact, the trails and the
  checkpoints only grow, and a checkpoint names a row of its chain.
\<close>

section \<open>Operations\<close>

definition guarantee_common :: string where
  "guarantee_common =
     ''Guaranteed: the application database role cannot UPDATE or DELETE a trail row (privilege ''
     @ ''revoked), and a trigger refuses the same for the owner role. Any modification, deletion or ''
     @ ''reordering of a chained row is detectable by recomputing the chain.''"

definition describeGuarantee :: "bool \<Rightarrow> string" where
  "describeGuarantee anchored = guarantee_common @
     (if anchored
      then '' A checkpoint has been anchored outside this database, so a wholesale rewrite ''
        @ ''with recomputed hashes would disagree with that anchor and is therefore also detectable.''
      else '' NOT guaranteed: no checkpoint has been anchored outside this database, so an ''
        @ ''attacker with superuser access could disable the trigger, rewrite rows and recompute ''
        @ ''every hash, and this check would still report the chain as intact. Hash chaining alone ''
        @ ''cannot detect that. Anchor a checkpoint externally to close the gap.'')"

record chain_report =
  cr_audit :: ChainVerificationResult
  cr_security :: ChainVerificationResult
  cr_guarantee :: string

definition hasAnchoredCheckpoint :: "string \<Rightarrow> trail_state \<Rightarrow> bool" where
  "hasAnchoredCheckpoint key st = list_ex (\<lambda>c. ck_anchorRef c \<noteq> None) (listCheckpoints key None st)"

definition verify_audit :: "trail_env \<Rightarrow> string \<Rightarrow> trail_state \<Rightarrow> ChainVerificationResult" where
  "verify_audit env key st =
     (verifyChain key AuditTrail (readChain key None (audit_rows st)) (auditRowHash (te_sha env) None) None)
       \<lparr>cv_unchainedCount := countUnchainedAuditRows (if key = PLATFORM_CHAIN_KEY then None else Some key) st\<rparr>"

definition verify_security :: "trail_env \<Rightarrow> string \<Rightarrow> trail_state \<Rightarrow> ChainVerificationResult" where
  "verify_security env key st =
     verifyChain key SecurityTrail (readChain key None (security_rows st)) (securityRowHash (te_sha env) None) None"

definition verification_event :: "string \<Rightarrow> uid option \<Rightarrow> ChainVerificationResult \<Rightarrow> ChainVerificationResult \<Rightarrow> published_event" where
  "verification_event key tenant audit security =
     (let broken = \<not> cv_intact audit \<or> \<not> cv_intact security;
          breaks = length (cv_breaks audit) + length (cv_breaks security)
      in \<lparr>pe_action = (if broken then ''security.audit_chain_broken'' else ''security.audit_chain_verified''), pe_actorUserId = None,
          pe_tenantId = tenant, pe_subjectUserId = None, pe_resourceType = Some ''audit_chain'',
          pe_resourceId = Some key,
          pe_summary = Some (if broken then ''Chain verification failed: '' @ show_nat breaks @ '' break(s).''
             else ''Chain verified: '' @ show_nat (cv_verifiedCount audit + cv_verifiedCount security) @ '' row(s).''),
          pe_metadata = Some [(''auditBreaks'', JNumber (int (length (cv_breaks audit)))),
             (''securityBreaks'', JNumber (int (length (cv_breaks security)))),
             (''unchainedAuditRows'', JNumber (int (cv_unchainedCount audit)))]\<rparr>)"

definition verifyChainKey ::
  "trail_env \<Rightarrow> request_env \<Rightarrow> string \<Rightarrow> uid option \<Rightarrow> uid \<Rightarrow> trail_state \<Rightarrow> chain_report \<times> trail_state" where
  "verifyChainKey env rq key tenant newId st =
     (let audit = verify_audit env key st; security = verify_security env key st
      in (\<lparr>cr_audit = audit, cr_security = security, cr_guarantee = describeGuarantee (hasAnchoredCheckpoint key st)\<rparr>,
          publish env rq (verification_event key tenant audit security) newId st))"

datatype trail_error = TrailDenied decision_message | TrailForbidden string

definition audit_permission :: authorize_input where
  "audit_permission = \<lparr>in_module = ''settings'', in_action = ''Audit'', in_resource = None,
     in_actingAsAgent = False, in_additionalSod = []\<rparr>"

definition verifyForTenant ::
  "trail_env \<Rightarrow> request_env \<Rightarrow> authz_context \<Rightarrow> uid \<Rightarrow> uid \<Rightarrow> trail_state \<Rightarrow> trail_error + (chain_report \<times> trail_state)" where
  "verifyForTenant env rq context tenant newId st =
     (case assertCan context None audit_permission of
        Inl m \<Rightarrow> Inl (TrailDenied m)
      | Inr _ \<Rightarrow>
          (let effective = scopeForListing context ''settings'' ActAudit
           in if effective \<noteq> WholeCompany
              then Inl (TrailForbidden (''Verifying the audit chain requires whole-company scope; this grant is ''
                @ [CHR 0x22] @ scope_name effective @ [CHR 0x22]
                @ ''. A chain cannot be verified in part: a partial slice reports a broken link at its first row.''))
              else Inr (verifyChainKey env rq tenant (Some tenant) newId st)))"

definition verifyPlatformChains :: "trail_env \<Rightarrow> request_env \<Rightarrow> uid \<Rightarrow> trail_state \<Rightarrow> chain_report \<times> trail_state" where
  "verifyPlatformChains env rq newId st = verifyChainKey env rq PLATFORM_CHAIN_KEY None newId st"

fun trail_name :: "TrailName \<Rightarrow> string" where
  "trail_name AuditTrail = ''audit''"
| "trail_name SecurityTrail = ''security''"

record seal_input =
  se_chainKey :: string
  se_trail :: TrailName
  se_tenant :: "uid option"
  se_sealedBy :: "uid option"
  se_anchorRef :: "string option"

text \<open>The repository stamps \<open>anchoredAt\<close> when the reference is a non-empty string.\<close>

definition insertCheckpoint :: "seal_input \<Rightarrow> int \<Rightarrow> string \<Rightarrow> nat \<Rightarrow> uid \<Rightarrow> instant \<Rightarrow> AuditChainCheckpoint" where
  "insertCheckpoint i sequence rowHash rowCount newId now =
     \<lparr>ck_id = newId, ck_chainKey = se_chainKey i, ck_trail = se_trail i, ck_sequence = sequence,
      ck_rowHash = rowHash, ck_rowCount = rowCount, ck_sealedBy = se_sealedBy i, ck_anchorRef = se_anchorRef i,
      ck_anchoredAt = (case se_anchorRef i of None \<Rightarrow> None | Some r \<Rightarrow> if r = [] then None else Some now),
      ck_sealedAt = now\<rparr>"

definition truthy :: "string option \<Rightarrow> bool" where
  "truthy s = (case s of None \<Rightarrow> False | Some t \<Rightarrow> t \<noteq> [])"

definition seal_event :: "seal_input \<Rightarrow> string \<Rightarrow> nat \<Rightarrow> uid \<Rightarrow> published_event" where
  "seal_event i sequence rowCount newId =
     \<lparr>pe_action = ''security.audit_chain_checkpoint_sealed'',
      pe_actorUserId = (if truthy (se_sealedBy i) then se_sealedBy i else None),
      pe_tenantId = se_tenant i, pe_subjectUserId = None, pe_resourceType = Some ''audit_chain_checkpoint'',
      pe_resourceId = Some newId,
      pe_summary = Some (''Sealed '' @ trail_name (se_trail i) @ '' chain '' @ [CHR 0x22] @ se_chainKey i @ [CHR 0x22]
         @ '' at position '' @ sequence
         @ (if truthy (se_anchorRef i) then '' and anchored it externally.'' else '' (not externally anchored).'')),
      pe_metadata = Some [(''chainKey'', JString (se_chainKey i)), (''trail'', JString (trail_name (se_trail i))),
         (''sequence'', JString sequence), (''rowCount'', JNumber (int rowCount)),
         (''anchored'', JBool (se_anchorRef i \<noteq> None)), (''chainVersion'', JString AUDIT_CHAIN_VERSION)]\<rparr>"

text \<open>
  The verification commits its own event before anything is refused, so the state is returned beside
  the outcome.
\<close>

definition sealCheckpoint ::
  "trail_env \<Rightarrow> request_env \<Rightarrow> seal_input \<Rightarrow> uid \<times> uid \<times> uid \<Rightarrow> trail_state
   \<Rightarrow> (trail_error + AuditChainCheckpoint) \<times> trail_state" where
  "sealCheckpoint env rq i newIds st =
     (case newIds of (checkpointId, verifyId, sealId) \<Rightarrow>
       (let (report, st1) = verifyChainKey env rq (se_chainKey i) (se_tenant i) verifyId st;
            target = (case se_trail i of AuditTrail \<Rightarrow> cr_audit report | SecurityTrail \<Rightarrow> cr_security report);
            chain = trail_name (se_trail i) @ '' chain '' @ [CHR 0x22] @ se_chainKey i @ [CHR 0x22]
        in if \<not> cv_intact target
           then (Inl (TrailForbidden (''Refusing to seal a checkpoint for the '' @ chain @ '': it has ''
                   @ show_nat (length (cv_breaks target))
                   @ '' unresolved break(s). Sealing now would make the tampered state the verified baseline.'')), st1)
           else (case (cv_headHash target, cv_headSequence target) of
                   (Some rowHash, Some position) \<Rightarrow>
                     (let c = insertCheckpoint i (the (BigInt position)) rowHash (cv_verifiedCount target)
                            checkpointId (rq_now rq)
                      in (Inr c, publish env rq (seal_event i position (cv_verifiedCount target) checkpointId) sealId
                            (st1\<lparr>checkpoints := checkpoints st1 @ [c]\<rparr>)))
                 | _ \<Rightarrow> (Inl (TrailForbidden (''Refusing to seal an empty '' @ chain
                     @ '': there is no position to record.'')), st1))))"

section \<open>The trails as a service\<close>

datatype trail_op =
    RecordAuditOp "uid option" AuditEventInput request_env uid
  | RecordSecurityOp SecurityEventInput request_env uid
  | RecordSuspiciousOp SecurityEventInput request_env uid
  | PublishOp published_event request_env uid
  | VerifyTenantOp authz_context uid request_env uid
  | VerifyPlatformOp request_env uid
  | SealOp seal_input request_env "uid \<times> uid \<times> uid"

fun trail_step :: "trail_env \<Rightarrow> trail_op \<Rightarrow> trail_state \<Rightarrow> trail_error + trail_state" where
  "trail_step env (RecordAuditOp tenant i rq newId) st = Inr (appendWithinCurrentScope env rq tenant i newId st)"
| "trail_step env (RecordSecurityOp i rq newId) st = Inr (record_security env rq i newId st)"
| "trail_step env (RecordSuspiciousOp i rq newId) st = Inr (recordSuspicious env rq i newId st)"
| "trail_step env (PublishOp e rq newId) st = Inr (publish env rq e newId st)"
| "trail_step env (VerifyTenantOp cx tenant rq newId) st =
     map_sum id snd (verifyForTenant env rq cx tenant newId st)"
| "trail_step env (VerifyPlatformOp rq newId) st = Inr (snd (verifyPlatformChains env rq newId st))"
| "trail_step env (SealOp i rq newIds) st = Inr (snd (sealCheckpoint env rq i newIds st))"

definition no_trail :: trail_state where
  "no_trail = \<lparr>audit_rows = [], security_rows = [], checkpoints = []\<rparr>"

text \<open>What the database documents of jsonb: the value is kept, the order of an object's keys need not be.\<close>

definition keeps_content :: "trail_env \<Rightarrow> bool" where
  "keeps_content env \<longleftrightarrow> (\<forall>j. canon (te_jsonb env j) = canon j)"

section \<open>The invariant\<close>

definition table_ok :: "'p row_hash \<Rightarrow> 'p VerifiableRow list \<Rightarrow> bool" where
  "table_ok hashRow rows \<longleftrightarrow>
     (\<forall>key. linked hashRow key None None (chain_rows key rows) \<and>
            map vr_sequence (chain_rows key rows) = map (\<lambda>n. Some (int n)) [1..<Suc (length (chain_rows key rows))])"

text \<open>The checkpoint names the row at its position, and counts the rows up to it.\<close>

definition pins :: "AuditChainCheckpoint \<Rightarrow> 'p VerifiableRow list \<Rightarrow> bool" where
  "pins c rows \<longleftrightarrow> 0 < ck_rowCount c \<and> ck_rowCount c \<le> length (chain_rows (ck_chainKey c) rows) \<and>
     ck_sequence c = int (ck_rowCount c) \<and>
     head_hash None (take (ck_rowCount c) (chain_rows (ck_chainKey c) rows)) = Some (ck_rowHash c)"

definition checkpoint_ok :: "trail_state \<Rightarrow> AuditChainCheckpoint \<Rightarrow> bool" where
  "checkpoint_ok st c =
     (case ck_trail c of AuditTrail \<Rightarrow> pins c (audit_rows st) | SecurityTrail \<Rightarrow> pins c (security_rows st))"

definition trail_ok :: "trail_env \<Rightarrow> trail_state \<Rightarrow> bool" where
  "trail_ok env st \<longleftrightarrow>
     table_ok (auditRowHash (te_sha env) None) (audit_rows st) \<and>
     table_ok (securityRowHash (te_sha env) None) (security_rows st) \<and>
     (\<forall>c \<in> set (checkpoints st). checkpoint_ok st c)"

definition trail_grows :: "trail_state \<Rightarrow> trail_state \<Rightarrow> bool" where
  "trail_grows st st' \<longleftrightarrow> (\<exists>as ss cs. audit_rows st' = audit_rows st @ as \<and>
     security_rows st' = security_rows st @ ss \<and> checkpoints st' = checkpoints st @ cs)"

lemma chain_rows_append [simp]: "chain_rows key (xs @ ys) = chain_rows key xs @ chain_rows key ys"
  by (simp add: chain_rows_def)

lemma chain_rows_key: "r \<in> set (chain_rows key rows) \<Longrightarrow> vr_chainKey r = Some key"
  by (simp add: chain_rows_def)

lemma pins_append: "pins c rows \<Longrightarrow> pins c (rows @ rows2)"
  by (simp add: pins_def)

lemma checkpoint_ok_grows: "checkpoint_ok st c \<Longrightarrow> trail_grows st st' \<Longrightarrow> checkpoint_ok st' c"
  by (auto simp add: checkpoint_ok_def trail_grows_def pins_append split: TrailName.splits)

subsection \<open>Positions\<close>

lemma sorted_upt_int: "sorted (map int [a..<b])"
  by (simp add: sorted_iff_nth_mono)

lemma positions_sorted:
  assumes "map vr_sequence rs = map (\<lambda>n. Some (int n)) [1..<Suc (length rs)]"
  shows "map the_sequence rs = map int [1..<Suc (length rs)]" and "filter (\<lambda>r. vr_sequence r \<noteq> None) rs = rs"
    and "sort_key the_sequence rs = rs" and "sort_key (\<lambda>r. - the_sequence r) rs = rev rs"
proof -
  have "map the_sequence rs = map the (map vr_sequence rs)" by (simp add: the_sequence_def)
  then show seqs: "map the_sequence rs = map int [1..<Suc (length rs)]"
    unfolding assms by (simp only: map_map comp_def option.sel)
  have "\<forall>s \<in> set (map vr_sequence rs). s \<noteq> None" unfolding assms by auto
  then show "filter (\<lambda>r. vr_sequence r \<noteq> None) rs = rs" by (simp add: filter_id_conv)
  have "distinct (map the_sequence rs)" unfolding seqs by (simp add: distinct_map)
  then have inj: "inj_on the_sequence (set rs)" by (simp add: distinct_map)
  have "sorted (map the_sequence rs)" unfolding seqs by (rule sorted_upt_int)
  then show "sort_key the_sequence rs = rs" by (intro sort_key_inj_key_eq inj) simp_all
  have "sorted (map (\<lambda>r. - the_sequence r) (rev rs))"
    using \<open>sorted (map the_sequence rs)\<close> by (simp add: sorted_wrt_map sorted_wrt_rev rev_map [symmetric])
  moreover have "inj_on (\<lambda>r. - the_sequence r) (set rs)" using inj by (simp add: inj_on_def)
  ultimately show "sort_key (\<lambda>r. - the_sequence r) rs = rev rs" by (intro sort_key_inj_key_eq) simp_all
qed

lemma head_position_int:
  "map the_sequence rs = map int [1..<Suc (length rs)] \<Longrightarrow>
   head_position None rs = (if rs = [] then None else Some (int (length rs)))"
  by (cases rs rule: rev_cases) auto

lemma head_hash_last: "rs \<noteq> [] \<Longrightarrow> head_hash h rs = vr_rowHash (last rs)"
  by (induction rs arbitrary: h) auto

lemma table_okD:
  assumes "table_ok hashRow rows"
  shows "linked hashRow key None None (chain_rows key rows)"
    and "map vr_sequence (chain_rows key rows) = map (\<lambda>n. Some (int n)) [1..<Suc (length (chain_rows key rows))]"
  using assms by (simp_all add: table_ok_def)

lemma claim_of_ok:
  assumes "table_ok hashRow rows"
  shows "claimNextPosition key rows = (int (length (chain_rows key rows)) + 1, head_hash None (chain_rows key rows))"
proof -
  let ?rs = "chain_rows key rows"
  note pos = positions_sorted [OF table_okD(2) [OF assms, of key]]
  show ?thesis
  proof (cases ?rs rule: rev_cases)
    case (snoc xs x)
    have "the_sequence x = int (length ?rs)" using pos(1) snoc by simp
    then show ?thesis using pos(2,4) snoc by (simp add: claimNextPosition_def)
  qed (simp add: claimNextPosition_def)
qed

lemma linked_hashes: "linked hashRow key position hash rows \<Longrightarrow> r \<in> set rows \<Longrightarrow> vr_rowHash r \<noteq> None"
  by (induction rows arbitrary: position hash) auto

lemma read_of_ok:
  assumes "table_ok hashRow rows"
  shows "sort_key the_sequence (chained (readChain key None rows)) = chain_rows key rows"
    and "readChain key None rows = chain_rows key rows"
proof -
  note pos = positions_sorted [OF table_okD(2) [OF assms, of key]]
  have none: "filter (\<lambda>r. vr_sequence r = None) (chain_rows key rows) = []"
    using pos(2) by (metis (mono_tags, lifting) filter_False filter_id_conv)
  show read: "readChain key None rows = chain_rows key rows"
    using pos(2,3) none by (simp add: readChain_def Let_def)
  have "chained (chain_rows key rows) = chain_rows key rows"
    using pos(2) linked_hashes [OF table_okD(1) [OF assms, of key]]
    by (auto simp add: chained_def filter_id_conv)
  then show "sort_key the_sequence (chained (readChain key None rows)) = chain_rows key rows"
    using read pos(3) by simp
qed

subsection \<open>Appending\<close>

lemma chain_rows_new [simp]:
  "chain_rows k [new_row i key n p h x] = (if k = key then [new_row i key n p h x] else [])"
  by (simp add: chain_rows_def new_row_def)

context chain_hash
begin

lemma append_ok:
  assumes ok: "table_ok hashRow rows" and claim: "claimNextPosition key rows = (n, p)" and kept: "content y = content x"
  shows "table_ok hashRow (rows @ [new_row i key n p (hashRow key n p x) y])"
proof -
  let ?new = "new_row i key n p (hashRow key n p x) y" and ?rs = "chain_rows key rows"
  have n: "n = int (length ?rs) + 1" "p = head_hash None ?rs" using claim_of_ok [OF ok, of key] claim by simp_all
  have "covered key n p y = covered key n p x" using kept by (simp add: covered_eq)
  then have "hashRow key n p y = hashRow key n p x" by (simp add: hash_of)
  then have "linked hashRow key (head_position None ?rs) (head_hash None ?rs) [?new]"
    using n head_position_int [OF positions_sorted(1) [OF table_okD(2) [OF ok, of key]]]
    by (simp add: new_row_def recomputed_hash_def the_sequence_def split: option.splits if_splits)
  moreover have "vr_sequence ?new = Some (int (Suc (length ?rs)))" using n by (simp add: new_row_def)
  ultimately show ?thesis
    using table_okD [OF ok] unfolding table_ok_def
    by (auto simp add: linked_append)
qed

end

lemma stored_content:
  assumes "keeps_content env"
  shows "canon (or_null (stored_json env j)) = canon (or_null j)"
proof (cases "or_null j = JNull")
  case True
  then show ?thesis by (simp add: stored_json_def or_null_def)
next
  case False
  then have j: "or_null j = j" "j \<noteq> JUndefined" "j \<noteq> JNull" by (auto simp add: or_null_def split: if_splits)
  have "canon (or_null x) = canon x" for x by (simp add: or_null_def)
  then show ?thesis using assms j by (simp add: stored_json_def keeps_content_def)
qed

lemma appendAuditEvent_ok:
  assumes "keeps_content env" and "trail_ok env st"
  shows "trail_ok env (appendAuditEvent env payload newId st)" "trail_grows st (appendAuditEvent env payload newId st)"
proof -
  show grows: "trail_grows st (appendAuditEvent env payload newId st)"
    by (auto simp add: appendAuditEvent_def trail_grows_def Let_def split: prod.split)
  obtain n p where claim: "claimNextPosition (chainKeyForTenant (ap_tenantId payload)) (audit_rows st) = (n, p)" by fastforce
  have "audit_content (payload\<lparr>ap_metadata := stored_json env (ap_metadata payload)\<rparr>) = audit_content payload"
    using stored_content [OF assms(1)] by (simp add: audit_content_def)
  then have "table_ok (auditRowHash (te_sha env) None) (audit_rows (appendAuditEvent env payload newId st))"
    using audit_hash.append_ok [OF _ claim] assms(2) claim by (simp add: appendAuditEvent_def trail_ok_def Let_def)
  moreover have "security_rows (appendAuditEvent env payload newId st) = security_rows st"
    "checkpoints (appendAuditEvent env payload newId st) = checkpoints st"
    by (simp_all add: appendAuditEvent_def Let_def split: prod.split)
  ultimately show "trail_ok env (appendAuditEvent env payload newId st)"
    using assms(2) checkpoint_ok_grows [OF _ grows] by (simp add: trail_ok_def)
qed

lemma appendSecurityEvent_ok:
  assumes "keeps_content env" and "trail_ok env st"
  shows "trail_ok env (appendSecurityEvent env payload newId st)"
    "trail_grows st (appendSecurityEvent env payload newId st)"
proof -
  show grows: "trail_grows st (appendSecurityEvent env payload newId st)"
    by (auto simp add: appendSecurityEvent_def trail_grows_def Let_def split: prod.split)
  obtain n p where claim: "claimNextPosition (chainKeyForTenant (sp_tenantId payload)) (security_rows st) = (n, p)" by fastforce
  have "security_content (payload\<lparr>sp_metadata := stored_json env (sp_metadata payload)\<rparr>) = security_content payload"
    using stored_content [OF assms(1)] by (simp add: security_content_def)
  then have "table_ok (securityRowHash (te_sha env) None) (security_rows (appendSecurityEvent env payload newId st))"
    using security_hash.append_ok [OF _ claim] assms(2) claim by (simp add: appendSecurityEvent_def trail_ok_def Let_def)
  moreover have "audit_rows (appendSecurityEvent env payload newId st) = audit_rows st"
    "checkpoints (appendSecurityEvent env payload newId st) = checkpoints st"
    by (simp_all add: appendSecurityEvent_def Let_def split: prod.split)
  ultimately show "trail_ok env (appendSecurityEvent env payload newId st)"
    using assms(2) checkpoint_ok_grows [OF _ grows] by (simp add: trail_ok_def)
qed

lemma publish_ok:
  "keeps_content env \<Longrightarrow> trail_ok env st \<Longrightarrow> trail_ok env (publish env rq e newId st)"
  "keeps_content env \<Longrightarrow> trail_ok env st \<Longrightarrow> trail_grows st (publish env rq e newId st)"
  using appendSecurityEvent_ok by (simp_all add: publish_def record_security_def)

subsection \<open>Verifying\<close>

lemma verify_of_ok:
  assumes "table_ok hashRow rows"
  shows "cv_intact (verifyChain key trail (readChain key None rows) hashRow None)"
    and "cv_headHash (verifyChain key trail (readChain key None rows) hashRow None) = head_hash None (chain_rows key rows)"
    and "cv_headSequence (verifyChain key trail (readChain key None rows) hashRow None)
      = (if chain_rows key rows = [] then None else Some (show_int (int (length (chain_rows key rows)))))"
    and "cv_verifiedCount (verifyChain key trail (readChain key None rows) hashRow None) = length (chain_rows key rows)"
proof -
  show intact: "cv_intact (verifyChain key trail (readChain key None rows) hashRow None)"
    using table_okD(1) [OF assms] by (simp add: verifyChain_intact_iff read_of_ok(1) [OF assms])
  show "cv_headHash (verifyChain key trail (readChain key None rows) hashRow None) = head_hash None (chain_rows key rows)"
    "cv_headSequence (verifyChain key trail (readChain key None rows) hashRow None)
      = (if chain_rows key rows = [] then None else Some (show_int (int (length (chain_rows key rows)))))"
    using verifyChain_head [OF intact] head_position_int [OF positions_sorted(1) [OF table_okD(2) [OF assms, of key]]]
    by (simp_all add: read_of_ok(1) [OF assms])
  have "length (chained (readChain key None rows)) = length (chain_rows key rows)"
    using read_of_ok(1) [OF assms, of key] by (metis length_sort)
  then show "cv_verifiedCount (verifyChain key trail (readChain key None rows) hashRow None) = length (chain_rows key rows)"
    by simp
qed

definition rows_hash :: "trail_env \<Rightarrow> TrailName \<Rightarrow> string \<Rightarrow> trail_state \<Rightarrow> string option \<times> nat" where
  "rows_hash env trail key st = (case trail of
       AuditTrail \<Rightarrow> (head_hash None (chain_rows key (audit_rows st)), length (chain_rows key (audit_rows st)))
     | SecurityTrail \<Rightarrow> (head_hash None (chain_rows key (security_rows st)), length (chain_rows key (security_rows st))))"

definition report_on :: "trail_env \<Rightarrow> TrailName \<Rightarrow> string \<Rightarrow> trail_state \<Rightarrow> ChainVerificationResult" where
  "report_on env trail key st = (case trail of AuditTrail \<Rightarrow> verify_audit env key st | SecurityTrail \<Rightarrow> verify_security env key st)"

lemma report_of_ok:
  assumes "trail_ok env st"
  shows "cv_intact (report_on env trail key st)"
    and "cv_headHash (report_on env trail key st) = fst (rows_hash env trail key st)"
    and "cv_headSequence (report_on env trail key st)
      = (if snd (rows_hash env trail key st) = 0 then None else Some (show_int (int (snd (rows_hash env trail key st)))))"
    and "cv_verifiedCount (report_on env trail key st) = snd (rows_hash env trail key st)"
proof -
  have a: "table_ok (auditRowHash (te_sha env) None) (audit_rows st)"
    and s: "table_ok (securityRowHash (te_sha env) None) (security_rows st)"
    using assms by (simp_all add: trail_ok_def)
  note va = verify_of_ok [OF a, of key AuditTrail] and vs = verify_of_ok [OF s, of key SecurityTrail]
  show "cv_intact (report_on env trail key st)"
    using va(1) vs(1) by (cases trail) (simp_all add: report_on_def verify_audit_def verify_security_def)
  show "cv_headHash (report_on env trail key st) = fst (rows_hash env trail key st)"
    using va(2) vs(2) by (cases trail) (simp_all add: report_on_def rows_hash_def verify_audit_def verify_security_def)
  show "cv_headSequence (report_on env trail key st)
      = (if snd (rows_hash env trail key st) = 0 then None else Some (show_int (int (snd (rows_hash env trail key st)))))"
    using va(3) vs(3) by (cases trail) (simp_all add: report_on_def rows_hash_def verify_audit_def verify_security_def)
  show "cv_verifiedCount (report_on env trail key st) = snd (rows_hash env trail key st)"
    using va(4) vs(4) by (cases trail)
      (simp_all del: verifyChain_fields(2) add: report_on_def rows_hash_def verify_audit_def verify_security_def)
qed

lemma head_of_ok:
  assumes "trail_ok env st" and "snd (rows_hash env trail key st) \<noteq> 0"
  shows "\<exists>h. fst (rows_hash env trail key st) = Some h"
  using assms linked_head_None [OF table_okD(1), of "auditRowHash (te_sha env) None" "audit_rows st" key]
    linked_head_None [OF table_okD(1), of "securityRowHash (te_sha env) None" "security_rows st" key]
  by (cases trail) (auto simp add: trail_ok_def rows_hash_def)

lemma verifyChainKey_ok:
  assumes "keeps_content env" and "trail_ok env st" and "verifyChainKey env rq key tenant newId st = (report, st')"
  shows "trail_ok env st'" "trail_grows st st'" "cr_audit report = verify_audit env key st"
    "cr_security report = verify_security env key st"
  using publish_ok [OF assms(1,2)] assms(3) by (auto simp add: verifyChainKey_def Let_def)

subsection \<open>Sealing\<close>

lemma trail_grows_refl: "trail_grows st st"
  by (simp add: trail_grows_def)

lemma trail_grows_trans: "trail_grows r s \<Longrightarrow> trail_grows s t \<Longrightarrow> trail_grows r t"
  by (auto simp add: trail_grows_def)

lemma add_checkpoint_ok:
  assumes "trail_ok env st" and "checkpoint_ok st c"
  shows "trail_ok env (st\<lparr>checkpoints := checkpoints st @ [c]\<rparr>)" "trail_grows st (st\<lparr>checkpoints := checkpoints st @ [c]\<rparr>)"
proof -
  have "checkpoint_ok (st\<lparr>checkpoints := cs\<rparr>) d = checkpoint_ok st d" for cs d
    by (simp add: checkpoint_ok_def split: TrailName.splits)
  then show "trail_ok env (st\<lparr>checkpoints := checkpoints st @ [c]\<rparr>)" using assms by (auto simp add: trail_ok_def)
qed (simp add: trail_grows_def)

text \<open>What is sealed: the head of the chain as it was verified.\<close>

lemma insertCheckpoint_ok:
  assumes "rows_hash env (se_trail i) (se_chainKey i) st = (Some h, n)" and "n \<noteq> 0"
  shows "checkpoint_ok st (insertCheckpoint i (int n) h n newId now)"
  using assms by (cases "se_trail i") (auto simp add: checkpoint_ok_def insertCheckpoint_def pins_def rows_hash_def)

lemma seal_target:
  assumes "verifyChainKey env rq (se_chainKey i) (se_tenant i) vid st = (report, st1)"
  shows "(case se_trail i of AuditTrail \<Rightarrow> cr_audit report | SecurityTrail \<Rightarrow> cr_security report)
    = report_on env (se_trail i) (se_chainKey i) st"
  using assms by (auto simp add: verifyChainKey_def Let_def report_on_def split: TrailName.split)

lemma sealCheckpoint_seals:
  assumes ok: "trail_ok env st" and v: "verifyChainKey env rq (se_chainKey i) (se_tenant i) vid st = (report, st1)"
    and rows: "rows_hash env (se_trail i) (se_chainKey i) st = (Some h, n)" and n: "n \<noteq> 0"
  shows "sealCheckpoint env rq i (cid, vid, sid) st =
    (Inr (insertCheckpoint i (int n) h n cid (rq_now rq)),
     publish env rq (seal_event i (show_int (int n)) n cid) sid
       (st1\<lparr>checkpoints := checkpoints st1 @ [insertCheckpoint i (int n) h n cid (rq_now rq)]\<rparr>))"
  using report_of_ok [OF ok, of "se_trail i" "se_chainKey i", unfolded rows fst_conv snd_conv] v n
  by (simp add: sealCheckpoint_def Let_def seal_target [OF v] insertCheckpoint_def)

lemma sealCheckpoint_cases:
  assumes ok: "trail_ok env st" and s: "sealCheckpoint env rq i (cid, vid, sid) st = (outcome, st')"
    and v: "verifyChainKey env rq (se_chainKey i) (se_tenant i) vid st = (report, st1)"
  shows "(\<exists>m. outcome = Inl (TrailForbidden m)) \<and> st' = st1 \<or>
    (\<exists>c p. outcome = Inr c \<and> checkpoint_ok st c \<and>
      st' = publish env rq (seal_event i p (ck_rowCount c) cid) sid (st1\<lparr>checkpoints := checkpoints st1 @ [c]\<rparr>))"
proof -
  obtain hash n where rows: "rows_hash env (se_trail i) (se_chainKey i) st = (hash, n)" by fastforce
  note facts = report_of_ok [OF ok, of "se_trail i" "se_chainKey i", unfolded rows fst_conv snd_conv]
  show ?thesis
  proof (cases "n = 0")
    case True
    then have "cv_headSequence (report_on env (se_trail i) (se_chainKey i) st) = None" using facts(3) by simp
    then show ?thesis
      using s v facts(1) by (auto simp add: sealCheckpoint_def Let_def seal_target [OF v] split: option.splits)
  next
    case False
    obtain h where h: "rows_hash env (se_trail i) (se_chainKey i) st = (Some h, n)"
      using head_of_ok [OF ok, of "se_trail i" "se_chainKey i"] False rows by auto
    show ?thesis
      using insertCheckpoint_ok [OF h False] sealCheckpoint_seals [OF ok v h False, of cid sid] s
      by (force simp add: insertCheckpoint_def)
  qed
qed

lemma publish_checkpoints [simp]: "checkpoints (publish env rq e newId st) = checkpoints st"
  by (simp add: publish_def record_security_def appendSecurityEvent_def Let_def split: prod.split)

lemma verifyChainKey_checkpoints: "verifyChainKey env rq key tenant newId st = (report, st') \<Longrightarrow> checkpoints st' = checkpoints st"
  by (auto simp add: verifyChainKey_def Let_def)

lemma sealCheckpoint_ok:
  assumes "keeps_content env" and "trail_ok env st"
  shows "trail_ok env (snd (sealCheckpoint env rq i newIds st))" "trail_grows st (snd (sealCheckpoint env rq i newIds st))"
proof -
  obtain cid vid sid where ids: "newIds = (cid, vid, sid)" by (cases newIds)
  obtain report st1 where v: "verifyChainKey env rq (se_chainKey i) (se_tenant i) vid st = (report, st1)" by fastforce
  obtain outcome st' where s: "sealCheckpoint env rq i newIds st = (outcome, st')" by fastforce
  note one = verifyChainKey_ok [OF assms v]
  have "trail_ok env st' \<and> trail_grows st st'"
    using sealCheckpoint_cases [OF assms(2) s [unfolded ids] v]
  proof (elim disjE exE conjE)
    fix c p
    assume c: "checkpoint_ok st c"
      and st': "st' = publish env rq (seal_event i p (ck_rowCount c) cid) sid (st1\<lparr>checkpoints := checkpoints st1 @ [c]\<rparr>)"
    note two = add_checkpoint_ok [OF one(1) checkpoint_ok_grows [OF c one(2)]]
    show ?thesis
      using publish_ok [OF assms(1) two(1)] one(2) two(2) trail_grows_trans unfolding st' by blast
  qed (use one in simp)
  then show "trail_ok env (snd (sealCheckpoint env rq i newIds st))" "trail_grows st (snd (sealCheckpoint env rq i newIds st))"
    using s by simp_all
qed

section \<open>The service\<close>

definition trail_allowed :: "trail_env \<Rightarrow> trail_op \<Rightarrow> trail_state \<Rightarrow> bool" where
  "trail_allowed env op st \<longleftrightarrow> keeps_content env"

lemma verifyForTenant_ok:
  assumes "keeps_content env" and "trail_ok env st" and "verifyForTenant env rq cx tenant newId st = Inr (report, st')"
  shows "trail_ok env st' \<and> trail_grows st st'"
proof -
  have "verifyChainKey env rq tenant (Some tenant) newId st = (report, st')"
    using assms(3) by (auto simp add: verifyForTenant_def Let_def split: sum.splits if_splits)
  then show ?thesis using verifyChainKey_ok [OF assms(1,2)] by blast
qed

lemma trail_step_ok:
  assumes "keeps_content env" and "trail_ok env st" and "trail_step env op st = Inr st'"
  shows "trail_ok env st' \<and> trail_grows st st'"
proof (cases op)
  case (RecordAuditOp tenant i rq newId)
  then show ?thesis
    using assms(3) appendAuditEvent_ok [OF assms(1,2)] by (auto simp add: appendWithinCurrentScope_def)
next
  case (RecordSecurityOp i rq newId)
  then show ?thesis
    using assms(3) appendSecurityEvent_ok [OF assms(1,2)] by (auto simp add: record_security_def)
next
  case (RecordSuspiciousOp i rq newId)
  then show ?thesis
    using assms(3) appendSecurityEvent_ok [OF assms(1,2)] by (auto simp add: recordSuspicious_def record_security_def)
next
  case (PublishOp e rq newId)
  then show ?thesis using assms(3) publish_ok [OF assms(1,2)] by auto
next
  case (VerifyTenantOp cx tenant rq newId)
  then show ?thesis
    using assms(3) verifyForTenant_ok [OF assms(1,2)] by (cases "verifyForTenant env rq cx tenant newId st") auto
next
  case (VerifyPlatformOp rq newId)
  obtain report st1 where v: "verifyChainKey env rq PLATFORM_CHAIN_KEY None newId st = (report, st1)" by fastforce
  then show ?thesis
    using assms(3) verifyChainKey_ok [OF assms(1,2) v] VerifyPlatformOp by (simp add: verifyPlatformChains_def)
next
  case (SealOp i rq newIds)
  then show ?thesis using assms(3) sealCheckpoint_ok [OF assms(1,2), of rq i newIds] by simp
qed

interpretation trail_service: monotone_service "trail_step env" "trail_allowed env" "trail_ok env" trail_grows for env
  by unfold_locales
    (auto simp add: trail_allowed_def trail_grows_refl dest: trail_step_ok intro: trail_grows_trans)

lemma no_trail_ok: "trail_ok env no_trail"
  by (simp add: trail_ok_def no_trail_def table_ok_def chain_rows_def)

end
