(* ===== verification/Audit_Properties.thy ===== *)
theory Audit_Properties
  imports Audit_Service
begin

text \<open>
  The properties of the audit trail: what the verifier accepts, that what the services write is
  accepted, and what tampering it detects and what it does not.
\<close>

section \<open>The canonical encoding\<close>

lemma canon_defined [simp]: "canon j \<noteq> JUndefined"
  by (cases j) auto

lemma canon_idem: "canon (canon j) = canon j"
proof (induction j rule: canon.induct)
  case (7 fields)
  let ?kept = "sort_key fst (filter (\<lambda>f. snd f \<noteq> JUndefined) fields)"
  let ?done = "map (\<lambda>f. (fst f, canon (snd f))) ?kept"
  have "filter (\<lambda>f. snd f \<noteq> JUndefined) ?done = ?done" by (simp add: filter_id_conv)
  moreover have "sort_key fst ?done = ?done" by (rule sort_key_id_if_sorted) (simp add: comp_def)
  moreover have "map (\<lambda>f. (fst f, canon (snd f))) ?done = ?done" using 7 by auto
  ultimately show ?case by (simp only: canon.simps)
qed auto

text \<open>
  \<open>stableStringify\<close> is a canonical form: two values have the same encoding exactly when they agree
  up to the order of the keys of their objects and to fields that are \<open>undefined\<close>, so distinct
  contents are never hashed as one string.
\<close>

theorem encoding_is_canonical: "stableStringify a = stableStringify b \<longleftrightarrow> canon a = canon b"
  by (rule stableStringify_eq_iff)

section \<open>What the verifier accepts\<close>

text \<open>
  C20. The verifier calls a chain intact exactly when, in the order of their positions, each chained
  row takes the position after its predecessor's, carries the predecessor's hash and stores the hash
  of its own content.
\<close>

theorem intact_iff_linked:
  "cv_intact (verifyChain key trail rows hashRow expected) \<longleftrightarrow>
   linked hashRow key (map_option fst expected) (map_option snd expected) (sort_key the_sequence (chained rows))"
  by (rule verifyChain_intact_iff)

lemma env_ok_keeps: "keeps_content env \<Longrightarrow> env_ok (trail_allowed env) step ops st"
  by (induction ops arbitrary: st) (auto simp add: trail_allowed_def)

lemma reached_ok: "keeps_content env \<Longrightarrow> trail_ok env (run_ops (trail_step env) ops no_trail)"
  by (intro trail_service.run_inv no_trail_ok env_ok_keeps)

text \<open>
  C6. Whatever sequence of recordings, verifications and sealings has run, and although the database
  may reorder the keys of the metadata, every chain of both trails verifies.
\<close>

theorem written_chains_verify:
  assumes "keeps_content env"
  shows "cv_intact (report_on env trail key (run_ops (trail_step env) ops no_trail))"
  using report_of_ok(1) [OF reached_ok [OF assms]] .

definition sample_env :: trail_env where
  "sample_env = \<lparr>te_sha = id, te_jsonb = canon\<rparr>"

definition sample_request :: request_env where
  "sample_request = \<lparr>rq_actorUserId = Some ''u1'', rq_correlationId = None, rq_now = 1000\<rparr>"

definition sample_input :: AuditEventInput where
  "sample_input = \<lparr>ai_action = ''tenant.updated'', ai_resourceType = ''tenant'', ai_resourceId = Some ''t1'',
     ai_reason = None, ai_summary = Some ''Renamed.'', ai_resourceVersion = Some 2, ai_resourceRef = None,
     ai_actorUserId = None, ai_metadata = Some [(''plan'', JString ''pro''), (''apiToken'', JString ''x'')],
     ai_correlationId = None, ai_occurredAt = None\<rparr>"

definition sample_seal :: seal_input where
  "sample_seal = \<lparr>se_chainKey = ''t1'', se_trail = AuditTrail, se_tenant = Some ''t1'', se_sealedBy = None,
     se_anchorRef = Some ''vault''\<rparr>"

definition sample_ops :: "trail_op list" where
  "sample_ops = [RecordAuditOp (Some ''t1'') sample_input sample_request ''e1'',
     SealOp sample_seal sample_request (''c1'', ''e2'', ''e3'')]"

lemma sample_keeps: "keeps_content sample_env"
  by (simp add: keeps_content_def sample_env_def canon_idem)

theorem written_chains_verify_witness:
  "cv_intact (report_on sample_env AuditTrail ''t1'' (run_ops (trail_step sample_env) sample_ops no_trail))"
  using written_chains_verify [OF sample_keeps] .

section \<open>Tampering\<close>

lemma hashed_strings_sorted:
  "hashed_strings covered key (sort_key the_sequence (chained rows)) \<subseteq> hashed_strings covered key rows"
  by (auto simp add: hashed_strings_def chained_def)

text \<open>
  C5. A tampered trail is found out by its head: if two versions of a chain both verify and end in
  the same hash, they hold the same rows in the same order - every column, the metadata up to key
  order - unless the digest collides on the strings they hash.
\<close>

theorem tampering_moves_the_head:
  assumes "cv_intact (verifyChain key AuditTrail rows (auditRowHash sha None) None)"
    and "cv_intact (verifyChain key AuditTrail rows' (auditRowHash sha None) None)"
    and "cv_headHash (verifyChain key AuditTrail rows (auditRowHash sha None) None)
       = cv_headHash (verifyChain key AuditTrail rows' (auditRowHash sha None) None)"
    and "inj_on sha (hashed_strings audit_covered key rows \<union> hashed_strings audit_covered key rows')"
  shows "map (row_facts audit_content key) (sort_key the_sequence (chained rows))
       = map (row_facts audit_content key) (sort_key the_sequence (chained rows'))"
proof (rule audit_hash.same_head_same_rows [OF _ _ _ assms(4)])
  show "linked (auditRowHash sha None) key None None (sort_key the_sequence (chained rows))"
    "linked (auditRowHash sha None) key None None (sort_key the_sequence (chained rows'))"
    using assms(1,2) by (simp_all add: verifyChain_intact_iff)
  show "head_hash None (sort_key the_sequence (chained rows)) = head_hash None (sort_key the_sequence (chained rows'))"
    using assms(3) verifyChain_head(1) [OF assms(1)] verifyChain_head(1) [OF assms(2)] by simp
qed (use hashed_strings_sorted in \<open>blast+\<close>)

definition plain_env :: trail_env where
  "plain_env = \<lparr>te_sha = id, te_jsonb = id\<rparr>"

lemma plain_keeps: "keeps_content plain_env"
  by (simp add: keeps_content_def plain_env_def)

text \<open>One recorded event, kept by two databases that order keys differently.\<close>

definition one_event :: "trail_env \<Rightarrow> audit_payload VerifiableRow list" where
  "one_event env = readChain ''t1'' None
     (audit_rows (run_ops (trail_step env) [RecordAuditOp (Some ''t1'') sample_input sample_request ''e1''] no_trail))"

lemma one_event_intact:
  assumes "keeps_content env" and "te_sha env = id"
  shows "cv_intact (verifyChain ''t1'' AuditTrail (one_event env) (auditRowHash id None) None)"
  using report_of_ok(1) [OF reached_ok [OF assms(1)], of AuditTrail "''t1''"]
  by (simp del: run_ops.simps add: report_on_def verify_audit_def one_event_def assms(2))

lemma one_event_rows:
  "one_event env = [new_row ''e1'' ''t1'' 1 None
     (auditRowHash (te_sha env) None ''t1'' 1 None (normalise sample_request (Some ''t1'') sample_input))
     ((normalise sample_request (Some ''t1'') sample_input)\<lparr>ap_metadata :=
        stored_json env (ap_metadata (normalise sample_request (Some ''t1'') sample_input))\<rparr>)]"
proof -
  have "ap_tenantId (normalise sample_request (Some ''t1'') sample_input) = Some ''t1''" by (simp add: normalise_def)
  then show ?thesis
    by (simp add: one_event_def attempt_def appendWithinCurrentScope_def appendAuditEvent_def no_trail_def
        claimNextPosition_def readChain_def chainKeyForTenant_def Let_def chain_rows_def new_row_def)
qed

theorem tampering_moves_the_head_witness:
  "map (row_facts audit_content ''t1'') (sort_key the_sequence (chained (one_event sample_env)))
   = map (row_facts audit_content ''t1'') (sort_key the_sequence (chained (one_event plain_env)))"
proof (rule tampering_moves_the_head [where sha = id])
  show "cv_intact (verifyChain ''t1'' AuditTrail (one_event sample_env) (auditRowHash id None) None)"
    "cv_intact (verifyChain ''t1'' AuditTrail (one_event plain_env) (auditRowHash id None) None)"
    using one_event_intact [OF sample_keeps] one_event_intact [OF plain_keeps]
    by (simp_all add: sample_env_def plain_env_def)
  then show "cv_headHash (verifyChain ''t1'' AuditTrail (one_event sample_env) (auditRowHash id None) None)
      = cv_headHash (verifyChain ''t1'' AuditTrail (one_event plain_env) (auditRowHash id None) None)"
    by (simp add: verifyChain_head one_event_rows chained_def new_row_def sample_env_def plain_env_def)
qed simp

text \<open>
  C19. An anchored checkpoint pins history: whatever is written afterwards, and even if the whole
  table is replaced and every hash recomputed, a chain that verifies and still shows the anchored hash
  at the anchored position holds, up to there, exactly the rows that were sealed - unless the digest
  collides.
\<close>

theorem checkpoint_pins_history:
  assumes "keeps_content env" and "st = run_ops (trail_step env) ops no_trail"
    and "c \<in> set (checkpoints st)" and "ck_trail c = AuditTrail"
    and "presented = sort_key the_sequence (chained rows)"
    and "cv_intact (verifyChain (ck_chainKey c) AuditTrail rows (auditRowHash (te_sha env) None) None)"
    and "head_hash None (take (ck_rowCount c) presented) = Some (ck_rowHash c)"
    and "inj_on (te_sha env) (hashed_strings audit_covered (ck_chainKey c) rows
           \<union> hashed_strings audit_covered (ck_chainKey c) (audit_rows st))"
  shows "map (row_facts audit_content (ck_chainKey c)) (take (ck_rowCount c) presented)
       = map (row_facts audit_content (ck_chainKey c)) (take (ck_rowCount c) (chain_rows (ck_chainKey c) (audit_rows st)))"
proof (rule audit_hash.same_head_same_rows [OF _ _ _ assms(8)])
  let ?n = "ck_rowCount c" and ?rs = "chain_rows (ck_chainKey c) (audit_rows st)"
    and ?l = "linked (auditRowHash (te_sha env) None) (ck_chainKey c) None None"
  have ok: "trail_ok env st" using reached_ok [OF assms(1)] assms(2) by simp
  have prefix: "?l xs \<Longrightarrow> ?l (take n xs)" for xs n
    using linked_append [of _ _ _ _ "take n xs" "drop n xs"] by simp
  have "?l presented" using assms(5,6) by (simp add: verifyChain_intact_iff)
  then show "?l (take ?n presented)" by (rule prefix)
  have "table_ok (auditRowHash (te_sha env) None) (audit_rows st)" using ok by (simp add: trail_ok_def)
  from table_okD(1) [OF this] have "?l ?rs" .
  then show "?l (take ?n ?rs)" by (rule prefix)
  have "pins c (audit_rows st)" using ok assms(3,4) by (auto simp add: trail_ok_def checkpoint_ok_def)
  then show "head_hash None (take ?n presented) = head_hash None (take ?n ?rs)" using assms(7) by (simp add: pins_def)
  show "hashed_strings audit_covered (ck_chainKey c) (take ?n presented)
      \<subseteq> hashed_strings audit_covered (ck_chainKey c) rows \<union> hashed_strings audit_covered (ck_chainKey c) (audit_rows st)"
    using assms(5) hashed_strings_sorted [of audit_covered "ck_chainKey c" rows] set_take_subset [of ?n presented]
    by (auto simp add: hashed_strings_def)
  show "hashed_strings audit_covered (ck_chainKey c) (take ?n ?rs)
      \<subseteq> hashed_strings audit_covered (ck_chainKey c) rows \<union> hashed_strings audit_covered (ck_chainKey c) (audit_rows st)"
    using set_take_subset [of ?n ?rs] by (auto simp add: hashed_strings_def chain_rows_def)
qed

lemma sample_seals:
  "\<exists>c. checkpoints (run_ops (trail_step sample_env) sample_ops no_trail) = [c] \<and> ck_trail c = AuditTrail"
proof -
  let ?st = "appendWithinCurrentScope sample_env sample_request (Some ''t1'') sample_input ''e1'' no_trail"
  have tenant: "ap_tenantId (normalise sample_request (Some ''t1'') sample_input) = Some ''t1''" by (simp add: normalise_def)
  have ok: "trail_ok sample_env ?st"
    using appendAuditEvent_ok(1) [OF sample_keeps no_trail_ok] by (simp add: appendWithinCurrentScope_def)
  obtain h where rows: "rows_hash sample_env AuditTrail ''t1'' ?st = (Some h, 1)"
    using tenant by (simp add: rows_hash_def appendWithinCurrentScope_def appendAuditEvent_def no_trail_def
        claimNextPosition_def chainKeyForTenant_def Let_def chain_rows_def new_row_def)
  obtain report st1 where v: "verifyChainKey sample_env sample_request (se_chainKey sample_seal) (se_tenant sample_seal) ''e2'' ?st
      = (report, st1)" by fastforce
  have "checkpoints ?st = []"
    by (simp add: appendWithinCurrentScope_def appendAuditEvent_def no_trail_def Let_def split: prod.split)
  then have "checkpoints st1 = []" using verifyChainKey_checkpoints [OF v] by simp
  then have "checkpoints (snd (sealCheckpoint sample_env sample_request sample_seal (''c1'', ''e2'', ''e3'') ?st))
      = [insertCheckpoint sample_seal (int 1) h 1 ''c1'' (rq_now sample_request)]"
    using sealCheckpoint_seals [OF ok v, of h 1 "''c1''" "''e3''"] rows by (simp add: sample_seal_def)
  then show ?thesis
    by (simp add: sample_ops_def attempt_def insertCheckpoint_def) (simp add: sample_seal_def)
qed

theorem checkpoint_pins_history_witness:
  "\<exists>c. checkpoints (run_ops (trail_step sample_env) sample_ops no_trail) = [c] \<and>
     (let st = run_ops (trail_step sample_env) sample_ops no_trail; rows = readChain (ck_chainKey c) None (audit_rows st)
      in map (row_facts audit_content (ck_chainKey c)) (take (ck_rowCount c) (sort_key the_sequence (chained rows)))
       = map (row_facts audit_content (ck_chainKey c)) (take (ck_rowCount c) (chain_rows (ck_chainKey c) (audit_rows st))))"
proof -
  define st where "st = run_ops (trail_step sample_env) sample_ops no_trail"
  obtain c where c: "checkpoints st = [c]" "ck_trail c = AuditTrail" using sample_seals by (auto simp add: st_def)
  have ok: "trail_ok sample_env st" using reached_ok [OF sample_keeps] by (simp add: st_def)
  then have table: "table_ok (auditRowHash (te_sha sample_env) None) (audit_rows st)" by (simp add: trail_ok_def)
  have "pins c (audit_rows st)" using ok c by (simp add: trail_ok_def checkpoint_ok_def)
  then have "head_hash None (take (ck_rowCount c) (sort_key the_sequence (chained (readChain (ck_chainKey c) None (audit_rows st)))))
      = Some (ck_rowHash c)"
    using read_of_ok(1) [OF table] by (simp add: pins_def)
  moreover have "inj_on (te_sha sample_env) X" for X by (simp add: sample_env_def)
  ultimately show ?thesis
    using checkpoint_pins_history [OF sample_keeps st_def _ c(2) refl, of "readChain (ck_chainKey c) None (audit_rows st)"]
      c(1) verify_of_ok(1) [OF table] by (simp add: st_def [symmetric])
qed

text \<open>
  What recomputing the chain does not detect: the newest rows can be deleted and what is left
  still verifies, for every number of rows.
\<close>

theorem newest_rows_may_vanish:
  assumes "keeps_content env" and "st = run_ops (trail_step env) ops no_trail"
  shows "cv_intact (verifyChain key AuditTrail (take n (readChain key None (audit_rows st))) (auditRowHash (te_sha env) None) None)"
proof -
  let ?rs = "chain_rows key (audit_rows st)"
  have ok: "table_ok (auditRowHash (te_sha env) None) (audit_rows st)"
    using reached_ok [OF assms(1)] assms(2) by (simp add: trail_ok_def)
  note pos = positions_sorted [OF table_okD(2) [OF ok, of key]]
  have linked: "linked (auditRowHash (te_sha env) None) key None None (take n ?rs)"
    using table_okD(1) [OF ok, of key] linked_append [of _ _ _ _ "take n ?rs" "drop n ?rs"] by simp
  have "chained ?rs = ?rs"
    using pos(2) linked_hashes [OF table_okD(1) [OF ok, of key]] by (auto simp add: chained_def filter_id_conv)
  then have "chained (take n ?rs) = take n ?rs"
    using set_take_subset [of n ?rs] by (auto simp add: chained_def filter_id_conv)
  moreover have "sort_key the_sequence (take n ?rs) = take n ?rs"
    using pos(1) sorted_upt_int [of 1 "Suc (length ?rs)"]
    by (intro sort_key_id_if_sorted) (simp add: take_map [symmetric] sorted_wrt_take)
  ultimately show ?thesis using linked by (simp add: verifyChain_intact_iff read_of_ok(2) [OF ok])
qed

theorem newest_rows_may_vanish_witness:
  "cv_intact (verifyChain ''t1'' AuditTrail (take 1 (readChain ''t1'' None
     (audit_rows (run_ops (trail_step sample_env) (sample_ops @ sample_ops) no_trail)))) (auditRowHash (te_sha sample_env) None) None)"
  using newest_rows_may_vanish [OF sample_keeps refl] .

section \<open>What the columns hold\<close>

definition safe_field :: "string \<times> json \<Rightarrow> bool" where
  "safe_field f \<longleftrightarrow> (forbidden_key (fst f) \<longrightarrow> (case snd f of JString s \<Rightarrow> s = ''[redacted]'' | _ \<Rightarrow> True))"

definition redacted :: "json \<Rightarrow> bool" where
  "redacted j = (case j of JObject entries \<Rightarrow> list_all safe_field entries | _ \<Rightarrow> True)"



















end
