(* ===== verification/Work_Log.thy ===== *)
theory Work_Log
  imports Audit_Trail
begin

text \<open>
  What the services about people's work write beside their own tables: audit events, as the inputs of
  \<open>audit-event.service.ts\<close>, and notifications, as the inputs of \<open>notification.service.ts\<close>.  The
  identifiers the database generates come from a counter.
\<close>

record notice =
  no_tenant :: uid
  no_recipient :: uid
  no_kind :: string
  no_severity :: "string option"
  no_title :: string
  no_body :: string
  no_deepLink :: string
  no_resourceType :: string
  no_resourceId :: uid
  no_assignedToRecipient :: "bool option"
  no_dedupeKey :: string
  no_escalatesAt :: "instant option"
  no_occurredAt :: "instant option"

record work_log =
  lg_seed :: nat
  lg_audits :: "(uid \<times> AuditEventInput) list"
  lg_notices :: "notice list"

definition fresh_id :: "nat \<Rightarrow> uid" where
  "fresh_id n = ''id-'' @ show_nat n"

definition next_id :: "'a work_log_scheme \<Rightarrow> uid" where
  "next_id st = fresh_id (lg_seed st)"

definition issue :: "'a work_log_scheme \<Rightarrow> 'a work_log_scheme" where
  "issue st = st\<lparr>lg_seed := Suc (lg_seed st)\<rparr>"

definition append_audit :: "uid \<Rightarrow> AuditEventInput \<Rightarrow> 'a work_log_scheme \<Rightarrow> 'a work_log_scheme" where
  "append_audit tenant i st = st\<lparr>lg_audits := lg_audits st @ [(tenant, i)]\<rparr>"

definition raise_notice :: "notice \<Rightarrow> 'a work_log_scheme \<Rightarrow> 'a work_log_scheme" where
  "raise_notice n st = st\<lparr>lg_notices := lg_notices st @ [n]\<rparr>"

text \<open>An audit event with the columns every service here fills.\<close>

definition audit_of ::
  "string \<Rightarrow> string \<Rightarrow> uid \<Rightarrow> uid option \<Rightarrow> string option \<Rightarrow> nat option \<Rightarrow> string \<Rightarrow> TrailMetadata \<Rightarrow> AuditEventInput" where
  "audit_of action resourceType resource actor ref version summary metadata =
     \<lparr>ai_action = action, ai_resourceType = resourceType, ai_resourceId = Some resource, ai_reason = None,
      ai_summary = Some summary, ai_resourceVersion = map_option int version, ai_resourceRef = ref,
      ai_actorUserId = actor, ai_metadata = Some metadata, ai_correlationId = None, ai_occurredAt = None\<rparr>"

definition jtext :: "string option \<Rightarrow> json" where
  "jtext s = (case s of None \<Rightarrow> JNull | Some t \<Rightarrow> JString t)"

definition quoted :: "string \<Rightarrow> string" where
  "quoted s = ''\"'' @ s @ ''\"''"

section \<open>Lemmas\<close>

lemmas log_defs = issue_def append_audit_def raise_notice_def

lemma fresh_id_inj [simp]: "fresh_id m = fresh_id n \<longleftrightarrow> m = n"
  by (simp add: fresh_id_def)

lemma issue_simps [simp]: "lg_seed (issue st) = Suc (lg_seed st)" "lg_audits (issue st) = lg_audits st"
  "lg_notices (issue st) = lg_notices st"
  by (simp_all add: issue_def)

lemma append_audit_simps [simp]: "lg_seed (append_audit t i st) = lg_seed st"
  "lg_notices (append_audit t i st) = lg_notices st" "lg_audits (append_audit t i st) = lg_audits st @ [(t, i)]"
  by (simp_all add: append_audit_def)

lemma raise_notice_simps [simp]: "lg_seed (raise_notice n st) = lg_seed st"
  "lg_audits (raise_notice n st) = lg_audits st" "lg_notices (raise_notice n st) = lg_notices st @ [n]"
  by (simp_all add: raise_notice_def)

end
