(* ===== verification/Performance.thy ===== *)
theory Performance
  imports Work_Log
begin

text \<open>
  \<open>src/apps/api/src/performance/performance.service.ts\<close>: the policy a company scores by, the events that
  score its people, the badge that follows, and what one person's score is made of.  Points and
  scores are the integers of the columns.
\<close>

section \<open>Rows\<close>

datatype BadgeLevel = Bronze | Silver | Gold | Platinum | Diamond

definition BADGE_LADDER :: "BadgeLevel list" where
  "BADGE_LADDER = [Bronze, Silver, Gold, Platinum, Diamond]"

fun BADGE_LEVEL_LABELS :: "BadgeLevel \<Rightarrow> string" where
  "BADGE_LEVEL_LABELS Bronze = ''Starter''"
| "BADGE_LEVEL_LABELS Silver = ''Skilled''"
| "BADGE_LEVEL_LABELS Gold = ''Pro''"
| "BADGE_LEVEL_LABELS Platinum = ''Elite''"
| "BADGE_LEVEL_LABELS Diamond = ''Legend''"

fun badge_name :: "BadgeLevel \<Rightarrow> string" where
  "badge_name Bronze = ''Bronze''"
| "badge_name Silver = ''Silver''"
| "badge_name Gold = ''Gold''"
| "badge_name Platinum = ''Platinum''"
| "badge_name Diamond = ''Diamond''"

fun badge_index :: "BadgeLevel \<Rightarrow> nat" where
  "badge_index Bronze = 0"
| "badge_index Silver = 1"
| "badge_index Gold = 2"
| "badge_index Platinum = 3"
| "badge_index Diamond = 4"

datatype PerformanceEventKind = OnTimeAccepted | LateCompletion | Missed | QualityRejected
  | ManualAdjustment | BlockerNeutralised

fun event_kind_name :: "PerformanceEventKind \<Rightarrow> string" where
  "event_kind_name OnTimeAccepted = ''OnTimeAccepted''"
| "event_kind_name LateCompletion = ''LateCompletion''"
| "event_kind_name Missed = ''Missed''"
| "event_kind_name QualityRejected = ''QualityRejected''"
| "event_kind_name ManualAdjustment = ''ManualAdjustment''"
| "event_kind_name BlockerNeutralised = ''BlockerNeutralised''"

record performance_policy =
  pp_id :: uid
  pp_tenant :: uid
  pp_version :: nat
  pp_onTimeAccepted :: int
  pp_lateCompletion :: int
  pp_missed :: int
  pp_qualityRejected :: int
  pp_missedAfterHours :: int
  pp_bronze :: int
  pp_silver :: int
  pp_gold :: int
  pp_platinum :: int
  pp_diamond :: int
  pp_neutraliseFully :: bool
  pp_rewardPoints :: bool
  pp_supersededAt :: "instant option"
  pp_reason :: string
  pp_createdBy :: "uid option"

record performance_event =
  pf_id :: uid
  pf_tenant :: uid
  pf_subject :: uid
  pf_kind :: PerformanceEventKind
  pf_sourceKind :: string
  pf_sourceId :: string
  pf_employment :: "uid option"
  pf_points :: int
  pf_policy :: uid
  pf_policyVersion :: nat
  pf_neutralises :: "uid option"
  pf_reason :: "string option"
  pf_occurredAt :: instant
  pf_recordedBy :: "uid option"

record badge_row =
  bh_id :: uid
  bh_tenant :: uid
  bh_subject :: uid
  bh_level :: BadgeLevel
  bh_score :: int
  bh_startedAt :: instant
  bh_endedAt :: "instant option"
  bh_exit :: bool

record performance_state = work_log +
  ps_policies :: "performance_policy list"
  ps_events :: "performance_event list"
  ps_badges :: "badge_row list"

section \<open>Scores and levels\<close>

text \<open>A neutralisation that cancels in full is not counted, and neither is what it cancels.\<close>

definition counted :: "uid list \<Rightarrow> performance_policy \<Rightarrow> performance_event \<Rightarrow> bool" where
  "counted neutralised policy e \<longleftrightarrow>
     \<not> (pp_neutraliseFully policy \<and> pf_id e \<in> set neutralised)
     \<and> \<not> (pp_neutraliseFully policy \<and> pf_kind e = BlockerNeutralised \<and> pf_neutralises e \<noteq> None)"

definition scoreOf :: "performance_event list \<Rightarrow> uid list \<Rightarrow> performance_policy \<Rightarrow> int" where
  "scoreOf events neutralised policy =
     foldl (\<lambda>total e. if counted neutralised policy e then total + pf_points e else total) 0 events"

definition level_thresholds :: "performance_policy \<Rightarrow> (BadgeLevel \<times> int) list" where
  "level_thresholds p = [(Diamond, pp_diamond p), (Platinum, pp_platinum p), (Gold, pp_gold p),
     (Silver, pp_silver p), (Bronze, pp_bronze p)]"

definition levelFor :: "int \<Rightarrow> performance_policy \<Rightarrow> BadgeLevel" where
  "levelFor score policy =
     (case List.find (\<lambda>(l, t). t \<le> score) (level_thresholds policy) of Some (l, t) \<Rightarrow> l | None \<Rightarrow> Bronze)"

definition nextLevelFor :: "int \<Rightarrow> performance_policy \<Rightarrow> (BadgeLevel \<times> int) option" where
  "nextLevelFor score p =
     map_option (\<lambda>(l, t). (l, t - score))
       (List.find (\<lambda>(l, t). score < t)
          [(Silver, pp_silver p), (Gold, pp_gold p), (Platinum, pp_platinum p), (Diamond, pp_diamond p)])"

definition neutralised_ids :: "performance_event list \<Rightarrow> uid list" where
  "neutralised_ids events = List.map_filter pf_neutralises events"

definition events_of :: "uid \<Rightarrow> uid \<Rightarrow> 'a performance_state_scheme \<Rightarrow> performance_event list" where
  "events_of tenant subject st = filter (\<lambda>e. pf_tenant e = tenant \<and> pf_subject e = subject) (ps_events st)"

definition score_of_subject :: "uid \<Rightarrow> uid \<Rightarrow> performance_policy \<Rightarrow> 'a performance_state_scheme \<Rightarrow> int" where
  "score_of_subject tenant subject policy st =
     (let es = events_of tenant subject st in scoreOf es (neutralised_ids es) policy)"

section \<open>The policy\<close>

definition active_policy_row :: "uid \<Rightarrow> performance_policy list \<Rightarrow> performance_policy option" where
  "active_policy_row tenant rows = List.find (\<lambda>p. pp_tenant p = tenant \<and> pp_supersededAt p = None) rows"

text \<open>The baseline takes every default of the table.\<close>

definition baseline_policy :: "uid \<Rightarrow> uid \<Rightarrow> performance_policy" where
  "baseline_policy newId tenant =
     \<lparr>pp_id = newId, pp_tenant = tenant, pp_version = 1, pp_onTimeAccepted = 10, pp_lateCompletion = - 5,
      pp_missed = - 15, pp_qualityRejected = - 10, pp_missedAfterHours = 24, pp_bronze = 0, pp_silver = 100,
      pp_gold = 300, pp_platinum = 600, pp_diamond = 1000, pp_neutraliseFully = True, pp_rewardPoints = False,
      pp_supersededAt = None,
      pp_reason = ''Baseline policy created on first use so performance can be scored from day one. Thresholds are the documented defaults.'',
      pp_createdBy = None\<rparr>"

definition activePolicy :: "uid \<Rightarrow> 'a performance_state_scheme \<Rightarrow> performance_policy \<times> 'a performance_state_scheme" where
  "activePolicy tenant st =
     (case active_policy_row tenant (ps_policies st) of
        Some p \<Rightarrow> (p, st)
      | None \<Rightarrow> (let p = baseline_policy (next_id st) tenant
                  in (p, issue (st\<lparr>ps_policies := ps_policies st @ [p]\<rparr>))))"

record policy_changes =
  ch_onTimeAccepted :: "int option"
  ch_lateCompletion :: "int option"
  ch_missed :: "int option"
  ch_qualityRejected :: "int option"
  ch_bronze :: "int option"
  ch_silver :: "int option"
  ch_gold :: "int option"
  ch_platinum :: "int option"
  ch_diamond :: "int option"
  ch_neutraliseFully :: "bool option"
  ch_rewardPoints :: "bool option"

definition given_or :: "'b option \<Rightarrow> 'b \<Rightarrow> 'b" where
  "given_or new old = (case new of None \<Rightarrow> old | Some v \<Rightarrow> v)"

text \<open>The column \<open>missedAfterHours\<close> is not among those carried over, so it takes its default.\<close>

definition next_policy :: "uid \<Rightarrow> uid \<Rightarrow> string \<Rightarrow> policy_changes \<Rightarrow> performance_policy \<Rightarrow> performance_policy" where
  "next_policy newId actor reason c p =
     \<lparr>pp_id = newId, pp_tenant = pp_tenant p, pp_version = Suc (pp_version p),
      pp_onTimeAccepted = given_or (ch_onTimeAccepted c) (pp_onTimeAccepted p),
      pp_lateCompletion = given_or (ch_lateCompletion c) (pp_lateCompletion p),
      pp_missed = given_or (ch_missed c) (pp_missed p),
      pp_qualityRejected = given_or (ch_qualityRejected c) (pp_qualityRejected p),
      pp_missedAfterHours = 24,
      pp_bronze = given_or (ch_bronze c) (pp_bronze p), pp_silver = given_or (ch_silver c) (pp_silver p),
      pp_gold = given_or (ch_gold c) (pp_gold p), pp_platinum = given_or (ch_platinum c) (pp_platinum p),
      pp_diamond = given_or (ch_diamond c) (pp_diamond p),
      pp_neutraliseFully = given_or (ch_neutraliseFully c) (pp_neutraliseFully p),
      pp_rewardPoints = given_or (ch_rewardPoints c) (pp_rewardPoints p),
      pp_supersededAt = None, pp_reason = trim reason, pp_createdBy = Some actor\<rparr>"

datatype performance_error =
    PerformanceRefused decision_message | PolicyNeedsReason | EventNamesNoSource | EventNeedsReason PerformanceEventKind
  | NeutralisesNothing | AdjustmentNeedsPoints | NoSuchEvent | EventCostNothing

text \<open>
  \<open>setPolicy\<close>: the refusals, then a new version that supersedes the active one.
\<close>

definition setPolicy ::
  "authz_context \<Rightarrow> uid \<Rightarrow> instant \<Rightarrow> string \<Rightarrow> policy_changes \<Rightarrow> 'a performance_state_scheme
   \<Rightarrow> performance_error + (performance_policy \<times> 'a performance_state_scheme)" where
  "setPolicy cx actor now reason c st =
     (case assertCan cx None \<lparr>in_module = ''performance'', in_action = ''Administer'', in_resource = None,
             in_actingAsAgent = False, in_additionalSod = []\<rparr> of
        Inl m \<Rightarrow> Inl (PerformanceRefused m)
      | Inr _ \<Rightarrow>
          if blank reason then Inl PolicyNeedsReason
          else (let (p, st1) = activePolicy (cx_tenantId cx) st;
                    new = next_policy (next_id st1) actor reason c p
                in Inr (new, append_audit (cx_tenantId cx)
                     ((audit_of ''performance.policy_versioned'' ''performance_policy'' (pp_id new) (Some actor) None
                        (Some (pp_version new))
                        (''Performance policy version '' @ show_nat (pp_version p) @ '' -> '' @ show_nat (pp_version new) @ ''.'')
                        [(''fromVersion'', JNumber (int (pp_version p))), (''toVersion'', JNumber (int (pp_version new))),
                         (''pastScoresRewritten'', JBool False)])\<lparr>ai_reason := Some (trim reason)\<rparr>)
                     (issue (st1\<lparr>ps_policies :=
                        update_where (\<lambda>r. pp_id r = pp_id p) (pp_supersededAt_update (\<lambda>_. Some now)) (ps_policies st1)
                        @ [new]\<rparr>)))))"

section \<open>Recording an event\<close>

record event_input =
  ei_subject :: uid
  ei_kind :: PerformanceEventKind
  ei_sourceKind :: string
  ei_sourceId :: string
  ei_reason :: "string option"
  ei_neutralises :: "uid option"
  ei_points :: "int option"
  ei_recordedBy :: "uid option"
  ei_occurredAt :: "instant option"

definition pointsFor :: "uid \<Rightarrow> performance_policy \<Rightarrow> event_input \<Rightarrow> performance_event list \<Rightarrow> performance_error + int" where
  "pointsFor tenant policy i events =
     (case ei_kind i of
        OnTimeAccepted \<Rightarrow> Inr (pp_onTimeAccepted policy)
      | LateCompletion \<Rightarrow> Inr (pp_lateCompletion policy)
      | Missed \<Rightarrow> Inr (pp_missed policy)
      | QualityRejected \<Rightarrow> Inr (pp_qualityRejected policy)
      | ManualAdjustment \<Rightarrow> (case ei_points i of None \<Rightarrow> Inl AdjustmentNeedsPoints | Some p \<Rightarrow> Inr p)
      | BlockerNeutralised \<Rightarrow>
          (case List.find (\<lambda>e. pf_tenant e = tenant \<and> Some (pf_id e) = ei_neutralises i) events of
             None \<Rightarrow> Inl NoSuchEvent
           | Some target \<Rightarrow>
               if 0 \<le> pf_points target then Inl EventCostNothing
               else Inr (if pp_neutraliseFully policy then - pf_points target else - pf_points target div 2)))"

definition same_event :: "uid \<Rightarrow> event_input \<Rightarrow> performance_event \<Rightarrow> bool" where
  "same_event tenant i e \<longleftrightarrow>
     pf_tenant e = tenant \<and> pf_subject e = ei_subject i \<and> pf_sourceKind e = trim (ei_sourceKind i)
     \<and> pf_sourceId e = trim (ei_sourceId i) \<and> pf_kind e = ei_kind i"

definition hasEvent :: "uid \<Rightarrow> event_input \<Rightarrow> 'a performance_state_scheme \<Rightarrow> bool" where
  "hasEvent tenant i st \<longleftrightarrow> list_ex (same_event tenant i) (ps_events st)"

text \<open>\<open>input.reason?.trim()\<close>: absent and blank reasons alike are none.\<close>

definition reason_text :: "string option \<Rightarrow> string option" where
  "reason_text r = (case r of None \<Rightarrow> None | Some s \<Rightarrow> if blank s then None else Some (trim s))"

definition new_event :: "uid \<Rightarrow> uid \<Rightarrow> uid option \<Rightarrow> instant \<Rightarrow> int \<Rightarrow> performance_policy \<Rightarrow> event_input \<Rightarrow> performance_event" where
  "new_event newId tenant employment now points policy i =
     \<lparr>pf_id = newId, pf_tenant = tenant, pf_subject = ei_subject i, pf_kind = ei_kind i,
      pf_sourceKind = trim (ei_sourceKind i), pf_sourceId = trim (ei_sourceId i), pf_employment = employment,
      pf_points = points, pf_policy = pp_id policy, pf_policyVersion = pp_version policy,
      pf_neutralises = ei_neutralises i, pf_reason = reason_text (ei_reason i),
      pf_occurredAt = (case ei_occurredAt i of None \<Rightarrow> now | Some t \<Rightarrow> t), pf_recordedBy = ei_recordedBy i\<rparr>"

definition event_audit :: "performance_event \<Rightarrow> AuditEventInput" where
  "event_audit e =
     (audit_of ''performance.event_recorded'' ''performance_event'' (pf_id e) (pf_recordedBy e) None None
        (event_kind_name (pf_kind e) @ '' scored '' @ show_int (pf_points e) @ '' for this person.'')
        [(''subjectUserId'', JString (pf_subject e)), (''kind'', JString (event_kind_name (pf_kind e))),
         (''points'', JNumber (pf_points e)), (''sourceKind'', JString (pf_sourceKind e)),
         (''policyVersion'', JNumber (int (pf_policyVersion e)))])\<lparr>ai_reason := pf_reason e\<rparr>"

section \<open>The badge\<close>

definition open_badge :: "uid \<Rightarrow> uid \<Rightarrow> badge_row list \<Rightarrow> badge_row option" where
  "open_badge tenant subject rows =
     List.find (\<lambda>b. bh_tenant b = tenant \<and> bh_subject b = subject \<and> bh_endedAt b = None) rows"

definition badge_or_none :: "badge_row option \<Rightarrow> string" where
  "badge_or_none b = (case b of None \<Rightarrow> ''none'' | Some r \<Rightarrow> badge_name (bh_level r))"

definition badge_notice :: "uid \<Rightarrow> uid \<Rightarrow> BadgeLevel option \<Rightarrow> BadgeLevel \<Rightarrow> int \<Rightarrow> instant \<Rightarrow> notice" where
  "badge_notice tenant subject previous reached score now =
     (let rose = (case previous of None \<Rightarrow> True | Some p \<Rightarrow> badge_index p < badge_index reached);
          label = BADGE_LEVEL_LABELS reached;
          was = (case previous of None \<Rightarrow> ''null'' | Some p \<Rightarrow> BADGE_LEVEL_LABELS p)
      in \<lparr>no_tenant = tenant, no_recipient = subject, no_kind = ''Badge'',
          no_severity = Some (if rose then ''Info'' else ''Warning''),
          no_title = (if rose then ''You reached '' @ label else ''Your badge moved to '' @ label),
          no_body = (if rose
            then ''Your performance score is '' @ show_int score @ '' points, which earns the '' @ label @ '' badge.''
                 @ (if previous = None then [] else '' You were at '' @ was @ ''.'')
            else ''Your performance score is now '' @ show_int score @ '' points, which puts you at '' @ label
                 @ '' rather than '' @ was @ ''. Your performance screen shows which outcomes moved it.''),
          no_deepLink = ''/performance'', no_resourceType = ''badge_history'', no_resourceId = subject,
          no_assignedToRecipient = Some True,
          no_dedupeKey = ''badge:'' @ subject @ '':'' @ badge_name reached @ '':'' @ slice_to 10 (toISOString now),
          no_escalatesAt = None, no_occurredAt = Some now\<rparr>)"

definition end_badge :: "instant \<Rightarrow> badge_row \<Rightarrow> badge_row" where
  "end_badge now b = b\<lparr>bh_endedAt := Some now\<rparr>"

definition badge_audit :: "uid \<Rightarrow> badge_row option \<Rightarrow> BadgeLevel \<Rightarrow> int \<Rightarrow> AuditEventInput" where
  "badge_audit subject current level score =
     audit_of ''performance.badge_changed'' ''badge_history'' subject None None None
       (''Badge '' @ badge_or_none current @ '' -> '' @ badge_name level @ '' at '' @ show_int score @ '' points.'')
       [(''subjectUserId'', JString subject), (''from'', jtext (map_option (badge_name \<circ> bh_level) current)),
        (''to'', JString (badge_name level)), (''score'', JNumber score)]"

text \<open>The change of badge: the open row ends, a new one starts, the person is told unless it is the
  entry rung of a first badge.\<close>

definition change_badge ::
  "uid \<Rightarrow> uid \<Rightarrow> badge_row option \<Rightarrow> BadgeLevel \<Rightarrow> int \<Rightarrow> instant \<Rightarrow> 'a performance_state_scheme \<Rightarrow> 'a performance_state_scheme" where
  "change_badge tenant subject current level score now st =
     (let ended = (case current of None \<Rightarrow> ps_badges st
                   | Some b \<Rightarrow> update_where (\<lambda>r. bh_id r = bh_id b) (end_badge now) (ps_badges st));
          row = \<lparr>bh_id = next_id st, bh_tenant = tenant, bh_subject = subject, bh_level = level, bh_score = score,
                 bh_startedAt = now, bh_endedAt = None, bh_exit = False\<rparr>;
          st1 = append_audit tenant (badge_audit subject current level score)
                  (issue (st\<lparr>ps_badges := ended @ [row]\<rparr>))
      in if current = None \<and> level = hd BADGE_LADDER then st1
         else raise_notice (badge_notice tenant subject (map_option bh_level current) level score now) st1)"

definition reconcileBadge :: "uid \<Rightarrow> uid \<Rightarrow> performance_policy \<Rightarrow> instant \<Rightarrow> 'a performance_state_scheme \<Rightarrow> 'a performance_state_scheme" where
  "reconcileBadge tenant subject policy now st =
     (let score = score_of_subject tenant subject policy st;
          level = levelFor score policy;
          current = open_badge tenant subject (ps_badges st)
      in if map_option bh_level current = Some level then st
         else change_badge tenant subject current level score now st)"

text \<open>
  \<open>recordEvent\<close>.  The policy a company does not have yet is created first and stays when the event
  is refused after it; \<open>True\<close> says the event was there already.
\<close>

definition event_problem :: "event_input \<Rightarrow> performance_error option" where
  "event_problem i =
     (if blank (ei_sourceKind i) \<or> blank (ei_sourceId i) then Some EventNamesNoSource
      else if (ei_kind i = ManualAdjustment \<or> ei_kind i = BlockerNeutralised) \<and> reason_text (ei_reason i) = None
           then Some (EventNeedsReason (ei_kind i))
      else if ei_kind i = BlockerNeutralised \<and> ei_neutralises i = None then Some NeutralisesNothing
      else None)"

definition recordEvent ::
  "uid \<Rightarrow> (uid \<Rightarrow> uid option) \<Rightarrow> instant \<Rightarrow> event_input \<Rightarrow> 'a performance_state_scheme
   \<Rightarrow> (performance_error + bool) \<times> 'a performance_state_scheme" where
  "recordEvent tenant employment now i st =
     (case event_problem i of
        Some e \<Rightarrow> (Inl e, st)
      | None \<Rightarrow>
          (let (policy, st1) = activePolicy tenant st
           in if hasEvent tenant i st1 then (Inr True, st1)
              else (case pointsFor tenant policy i (ps_events st1) of
                      Inl e \<Rightarrow> (Inl e, st1)
                    | Inr points \<Rightarrow>
                        (let e = new_event (next_id st1) tenant (employment (ei_subject i)) now points policy i;
                             st2 = append_audit tenant (event_audit e) (issue (st1\<lparr>ps_events := ps_events st1 @ [e]\<rparr>))
                         in (Inr False, reconcileBadge tenant (ei_subject i) policy now st2)))))"

section \<open>Exit and view\<close>

definition exit_badge :: "uid \<Rightarrow> uid \<Rightarrow> uid \<Rightarrow> BadgeLevel \<Rightarrow> int \<Rightarrow> instant \<Rightarrow> badge_row" where
  "exit_badge newId tenant subject level score now =
     \<lparr>bh_id = newId, bh_tenant = tenant, bh_subject = subject, bh_level = level, bh_score = score,
      bh_startedAt = now, bh_endedAt = Some now, bh_exit = True\<rparr>"

definition exit_audit :: "uid \<Rightarrow> BadgeLevel \<Rightarrow> int \<Rightarrow> performance_policy \<Rightarrow> AuditEventInput" where
  "exit_audit subject level score policy =
     audit_of ''performance.exit_snapshot'' ''badge_history'' subject None None None
       (''Final performance snapshot on employment exit: '' @ badge_name level @ '' at '' @ show_int score @ ''.'')
       [(''subjectUserId'', JString subject), (''level'', JString (badge_name level)),
        (''score'', JNumber score), (''policyVersion'', JNumber (int (pp_version policy)))]"

definition snapshotOnExit :: "uid \<Rightarrow> uid \<Rightarrow> instant \<Rightarrow> 'a performance_state_scheme
   \<Rightarrow> (BadgeLevel \<times> int) option \<times> 'a performance_state_scheme" where
  "snapshotOnExit tenant subject now st =
     (case active_policy_row tenant (ps_policies st) of
        None \<Rightarrow> (None, st)
      | Some policy \<Rightarrow>
          if events_of tenant subject st = [] then (None, st)
          else (let score = score_of_subject tenant subject policy st;
                    level = levelFor score policy;
                    ended = update_where (\<lambda>b. bh_tenant b = tenant \<and> bh_subject b = subject \<and> bh_endedAt b = None)
                              (end_badge now) (ps_badges st)
                in (Some (level, score),
                    append_audit tenant (exit_audit subject level score policy)
                      (issue (st\<lparr>ps_badges := ended @ [exit_badge (next_id st) tenant subject level score now]\<rparr>)))))"

record performance_view =
  vw_subject :: uid
  vw_score :: int
  vw_level :: BadgeLevel
  vw_next :: "(BadgeLevel \<times> int) option"
  vw_onTimePercent :: "int option"
  vw_counts :: "(PerformanceEventKind \<times> nat) list"
  vw_policyVersion :: nat
  vw_history :: "badge_row list"
  vw_recent :: "(performance_event \<times> bool) list"

definition count_kind :: "PerformanceEventKind \<Rightarrow> performance_event list \<Rightarrow> nat" where
  "count_kind k events = length (filter (\<lambda>e. pf_kind e = k) events)"

definition onTimePercent :: "performance_event list \<Rightarrow> int option" where
  "onTimePercent events =
     (let completed = count_kind OnTimeAccepted events + count_kind LateCompletion events + count_kind QualityRejected events
      in if completed = 0 then None
         else Some (js_round (fl (js_div (int (count_kind OnTimeAccepted events)) (int completed) * 100))))"

definition viewFor ::
  "authz_context \<Rightarrow> hierarchy_resolver option \<Rightarrow> (uid \<Rightarrow> uid option) \<Rightarrow> uid \<Rightarrow> uid \<Rightarrow> 'a performance_state_scheme
   \<Rightarrow> performance_error + (performance_view \<times> 'a performance_state_scheme)" where
  "viewFor cx h departmentOf actor subject st =
     (case assertCan cx h \<lparr>in_module = ''performance'', in_action = ''View'',
             in_resource = (if subject = actor then None
               else Some \<lparr>re_id = subject, ownerUserId = Some subject, createdByUserId = None,
                          re_departmentId = departmentOf subject, priorActorUserIds = None\<rparr>),
             in_actingAsAgent = False, in_additionalSod = []\<rparr> of
        Inl m \<Rightarrow> Inl (PerformanceRefused m)
      | Inr _ \<Rightarrow>
          (let tenant = cx_tenantId cx;
               (policy, st1) = activePolicy tenant st;
               events = sort_key (\<lambda>e. - pf_occurredAt e) (events_of tenant subject st1);
               gone = neutralised_ids events;
               score = scoreOf events gone policy
           in Inr (\<lparr>vw_subject = subject, vw_score = score, vw_level = levelFor score policy,
                    vw_next = nextLevelFor score policy, vw_onTimePercent = onTimePercent events,
                    vw_counts = map (\<lambda>k. (k, count_kind k events)) (dedupe (map pf_kind events)),
                    vw_policyVersion = pp_version policy,
                    vw_history = take 50 (sort_key (\<lambda>b. - bh_startedAt b)
                      (filter (\<lambda>b. bh_tenant b = tenant \<and> bh_subject b = subject) (ps_badges st1))),
                    vw_recent = map (\<lambda>e. (e, pf_id e \<in> set gone)) (take 50 events)\<rparr>, st1)))"

end
