(* ===== verification/Performance_Invariants.thy ===== *)
theory Performance_Invariants
  imports Performance Services
begin

text \<open>
  What the performance service keeps: one event per outcome, one active policy and one open badge,
  and a history that is only added to.  The service is an instance of the shared contract of
  services, over all sequences of its operations.
\<close>

section \<open>Scores\<close>

lemma scoreOf_sum: "scoreOf events gone p = (\<Sum>e\<leftarrow>filter (counted gone p) events. pf_points e)"
proof -
  have "foldl (\<lambda>t e. if counted gone p e then t + pf_points e else t) n es
        = n + (\<Sum>e\<leftarrow>filter (counted gone p) es. pf_points e)" for n es
    by (induction es arbitrary: n) auto
  then show ?thesis by (simp add: scoreOf_def)
qed

lemma levelFor_cases:
  "levelFor s p = (if pp_diamond p \<le> s then Diamond else if pp_platinum p \<le> s then Platinum
     else if pp_gold p \<le> s then Gold else if pp_silver p \<le> s then Silver else Bronze)"
  by (simp add: levelFor_def level_thresholds_def)

section \<open>The pieces of an operation\<close>

lemma activePolicy_simps [simp]: "ps_events (snd (activePolicy t st)) = ps_events st"
  "ps_badges (snd (activePolicy t st)) = ps_badges st" "lg_notices (snd (activePolicy t st)) = lg_notices st"
  "lg_audits (snd (activePolicy t st)) = lg_audits st"
  by (auto simp add: activePolicy_def Let_def log_defs split: option.split)

lemma activePolicy_tenant: "pp_tenant (fst (activePolicy t st)) = t"
  by (auto simp add: activePolicy_def Let_def active_policy_row_def baseline_policy_def dest: find_SomeD split: option.split)

lemma change_badge_simps [simp]: "ps_events (change_badge t s c l n now st) = ps_events st"
  "ps_policies (change_badge t s c l n now st) = ps_policies st"
  "lg_seed (change_badge t s c l n now st) = Suc (lg_seed st)"
  by (simp_all add: change_badge_def Let_def log_defs)

lemma change_badge_badges:
  "ps_badges (change_badge t s c l n now st) =
     (case c of None \<Rightarrow> ps_badges st | Some b \<Rightarrow> update_where (\<lambda>r. bh_id r = bh_id b) (end_badge now) (ps_badges st))
     @ [\<lparr>bh_id = next_id st, bh_tenant = t, bh_subject = s, bh_level = l, bh_score = n, bh_startedAt = now,
         bh_endedAt = None, bh_exit = False\<rparr>]"
  by (simp add: change_badge_def Let_def log_defs split: option.split)

lemma reconcileBadge_simps [simp]: "ps_events (reconcileBadge t s p now st) = ps_events st"
  "ps_policies (reconcileBadge t s p now st) = ps_policies st"
  by (simp_all add: reconcileBadge_def Let_def)

section \<open>The invariant\<close>

definition event_key :: "performance_event \<Rightarrow> uid \<times> uid \<times> string \<times> string \<times> PerformanceEventKind" where
  "event_key e = (pf_tenant e, pf_subject e, pf_sourceKind e, pf_sourceId e, pf_kind e)"

text \<open>No row has an identifier the counter has yet to give out.\<close>

definition owned :: "nat \<Rightarrow> uid list \<Rightarrow> bool" where
  "owned seed used \<longleftrightarrow> (\<forall>n \<ge> seed. fresh_id n \<notin> set used)"

definition open_badges :: "badge_row list \<Rightarrow> badge_row list" where
  "open_badges rows = filter (\<lambda>b. bh_endedAt b = None) rows"

definition active_policies :: "performance_policy list \<Rightarrow> performance_policy list" where
  "active_policies rows = filter (\<lambda>p. pp_supersededAt p = None) rows"

definition performance_ok :: "'a performance_state_scheme \<Rightarrow> bool" where
  "performance_ok st \<longleftrightarrow>
     distinct (map event_key (ps_events st)) \<and> distinct (map pf_id (ps_events st))
     \<and> distinct (map (\<lambda>b. (bh_tenant b, bh_subject b)) (open_badges (ps_badges st))) \<and> distinct (map bh_id (ps_badges st))
     \<and> distinct (map pp_tenant (active_policies (ps_policies st))) \<and> distinct (map pp_id (ps_policies st))
     \<and> owned (lg_seed st) (map pf_id (ps_events st)) \<and> owned (lg_seed st) (map bh_id (ps_badges st))
     \<and> owned (lg_seed st) (map pp_id (ps_policies st))"

lemma owned_Suc: "owned n used \<Longrightarrow> owned (Suc n) used"
  by (simp add: owned_def)

lemma owned_snoc: "owned n used \<Longrightarrow> owned (Suc n) (used @ [fresh_id n])"
  by (auto simp add: owned_def)

lemma owned_fresh: "owned n used \<Longrightarrow> fresh_id n \<notin> set used"
  by (simp add: owned_def)

lemmas owned_rules = owned_Suc owned_snoc owned_fresh

text \<open>A row found open is the only one, so ending it leaves none.\<close>

lemma filter_update_where_end:
  assumes "distinct (map k rows)" and "b \<in> set rows" and "\<And>r. Q (f r) = False"
  shows "filter Q (update_where (\<lambda>r. k r = k b) f rows) = filter (\<lambda>r. Q r \<and> k r \<noteq> k b) rows"
  using assms(3) by (induction rows) (auto simp add: update_where_def)

lemma distinct_map_filter_subset:
  "distinct (map f (filter P xs)) \<Longrightarrow> distinct (map f (filter (\<lambda>x. P x \<and> R x) xs))"
  by (metis distinct_map_filter filter_filter)

lemma activePolicy_ok:
  assumes "performance_ok st"
  shows "performance_ok (snd (activePolicy t st))"
proof (cases "active_policy_row t (ps_policies st)")
  case None
  have "\<forall>p \<in> set (active_policies (ps_policies st)). pp_tenant p \<noteq> t"
    using None by (auto simp add: active_policy_row_def active_policies_def find_None_iff)
  then show ?thesis
    using assms None
    by (auto simp add: activePolicy_def Let_def log_defs performance_ok_def active_policies_def baseline_policy_def
        next_id_def intro: owned_rules dest: owned_fresh)
qed (use assms in \<open>simp add: activePolicy_def\<close>)

lemma activePolicy_active:
  assumes "performance_ok st"
  shows "fst (activePolicy t st) \<in> set (ps_policies (snd (activePolicy t st)))"
    and "pp_supersededAt (fst (activePolicy t st)) = None"
    and "active_policy_row t (ps_policies (snd (activePolicy t st))) = Some (fst (activePolicy t st))"
  using assms find_SomeD
  by (fastforce simp add: activePolicy_def Let_def log_defs active_policy_row_def baseline_policy_def find_append split: option.split)+

text \<open>The badge of a person after a change is the new one.\<close>

lemma badges_after_change:
  assumes ids: "distinct (map bh_id rows)" and one: "distinct (map (\<lambda>b. (bh_tenant b, bh_subject b)) (open_badges rows))"
  shows "filter (\<lambda>b. bh_endedAt b = None)
           (case open_badge t s rows of None \<Rightarrow> rows
            | Some b \<Rightarrow> update_where (\<lambda>r. bh_id r = bh_id b) (end_badge now) rows)
         = filter (\<lambda>b. bh_endedAt b = None \<and> \<not> (bh_tenant b = t \<and> bh_subject b = s)) rows"
proof (cases "open_badge t s rows")
  case None
  then have "\<forall>b \<in> set rows. \<not> (bh_tenant b = t \<and> bh_subject b = s \<and> bh_endedAt b = None)"
    by (auto simp add: open_badge_def find_None_iff)
  then have "\<And>b. b \<in> set rows \<Longrightarrow> (bh_endedAt b = None) = (bh_endedAt b = None \<and> \<not> (bh_tenant b = t \<and> bh_subject b = s))"
    by blast
  then show ?thesis using None by (simp cong: filter_cong)
next
  case (Some b)
  then have b: "b \<in> set rows" "bh_tenant b = t" "bh_subject b = s" "bh_endedAt b = None"
    using find_SomeD by (fastforce simp add: open_badge_def)+
  have same: "bh_id r = bh_id b \<longleftrightarrow> bh_tenant r = t \<and> bh_subject r = s"
    if "r \<in> set rows" "bh_endedAt r = None" for r
  proof
    assume "bh_id r = bh_id b"
    then show "bh_tenant r = t \<and> bh_subject r = s" using distinct_key_unique [OF ids that(1) b(1)] b by simp
  next
    assume "bh_tenant r = t \<and> bh_subject r = s"
    then have "r = b" using distinct_key_unique [OF one, of r b] that b by (simp add: open_badges_def)
    then show "bh_id r = bh_id b" by simp
  qed
  have "filter (\<lambda>b. bh_endedAt b = None) (update_where (\<lambda>r. bh_id r = bh_id b) (end_badge now) rows)
        = filter (\<lambda>r. bh_endedAt r = None \<and> bh_id r \<noteq> bh_id b) rows"
    using filter_update_where_end [OF ids b(1), of "\<lambda>b. bh_endedAt b = None" "end_badge now"] by (simp add: end_badge_def)
  also have "\<dots> = filter (\<lambda>b. bh_endedAt b = None \<and> \<not> (bh_tenant b = t \<and> bh_subject b = s)) rows"
    using same by (auto intro!: filter_cong)
  finally show ?thesis using Some by simp
qed

lemma end_badge_id [simp]: "bh_id (end_badge now b) = bh_id b"
  by (simp add: end_badge_def)

lemma ended_ids: "map bh_id (case c of None \<Rightarrow> rows | Some b \<Rightarrow> update_where (\<lambda>r. bh_id r = bh_id b) (end_badge now) rows) = map bh_id rows"
  by (auto simp add: map_update_where_same split: option.split)

lemma change_badge_ok:
  assumes "performance_ok st" and "c = open_badge t s (ps_badges st)"
  shows "performance_ok (change_badge t s c l n now st)"
proof -
  let ?rest = "filter (\<lambda>b. bh_endedAt b = None \<and> \<not> (bh_tenant b = t \<and> bh_subject b = s)) (ps_badges st)"
  have rest: "open_badges (ps_badges (change_badge t s c l n now st)) = ?rest @ [\<lparr>bh_id = next_id st, bh_tenant = t,
      bh_subject = s, bh_level = l, bh_score = n, bh_startedAt = now, bh_endedAt = None, bh_exit = False\<rparr>]"
    using badges_after_change [where rows = "ps_badges st" and t = t and s = s and now = now] assms
    by (simp add: change_badge_badges open_badges_def performance_ok_def)
  have "distinct (map (\<lambda>b. (bh_tenant b, bh_subject b)) ?rest)"
    using assms(1) by (auto simp add: performance_ok_def open_badges_def intro: distinct_map_filter_subset)
  then have "distinct (map (\<lambda>b. (bh_tenant b, bh_subject b)) (open_badges (ps_badges (change_badge t s c l n now st))))"
    unfolding rest by auto
  moreover have "map bh_id (ps_badges (change_badge t s c l n now st)) = map bh_id (ps_badges st) @ [fresh_id (lg_seed st)]"
    by (simp add: change_badge_badges ended_ids next_id_def del: option.case_distrib)
  moreover have "fresh_id (lg_seed st) \<notin> bh_id ` set (ps_badges st)"
    using assms(1) owned_fresh [of "lg_seed st" "map bh_id (ps_badges st)"] by (simp add: performance_ok_def)
  ultimately show ?thesis
    using assms(1) by (simp add: performance_ok_def owned_rules)
qed

lemma reconcileBadge_ok: "performance_ok st \<Longrightarrow> performance_ok (reconcileBadge t s p now st)"
  by (simp add: reconcileBadge_def Let_def change_badge_ok)

section \<open>The operations\<close>

lemma add_event_ok:
  assumes "performance_ok st" and "\<not> hasEvent t i st"
  shows "performance_ok (append_audit t a (issue (st\<lparr>ps_events := ps_events st @ [new_event (next_id st) t emp now pts p i]\<rparr>)))"
proof -
  have "event_key (new_event (next_id st) t emp now pts p i) \<notin> event_key ` set (ps_events st)"
    using assms(2) by (auto simp add: hasEvent_def list_ex_iff same_event_def event_key_def new_event_def)
  moreover have "fresh_id (lg_seed st) \<notin> pf_id ` set (ps_events st)"
    using assms(1) owned_fresh [of "lg_seed st" "map pf_id (ps_events st)"] by (simp add: performance_ok_def)
  moreover have "pf_id (new_event (next_id st) t emp now pts p i) = fresh_id (lg_seed st)"
    by (simp add: new_event_def next_id_def)
  ultimately show ?thesis
    using assms(1) by (simp add: performance_ok_def log_defs owned_rules)
qed

text \<open>The two ways an event is answered without an error.\<close>

lemma recordEvent_cases:
  assumes "recordEvent t emp now i st = (r, st')"
  obtains (refused) e where "r = Inl e" "st' = st \<or> st' = snd (activePolicy t st)"
  | (known) "r = Inr True" "st' = snd (activePolicy t st)" "hasEvent t i st"
  | (scored) pts e st2 where "r = Inr False" "event_problem i = None" "\<not> hasEvent t i st"
      "pointsFor t (fst (activePolicy t st)) i (ps_events st) = Inr pts"
      "e = new_event (next_id (snd (activePolicy t st))) t (emp (ei_subject i)) now pts (fst (activePolicy t st)) i"
      "st2 = append_audit t (event_audit e) (issue (snd (activePolicy t st)\<lparr>ps_events := ps_events st @ [e]\<rparr>))"
      "st' = reconcileBadge t (ei_subject i) (fst (activePolicy t st)) now st2"
proof (cases "event_problem i")
  case (Some e)
  then show ?thesis using assms refused by (auto simp add: recordEvent_def)
next
  case None
  define P S where "P = fst (activePolicy t st)" and "S = snd (activePolicy t st)"
  have PS: "activePolicy t st = (P, S)" by (simp add: P_def S_def)
  have has: "hasEvent t i S = hasEvent t i st" and ev: "ps_events S = ps_events st"
    by (simp_all add: S_def hasEvent_def)
  show ?thesis
  proof (cases "hasEvent t i st")
    case True
    then show ?thesis using assms None PS has known by (simp add: recordEvent_def)
  next
    case False
    show ?thesis
    proof (cases "pointsFor t P i (ps_events st)")
      case (Inl e)
      then have "r = Inl e" "st' = S" using assms None PS has ev False by (simp_all add: recordEvent_def)
      then show ?thesis by (intro refused) (simp_all add: S_def)
    next
      case (Inr pts)
      then show ?thesis using assms None PS has ev False scored by (auto simp add: recordEvent_def Let_def)
    qed
  qed
qed

lemma recordEvent_ok:
  assumes "performance_ok st" and "recordEvent t emp now i st = (r, st')"
  shows "performance_ok st'"
  using assms(2)
proof (cases rule: recordEvent_cases)
  case (scored pts e st2)
  have "\<not> hasEvent t i (snd (activePolicy t st))" using scored(3) by (simp add: hasEvent_def)
  from add_event_ok [OF activePolicy_ok [OF assms(1)] this] have "performance_ok st2" by (simp add: scored(5,6))
  then show ?thesis by (simp add: scored(7) reconcileBadge_ok)
qed (use assms(1) in \<open>auto simp add: activePolicy_ok\<close>)

lemma supersede_ok:
  assumes "performance_ok st" and "p \<in> set (ps_policies st)" and "pp_supersededAt p = None"
  shows "performance_ok (append_audit t a (issue (st\<lparr>ps_policies :=
      update_where (\<lambda>r. pp_id r = pp_id p) (pp_supersededAt_update (\<lambda>_. Some now)) (ps_policies st)
      @ [next_policy (next_id st) actor reason c p]\<rparr>)))"
proof -
  let ?U = "update_where (\<lambda>r. pp_id r = pp_id p) (pp_supersededAt_update (\<lambda>_. Some now)) (ps_policies st)"
  let ?n = "next_policy (next_id st) actor reason c p"
  have ids: "distinct (map pp_id (ps_policies st))" and one: "distinct (map pp_tenant (active_policies (ps_policies st)))"
    using assms(1) by (simp_all add: performance_ok_def)
  have act: "active_policies ?U = filter (\<lambda>r. pp_supersededAt r = None \<and> pp_id r \<noteq> pp_id p) (ps_policies st)"
    using filter_update_where_end [OF ids assms(2), of "\<lambda>r. pp_supersededAt r = None" "pp_supersededAt_update (\<lambda>_. Some now)"]
    by (simp add: active_policies_def)
  have "pp_tenant p \<notin> pp_tenant ` set (active_policies ?U)"
  proof
    assume "pp_tenant p \<in> pp_tenant ` set (active_policies ?U)"
    then obtain r where r: "r \<in> set (ps_policies st)" "pp_supersededAt r = None" "pp_id r \<noteq> pp_id p" "pp_tenant r = pp_tenant p"
      unfolding act by auto
    then have "r = p" using distinct_key_unique [OF one, of r p] assms(2,3) by (simp add: active_policies_def)
    then show False using r(3) by simp
  qed
  moreover have "distinct (map pp_tenant (active_policies ?U))"
    unfolding act using one by (auto simp add: active_policies_def intro: distinct_map_filter_subset)
  moreover have "active_policies (?U @ [?n]) = active_policies ?U @ [?n]" "pp_tenant ?n = pp_tenant p"
    by (simp_all add: active_policies_def next_policy_def)
  ultimately have tenants: "distinct (map pp_tenant (active_policies (?U @ [?n])))" by simp
  have "map pp_id ?U = map pp_id (ps_policies st)" by (simp add: map_update_where_same)
  then have new: "map pp_id (?U @ [?n]) = map pp_id (ps_policies st) @ [fresh_id (lg_seed st)]"
    by (simp add: next_policy_def next_id_def)
  have "fresh_id (lg_seed st) \<notin> set (map pp_id (ps_policies st))"
    using assms(1) by (auto simp add: performance_ok_def dest: owned_fresh)
  then have "distinct (map pp_id (?U @ [?n]))" "owned (Suc (lg_seed st)) (map pp_id (?U @ [?n]))"
    unfolding new using assms(1) by (simp_all add: performance_ok_def owned_snoc)
  with tenants show ?thesis
    using assms(1) unfolding performance_ok_def log_defs
    by (simp add: owned_Suc del: map_append distinct_append)
qed

lemma setPolicy_ok:
  assumes "performance_ok st" and "setPolicy cx actor now reason c st = Inr (new, st')"
  shows "performance_ok st'"
proof -
  define P S where "P = fst (activePolicy (cx_tenantId cx) st)" and "S = snd (activePolicy (cx_tenantId cx) st)"
  have PS: "activePolicy (cx_tenantId cx) st = (P, S)" by (simp add: P_def S_def)
  have "performance_ok S" "P \<in> set (ps_policies S)" "pp_supersededAt P = None"
    using activePolicy_ok [OF assms(1)] activePolicy_active [OF assms(1)] by (simp_all add: P_def S_def)
  note supersede_ok [OF this]
  then show ?thesis
    using assms(2) PS by (auto simp add: setPolicy_def Let_def split: sum.splits if_splits)
qed

lemma snapshotOnExit_ok:
  assumes "performance_ok st" and "snapshotOnExit t s now st = (r, st')"
  shows "performance_ok st'"
proof (cases "st' = st")
  case False
  let ?P = "\<lambda>b. bh_tenant b = t \<and> bh_subject b = s \<and> bh_endedAt b = None"
  let ?U = "update_where ?P (end_badge now) (ps_badges st)"
  define row where "row = exit_badge (next_id st) t s (levelFor (score_of_subject t s (the (active_policy_row t (ps_policies st))) st)
      (the (active_policy_row t (ps_policies st)))) (score_of_subject t s (the (active_policy_row t (ps_policies st))) st) now"
  have row: "bh_id row = next_id st" "bh_endedAt row = Some now" by (simp_all add: row_def exit_badge_def)
  obtain a where st': "st' = append_audit t a (issue (st\<lparr>ps_badges := ?U @ [row]\<rparr>))"
    using assms(2) False by (auto simp add: snapshotOnExit_def Let_def row_def split: option.splits if_splits)
  have "open_badges (update_where ?P (end_badge now) rows) = filter (\<lambda>b. bh_endedAt b = None \<and> \<not> (bh_tenant b = t \<and> bh_subject b = s)) rows" for rows
    by (induction rows) (auto simp add: open_badges_def update_where_def end_badge_def)
  then have "open_badges (?U @ [row]) = filter (\<lambda>b. bh_endedAt b = None \<and> \<not> (bh_tenant b = t \<and> bh_subject b = s)) (ps_badges st)"
    using row(2) by (simp add: open_badges_def)
  moreover have "distinct (map (\<lambda>b. (bh_tenant b, bh_subject b)) (open_badges (ps_badges st)))"
    using assms(1) by (simp add: performance_ok_def)
  ultimately have one: "distinct (map (\<lambda>b. (bh_tenant b, bh_subject b)) (open_badges (?U @ [row])))"
    by (auto simp add: open_badges_def intro: distinct_map_filter_subset)
  have new: "map bh_id (?U @ [row]) = map bh_id (ps_badges st) @ [fresh_id (lg_seed st)]"
    using row(1) by (simp add: map_update_where_same next_id_def)
  have "fresh_id (lg_seed st) \<notin> set (map bh_id (ps_badges st))"
    using assms(1) by (auto simp add: performance_ok_def dest: owned_fresh)
  then have "distinct (map bh_id (?U @ [row]))" "owned (Suc (lg_seed st)) (map bh_id (?U @ [row]))"
    unfolding new using assms(1) by (simp_all add: performance_ok_def owned_snoc)
  with one show ?thesis
    using assms(1) unfolding st' performance_ok_def log_defs
    by (simp add: owned_Suc del: map_append distinct_append)
qed (use assms(1) in simp)

section \<open>What is only added to\<close>

text \<open>A policy may only become superseded, a badge may only end.\<close>

definition policy_kept :: "performance_policy \<Rightarrow> performance_policy \<Rightarrow> bool" where
  "policy_kept p q \<longleftrightarrow> q = p\<lparr>pp_supersededAt := pp_supersededAt q\<rparr> \<and> (pp_supersededAt p \<noteq> None \<longrightarrow> q = p)"

definition badge_kept :: "badge_row \<Rightarrow> badge_row \<Rightarrow> bool" where
  "badge_kept a b \<longleftrightarrow> b = a\<lparr>bh_endedAt := bh_endedAt b\<rparr> \<and> (bh_endedAt a \<noteq> None \<longrightarrow> b = a)"

definition table_grows :: "('a \<Rightarrow> 'a \<Rightarrow> bool) \<Rightarrow> 'a list \<Rightarrow> 'a list \<Rightarrow> bool" where
  "table_grows kept xs ys \<longleftrightarrow> (\<exists>zs new. ys = zs @ new \<and> list_all2 kept xs zs)"

definition performance_grows :: "'a performance_state_scheme \<Rightarrow> 'a performance_state_scheme \<Rightarrow> bool" where
  "performance_grows st st' \<longleftrightarrow>
     prefix (ps_events st) (ps_events st') \<and> table_grows policy_kept (ps_policies st) (ps_policies st')
     \<and> table_grows badge_kept (ps_badges st) (ps_badges st')"

lemma kept_refl [simp]: "policy_kept p p" "badge_kept b b"
  by (simp_all add: policy_kept_def badge_kept_def)

lemma policy_kept_trans: "policy_kept p q \<Longrightarrow> policy_kept q r \<Longrightarrow> policy_kept p r"
  unfolding policy_kept_def by (cases p; cases q; cases r) auto

lemma badge_kept_trans: "badge_kept p q \<Longrightarrow> badge_kept q r \<Longrightarrow> badge_kept p r"
  unfolding badge_kept_def by (cases p; cases q; cases r) auto

lemma table_grows_refl: "(\<And>x. kept x x) \<Longrightarrow> table_grows kept xs xs"
  unfolding table_grows_def by (metis append_Nil2 list_all2_refl)

lemma table_grows_snoc: "list_all2 kept xs zs \<Longrightarrow> table_grows kept xs (zs @ new)"
  by (auto simp add: table_grows_def)

lemma table_grows_new: "(\<And>x. kept x x) \<Longrightarrow> table_grows kept xs (xs @ new)"
  by (simp add: table_grows_snoc list_all2_refl)

lemma table_grows_trans:
  assumes "\<And>x y z. kept x y \<Longrightarrow> kept y z \<Longrightarrow> kept x z" and "table_grows kept xs ys" and "table_grows kept ys zs"
  shows "table_grows kept xs zs"
proof -
  obtain a b where ys: "ys = a @ b" "list_all2 kept xs a" using assms(2) by (auto simp add: table_grows_def)
  obtain c d where zs: "zs = c @ d" "list_all2 kept (a @ b) c" using assms(3) ys(1) by (auto simp add: table_grows_def)
  then obtain c1 c2 where c: "c = c1 @ c2" "list_all2 kept a c1"
    by (auto simp add: list_all2_append1)
  have "list_all2 kept xs c1" by (rule list_all2_trans [OF _ ys(2) c(2)]) (rule assms(1))
  then show ?thesis using zs c by (auto simp add: table_grows_def)
qed

lemma kept_update_where:
  assumes "\<And>x. kept x x" and "\<And>x. x \<in> set xs \<Longrightarrow> P x \<Longrightarrow> kept x (f x)"
  shows "list_all2 kept xs (update_where P f xs)"
  using assms by (induction xs) (auto simp add: update_where_def)

lemma performance_grows_refl: "performance_grows st st"
  by (simp add: performance_grows_def table_grows_refl)

lemma performance_grows_trans:
  "performance_grows a b \<Longrightarrow> performance_grows b c \<Longrightarrow> performance_grows a c"
  unfolding performance_grows_def
  by (auto intro: prefix_order.trans table_grows_trans [where kept = policy_kept, OF policy_kept_trans]
      table_grows_trans [where kept = badge_kept, OF badge_kept_trans])

lemma activePolicy_grows: "performance_grows st (snd (activePolicy t st))"
  by (auto simp add: activePolicy_def Let_def log_defs performance_grows_def table_grows_refl table_grows_new
      split: option.split)

lemma change_badge_grows:
  assumes "performance_ok st" and "c = open_badge t s (ps_badges st)"
  shows "performance_grows st (change_badge t s c l n now st)"
proof -
  have "list_all2 badge_kept (ps_badges st)
          (case c of None \<Rightarrow> ps_badges st | Some b \<Rightarrow> update_where (\<lambda>r. bh_id r = bh_id b) (end_badge now) (ps_badges st))"
  proof (cases c)
    case (Some b)
    then have "open_badge t s (ps_badges st) = Some b" using assms(2) by simp
    then have b: "b \<in> set (ps_badges st)" "bh_endedAt b = None"
      using find_SomeD by (fastforce simp add: open_badge_def)+
    have "r = b" if "r \<in> set (ps_badges st)" "bh_id r = bh_id b" for r
      using assms(1) b that by (auto simp add: performance_ok_def intro: distinct_key_unique)
    moreover have "badge_kept b (end_badge now b)" using b by (simp add: badge_kept_def end_badge_def)
    ultimately have "list_all2 badge_kept (ps_badges st) (update_where (\<lambda>r. bh_id r = bh_id b) (end_badge now) (ps_badges st))"
      by (intro kept_update_where) auto
    then show ?thesis using Some by simp
  qed (simp add: list_all2_refl)
  then show ?thesis by (simp add: performance_grows_def change_badge_badges table_grows_refl table_grows_snoc)
qed

lemma reconcileBadge_grows: "performance_ok st \<Longrightarrow> performance_grows st (reconcileBadge t s p now st)"
  by (simp add: reconcileBadge_def Let_def change_badge_grows performance_grows_refl)

lemma recordEvent_grows:
  assumes "performance_ok st" and "recordEvent t emp now i st = (r, st')"
  shows "performance_grows st st'"
  using assms(2)
proof (cases rule: recordEvent_cases)
  case (scored pts e st2)
  have "\<not> hasEvent t i (snd (activePolicy t st))" using scored(3) by (simp add: hasEvent_def)
  from add_event_ok [OF activePolicy_ok [OF assms(1)] this] have ok: "performance_ok st2" by (simp add: scored(5,6))
  have "performance_grows (snd (activePolicy t st)) st2"
    by (simp add: scored(6) performance_grows_def log_defs table_grows_refl)
  then show ?thesis
    using activePolicy_grows [of st t] reconcileBadge_grows [OF ok] performance_grows_trans by (metis scored(7))
qed (use activePolicy_grows performance_grows_refl in blast)+

lemma setPolicy_grows:
  assumes "performance_ok st" and "setPolicy cx actor now reason c st = Inr (new, st')"
  shows "performance_grows st st'"
proof -
  define P S where "P = fst (activePolicy (cx_tenantId cx) st)" and "S = snd (activePolicy (cx_tenantId cx) st)"
  have PS: "activePolicy (cx_tenantId cx) st = (P, S)" by (simp add: P_def S_def)
  have S: "performance_ok S" "P \<in> set (ps_policies S)" "pp_supersededAt P = None"
    using activePolicy_ok [OF assms(1)] activePolicy_active [OF assms(1)] by (simp_all add: P_def S_def)
  have "r = P" if "r \<in> set (ps_policies S)" "pp_id r = pp_id P" for r
    using S that by (auto simp add: performance_ok_def intro: distinct_key_unique)
  moreover have "policy_kept P (P\<lparr>pp_supersededAt := Some now\<rparr>)" using S(3) by (simp add: policy_kept_def)
  ultimately have "list_all2 policy_kept (ps_policies S)
      (update_where (\<lambda>r. pp_id r = pp_id P) (pp_supersededAt_update (\<lambda>_. Some now)) (ps_policies S))"
    by (intro kept_update_where) auto
  then have "performance_grows S st'"
    using assms(2) PS
    by (auto simp add: setPolicy_def Let_def performance_grows_def log_defs table_grows_refl table_grows_snoc split: sum.splits if_splits)
  moreover have "performance_grows st S" using activePolicy_grows by (simp add: S_def)
  ultimately show ?thesis using performance_grows_trans by blast
qed

lemma snapshotOnExit_grows:
  assumes "snapshotOnExit t s now st = (r, st')"
  shows "performance_grows st st'"
proof -
  have "list_all2 badge_kept (ps_badges st)
     (update_where (\<lambda>b. bh_tenant b = t \<and> bh_subject b = s \<and> bh_endedAt b = None) (end_badge now) (ps_badges st))"
    by (auto intro!: kept_update_where simp add: badge_kept_def end_badge_def)
  then show ?thesis
    using assms by (auto simp add: snapshotOnExit_def Let_def log_defs performance_grows_def table_grows_refl
        intro: table_grows_snoc split: option.splits if_splits)
qed

section \<open>The service\<close>

text \<open>A refused event is a step that may leave the baseline policy behind.\<close>

datatype performance_op =
    RecordOp uid "uid \<Rightarrow> uid option" instant event_input
  | SetPolicyOp authz_context uid instant string policy_changes
  | ExitOp uid uid instant
  | ViewOp authz_context "hierarchy_resolver option" "uid \<Rightarrow> uid option" uid uid

fun performance_step :: "performance_op \<Rightarrow> 'a performance_state_scheme \<Rightarrow> performance_error + 'a performance_state_scheme" where
  "performance_step (RecordOp t emp now i) st = Inr (snd (recordEvent t emp now i st))"
| "performance_step (SetPolicyOp cx actor now reason c) st = map_sum id snd (setPolicy cx actor now reason c st)"
| "performance_step (ExitOp t s now) st = Inr (snd (snapshotOnExit t s now st))"
| "performance_step (ViewOp cx h d actor subject) st = map_sum id snd (viewFor cx h d actor subject st)"

lemma viewFor_state: "viewFor cx h d actor subject st = Inr (v, st') \<Longrightarrow> st' = snd (activePolicy (cx_tenantId cx) st)"
  by (auto simp add: viewFor_def case_prod_beta Let_def split: sum.splits)

lemma performance_step_ok:
  assumes "performance_ok st" and "performance_step op st = Inr st'"
  shows "performance_ok st' \<and> performance_grows st st'"
proof (cases op)
  case (RecordOp t emp now i)
  obtain r where "recordEvent t emp now i st = (r, st')" using assms(2) RecordOp by (metis performance_step.simps(1) prod.collapse sum.inject(2))
  then show ?thesis using recordEvent_ok [OF assms(1)] recordEvent_grows [OF assms(1)] by blast
next
  case (SetPolicyOp cx actor now reason c)
  then obtain new where "setPolicy cx actor now reason c st = Inr (new, st')"
    using assms(2) by (cases "setPolicy cx actor now reason c st") auto
  then show ?thesis using setPolicy_ok [OF assms(1)] setPolicy_grows [OF assms(1)] by blast
next
  case (ExitOp t s now)
  obtain r where "snapshotOnExit t s now st = (r, st')" using assms(2) ExitOp by (metis performance_step.simps(3) prod.collapse sum.inject(2))
  then show ?thesis using snapshotOnExit_ok [OF assms(1)] snapshotOnExit_grows by blast
next
  case (ViewOp cx h d actor subject)
  then obtain v where "viewFor cx h d actor subject st = Inr (v, st')"
    using assms(2) by (cases "viewFor cx h d actor subject st") auto
  then show ?thesis using viewFor_state activePolicy_ok [OF assms(1)] activePolicy_grows by metis
qed

interpretation scoring: monotone_service performance_step "\<lambda>op st. True" performance_ok performance_grows
  by unfold_locales (auto dest: performance_step_ok intro: performance_grows_refl performance_grows_trans)

end
