(* ===== verification/Performance_Properties.thy ===== *)
theory Performance_Properties
  imports Performance_Invariants
begin

text \<open>
  The properties of performance scoring: every outcome is scored once and for good, a badge is the
  level of a score that is the sum of recorded points, and a forgiven outcome costs nothing and earns
  nothing.
\<close>

section \<open>Once and for good\<close>

text \<open>
  C14. Whatever sequence of events, policy changes, exits and views a company's performance service
  runs through, no outcome of a source is recorded twice for a person, the events already recorded
  keep their place and their points, earlier policies and badges change only by being superseded or
  ended, and a company has one active policy and a person one open badge.
\<close>

theorem outcomes_are_scored_once:
  assumes "performance_ok st"
  shows "distinct (map event_key (ps_events (run_ops performance_step ops st)))
     \<and> prefix (ps_events st) (ps_events (run_ops performance_step ops st))
     \<and> table_grows policy_kept (ps_policies st) (ps_policies (run_ops performance_step ops st))
     \<and> table_grows badge_kept (ps_badges st) (ps_badges (run_ops performance_step ops st))
     \<and> distinct (map pp_tenant (active_policies (ps_policies (run_ops performance_step ops st))))
     \<and> distinct (map (\<lambda>b. (bh_tenant b, bh_subject b)) (open_badges (ps_badges (run_ops performance_step ops st))))"
proof -
  have env: "env_ok (\<lambda>op st. True) performance_step ops st"
    by (induction ops arbitrary: st) auto
  show ?thesis
    using scoring.run_inv [OF assms env] scoring.run_rel [OF assms env]
    by (simp add: performance_ok_def performance_grows_def)
qed

definition no_scores :: performance_state where
  "no_scores = \<lparr>lg_seed = 0, lg_audits = [], lg_notices = [], ps_policies = [], ps_events = [], ps_badges = []\<rparr>"

definition an_event :: "PerformanceEventKind \<Rightarrow> string \<Rightarrow> uid option \<Rightarrow> event_input" where
  "an_event k source target = \<lparr>ei_subject = ''ann'', ei_kind = k, ei_sourceKind = ''human_task'', ei_sourceId = source,
     ei_reason = Some ''agreed'', ei_neutralises = target, ei_points = None, ei_recordedBy = None, ei_occurredAt = None\<rparr>"

definition record_ann :: "PerformanceEventKind \<Rightarrow> string \<Rightarrow> uid option \<Rightarrow> instant \<Rightarrow> performance_state \<Rightarrow> performance_state" where
  "record_ann k source target now st = snd (recordEvent ''t'' (\<lambda>u. None) now (an_event k source target) st)"

lemma no_scores_ok: "performance_ok no_scores"
  by (simp add: performance_ok_def no_scores_def owned_def open_badges_def active_policies_def)

theorem outcomes_are_scored_once_witness:
  "map pf_points (ps_events (run_ops performance_step
     [RecordOp ''t'' (\<lambda>u. None) 5 (an_event Missed ''a'' None), RecordOp ''t'' (\<lambda>u. None) 9 (an_event Missed ''a'' None)] no_scores)) = [- 15]
   \<and> distinct (map event_key (ps_events (run_ops performance_step
     [RecordOp ''t'' (\<lambda>u. None) 5 (an_event Missed ''a'' None), RecordOp ''t'' (\<lambda>u. None) 9 (an_event Missed ''a'' None)] no_scores)))"
proof
  show "map pf_points (ps_events (run_ops performance_step
     [RecordOp ''t'' (\<lambda>u. None) 5 (an_event Missed ''a'' None), RecordOp ''t'' (\<lambda>u. None) 9 (an_event Missed ''a'' None)] no_scores)) = [- 15]"
    by code_simp
qed (use outcomes_are_scored_once [OF no_scores_ok] in blast)

section \<open>Badges follow scores\<close>

lemma open_badge_snoc:
  assumes "distinct (map bh_id rows)" and "c = open_badge t s rows"
    and "distinct (map (\<lambda>b. (bh_tenant b, bh_subject b)) (open_badges rows))"
    and "bh_tenant b = t" and "bh_subject b = s" and "bh_endedAt b = None"
  shows "open_badge t s ((case c of None \<Rightarrow> rows | Some b \<Rightarrow> update_where (\<lambda>r. bh_id r = bh_id b) (end_badge now) rows) @ [b]) = Some b"
proof -
  let ?rows = "case c of None \<Rightarrow> rows | Some b \<Rightarrow> update_where (\<lambda>r. bh_id r = bh_id b) (end_badge now) rows"
  have "filter (\<lambda>b. bh_endedAt b = None) ?rows = filter (\<lambda>b. bh_endedAt b = None \<and> \<not> (bh_tenant b = t \<and> bh_subject b = s)) rows"
    using badges_after_change [OF assms(1,3)] assms(2) by simp
  then have "\<forall>r \<in> set ?rows. \<not> (bh_tenant r = t \<and> bh_subject r = s \<and> bh_endedAt r = None)"
    by (metis (mono_tags, lifting) mem_Collect_eq set_filter)
  then have "open_badge t s ?rows = None" by (auto simp add: open_badge_def find_None_iff)
  then show ?thesis using assms(4-6) by (simp add: open_badge_def find_append)
qed

lemma reconciled_badge:
  assumes "performance_ok st"
  shows "map_option bh_level (open_badge t s (ps_badges (reconcileBadge t s p now st))) = Some (levelFor (score_of_subject t s p st) p)"
proof (cases "map_option bh_level (open_badge t s (ps_badges st)) = Some (levelFor (score_of_subject t s p st) p)")
  case True
  then show ?thesis by (simp add: reconcileBadge_def Let_def)
next
  case False
  then have "ps_badges (reconcileBadge t s p now st)
     = ps_badges (change_badge t s (open_badge t s (ps_badges st)) (levelFor (score_of_subject t s p st) p) (score_of_subject t s p st) now st)"
    by (simp only: reconcileBadge_def Let_def if_False)
  then show ?thesis
    using assms open_badge_snoc [OF _ refl, where rows = "ps_badges st" and t = t and s = s and now = now]
    by (simp add: change_badge_badges performance_ok_def)
qed

text \<open>
  C34. When an outcome is scored, the person's open badge is the level the active policy gives to the
  sum of the points of their counted events, the new one included; nothing else about the score is
  stored.
\<close>

theorem badge_follows_score:
  assumes "performance_ok st" and "recordEvent t emp now i st = (Inr False, st')"
  shows "\<exists>p e. active_policy_row t (ps_policies st') = Some p
     \<and> ps_events st' = ps_events st @ [e] \<and> pf_kind e = ei_kind i \<and> pf_subject e = ei_subject i \<and> pf_policy e = pp_id p
     \<and> map_option bh_level (open_badge t (ei_subject i) (ps_badges st'))
       = Some (levelFor (\<Sum>e\<leftarrow>filter (counted (neutralised_ids (events_of t (ei_subject i) st')) p) (events_of t (ei_subject i) st'). pf_points e) p)"
  using assms(2)
proof (cases rule: recordEvent_cases)
  case (scored pts e st2)
  let ?p = "fst (activePolicy t st)"
  have "\<not> hasEvent t i (snd (activePolicy t st))" using scored(3) by (simp add: hasEvent_def)
  from add_event_ok [OF activePolicy_ok [OF assms(1)] this] have ok: "performance_ok st2" by (simp add: scored(5,6))
  have "events_of t (ei_subject i) st' = events_of t (ei_subject i) st2" by (simp add: scored(7) events_of_def)
  moreover have "ps_policies st' = ps_policies (snd (activePolicy t st))" by (simp add: scored(6,7) log_defs)
  moreover have "ps_events st' = ps_events st @ [e]" by (simp add: scored(6,7) log_defs)
  moreover have "pf_kind e = ei_kind i" "pf_subject e = ei_subject i" "pf_policy e = pp_id ?p"
    by (simp_all add: scored(5) new_event_def)
  ultimately show ?thesis
    using reconciled_badge [OF ok, of t "ei_subject i" ?p now] activePolicy_active(3) [OF assms(1), of t]
    by (simp add: scored(7) score_of_subject_def scoreOf_sum Let_def)
qed auto

theorem badge_follows_score_witness:
  "map_option bh_level (open_badge ''t'' ''ann'' (ps_badges (record_ann OnTimeAccepted ''a'' None 5 no_scores))) = Some Bronze"
proof -
  have r: "recordEvent ''t'' (\<lambda>u. None) 5 (an_event OnTimeAccepted ''a'' None) no_scores
      = (Inr False, record_ann OnTimeAccepted ''a'' None 5 no_scores)"
    by (simp add: record_ann_def prod_eq_iff) code_simp
  obtain p where p: "active_policy_row ''t'' (ps_policies (record_ann OnTimeAccepted ''a'' None 5 no_scores)) = Some p"
    "map_option bh_level (open_badge ''t'' ''ann'' (ps_badges (record_ann OnTimeAccepted ''a'' None 5 no_scores)))
     = Some (levelFor (\<Sum>e\<leftarrow>filter (counted (neutralised_ids (events_of ''t'' ''ann'' (record_ann OnTimeAccepted ''a'' None 5 no_scores))) p)
         (events_of ''t'' ''ann'' (record_ann OnTimeAccepted ''a'' None 5 no_scores)). pf_points e) p)"
    using badge_follows_score [OF no_scores_ok r] by (auto simp add: an_event_def)
  have "p = baseline_policy (fresh_id 0) ''t''"
  proof -
    have "active_policy_row ''t'' (ps_policies (record_ann OnTimeAccepted ''a'' None 5 no_scores)) = Some (baseline_policy (fresh_id 0) ''t'')"
      by code_simp
    then show ?thesis using p(1) by simp
  qed
  moreover have "levelFor (\<Sum>e\<leftarrow>filter (counted (neutralised_ids (events_of ''t'' ''ann'' (record_ann OnTimeAccepted ''a'' None 5 no_scores))) (baseline_policy (fresh_id 0) ''t''))
         (events_of ''t'' ''ann'' (record_ann OnTimeAccepted ''a'' None 5 no_scores)). pf_points e) (baseline_policy (fresh_id 0) ''t'') = Bronze"
    by code_simp
  ultimately show ?thesis using p(2) by simp
qed

section \<open>Forgiveness\<close>

lemma sum_list_filter_remove:
  assumes "distinct (map k xs)" and "x \<in> set xs" and "P x"
  shows "(\<Sum>e\<leftarrow>filter (\<lambda>e. P e \<and> k e \<noteq> k x) xs. f e) = (\<Sum>e\<leftarrow>filter P xs. f e) - (f x :: int)"
  using assms
proof (induction xs)
  case (Cons y ys)
  show ?case
  proof (cases "y = x")
    case True
    then have "\<forall>e \<in> set ys. k e \<noteq> k x"
      using Cons.prems by (metis distinct.simps(2) image_eqI list.simps(9) set_map)
    then have "filter (\<lambda>e. P e \<and> k e \<noteq> k x) ys = filter P ys" by (intro filter_cong) auto
    then show ?thesis using True Cons.prems by simp
  next
    case False
    then have x: "x \<in> set ys" using Cons.prems by simp
    then have "k y \<noteq> k x" using Cons.prems by (metis distinct.simps(2) image_eqI list.simps(9) set_map)
    then show ?thesis using Cons.IH Cons.prems x by simp
  qed
qed simp

text \<open>What cancelling one more event does to a score under a policy that cancels in full.\<close>

lemma score_after_forgiving:
  assumes "distinct (map pf_id es)" and "pp_neutraliseFully p" and "pf_kind n = BlockerNeutralised"
    and "pf_neutralises n = Some k" and "pf_id n \<notin> pf_id ` set es"
  shows "scoreOf (es @ [n]) (neutralised_ids (es @ [n])) p
         = scoreOf es (neutralised_ids es) p
           - (case List.find (\<lambda>e. pf_id e = k \<and> counted (neutralised_ids es) p e) es of None \<Rightarrow> 0 | Some e \<Rightarrow> pf_points e)"
proof -
  let ?g = "neutralised_ids es"
  have ids: "neutralised_ids (es @ [n]) = ?g @ [k]"
    using assms(4) by (simp add: neutralised_ids_def map_filter_def)
  have new: "\<not> counted (?g @ [k]) p n" using assms(2-4) by (simp add: counted_def)
  have c: "counted (?g @ [k]) p = (\<lambda>e. counted ?g p e \<and> pf_id e \<noteq> k)"
    using assms(2) by (auto simp add: counted_def fun_eq_iff)
  show ?thesis
  proof (cases "List.find (\<lambda>e. pf_id e = k \<and> counted ?g p e) es")
    case None
    then have "filter (\<lambda>e. counted ?g p e \<and> pf_id e \<noteq> k) es = filter (counted ?g p) es"
      by (intro filter_cong) (auto simp add: find_None_iff)
    then show ?thesis using None new by (auto simp add: scoreOf_sum ids c)
  next
    case (Some x)
    then have x: "x \<in> set es" "pf_id x = k" "counted ?g p x" using find_SomeD by fastforce+
    show ?thesis
      using sum_list_filter_remove [OF assms(1) x(1), of "counted ?g p" pf_points] x Some new
      by (auto simp add: scoreOf_sum ids c)
  qed
qed

text \<open>
  C36. Under a policy that forgives in full, recording that a blocker neutralised an event raises a
  person's score by exactly what that event was costing it: by nothing when the event is somebody
  else's or was forgiven before.
\<close>

theorem forgiveness_restores_exactly:
  assumes "performance_ok st" and "active_policy_row t (ps_policies st) = Some p" and "pp_neutraliseFully p"
    and "ei_kind i = BlockerNeutralised" and "ei_neutralises i = Some k"
    and "recordEvent t emp now i st = (Inr False, st')"
  shows "score_of_subject t (ei_subject i) p st' = score_of_subject t (ei_subject i) p st
     - (case List.find (\<lambda>e. pf_id e = k \<and> counted (neutralised_ids (events_of t (ei_subject i) st)) p e) (events_of t (ei_subject i) st) of
          None \<Rightarrow> 0 | Some e \<Rightarrow> pf_points e)"
  using assms(6)
proof (cases rule: recordEvent_cases)
  case (scored pts e st2)
  let ?es = "events_of t (ei_subject i) st"
  have act: "activePolicy t st = (p, st)" using assms(2) by (simp add: activePolicy_def)
  have "ps_events st' = ps_events st @ [e]" by (simp add: scored(6,7) log_defs)
  moreover have "pf_tenant e = t" "pf_subject e = ei_subject i" by (simp_all add: scored(5) new_event_def)
  ultimately have es: "events_of t (ei_subject i) st' = ?es @ [e]" by (simp add: events_of_def)
  have "distinct (map pf_id ?es)"
    using assms(1) by (simp add: events_of_def performance_ok_def distinct_map_filter)
  moreover have "pf_id e \<notin> pf_id ` set ?es"
    using assms(1) owned_fresh [of "lg_seed st" "map pf_id (ps_events st)"] act
    by (auto simp add: scored(5) new_event_def next_id_def performance_ok_def events_of_def image_iff)
  moreover have "pf_kind e = BlockerNeutralised" "pf_neutralises e = Some k"
    using assms(4,5) by (simp_all add: scored(5) new_event_def)
  ultimately show ?thesis
    using score_after_forgiving [of ?es p e k] assms(3) by (simp add: score_of_subject_def es Let_def)
qed auto

definition ann_missed :: performance_state where
  "ann_missed = record_ann Missed ''a'' None 5 no_scores"

lemma recordEvent_run: "recordEvent t emp now i st = (fst (recordEvent t emp now i st), snd (recordEvent t emp now i st))"
  by simp

theorem forgiveness_restores_exactly_witness:
  "score_of_subject ''t'' ''ann'' (baseline_policy (fresh_id 0) ''t'') ann_missed = - 15
   \<and> score_of_subject ''t'' ''ann'' (baseline_policy (fresh_id 0) ''t'')
       (record_ann BlockerNeutralised ''b'' (Some (fresh_id 1)) 9 ann_missed) = 0"
proof
  have ok: "performance_ok ann_missed"
    unfolding ann_missed_def record_ann_def
    using recordEvent_ok [OF no_scores_ok recordEvent_run] .
  have p: "active_policy_row ''t'' (ps_policies ann_missed) = Some (baseline_policy (fresh_id 0) ''t'')" by code_simp
  have full: "pp_neutraliseFully (baseline_policy (fresh_id 0) ''t'')" by (simp add: baseline_policy_def)
  have r: "recordEvent ''t'' (\<lambda>u. None) 9 (an_event BlockerNeutralised ''b'' (Some (fresh_id 1))) ann_missed
      = (Inr False, record_ann BlockerNeutralised ''b'' (Some (fresh_id 1)) 9 ann_missed)"
    unfolding record_ann_def prod_eq_iff by (intro conjI) (code_simp, simp)
  have k: "ei_kind (an_event BlockerNeutralised ''b'' (Some (fresh_id 1))) = BlockerNeutralised"
    "ei_neutralises (an_event BlockerNeutralised ''b'' (Some (fresh_id 1))) = Some (fresh_id 1)"
    "ei_subject (an_event BlockerNeutralised ''b'' (Some (fresh_id 1))) = ''ann''" by (simp_all add: an_event_def)
  show m: "score_of_subject ''t'' ''ann'' (baseline_policy (fresh_id 0) ''t'') ann_missed = - 15" by code_simp
  have f: "(case List.find (\<lambda>e. pf_id e = fresh_id 1 \<and> counted (neutralised_ids (events_of ''t'' ''ann'' ann_missed)) (baseline_policy (fresh_id 0) ''t'') e)
      (events_of ''t'' ''ann'' ann_missed) of None \<Rightarrow> 0 | Some e \<Rightarrow> pf_points e) = - 15" by code_simp
  show "score_of_subject ''t'' ''ann'' (baseline_policy (fresh_id 0) ''t'')
       (record_ann BlockerNeutralised ''b'' (Some (fresh_id 1)) 9 ann_missed) = 0"
    using forgiveness_restores_exactly [OF ok p full k(1,2) r, unfolded k(3)] m f by simp
qed

text \<open>
  Under a policy that forgives by half nothing stops the same event being forgiven again from
  another source: three times is more than the event cost.
\<close>

definition half_policy :: performance_policy where
  "half_policy = (baseline_policy ''p'' ''t'')\<lparr>pp_neutraliseFully := False\<rparr>"

definition forgiven_three_times :: performance_state where
  "forgiven_three_times =
     record_ann BlockerNeutralised ''d'' (Some (fresh_id 0)) 9 (record_ann BlockerNeutralised ''c'' (Some (fresh_id 0)) 8
       (record_ann BlockerNeutralised ''b'' (Some (fresh_id 0)) 7
         (record_ann Missed ''a'' None 5 (no_scores\<lparr>ps_policies := [half_policy]\<rparr>))))"

lemma half_forgiveness_can_pay: "score_of_subject ''t'' ''ann'' half_policy forgiven_three_times = 6"
  by code_simp

text \<open>A new version of the policy never keeps the window after which a deadline counts as missed.\<close>

lemma new_policy_resets_the_window:
  assumes "setPolicy cx actor now reason c st = Inr (new, st')"
  shows "pp_missedAfterHours new = 24"
  using assms by (auto simp add: setPolicy_def case_prod_beta Let_def next_policy_def split: sum.splits if_splits)

end
