(* ===== verification/Approvals.thy ===== *)
theory Approvals
  imports Assignments Role_Templates
begin

text \<open>
  \<open>packages/types/src/approvals.ts\<close>: the decisions on an approval request, which permission decides
  which type, whom a request is addressed to, delegations and their bounds, the ageing of a request
  and its risk.  Reasons shown to a person are the constructors of a datatype.
\<close>

section \<open>Decisions\<close>

datatype ApprovalDecision = Approve | Reject | SendBack | Comment

definition APPROVAL_DECISIONS :: "ApprovalDecision list" where
  "APPROVAL_DECISIONS = [Approve, Reject, SendBack, Comment]"

fun decision_name :: "ApprovalDecision \<Rightarrow> string" where
  "decision_name Approve = ''Approve''"
| "decision_name Reject = ''Reject''"
| "decision_name SendBack = ''SendBack''"
| "decision_name Comment = ''Comment''"

fun APPROVAL_DECISION_LABELS :: "ApprovalDecision \<Rightarrow> string" where
  "APPROVAL_DECISION_LABELS Approve = ''Approve''"
| "APPROVAL_DECISION_LABELS Reject = ''Reject''"
| "APPROVAL_DECISION_LABELS SendBack = ''Send back''"
| "APPROVAL_DECISION_LABELS Comment = ''Comment''"

fun DECISION_RESULT :: "ApprovalDecision \<Rightarrow> ApprovalRequestStatus option" where
  "DECISION_RESULT Approve = Some RequestApproved"
| "DECISION_RESULT Reject = Some RequestRejected"
| "DECISION_RESULT SendBack = Some RequestSentBack"
| "DECISION_RESULT Comment = None"

definition decisionSettlesRequest :: "ApprovalDecision \<Rightarrow> bool" where
  "decisionSettlesRequest d \<longleftrightarrow> DECISION_RESULT d \<noteq> None"

definition decisionNeedsReason :: "ApprovalDecision \<Rightarrow> bool" where
  "decisionNeedsReason d \<longleftrightarrow> d = Reject \<or> d = SendBack"

section \<open>The permission that decides a type\<close>

definition APPROVAL_REQUEST_TYPES :: "ApprovalRequestType list" where
  "APPROVAL_REQUEST_TYPES = [ObjectiveReview, WorkflowPublish, AgentActivation, HighRiskAction, OutputApproval,
     BudgetOverride, GuestAccess, WorkflowStepApproval, ChangeRequest]"

fun approval_type_name :: "ApprovalRequestType \<Rightarrow> string" where
  "approval_type_name ObjectiveReview = ''ObjectiveReview''"
| "approval_type_name WorkflowPublish = ''WorkflowPublish''"
| "approval_type_name AgentActivation = ''AgentActivation''"
| "approval_type_name HighRiskAction = ''HighRiskAction''"
| "approval_type_name OutputApproval = ''OutputApproval''"
| "approval_type_name BudgetOverride = ''BudgetOverride''"
| "approval_type_name GuestAccess = ''GuestAccess''"
| "approval_type_name WorkflowStepApproval = ''WorkflowStepApproval''"
| "approval_type_name ChangeRequest = ''ChangeRequest''"

fun APPROVAL_REQUEST_TYPE_LABELS :: "ApprovalRequestType \<Rightarrow> string" where
  "APPROVAL_REQUEST_TYPE_LABELS ChangeRequest = ''Change request''"
| "APPROVAL_REQUEST_TYPE_LABELS ObjectiveReview = ''Objective review''"
| "APPROVAL_REQUEST_TYPE_LABELS WorkflowPublish = ''Workflow publish''"
| "APPROVAL_REQUEST_TYPE_LABELS AgentActivation = ''Agent activation''"
| "APPROVAL_REQUEST_TYPE_LABELS HighRiskAction = ''High-risk action''"
| "APPROVAL_REQUEST_TYPE_LABELS OutputApproval = ''Output approval''"
| "APPROVAL_REQUEST_TYPE_LABELS BudgetOverride = ''Budget override''"
| "APPROVAL_REQUEST_TYPE_LABELS GuestAccess = ''Guest access''"
| "APPROVAL_REQUEST_TYPE_LABELS WorkflowStepApproval = ''Workflow step approval''"

fun APPROVAL_TYPE_MODULE :: "ApprovalRequestType \<Rightarrow> module_key" where
  "APPROVAL_TYPE_MODULE ObjectiveReview = ''objective''"
| "APPROVAL_TYPE_MODULE WorkflowPublish = ''objective''"
| "APPROVAL_TYPE_MODULE AgentActivation = ''agents''"
| "APPROVAL_TYPE_MODULE WorkflowStepApproval = ''approvals''"
| "APPROVAL_TYPE_MODULE OutputApproval = ''approvals''"
| "APPROVAL_TYPE_MODULE HighRiskAction = ''approvals''"
| "APPROVAL_TYPE_MODULE BudgetOverride = ''approvals''"
| "APPROVAL_TYPE_MODULE GuestAccess = ''approvals''"
| "APPROVAL_TYPE_MODULE ChangeRequest = ''approvals''"

text \<open>The table of exceptions is empty at this commit.\<close>

definition APPROVAL_TYPE_DECISION_OVERRIDE :: "ApprovalRequestType \<Rightarrow> (module_key \<times> Action) option" where
  "APPROVAL_TYPE_DECISION_OVERRIDE t = None"

definition decisionPermissionFor :: "ApprovalRequestType \<Rightarrow> module_key \<times> Action" where
  "decisionPermissionFor t =
     (case APPROVAL_TYPE_DECISION_OVERRIDE t of Some p \<Rightarrow> p | None \<Rightarrow> (APPROVAL_TYPE_MODULE t, ActApprove))"

fun APPROVAL_TYPE_ADDRESSED_ROLE :: "ApprovalRequestType \<Rightarrow> RoleKind option" where
  "APPROVAL_TYPE_ADDRESSED_ROLE ChangeRequest = Some CompanyAdmin"
| "APPROVAL_TYPE_ADDRESSED_ROLE t = None"

section \<open>Roles by name\<close>

definition ROLE_KINDS :: "RoleKind list" where
  "ROLE_KINDS = [Employee, Manager, Head, CompanyAdmin, ApproverRole, Auditor, CustomRole]"

fun role_name :: "RoleKind \<Rightarrow> string" where
  "role_name Employee = ''Employee''"
| "role_name Manager = ''Manager''"
| "role_name Head = ''Head''"
| "role_name CompanyAdmin = ''CompanyAdmin''"
| "role_name ApproverRole = ''Approver''"
| "role_name Auditor = ''Auditor''"
| "role_name CustomRole = ''Custom''"

definition isRoleKind :: "string \<Rightarrow> RoleKind option" where
  "isRoleKind s = List.find (\<lambda>k. role_name k = s) ROLE_KINDS"

text \<open>The templates as the code passes them, by the name of the role.\<close>

type_synonym named_templates = "(string \<times> permission_set) list"

definition company_templates :: named_templates where
  "company_templates =
     List.map_filter (\<lambda>k. map_option (\<lambda>t. (role_name k, permissions t)) (ROLE_TEMPLATES k)) ROLE_KINDS"

record stuck_type =
  st_type :: ApprovalRequestType
  st_role :: RoleKind
  st_needs :: "module_key \<times> Action"

definition everyAddressedRoleCanDecide :: "named_templates \<Rightarrow> stuck_type list" where
  "everyAddressedRoleCanDecide templates =
     List.map_filter (\<lambda>t. Option.bind (APPROVAL_TYPE_ADDRESSED_ROLE t) (\<lambda>role.
       (let (m, a) = decisionPermissionFor t;
            held = (case map_of templates (role_name role) of None \<Rightarrow> [] | Some p \<Rightarrow> actions_on p m)
        in if a \<in> set held then None else Some \<lparr>st_type = t, st_role = role, st_needs = (m, a)\<rparr>)))
       APPROVAL_REQUEST_TYPES"

definition everyApprovalTypeIsDecidable :: "named_templates \<Rightarrow> (ApprovalRequestType \<times> module_key) list" where
  "everyApprovalTypeIsDecidable templates =
     List.map_filter (\<lambda>t.
       (let (m, a) = decisionPermissionFor t
        in if list_ex (\<lambda>(k, p). a \<in> set (actions_on p m)) templates then None else Some (t, m)))
       APPROVAL_REQUEST_TYPES"

section \<open>Routing\<close>

datatype ApprovalRouting = Named uid | ToRole RoleKind | FourEyesGate | Unaddressed

definition FOUR_EYES_APPROVAL_KIND :: string where
  "FOUR_EYES_APPROVAL_KIND = ''FourEyes''"

definition routingFor :: "uid option \<Rightarrow> string option \<Rightarrow> ApprovalRouting" where
  "routingFor named kind =
     (case named of
        Some u \<Rightarrow> Named u
      | None \<Rightarrow>
          (case kind of
             None \<Rightarrow> Unaddressed
           | Some k \<Rightarrow> if k = FOUR_EYES_APPROVAL_KIND then FourEyesGate
                       else (case isRoleKind k of Some r \<Rightarrow> ToRole r | None \<Rightarrow> Unaddressed)))"

definition requiredSodRule :: "string option \<Rightarrow> SodRule option" where
  "requiredSodRule kind = (if kind = Some FOUR_EYES_APPROVAL_KIND then Some FourEyes else None)"

datatype addressed_reason =
    AlreadyDecided ApprovalRequestStatus | NamedApprover | DelegateOfNamed | NamesSomebodyElse
  | HoldsRole RoleKind | AdministratorFor RoleKind | RoleNotHeld RoleKind | AnyAuthorizedApprover
  | AddressedToNobody

definition isAddressedTo ::
  "ApprovalRequestStatus \<Rightarrow> uid option \<Rightarrow> string option \<Rightarrow> uid \<Rightarrow> RoleKind list \<Rightarrow> uid option \<Rightarrow> bool \<times> addressed_reason" where
  "isAddressedTo status named kind actor roles delegatedFrom =
     (if status \<noteq> RequestPending then (False, AlreadyDecided status)
      else (case routingFor named kind of
              Named u \<Rightarrow>
                if actor = u then (True, NamedApprover)
                else if delegatedFrom = Some u then (True, DelegateOfNamed)
                else (False, NamesSomebodyElse)
            | ToRole r \<Rightarrow>
                if r \<in> set roles then (True, HoldsRole r)
                else if CompanyAdmin \<in> set roles then (True, AdministratorFor r)
                else (False, RoleNotHeld r)
            | FourEyesGate \<Rightarrow> (True, AnyAuthorizedApprover)
            | Unaddressed \<Rightarrow> (False, AddressedToNobody)))"

section \<open>Delegations\<close>

definition delegationCovers ::
  "ApprovalRequestType list option \<Rightarrow> instant \<Rightarrow> instant \<Rightarrow> instant option \<Rightarrow> ApprovalRequestType \<Rightarrow> instant \<Rightarrow> bool" where
  "delegationCovers types startsAt endsAt revokedAt t now =
     (if revokedAt \<noteq> None then False
      else if now < startsAt then False
      else if endsAt < now then False
      else (case types of None \<Rightarrow> True | Some ts \<Rightarrow> t \<in> set ts))"

definition MAX_DELEGATION_DAYS :: int where
  "MAX_DELEGATION_DAYS = 92"

datatype delegation_problem = DelegatesToSelf | CoversNoTime | TooManyDays rat int | NoReasonGiven

text \<open>
  The days are a quotient of integers; it is compared with a whole number of days, which no rounding
  of the quotient can move across.
\<close>

definition validateDelegation ::
  "uid \<Rightarrow> uid \<Rightarrow> instant \<Rightarrow> instant \<Rightarrow> string \<Rightarrow> int option \<Rightarrow> delegation_problem option" where
  "validateDelegation fromUser toUser startsAt endsAt reason maxDays =
     (if fromUser = toUser then Some DelegatesToSelf
      else if endsAt \<le> startsAt then Some CoversNoTime
      else (let days = rat_of_int (endsAt - startsAt) / 86400000;
                ceiling = (case maxDays of None \<Rightarrow> MAX_DELEGATION_DAYS | Some d \<Rightarrow> d)
            in if rat_of_int ceiling < days then Some (TooManyDays days ceiling)
               else if blank reason then Some NoReasonGiven
               else None))"

section \<open>Ageing and risk\<close>

datatype AgingBucket = Fresh | Aging | Due | Overdue

fun AGING_BUCKET_LABELS :: "AgingBucket \<Rightarrow> string" where
  "AGING_BUCKET_LABELS Fresh = ''Submitted''"
| "AGING_BUCKET_LABELS Aging = ''Aging''"
| "AGING_BUCKET_LABELS Due = ''Due soon''"
| "AGING_BUCKET_LABELS Overdue = ''Overdue''"

fun AGING_BUCKET_TONES :: "AgingBucket \<Rightarrow> string" where
  "AGING_BUCKET_TONES Fresh = ''grey''"
| "AGING_BUCKET_TONES Aging = ''blue''"
| "AGING_BUCKET_TONES Due = ''warn''"
| "AGING_BUCKET_TONES Overdue = ''danger''"

definition DEFAULT_APPROVAL_AGING_HOURS :: int where
  "DEFAULT_APPROVAL_AGING_HOURS = 24"

datatype aging_reason = PastDue rat | DueWithin rat | OpenUndecided rat | OpenFor rat

text \<open>Hours are quotients of milliseconds; they are compared with whole hours only.\<close>

definition hours :: "int \<Rightarrow> rat" where
  "hours ms = rat_of_int ms / 3600000"

definition agingBucketFor ::
  "instant \<Rightarrow> instant option \<Rightarrow> instant \<Rightarrow> int option \<Rightarrow> AgingBucket \<times> rat \<times> aging_reason" where
  "agingBucketFor submittedAt dueAt now agingAfterHours =
     (let open_for = hours (now - submittedAt);
          agingAfter = (case agingAfterHours of None \<Rightarrow> DEFAULT_APPROVAL_AGING_HOURS | Some h \<Rightarrow> h);
          aged = (if rat_of_int agingAfter \<le> open_for then (Aging, open_for, OpenUndecided open_for)
                  else (Fresh, open_for, OpenFor open_for))
      in (case dueAt of
            None \<Rightarrow> aged
          | Some due \<Rightarrow>
              if due < now then (Overdue, open_for, PastDue open_for)
              else if hours (due - now) \<le> 24 then (Due, open_for, DueWithin (hours (due - now)))
              else aged))"

datatype escalation_reason = EscalationDecided | EscalationAlready | NotOverdue AgingBucket | PastDueUndecided

definition approvalEscalationDue :: "ApprovalRequestStatus \<Rightarrow> AgingBucket \<Rightarrow> bool \<Rightarrow> bool \<times> escalation_reason" where
  "approvalEscalationDue status bucket alreadyEscalated =
     (if status \<noteq> RequestPending then (False, EscalationDecided)
      else if alreadyEscalated then (False, EscalationAlready)
      else if bucket \<noteq> Overdue then (False, NotOverdue bucket)
      else (True, PastDueUndecided))"

datatype ApprovalRisk = LowRisk | MediumRisk | HighRisk

fun APPROVAL_RISK_TONES :: "ApprovalRisk \<Rightarrow> string" where
  "APPROVAL_RISK_TONES LowRisk = ''grey''"
| "APPROVAL_RISK_TONES MediumRisk = ''warn''"
| "APPROVAL_RISK_TONES HighRisk = ''danger''"

fun APPROVAL_TYPE_RISK :: "ApprovalRequestType \<Rightarrow> ApprovalRisk" where
  "APPROVAL_TYPE_RISK ObjectiveReview = MediumRisk"
| "APPROVAL_TYPE_RISK WorkflowPublish = MediumRisk"
| "APPROVAL_TYPE_RISK AgentActivation = MediumRisk"
| "APPROVAL_TYPE_RISK WorkflowStepApproval = MediumRisk"
| "APPROVAL_TYPE_RISK OutputApproval = LowRisk"
| "APPROVAL_TYPE_RISK BudgetOverride = HighRisk"
| "APPROVAL_TYPE_RISK HighRiskAction = HighRisk"
| "APPROVAL_TYPE_RISK GuestAccess = HighRisk"
| "APPROVAL_TYPE_RISK ChangeRequest = LowRisk"

section \<open>Lemmas\<close>

lemma inj_role_name: "role_name a = role_name b \<longleftrightarrow> a = b"
  by (cases a; cases b) simp_all

lemma isRoleKind_name [simp]: "isRoleKind (role_name k) = Some k"
  unfolding isRoleKind_def inj_role_name by (cases k) (simp_all add: ROLE_KINDS_def)

lemma isRoleKind_Some: "isRoleKind s = Some k \<longleftrightarrow> s = role_name k"
  using isRoleKind_name find_SomeD unfolding isRoleKind_def by fastforce

lemma four_eyes_is_no_role: "isRoleKind FOUR_EYES_APPROVAL_KIND = None"
  by code_simp

lemma decision_permission [simp]: "decisionPermissionFor t = (APPROVAL_TYPE_MODULE t, ActApprove)"
  by (simp add: decisionPermissionFor_def APPROVAL_TYPE_DECISION_OVERRIDE_def)

lemma settles_iff [simp]: "decisionSettlesRequest d \<longleftrightarrow> d \<noteq> Comment"
  by (cases d) (simp_all add: decisionSettlesRequest_def)

lemma requiredSodRule_None [simp]: "requiredSodRule k = None \<longleftrightarrow> k \<noteq> Some FOUR_EYES_APPROVAL_KIND"
  by (simp add: requiredSodRule_def)

lemma addressed_only_pending: "fst (isAddressedTo status named kind actor roles d) \<Longrightarrow> status = RequestPending"
  by (simp add: isAddressedTo_def split: if_splits)

lemma delegation_bounds:
  assumes "validateDelegation f t s e r None = None"
  shows "f \<noteq> t" and "s < e" and "e - s \<le> 92 * 86400000" and "\<not> blank r"
proof -
  have "rat_of_int (e - s) / 86400000 \<le> 92"
    using assms by (simp add: validateDelegation_def Let_def MAX_DELEGATION_DAYS_def not_less split: if_splits)
  then have "rat_of_int (e - s) \<le> rat_of_int (92 * 86400000)" by simp
  then show "e - s \<le> 92 * 86400000" by (simp only: of_int_le_iff)
qed (use assms in \<open>simp_all add: validateDelegation_def Let_def split: if_splits\<close>)

text \<open>The bucket, over integers.\<close>

lemma hours_le: "hours ms \<le> rat_of_int h \<longleftrightarrow> ms \<le> h * 3600000"
proof -
  have "hours ms \<le> rat_of_int h \<longleftrightarrow> rat_of_int ms \<le> rat_of_int (h * 3600000)"
    by (simp add: hours_def field_simps)
  then show ?thesis by (simp only: of_int_le_iff)
qed

lemma aging_bucket:
  "fst (agingBucketFor s due now None) =
     (case due of
        Some d \<Rightarrow> if d < now then Overdue else if d - now \<le> 24 * 3600000 then Due
                  else if 24 * 3600000 \<le> now - s then Aging else Fresh
      | None \<Rightarrow> if 24 * 3600000 \<le> now - s then Aging else Fresh)"
proof -
  have a: "24 \<le> hours (now - s) \<longleftrightarrow> 24 * 3600000 \<le> now - s"
  proof -
    have "24 \<le> hours (now - s) \<longleftrightarrow> rat_of_int (24 * 3600000) \<le> rat_of_int (now - s)"
      by (simp add: hours_def field_simps)
    then show ?thesis by (simp only: of_int_le_iff)
  qed
  have b: "hours (d - now) \<le> 24 \<longleftrightarrow> d - now \<le> 24 * 3600000" for d
    using hours_le [of "d - now" 24] by simp
  show ?thesis
    using a b by (simp add: agingBucketFor_def Let_def DEFAULT_APPROVAL_AGING_HOURS_def split: option.split)
qed

text \<open>The catalogue's own checks pass on the company's templates.\<close>

lemma every_type_is_decidable: "everyApprovalTypeIsDecidable company_templates = []"
  by code_simp

lemma every_addressed_role_can_decide: "everyAddressedRoleCanDecide company_templates = []"
  by code_simp

end
