(* ===== verification/Workflow_Plan.thy ===== *)
theory Workflow_Plan
  imports UbossPrelude
begin

text \<open>
  \<open>packages/types/src/objective-analysis.ts\<close>: the graph of a workflow, what makes a draft of it valid,
  what a step must state to be done, the conversion of steps, and how deep in the plan a step lies.
  A kind, a shape and the kind of an edge are typed, so that the checks that a stored value is one of
  them have no counterpart; a list that is missing is one of the two older schema versions only.
\<close>

section \<open>A run of the analysis\<close>

datatype AnalysisStage = UnderstandingObjective | ReadingTeamStructure | DetectingHumanWork | IdentifyingAiWork
  | MatchingSkills | AssigningOwners | BuildingWorkflow

definition ANALYSIS_STAGES :: "AnalysisStage list" where
  "ANALYSIS_STAGES = [UnderstandingObjective, ReadingTeamStructure, DetectingHumanWork, IdentifyingAiWork, MatchingSkills,
     AssigningOwners, BuildingWorkflow]"

definition analysisStageIndex :: "AnalysisStage \<Rightarrow> nat" where
  "analysisStageIndex s = length (takeWhile (\<lambda>x. x \<noteq> s) ANALYSIS_STAGES)"

datatype AnalysisRunStatus = AnalysisQueued | AnalysisRunning | AnalysisCompleted | AnalysisCancelled | AnalysisFailed

definition isAnalysisRunFinished :: "AnalysisRunStatus \<Rightarrow> bool" where
  "isAnalysisRunFinished s \<longleftrightarrow> s \<in> set [AnalysisCompleted, AnalysisCancelled, AnalysisFailed]"

definition mayCancelAnalysis :: "AnalysisRunStatus \<Rightarrow> bool" where
  "mayCancelAnalysis s \<longleftrightarrow> s = AnalysisQueued \<or> s = AnalysisRunning"

section \<open>The graph\<close>

datatype AnalysisNodeKind = GoalNode | HumanNode | AiNode | ApprovalNode | ConditionNode | TriggerNode

fun node_kind_name :: "AnalysisNodeKind \<Rightarrow> string" where
  "node_kind_name GoalNode = ''Goal''"
| "node_kind_name HumanNode = ''Human''"
| "node_kind_name AiNode = ''Ai''"
| "node_kind_name ApprovalNode = ''Approval''"
| "node_kind_name ConditionNode = ''Condition''"
| "node_kind_name TriggerNode = ''Trigger''"

datatype NodeShape = GoalShape | Rectangle | Diamond | Gate

fun NODE_SHAPE_BY_KIND :: "AnalysisNodeKind \<Rightarrow> NodeShape" where
  "NODE_SHAPE_BY_KIND GoalNode = GoalShape"
| "NODE_SHAPE_BY_KIND HumanNode = Rectangle"
| "NODE_SHAPE_BY_KIND AiNode = Diamond"
| "NODE_SHAPE_BY_KIND ApprovalNode = Gate"
| "NODE_SHAPE_BY_KIND ConditionNode = Gate"
| "NODE_SHAPE_BY_KIND TriggerNode = Gate"

definition nodeShapeFor :: "AnalysisNodeKind \<Rightarrow> NodeShape" where
  "nodeShapeFor k = NODE_SHAPE_BY_KIND k"

definition ANALYSIS_SCHEMA_VERSION :: nat where
  "ANALYSIS_SCHEMA_VERSION = 2"

definition READABLE_SCHEMA_VERSIONS :: "nat list" where
  "READABLE_SCHEMA_VERSIONS = [1, 2]"

definition isReadableSchemaVersion :: "nat \<Rightarrow> bool" where
  "isReadableSchemaVersion v \<longleftrightarrow> v \<in> set READABLE_SCHEMA_VERSIONS"

record definition_of_done =
  dd_expectedOutput :: string
  dd_criteria :: string
  dd_evidence :: string
  dd_dependencies :: "uid list"
  dd_tools :: "string list"
  dd_toolsInferred :: "bool option"
  dd_approval :: "string option"
  dd_failureCondition :: string

record node_head =
  pn_id :: uid
  pn_kind :: AnalysisNodeKind
  pn_label :: string
  pn_shape :: NodeShape
  pn_fromStepPosition :: "nat option"
  pn_owner :: "uid option"
  pn_ownerDesignation :: "string option"
  pn_unmatchedOwnerName :: "string option"
  pn_skillVersion :: "uid option"
  pn_skillName :: "string option"
  pn_position :: "(int \<times> int) option"

record plan_node = node_head +
  pn_dod :: definition_of_done
  pn_approvalKind :: "string option"
  pn_trigger :: "string option"

datatype WorkflowEdgeKind = Sequential | Parallel | Conditional | FailureEdge

record plan_edge =
  pe_from :: uid
  pe_to :: uid
  pe_kind :: WorkflowEdgeKind
  pe_condition :: "string option"

record usage_estimate =
  us_minTokens :: int
  us_maxTokens :: int
  us_aiNodeCount :: nat
  us_basis :: string

datatype RiskSeverity = LowSeverity | MediumSeverity | HighSeverity

record plan_risk =
  rk_node :: "uid option"
  rk_severity :: RiskSeverity
  rk_summary :: string

record workflow_plan =
  wp_schemaVersion :: nat
  wp_goal :: uid
  wp_nodes :: "plan_node list"
  wp_edges :: "plan_edge list"
  wp_usage :: usage_estimate
  wp_risks :: "plan_risk list"
  wp_gaps :: "string list"

section \<open>Validity\<close>

datatype plan_problem =
    WrongSchemaVersion nat
  | NoNodes
  | SharedId uid
  | WrongShape uid AnalysisNodeKind NodeShape
  | NoLabel uid
  | UnresolvedDependency uid uid
  | DependsOnItself uid
  | TriggerNamesNoEvent uid
  | GoalCount nat
  | GoalNotNamed
  | EdgeFromNowhere uid
  | EdgeToNowhere uid
  | EdgeToItself uid
  | ConditionWithoutOutcome uid uid
  | NegativeUsage
  | UsageRangeReversed
  | UsageWithoutBasis

definition if_so :: "bool \<Rightarrow> 'p \<Rightarrow> 'p list" where
  "if_so b p = (if b then [p] else [])"

definition blank_option :: "string option \<Rightarrow> bool" where
  "blank_option s \<longleftrightarrow> blank (case s of None \<Rightarrow> [] | Some t \<Rightarrow> t)"

definition dependency_problems :: "plan_node list \<Rightarrow> plan_node \<Rightarrow> plan_problem list" where
  "dependency_problems nodes n =
     concat (map (\<lambda>d. if_so (\<not> list_ex (\<lambda>c. pn_id c = d) nodes) (UnresolvedDependency (pn_id n) d)
                    @ if_so (d = pn_id n) (DependsOnItself (pn_id n)))
       (dd_dependencies (pn_dod n)))"

text \<open>The loop over the nodes, with the identifiers it has seen.\<close>

fun node_problems :: "plan_node list \<Rightarrow> uid list \<Rightarrow> plan_node list \<Rightarrow> plan_problem list" where
  "node_problems nodes seen [] = []"
| "node_problems nodes seen (n # ns) =
     if_so (pn_id n \<in> set seen) (SharedId (pn_id n))
     @ if_so (pn_shape n \<noteq> nodeShapeFor (pn_kind n)) (WrongShape (pn_id n) (pn_kind n) (pn_shape n))
     @ if_so (blank (pn_label n)) (NoLabel (pn_id n))
     @ dependency_problems nodes n
     @ if_so (pn_kind n = TriggerNode \<and> blank_option (pn_trigger n)) (TriggerNamesNoEvent (pn_id n))
     @ node_problems nodes (pn_id n # seen) ns"

definition goal_problems :: "workflow_plan \<Rightarrow> plan_problem list" where
  "goal_problems p =
     (case filter (\<lambda>n. pn_kind n = GoalNode) (wp_nodes p) of
        [g] \<Rightarrow> if_so (wp_goal p \<noteq> pn_id g) GoalNotNamed
      | gs \<Rightarrow> [GoalCount (length gs)])"

definition edge_problems :: "uid list \<Rightarrow> plan_edge \<Rightarrow> plan_problem list" where
  "edge_problems ids e =
     if_so (pe_from e \<notin> set ids) (EdgeFromNowhere (pe_from e))
     @ if_so (pe_to e \<notin> set ids) (EdgeToNowhere (pe_to e))
     @ if_so (pe_from e = pe_to e) (EdgeToItself (pe_from e))
     @ if_so (pe_kind e = Conditional \<and> blank_option (pe_condition e)) (ConditionWithoutOutcome (pe_from e) (pe_to e))"

definition usage_problems :: "usage_estimate \<Rightarrow> plan_problem list" where
  "usage_problems u =
     if_so (us_minTokens u < 0 \<or> us_maxTokens u < 0) NegativeUsage
     @ if_so (us_maxTokens u < us_minTokens u) UsageRangeReversed
     @ if_so (blank (us_basis u)) UsageWithoutBasis"

definition validateWorkflowDraft :: "workflow_plan \<Rightarrow> plan_problem list" where
  "validateWorkflowDraft p =
     (if wp_schemaVersion p \<noteq> ANALYSIS_SCHEMA_VERSION then [WrongSchemaVersion (wp_schemaVersion p)]
      else if wp_nodes p = [] then [NoNodes]
      else node_problems (wp_nodes p) [] (wp_nodes p)
           @ goal_problems p
           @ concat (map (edge_problems (map pn_id (wp_nodes p))) (wp_edges p))
           @ usage_problems (wp_usage p))"

definition incompleteDodFields :: "definition_of_done \<Rightarrow> string list" where
  "incompleteDodFields d =
     if_so (blank (dd_expectedOutput d)) ''expected output'' @ if_so (blank (dd_criteria d)) ''criteria''
     @ if_so (blank (dd_evidence d)) ''evidence'' @ if_so (blank (dd_failureCondition d)) ''failure condition''"

section \<open>Conversion\<close>

datatype conversion_refusal = AlreadyOfThatKind | OnlyWorkConverts | NoApprovedSkill

definition mayConvertNode :: "AnalysisNodeKind \<Rightarrow> AnalysisNodeKind \<Rightarrow> bool \<Rightarrow> conversion_refusal + unit" where
  "mayConvertNode source target hasApprovedSkill =
     (if source = target then Inl AlreadyOfThatKind
      else if source \<notin> {HumanNode, AiNode} \<or> target \<notin> {HumanNode, AiNode} then Inl OnlyWorkConverts
      else if target = AiNode \<and> \<not> hasApprovedSkill then Inl NoApprovedSkill
      else Inr ())"

section \<open>Stored drafts\<close>

text \<open>
  What the column may hold: the current shape, the first one, in which a step carries its definition
  of done, evidence and tools as fields of its own, or a version this build does not read.
\<close>

record old_node = node_head +
  on_definitionOfDone :: "string option"
  on_evidenceRequired :: "string option"
  on_toolNeeds :: "string list option"
  on_approvalKind :: "string option"

record old_plan =
  op_goal :: uid
  op_nodes :: "old_node list"
  op_edges :: "(uid \<times> uid \<times> string option) list"
  op_usage :: usage_estimate
  op_risks :: "plan_risk list"
  op_gaps :: "string list"

datatype stored_plan = StoredCurrent workflow_plan | StoredFirst old_plan | StoredUnknown nat

fun stored_version :: "stored_plan \<Rightarrow> nat" where
  "stored_version (StoredCurrent p) = 2"
| "stored_version (StoredFirst p) = 1"
| "stored_version (StoredUnknown n) = n"

definition text_or :: "string option \<Rightarrow> string" where
  "text_or s = (case s of None \<Rightarrow> [] | Some t \<Rightarrow> t)"

definition upgrade_node :: "old_node \<Rightarrow> plan_node" where
  "upgrade_node n =
     \<lparr>pn_id = pn_id n, pn_kind = pn_kind n, pn_label = pn_label n, pn_shape = pn_shape n,
      pn_fromStepPosition = pn_fromStepPosition n, pn_owner = pn_owner n, pn_ownerDesignation = pn_ownerDesignation n,
      pn_unmatchedOwnerName = pn_unmatchedOwnerName n, pn_skillVersion = pn_skillVersion n,
      pn_skillName = pn_skillName n, pn_position = pn_position n,
      pn_dod = \<lparr>dd_expectedOutput = text_or (on_definitionOfDone n), dd_criteria = [],
                dd_evidence = text_or (on_evidenceRequired n), dd_dependencies = [],
                dd_tools = (case on_toolNeeds n of None \<Rightarrow> [] | Some ts \<Rightarrow> ts), dd_toolsInferred = None,
                dd_approval = None, dd_failureCondition = []\<rparr>,
      pn_approvalKind = on_approvalKind n, pn_trigger = None\<rparr>"

definition upgradeWorkflowDraft :: "stored_plan \<Rightarrow> workflow_plan option" where
  "upgradeWorkflowDraft s =
     (case s of
        StoredCurrent p \<Rightarrow> Some p
      | StoredFirst p \<Rightarrow>
          Some \<lparr>wp_schemaVersion = ANALYSIS_SCHEMA_VERSION, wp_goal = op_goal p, wp_nodes = map upgrade_node (op_nodes p),
                wp_edges = map (\<lambda>(f, t, c). \<lparr>pe_from = f, pe_to = t, pe_kind = Sequential, pe_condition = c\<rparr>) (op_edges p),
                wp_usage = op_usage p, wp_risks = op_risks p, wp_gaps = op_gaps p\<rparr>
      | StoredUnknown n \<Rightarrow> None)"

section \<open>Depth\<close>

text \<open>
  \<open>executionDepths\<close>: the depths found so far are a map; \<open>seen\<close> are the steps on the way down.  A step
  that occurs on its own way counts as depth 0 there.  When identifiers repeat the last node counts.
\<close>

definition node_by_id :: "plan_node list \<Rightarrow> uid \<Rightarrow> plan_node option" where
  "node_by_id nodes i = List.find (\<lambda>n. pn_id n = i) (rev nodes)"

definition waits :: "plan_node list \<Rightarrow> uid \<Rightarrow> uid list" where
  "waits nodes i =
     (case node_by_id nodes i of
        None \<Rightarrow> []
      | Some n \<Rightarrow> filter (\<lambda>d. d \<in> set (map pn_id nodes)) (dd_dependencies (pn_dod n)))"

lemma waits_present: "waits nodes i \<noteq> [] \<Longrightarrow> i \<in> pn_id ` set nodes"
  using find_SomeD by (fastforce simp add: waits_def node_by_id_def split: option.splits)

function depth_of :: "plan_node list \<Rightarrow> uid set \<Rightarrow> (uid \<rightharpoonup> nat) \<Rightarrow> uid \<Rightarrow> nat \<times> (uid \<rightharpoonup> nat)"
  and depths_of :: "plan_node list \<Rightarrow> uid set \<Rightarrow> (uid \<rightharpoonup> nat) \<Rightarrow> uid list \<Rightarrow> nat list \<times> (uid \<rightharpoonup> nat)" where
  "depth_of nodes seen memo i =
     (case memo i of
        Some d \<Rightarrow> (d, memo)
      | None \<Rightarrow>
          if i \<in> seen then (0, memo)
          else if waits nodes i = [] then (0, memo(i \<mapsto> 0))
          else (let (ds, memo1) = depths_of nodes (insert i seen) memo (waits nodes i);
                    d = Max (set (map Suc ds))
                in (d, memo1(i \<mapsto> d))))"
| "depths_of nodes seen memo [] = ([], memo)"
| "depths_of nodes seen memo (i # is) =
     (let (d, memo1) = depth_of nodes seen memo i; (ds, memo2) = depths_of nodes seen memo1 is in (d # ds, memo2))"
  by pat_completeness auto

termination
proof (relation "measures [\<lambda>x. case x of Inl (nodes, seen, memo, i) \<Rightarrow> card (pn_id ` set nodes - seen)
      | Inr (nodes, seen, memo, is) \<Rightarrow> card (pn_id ` set nodes - seen),
    \<lambda>x. case x of Inl (nodes, seen, memo, i) \<Rightarrow> 0 | Inr (nodes, seen, memo, is) \<Rightarrow> Suc (length is)]")
  fix nodes seen and memo :: "uid \<rightharpoonup> nat" and i
  assume "i \<notin> seen" "waits nodes i \<noteq> []"
  then have "card (pn_id ` set nodes - insert i seen) < card (pn_id ` set nodes - seen)"
    using waits_present by (intro psubset_card_mono) auto
  then show "(Inr (nodes, insert i seen, memo, waits nodes i), Inl (nodes, seen, memo, i))
    \<in> measures [\<lambda>x. case x of Inl (nodes, seen, memo, i) \<Rightarrow> card (pn_id ` set nodes - seen)
      | Inr (nodes, seen, memo, is) \<Rightarrow> card (pn_id ` set nodes - seen),
    \<lambda>x. case x of Inl (nodes, seen, memo, i) \<Rightarrow> 0 | Inr (nodes, seen, memo, is) \<Rightarrow> Suc (length is)]" by simp
qed auto

declare depth_of.simps [simp del]

definition executionDepths :: "plan_node list \<Rightarrow> uid \<rightharpoonup> nat" where
  "executionDepths nodes = foldl (\<lambda>memo n. snd (depth_of nodes {} memo (pn_id n))) Map.empty nodes"

datatype ExecutionStage = EngineStage | SubEngineStage | ExecutorStage

definition depth_or_zero :: "(uid \<rightharpoonup> nat) \<Rightarrow> uid \<Rightarrow> nat" where
  "depth_or_zero m i = (case m i of None \<Rightarrow> 0 | Some d \<Rightarrow> d)"

definition executionStages :: "plan_node list \<Rightarrow> uid \<rightharpoonup> ExecutionStage" where
  "executionStages nodes =
     (let depth = executionDepths nodes;
          work = filter (\<lambda>n. pn_kind n = HumanNode \<or> pn_kind n = AiNode) nodes;
          deepest = Max (set (0 # map (\<lambda>n. depth_or_zero depth (pn_id n)) work))
      in map_of (rev (map (\<lambda>n. (pn_id n,
           (let level = depth_or_zero depth (pn_id n)
            in if level = 0 then EngineStage else if level = deepest then ExecutorStage else SubEngineStage))) work)))"

end
