(* ===== verification/Objective_Forms.thy ===== *)
theory Objective_Forms
  imports Iso_Dates
begin

text \<open>
  \<open>packages/types/src/objectives.ts\<close>: the life cycle of an objective version, the fields of the form it
  is written on, what makes a form complete, and the comparison of two versions.  The kinds that the
  database stores as enumerations are datatypes, so that the checks that a value is one of them have
  no counterpart; a field that is missing altogether is one that is null.
\<close>

section \<open>Life cycle\<close>

datatype ObjectiveStatus = ObjectiveDraft | ObjectiveUnderReview | ObjectiveAiAnalysis | ObjectiveWorkflowDraft
  | ObjectiveReadyForApproval | ObjectiveActive | ObjectivePaused | ObjectiveCompleted | ObjectiveOutcomeReview
  | ObjectiveClosed | ObjectiveArchived

fun OBJECTIVE_STATUS_LABELS :: "ObjectiveStatus \<Rightarrow> string" where
  "OBJECTIVE_STATUS_LABELS ObjectiveDraft = ''Draft''"
| "OBJECTIVE_STATUS_LABELS ObjectiveUnderReview = ''Submitted / Under Review''"
| "OBJECTIVE_STATUS_LABELS ObjectiveAiAnalysis = ''AI Analysis''"
| "OBJECTIVE_STATUS_LABELS ObjectiveWorkflowDraft = ''Workflow Draft''"
| "OBJECTIVE_STATUS_LABELS ObjectiveReadyForApproval = ''Ready for Approval''"
| "OBJECTIVE_STATUS_LABELS ObjectiveActive = ''Published / Active''"
| "OBJECTIVE_STATUS_LABELS ObjectivePaused = ''Paused''"
| "OBJECTIVE_STATUS_LABELS ObjectiveCompleted = ''Completed''"
| "OBJECTIVE_STATUS_LABELS ObjectiveOutcomeReview = ''Outcome Review''"
| "OBJECTIVE_STATUS_LABELS ObjectiveClosed = ''Closed''"
| "OBJECTIVE_STATUS_LABELS ObjectiveArchived = ''Archived''"

fun ALLOWED_OBJECTIVE_TRANSITIONS :: "ObjectiveStatus \<Rightarrow> ObjectiveStatus list" where
  "ALLOWED_OBJECTIVE_TRANSITIONS ObjectiveDraft = [ObjectiveUnderReview, ObjectiveAiAnalysis, ObjectiveArchived]"
| "ALLOWED_OBJECTIVE_TRANSITIONS ObjectiveUnderReview =
     [ObjectiveReadyForApproval, ObjectiveDraft, ObjectiveAiAnalysis, ObjectiveArchived]"
| "ALLOWED_OBJECTIVE_TRANSITIONS ObjectiveAiAnalysis = [ObjectiveWorkflowDraft, ObjectiveDraft, ObjectiveArchived]"
| "ALLOWED_OBJECTIVE_TRANSITIONS ObjectiveWorkflowDraft =
     [ObjectiveReadyForApproval, ObjectiveDraft, ObjectiveAiAnalysis, ObjectiveArchived]"
| "ALLOWED_OBJECTIVE_TRANSITIONS ObjectiveReadyForApproval =
     [ObjectiveActive, ObjectiveWorkflowDraft, ObjectiveDraft, ObjectiveArchived]"
| "ALLOWED_OBJECTIVE_TRANSITIONS ObjectiveActive = [ObjectivePaused, ObjectiveCompleted, ObjectiveArchived]"
| "ALLOWED_OBJECTIVE_TRANSITIONS ObjectivePaused = [ObjectiveActive, ObjectiveArchived]"
| "ALLOWED_OBJECTIVE_TRANSITIONS ObjectiveCompleted = [ObjectiveOutcomeReview, ObjectiveArchived]"
| "ALLOWED_OBJECTIVE_TRANSITIONS ObjectiveOutcomeReview = [ObjectiveClosed, ObjectiveCompleted]"
| "ALLOWED_OBJECTIVE_TRANSITIONS ObjectiveClosed = [ObjectiveArchived]"
| "ALLOWED_OBJECTIVE_TRANSITIONS ObjectiveArchived = []"

definition mayTransitionObjective :: "ObjectiveStatus \<Rightarrow> ObjectiveStatus \<Rightarrow> bool" where
  "mayTransitionObjective start to \<longleftrightarrow> to \<in> set (ALLOWED_OBJECTIVE_TRANSITIONS start)"

definition FROZEN_OBJECTIVE_STATUSES :: "ObjectiveStatus list" where
  "FROZEN_OBJECTIVE_STATUSES =
     [ObjectiveActive, ObjectivePaused, ObjectiveCompleted, ObjectiveOutcomeReview, ObjectiveClosed, ObjectiveArchived]"

definition isObjectiveContentFrozen :: "ObjectiveStatus \<Rightarrow> bool" where
  "isObjectiveContentFrozen s \<longleftrightarrow> s \<in> set FROZEN_OBJECTIVE_STATUSES"

definition EDITABLE_OBJECTIVE_STATUSES :: "ObjectiveStatus list" where
  "EDITABLE_OBJECTIVE_STATUSES = [ObjectiveDraft, ObjectiveAiAnalysis, ObjectiveWorkflowDraft]"

definition isObjectiveDraftEditable :: "ObjectiveStatus \<Rightarrow> bool" where
  "isObjectiveDraftEditable s \<longleftrightarrow> s \<in> set EDITABLE_OBJECTIVE_STATUSES"

definition isObjectiveWorkAssignable :: "ObjectiveStatus \<Rightarrow> bool" where
  "isObjectiveWorkAssignable s \<longleftrightarrow> s = ObjectiveActive"

section \<open>Where an objective stands\<close>

definition OBJECTIVE_JOURNEY :: "(ObjectiveStatus \<times> bool) list" where
  "OBJECTIVE_JOURNEY =
     [(ObjectiveDraft, False), (ObjectiveUnderReview, False), (ObjectiveAiAnalysis, True), (ObjectiveWorkflowDraft, True),
      (ObjectiveReadyForApproval, False), (ObjectiveActive, False), (ObjectiveCompleted, False),
      (ObjectiveOutcomeReview, False), (ObjectiveClosed, False), (ObjectiveArchived, False)]"

datatype ObjectiveJourneyState = StageDone | StageCurrent | StageHalted | StageUpcoming | StageOptional

definition standing_at :: "ObjectiveStatus \<Rightarrow> ObjectiveStatus" where
  "standing_at s = (if s = ObjectivePaused then ObjectiveActive else s)"

definition journey_position :: "ObjectiveStatus \<Rightarrow> nat" where
  "journey_position s = length (takeWhile (\<lambda>x. fst x \<noteq> standing_at s) OBJECTIVE_JOURNEY)"

definition journey_state :: "ObjectiveStatus \<Rightarrow> nat \<Rightarrow> bool \<Rightarrow> ObjectiveJourneyState" where
  "journey_state s i detour =
     (if i = journey_position s then (if s = ObjectivePaused then StageHalted else StageCurrent)
      else if detour then StageOptional else if i < journey_position s then StageDone else StageUpcoming)"

definition objectiveJourney :: "ObjectiveStatus \<Rightarrow> (ObjectiveStatus \<times> string \<times> ObjectiveJourneyState) list" where
  "objectiveJourney s =
     map (\<lambda>(i, (x, detour)). (x, OBJECTIVE_STATUS_LABELS x, journey_state s i detour)) (enumerate 0 OBJECTIVE_JOURNEY)"

section \<open>Forms\<close>

datatype TimeUnit = WorkingDaysUnit | CalendarDaysUnit | HoursUnit | WeeksUnit

fun time_unit_name :: "TimeUnit \<Rightarrow> string" where
  "time_unit_name WorkingDaysUnit = ''WorkingDays''"
| "time_unit_name CalendarDaysUnit = ''CalendarDays''"
| "time_unit_name HoursUnit = ''Hours''"
| "time_unit_name WeeksUnit = ''Weeks''"

datatype StepEngineKind = HumanEngine | EngineEngine | SubEngineEngine | ExecutorEngine

fun engine_name :: "StepEngineKind \<Rightarrow> string" where
  "engine_name HumanEngine = ''Human''"
| "engine_name EngineEngine = ''Engine''"
| "engine_name SubEngineEngine = ''SubEngine''"
| "engine_name ExecutorEngine = ''Executor''"

datatype StepApprovalKind = NotRequiredApproval | ManagerApproval | HeadApproval | FourEyesApproval

fun step_approval_name :: "StepApprovalKind \<Rightarrow> string" where
  "step_approval_name NotRequiredApproval = ''NotRequired''"
| "step_approval_name ManagerApproval = ''Manager''"
| "step_approval_name HeadApproval = ''Head''"
| "step_approval_name FourEyesApproval = ''FourEyes''"

record form2_objective =
  fo_objectiveName :: string
  fo_department :: uid
  fo_owner :: uid
  fo_expectedFinalResult :: string
  fo_currentWorkload :: "int option"
  fo_unit :: "string option"
  fo_targetCompletionTime :: "int option"
  fo_timeUnit :: "TimeUnit option"
  fo_preparedBy :: "string option"
  fo_formDate :: "string option"
  fo_responsibleOwner :: "uid option"
  fo_executionTeam :: "string option"

record form2_step =
  fs_position :: int
  fs_whoPersonName :: "string option"
  fs_whoDesignation :: "string option"
  fs_whoEngine :: StepEngineKind
  fs_whenTrigger :: "string option"
  fs_whenFrequency :: "string option"
  fs_whatExactWork :: string
  fs_inputWhatIsUsed :: "string option"
  fs_inputReceivedFrom :: "string option"
  fs_whereWorkIsDone :: "string option"
  fs_outputWhatIsProduced :: "string option"
  fs_outputSentTo :: "string option"
  fs_timeTaken :: "string option"
  fs_currentProblem :: "string option"
  fs_approval :: StepApprovalKind

text \<open>The value of a field found by its key: null, a string or a number.\<close>

datatype field_value = NoValue | TextValue string | NumberValue int

definition text_value :: "string option \<Rightarrow> field_value" where
  "text_value v = (case v of None \<Rightarrow> NoValue | Some s \<Rightarrow> TextValue s)"

definition number_value :: "int option \<Rightarrow> field_value" where
  "number_value v = (case v of None \<Rightarrow> NoValue | Some n \<Rightarrow> NumberValue n)"

datatype form2_section = SourceForm2 | UbossRouting

datatype form2_kind = TextField | LongTextField | IntegerField | DateField | ReferenceField | ChoiceField

record form2_field =
  ff_key :: string
  ff_label :: string
  ff_section :: form2_section
  ff_kind :: form2_kind
  ff_required :: bool
  ff_maxLength :: "nat option"
  ff_value :: "form2_objective \<Rightarrow> field_value"

definition form2_def ::
  "string \<Rightarrow> string \<Rightarrow> form2_section \<Rightarrow> form2_kind \<Rightarrow> bool \<Rightarrow> nat option \<Rightarrow> (form2_objective \<Rightarrow> field_value) \<Rightarrow> form2_field" where
  "form2_def key label sec k required maxLength v =
     \<lparr>ff_key = key, ff_label = label, ff_section = sec, ff_kind = k, ff_required = required, ff_maxLength = maxLength, ff_value = v\<rparr>"

definition FORM2_OBJECTIVE_FIELDS :: "form2_field list" where
  "FORM2_OBJECTIVE_FIELDS =
     [form2_def ''objectiveName'' ''Objective Name'' SourceForm2 TextField True (Some 200) (\<lambda>c. TextValue (fo_objectiveName c)),
      form2_def ''departmentId'' ''Department'' SourceForm2 ReferenceField True None (\<lambda>c. TextValue (fo_department c)),
      form2_def ''objectiveOwnerUserId'' ''Objective Owner'' SourceForm2 ReferenceField True None (\<lambda>c. TextValue (fo_owner c)),
      form2_def ''expectedFinalResult'' ''Expected Final Result'' SourceForm2 LongTextField True (Some 4000)
        (\<lambda>c. TextValue (fo_expectedFinalResult c)),
      form2_def ''currentWorkload'' ''Current Workload'' SourceForm2 IntegerField False None (\<lambda>c. number_value (fo_currentWorkload c)),
      form2_def ''unit'' ''Unit'' SourceForm2 TextField False (Some 60) (\<lambda>c. text_value (fo_unit c)),
      form2_def ''targetCompletionTime'' ''Target Completion Time'' SourceForm2 IntegerField False None
        (\<lambda>c. number_value (fo_targetCompletionTime c)),
      form2_def ''timeUnit'' ''Time Unit'' SourceForm2 ChoiceField False None (\<lambda>c. text_value (map_option time_unit_name (fo_timeUnit c))),
      form2_def ''preparedBy'' ''Prepared By'' SourceForm2 TextField False (Some 160) (\<lambda>c. text_value (fo_preparedBy c)),
      form2_def ''formDate'' ''Date'' SourceForm2 DateField False None (\<lambda>c. text_value (fo_formDate c)),
      form2_def ''responsibleOwnerUserId'' ''Responsible Owner / Send To'' UbossRouting ReferenceField False None
        (\<lambda>c. text_value (fo_responsibleOwner c)),
      form2_def ''executionTeam'' ''Execution Team'' UbossRouting TextField False (Some 200) (\<lambda>c. text_value (fo_executionTeam c))]"

record workflow_column =
  wc_key :: string
  wc_label :: string
  wc_maxLength :: "nat option"
  wc_value :: "form2_step \<Rightarrow> field_value"

definition column_def :: "string \<Rightarrow> string \<Rightarrow> nat option \<Rightarrow> (form2_step \<Rightarrow> field_value) \<Rightarrow> workflow_column" where
  "column_def key label maxLength v = \<lparr>wc_key = key, wc_label = label, wc_maxLength = maxLength, wc_value = v\<rparr>"

text \<open>The columns but the first, which numbers the steps and is neither measured nor compared.\<close>

definition FORM2_WORKFLOW_COLUMNS :: "workflow_column list" where
  "FORM2_WORKFLOW_COLUMNS =
     [column_def ''whoPersonName'' ''Person Name'' (Some 160) (\<lambda>s. text_value (fs_whoPersonName s)),
      column_def ''whoDesignation'' ''Designation'' (Some 160) (\<lambda>s. text_value (fs_whoDesignation s)),
      column_def ''whoEngine'' ''Engine / Sub-Engine / Executor'' None (\<lambda>s. TextValue (engine_name (fs_whoEngine s))),
      column_def ''whenTrigger'' ''Trigger'' (Some 200) (\<lambda>s. text_value (fs_whenTrigger s)),
      column_def ''whenFrequency'' ''Frequency'' (Some 120) (\<lambda>s. text_value (fs_whenFrequency s)),
      column_def ''whatExactWork'' ''Exact Work'' (Some 2000) (\<lambda>s. TextValue (fs_whatExactWork s)),
      column_def ''inputWhatIsUsed'' ''What Is Used'' (Some 400) (\<lambda>s. text_value (fs_inputWhatIsUsed s)),
      column_def ''inputReceivedFrom'' ''Received From'' (Some 200) (\<lambda>s. text_value (fs_inputReceivedFrom s)),
      column_def ''whereWorkIsDone'' ''Work Is Done'' (Some 200) (\<lambda>s. text_value (fs_whereWorkIsDone s)),
      column_def ''outputWhatIsProduced'' ''What Is Produced'' (Some 400) (\<lambda>s. text_value (fs_outputWhatIsProduced s)),
      column_def ''outputSentTo'' ''Sent To'' (Some 200) (\<lambda>s. text_value (fs_outputSentTo s)),
      column_def ''timeTaken'' ''Time Taken'' (Some 60) (\<lambda>s. text_value (fs_timeTaken s)),
      column_def ''currentProblem'' ''Current Problem'' (Some 2000) (\<lambda>s. text_value (fs_currentProblem s)),
      column_def ''approval'' ''Approval'' None (\<lambda>s. TextValue (step_approval_name (fs_approval s)))]"

section \<open>Problems\<close>

datatype form_problem =
    FieldRequired string
  | FieldTooLong string nat
  | FieldNotWhole string
  | TargetWithoutUnit
  | SharedPosition
  | PositionsNotContiguous
  | StepWithoutWork int
  | CellTooLong int string nat
  | NoSteps
  | NoResponsibleOwner
  | NoPersonName int
  | AmountNotWhole
  | RewardWithoutType
  | RewardWithoutCondition
  | RewardWithoutApprover
  | RewardWithoutAmount string

definition problem_if :: "bool \<Rightarrow> 'p \<Rightarrow> 'p list" where
  "problem_if b p = (if b then [p] else [])"

definition value_missing :: "field_value \<Rightarrow> bool" where
  "value_missing v = (case v of NoValue \<Rightarrow> True | TextValue s \<Rightarrow> blank s | NumberValue n \<Rightarrow> False)"

definition too_long :: "nat option \<Rightarrow> field_value \<Rightarrow> bool" where
  "too_long m v = (case (m, v) of (Some n, TextValue s) \<Rightarrow> n < length s | _ \<Rightarrow> False)"

definition field_problems :: "form2_objective \<Rightarrow> form2_field \<Rightarrow> form_problem list" where
  "field_problems c f =
     (if ff_required f \<and> value_missing (ff_value f c) then [FieldRequired (ff_label f)]
      else problem_if (too_long (ff_maxLength f) (ff_value f c)) (FieldTooLong (ff_label f) (the (ff_maxLength f)))
        @ (case ff_value f c of
             NumberValue n \<Rightarrow> problem_if (ff_kind f = IntegerField \<and> n < 0) (FieldNotWhole (ff_label f))
           | _ \<Rightarrow> []))"

definition validateForm2Objective :: "form2_objective \<Rightarrow> form_problem list" where
  "validateForm2Objective c =
     concat (map (field_problems c) FORM2_OBJECTIVE_FIELDS)
     @ problem_if (fo_targetCompletionTime c \<noteq> None \<and> fo_timeUnit c = None) TargetWithoutUnit"

definition contiguous :: "int list \<Rightarrow> bool" where
  "contiguous ps \<longleftrightarrow> list_all2 (=) (sort ps) (map int [1..<Suc (length ps)])"

definition step_problems :: "form2_step \<Rightarrow> form_problem list" where
  "step_problems s =
     problem_if (blank (fs_whatExactWork s)) (StepWithoutWork (fs_position s))
     @ concat (map (\<lambda>c. problem_if (too_long (wc_maxLength c) (wc_value c s))
          (CellTooLong (fs_position s) (wc_label c) (the (wc_maxLength c)))) FORM2_WORKFLOW_COLUMNS)"

definition validateForm2WorkflowSteps :: "form2_step list \<Rightarrow> form_problem list" where
  "validateForm2WorkflowSteps steps =
     (if steps = [] then []
      else problem_if (\<not> distinct (map fs_position steps)) SharedPosition
        @ problem_if (\<not> contiguous (map fs_position steps)) PositionsNotContiguous
        @ concat (map step_problems steps))"

definition validateObjectiveForSubmission :: "form2_objective \<Rightarrow> form2_step list \<Rightarrow> form_problem list" where
  "validateObjectiveForSubmission c steps =
     validateForm2Objective c @ validateForm2WorkflowSteps steps
     @ problem_if (steps = []) NoSteps
     @ problem_if (fo_responsibleOwner c = None \<or> fo_responsibleOwner c = Some []) NoResponsibleOwner
     @ concat (map (\<lambda>s. problem_if (fs_whoEngine s = HumanEngine
          \<and> (case fs_whoPersonName s of None \<Rightarrow> True | Some n \<Rightarrow> blank n)) (NoPersonName (fs_position s))) steps)"

section \<open>Rewards\<close>

datatype RewardType = CashReward | PointsReward | RecognitionReward | OtherReward

fun reward_type_name :: "RewardType \<Rightarrow> string" where
  "reward_type_name CashReward = ''Cash''"
| "reward_type_name PointsReward = ''Points''"
| "reward_type_name RecognitionReward = ''Recognition''"
| "reward_type_name OtherReward = ''Other''"

record reward_panel =
  rp_applicable :: bool
  rp_rewardType :: "RewardType option"
  rp_amountMinorUnits :: "int option"
  rp_eligibilityCondition :: "string option"
  rp_completionDeadline :: "string option"
  rp_evidence :: "string option"
  rp_approver :: "uid option"

definition validateRewardPanel :: "reward_panel \<Rightarrow> form_problem list" where
  "validateRewardPanel p =
     problem_if (case rp_amountMinorUnits p of None \<Rightarrow> False | Some n \<Rightarrow> n < 0) AmountNotWhole
     @ (if \<not> rp_applicable p then []
        else problem_if (rp_rewardType p = None) RewardWithoutType
          @ problem_if (case rp_eligibilityCondition p of None \<Rightarrow> True | Some s \<Rightarrow> blank s) RewardWithoutCondition
          @ problem_if (rp_approver p = None \<or> rp_approver p = Some []) RewardWithoutApprover
          @ (case rp_rewardType p of
               Some t \<Rightarrow> problem_if (t \<in> {CashReward, PointsReward} \<and> rp_amountMinorUnits p = None) (RewardWithoutAmount (reward_type_name t))
             | None \<Rightarrow> []))"

section \<open>Comparing versions\<close>

datatype VersionOrigin = InitialOrigin | EditOrigin | RollbackOrigin

definition displayOf :: "field_value \<Rightarrow> string option" where
  "displayOf v = (case v of NoValue \<Rightarrow> None | TextValue s \<Rightarrow> (if s = [] then None else Some s) | NumberValue n \<Rightarrow> Some (show_int n))"

record field_change =
  fc_key :: string
  fc_label :: string
  fc_before :: "string option"
  fc_after :: "string option"

datatype step_change = StepAdded int | StepRemoved int | StepChanged int "field_change list"

definition cell_changed :: "string \<Rightarrow> string \<Rightarrow> field_value \<Rightarrow> field_value \<Rightarrow> field_change list" where
  "cell_changed key label v w =
     (if displayOf v \<noteq> displayOf w then [\<lparr>fc_key = key, fc_label = label, fc_before = displayOf v, fc_after = displayOf w\<rparr>] else [])"

definition field_changes :: "form2_objective \<Rightarrow> form2_objective \<Rightarrow> field_change list" where
  "field_changes c d = concat (map (\<lambda>f. cell_changed (ff_key f) (ff_label f) (ff_value f c) (ff_value f d)) FORM2_OBJECTIVE_FIELDS)"

definition cell_changes :: "form2_step \<Rightarrow> form2_step \<Rightarrow> field_change list" where
  "cell_changes s t = concat (map (\<lambda>k. cell_changed (wc_key k) (wc_label k) (wc_value k s) (wc_value k t)) FORM2_WORKFLOW_COLUMNS)"

definition step_numbered :: "form2_step list \<Rightarrow> int \<Rightarrow> form2_step option" where
  "step_numbered steps p = List.find (\<lambda>s. fs_position s = p) steps"

definition step_diff :: "form2_step list \<Rightarrow> form2_step list \<Rightarrow> int \<Rightarrow> step_change list" where
  "step_diff xs ys p =
     (case (step_numbered xs p, step_numbered ys p) of
        (None, None) \<Rightarrow> []
      | (None, Some t) \<Rightarrow> [StepAdded p]
      | (Some s, None) \<Rightarrow> [StepRemoved p]
      | (Some s, Some t) \<Rightarrow> (if cell_changes s t \<noteq> [] then [StepChanged p (cell_changes s t)] else []))"

record version_diff =
  df_fields :: "field_change list"
  df_steps :: "step_change list"
  df_identical :: bool

definition step_changes :: "form2_step list \<Rightarrow> form2_step list \<Rightarrow> step_change list" where
  "step_changes xs ys = concat (map (\<lambda>i. step_diff xs ys (int (Suc i))) [0..<max (length xs) (length ys)])"

definition diffObjectiveVersions ::
  "form2_objective \<Rightarrow> form2_step list \<Rightarrow> form2_objective \<Rightarrow> form2_step list \<Rightarrow> version_diff" where
  "diffObjectiveVersions c xs d ys =
     \<lparr>df_fields = field_changes c d, df_steps = step_changes xs ys,
      df_identical = (field_changes c d = [] \<and> step_changes xs ys = [])\<rparr>"

end
