(* ===== verification/Work_State.thy ===== *)
theory Work_State
  imports Performance Approvals Work_Release Authorization_Decision Workflow_Plan Objective_Forms
begin

text \<open>
  The tables that objectives, their workflows, human tasks and approvals share: objectives with their
  versions and workflow drafts, their rewards, pauses and outcome reviews, tasks with their evidence and notes,
  approval requests with their decisions, delegations, what the executor is to watch.  A row of \<open>human_tasks\<close> extends the
  columns the work release reads, a row of \<open>approval_requests\<close> those of a workflow step's approval.
  Row-level security makes a transaction of a company see that company's rows only.
\<close>

section \<open>Rows\<close>

record task_row = human_task +
  tk_dueAt :: "instant option"
  tk_expectedOutput :: string
  tk_evidenceRequirement :: string
  tk_approvalKind :: "string option"
  tk_startedAt :: "instant option"
  tk_submittedAt :: "instant option"
  tk_completedAt :: "instant option"
  tk_blockedReason :: "string option"
  tk_draft :: uid
  tk_assignedBy :: uid
  tk_inputDescription :: string
  tk_triggerDescription :: string

record evidence_row =
  te_tenant :: uid
  te_task :: uid
  te_description :: string
  te_reference :: string
  te_addedBy :: uid
  te_addedAt :: instant

datatype TaskNoteKind = CommentNote | ClarificationNote

record note_row =
  tn_tenant :: uid
  tn_task :: uid
  tn_kind :: TaskNoteKind
  tn_body :: string
  tn_author :: uid
  tn_createdAt :: instant

record approval_request = step_approval +
  aq_id :: uid
  aq_type :: ApprovalRequestType
  aq_title :: string
  aq_detail :: string
  aq_subjectType :: string
  aq_subject :: "uid option"
  aq_objective :: "uid option"
  aq_changeKind :: "string option"
  aq_requestedBy :: uid
  aq_named :: "uid option"
  aq_roleKind :: "string option"
  aq_due :: "instant option"
  aq_decidedBy :: "uid option"
  aq_decidedOnBehalf :: "uid option"
  aq_decidedAt :: "instant option"
  aq_note :: "string option"
  aq_supersedes :: "uid option"
  aq_escalatedAt :: "instant option"
  aq_escalatedTo :: "uid option"
  aq_createdAt :: instant
  aq_version :: nat

record decision_row =
  dc_tenant :: uid
  dc_request :: uid
  dc_decision :: ApprovalDecision
  dc_actor :: uid
  dc_onBehalfOf :: "uid option"
  dc_delegation :: "uid option"
  dc_note :: string
  dc_occurredAt :: instant

record delegation_row =
  dg_id :: uid
  dg_tenant :: uid
  dg_from :: uid
  dg_to :: uid
  dg_types :: "ApprovalRequestType list"
  dg_startsAt :: instant
  dg_endsAt :: instant
  dg_reason :: string
  dg_revokedAt :: "instant option"
  dg_revokedBy :: "uid option"
  dg_createdBy :: uid
  dg_createdAt :: instant
  dg_version :: nat

record version_row =
  ov_id :: uid
  ov_tenant :: uid
  ov_objective :: uid
  ov_number :: nat
  ov_status :: ObjectiveStatus
  ov_content :: form2_objective
  ov_steps :: "form2_step list"
  ov_origin :: VersionOrigin
  ov_copiedFrom :: "uid option"
  ov_submittedAt :: "instant option"
  ov_submittedBy :: "uid option"
  ov_teamConfirmedAt :: "instant option"
  ov_teamConfirmedBy :: "uid option"
  ov_approvedAt :: "instant option"
  ov_approvedBy :: "uid option"
  ov_publishedAt :: "instant option"
  ov_sentBackAt :: "instant option"
  ov_sentBackBy :: "uid option"
  ov_sentBackReason :: "string option"
  ov_createdBy :: uid
  ov_createdAt :: instant
  ov_version :: nat

record objective_row =
  ob_id :: uid
  ob_tenant :: uid
  ob_code :: string
  ob_department :: uid
  ob_owner :: uid
  ob_createdBy :: "uid option"
  ob_activeVersion :: "uid option"
  ob_version :: nat

record draft_row =
  wd_id :: uid
  wd_tenant :: uid
  wd_objective :: uid
  wd_objectiveVersion :: uid
  wd_seededFrom :: "uid option"
  wd_graph :: stored_plan
  wd_schemaVersion :: nat
  wd_revision :: nat
  wd_assignedAt :: "instant option"
  wd_assignedBy :: "uid option"
  wd_createdBy :: uid
  wd_updatedBy :: uid
  wd_createdAt :: instant
  wd_version :: nat

record analysis_run =
  an_id :: uid
  an_tenant :: uid
  an_objective :: uid
  an_objectiveVersion :: uid
  an_status :: AnalysisRunStatus
  an_stage :: "AnalysisStage option"
  an_stagesCompleted :: nat
  an_startedAt :: "instant option"
  an_completedAt :: "instant option"
  an_cancelledAt :: "instant option"
  an_cancelledBy :: "uid option"
  an_failureReason :: "string option"
  an_draft :: "stored_plan option"
  an_schemaVersion :: nat
  an_requestedBy :: uid
  an_createdAt :: instant
  an_version :: nat

record setup_prefill =
  sp_suggestedAgentName :: string
  sp_objectiveCode :: string
  sp_objectiveName :: string
  sp_assignedWork :: string
  sp_owner :: uid
  sp_skillVersions :: "uid list"
  sp_toolCategories :: "string list"
  sp_approvalRequired :: bool
  sp_completionEvidence :: string

record assigned_work = ai_assignment +
  aw_draft :: uid
  aw_title :: string
  aw_prefill :: setup_prefill
  aw_assignedBy :: uid

datatype ExecutorExpectationKind = HumanTaskOverdue | MissingCompletionEvidence | ApprovalPending | ConnectionRequired

record expectation_row =
  xe_id :: uid
  xe_tenant :: uid
  xe_objective :: uid
  xe_objectiveVersion :: uid
  xe_node :: uid
  xe_kind :: ExecutorExpectationKind
  xe_subjectType :: string
  xe_subject :: uid
  xe_detail :: string
  xe_dueAt :: "instant option"
  xe_registeredBy :: uid

record reward_row =
  rw_tenant :: uid
  rw_objective :: uid
  rw_panel :: reward_panel
  rw_createdBy :: uid
  rw_version :: nat

datatype PauseReason = WaitingOnSomebody | WaitingOnBudget | Deprioritised | BeingRethought | OtherPauseReason

record pause_row =
  pz_id :: uid
  pz_tenant :: uid
  pz_objective :: uid
  pz_reasonKind :: PauseReason
  pz_reason :: string
  pz_pausedBy :: uid
  pz_pausedAt :: instant
  pz_resumedBy :: "uid option"
  pz_resumedAt :: "instant option"
  pz_resumeNote :: "string option"

datatype OutcomeVerdict = VerdictMet | VerdictPartiallyMet | VerdictNotMet | VerdictSuperseded

datatype SlaOutcome = SlaOnTime | SlaLate | SlaUnknown

datatype ClosureSignOffPolicy = NeverSignOff | OwnerSignOff | ApprovalSignOff

record outcome_comparison =
  oc_expectedFinalResult :: string
  oc_targetDate :: "instant option"
  oc_completedAt :: "instant option"
  oc_humanTasksTotal :: nat
  oc_humanTasksCompleted :: nat
  oc_humanElapsedMinutes :: "int option"
  oc_aiCostMinor :: int
  oc_aiCostCurrency :: string
  oc_agentRunsTotal :: nat
  oc_exceptionsTotal :: nat
  oc_exceptionsUnresolved :: nat

record outcome_review =
  or_id :: uid
  or_tenant :: uid
  or_objective :: uid
  or_objectiveVersion :: uid
  or_verdict :: OutcomeVerdict
  or_actualResult :: string
  or_explanation :: "string option"
  or_slaOutcome :: SlaOutcome
  or_daysLate :: "int option"
  or_comparison :: outcome_comparison
  or_signOffPolicy :: ClosureSignOffPolicy
  or_reviewedBy :: uid
  or_reviewedAt :: instant
  or_signedOffAt :: "instant option"
  or_signedOffBy :: "uid option"
  or_approvalRequest :: "uid option"
  or_closedAt :: "instant option"
  or_closedBy :: "uid option"

record department_row =
  dp_name :: string
  dp_code :: "string option"
  dp_archived :: bool

record connection_row =
  cn_connector :: string
  cn_disabledAt :: "instant option"
  cn_needsReauthorization :: bool
  cn_credentialExpiresAt :: "instant option"

section \<open>State and environment\<close>

text \<open>
  A decision in flight: \<open>decide\<close> has loaded the request and authorised the actor but not yet begun
  its second transaction.  An escalation in flight: the sweep has read the row.
\<close>

record ticket =
  ti_tenant :: uid
  ti_actor :: uid
  ti_decision :: ApprovalDecision
  ti_note :: string
  ti_request :: approval_request
  ti_history :: "decision_row list"
  ti_delegation :: "(uid \<times> uid) option"

text \<open>An assignment in flight: the workflow has been loaded and checked, the work not yet handed out.\<close>

record publication =
  pb_tenant :: uid
  pb_actor :: uid
  pb_objective :: objective_row
  pb_draft :: uid
  pb_objectiveVersion :: uid
  pb_graph :: workflow_plan
  pb_mayRelease :: bool
  pb_acceptWarnings :: bool
  pb_budgetNote :: string

record work_state = performance_state +
  wk_tasks :: "task_row list"
  wk_evidence :: "evidence_row list"
  wk_notes :: "note_row list"
  wk_requests :: "approval_request list"
  wk_decisions :: "decision_row list"
  wk_delegations :: "delegation_row list"
  wk_objectives :: "objective_row list"
  wk_versions :: "version_row list"
  wk_rewards :: "reward_row list"
  wk_pauses :: "pause_row list"
  wk_reviews :: "outcome_review list"
  wk_drafts :: "draft_row list"
  wk_analyses :: "analysis_run list"
  wk_expectations :: "expectation_row list"
  wk_assignments :: "assigned_work list"
  wk_completedWork :: "uid list"
  wk_released :: "release_audit list"
  wk_told :: "work_notice list"
  wk_tickets :: "ticket list"
  wk_escalating :: "approval_request list"
  wk_publishing :: "publication list"

text \<open>
  What the operations read of the rest of the program, at the moment they run: for an objective the
  finishing times of its agent runs, the settled entries of its cost ledger and which of its
  exceptions are unresolved; whether somebody reports, directly or not, to somebody else.
\<close>

record work_env =
  we_authz :: "uid \<Rightarrow> authz_db"
  we_entitled :: "module_key list option"
  we_hierarchy :: "hierarchy_resolver option"
  we_department :: "uid \<Rightarrow> uid option"
  we_manager :: "uid \<Rightarrow> uid option"
  we_employment :: "uid \<Rightarrow> uid option"
  we_holders :: "string \<Rightarrow> uid list"
  we_raises :: "work_notice \<Rightarrow> bool"
  we_account :: "uid \<Rightarrow> string option"
  we_activeAgent :: "uid \<Rightarrow> string option"
  we_connections :: "connection_row list"
  we_budgetPolicy :: bool
  we_departments :: "uid \<Rightarrow> department_row option"
  we_inSubtree :: "uid \<Rightarrow> uid \<Rightarrow> bool"
  we_signOff :: "string option"
  we_runs :: "uid \<Rightarrow> instant option list"
  we_settled :: "uid \<Rightarrow> (int \<times> string) list"
  we_exceptions :: "uid \<Rightarrow> bool list"

text \<open>Why publishing a workflow was refused, under which of the named checks.\<close>

datatype AssignmentCheck = CheckWorkflowSchemaVersion | CheckOwnersAndAssignees | CheckPermissions | CheckRequiredApprovals
  | CheckConnectionReadiness | CheckBudgetEstimatePolicy | CheckNoProhibitedHighRiskPath

datatype refusal_reason =
    PlanProblem plan_problem
  | AlreadyLive
  | DoneIncomplete "string list"
  | StepWithoutOwner
  | StepWithoutSkill
  | GateWithoutApprover
  | AssigneeNotMember uid
  | AssigneeInactive uid string
  | GateNeedsTwoNamesOne
  | ApproverNotMember
  | ApproverMayNot decision_message
  | ToolNotProvided string
  | HighRiskStep
  | VersionNotApproved

type_synonym assignment_refusal = "AssignmentCheck \<times> uid option \<times> refusal_reason"

text \<open>What the services refuse, by the part that does: workflows, the versions of an objective, its closure.\<close>

datatype workflow_error =
    NoVersionToPlan
  | NoWorkflowDraft
  | NoCompletedAnalysis
  | SchemaUnreadable nat
  | DraftInvalid "plan_problem list"
  | WorkflowAssigned
  | RevisionStale nat nat
  | AnalysisIsLatest
  | NoSuchNode uid
  | NodeNeedsLabel
  | ConversionRefused conversion_refusal
  | GoalIsFixed
  | AssignmentRefused "assignment_refusal list"
  | ApprovalMissing
  | VersionIsLive
  | DueDateOutOfRange

datatype objective_error =
    FormProblems "form_problem list"
  | NoSuchDepartment
  | DepartmentArchived
  | OwnerNotMember
  | OwnerNotInLine
  | CodeTaken string
  | VersionNotEditable ObjectiveStatus
  | NoEditableDraft
  | SeveralDrafts
  | VersionNotReviewable ObjectiveStatus
  | NothingUnderReview
  | SeveralUnderReview
  | VersionStatusIs ObjectiveStatus ObjectiveStatus
  | NoVersionInStatus ObjectiveStatus
  | SeveralInStatus
  | NobodyReviews
  | NotTheReviewer
  | TransitionRefused ObjectiveStatus ObjectiveStatus
  | ReasonNeeded
  | TeamNotConfirmed
  | AlreadyApproved
  | NotApproved
  | WorkNotHandedOut
  | DraftAlreadyOpen nat
  | NothingToCopy

datatype analysis_error =
    NothingToAnalyse
  | NoStepsToRead
  | ReviewStillOpen
  | AnalysisAlreadyRunning
  | NoSuchAnalysis
  | AnalysisOver AnalysisRunStatus
  | DraftNotValid "plan_problem list"

datatype closure_error =
    PauseNeedsReason
  | AlreadyPaused
  | NoOpenPause
  | AnotherVersionActive
  | NoLiveVersion
  | ReviewProblems bool bool
  | NotReadyForReview bool bool
  | NoReview
  | NotTheOwner
  | AlreadySignedOff
  | AlreadyClosed
  | ClosureNotSigned
  | ClosureNotApproved
  | AlreadyReviewed
  | TargetDateOutOfRange

datatype work_error =
    Unauthorised decision_message
  | NotAddressed addressed_reason
  | RequestSettled ApprovalRequestStatus
  | NoSuchRequest
  | NoSuchTask
  | NoSuchDelegation
  | DecisionNeedsReason ApprovalDecision
  | RequestNeedsTitle
  | RequestAddressesNobody
  | ReplacesNothing
  | OnlySentBackReplaced ApprovalRequestStatus
  | AlreadyReplaced
  | ChangeProblems "change_request_problem list"
  | DelegatedToArranger
  | DelegationRefused delegation_problem
  | DelegatedTypeUnknown ApprovalRequestType
  | DelegationAlreadyRevoked
  | MoveRefused HumanTaskStatus HumanTaskStatus
  | BlockNeedsReason
  | EvidenceNeedsDescription
  | NoteIsEmpty
  | SubmissionRefused "submission_problem list"
  | NoSuchObjective
  | NoSuchVersion
  | InWorkflow workflow_error
  | InObjective objective_error
  | InClosure closure_error
  | InAnalysis analysis_error

definition context_of :: "work_env \<Rightarrow> uid \<Rightarrow> uid \<Rightarrow> instant \<Rightarrow> authz_context" where
  "context_of env tenant actor now = contextFor tenant actor now (we_entitled env) (we_authz env actor)"

definition asked :: "module_key \<Rightarrow> Action \<Rightarrow> resource option \<Rightarrow> sod_policy list \<Rightarrow> authorize_input" where
  "asked m a r sod = \<lparr>in_module = m, in_action = action_name a, in_resource = r, in_actingAsAgent = False,
     in_additionalSod = sod\<rparr>"

definition permit :: "work_env \<Rightarrow> authz_context \<Rightarrow> module_key \<Rightarrow> Action \<Rightarrow> resource option \<Rightarrow> sod_policy list \<Rightarrow> work_error + unit" where
  "permit env cx m a r sod = map_sum Unauthorised id (assertCan cx (we_hierarchy env) (asked m a r sod))"

definition orthrow :: "'e \<Rightarrow> 'b option \<Rightarrow> 'e + 'b" where
  "orthrow e x = (case x of None \<Rightarrow> Inl e | Some a \<Rightarrow> Inr a)"

lemma orthrow_eq_Inr [result_simps]: "orthrow e x = Inr a \<longleftrightarrow> x = Some a"
  by (simp add: orthrow_def split: option.split)

lemma permit_allowed [simp]:
  "permit env cx m a r sod = Inr u \<longleftrightarrow> de_allowed (fst (authorize cx (we_hierarchy env) (asked m a r sod)))"
  by (simp add: permit_def assertCan_def Let_def)

end
