(* ===== verification/Human_Tasks.thy ===== *)
theory Human_Tasks
  imports Work_State
begin

text \<open>
  \<open>src/apps/api/src/tasks/human-task.service.ts\<close> and \<open>objective-review.service.ts\<close>: what the person a
  task is assigned to does with it, from starting to submitting, and what the outcome of an approval
  does to the task and to the work that waits for it.
\<close>

section \<open>Names\<close>

fun task_status_name :: "HumanTaskStatus \<Rightarrow> string" where
  "task_status_name TaskWaiting = ''Waiting''"
| "task_status_name TaskAssigned = ''Assigned''"
| "task_status_name TaskInProgress = ''InProgress''"
| "task_status_name TaskBlocked = ''Blocked''"
| "task_status_name TaskNeedsInput = ''NeedsInput''"
| "task_status_name TaskWaitingApproval = ''WaitingApproval''"
| "task_status_name TaskSubmitted = ''Submitted''"
| "task_status_name TaskCompleted = ''Completed''"
| "task_status_name TaskCancelled = ''Cancelled''"

fun HUMAN_TASK_STATUS_LABELS :: "HumanTaskStatus \<Rightarrow> string" where
  "HUMAN_TASK_STATUS_LABELS TaskInProgress = ''In progress''"
| "HUMAN_TASK_STATUS_LABELS TaskNeedsInput = ''Needs input''"
| "HUMAN_TASK_STATUS_LABELS TaskWaitingApproval = ''Waiting approval''"
| "HUMAN_TASK_STATUS_LABELS s = task_status_name s"

fun HUMAN_TASK_STATUS_TONES :: "HumanTaskStatus \<Rightarrow> string" where
  "HUMAN_TASK_STATUS_TONES TaskWaiting = ''grey''"
| "HUMAN_TASK_STATUS_TONES TaskAssigned = ''blue''"
| "HUMAN_TASK_STATUS_TONES TaskInProgress = ''teal''"
| "HUMAN_TASK_STATUS_TONES TaskBlocked = ''danger''"
| "HUMAN_TASK_STATUS_TONES TaskNeedsInput = ''warn''"
| "HUMAN_TASK_STATUS_TONES TaskWaitingApproval = ''purple''"
| "HUMAN_TASK_STATUS_TONES TaskSubmitted = ''blue''"
| "HUMAN_TASK_STATUS_TONES TaskCompleted = ''success''"
| "HUMAN_TASK_STATUS_TONES TaskCancelled = ''grey''"

definition humanTaskDisplayStatus :: "HumanTaskStatus \<Rightarrow> instant option \<Rightarrow> instant \<Rightarrow> string \<times> string" where
  "humanTaskDisplayStatus status dueAt now =
     (if isHumanTaskOverdue status dueAt now then (''Overdue'', ''danger'')
      else (HUMAN_TASK_STATUS_LABELS status, HUMAN_TASK_STATUS_TONES status))"

section \<open>Reading and writing one task\<close>

definition load_task :: "uid \<Rightarrow> uid \<Rightarrow> work_state \<Rightarrow> work_error + task_row" where
  "load_task tenant i st = orthrow NoSuchTask (List.find (\<lambda>t. ht_tenant t = tenant \<and> ht_id t = i) (wk_tasks st))"

text \<open>The objective a task belongs to, joined by its foreign key.\<close>

definition objective_of :: "task_row \<Rightarrow> work_state \<Rightarrow> objective_row option" where
  "objective_of row st = List.find (\<lambda>o'. ob_tenant o' = ht_tenant row \<and> ob_id o' = ht_objective row) (wk_objectives st)"

definition code_of :: "task_row \<Rightarrow> work_state \<Rightarrow> string" where
  "code_of row st = (case objective_of row st of None \<Rightarrow> [] | Some o' \<Rightarrow> ob_code o')"

definition task_resource :: "work_state \<Rightarrow> task_row \<Rightarrow> resource" where
  "task_resource st row = \<lparr>re_id = ht_id row, ownerUserId = Some (ht_assignee row), createdByUserId = None,
     re_departmentId = map_option ob_department (objective_of row st), priorActorUserIds = None\<rparr>"

definition assertOnTask :: "work_env \<Rightarrow> authz_context \<Rightarrow> work_state \<Rightarrow> task_row \<Rightarrow> Action \<Rightarrow> work_error + unit" where
  "assertOnTask env cx st row action = permit env cx ''todo'' action (Some (task_resource st row)) []"

definition assertMove :: "HumanTaskStatus \<Rightarrow> HumanTaskStatus \<Rightarrow> work_error + unit" where
  "assertMove start to = check_that (mayMoveHumanTask start to) (MoveRefused start to)"

definition write_task :: "uid \<Rightarrow> (task_row \<Rightarrow> task_row) \<Rightarrow> work_state \<Rightarrow> work_state" where
  "write_task i f st =
     st\<lparr>wk_tasks := update_where (\<lambda>t. ht_id t = i) (\<lambda>t. (f t)\<lparr>ht_version := Suc (ht_version t)\<rparr>) (wk_tasks st)\<rparr>"

definition task_audit :: "string \<Rightarrow> uid \<Rightarrow> task_row \<Rightarrow> string \<Rightarrow> TrailMetadata \<Rightarrow> AuditEventInput" where
  "task_audit action actor row summary metadata =
     audit_of action ''human_task'' (ht_id row) (Some actor) (Some (ht_title row)) None summary metadata"

text \<open>
  \<open>mutate\<close>: authorised on the module and on the task, then the change, what belongs to the same
  transaction, and the audit event.
\<close>

record task_change =
  mc_set :: "task_row \<Rightarrow> task_row"
  mc_action :: string
  mc_summary :: string

definition mutate ::
  "work_env \<Rightarrow> uid \<Rightarrow> uid \<Rightarrow> instant \<Rightarrow> uid \<Rightarrow> (task_row \<Rightarrow> work_error + task_change)
   \<Rightarrow> (task_row \<Rightarrow> work_state \<Rightarrow> work_state) \<Rightarrow> work_state \<Rightarrow> work_error + work_state" where
  "mutate env tenant actor now i change also st =
     bind_result (permit env (context_of env tenant actor now) ''todo'' ActEditDraft None []) (\<lambda>_.
     bind_result (load_task tenant i st) (\<lambda>row.
     bind_result (assertOnTask env (context_of env tenant actor now) st row ActEditDraft) (\<lambda>_.
     bind_result (change row) (\<lambda>c.
       Inr (append_audit tenant
              (task_audit (mc_action c) actor row (mc_summary c)
                 [(''taskId'', JString (ht_id row)), (''from'', JString (task_status_name (ht_status row))),
                  (''to'', JString (task_status_name (ht_status (mc_set c row))))])
              (also row (write_task (ht_id row) (mc_set c) st)))))))"

section \<open>Starting and blocking\<close>

definition waits_on :: "uid \<Rightarrow> uid \<Rightarrow> approval_request \<Rightarrow> bool" where
  "waits_on tenant i r \<longleftrightarrow>
     sa_tenant r = tenant \<and> aq_subjectType r = ''HumanTask'' \<and> aq_subject r = Some i \<and> sa_status r = RequestPending"

definition withdrawn_note :: string where
  "withdrawn_note = ''Withdrawn, not decided: the work was pulled back to In progress, so the submission this was raised for no longer stands. Submitting the revised work raises a fresh request.''"

definition withdraw :: "uid \<Rightarrow> instant \<Rightarrow> approval_request \<Rightarrow> approval_request" where
  "withdraw actor now r = r\<lparr>sa_status := RequestCancelled, aq_decidedBy := Some actor, aq_decidedAt := Some now,
     aq_note := Some withdrawn_note, aq_version := Suc (aq_version r)\<rparr>"

definition withdraw_audit :: "uid \<Rightarrow> task_row \<Rightarrow> approval_request list \<Rightarrow> AuditEventInput" where
  "withdraw_audit actor row pending =
     task_audit ''todo.approvals_withdrawn'' actor row
       (''Withdrew '' @ show_nat (length pending) @ '' approval request(s) waiting on '' @ quoted (ht_title row)
        @ '': the work was reopened, so the submission they were raised for no longer stands.'')
       [(''taskId'', JString (ht_id row)), (''withdrawnCount'', JNumber (int (length pending))),
        (''approvalRequestIds'', JString (join '','' (map aq_id pending)))]"

definition withdrawPendingApprovals :: "uid \<Rightarrow> uid \<Rightarrow> instant \<Rightarrow> task_row \<Rightarrow> work_state \<Rightarrow> work_state" where
  "withdrawPendingApprovals tenant actor now row st =
     (let pending = filter (waits_on tenant (ht_id row)) (wk_requests st)
      in if pending = [] then st
         else append_audit tenant (withdraw_audit actor row pending)
                (st\<lparr>wk_requests :=
                   update_where (\<lambda>r. aq_id r \<in> set (map aq_id pending) \<and> sa_status r = RequestPending)
                     (withdraw actor now) (wk_requests st)\<rparr>))"

definition started :: "instant \<Rightarrow> task_row \<Rightarrow> task_row" where
  "started now row = row\<lparr>ht_status := TaskInProgress,
     tk_startedAt := (case tk_startedAt row of None \<Rightarrow> Some now | Some t \<Rightarrow> Some t), tk_blockedReason := None\<rparr>"

definition start_change :: "instant \<Rightarrow> task_row \<Rightarrow> work_error + task_change" where
  "start_change now row =
     bind_result (assertMove (ht_status row) TaskInProgress) (\<lambda>_.
       Inr \<lparr>mc_set = started now, mc_action = ''todo.task_started'',
            mc_summary = ''Started '' @ quoted (ht_title row) @ ''.''\<rparr>)"

definition withdraw_if_waiting :: "uid \<Rightarrow> uid \<Rightarrow> instant \<Rightarrow> task_row \<Rightarrow> work_state \<Rightarrow> work_state" where
  "withdraw_if_waiting tenant actor now row st =
     (if ht_status row \<noteq> TaskWaitingApproval then st else withdrawPendingApprovals tenant actor now row st)"

definition start_task :: "work_env \<Rightarrow> uid \<Rightarrow> uid \<Rightarrow> instant \<Rightarrow> uid \<Rightarrow> work_state \<Rightarrow> work_error + work_state" where
  "start_task env tenant actor now i st =
     mutate env tenant actor now i (start_change now) (withdraw_if_waiting tenant actor now) st"

definition blocked_for :: "string \<Rightarrow> task_row \<Rightarrow> task_row" where
  "blocked_for reason row = row\<lparr>ht_status := TaskBlocked, tk_blockedReason := Some (trim reason)\<rparr>"

definition block_change :: "string \<Rightarrow> task_row \<Rightarrow> work_error + task_change" where
  "block_change reason row =
     bind_result (assertMove (ht_status row) TaskBlocked) (\<lambda>_.
       Inr \<lparr>mc_set = blocked_for reason, mc_action = ''todo.task_blocked'',
            mc_summary = ''Blocked '' @ quoted (ht_title row) @ '': '' @ trim reason\<rparr>)"

definition block_task :: "work_env \<Rightarrow> uid \<Rightarrow> uid \<Rightarrow> instant \<Rightarrow> uid \<Rightarrow> string \<Rightarrow> work_state \<Rightarrow> work_error + work_state" where
  "block_task env tenant actor now i reason st =
     (if blank reason then Inl BlockNeedsReason
      else mutate env tenant actor now i (block_change reason) (\<lambda>row st. st) st)"

section \<open>Evidence and notes\<close>

definition addEvidence ::
  "work_env \<Rightarrow> uid \<Rightarrow> uid \<Rightarrow> instant \<Rightarrow> uid \<Rightarrow> string \<Rightarrow> string option \<Rightarrow> work_state \<Rightarrow> work_error + work_state" where
  "addEvidence env tenant actor now i description reference st =
     (let cx = context_of env tenant actor now; ref = (case reference of None \<Rightarrow> [] | Some r \<Rightarrow> trim r) in
      if blank description then Inl EvidenceNeedsDescription
      else bind_result (permit env cx ''todo'' ActEditDraft None []) (\<lambda>_.
           bind_result (load_task tenant i st) (\<lambda>row.
           bind_result (assertOnTask env cx st row ActEditDraft) (\<lambda>_.
             Inr (append_audit tenant
               (task_audit ''todo.evidence_added'' actor row (''Attached evidence to '' @ quoted (ht_title row) @ ''.'')
                  [(''taskId'', JString (ht_id row)), (''reference'', JString ref)])
               (st\<lparr>wk_evidence := wk_evidence st @ [\<lparr>te_tenant = tenant, te_task = ht_id row,
                     te_description = trim description, te_reference = ref, te_addedBy = actor, te_addedAt = now\<rparr>]\<rparr>))))))"

definition needs_input :: "task_row \<Rightarrow> task_row" where
  "needs_input row = row\<lparr>ht_status := TaskNeedsInput\<rparr>"

fun note_kind_name :: "TaskNoteKind \<Rightarrow> string" where
  "note_kind_name CommentNote = ''Comment''"
| "note_kind_name ClarificationNote = ''Clarification''"

definition note_audit :: "TaskNoteKind \<Rightarrow> uid \<Rightarrow> task_row \<Rightarrow> AuditEventInput" where
  "note_audit knd actor row =
     task_audit (if knd = ClarificationNote then ''todo.clarification_asked'' else ''todo.task_commented'') actor row
       ((if knd = ClarificationNote then ''Asked for clarification on '' else ''Commented on '') @ quoted (ht_title row) @ ''.'')
       [(''taskId'', JString (ht_id row)), (''kind'', JString (note_kind_name knd))]"

definition ask_if_clarification :: "TaskNoteKind \<Rightarrow> task_row \<Rightarrow> work_state \<Rightarrow> work_state" where
  "ask_if_clarification knd row st =
     (if knd = ClarificationNote \<and> mayMoveHumanTask (ht_status row) TaskNeedsInput
      then write_task (ht_id row) needs_input st else st)"

definition addNote ::
  "work_env \<Rightarrow> uid \<Rightarrow> uid \<Rightarrow> instant \<Rightarrow> uid \<Rightarrow> TaskNoteKind \<Rightarrow> string \<Rightarrow> work_state \<Rightarrow> work_error + work_state" where
  "addNote env tenant actor now i knd body st =
     (let cx = context_of env tenant actor now in
      if blank body then Inl NoteIsEmpty
      else bind_result (permit env cx ''todo'' ActComment None []) (\<lambda>_.
           bind_result (load_task tenant i st) (\<lambda>row.
           bind_result (assertOnTask env cx st row ActComment) (\<lambda>_.
             (let note = \<lparr>tn_tenant = tenant, tn_task = ht_id row, tn_kind = knd, tn_body = trim body,
                          tn_author = actor, tn_createdAt = now\<rparr>
              in Inr (append_audit tenant (note_audit knd actor row)
                   (ask_if_clarification knd row (st\<lparr>wk_notes := wk_notes st @ [note]\<rparr>))))))))"

section \<open>Scoring\<close>

record finished_task =
  fk_id :: uid
  fk_title :: string
  fk_assignee :: uid
  fk_dueAt :: "instant option"

definition task_event :: "uid \<Rightarrow> PerformanceEventKind \<Rightarrow> uid \<Rightarrow> instant option \<Rightarrow> event_input" where
  "task_event subject knd source occurred =
     \<lparr>ei_subject = subject, ei_kind = knd, ei_sourceKind = ''human_task'', ei_sourceId = source, ei_reason = None,
      ei_neutralises = None, ei_points = None, ei_recordedBy = None, ei_occurredAt = occurred\<rparr>"

text \<open>A failure to score is logged and the completion stands.\<close>

definition scoreCompletion :: "work_env \<Rightarrow> uid \<Rightarrow> finished_task \<Rightarrow> instant \<Rightarrow> work_state \<Rightarrow> work_state" where
  "scoreCompletion env tenant task completedAt st =
     (let onTime = (case fk_dueAt task of None \<Rightarrow> True | Some due \<Rightarrow> completedAt \<le> due)
      in if \<not> onTime \<and> hasEvent tenant (task_event (fk_assignee task) Missed (fk_id task) None) st then st
         else snd (recordEvent tenant (we_employment env) completedAt
                (task_event (fk_assignee task) (if onTime then OnTimeAccepted else LateCompletion) (fk_id task)
                   (Some completedAt)) st))"

definition rejection_event :: "uid \<Rightarrow> uid \<Rightarrow> event_input" where
  "rejection_event subject request =
     \<lparr>ei_subject = subject, ei_kind = QualityRejected, ei_sourceKind = ''approval_request'', ei_sourceId = request,
      ei_reason = None, ei_neutralises = None, ei_points = None, ei_recordedBy = None, ei_occurredAt = None\<rparr>"

definition scoreRejections :: "work_env \<Rightarrow> uid \<Rightarrow> instant \<Rightarrow> uid \<Rightarrow> uid list \<Rightarrow> work_state \<Rightarrow> work_state" where
  "scoreRejections env tenant now subject requests st =
     foldl (\<lambda>st r. snd (recordEvent tenant (we_employment env) now (rejection_event subject r) st)) st requests"

section \<open>Submitting\<close>

definition needs_approval :: "string option \<Rightarrow> bool" where
  "needs_approval knd \<longleftrightarrow> knd \<noteq> None \<and> knd \<noteq> Some ''NotRequired''"

definition kind_text :: "string option \<Rightarrow> string" where
  "kind_text knd = (case knd of None \<Rightarrow> ''null'' | Some k \<Rightarrow> k)"

definition submitted_row :: "instant \<Rightarrow> task_row \<Rightarrow> task_row" where
  "submitted_row now row = row\<lparr>
     ht_status := (if needs_approval (tk_approvalKind row) then TaskWaitingApproval else TaskCompleted),
     tk_submittedAt := Some now,
     tk_startedAt := (case tk_startedAt row of None \<Rightarrow> Some now | Some t \<Rightarrow> Some t),
     tk_completedAt := (if needs_approval (tk_approvalKind row) then tk_completedAt row else Some now)\<rparr>"

definition output_request :: "uid \<Rightarrow> uid \<Rightarrow> uid \<Rightarrow> instant \<Rightarrow> string \<Rightarrow> task_row \<Rightarrow> approval_request" where
  "output_request newId tenant actor now code row =
     \<lparr>sa_tenant = tenant, sa_objectiveVersion = Some (ht_objectiveVersion row), sa_node = None,
      sa_status = RequestPending, aq_id = newId, aq_type = OutputApproval,
      aq_title = ''Output approval: '' @ ht_title row,
      aq_detail = code @ '': '' @ quoted (ht_title row) @ '' was submitted and needs a ''
        @ kind_text (tk_approvalKind row) @ '' decision. Expected output: '' @ tk_expectedOutput row,
      aq_subjectType = ''HumanTask'', aq_subject = Some (ht_id row), aq_objective = Some (ht_objective row),
      aq_changeKind = None, aq_requestedBy = actor, aq_named = None, aq_roleKind = tk_approvalKind row,
      aq_due = None, aq_decidedBy = None, aq_decidedOnBehalf = None, aq_decidedAt = None, aq_note = None,
      aq_supersedes = None, aq_escalatedAt = None, aq_escalatedTo = None, aq_createdAt = now, aq_version = 1\<rparr>"

definition release_work :: "uid \<Rightarrow> uid \<Rightarrow> uid \<Rightarrow> uid \<Rightarrow> work_state \<Rightarrow> released_task list \<times> work_state" where
  "release_work tenant objectiveVersion actor node st =
     (let (released, audits, tasks) = releaseWithinTransaction
            \<lparr>ri_tenant = tenant, ri_objectiveVersion = objectiveVersion, ri_actor = Some actor, ri_finishedNode = node\<rparr>
            (wk_completedWork st) (wk_tasks st) (wk_assignments st) (wk_requests st)
      in (released, st\<lparr>wk_tasks := tasks, wk_released := wk_released st @ audits\<rparr>))"

definition announce_released :: "work_env \<Rightarrow> uid \<Rightarrow> released_task list \<Rightarrow> work_state \<Rightarrow> work_state" where
  "announce_released env tenant released st = st\<lparr>wk_told := wk_told st @ announce (we_raises env) tenant released\<rparr>"

definition evidence_of :: "uid \<Rightarrow> uid \<Rightarrow> work_state \<Rightarrow> evidence_row list" where
  "evidence_of tenant i st = filter (\<lambda>e. te_tenant e = tenant \<and> te_task e = i) (wk_evidence st)"

definition submit_audit :: "uid \<Rightarrow> instant \<Rightarrow> task_row \<Rightarrow> nat \<Rightarrow> AuditEventInput" where
  "submit_audit actor now row evidence =
     task_audit (if needs_approval (tk_approvalKind row) then ''todo.task_submitted'' else ''todo.task_completed'') actor row
       (if needs_approval (tk_approvalKind row)
        then ''Submitted '' @ quoted (ht_title row) @ '' for '' @ kind_text (tk_approvalKind row) @ '' approval.''
        else ''Completed '' @ quoted (ht_title row) @ ''.'')
       [(''taskId'', JString (ht_id row)), (''evidenceCount'', JNumber (int evidence)),
        (''approvalKind'', jtext (tk_approvalKind row)),
        (''lateAgainstDueDate'', JBool (isHumanTaskOverdue (ht_status row) (tk_dueAt row) now))]"

definition finished_from :: "task_row \<Rightarrow> finished_task" where
  "finished_from row = \<lparr>fk_id = ht_id row, fk_title = ht_title row, fk_assignee = ht_assignee row, fk_dueAt = tk_dueAt row\<rparr>"

text \<open>What follows a submission that needs no approval: the work that waited, and the score.\<close>

definition finish_task :: "work_env \<Rightarrow> uid \<Rightarrow> uid \<Rightarrow> instant \<Rightarrow> task_row \<Rightarrow> work_state \<Rightarrow> released_task list \<times> work_state" where
  "finish_task env tenant actor now row st =
     (let (released, st1) = release_work tenant (ht_objectiveVersion row) actor (ht_node row) st
      in (released, scoreCompletion env tenant (finished_from row) now st1))"

definition add_request :: "approval_request \<Rightarrow> work_state \<Rightarrow> work_state" where
  "add_request r st = issue (st\<lparr>wk_requests := wk_requests st @ [r]\<rparr>)"

definition submitted :: "work_env \<Rightarrow> uid \<Rightarrow> uid \<Rightarrow> instant \<Rightarrow> task_row \<Rightarrow> work_state \<Rightarrow> work_state" where
  "submitted env tenant actor now row st =
     (let needs = needs_approval (tk_approvalKind row);
          st1 = write_task (ht_id row) (submitted_row now) st;
          st2 = (if needs then add_request (output_request (next_id st1) tenant actor now (code_of row st) row) st1 else st1);
          st3 = append_audit tenant (submit_audit actor now row (length (evidence_of tenant (ht_id row) st))) st2;
          (released, st4) = (if needs then ([], st3) else finish_task env tenant actor now row st3)
      in announce_released env tenant released st4)"

definition submit :: "work_env \<Rightarrow> uid \<Rightarrow> uid \<Rightarrow> instant \<Rightarrow> uid \<Rightarrow> work_state \<Rightarrow> work_error + work_state" where
  "submit env tenant actor now i st =
     (let cx = context_of env tenant actor now in
      bind_result (permit env cx ''todo'' ActEditDraft None []) (\<lambda>_.
      bind_result (load_task tenant i st) (\<lambda>row.
      bind_result (assertOnTask env cx st row ActEditDraft) (\<lambda>_.
        (let problems = validateTaskSubmission (ht_status row) (tk_evidenceRequirement row)
               (length (evidence_of tenant (ht_id row) st)) (tk_blockedReason row)
         in if problems \<noteq> [] then Inl (SubmissionRefused problems)
            else Inr (submitted env tenant actor now row st))))))"

section \<open>The outcome of an approval\<close>

definition about_task :: "uid \<Rightarrow> uid \<Rightarrow> approval_request \<Rightarrow> bool" where
  "about_task tenant i r \<longleftrightarrow>
     sa_tenant r = tenant \<and> aq_subjectType r = ''HumanTask'' \<and> aq_subject r = Some i \<and> sa_status r \<noteq> RequestCancelled"

text \<open>The requests of the current submission, or all of them when it has none.\<close>

definition governing :: "uid \<Rightarrow> task_row \<Rightarrow> approval_request list \<Rightarrow> approval_request list" where
  "governing tenant row requests =
     (let all = filter (about_task tenant (ht_id row)) requests;
          current = (case tk_submittedAt row of None \<Rightarrow> [] | Some s \<Rightarrow> filter (\<lambda>r. s \<le> aq_createdAt r) all)
      in if current \<noteq> [] then current else all)"

definition completed_row :: "instant \<Rightarrow> task_row \<Rightarrow> task_row" where
  "completed_row now row = row\<lparr>ht_status := TaskCompleted, tk_completedAt := Some now,
     tk_submittedAt := (case tk_submittedAt row of None \<Rightarrow> Some now | Some t \<Rightarrow> Some t),
     tk_startedAt := (case tk_startedAt row of None \<Rightarrow> Some now | Some t \<Rightarrow> Some t)\<rparr>"

definition completion_audit :: "uid \<Rightarrow> task_row \<Rightarrow> approval_request list \<Rightarrow> AuditEventInput" where
  "completion_audit actor row rs =
     task_audit ''todo.task_completed'' actor row
       (''Completed '' @ quoted (ht_title row) @ '': every approval it was waiting on is approved.'')
       [(''taskId'', JString (ht_id row)), (''completedBy'', JString ''approval''),
        (''approvalRequestIds'', JString (join '','' (map aq_id rs))), (''approvalsRequired'', JNumber (int (length rs)))]"

definition complete_task ::
  "work_env \<Rightarrow> uid \<Rightarrow> uid \<Rightarrow> instant \<Rightarrow> task_row \<Rightarrow> approval_request list \<Rightarrow> work_state \<Rightarrow> released_task list \<times> work_state" where
  "complete_task env tenant actor now row rs st =
     finish_task env tenant actor now row
       (append_audit tenant (completion_audit actor row rs) (write_task (ht_id row) (completed_row now) st))"

text \<open>Still waiting for a decision, or a request that was refused.\<close>

definition not_yet_approved :: "approval_request list \<Rightarrow> bool" where
  "not_yet_approved rs \<longleftrightarrow>
     filter (\<lambda>r. sa_status r = RequestPending) rs \<noteq> []
     \<or> length (filter (\<lambda>r. sa_status r = RequestApproved) rs) \<noteq> length rs"

definition reconcile_row ::
  "work_env \<Rightarrow> uid \<Rightarrow> uid \<Rightarrow> instant \<Rightarrow> task_row \<Rightarrow> approval_request list \<Rightarrow> work_state
   \<Rightarrow> work_error + ((bool \<times> HumanTaskStatus \<times> released_task list) \<times> work_state)" where
  "reconcile_row env tenant actor now row rs st =
     (if ht_status row \<noteq> TaskWaitingApproval \<or> rs = [] then Inr ((False, ht_status row, []), st)
      else if not_yet_approved rs
      then Inr ((False, ht_status row, []),
             scoreRejections env tenant now (ht_assignee row)
               (map aq_id (filter (\<lambda>r. sa_status r = RequestRejected) rs)) st)
      else bind_result (assertMove TaskWaitingApproval TaskSubmitted) (\<lambda>_.
           bind_result (assertMove TaskSubmitted TaskCompleted) (\<lambda>_.
             (let (released, st1) = complete_task env tenant actor now row rs st
              in Inr ((True, TaskCompleted, released), st1)))))"

definition reconcileApprovalOutcome ::
  "work_env \<Rightarrow> uid \<Rightarrow> uid \<Rightarrow> instant \<Rightarrow> uid \<Rightarrow> work_state
   \<Rightarrow> work_error + ((bool \<times> HumanTaskStatus \<times> released_task list) \<times> work_state)" where
  "reconcileApprovalOutcome env tenant actor now i st =
     (case load_task tenant i st of
        Inl e \<Rightarrow> Inr ((False, TaskCancelled, []), st)
      | Inr row \<Rightarrow> reconcile_row env tenant actor now row (governing tenant row (wk_requests st)) st)"

lemma completing_moves [simp]:
  "assertMove TaskWaitingApproval TaskSubmitted = Inr ()" "assertMove TaskSubmitted TaskCompleted = Inr ()"
  by (simp_all add: assertMove_def check_that_def mayMoveHumanTask_def)

lemma reconcile_row_eq:
  "reconcile_row env tenant actor now row rs st =
     (if ht_status row \<noteq> TaskWaitingApproval \<or> rs = [] then Inr ((False, ht_status row, []), st)
      else if not_yet_approved rs
      then Inr ((False, ht_status row, []),
             scoreRejections env tenant now (ht_assignee row)
               (map aq_id (filter (\<lambda>r. sa_status r = RequestRejected) rs)) st)
      else Inr ((True, TaskCompleted, fst (complete_task env tenant actor now row rs st)),
             snd (complete_task env tenant actor now row rs st)))"
  by (simp add: reconcile_row_def case_prod_beta)

section \<open>Sending an objective back\<close>

definition sent_back :: "uid \<Rightarrow> instant \<Rightarrow> string \<Rightarrow> version_row \<Rightarrow> version_row" where
  "sent_back actor now reason v = v\<lparr>ov_status := ObjectiveDraft, ov_sentBackAt := Some now,
     ov_sentBackBy := Some actor, ov_sentBackReason := Some reason, ov_version := Suc (ov_version v)\<rparr>"

definition version_ref :: "version_row \<Rightarrow> work_state \<Rightarrow> string" where
  "version_ref v st =
     (case List.find (\<lambda>o'. ob_tenant o' = ov_tenant v \<and> ob_id o' = ov_objective v) (wk_objectives st) of
        None \<Rightarrow> [] | Some o' \<Rightarrow> ob_code o') @ '' V'' @ show_nat (ov_number v)"

definition sendBackWithinTransaction ::
  "uid \<Rightarrow> uid \<Rightarrow> instant \<Rightarrow> uid \<Rightarrow> string \<Rightarrow> work_state \<Rightarrow> bool \<times> work_state" where
  "sendBackWithinTransaction tenant actor now i reason st =
     (case List.find (\<lambda>v. ov_tenant v = tenant \<and> ov_id v = i) (wk_versions st) of
        None \<Rightarrow> (False, st)
      | Some v \<Rightarrow>
          if \<not> mayTransitionObjective (ov_status v) ObjectiveDraft then (False, st)
          else (True, append_audit tenant
                 (audit_of ''objective.sent_back'' ''objective'' (ov_objective v) (Some actor)
                    (Some (version_ref v st)) (Some (ov_version v))
                    (''Refused the review of V'' @ show_nat (ov_number v) @ '' and sent it back for changes.'')
                    [(''versionId'', JString (ov_id v)), (''versionNumber'', JNumber (int (ov_number v)))])
                 (st\<lparr>wk_versions := update_where (\<lambda>r. ov_id r = ov_id v) (sent_back actor now reason) (wk_versions st)\<rparr>)))"

definition reviewApprovalOf :: "uid \<Rightarrow> uid \<Rightarrow> work_state \<Rightarrow> (uid \<times> uid option) option" where
  "reviewApprovalOf tenant i st =
     (case sort_key (\<lambda>r. - aq_createdAt r) (filter (\<lambda>r. sa_tenant r = tenant \<and> aq_type r = ObjectiveReview
         \<and> sa_objectiveVersion r = Some i \<and> sa_status r = RequestApproved) (wk_requests st)) of
        [] \<Rightarrow> None
      | r # _ \<Rightarrow> Some (aq_id r, aq_decidedBy r))"

section \<open>Reading\<close>

record task_view =
  tv_row :: task_row
  tv_display :: "string \<times> string"
  tv_overdue :: bool
  tv_evidence :: "evidence_row list"
  tv_notes :: "note_row list"
  tv_next :: "HumanTaskStatus list"

definition viewOf :: "uid \<Rightarrow> instant \<Rightarrow> work_state \<Rightarrow> task_row \<Rightarrow> task_view" where
  "viewOf tenant now st row =
     \<lparr>tv_row = row, tv_display = humanTaskDisplayStatus (ht_status row) (tk_dueAt row) now,
      tv_overdue = isHumanTaskOverdue (ht_status row) (tk_dueAt row) now,
      tv_evidence = sort_key te_addedAt (evidence_of tenant (ht_id row) st),
      tv_notes = sort_key tn_createdAt (filter (\<lambda>n. tn_tenant n = tenant \<and> tn_task n = ht_id row) (wk_notes st)),
      tv_next = ALLOWED_HUMAN_TASK_TRANSITIONS (ht_status row)\<rparr>"

definition view_task :: "work_env \<Rightarrow> uid \<Rightarrow> uid \<Rightarrow> instant \<Rightarrow> uid \<Rightarrow> work_state \<Rightarrow> work_error + task_view" where
  "view_task env tenant actor now i st =
     (let cx = context_of env tenant actor now in
      bind_result (permit env cx ''todo'' ActView None []) (\<lambda>_.
      bind_result (load_task tenant i st) (\<lambda>row.
      bind_result (assertOnTask env cx st row ActView) (\<lambda>_. Inr (viewOf tenant now st row)))))"

datatype task_filter = MyTasks | TeamTasks | BlockedTasks

definition list_selects :: "uid \<Rightarrow> uid \<Rightarrow> task_filter option \<Rightarrow> HumanTaskStatus option \<Rightarrow> string option \<Rightarrow> task_row \<Rightarrow> bool" where
  "list_selects tenant actor flt status search t \<longleftrightarrow>
     ht_tenant t = tenant
     \<and> (flt = None \<or> flt = Some MyTasks \<longrightarrow> ht_assignee t = actor)
     \<and> (flt = Some BlockedTasks \<longrightarrow> ht_status t = TaskBlocked)
     \<and> (case status of None \<Rightarrow> True | Some s \<Rightarrow> ht_status t = s)
     \<and> (case search of None \<Rightarrow> True
        | Some s \<Rightarrow> blank s \<or> occurs_in (map lower_char (trim s)) (map lower_char (ht_title t)))"

text \<open>By due date, those without one last; rows of the same due date in the order they were made.\<close>

definition by_due :: "task_row list \<Rightarrow> task_row list" where
  "by_due rows = sort_key (\<lambda>t. the (tk_dueAt t)) (filter (\<lambda>t. tk_dueAt t \<noteq> None) rows) @ filter (\<lambda>t. tk_dueAt t = None) rows"

record task_counts =
  tc_total :: nat
  tc_overdue :: nat
  tc_blocked :: nat
  tc_waiting :: nat
  tc_mine :: nat

definition counts_of :: "uid \<Rightarrow> instant \<Rightarrow> task_row list \<Rightarrow> task_counts" where
  "counts_of actor now rows =
     \<lparr>tc_total = length rows,
      tc_overdue = length (filter (\<lambda>t. isHumanTaskOverdue (ht_status t) (tk_dueAt t) now) rows),
      tc_blocked = length (filter (\<lambda>t. ht_status t = TaskBlocked) rows),
      tc_waiting = length (filter (\<lambda>t. ht_status t = TaskWaiting) rows),
      tc_mine = length (filter (\<lambda>t. ht_assignee t = actor) rows)\<rparr>"

definition list_tasks ::
  "work_env \<Rightarrow> uid \<Rightarrow> uid \<Rightarrow> instant \<Rightarrow> task_filter option \<Rightarrow> HumanTaskStatus option \<Rightarrow> string option \<Rightarrow> work_state
   \<Rightarrow> work_error + (task_view list \<times> task_counts)" where
  "list_tasks env tenant actor now flt status search st =
     (let cx = context_of env tenant actor now in
      bind_result (permit env cx ''todo'' ActView None []) (\<lambda>_.
        (let rows = by_due (filter (list_selects tenant actor flt status search) (wk_tasks st));
             visible = filter (\<lambda>t. de_allowed (fst (authorize cx (we_hierarchy env)
               (asked ''todo'' ActView (Some (task_resource st t)) [])))) rows
         in Inr (map (viewOf tenant now st) visible, counts_of actor now visible))))"

end
