(* ===== verification/Approval_Service.thy ===== *)
theory Approval_Service
  imports Human_Tasks Performance_Invariants
begin

text \<open>
  \<open>src/apps/api/src/approvals/approval.service.ts\<close>: raising a request, deciding it, delegations,
  escalation and what a person is shown.  \<open>decide\<close> authorises in one transaction and writes in
  another; the model keeps the decision in flight between the two, so that anything may happen there.
\<close>

section \<open>Reading a request\<close>

definition FOUR_EYES_REQUIRED :: nat where
  "FOUR_EYES_REQUIRED = 2"

definition load_request :: "uid \<Rightarrow> uid \<Rightarrow> work_state \<Rightarrow> work_error + approval_request" where
  "load_request tenant i st =
     orthrow NoSuchRequest (List.find (\<lambda>r. sa_tenant r = tenant \<and> aq_id r = i) (wk_requests st))"

definition history_of :: "uid \<Rightarrow> uid \<Rightarrow> work_state \<Rightarrow> decision_row list" where
  "history_of tenant i st =
     sort_key dc_occurredAt (filter (\<lambda>d. dc_tenant d = tenant \<and> dc_request d = i) (wk_decisions st))"

definition resourceFor :: "approval_request \<Rightarrow> uid option \<Rightarrow> uid list \<Rightarrow> resource" where
  "resourceFor r department prior =
     \<lparr>re_id = aq_id r, ownerUserId = Some (case aq_named r of None \<Rightarrow> aq_requestedBy r | Some u \<Rightarrow> u),
      createdByUserId = Some (aq_requestedBy r), re_departmentId = department, priorActorUserIds = Some prior\<rparr>"

definition sodPoliciesFor :: "approval_request \<Rightarrow> sod_policy list" where
  "sodPoliciesFor r =
     (if requiredSodRule (aq_roleKind r) = None then []
      else [\<lparr>so_action = ActApprove, so_module = None, so_rule = FourEyes, so_mandatory = True,
             so_reason = quoted (aq_title r) @ '' is a four-eyes gate: the workflow step asked for two distinct people, so the person who raised it cannot also decide it.''\<rparr>])"

definition approveEyesOf :: "uid \<Rightarrow> uid \<Rightarrow> work_state \<Rightarrow> uid list" where
  "approveEyesOf tenant i st =
     dedupe (map dc_actor (filter (\<lambda>d. dc_tenant d = tenant \<and> dc_request d = i \<and> dc_decision d = Approve) (wk_decisions st)))"

definition priorDecidersOf :: "decision_row list \<Rightarrow> uid list" where
  "priorDecidersOf history = dedupe (map dc_actor (filter (\<lambda>d. dc_decision d \<noteq> Comment) history))"

definition covers :: "ApprovalRequestType \<Rightarrow> instant \<Rightarrow> delegation_row \<Rightarrow> bool" where
  "covers t now d = delegationCovers (if dg_types d = [] then None else Some (dg_types d))
     (dg_startsAt d) (dg_endsAt d) (dg_revokedAt d) t now"

text \<open>The newest delegation that covers the type, one that names types before one for all.\<close>

definition coveringDelegation ::
  "uid \<Rightarrow> uid \<Rightarrow> uid option \<Rightarrow> ApprovalRequestType \<Rightarrow> instant \<Rightarrow> work_state \<Rightarrow> (uid \<times> uid) option" where
  "coveringDelegation tenant toUser fromUser t now st =
     (case fromUser of
        None \<Rightarrow> None
      | Some f \<Rightarrow>
          if f = toUser then None
          else (let rows = sort_key (\<lambda>d. - dg_createdAt d) (filter (\<lambda>d. dg_tenant d = tenant \<and> dg_to d = toUser
                      \<and> dg_from d = f \<and> dg_revokedAt d = None) (wk_delegations st));
                    covering = filter (covers t now) rows;
                    chosen = (case List.find (\<lambda>d. dg_types d \<noteq> []) covering of
                                Some d \<Rightarrow> Some d
                              | None \<Rightarrow> (case covering of [] \<Rightarrow> None | d # _ \<Rightarrow> Some d))
                in map_option (\<lambda>d. (dg_id d, dg_from d)) chosen))"

definition activeDelegationsTo :: "uid \<Rightarrow> uid \<Rightarrow> instant \<Rightarrow> work_state \<Rightarrow> uid list" where
  "activeDelegationsTo tenant toUser now st =
     map dg_from (filter (\<lambda>d. dg_tenant d = tenant \<and> dg_to d = toUser \<and> dg_revokedAt d = None
       \<and> dg_startsAt d \<le> now \<and> now \<le> dg_endsAt d) (wk_delegations st))"

section \<open>Notices\<close>

definition waiting_notice :: "uid \<Rightarrow> approval_request \<Rightarrow> uid \<Rightarrow> string \<Rightarrow> string \<Rightarrow> bool \<Rightarrow> string \<Rightarrow> notice" where
  "waiting_notice tenant r recipient title body assigned key =
     \<lparr>no_tenant = tenant, no_recipient = recipient, no_kind = ''ApprovalWaiting'', no_severity = None,
      no_title = title, no_body = body, no_deepLink = ''/approvals/'' @ aq_id r,
      no_resourceType = ''approval-request'', no_resourceId = aq_id r, no_assignedToRecipient = Some assigned,
      no_dedupeKey = key, no_escalatesAt = aq_due r, no_occurredAt = None\<rparr>"

fun role_label :: "RoleKind \<Rightarrow> string" where
  "role_label CompanyAdmin = ''Company Admin''"
| "role_label CustomRole = ''assigned''"
| "role_label r = role_name r"

definition role_title :: "string \<Rightarrow> string" where
  "role_title k = (case isRoleKind k of None \<Rightarrow> ''assigned'' | Some r \<Rightarrow> role_label r)"

definition notifyApprover :: "work_env \<Rightarrow> uid \<Rightarrow> approval_request \<Rightarrow> work_state \<Rightarrow> work_state" where
  "notifyApprover env tenant r st =
     (case aq_named r of
        Some u \<Rightarrow>
          raise_notice (waiting_notice tenant r u (''Approval waiting: '' @ aq_title r)
            (''A '' @ APPROVAL_REQUEST_TYPE_LABELS (aq_type r) @ '' request needs your decision.'') True
            (''approval-waiting:'' @ aq_id r)) st
      | None \<Rightarrow>
          (case aq_roleKind r of
             None \<Rightarrow> st
           | Some k \<Rightarrow>
               if k = FOUR_EYES_APPROVAL_KIND then st
               else foldl (\<lambda>st u. raise_notice (waiting_notice tenant r u
                        (''Waiting on the '' @ role_title k @ '': '' @ aq_title r)
                        (''A '' @ APPROVAL_REQUEST_TYPE_LABELS (aq_type r) @ '' request is addressed to the ''
                         @ role_title k @ '' role. Anybody holding it can decide it.'') False
                        (''approval-waiting:'' @ aq_id r @ '':'' @ u)) st)
                      st (dedupe (we_holders env k))))"

definition lower_label :: "ApprovalDecision \<Rightarrow> string" where
  "lower_label d = map lower_char (APPROVAL_DECISION_LABELS d)"

definition decided_notice :: "uid \<Rightarrow> approval_request \<Rightarrow> ApprovalDecision \<Rightarrow> string \<Rightarrow> notice" where
  "decided_notice tenant r d note =
     \<lparr>no_tenant = tenant, no_recipient = aq_requestedBy r, no_kind = ''ApprovalWaiting'',
      no_severity = Some (if d = Approve then ''Info'' else ''Warning''),
      no_title = APPROVAL_DECISION_LABELS d @ '': '' @ aq_title r,
      no_body = (if blank note then ''Your request was '' @ lower_label d @ ''.'' else note),
      no_deepLink = ''/approvals/'' @ aq_id r, no_resourceType = ''approval-request'', no_resourceId = aq_id r,
      no_assignedToRecipient = None, no_dedupeKey = ''approval-decided:'' @ aq_id r, no_escalatesAt = None,
      no_occurredAt = None\<rparr>"

definition notifyRequester :: "uid \<Rightarrow> approval_request \<Rightarrow> ApprovalDecision \<Rightarrow> string \<Rightarrow> work_state \<Rightarrow> work_state" where
  "notifyRequester tenant r d note st =
     (if \<not> decisionSettlesRequest d then st else raise_notice (decided_notice tenant r d note) st)"

section \<open>Raising\<close>

record raise_input =
  ra_type :: ApprovalRequestType
  ra_title :: string
  ra_detail :: string
  ra_subjectType :: string
  ra_subject :: "uid option"
  ra_objective :: "uid option"
  ra_objectiveVersion :: "uid option"
  ra_workflowNode :: "uid option"
  ra_requestedBy :: uid
  ra_named :: "uid option"
  ra_roleKind :: "string option"
  ra_due :: "instant option"
  ra_supersedes :: "uid option"
  ra_byExecutor :: bool
  ra_changeKind :: "string option"

definition new_request :: "uid \<Rightarrow> uid \<Rightarrow> instant \<Rightarrow> raise_input \<Rightarrow> approval_request" where
  "new_request newId tenant now i =
     \<lparr>sa_tenant = tenant, sa_objectiveVersion = ra_objectiveVersion i, sa_node = ra_workflowNode i,
      sa_status = RequestPending, aq_id = newId, aq_type = ra_type i, aq_title = ra_title i, aq_detail = ra_detail i,
      aq_subjectType = ra_subjectType i, aq_subject = ra_subject i, aq_objective = ra_objective i,
      aq_changeKind = ra_changeKind i, aq_requestedBy = ra_requestedBy i, aq_named = ra_named i,
      aq_roleKind = ra_roleKind i, aq_due = ra_due i, aq_decidedBy = None, aq_decidedOnBehalf = None,
      aq_decidedAt = None, aq_note = None, aq_supersedes = ra_supersedes i, aq_escalatedAt = None,
      aq_escalatedTo = None, aq_createdAt = now, aq_version = 1\<rparr>"

fun routing_name :: "ApprovalRouting \<Rightarrow> string" where
  "routing_name (Named u) = ''Named''"
| "routing_name (ToRole r) = ''Role''"
| "routing_name FourEyesGate = ''FourEyes''"
| "routing_name Unaddressed = ''Unaddressed''"

definition request_audit :: "string \<Rightarrow> uid option \<Rightarrow> approval_request \<Rightarrow> nat option \<Rightarrow> string \<Rightarrow> TrailMetadata \<Rightarrow> AuditEventInput" where
  "request_audit action actor r version summary metadata =
     audit_of action ''approval-request'' (aq_id r) actor (Some (aq_title r)) version summary metadata"

definition raised_audit :: "raise_input \<Rightarrow> approval_request \<Rightarrow> AuditEventInput" where
  "raised_audit i r =
     request_audit ''approvals.requested'' (Some (ra_requestedBy i)) r (Some (aq_version r))
       (''Raised a '' @ APPROVAL_REQUEST_TYPE_LABELS (ra_type i) @ '' request: '' @ ra_title i
        @ (if ra_byExecutor i then '' (raised by the Executor Agent).'' else ''.''))
       [(''approvalType'', JString (approval_type_name (ra_type i))),
        (''module'', JString (APPROVAL_TYPE_MODULE (ra_type i))),
        (''routing'', JString (routing_name (routingFor (ra_named i) (ra_roleKind i)))),
        (''byExecutor'', JBool (ra_byExecutor i))]"

text \<open>
  A replacement refers to a request that was sent back; the index \<open>one_resubmission_per_superseded_approval\<close>
  allows one replacement of it.
\<close>

definition may_replace :: "uid \<Rightarrow> uid option \<Rightarrow> work_state \<Rightarrow> work_error + unit" where
  "may_replace tenant replaced st =
     (case replaced of
        None \<Rightarrow> Inr ()
      | Some i \<Rightarrow>
          bind_result (orthrow ReplacesNothing (List.find (\<lambda>r. sa_tenant r = tenant \<and> aq_id r = i) (wk_requests st))) (\<lambda>previous.
          bind_result (check_that (sa_status previous = RequestSentBack) (OnlySentBackReplaced (sa_status previous))) (\<lambda>_.
            check_that (\<not> list_ex (\<lambda>r. sa_tenant r = tenant \<and> aq_supersedes r = Some i) (wk_requests st)) AlreadyReplaced)))"

definition raise_request :: "work_env \<Rightarrow> uid \<Rightarrow> instant \<Rightarrow> raise_input \<Rightarrow> work_state \<Rightarrow> work_error + work_state" where
  "raise_request env tenant now i st =
     bind_result (check_that (\<not> blank (ra_title i)) RequestNeedsTitle) (\<lambda>_.
     bind_result (check_that (routingFor (ra_named i) (ra_roleKind i) \<noteq> Unaddressed) RequestAddressesNobody) (\<lambda>_.
     bind_result (may_replace tenant (ra_supersedes i) st) (\<lambda>_.
       (let r = new_request (next_id st) tenant now i
        in Inr (notifyApprover env tenant r (append_audit tenant (raised_audit i r) (add_request r st)))))))"

fun change_kind_label :: "string \<Rightarrow> string" where
  "change_kind_label knd =
     (if knd = ''Hierarchy'' then ''A hierarchy change'' else if knd = ''Objective'' then ''An objective change''
      else if knd = ''WorkReassignment'' then ''Work reassignment'' else if knd = ''AgentCorrection'' then ''An agent correction''
      else if knd = ''Access'' then ''An access problem'' else ''Something else'')"

definition requestChange ::
  "work_env \<Rightarrow> uid \<Rightarrow> uid \<Rightarrow> instant \<Rightarrow> string \<Rightarrow> string \<Rightarrow> uid option \<Rightarrow> work_state \<Rightarrow> work_error + work_state" where
  "requestChange env tenant actor now knd reason conversation st =
     (if changeRequestProblems knd reason \<noteq> [] then Inl (ChangeProblems (changeRequestProblems knd reason))
      else raise_request env tenant now
        \<lparr>ra_type = ChangeRequest, ra_title = change_kind_label knd @ '': '' @ slice_to 120 (trim reason),
         ra_detail = trim reason,
         ra_subjectType = (if conversation = None then ''ChangeRequest'' else ''ChatConversation''),
         ra_subject = conversation, ra_objective = None, ra_objectiveVersion = None, ra_workflowNode = None,
         ra_requestedBy = actor, ra_named = None, ra_roleKind = Some ''CompanyAdmin'', ra_due = None,
         ra_supersedes = None, ra_byExecutor = False, ra_changeKind = Some knd\<rparr> st)"

section \<open>Deciding\<close>

text \<open>
  The first transaction: the request, its history and the delegation the actor may act under.
\<close>

definition decision_ticket ::
  "uid \<Rightarrow> uid \<Rightarrow> instant \<Rightarrow> ApprovalDecision \<Rightarrow> string \<Rightarrow> work_state \<Rightarrow> approval_request \<Rightarrow> ticket" where
  "decision_ticket tenant actor now d note st r =
     \<lparr>ti_tenant = tenant, ti_actor = actor, ti_decision = d, ti_note = note, ti_request = r,
      ti_history = history_of tenant (aq_id r) st,
      ti_delegation = coveringDelegation tenant actor (aq_named r) (aq_type r) now st\<rparr>"

definition roles_of :: "authz_context \<Rightarrow> RoleKind list" where
  "roles_of cx = map sm_roleKind (cx_roleSummary cx)"

definition addressed_by :: "authz_context \<Rightarrow> ticket \<Rightarrow> bool \<times> addressed_reason" where
  "addressed_by cx k =
     isAddressedTo (sa_status (ti_request k)) (aq_named (ti_request k)) (aq_roleKind (ti_request k)) (ti_actor k)
       (roles_of cx) (map_option snd (ti_delegation k))"

definition ticket_resource :: "work_env \<Rightarrow> ticket \<Rightarrow> resource" where
  "ticket_resource env k =
     resourceFor (ti_request k) (we_department env (aq_requestedBy (ti_request k))) (priorDecidersOf (ti_history k))"

definition may_decide :: "work_env \<Rightarrow> authz_context \<Rightarrow> ticket \<Rightarrow> work_error + unit" where
  "may_decide env cx k =
     (if ti_decision k = Comment
      then permit env cx (APPROVAL_TYPE_MODULE (aq_type (ti_request k))) ActComment None []
      else bind_result (check_that (fst (addressed_by cx k))
               (if sa_status (ti_request k) = RequestPending then NotAddressed (snd (addressed_by cx k))
                else RequestSettled (sa_status (ti_request k)))) (\<lambda>_.
           permit env cx (fst (decisionPermissionFor (aq_type (ti_request k)))) (snd (decisionPermissionFor (aq_type (ti_request k))))
             (Some (ticket_resource env k)) (sodPoliciesFor (ti_request k))))"

definition decide_load ::
  "work_env \<Rightarrow> uid \<Rightarrow> uid \<Rightarrow> instant \<Rightarrow> uid \<Rightarrow> ApprovalDecision \<Rightarrow> string \<Rightarrow> work_state \<Rightarrow> work_error + ticket" where
  "decide_load env tenant actor now i d note st =
     (let cx = context_of env tenant actor now in
      bind_result (check_that (\<not> (decisionNeedsReason d \<and> blank note)) (DecisionNeedsReason d)) (\<lambda>_.
      bind_result (load_request tenant i st) (\<lambda>r.
        (let k = decision_ticket tenant actor now d note st r
         in bind_result (may_decide env cx k) (\<lambda>_. Inr k)))))"

text \<open>The second: the record of the decision, and what the decision does.\<close>

definition decision_record :: "instant \<Rightarrow> ticket \<Rightarrow> decision_row" where
  "decision_record now k =
     \<lparr>dc_tenant = ti_tenant k, dc_request = aq_id (ti_request k), dc_decision = ti_decision k, dc_actor = ti_actor k,
      dc_onBehalfOf = (if ti_decision k = Comment then None else map_option snd (ti_delegation k)),
      dc_delegation = (if ti_decision k = Comment then None else map_option fst (ti_delegation k)),
      dc_note = ti_note k, dc_occurredAt = now\<rparr>"

definition appendDecision :: "instant \<Rightarrow> ticket \<Rightarrow> work_state \<Rightarrow> work_state" where
  "appendDecision now k st = st\<lparr>wk_decisions := wk_decisions st @ [decision_record now k]\<rparr>"

definition comment_audit :: "ticket \<Rightarrow> AuditEventInput" where
  "comment_audit k =
     request_audit ''approvals.commented'' (Some (ti_actor k)) (ti_request k) None
       (''Commented on '' @ quoted (aq_title (ti_request k)) @ ''.'')
       [(''approvalType'', JString (approval_type_name (aq_type (ti_request k))))]"

definition eye_audit :: "ticket \<Rightarrow> nat \<Rightarrow> AuditEventInput" where
  "eye_audit k eyes =
     request_audit ''approvals.approve'' (Some (ti_actor k)) (ti_request k) None
       (''Approved '' @ quoted (aq_title (ti_request k)) @ '' - '' @ show_nat eyes @ '' of '' @ show_nat FOUR_EYES_REQUIRED
        @ '' approvals. A four-eyes gate needs a second, different person.'')
       [(''approvalType'', JString (approval_type_name (aq_type (ti_request k)))), (''decision'', JString ''Approve''),
        (''fourEyesGate'', JBool True), (''approvalsGiven'', JNumber (int eyes)),
        (''approvalsRequired'', JNumber (int FOUR_EYES_REQUIRED))]"

definition settled_audit :: "ticket \<Rightarrow> nat \<Rightarrow> AuditEventInput" where
  "settled_audit k version =
     request_audit (''approvals.'' @ map lower_char (decision_name (ti_decision k))) (Some (ti_actor k)) (ti_request k)
       (Some version)
       (APPROVAL_DECISION_LABELS (ti_decision k) @ '' on '' @ quoted (aq_title (ti_request k))
        @ (if ti_delegation k = None then [] else '' as a delegate'')
        @ (if blank (ti_note k) then ''.'' else '': '' @ ti_note k))
       [(''approvalType'', JString (approval_type_name (aq_type (ti_request k)))),
        (''module'', JString (APPROVAL_TYPE_MODULE (aq_type (ti_request k)))),
        (''decision'', JString (decision_name (ti_decision k))),
        (''fourEyesGate'', JBool (sodPoliciesFor (ti_request k) \<noteq> [])),
        (''onBehalfOf'', JString (case ti_delegation k of None \<Rightarrow> [] | Some (i, f) \<Rightarrow> f)),
        (''priorDecisions'', JNumber (int (length (priorDecidersOf (ti_history k))))),
        (''selfApproved'', JBool (aq_requestedBy (ti_request k) = ti_actor k))]"

definition settle_row :: "instant \<Rightarrow> ticket \<Rightarrow> ApprovalRequestStatus \<Rightarrow> approval_request \<Rightarrow> approval_request" where
  "settle_row now k status r = r\<lparr>sa_status := status, aq_decidedBy := Some (ti_actor k), aq_decidedAt := Some now,
     aq_note := Some (ti_note k),
     aq_decidedOnBehalf := (case ti_delegation k of None \<Rightarrow> aq_decidedOnBehalf r | Some (i, f) \<Rightarrow> Some f),
     aq_version := Suc (aq_version r)\<rparr>"

definition write_request :: "uid \<Rightarrow> (approval_request \<Rightarrow> approval_request) \<Rightarrow> work_state \<Rightarrow> work_state" where
  "write_request i f st = st\<lparr>wk_requests := update_where (\<lambda>r. aq_id r = i) f (wk_requests st)\<rparr>"

text \<open>What a settled request moves: the task it is about, the step it is, the objective it reviews.\<close>

definition moves_task :: "work_env \<Rightarrow> instant \<Rightarrow> ticket \<Rightarrow> work_state \<Rightarrow> work_error + (released_task list \<times> work_state)" where
  "moves_task env now k st =
     (case aq_subject (ti_request k) of
        Some i \<Rightarrow>
          if aq_subjectType (ti_request k) = ''HumanTask''
          then bind_result (reconcileApprovalOutcome env (ti_tenant k) (ti_actor k) now i st)
                 (\<lambda>((changed, status, released), st'). Inr (released, st'))
          else Inr ([], st)
      | None \<Rightarrow> Inr ([], st))"

definition moves_step :: "ticket \<Rightarrow> released_task list \<times> work_state \<Rightarrow> released_task list \<times> work_state" where
  "moves_step k x =
     (case (sa_node (ti_request k), sa_objectiveVersion (ti_request k)) of
        (Some node, Some version) \<Rightarrow>
          if aq_subjectType (ti_request k) = ''ObjectiveWorkflowNode'' \<and> ti_decision k = Approve
          then release_work (ti_tenant k) version (ti_actor k) node (snd x) else x
      | _ \<Rightarrow> x)"

definition moves_objective :: "instant \<Rightarrow> ticket \<Rightarrow> work_state \<Rightarrow> work_state" where
  "moves_objective now k st =
     (case sa_objectiveVersion (ti_request k) of
        Some version \<Rightarrow>
          if aq_type (ti_request k) = ObjectiveReview \<and> (ti_decision k = Reject \<or> ti_decision k = SendBack)
          then snd (sendBackWithinTransaction (ti_tenant k) (ti_actor k) now version (ti_note k) st) else st
      | None \<Rightarrow> st)"

definition settled_state :: "instant \<Rightarrow> ticket \<Rightarrow> approval_request \<Rightarrow> ApprovalRequestStatus \<Rightarrow> work_state \<Rightarrow> work_state" where
  "settled_state now k current status st =
     append_audit (ti_tenant k) (settled_audit k (Suc (aq_version current)))
       (write_request (aq_id (ti_request k)) (settle_row now k status) st)"

definition follow_up :: "instant \<Rightarrow> ticket \<Rightarrow> approval_request \<Rightarrow> ApprovalRequestStatus
   \<Rightarrow> released_task list \<times> work_state \<Rightarrow> released_task list \<times> work_state" where
  "follow_up now k current status x =
     (let (released, st) = moves_step k x
      in (released, notifyRequester (ti_tenant k) (settle_row now k status current) (ti_decision k) (ti_note k)
            (moves_objective now k st)))"

definition settle_request :: "work_env \<Rightarrow> instant \<Rightarrow> ticket \<Rightarrow> approval_request \<Rightarrow> ApprovalRequestStatus
   \<Rightarrow> work_state \<Rightarrow> work_error + (released_task list \<times> work_state)" where
  "settle_request env now k current status st =
     map_sum id (follow_up now k current status) (moves_task env now k (settled_state now k current status st))"

definition decide_commit :: "work_env \<Rightarrow> instant \<Rightarrow> ticket \<Rightarrow> work_state \<Rightarrow> work_error + (released_task list \<times> work_state)" where
  "decide_commit env now k st =
     (case DECISION_RESULT (ti_decision k) of
        None \<Rightarrow> Inr ([], append_audit (ti_tenant k) (comment_audit k) (appendDecision now k st))
      | Some status \<Rightarrow>
          bind_result (load_request (ti_tenant k) (aq_id (ti_request k)) st) (\<lambda>current.
            if sa_status current \<noteq> RequestPending then Inl (RequestSettled (sa_status current))
            else (let st1 = appendDecision now k st;
                      eyes = length (approveEyesOf (ti_tenant k) (aq_id (ti_request k)) st1)
                  in if requiredSodRule (aq_roleKind (ti_request k)) \<noteq> None \<and> ti_decision k = Approve
                        \<and> eyes < FOUR_EYES_REQUIRED
                     then Inr ([], append_audit (ti_tenant k) (eye_audit k eyes) st1)
                     else settle_request env now k current status st1)))"

definition decide ::
  "work_env \<Rightarrow> uid \<Rightarrow> uid \<Rightarrow> instant \<Rightarrow> uid \<Rightarrow> ApprovalDecision \<Rightarrow> string \<Rightarrow> work_state \<Rightarrow> work_error + work_state" where
  "decide env tenant actor now i d note st =
     bind_result (decide_load env tenant actor now i d note st) (\<lambda>k.
     bind_result (decide_commit env now k st) (\<lambda>(released, st'). Inr (announce_released env tenant released st')))"

section \<open>Delegations\<close>

text \<open>The types the table's check \<open>delegated_types_are_known_approval_types\<close> allows.\<close>

definition delegable_types :: "ApprovalRequestType list" where
  "delegable_types = [ObjectiveReview, WorkflowPublish, AgentActivation, HighRiskAction, OutputApproval,
     BudgetOverride, GuestAccess, WorkflowStepApproval]"

definition types_text :: "ApprovalRequestType list \<Rightarrow> string" where
  "types_text ts = join '', '' (map approval_type_name ts)"

definition delegated_audit :: "uid \<Rightarrow> delegation_row \<Rightarrow> AuditEventInput" where
  "delegated_audit actor d =
     audit_of ''approvals.delegated'' ''approval-delegation'' (dg_id d) (Some actor) None (Some (dg_version d))
       (''Approvals delegated until '' @ toISOString (dg_endsAt d)
        @ (if dg_types d = [] then '' for every type'' else '' for '' @ types_text (dg_types d)) @ '': '' @ dg_reason d)
       [(''fromUserId'', JString (dg_from d)), (''toUserId'', JString (dg_to d)),
        (''types'', JString (if dg_types d = [] then ''all'' else types_text (dg_types d))),
        (''onOwnBehalf'', JBool (dg_from d = actor))]"

definition delegate ::
  "work_env \<Rightarrow> uid \<Rightarrow> uid \<Rightarrow> instant \<Rightarrow> uid \<Rightarrow> uid \<Rightarrow> ApprovalRequestType list \<Rightarrow> instant \<Rightarrow> instant \<Rightarrow> string
   \<Rightarrow> work_state \<Rightarrow> work_error + work_state" where
  "delegate env tenant actor now fromUser toUser types startsAt endsAt reason st =
     (let cx = context_of env tenant actor now in
      bind_result (check_that (\<not> (fromUser \<noteq> actor \<and> toUser = actor)) DelegatedToArranger) (\<lambda>_.
      bind_result (permit env cx ''approvals'' (if fromUser = actor then ActView else ActManageAccess) None []) (\<lambda>_.
      bind_result (case validateDelegation fromUser toUser startsAt endsAt reason None of
                     None \<Rightarrow> Inr () | Some p \<Rightarrow> Inl (DelegationRefused p)) (\<lambda>_.
        (case List.find (\<lambda>t. t \<notin> set delegable_types) types of
           Some t \<Rightarrow> Inl (DelegatedTypeUnknown t)
         | None \<Rightarrow>
             (let d = \<lparr>dg_id = next_id st, dg_tenant = tenant, dg_from = fromUser, dg_to = toUser, dg_types = types,
                       dg_startsAt = startsAt, dg_endsAt = endsAt, dg_reason = reason, dg_revokedAt = None,
                       dg_revokedBy = None, dg_createdBy = actor, dg_createdAt = now, dg_version = 1\<rparr>
              in Inr (append_audit tenant (delegated_audit actor d)
                   (issue (st\<lparr>wk_delegations := wk_delegations st @ [d]\<rparr>)))))))))"

definition revoke :: "uid \<Rightarrow> instant \<Rightarrow> delegation_row \<Rightarrow> delegation_row" where
  "revoke actor now d = d\<lparr>dg_revokedAt := Some now, dg_revokedBy := Some actor, dg_version := Suc (dg_version d)\<rparr>"

definition revoked_audit :: "uid \<Rightarrow> delegation_row \<Rightarrow> AuditEventInput" where
  "revoked_audit actor d =
     audit_of ''approvals.delegation_revoked'' ''approval-delegation'' (dg_id d) (Some actor) None
       (Some (Suc (dg_version d))) ''Approval delegation revoked.''
       [(''fromUserId'', JString (dg_from d)), (''toUserId'', JString (dg_to d))]"

definition revokeDelegation :: "work_env \<Rightarrow> uid \<Rightarrow> uid \<Rightarrow> instant \<Rightarrow> uid \<Rightarrow> work_state \<Rightarrow> work_error + work_state" where
  "revokeDelegation env tenant actor now i st =
     bind_result (orthrow NoSuchDelegation (List.find (\<lambda>d. dg_tenant d = tenant \<and> dg_id d = i) (wk_delegations st))) (\<lambda>row.
     bind_result (if dg_from row = actor then Inr ()
                  else permit env (context_of env tenant actor now) ''approvals'' ActManageAccess None []) (\<lambda>_.
     bind_result (check_that (dg_revokedAt row = None) DelegationAlreadyRevoked) (\<lambda>_.
       Inr (append_audit tenant (revoked_audit actor row)
         (st\<lparr>wk_delegations := update_where (\<lambda>d. dg_id d = dg_id row) (revoke actor now) (wk_delegations st)\<rparr>)))))"

definition delegation_active :: "instant \<Rightarrow> delegation_row \<Rightarrow> bool" where
  "delegation_active now d \<longleftrightarrow> dg_revokedAt d = None \<and> dg_startsAt d \<le> now \<and> now \<le> dg_endsAt d"

definition listDelegations :: "work_env \<Rightarrow> uid \<Rightarrow> uid \<Rightarrow> instant \<Rightarrow> uid option \<Rightarrow> work_state
   \<Rightarrow> work_error + (delegation_row \<times> bool) list" where
  "listDelegations env tenant actor now user st =
     (let cx = context_of env tenant actor now; subject = (case user of None \<Rightarrow> actor | Some u \<Rightarrow> u) in
      bind_result (permit env cx ''approvals'' ActView None []) (\<lambda>_.
      bind_result (if subject = actor then Inr () else permit env cx ''approvals'' ActManageAccess None []) (\<lambda>_.
        Inr (map (\<lambda>d. (d, delegation_active now d)) (take 100 (sort_key (\<lambda>d. - dg_startsAt d)
          (filter (\<lambda>d. dg_tenant d = tenant \<and> (dg_from d = subject \<or> dg_to d = subject)) (wk_delegations st))))))))"

section \<open>Escalation\<close>

text \<open>The sweep reads at most two hundred pending requests that have not escalated, then handles each.\<close>

definition escalation_candidates :: "uid \<Rightarrow> work_state \<Rightarrow> approval_request list" where
  "escalation_candidates tenant st =
     take 200 (filter (\<lambda>r. sa_tenant r = tenant \<and> sa_status r = RequestPending \<and> aq_escalatedAt r = None) (wk_requests st))"

datatype skip_reason = NotDue escalation_reason | NobodyAbove

definition expected_approver :: "approval_request \<Rightarrow> uid" where
  "expected_approver r = (case aq_named r of None \<Rightarrow> aq_requestedBy r | Some u \<Rightarrow> u)"

text \<open>To whom a row escalates, from the row as it was read.\<close>

definition escalates_to :: "work_env \<Rightarrow> instant \<Rightarrow> approval_request \<Rightarrow> skip_reason + uid" where
  "escalates_to env now r =
     (let due = approvalEscalationDue (sa_status r) (fst (agingBucketFor (aq_createdAt r) (aq_due r) now None))
                  (aq_escalatedAt r \<noteq> None)
      in if \<not> fst due then Inl (NotDue (snd due))
         else (case we_manager env (expected_approver r) of None \<Rightarrow> Inl NobodyAbove | Some m \<Rightarrow> Inr m))"

definition escalate :: "instant \<Rightarrow> uid \<Rightarrow> approval_request \<Rightarrow> approval_request" where
  "escalate now manager r = r\<lparr>aq_escalatedAt := Some now, aq_escalatedTo := Some manager, aq_version := Suc (aq_version r)\<rparr>"

definition escalation_audit :: "uid \<Rightarrow> approval_request \<Rightarrow> nat option \<Rightarrow> AuditEventInput" where
  "escalation_audit manager r version =
     request_audit ''approvals.escalated'' None r version
       (''Escalated '' @ quoted (aq_title r) @ '' - overdue with no decision.'')
       [(''approvalType'', JString (approval_type_name (aq_type r))), (''escalatedToUserId'', JString manager),
        (''expectedApproverUserId'', JString (expected_approver r)), (''decided'', JBool False)]"

definition overdue_notice :: "uid \<Rightarrow> uid \<Rightarrow> approval_request \<Rightarrow> notice" where
  "overdue_notice tenant manager r =
     \<lparr>no_tenant = tenant, no_recipient = manager, no_kind = ''Overdue'', no_severity = Some ''Warning'',
      no_title = ''Overdue approval: '' @ aq_title r,
      no_body = ''This '' @ APPROVAL_REQUEST_TYPE_LABELS (aq_type r)
        @ '' request passed its due date with no decision. It has not been approved - it is waiting for somebody.'',
      no_deepLink = ''/approvals/'' @ aq_id r, no_resourceType = ''approval-request'', no_resourceId = aq_id r,
      no_assignedToRecipient = None, no_dedupeKey = ''approval-escalation:'' @ aq_id r, no_escalatesAt = None,
      no_occurredAt = None\<rparr>"

text \<open>The update is by identifier: it does not look at the row again.\<close>

definition escalate_row :: "work_env \<Rightarrow> uid \<Rightarrow> instant \<Rightarrow> approval_request \<Rightarrow> work_state \<Rightarrow> skip_reason + work_state" where
  "escalate_row env tenant now r st =
     map_sum id (\<lambda>m. raise_notice (overdue_notice tenant m r)
       (append_audit tenant
         (escalation_audit m r (map_option (\<lambda>c. Suc (aq_version c)) (List.find (\<lambda>c. aq_id c = aq_id r) (wk_requests st))))
         (write_request (aq_id r) (escalate now m) st)))
       (escalates_to env now r)"

fun escalate_each :: "work_env \<Rightarrow> uid \<Rightarrow> instant \<Rightarrow> approval_request list \<Rightarrow> work_state
   \<Rightarrow> nat \<times> (uid \<times> skip_reason) list \<times> work_state" where
  "escalate_each env tenant now [] st = (0, [], st)"
| "escalate_each env tenant now (r # rs) st =
     (case escalate_row env tenant now r st of
        Inl why \<Rightarrow> (let (n, skipped, st') = escalate_each env tenant now rs st in (n, (aq_id r, why) # skipped, st'))
      | Inr st1 \<Rightarrow> (let (n, skipped, st') = escalate_each env tenant now rs st1 in (Suc n, skipped, st')))"

definition escalateAged :: "work_env \<Rightarrow> uid \<Rightarrow> instant \<Rightarrow> work_state \<Rightarrow> nat \<times> (uid \<times> skip_reason) list \<times> work_state" where
  "escalateAged env tenant now st = escalate_each env tenant now (escalation_candidates tenant st) st"

fun escalateAllCompanies :: "work_env \<Rightarrow> instant \<Rightarrow> uid list \<Rightarrow> work_state \<Rightarrow> nat \<times> work_state" where
  "escalateAllCompanies env now [] st = (0, st)"
| "escalateAllCompanies env now (t # ts) st =
     (let (n, skipped, st1) = escalateAged env t now st; (m, st2) = escalateAllCompanies env now ts st1
      in (n + m, st2))"

section \<open>What a person is shown\<close>

record approval_summary =
  sy_row :: approval_request
  sy_typeLabel :: string
  sy_module :: module_key
  sy_bucket :: AgingBucket
  sy_bucketLabel :: string
  sy_bucketTone :: string
  sy_hoursOpen :: rat
  sy_required :: nat
  sy_given :: nat

definition toSummary :: "approval_request \<Rightarrow> instant \<Rightarrow> nat \<Rightarrow> approval_summary" where
  "toSummary r now approvals =
     (let (bucket, open_for, reason) = agingBucketFor (aq_createdAt r) (aq_due r) now None;
          required = (if requiredSodRule (aq_roleKind r) = None then 1 else FOUR_EYES_REQUIRED)
      in \<lparr>sy_row = r, sy_typeLabel = APPROVAL_REQUEST_TYPE_LABELS (aq_type r), sy_module = APPROVAL_TYPE_MODULE (aq_type r),
          sy_bucket = bucket, sy_bucketLabel = AGING_BUCKET_LABELS bucket, sy_bucketTone = AGING_BUCKET_TONES bucket,
          sy_hoursOpen = rat_of_int \<lfloor>open_for * 10 + 1 / 2\<rfloor> / 10,
          sy_required = required, sy_given = (if sa_status r = RequestApproved then required else approvals)\<rparr>)"

record offered =
  of_decision :: ApprovalDecision
  of_label :: string
  of_allowed :: bool
  of_reason :: "addressed_reason option \<times> decision_message option"

text \<open>
  Whether a decision is offered: addressed to the actor and permitted, except that a comment needs
  the permission only.
\<close>

definition offer :: "work_env \<Rightarrow> authz_context \<Rightarrow> ticket \<Rightarrow> ApprovalDecision \<Rightarrow> offered" where
  "offer env cx k d =
     (let m = APPROVAL_TYPE_MODULE (aq_type (ti_request k));
          answer = (\<lambda>out. \<lparr>of_decision = d, of_label = APPROVAL_DECISION_LABELS d, of_allowed = de_allowed out,
                           of_reason = (None, if de_allowed out then None else Some (de_message out))\<rparr>)
      in if d = Comment
         then answer (fst (authorize cx (we_hierarchy env) (asked m ActComment (Some (ticket_resource env k)) [])))
         else if \<not> fst (addressed_by cx k)
         then \<lparr>of_decision = d, of_label = APPROVAL_DECISION_LABELS d, of_allowed = False,
               of_reason = (Some (snd (addressed_by cx k)), None)\<rparr>
         else answer (fst (authorize cx (we_hierarchy env)
                (asked m ActApprove (Some (ticket_resource env k)) (sodPoliciesFor (ti_request k))))))"

record approval_view =
  av_summary :: approval_summary
  av_successor :: "uid option"
  av_history :: "decision_row list"
  av_available :: "offered list"
  av_delegatedFrom :: "uid option"

definition buildView :: "work_env \<Rightarrow> authz_context \<Rightarrow> uid \<Rightarrow> uid \<Rightarrow> instant \<Rightarrow> uid \<Rightarrow> work_state \<Rightarrow> work_error + approval_view" where
  "buildView env cx tenant actor now i st =
     bind_result (load_request tenant i st) (\<lambda>r.
       (let k = decision_ticket tenant actor now Comment [] st r
        in Inr \<lparr>av_summary = toSummary r now
                  (length (dedupe (map dc_actor (filter (\<lambda>d. dc_decision d = Approve) (ti_history k))))),
                av_successor = map_option aq_id
                  (List.find (\<lambda>s. sa_tenant s = tenant \<and> aq_supersedes s = Some (aq_id r)) (wk_requests st)),
                av_history = ti_history k, av_available = map (offer env cx k) APPROVAL_DECISIONS,
                av_delegatedFrom = map_option snd (ti_delegation k)\<rparr>))"

definition view_request :: "work_env \<Rightarrow> uid \<Rightarrow> uid \<Rightarrow> instant \<Rightarrow> uid \<Rightarrow> work_state \<Rightarrow> work_error + approval_view" where
  "view_request env tenant actor now i st =
     (let cx = context_of env tenant actor now in
      bind_result (permit env cx ''approvals'' ActView None []) (\<lambda>_. buildView env cx tenant actor now i st))"

definition queue_order :: "approval_request list \<Rightarrow> approval_request list" where
  "queue_order rows =
     concat (map (\<lambda>s. (let same = sort_key aq_createdAt (filter (\<lambda>r. sa_status r = s) rows)
        in sort_key (\<lambda>r. the (aq_due r)) (filter (\<lambda>r. aq_due r \<noteq> None) same) @ filter (\<lambda>r. aq_due r = None) same))
      [RequestApproved, RequestCancelled, RequestPending, RequestRejected, RequestSentBack])"

definition in_queue :: "uid \<Rightarrow> uid \<Rightarrow> uid list \<Rightarrow> ApprovalRequestStatus option \<Rightarrow> ApprovalRequestType option \<Rightarrow> bool \<Rightarrow> approval_request \<Rightarrow> bool" where
  "in_queue tenant actor delegatedFrom status t mineOnly r \<longleftrightarrow>
     sa_tenant r = tenant
     \<and> (case status of None \<Rightarrow> True | Some s \<Rightarrow> sa_status r = s)
     \<and> (case t of None \<Rightarrow> True | Some y \<Rightarrow> aq_type r = y)
     \<and> (mineOnly \<longrightarrow> aq_named r = Some actor \<or> (\<exists>u \<in> set delegatedFrom. aq_named r = Some u))"

record queue_counts =
  qc_pending :: nat
  qc_buckets :: "(AgingBucket \<times> nat) list"
  qc_mine :: nat

definition queue_counts_of :: "uid \<Rightarrow> uid list \<Rightarrow> approval_summary list \<Rightarrow> queue_counts" where
  "queue_counts_of actor delegatedFrom visible =
     (let pending = filter (\<lambda>y. sa_status (sy_row y) = RequestPending) visible
      in \<lparr>qc_pending = length pending,
          qc_buckets = map (\<lambda>b. (b, length (filter (\<lambda>y. sy_bucket y = b) pending))) [Overdue, Due, Aging, Fresh],
          qc_mine = length (filter (\<lambda>y. case aq_named (sy_row y) of None \<Rightarrow> False
            | Some u \<Rightarrow> u = actor \<or> u \<in> set delegatedFrom) pending)\<rparr>)"

definition list_requests ::
  "work_env \<Rightarrow> uid \<Rightarrow> uid \<Rightarrow> instant \<Rightarrow> ApprovalRequestStatus option \<Rightarrow> ApprovalRequestType option \<Rightarrow> bool \<Rightarrow> work_state
   \<Rightarrow> work_error + (approval_summary list \<times> queue_counts)" where
  "list_requests env tenant actor now status t mineOnly st =
     (let cx = context_of env tenant actor now in
      bind_result (permit env cx ''approvals'' ActView None []) (\<lambda>_.
        (let delegatedFrom = activeDelegationsTo tenant actor now st;
             rows = take 300 (queue_order (filter (in_queue tenant actor delegatedFrom status t mineOnly) (wk_requests st)));
             seen = filter (\<lambda>r. de_allowed (fst (authorize cx (we_hierarchy env)
               (asked (APPROVAL_TYPE_MODULE (aq_type r)) ActView
                  (Some (resourceFor r (we_department env (aq_requestedBy r)) [])) [])))) rows;
             visible = map (\<lambda>r. toSummary r now (if requiredSodRule (aq_roleKind r) = None then 0
               else length (approveEyesOf tenant (aq_id r) st))) seen
         in Inr (visible, queue_counts_of actor delegatedFrom visible))))"

section \<open>The service as steps\<close>

text \<open>
  Every operation is one transaction, except that \<open>decide\<close> is two and an escalation is a read and then
  one update per row.  A commit takes its ticket whatever becomes of it.
\<close>

datatype work_op =
    StartOp work_env uid uid instant uid
  | BlockOp work_env uid uid instant uid string
  | EvidenceOp work_env uid uid instant uid string "string option"
  | NoteOp work_env uid uid instant uid TaskNoteKind string
  | SubmitOp work_env uid uid instant uid
  | RaiseOp work_env uid instant raise_input
  | ChangeOp work_env uid uid instant string string "uid option"
  | DecideOp work_env uid uid instant uid ApprovalDecision string
  | CommitOp work_env instant nat
  | DelegateOp work_env uid uid instant uid uid "ApprovalRequestType list" instant instant string
  | RevokeOp work_env uid uid instant uid
  | SweepOp uid
  | EscalateOp work_env instant nat
  | ScoreOp performance_op

definition drop_at :: "nat \<Rightarrow> 'b list \<Rightarrow> 'b list" where
  "drop_at n xs = take n xs @ drop (Suc n) xs"

definition commit_ticket :: "work_env \<Rightarrow> instant \<Rightarrow> nat \<Rightarrow> work_state \<Rightarrow> work_state" where
  "commit_ticket env now n st =
     (if length (wk_tickets st) \<le> n then st
      else (let k = wk_tickets st ! n; st1 = st\<lparr>wk_tickets := drop_at n (wk_tickets st)\<rparr>
            in case decide_commit env now k st1 of
                 Inl e \<Rightarrow> st1
               | Inr (released, st2) \<Rightarrow> announce_released env (ti_tenant k) released st2))"

definition escalate_ticket :: "work_env \<Rightarrow> instant \<Rightarrow> nat \<Rightarrow> work_state \<Rightarrow> work_state" where
  "escalate_ticket env now n st =
     (if length (wk_escalating st) \<le> n then st
      else (let r = wk_escalating st ! n; st1 = st\<lparr>wk_escalating := drop_at n (wk_escalating st)\<rparr>
            in case escalate_row env (sa_tenant r) now r st1 of Inl why \<Rightarrow> st1 | Inr st2 \<Rightarrow> st2))"

fun work_step :: "work_op \<Rightarrow> work_state \<Rightarrow> work_error + work_state" where
  "work_step (StartOp env t u now i) st = start_task env t u now i st"
| "work_step (BlockOp env t u now i reason) st = block_task env t u now i reason st"
| "work_step (EvidenceOp env t u now i d ref) st = addEvidence env t u now i d ref st"
| "work_step (NoteOp env t u now i k body) st = addNote env t u now i k body st"
| "work_step (SubmitOp env t u now i) st = submit env t u now i st"
| "work_step (RaiseOp env t now i) st = raise_request env t now i st"
| "work_step (ChangeOp env t u now k reason c) st = requestChange env t u now k reason c st"
| "work_step (DecideOp env t u now i d note) st =
     map_sum id (\<lambda>k. st\<lparr>wk_tickets := wk_tickets st @ [k]\<rparr>) (decide_load env t u now i d note st)"
| "work_step (CommitOp env now n) st = Inr (commit_ticket env now n st)"
| "work_step (DelegateOp env t u now f to' types s e reason) st = delegate env t u now f to' types s e reason st"
| "work_step (RevokeOp env t u now i) st = revokeDelegation env t u now i st"
| "work_step (SweepOp t) st = Inr (st\<lparr>wk_escalating := wk_escalating st @ escalation_candidates t st\<rparr>)"
| "work_step (EscalateOp env now n) st = Inr (escalate_ticket env now n st)"
| "work_step (ScoreOp op) st = (case performance_step op st of Inl e \<Rightarrow> Inr st | Inr st' \<Rightarrow> Inr st')"

end
