(* ===== verification/Approval_Invariants.thy ===== *)
theory Approval_Invariants
  imports Approval_Service
begin

text \<open>
  What every operation on tasks and approvals keeps: a settled request stays as it was settled, a
  four-eyes request is decided by people other than the requester and approved by two of them, a
  task that needed approval is completed only with it, and a stand-in is backed by a delegation.
\<close>

section \<open>What a request keeps\<close>

text \<open>The columns nobody writes after the request was raised, and those fixed once it is settled.\<close>

definition origin :: "approval_request \<Rightarrow> approval_request" where
  "origin r = r\<lparr>sa_status := RequestPending, aq_decidedBy := None, aq_decidedOnBehalf := None, aq_decidedAt := None,
     aq_note := None, aq_escalatedAt := None, aq_escalatedTo := None, aq_version := 0\<rparr>"

definition settled_part :: "approval_request \<Rightarrow> approval_request" where
  "settled_part r = r\<lparr>aq_escalatedAt := None, aq_escalatedTo := None, aq_version := 0\<rparr>"

definition request_kept :: "approval_request \<Rightarrow> approval_request \<Rightarrow> bool" where
  "request_kept r r' \<longleftrightarrow> origin r = origin r' \<and> (sa_status r \<noteq> RequestPending \<longrightarrow> settled_part r = settled_part r')"

lemma origin_fields:
  assumes "origin r = origin q"
  shows "sa_tenant r = sa_tenant q" "sa_objectiveVersion r = sa_objectiveVersion q" "sa_node r = sa_node q"
    "aq_id r = aq_id q" "aq_type r = aq_type q" "aq_title r = aq_title q" "aq_subjectType r = aq_subjectType q"
    "aq_subject r = aq_subject q" "aq_requestedBy r = aq_requestedBy q" "aq_named r = aq_named q"
    "aq_roleKind r = aq_roleKind q" "aq_createdAt r = aq_createdAt q" "aq_supersedes r = aq_supersedes q"
    "aq_due r = aq_due q"
proof -
  have "f (origin r) = f (origin q)" for f :: "approval_request \<Rightarrow> 'z" using assms by simp
  from this [of sa_tenant] this [of sa_objectiveVersion] this [of sa_node] this [of aq_id] this [of aq_type]
    this [of aq_title] this [of aq_subjectType] this [of aq_subject] this [of aq_requestedBy] this [of aq_named]
    this [of aq_roleKind] this [of aq_createdAt] this [of aq_supersedes] this [of aq_due]
  show "sa_tenant r = sa_tenant q" "sa_objectiveVersion r = sa_objectiveVersion q" "sa_node r = sa_node q"
    "aq_id r = aq_id q" "aq_type r = aq_type q" "aq_title r = aq_title q" "aq_subjectType r = aq_subjectType q"
    "aq_subject r = aq_subject q" "aq_requestedBy r = aq_requestedBy q" "aq_named r = aq_named q"
    "aq_roleKind r = aq_roleKind q" "aq_createdAt r = aq_createdAt q" "aq_supersedes r = aq_supersedes q"
    "aq_due r = aq_due q"
    by (simp_all add: origin_def)
qed

lemma origin_updates [simp]:
  "origin (settle_row now k s r) = origin r" "origin (withdraw actor now r) = origin r" "origin (escalate now m r) = origin r"
  "settled_part (escalate now m r) = settled_part r" "sa_status (escalate now m r) = sa_status r"
  "sa_status (settle_row now k s r) = s" "sa_status (withdraw actor now r) = RequestCancelled"
  by (simp_all add: origin_def settled_part_def settle_row_def withdraw_def escalate_def)

lemma settled_status: "settled_part r = settled_part q \<Longrightarrow> sa_status r = sa_status q"
  by (drule arg_cong [where f = sa_status]) (simp add: settled_part_def)

lemma request_kept_refl [simp]: "request_kept r r"
  by (simp add: request_kept_def)

lemma request_kept_trans:
  assumes "request_kept p q" and "request_kept q r"
  shows "request_kept p r"
proof (cases "sa_status p = RequestPending")
  case False
  then have "settled_part p = settled_part q" using assms(1) by (simp add: request_kept_def)
  with settled_status [OF this] False show ?thesis using assms by (simp add: request_kept_def)
qed (use assms in \<open>simp add: request_kept_def\<close>)

section \<open>The invariant\<close>

lemma table_grows_in:
  assumes "table_grows kept xs ys" and "x \<in> set xs"
  shows "\<exists>y \<in> set ys. kept x y"
proof -
  obtain zs new where "ys = zs @ new" "list_all2 kept xs zs" using assms(1) by (auto simp add: table_grows_def)
  then show ?thesis using assms(2) by (induction xs arbitrary: ys zs) (auto simp add: list_all2_Cons1)
qed

definition approvers :: "uid \<Rightarrow> uid \<Rightarrow> decision_row list \<Rightarrow> uid set" where
  "approvers tenant i ds = {dc_actor d | d. d \<in> set ds \<and> dc_tenant d = tenant \<and> dc_request d = i \<and> dc_decision d = Approve}"

definition four_eyes_kept :: "decision_row list \<Rightarrow> approval_request \<Rightarrow> bool" where
  "four_eyes_kept ds r \<longleftrightarrow> (aq_roleKind r = Some FOUR_EYES_APPROVAL_KIND \<longrightarrow>
     (\<forall>d \<in> set ds. dc_tenant d = sa_tenant r \<and> dc_request d = aq_id r \<and> dc_decision d \<noteq> Comment
        \<longrightarrow> dc_actor d \<noteq> aq_requestedBy r)
     \<and> (sa_status r = RequestApproved \<longrightarrow> 2 \<le> card (approvers (sa_tenant r) (aq_id r) ds)))"

text \<open>An approval stands behind a task that asked for one.\<close>

definition backs :: "task_row \<Rightarrow> approval_request \<Rightarrow> bool" where
  "backs t r \<longleftrightarrow> about_task (ht_tenant t) (ht_id t) r \<and> aq_roleKind r = tk_approvalKind t"

definition backed :: "approval_request list \<Rightarrow> task_row \<Rightarrow> bool" where
  "backed rs t \<longleftrightarrow> (needs_approval (tk_approvalKind t) \<longrightarrow>
     (ht_status t = TaskWaitingApproval \<longrightarrow>
        (\<exists>r \<in> set rs. backs t r \<and> (\<exists>s. tk_submittedAt t = Some s \<and> s \<le> aq_createdAt r)))
     \<and> (ht_status t = TaskCompleted \<longrightarrow> (\<exists>r \<in> set rs. backs t r \<and> sa_status r = RequestApproved)))"

definition delegation_ok :: "delegation_row \<Rightarrow> bool" where
  "delegation_ok g \<longleftrightarrow> dg_from g \<noteq> dg_to g \<and> dg_startsAt g < dg_endsAt g
     \<and> dg_endsAt g - dg_startsAt g \<le> 92 * 86400000 \<and> \<not> blank (dg_reason g)"

definition stands_in :: "delegation_row list \<Rightarrow> uid \<Rightarrow> uid \<Rightarrow> uid \<Rightarrow> uid \<Rightarrow> bool" where
  "stands_in gs tenant actor i f \<longleftrightarrow> (\<exists>g \<in> set gs. dg_tenant g = tenant \<and> dg_id g = i \<and> dg_from g = f \<and> dg_to g = actor)"

definition decision_ok :: "delegation_row list \<Rightarrow> decision_row \<Rightarrow> bool" where
  "decision_ok gs d \<longleftrightarrow> (\<forall>i. dc_delegation d = Some i \<longrightarrow>
     (\<exists>f. dc_onBehalfOf d = Some f \<and> stands_in gs (dc_tenant d) (dc_actor d) i f))"

text \<open>A decision in flight is about a request of the table, was allowed, and its delegation exists.\<close>

definition ticket_ok :: "approval_request list \<Rightarrow> delegation_row list \<Rightarrow> ticket \<Rightarrow> bool" where
  "ticket_ok rs gs k \<longleftrightarrow>
     (\<exists>r \<in> set rs. origin r = origin (ti_request k)) \<and> sa_tenant (ti_request k) = ti_tenant k
     \<and> (ti_decision k \<noteq> Comment \<and> aq_roleKind (ti_request k) = Some FOUR_EYES_APPROVAL_KIND
        \<longrightarrow> ti_actor k \<noteq> aq_requestedBy (ti_request k))
     \<and> (\<forall>i f. ti_delegation k = Some (i, f) \<longrightarrow> stands_in gs (ti_tenant k) (ti_actor k) i f)"

definition work_ok :: "work_state \<Rightarrow> bool" where
  "work_ok st \<longleftrightarrow>
     distinct (map ht_id (wk_tasks st)) \<and> distinct (map aq_id (wk_requests st)) \<and> distinct (map ov_id (wk_versions st))
     \<and> owned (lg_seed st) (map aq_id (wk_requests st)) \<and> owned (lg_seed st) (map dc_request (wk_decisions st))
     \<and> (\<forall>r \<in> set (wk_requests st). four_eyes_kept (wk_decisions st) r)
     \<and> (\<forall>t \<in> set (wk_tasks st). backed (wk_requests st) t)
     \<and> (\<forall>g \<in> set (wk_delegations st). delegation_ok g)
     \<and> (\<forall>d \<in> set (wk_decisions st). decision_ok (wk_delegations st) d)
     \<and> (\<forall>k \<in> set (wk_tickets st). ticket_ok (wk_requests st) (wk_delegations st) k)"

text \<open>
  What the operations on tasks and approvals leave alone: which task stands for which step, the
  workflows and their publications, and of a version everything but where it stands before it is live.
\<close>

definition task_identity :: "task_row \<Rightarrow> uid \<times> uid \<times> uid \<times> uid \<times> uid" where
  "task_identity t = (ht_id t, ht_tenant t, ht_objectiveVersion t, ht_node t, tk_draft t)"

definition outline :: "version_row \<Rightarrow> version_row" where
  "outline v = (if isObjectiveContentFrozen (ov_status v) then v
     else v\<lparr>ov_status := ObjectiveDraft, ov_sentBackAt := None, ov_sentBackBy := None, ov_sentBackReason := None, ov_version := 0\<rparr>)"

definition same_elsewhere :: "work_state \<Rightarrow> work_state \<Rightarrow> bool" where
  "same_elsewhere st st' \<longleftrightarrow>
     map task_identity (wk_tasks st') = map task_identity (wk_tasks st) \<and> map outline (wk_versions st') = map outline (wk_versions st)
     \<and> wk_drafts st' = wk_drafts st \<and> wk_publishing st' = wk_publishing st
     \<and> wk_analyses st' = wk_analyses st \<and> wk_reviews st' = wk_reviews st \<and> lg_seed st \<le> lg_seed st'"

definition work_grows :: "work_state \<Rightarrow> work_state \<Rightarrow> bool" where
  "work_grows st st' \<longleftrightarrow>
     table_grows request_kept (wk_requests st) (wk_requests st') \<and> prefix (wk_decisions st) (wk_decisions st')
     \<and> same_elsewhere st st'"

text \<open>Both look at these tables and the counter only.\<close>

definition same_tables :: "work_state \<Rightarrow> work_state \<Rightarrow> bool" where
  "same_tables st st' \<longleftrightarrow>
     wk_tasks st' = wk_tasks st \<and> wk_requests st' = wk_requests st \<and> wk_decisions st' = wk_decisions st
     \<and> wk_delegations st' = wk_delegations st \<and> wk_tickets st' = wk_tickets st \<and> lg_seed st \<le> lg_seed st'
     \<and> wk_versions st' = wk_versions st \<and> wk_drafts st' = wk_drafts st \<and> wk_publishing st' = wk_publishing st
     \<and> wk_analyses st' = wk_analyses st \<and> wk_reviews st' = wk_reviews st"

lemma same_elsewhere_refl [simp]: "same_elsewhere st st"
  by (simp add: same_elsewhere_def)

lemma same_elsewhere_trans: "same_elsewhere a b \<Longrightarrow> same_elsewhere b c \<Longrightarrow> same_elsewhere a c"
  by (simp add: same_elsewhere_def)

lemma owned_mono: "owned m used \<Longrightarrow> m \<le> n \<Longrightarrow> owned n used"
  by (simp add: owned_def)

lemma same_tables_ok: "same_tables st st' \<Longrightarrow> work_ok st \<Longrightarrow> work_ok st'"
  by (auto simp add: same_tables_def work_ok_def intro: owned_mono)

lemma same_tables_elsewhere: "same_tables st st' \<Longrightarrow> same_elsewhere st st'"
  by (simp add: same_tables_def same_elsewhere_def)

lemma work_grows_refl: "work_grows st st"
  by (simp add: work_grows_def table_grows_refl)

lemma work_grows_trans: "work_grows a b \<Longrightarrow> work_grows b c \<Longrightarrow> work_grows a c"
  unfolding work_grows_def
  by (auto intro: prefix_order.trans table_grows_trans [where kept = request_kept, OF request_kept_trans] same_elsewhere_trans)

lemma same_tables_grows: "same_tables st st' \<Longrightarrow> work_grows st st'"
  using same_tables_elsewhere by (simp add: same_tables_def work_grows_def table_grows_refl)

lemma same_tables_refl [simp]: "same_tables st st"
  by (simp add: same_tables_def)

lemma same_tables_trans: "same_tables a b \<Longrightarrow> same_tables b c \<Longrightarrow> same_tables a c"
  by (simp add: same_tables_def)

text \<open>An operation is good when it keeps the invariant and only adds.\<close>

definition keeps :: "work_state \<Rightarrow> work_state \<Rightarrow> bool" where
  "keeps st st' \<longleftrightarrow> (work_ok st \<longrightarrow> work_ok st' \<and> work_grows st st')"

lemma keeps_refl [simp]: "keeps st st"
  by (simp add: keeps_def work_grows_refl)

lemma keeps_trans: "keeps a b \<Longrightarrow> keeps b c \<Longrightarrow> keeps a c"
  unfolding keeps_def using work_grows_trans by blast

lemma keeps_same: "same_tables st st' \<Longrightarrow> keeps st st'"
  by (simp add: keeps_def same_tables_ok same_tables_grows)

section \<open>What writes beside the tables\<close>

lemma same_log [simp]: "same_tables st (append_audit t a st)" "same_tables st (raise_notice n st)" "same_tables st (issue st)"
  by (simp_all add: same_tables_def log_defs)

lemma same_announce [simp]: "same_tables st (announce_released env t rs st)"
  by (simp add: same_tables_def announce_released_def)

lemma activePolicy_more: "performance_state.more (snd (activePolicy t st)) = performance_state.more st"
  "lg_seed st \<le> lg_seed (snd (activePolicy t st))"
  by (auto simp add: activePolicy_def Let_def log_defs split: option.split)

lemma reconcileBadge_more: "performance_state.more (reconcileBadge t s p now st) = performance_state.more st"
  "lg_seed st \<le> lg_seed (reconcileBadge t s p now st)"
  by (auto simp add: reconcileBadge_def change_badge_def Let_def log_defs split: option.split)

lemma recordEvent_more: "performance_state.more (snd (recordEvent t emp now i st)) = performance_state.more st"
  "lg_seed st \<le> lg_seed (snd (recordEvent t emp now i st))"
proof -
  obtain r st' where e: "recordEvent t emp now i st = (r, st')" by fastforce
  have "performance_state.more st' = performance_state.more st \<and> lg_seed st \<le> lg_seed st'"
    using e
  proof (cases rule: recordEvent_cases)
    case (scored pts x st2)
    have "performance_state.more st2 = performance_state.more st" "lg_seed st \<le> lg_seed st2"
      using activePolicy_more [where t = t and st = st] by (simp_all add: scored(6) log_defs)
    then show ?thesis
      using reconcileBadge_more [where t = t and s = "ei_subject i" and p = "fst (activePolicy t st)" and now = now and st = st2] by (simp add: scored(7))
  qed (use activePolicy_more [where t = t and st = st] in auto)
  then show "performance_state.more (snd (recordEvent t emp now i st)) = performance_state.more st"
    "lg_seed st \<le> lg_seed (snd (recordEvent t emp now i st))" by (simp_all add: e)
qed

lemma same_more:
  assumes "performance_state.more a = performance_state.more b" and "lg_seed b \<le> lg_seed a"
  shows "same_tables b a"
  using assms by (cases a; cases b) (simp add: same_tables_def)

lemma same_recordEvent [simp]: "same_tables st (snd (recordEvent t emp now i st))"
  by (intro same_more recordEvent_more)

lemma same_scoreCompletion [simp]: "same_tables st (scoreCompletion env t f c st)"
  by (simp add: scoreCompletion_def Let_def)

lemma same_scoreRejections [simp]: "same_tables st (scoreRejections env t now u rs st)"
  unfolding scoreRejections_def
  by (induction rs arbitrary: st) (auto intro: same_tables_trans [OF same_recordEvent])

lemma same_notifyApprover [simp]: "same_tables st (notifyApprover env t r st)"
proof -
  have "same_tables st (foldl (\<lambda>st u. raise_notice (f u) st) st us)" for f us
    by (induction us arbitrary: st) (auto intro: same_tables_trans [OF same_log(2)])
  then show ?thesis by (auto simp add: notifyApprover_def split: option.split)
qed

lemma same_notifyRequester [simp]: "same_tables st (notifyRequester t r d note st)"
  by (simp add: notifyRequester_def)

section \<open>The writes\<close>

lemma task_identity_kept [simp]: "task_identity (started now t) = task_identity t" "task_identity (blocked_for reason t) = task_identity t"
  "task_identity (submitted_row now t) = task_identity t" "task_identity (completed_row now t) = task_identity t"
  "task_identity (release_row t) = task_identity t" "task_identity (t\<lparr>ht_version := n\<rparr>) = task_identity t"
  "task_identity (t\<lparr>ht_status := s\<rparr>) = task_identity t"
  by (simp_all add: task_identity_def started_def blocked_for_def submitted_row_def completed_row_def release_row_def)

lemma identity_ids: "map task_identity ts = map task_identity us \<Longrightarrow> map ht_id ts = map ht_id us"
  by (drule arg_cong [where f = "map fst"]) (simp add: task_identity_def o_def)

lemma backed_version [simp]: "backed rs (t\<lparr>ht_version := n\<rparr>) = backed rs t"
  by (simp add: backed_def backs_def)

lemma keeps_write_task:
  assumes "\<And>t. task_identity (f t) = task_identity t"
    and "\<And>t. t \<in> set (wk_tasks st) \<Longrightarrow> ht_id t = i \<Longrightarrow> work_ok st \<Longrightarrow> backed (wk_requests st) (f t)"
  shows "keeps st (write_task i f st)"
proof -
  have same: "map task_identity (wk_tasks (write_task i f st)) = map task_identity (wk_tasks st)"
    using assms(1) by (auto simp add: write_task_def intro!: map_update_where_same)
  then have "map ht_id (wk_tasks (write_task i f st)) = map ht_id (wk_tasks st)" by (rule identity_ids)
  moreover have "\<forall>t \<in> set (wk_tasks (write_task i f st)). backed (wk_requests st) t" if "work_ok st"
    using that assms(2) by (auto simp add: write_task_def set_update_where work_ok_def)
  ultimately have "work_ok st \<longrightarrow> work_ok (write_task i f st)"
    by (simp add: work_ok_def write_task_def)
  then show ?thesis using same by (simp add: keeps_def work_grows_def write_task_def table_grows_refl same_elsewhere_def)
qed

text \<open>A status that neither waits for an approval nor is completed needs no backing.\<close>

lemma backed_other: "ht_status t \<noteq> TaskWaitingApproval \<Longrightarrow> ht_status t \<noteq> TaskCompleted \<Longrightarrow> backed rs t"
  by (simp add: backed_def)

lemma keeps_release: "keeps st (snd (release_work tenant v actor node st))"
proof -
  define i where "i = \<lparr>ri_tenant = tenant, ri_objectiveVersion = v, ri_actor = Some actor, ri_finishedNode = node\<rparr>"
  define rel where "rel = releaseWithinTransaction i (wk_completedWork st) (wk_tasks st) (wk_assignments st) (wk_requests st)"
  have e: "snd (release_work tenant v actor node st) = st\<lparr>wk_tasks := snd (snd rel), wk_released := wk_released st @ fst (snd rel)\<rparr>"
    by (simp add: release_work_def rel_def i_def case_prod_beta)
  have "work_ok (st\<lparr>wk_tasks := snd (snd rel), wk_released := wk_released st @ fst (snd rel)\<rparr>)
      \<and> map task_identity (snd (snd rel)) = map task_identity (wk_tasks st)" if ok: "work_ok st"
  proof -
    have d: "distinct (map ht_id (wk_tasks st))" using ok by (simp add: work_ok_def)
    define Q where "Q = to_release i (wk_completedWork st) (wk_tasks st) (wk_assignments st) (wk_requests st)"
    have tasks: "snd (snd rel) = map (\<lambda>t. if Q t then release_row t else t) (wk_tasks st)"
      unfolding rel_def Q_def by (rule release_table [OF d])
    have same: "map task_identity (snd (snd rel)) = map task_identity (wk_tasks st)" by (simp add: tasks)
    then have "map ht_id (snd (snd rel)) = map ht_id (wk_tasks st)" by (rule identity_ids)
    moreover have "\<forall>t \<in> set (snd (snd rel)). backed (wk_requests st) t"
      using ok by (auto simp add: tasks work_ok_def backed_other)
    ultimately show ?thesis using ok same by (simp add: work_ok_def)
  qed
  then show ?thesis by (simp add: keeps_def e work_grows_def table_grows_refl same_elsewhere_def)
qed

lemma keeps_update_requests:
  assumes o: "\<And>r. r \<in> set (wk_requests st) \<Longrightarrow> P r \<Longrightarrow> origin (f r) = origin r"
    and s: "\<And>r. r \<in> set (wk_requests st) \<Longrightarrow> P r \<Longrightarrow> work_ok st \<Longrightarrow> sa_status r \<noteq> RequestPending \<Longrightarrow> settled_part (f r) = settled_part r"
    and a: "\<And>r. r \<in> set (wk_requests st) \<Longrightarrow> P r \<Longrightarrow> sa_status (f r) = RequestApproved \<Longrightarrow> work_ok st
               \<Longrightarrow> four_eyes_kept (wk_decisions st) (f r)"
    and c: "\<And>r t. r \<in> set (wk_requests st) \<Longrightarrow> P r \<Longrightarrow> sa_status (f r) = RequestCancelled \<Longrightarrow> sa_status r \<noteq> RequestCancelled
               \<Longrightarrow> t \<in> set (wk_tasks st) \<Longrightarrow> ht_status t = TaskWaitingApproval \<Longrightarrow> work_ok st \<Longrightarrow> \<not> backs t r"
  shows "keeps st (st\<lparr>wk_requests := update_where P f (wk_requests st)\<rparr>)"
proof -
  let ?g = "\<lambda>r. if P r then f r else r"
  have orig: "origin (?g r) = origin r" if "r \<in> set (wk_requests st)" for r using o that by simp
  have "work_ok (st\<lparr>wk_requests := update_where P f (wk_requests st)\<rparr>)" if ok: "work_ok st"
  proof -
    have map_id: "map aq_id (update_where P f (wk_requests st)) = map aq_id (wk_requests st)"
      using o by (auto simp add: update_where_def intro: origin_fields(4))
    have eyes: "four_eyes_kept (wk_decisions st) (?g r)" if r: "r \<in> set (wk_requests st)" for r
    proof (cases "P r \<and> sa_status (f r) = RequestApproved")
      case True
      then show ?thesis using a r ok by simp
    next
      case False
      have "four_eyes_kept (wk_decisions st) r" using ok r by (simp add: work_ok_def)
      then show ?thesis using False origin_fields [OF orig [OF r]] by (auto simp add: four_eyes_kept_def)
    qed
    have behind: "backed (update_where P f (wk_requests st)) t" if t: "t \<in> set (wk_tasks st)" for t
    proof -
      have b: "backed (wk_requests st) t" using ok t by (simp add: work_ok_def)
      have same: "backs t (?g r)" if "r \<in> set (wk_requests st)" "backs t r" "sa_status (?g r) \<noteq> RequestCancelled" for r
        using that orig [OF that(1)] origin_fields [OF orig [OF that(1)]] by (auto simp add: backs_def about_task_def)
      have w: "\<exists>r' \<in> set (update_where P f (wk_requests st)). backs t r' \<and> (\<exists>s. tk_submittedAt t = Some s \<and> s \<le> aq_createdAt r')"
        if n: "ht_status t = TaskWaitingApproval" "needs_approval (tk_approvalKind t)"
      proof -
        obtain r s where r: "r \<in> set (wk_requests st)" "backs t r" "tk_submittedAt t = Some s" "s \<le> aq_createdAt r"
          using b n by (auto simp add: backed_def)
        have "sa_status (?g r) \<noteq> RequestCancelled"
          using c [OF r(1) _ _ _ t n(1) ok] r(2) by (auto simp add: backs_def about_task_def)
        then have "backs t (?g r)" using same r by blast
        moreover have "aq_createdAt (?g r) = aq_createdAt r" using origin_fields(12) [OF orig [OF r(1)]] .
        ultimately show ?thesis using r unfolding set_update_where by (intro bexI [of _ "?g r"] conjI) auto
      qed
      have d: "\<exists>r' \<in> set (update_where P f (wk_requests st)). backs t r' \<and> sa_status r' = RequestApproved"
        if n: "ht_status t = TaskCompleted" "needs_approval (tk_approvalKind t)"
      proof -
        obtain r where r: "r \<in> set (wk_requests st)" "backs t r" "sa_status r = RequestApproved"
          using b n by (auto simp add: backed_def)
        have st: "sa_status (?g r) = RequestApproved"
        proof (cases "P r")
          case True
          have "sa_status r \<noteq> RequestPending" using r(3) by simp
          then show ?thesis using settled_status [OF s [OF r(1) True ok]] True r(3) by simp
        qed (use r(3) in simp)
        then have "backs t (?g r)" using same r by simp
        with st r show ?thesis unfolding set_update_where by (intro bexI [of _ "?g r"] conjI) auto
      qed
      show ?thesis using w d by (simp add: backed_def)
    qed
    have tick: "ticket_ok (update_where P f (wk_requests st)) (wk_delegations st) k" if "k \<in> set (wk_tickets st)" for k
    proof -
      have k: "ticket_ok (wk_requests st) (wk_delegations st) k" using ok that by (simp add: work_ok_def)
      then obtain r where r: "r \<in> set (wk_requests st)" "origin r = origin (ti_request k)" by (auto simp add: ticket_ok_def)
      have "?g r \<in> set (update_where P f (wk_requests st))" using r(1) unfolding set_update_where by (rule imageI)
      moreover have "origin (?g r) = origin (ti_request k)" using orig [OF r(1)] r(2) by (rule trans)
      ultimately have "\<exists>r \<in> set (update_where P f (wk_requests st)). origin r = origin (ti_request k)" by (rule bexI [rotated])
      with k show ?thesis by (simp add: ticket_ok_def)
    qed
    have rs: "\<forall>r \<in> set (update_where P f (wk_requests st)). four_eyes_kept (wk_decisions st) r"
      using eyes unfolding set_update_where by blast
    show ?thesis
      using ok rs behind tick by (simp add: work_ok_def map_id)
  qed
  moreover have "table_grows request_kept (wk_requests st) (update_where P f (wk_requests st))" if "work_ok st"
  proof -
    have "list_all2 request_kept (wk_requests st) (update_where P f (wk_requests st))"
      using o s that by (intro kept_update_where) (auto simp add: request_kept_def)
    then show ?thesis using table_grows_snoc [of _ _ _ "[]"] by simp
  qed
  ultimately show ?thesis by (simp add: keeps_def work_grows_def same_elsewhere_def)
qed

lemma keeps_add_request:
  assumes "aq_id r = next_id st" and "sa_status r = RequestPending"
  shows "keeps st (add_request r st)"
proof -
  have "work_ok (add_request r st)" if ok: "work_ok st"
  proof -
    have id: "aq_id r = fresh_id (lg_seed st)" using assms(1) by (simp add: next_id_def)
    have "fresh_id (lg_seed st) \<notin> set (map aq_id (wk_requests st))" "fresh_id (lg_seed st) \<notin> set (map dc_request (wk_decisions st))"
      using ok by (auto simp add: work_ok_def dest: owned_fresh)
    then have "distinct (map aq_id (wk_requests st @ [r]))" "\<forall>d \<in> set (wk_decisions st). dc_request d \<noteq> aq_id r"
      using ok id by (simp add: work_ok_def) (metis id image_eqI set_map \<open>fresh_id (lg_seed st) \<notin> set (map dc_request (wk_decisions st))\<close>)
    moreover from this(2) have "four_eyes_kept (wk_decisions st) r"
      using assms(2) by (simp add: four_eyes_kept_def)
    moreover have "owned (Suc (lg_seed st)) (map aq_id (wk_requests st @ [r]))"
      using ok id by (simp add: work_ok_def owned_snoc)
    moreover have "owned (Suc (lg_seed st)) (map dc_request (wk_decisions st))"
      using ok by (simp add: work_ok_def owned_Suc)
    moreover have "backed (wk_requests st @ [r]) t" if "backed (wk_requests st) t" for t
      using that by (auto simp add: backed_def)
    moreover have "ticket_ok (wk_requests st @ [r]) gs k" if "ticket_ok (wk_requests st) gs k" for gs k
      using that by (auto simp add: ticket_ok_def)
    ultimately show ?thesis using ok by (auto simp add: work_ok_def add_request_def log_defs)
  qed
  then show ?thesis
    by (simp add: keeps_def work_grows_def add_request_def log_defs table_grows_new same_elsewhere_def)
qed

lemma finite_approvers [simp]: "finite (approvers t i ds)"
  by (rule finite_subset [of _ "dc_actor ` set ds"]) (auto simp add: approvers_def)

lemma approvers_append: "approvers t i ds \<subseteq> approvers t i (ds @ new)"
  by (auto simp add: approvers_def)

lemma approveEyesOf_card: "length (approveEyesOf t i st) = card (approvers t i (wk_decisions st))"
proof -
  have "set (approveEyesOf t i st) = approvers t i (wk_decisions st)"
    by (auto simp add: approveEyesOf_def approvers_def)
  then show ?thesis using distinct_card [of "approveEyesOf t i st"] by (simp add: approveEyesOf_def)
qed

lemma request_of_ticket:
  assumes "work_ok st" and "ticket_ok (wk_requests st) gs k" and "r \<in> set (wk_requests st)" and "aq_id r = aq_id (ti_request k)"
  shows "origin r = origin (ti_request k)"
proof -
  obtain q where q: "q \<in> set (wk_requests st)" "origin q = origin (ti_request k)" using assms(2) by (auto simp add: ticket_ok_def)
  then have "aq_id q = aq_id r" using origin_fields(4) [OF q(2)] assms(4) by simp
  then have "q = r" using distinct_key_unique [of aq_id "wk_requests st" q r] assms(1,3) q(1) by (simp add: work_ok_def)
  then show ?thesis using q(2) by simp
qed

lemma keeps_append_decision:
  assumes "ticket_ok (wk_requests st) (wk_delegations st) k"
  shows "keeps st (appendDecision now k st)"
proof -
  let ?d = "decision_record now k"
  have "work_ok (appendDecision now k st)" if ok: "work_ok st"
  proof -
    have eyes: "four_eyes_kept (wk_decisions st @ [?d]) r" if r: "r \<in> set (wk_requests st)" for r
    proof -
      have old: "four_eyes_kept (wk_decisions st) r" using ok r by (simp add: work_ok_def)
      have "dc_actor ?d \<noteq> aq_requestedBy r"
        if "aq_roleKind r = Some FOUR_EYES_APPROVAL_KIND" "dc_request ?d = aq_id r" "dc_decision ?d \<noteq> Comment"
      proof -
        have "origin r = origin (ti_request k)"
          using request_of_ticket [OF ok assms r] that(2) by (simp add: decision_record_def)
        then show ?thesis
          using that assms origin_fields [of r "ti_request k"] by (simp add: ticket_ok_def decision_record_def)
      qed
      moreover have "card (approvers (sa_tenant r) (aq_id r) (wk_decisions st))
          \<le> card (approvers (sa_tenant r) (aq_id r) (wk_decisions st @ [?d]))"
        by (intro card_mono approvers_append) simp
      ultimately show ?thesis using old by (auto simp add: four_eyes_kept_def intro: order_trans)
    qed
    obtain q where q: "q \<in> set (wk_requests st)" "origin q = origin (ti_request k)" using assms by (auto simp add: ticket_ok_def)
    have "dc_request ?d = aq_id q" using origin_fields(4) [OF q(2)] by (simp add: decision_record_def)
    then have "owned (lg_seed st) (map dc_request (wk_decisions st @ [?d]))"
      using ok q(1) by (auto simp add: work_ok_def owned_def)
    moreover have "decision_ok (wk_delegations st) ?d"
      using assms by (auto simp add: decision_ok_def decision_record_def ticket_ok_def)
    ultimately show ?thesis using ok eyes by (simp add: work_ok_def appendDecision_def)
  qed
  then show ?thesis by (simp add: keeps_def work_grows_def appendDecision_def table_grows_refl same_elsewhere_def)
qed

section \<open>Versions\<close>

text \<open>Sending back writes the version that was found, which is not live.\<close>

lemma sendable: "mayTransitionObjective s ObjectiveDraft \<Longrightarrow> \<not> isObjectiveContentFrozen s"
  by (cases s) (simp_all add: mayTransitionObjective_def isObjectiveContentFrozen_def FROZEN_OBJECTIVE_STATUSES_def)

lemma keeps_write_sent_back:
  assumes "v \<in> set (wk_versions st)" and "mayTransitionObjective (ov_status v) ObjectiveDraft"
  shows "keeps st (st\<lparr>wk_versions := update_where (\<lambda>r. ov_id r = ov_id v) (sent_back actor now reason) (wk_versions st)\<rparr>)"
    (is "keeps st (st\<lparr>wk_versions := ?vs\<rparr>)")
proof -
  have "map outline ?vs = map outline (wk_versions st)" if ok: "work_ok st"
  proof (rule map_update_where_kept)
    fix r assume r: "r \<in> set (wk_versions st)" "ov_id r = ov_id v"
    have "r = v" using distinct_key_unique [of ov_id "wk_versions st" r v] ok r assms(1) by (simp add: work_ok_def)
    then show "outline (sent_back actor now reason r) = outline r"
      using sendable [OF assms(2)] by (simp add: outline_def sent_back_def isObjectiveContentFrozen_def FROZEN_OBJECTIVE_STATUSES_def)
  qed
  moreover have "map ov_id ?vs = map ov_id (wk_versions st)"
    by (rule map_update_where_same) (simp add: sent_back_def)
  ultimately show ?thesis by (simp add: keeps_def work_ok_def work_grows_def same_elsewhere_def table_grows_refl)
qed

lemma keeps_send_back: "keeps st (snd (sendBackWithinTransaction tenant actor now i reason st))"
proof (cases "List.find (\<lambda>v. ov_tenant v = tenant \<and> ov_id v = i) (wk_versions st)")
  case (Some v)
  show ?thesis
  proof (cases "mayTransitionObjective (ov_status v) ObjectiveDraft")
    case True
    show ?thesis
      using keeps_trans [OF keeps_write_sent_back [OF conjunct1 [OF find_SomeD [OF Some]] True] keeps_same [OF same_log(1)]]
      by (simp add: sendBackWithinTransaction_def Some True)
  qed (simp add: sendBackWithinTransaction_def Some)
qed (simp add: sendBackWithinTransaction_def)

lemma keeps_moves_objective: "keeps st (moves_objective now k st)"
  by (auto simp add: moves_objective_def intro: keeps_send_back split: option.split)

section \<open>Tasks\<close>

lemma load_task_row:
  assumes "load_task tenant i st = Inr row"
  shows "row \<in> set (wk_tasks st)" "ht_tenant row = tenant" "ht_id row = i"
  using assms find_SomeD by (fastforce simp add: load_task_def result_simps)+

lemma same_task: "work_ok st \<Longrightarrow> t \<in> set (wk_tasks st) \<Longrightarrow> row \<in> set (wk_tasks st) \<Longrightarrow> ht_id t = ht_id row \<Longrightarrow> t = row"
  by (auto simp add: work_ok_def intro: distinct_key_unique)

lemma keeps_audit: "keeps st s \<Longrightarrow> keeps st (append_audit t a s)"
  using keeps_trans keeps_same [OF same_log(1)] by blast

lemma keeps_mutate:
  assumes "mutate env tenant actor now i change also st = Inr st'"
    and "\<And>row c. load_task tenant i st = Inr row \<Longrightarrow> change row = Inr c \<Longrightarrow> keeps st (also row (write_task (ht_id row) (mc_set c) st))"
  shows "keeps st st'"
  using assms by (auto simp add: mutate_def result_simps intro: keeps_audit)

lemma keeps_withdraw:
  assumes "\<And>t. work_ok st \<Longrightarrow> t \<in> set (wk_tasks st) \<Longrightarrow> ht_id t = ht_id row \<Longrightarrow> ht_status t \<noteq> TaskWaitingApproval"
  shows "keeps st (withdrawPendingApprovals tenant actor now row st)"
proof -
  let ?pending = "filter (waits_on tenant (ht_id row)) (wk_requests st)"
  let ?P = "\<lambda>r. aq_id r \<in> set (map aq_id ?pending) \<and> sa_status r = RequestPending"
  have waits: "waits_on tenant (ht_id row) r" if ok: "work_ok st" and r: "r \<in> set (wk_requests st)" and P: "?P r" for r
  proof -
    obtain q where "q \<in> set ?pending" "aq_id q = aq_id r" using P by auto
    then show ?thesis using ok r distinct_key_unique [of aq_id "wk_requests st" q r] by (auto simp add: work_ok_def)
  qed
  have "keeps st (st\<lparr>wk_requests := update_where ?P (withdraw actor now) (wk_requests st)\<rparr>)"
  proof (rule keeps_update_requests)
    fix r t
    assume r: "r \<in> set (wk_requests st)" "?P r" and t: "t \<in> set (wk_tasks st)" "ht_status t = TaskWaitingApproval" and ok: "work_ok st"
    show "\<not> backs t r"
    proof
      assume "backs t r"
      then have "ht_id t = ht_id row"
        using waits [OF ok r] by (auto simp add: backs_def about_task_def waits_on_def)
      then show False using assms [OF ok t(1)] t(2) by simp
    qed
  qed simp_all
  then show ?thesis
    using keeps_trans keeps_same [OF same_log(1)]
    by (auto simp add: withdrawPendingApprovals_def Let_def simp del: set_map set_filter)
qed

lemma keeps_start:
  assumes "start_task env tenant actor now i st = Inr st'"
  shows "keeps st st'"
proof (rule keeps_mutate [OF assms [unfolded start_task_def]])
  fix row c assume "start_change now row = Inr c"
  then have c: "mc_set c = started now" by (auto simp add: start_change_def result_simps)
  let ?st = "write_task (ht_id row) (started now) st"
  have w: "keeps st ?st" by (intro keeps_write_task backed_other) (simp_all add: started_def task_identity_def)
  have "keeps ?st (withdrawPendingApprovals tenant actor now row ?st)"
    by (rule keeps_withdraw) (auto simp add: write_task_def set_update_where started_def split: if_splits)
  with w have "keeps st (withdraw_if_waiting tenant actor now row ?st)"
    using keeps_trans by (auto simp add: withdraw_if_waiting_def)
  then show "keeps st (withdraw_if_waiting tenant actor now row (write_task (ht_id row) (mc_set c) st))" by (simp add: c)
qed

lemma keeps_block:
  assumes "block_task env tenant actor now i reason st = Inr st'"
  shows "keeps st st'"
proof (rule keeps_mutate)
  show "mutate env tenant actor now i (block_change reason) (\<lambda>row st. st) st = Inr st'"
    using assms by (simp add: block_task_def split: if_splits)
  fix row c assume "block_change reason row = Inr c"
  then have c: "mc_set c = blocked_for reason" by (auto simp add: block_change_def result_simps)
  show "keeps st (write_task (ht_id row) (mc_set c) st)"
    unfolding c by (intro keeps_write_task backed_other) (simp_all add: blocked_for_def task_identity_def)
qed

lemma keeps_evidence: "addEvidence env tenant actor now i d ref st = Inr st' \<Longrightarrow> keeps st st'"
  by (intro keeps_same) (auto simp add: addEvidence_def Let_def result_simps same_tables_def log_defs split: if_splits)

lemma keeps_ask: "keeps s (ask_if_clarification k row s)"
  unfolding ask_if_clarification_def
  by (auto simp add: needs_input_def intro!: keeps_write_task backed_other)

lemma keeps_note:
  assumes "addNote env tenant actor now i k body st = Inr st'"
  shows "keeps st st'"
proof -
  have "keeps st (st\<lparr>wk_notes := n\<rparr>)" for n by (intro keeps_same) (simp add: same_tables_def)
  then have "keeps st (ask_if_clarification k row (st\<lparr>wk_notes := n\<rparr>))" for row n using keeps_ask keeps_trans by blast
  then show ?thesis
    using assms by (auto simp add: addNote_def Let_def result_simps intro!: keeps_audit split: if_splits)
qed

section \<open>Submitting and completing\<close>

lemma keeps_finish: "keeps st (snd (finish_task env tenant actor now row st))"
  using keeps_trans [OF keeps_release keeps_same [OF same_scoreCompletion]]
  by (simp add: finish_task_def case_prod_beta Let_def)

lemma keeps_announce: "keeps st s \<Longrightarrow> keeps st (announce_released env t rs s)"
  using keeps_trans keeps_same [OF same_announce] by blast

lemma submitted_fields [simp]: "ht_id (submitted_row now t) = ht_id t" "ht_tenant (submitted_row now t) = ht_tenant t"
  "tk_approvalKind (submitted_row now t) = tk_approvalKind t" "tk_submittedAt (submitted_row now t) = Some now"
  by (simp_all add: submitted_row_def)

lemma keeps_submitted:
  assumes "load_task tenant i st = Inr row"
  shows "keeps st (submitted env tenant actor now row st)"
proof (cases "needs_approval (tk_approvalKind row)")
  case True
  let ?r = "output_request (next_id st) tenant actor now (code_of row st) row"
  have r: "aq_id ?r = next_id st" "sa_status ?r = RequestPending" by (simp_all add: output_request_def)
  have "keeps (add_request ?r st) (write_task (ht_id row) (submitted_row now) (add_request ?r st))"
  proof (rule keeps_write_task)
    fix t assume t: "t \<in> set (wk_tasks (add_request ?r st))" "ht_id t = ht_id row" and ok: "work_ok (add_request ?r st)"
    have "row \<in> set (wk_tasks (add_request ?r st))" using load_task_row [OF assms] by (simp add: add_request_def log_defs)
    then have "t = row" using same_task [OF ok t(1)] t(2) by blast
    moreover have "backs (submitted_row now row) ?r"
      using load_task_row [OF assms] by (simp add: backs_def about_task_def output_request_def)
    ultimately show "backed (wk_requests (add_request ?r st)) (submitted_row now t)"
      using True by (auto simp add: backed_def add_request_def log_defs output_request_def submitted_row_def)
  qed simp
  moreover have "add_request ?r (write_task (ht_id row) (submitted_row now) st)
      = write_task (ht_id row) (submitted_row now) (add_request ?r st)"
    by (simp add: add_request_def write_task_def log_defs)
  ultimately have "keeps st (add_request ?r (write_task (ht_id row) (submitted_row now) st))"
    using keeps_add_request [OF r] keeps_trans by simp
  moreover have "next_id (write_task (ht_id row) (submitted_row now) st) = next_id st" by (simp add: write_task_def next_id_def)
  ultimately show ?thesis
    using True by (simp add: submitted_def Let_def keeps_announce keeps_audit)
next
  case False
  have "keeps st (write_task (ht_id row) (submitted_row now) st)"
  proof (rule keeps_write_task)
    fix t assume t: "t \<in> set (wk_tasks st)" "ht_id t = ht_id row" and ok: "work_ok st"
    then have "t = row" using same_task load_task_row [OF assms] by blast
    then show "backed (wk_requests st) (submitted_row now t)" using False by (simp add: backed_def)
  qed simp
  then show ?thesis
    using False keeps_trans [OF keeps_audit keeps_finish]
    by (simp add: submitted_def Let_def case_prod_beta keeps_announce)
qed

lemma keeps_submit: "submit env tenant actor now i st = Inr st' \<Longrightarrow> keeps st st'"
  by (auto simp add: submit_def Let_def result_simps keeps_submitted split: if_splits)

lemma governing_subset: "r \<in> set (governing tenant row rs) \<Longrightarrow> r \<in> set rs \<and> about_task tenant (ht_id row) r"
  by (auto simp add: governing_def Let_def split: option.splits if_splits)

text \<open>The request that stands behind a waiting task is among those that govern its completion.\<close>

lemma governing_backs:
  assumes "r \<in> set rs" and "backs row r" and "tk_submittedAt row = Some s" and "s \<le> aq_createdAt r"
  shows "r \<in> set (governing (ht_tenant row) row rs)"
proof -
  have "r \<in> set (filter (\<lambda>r. s \<le> aq_createdAt r) (filter (about_task (ht_tenant row) (ht_id row)) rs))"
    using assms by (simp add: backs_def)
  then show ?thesis using assms(3) by (auto simp add: governing_def Let_def)
qed

lemma keeps_complete:
  assumes "load_task tenant i st = Inr row" and "ht_status row = TaskWaitingApproval"
    and "\<forall>r \<in> set (governing tenant row (wk_requests st)). sa_status r = RequestApproved"
  shows "keeps st (snd (complete_task env tenant actor now row rs st))"
proof -
  have "keeps st (write_task (ht_id row) (completed_row now) st)"
  proof (rule keeps_write_task)
    fix t assume t: "t \<in> set (wk_tasks st)" "ht_id t = ht_id row" and ok: "work_ok st"
    have row: "row \<in> set (wk_tasks st)" "ht_tenant row = tenant" using load_task_row [OF assms(1)] by auto
    have same: "t = row" using same_task [OF ok t(1) row(1) t(2)] .
    show "backed (wk_requests st) (completed_row now t)"
    proof (cases "needs_approval (tk_approvalKind row)")
      case True
      have "backed (wk_requests st) row" using ok row by (simp add: work_ok_def)
      then obtain r s where r: "r \<in> set (wk_requests st)" "backs row r" "tk_submittedAt row = Some s" "s \<le> aq_createdAt r"
        using True assms(2) by (auto simp add: backed_def)
      then have "sa_status r = RequestApproved" using assms(3) governing_backs row(2) by blast
      moreover have "backs (completed_row now row) r" using r(2) by (simp add: backs_def completed_row_def)
      ultimately show ?thesis using r(1) same by (auto simp add: backed_def completed_row_def)
    next
      case False
      then show ?thesis using same by (simp add: backed_def completed_row_def)
    qed
  qed simp
  then show ?thesis
    unfolding complete_task_def using keeps_trans [OF keeps_audit keeps_finish] by blast
qed

lemma all_approved: "\<not> not_yet_approved rs \<Longrightarrow> \<forall>r \<in> set rs. sa_status r = RequestApproved"
  using length_filter_less [where xs = rs and P = "\<lambda>r. sa_status r = RequestApproved"]
  by (auto simp add: not_yet_approved_def)

lemma keeps_reconcile:
  assumes "reconcileApprovalOutcome env tenant actor now i st = Inr (x, st')"
  shows "keeps st st'"
proof (cases "load_task tenant i st")
  case (Inr row)
  let ?rs = "governing tenant row (wk_requests st)"
  have e: "reconcile_row env tenant actor now row ?rs st = Inr (x, st')"
    using assms by (simp add: reconcileApprovalOutcome_def Inr)
  consider "ht_status row \<noteq> TaskWaitingApproval \<or> ?rs = []"
    | "\<not> (ht_status row \<noteq> TaskWaitingApproval \<or> ?rs = [])" "not_yet_approved ?rs"
    | "\<not> (ht_status row \<noteq> TaskWaitingApproval \<or> ?rs = [])" "\<not> not_yet_approved ?rs" by blast
  then show ?thesis
  proof cases
    case 1
    then show ?thesis using e by (simp add: reconcile_row_eq)
  next
    case 2
    then show ?thesis using e unfolding reconcile_row_eq by (auto simp only: if_True if_False simp_thms sum.inject prod.inject intro!: keeps_same same_scoreRejections)
  next
    case 3
    then have "st' = snd (complete_task env tenant actor now row ?rs st)"
      using e unfolding reconcile_row_eq by (simp only: if_False simp_thms sum.inject prod.inject)
    then show ?thesis using keeps_complete [OF Inr] all_approved [OF 3(2)] 3(1) by blast
  qed
qed (use assms in \<open>simp add: reconcileApprovalOutcome_def\<close>)

section \<open>Deciding\<close>

lemma load_request_row:
  assumes "load_request tenant i st = Inr r"
  shows "r \<in> set (wk_requests st)" "sa_tenant r = tenant" "aq_id r = i"
  using assms find_SomeD by (fastforce simp add: load_request_def result_simps)+

lemma covering_stands_in:
  assumes "coveringDelegation tenant toUser fromUser t now st = Some (i, f)"
  shows "stands_in (wk_delegations st) tenant toUser i f" and "fromUser = Some f"
proof -
  obtain u where u: "fromUser = Some u" using assms by (cases fromUser) (auto simp add: coveringDelegation_def)
  define rows where "rows = filter (covers t now) (sort_key (\<lambda>d. - dg_createdAt d) (filter (\<lambda>d. dg_tenant d = tenant \<and> dg_to d = toUser
     \<and> dg_from d = u \<and> dg_revokedAt d = None) (wk_delegations st)))"
  define chosen where "chosen = (case List.find (\<lambda>d. dg_types d \<noteq> []) rows of
      Some d \<Rightarrow> Some d | None \<Rightarrow> (case rows of [] \<Rightarrow> None | d # _ \<Rightarrow> Some d))"
  have "map_option (\<lambda>d. (dg_id d, dg_from d)) chosen = Some (i, f)"
    using assms u unfolding coveringDelegation_def Let_def rows_def chosen_def by (simp only: option.case split: if_splits) auto
  then obtain d where d: "chosen = Some d" "dg_id d = i" "dg_from d = f" by auto
  then have "d \<in> set rows" using find_SomeD by (fastforce simp add: chosen_def split: option.splits list.splits)
  then have "d \<in> set (wk_delegations st)" "dg_tenant d = tenant" "dg_to d = toUser" "dg_from d = u" by (auto simp add: rows_def)
  with d u show "stands_in (wk_delegations st) tenant toUser i f" "fromUser = Some f" by (auto simp add: stands_in_def)
qed

text \<open>What passing the checks of a four-eyes request means for the actor.\<close>

lemma four_eyes_refuses_the_requester:
  assumes "permit env cx m ActApprove (Some (resourceFor r department prior)) (sodPoliciesFor r) = Inr u"
    and "aq_roleKind r = Some FOUR_EYES_APPROVAL_KIND"
  shows "cx_userId cx \<noteq> aq_requestedBy r \<and> cx_userId cx \<notin> set prior"
proof -
  let ?i = "asked m ActApprove (Some (resourceFor r department prior)) (sodPoliciesFor r)"
  have clear: "sod_clear cx ?i ActApprove"
    using assms(1) isAction_name [of ActApprove] by (auto simp add: authorize_allowed asked_def simp del: action_name.simps)
  obtain p where p: "sodPoliciesFor r = [p]" "so_action p = ActApprove" "so_module p = None" "so_rule p = FourEyes"
    using assms(2) by (simp add: sodPoliciesFor_def)
  then have "\<not> blocks (cx_userId cx) (resourceFor r department prior) False (holds_company_admin cx) p"
    using clear by (simp add: sod_clear_def asked_def sod_applies_def)
  then show ?thesis using p(4) by (auto simp add: blocks_def resourceFor_def)
qed

end
