(* ===== verification/Approval_Steps.thy ===== *)
theory Approval_Steps
  imports Approval_Invariants
begin

text \<open>
  Raising, deciding, delegating and escalating keep the invariant, so that every interleaving of the
  operations on tasks and approvals does.
\<close>

section \<open>Raising\<close>

lemma keeps_raise:
  assumes "raise_request env tenant now i st = Inr st'"
  shows "keeps st st'"
proof -
  let ?r = "new_request (next_id st) tenant now i"
  have "st' = notifyApprover env tenant ?r (append_audit tenant (raised_audit i ?r) (add_request ?r st))"
    using assms by (simp add: raise_request_def Let_def result_simps)
  moreover have "keeps st (add_request ?r st)" by (rule keeps_add_request) (simp_all add: new_request_def)
  ultimately show ?thesis using keeps_trans [OF keeps_audit keeps_same [OF same_notifyApprover]] by simp
qed

lemma keeps_change: "requestChange env tenant actor now k reason c st = Inr st' \<Longrightarrow> keeps st st'"
  by (auto simp add: requestChange_def split: if_splits dest: keeps_raise)

section \<open>The first half of a decision\<close>

lemma context_actor [simp]: "cx_userId (context_of env tenant actor now) = actor"
  by (simp add: context_of_def contextFor_def Let_def split: option.split)

lemma load_ticket_ok:
  assumes "decide_load env tenant actor now i d note st = Inr k"
  shows "ticket_ok (wk_requests st) (wk_delegations st) k"
proof -
  obtain r where r: "load_request tenant i st = Inr r" and k: "k = decision_ticket tenant actor now d note st r"
    and m: "may_decide env (context_of env tenant actor now) k = Inr ()"
    using assms by (auto simp add: decide_load_def Let_def result_simps)
  have "actor \<noteq> aq_requestedBy r" if "d \<noteq> Comment" "aq_roleKind r = Some FOUR_EYES_APPROVAL_KIND"
  proof -
    have "permit env (context_of env tenant actor now) (APPROVAL_TYPE_MODULE (aq_type r)) ActApprove
        (Some (ticket_resource env k)) (sodPoliciesFor r) = Inr ()"
      using m that(1) by (simp add: may_decide_def k decision_ticket_def result_simps del: permit_allowed)
    then show ?thesis
      using four_eyes_refuses_the_requester [of env "context_of env tenant actor now"] that(2)
      unfolding ticket_resource_def by (fastforce simp add: k decision_ticket_def)
  qed
  moreover have "stands_in (wk_delegations st) tenant actor i' f" if "ti_delegation k = Some (i', f)" for i' f
    using that covering_stands_in(1) by (simp add: k decision_ticket_def)
  ultimately show ?thesis
    using load_request_row [OF r] by (auto simp add: ticket_ok_def k decision_ticket_def)
qed

lemma keeps_new_ticket:
  assumes "ticket_ok (wk_requests st) (wk_delegations st) k"
  shows "keeps st (st\<lparr>wk_tickets := wk_tickets st @ [k]\<rparr>)"
  using assms by (auto simp add: keeps_def work_ok_def work_grows_def table_grows_refl same_elsewhere_def)

lemma set_drop_at: "set (drop_at n xs) \<subseteq> set xs"
  using set_take_subset set_drop_subset by (fastforce simp add: drop_at_def)

lemma keeps_fewer_tickets:
  assumes "set ks \<subseteq> set (wk_tickets st)"
  shows "keeps st (st\<lparr>wk_tickets := ks\<rparr>)"
  using assms by (auto simp add: keeps_def work_ok_def work_grows_def table_grows_refl same_elsewhere_def)

section \<open>The second half\<close>

lemma same_ticket: "same_tables a b \<Longrightarrow> ticket_ok (wk_requests a) (wk_delegations a) k \<Longrightarrow> ticket_ok (wk_requests b) (wk_delegations b) k"
  by (simp add: same_tables_def)

lemma keeps_moves_task:
  assumes "moves_task env now k st = Inr (released, st')"
  shows "keeps st st'"
  using assms by (auto simp add: moves_task_def result_simps split: option.splits if_splits prod.splits dest: keeps_reconcile)

lemma keeps_moves_step: "keeps (snd x) (snd (moves_step k x))"
  by (auto simp add: moves_step_def keeps_release split: option.split)

text \<open>Settling writes the row that is still pending.\<close>

lemma keeps_settle:
  assumes r: "current \<in> set (wk_requests st)" "sa_status current = RequestPending" "aq_id current = aq_id (ti_request k)"
    and k: "ticket_ok (wk_requests st) gs k" and "status \<noteq> RequestCancelled"
    and eyes: "status = RequestApproved \<Longrightarrow> aq_roleKind (ti_request k) = Some FOUR_EYES_APPROVAL_KIND
        \<Longrightarrow> 2 \<le> card (approvers (ti_tenant k) (aq_id (ti_request k)) (wk_decisions st))"
  shows "keeps st (write_request (aq_id (ti_request k)) (settle_row now k status) st)"
  unfolding write_request_def
proof (rule keeps_update_requests)
  fix q assume q: "q \<in> set (wk_requests st)" "aq_id q = aq_id (ti_request k)" and ok: "work_ok st"
  have same: "q = current"
    using distinct_key_unique [of aq_id "wk_requests st" q current] ok q r by (simp add: work_ok_def)
  show "sa_status q \<noteq> RequestPending \<Longrightarrow> settled_part (settle_row now k status q) = settled_part q" using r(2) same by simp
  show "four_eyes_kept (wk_decisions st) (settle_row now k status q)" if "sa_status (settle_row now k status q) = RequestApproved"
  proof -
    have o: "origin q = origin (ti_request k)" using request_of_ticket [OF ok k q] .
    have "four_eyes_kept (wk_decisions st) q" using ok q(1) by (simp add: work_ok_def)
    moreover have "sa_tenant q = ti_tenant k" using origin_fields(1) [OF o] k by (simp add: ticket_ok_def)
    ultimately show ?thesis
      using eyes that q(2) origin_fields(11) [OF o] by (simp add: four_eyes_kept_def settle_row_def)
  qed
qed (use assms in simp_all)

lemma keeps_follow_up: "keeps (snd x) (snd (follow_up now k current status x))"
proof -
  have "keeps s (notifyRequester t r d n (moves_objective now k s))" for s t r d n
    using keeps_trans [OF keeps_moves_objective keeps_same [OF same_notifyRequester]] .
  from keeps_trans [OF keeps_moves_step this] show ?thesis
    by (simp add: follow_up_def case_prod_beta Let_def)
qed

lemma keeps_settle_request:
  assumes "settle_request env now k current status st = Inr (x, st')"
    and "current \<in> set (wk_requests st)" "sa_status current = RequestPending" "aq_id current = aq_id (ti_request k)"
    and "ticket_ok (wk_requests st) gs k" and "status \<noteq> RequestCancelled"
    and "status = RequestApproved \<Longrightarrow> aq_roleKind (ti_request k) = Some FOUR_EYES_APPROVAL_KIND
        \<Longrightarrow> 2 \<le> card (approvers (ti_tenant k) (aq_id (ti_request k)) (wk_decisions st))"
  shows "keeps st st'"
proof -
  let ?w = "settled_state now k current status st"
  obtain y where y: "moves_task env now k ?w = Inr y" and f: "follow_up now k current status y = (x, st')"
    using assms(1) by (cases "moves_task env now k ?w") (simp_all add: settle_request_def)
  have "keeps st ?w" unfolding settled_state_def by (intro keeps_audit keeps_settle [OF assms(2-7)])
  moreover have "keeps ?w (snd y)" using keeps_moves_task [of env now k ?w "fst y" "snd y"] y by simp
  moreover have "keeps (snd y) (snd (follow_up now k current status y))" by (rule keeps_follow_up)
  ultimately show ?thesis using keeps_trans f by (metis snd_conv)
qed

lemma result_status: "DECISION_RESULT d = Some s \<Longrightarrow> s \<noteq> RequestCancelled" "DECISION_RESULT d = Some RequestApproved \<longleftrightarrow> d = Approve"
  "DECISION_RESULT d = None \<longleftrightarrow> d = Comment"
  by (cases d; simp)+

lemma keeps_commit:
  assumes "decide_commit env now k st = Inr (x, st')" and k: "ticket_ok (wk_requests st) (wk_delegations st) k"
  shows "keeps st st'"
proof (cases "DECISION_RESULT (ti_decision k)")
  case None
  then show ?thesis using assms(1) by (auto simp add: decide_commit_def intro: keeps_audit keeps_append_decision [OF k])
next
  case (Some status)
  let ?id = "aq_id (ti_request k)"
  obtain current where c: "load_request (ti_tenant k) ?id st = Inr current" "sa_status current = RequestPending"
    using assms(1) Some by (auto simp add: decide_commit_def result_simps split: if_splits)
  define a where "a = appendDecision now k st"
  define eyes where "eyes = length (approveEyesOf (ti_tenant k) ?id a)"
  have ka: "keeps st a" unfolding a_def by (rule keeps_append_decision [OF k])
  have body: "(if requiredSodRule (aq_roleKind (ti_request k)) \<noteq> None \<and> ti_decision k = Approve \<and> eyes < FOUR_EYES_REQUIRED
      then Inr ([], append_audit (ti_tenant k) (eye_audit k eyes) a)
      else settle_request env now k current status a) = Inr (x, st')"
    using assms(1) unfolding decide_commit_def Some option.case c(1) bind_result_Inr Let_def a_def eyes_def
    by (simp only: c(2) simp_thms if_False)
  show ?thesis
  proof (cases "requiredSodRule (aq_roleKind (ti_request k)) \<noteq> None \<and> ti_decision k = Approve \<and> eyes < FOUR_EYES_REQUIRED")
    case True
    have "st' = append_audit (ti_tenant k) (eye_audit k eyes) a"
      using body unfolding if_P [OF True] by (simp only: sum.inject prod.inject)
    then show ?thesis using ka keeps_audit by simp
  next
    case False
    then have s: "settle_request env now k current status a = Inr (x, st')" using body unfolding if_not_P [OF False] by blast
    have same: "wk_requests a = wk_requests st" by (simp add: a_def appendDecision_def)
    have "2 \<le> card (approvers (ti_tenant k) ?id (wk_decisions a))"
      if "status = RequestApproved" "aq_roleKind (ti_request k) = Some FOUR_EYES_APPROVAL_KIND"
    proof -
      have "ti_decision k = Approve" using that(1) Some result_status(2) by simp
      then show ?thesis using False that(2) approveEyesOf_card by (auto simp add: eyes_def FOUR_EYES_REQUIRED_def)
    qed
    moreover have "current \<in> set (wk_requests a)" "aq_id current = ?id" using load_request_row [OF c(1)] same by simp_all
    moreover have "ticket_ok (wk_requests a) (wk_delegations st) k" using k same by simp
    ultimately have "keeps a st'" using keeps_settle_request [OF s] c(2) result_status(1) [OF Some] by blast
    with ka show ?thesis by (rule keeps_trans)
  qed
qed

lemma keeps_commit_ticket: "keeps st (commit_ticket env now n st)"
proof (cases "n < length (wk_tickets st)")
  case True
  let ?k = "wk_tickets st ! n" and ?st1 = "st\<lparr>wk_tickets := drop_at n (wk_tickets st)\<rparr>"
  have k1: "keeps st ?st1" by (rule keeps_fewer_tickets) (rule set_drop_at)
  show ?thesis
  proof (cases "decide_commit env now ?k ?st1")
    case (Inl e)
    then show ?thesis using True k1 by (simp add: commit_ticket_def Let_def)
  next
    case (Inr y)
    have "keeps st (snd y)" if ok: "work_ok st"
    proof -
      have "ticket_ok (wk_requests ?st1) (wk_delegations ?st1) ?k" using ok True by (simp add: work_ok_def)
      then show ?thesis using keeps_commit [of env now ?k ?st1 "fst y" "snd y"] Inr k1 keeps_trans by simp
    qed
    then have "keeps st (snd y)" by (simp add: keeps_def)
    then show ?thesis using True Inr by (simp add: commit_ticket_def Let_def case_prod_beta keeps_announce)
  qed
qed (simp add: commit_ticket_def)

section \<open>Delegations\<close>

text \<open>Delegations are added and revoked; whom they let stand in for whom stays.\<close>

definition delegations_kept :: "delegation_row list \<Rightarrow> delegation_row list \<Rightarrow> bool" where
  "delegations_kept gs gs' \<longleftrightarrow>
     (\<forall>t a i f. stands_in gs t a i f \<longrightarrow> stands_in gs' t a i f) \<and> ((\<forall>g \<in> set gs. delegation_ok g) \<longrightarrow> (\<forall>g \<in> set gs'. delegation_ok g))"

lemma keeps_delegations:
  assumes "delegations_kept (wk_delegations st) gs'"
  shows "keeps st (st\<lparr>wk_delegations := gs'\<rparr>)"
proof -
  have "decision_ok gs' d" if "decision_ok (wk_delegations st) d" for d
    using assms that by (fastforce simp add: decision_ok_def delegations_kept_def)
  moreover have "ticket_ok rs gs' k" if "ticket_ok rs (wk_delegations st) k" for rs k
    using assms that by (simp add: ticket_ok_def delegations_kept_def)
  ultimately show ?thesis
    using assms by (auto simp add: keeps_def work_ok_def work_grows_def table_grows_refl delegations_kept_def same_elsewhere_def)
qed

lemma keeps_issue: "keeps st s \<Longrightarrow> keeps st (issue s)"
  using keeps_trans keeps_same [OF same_log(3)] by blast

lemma keeps_delegate:
  assumes "delegate env tenant actor now f t types s e reason st = Inr st'"
  shows "keeps st st'"
proof -
  have v: "validateDelegation f t s e reason None = None"
    using assms by (auto simp add: delegate_def Let_def result_simps split: option.splits)
  obtain d a where d: "st' = append_audit tenant a (issue (st\<lparr>wk_delegations := wk_delegations st @ [d]\<rparr>))"
      "dg_from d = f" "dg_to d = t" "dg_startsAt d = s" "dg_endsAt d = e" "dg_reason d = reason"
    using assms by (fastforce simp add: delegate_def Let_def result_simps split: option.splits)
  have "delegations_kept (wk_delegations st) (wk_delegations st @ [d])"
    using delegation_bounds [OF v] d(2-6) by (auto simp add: delegations_kept_def stands_in_def delegation_ok_def)
  then show ?thesis unfolding d(1) by (intro keeps_audit keeps_issue keeps_delegations)
qed

lemma keeps_revoke:
  assumes "revokeDelegation env tenant actor now i st = Inr st'"
  shows "keeps st st'"
proof -
  obtain row where st': "st' = append_audit tenant (revoked_audit actor row)
      (st\<lparr>wk_delegations := update_where (\<lambda>d. dg_id d = dg_id row) (revoke actor now) (wk_delegations st)\<rparr>)"
    using assms by (auto simp add: revokeDelegation_def result_simps)
  have "stands_in (update_where P (revoke actor now) gs) t u j f" if s: "stands_in gs t u j f" for P gs t u j f
  proof -
    obtain g where g: "g \<in> set gs" "dg_tenant g = t" "dg_id g = j" "dg_from g = f" "dg_to g = u"
      using s by (auto simp add: stands_in_def)
    then have "(if P g then revoke actor now g else g) \<in> set (update_where P (revoke actor now) gs)"
      by (simp add: set_update_where)
    then show ?thesis unfolding stands_in_def by (rule bexI [rotated]) (use g in \<open>simp add: revoke_def\<close>)
  qed
  moreover have "delegation_ok (revoke actor now g) = delegation_ok g" for g
    by (simp add: delegation_ok_def revoke_def)
  ultimately have "delegations_kept (wk_delegations st) (update_where (\<lambda>d. dg_id d = dg_id row) (revoke actor now) (wk_delegations st))"
    by (auto simp add: delegations_kept_def set_update_where)
  then show ?thesis unfolding st' by (intro keeps_audit keeps_delegations)
qed

section \<open>Escalating\<close>

lemma keeps_escalate_row:
  assumes "escalate_row env tenant now r st = Inr st'"
  shows "keeps st st'"
proof -
  have w: "keeps st (write_request (aq_id r) (escalate now m) st)" for m
    unfolding write_request_def
  proof (rule keeps_update_requests)
    fix q assume q: "q \<in> set (wk_requests st)" and ok: "work_ok st" and s: "sa_status (escalate now m q) = RequestApproved"
    have "four_eyes_kept (wk_decisions st) q" using ok q by (simp add: work_ok_def)
    then show "four_eyes_kept (wk_decisions st) (escalate now m q)" by (simp add: four_eyes_kept_def escalate_def)
  qed simp_all
  obtain m n a where "st' = raise_notice n (append_audit tenant a (write_request (aq_id r) (escalate now m) st))"
    using assms by (cases "escalates_to env now r") (simp_all add: escalate_row_def, blast)
  then show ?thesis using keeps_trans [OF keeps_audit [OF w] keeps_same [OF same_log(2)]] by simp
qed

lemma keeps_escalate_ticket: "keeps st (escalate_ticket env now n st)"
proof -
  have k: "keeps st (st\<lparr>wk_escalating := x\<rparr>)" for x by (rule keeps_same) (simp add: same_tables_def)
  show ?thesis
    by (auto simp add: escalate_ticket_def Let_def k intro: keeps_trans [OF k keeps_escalate_row] split: sum.split)
qed

section \<open>Scores\<close>

lemma same_policy: "same_tables st (snd (activePolicy t st))"
  by (intro same_more activePolicy_more)

lemma same_score:
  assumes "performance_step op st = Inr st'"
  shows "same_tables st st'"
proof (cases op)
  case (SetPolicyOp cx actor now reason c)
  then obtain new where "setPolicy cx actor now reason c st = Inr (new, st')"
    using assms by (cases "setPolicy cx actor now reason c st") auto
  then have "performance_state.more st' = performance_state.more (snd (activePolicy (cx_tenantId cx) st))
      \<and> lg_seed (snd (activePolicy (cx_tenantId cx) st)) \<le> lg_seed st'"
    by (auto simp add: setPolicy_def Let_def case_prod_beta log_defs split: sum.splits if_splits)
  then show ?thesis using same_tables_trans [OF same_policy same_more] by simp
next
  case (ExitOp t s now)
  have "performance_state.more (snd (snapshotOnExit t s now st)) = performance_state.more st
      \<and> lg_seed st \<le> lg_seed (snd (snapshotOnExit t s now st))"
    by (auto simp add: snapshotOnExit_def Let_def log_defs split: option.split)
  then show ?thesis using assms ExitOp same_more by auto
next
  case (ViewOp cx h d actor subject)
  then obtain v where "viewFor cx h d actor subject st = Inr (v, st')"
    using assms by (cases "viewFor cx h d actor subject st") auto
  then have "st' = snd (activePolicy (cx_tenantId cx) st)" by (rule viewFor_state)
  then show ?thesis using same_policy by simp
qed (use assms in auto)

section \<open>Every operation\<close>

lemma work_step_keeps:
  assumes "work_step op st = Inr st'"
  shows "keeps st st'"
proof (cases op)
  case (DecideOp env t u now i d body)
  then obtain k where k: "decide_load env t u now i d body st = Inr k" "st' = st\<lparr>wk_tickets := wk_tickets st @ [k]\<rparr>"
    using assms by (cases "decide_load env t u now i d body st") auto
  then show ?thesis using keeps_new_ticket [OF load_ticket_ok] by simp
next
  case (SweepOp t)
  then show ?thesis using assms by (auto intro!: keeps_same simp add: same_tables_def)
next
  case (ScoreOp score)
  then show ?thesis using assms by (auto intro!: keeps_same dest: same_score split: sum.splits)
qed (use assms keeps_commit_ticket keeps_escalate_ticket in \<open>auto intro: keeps_start keeps_block keeps_evidence keeps_note
       keeps_submit keeps_raise keeps_change keeps_delegate keeps_revoke\<close>)

interpretation approvals: monotone_service work_step "\<lambda>op st. True" work_ok work_grows
  by unfold_locales (use work_step_keeps work_grows_refl work_grows_trans in \<open>auto simp add: keeps_def\<close>)

end
