(* ===== verification/Approval_Properties.thy ===== *)
theory Approval_Properties
  imports Approval_Steps
begin

text \<open>
  The properties of tasks and approvals, each over every interleaving of the operations.  A run
  opens with the tasks that publishing a workflow hands out and no approval yet.
\<close>

section \<open>Where a run starts\<close>

definition handed_out :: "work_state \<Rightarrow> bool" where
  "handed_out st \<longleftrightarrow> distinct (map ht_id (wk_tasks st)) \<and> distinct (map ov_id (wk_versions st)) \<and> (\<forall>t \<in> set (wk_tasks st). ht_status t \<in> {TaskWaiting, TaskAssigned})
     \<and> wk_requests st = [] \<and> wk_decisions st = [] \<and> wk_delegations st = [] \<and> wk_tickets st = []"

abbreviation work_after :: "work_op list \<Rightarrow> work_state \<Rightarrow> work_state" where
  "work_after ops st \<equiv> run_ops work_step ops st"

lemma handed_out_ok: "handed_out st \<Longrightarrow> work_ok st"
  by (auto simp add: handed_out_def work_ok_def owned_def backed_def)

lemma env_work: "env_ok (\<lambda>op st. True) work_step ops st"
  by (induction ops arbitrary: st) auto

lemma reached: "handed_out st \<Longrightarrow> work_ok (work_after ops st)"
  by (rule approvals.run_inv [OF handed_out_ok env_work])

lemma grown: "work_ok st \<Longrightarrow> work_grows st (work_after ops st)"
  by (rule approvals.run_rel [OF _ env_work])

lemma two_members: "2 \<le> card S \<Longrightarrow> \<exists>a \<in> S. \<exists>b \<in> S. a \<noteq> b"
  by (metis card_le_Suc0_iff_eq card.infinite not_less_eq_eq numeral_2_eq_2 le_zero_eq zero_neq_numeral)

lemma two_approvers:
  assumes "four_eyes_kept ds r" and "aq_roleKind r = Some FOUR_EYES_APPROVAL_KIND" and "sa_status r = RequestApproved"
  shows "\<exists>d \<in> set ds. \<exists>e \<in> set ds. dc_actor d \<noteq> dc_actor e \<and> dc_actor d \<noteq> aq_requestedBy r \<and> dc_actor e \<noteq> aq_requestedBy r
     \<and> dc_request d = aq_id r \<and> dc_request e = aq_id r \<and> dc_decision d = Approve \<and> dc_decision e = Approve"
proof -
  have "2 \<le> card (approvers (sa_tenant r) (aq_id r) ds)" using assms by (simp add: four_eyes_kept_def)
  from two_members [OF this] obtain d e where "d \<in> set ds" "e \<in> set ds" "dc_actor d \<noteq> dc_actor e"
      "dc_tenant d = sa_tenant r" "dc_tenant e = sa_tenant r" "dc_request d = aq_id r" "dc_request e = aq_id r"
      "dc_decision d = Approve" "dc_decision e = Approve"
    unfolding approvers_def by blast
  moreover from this have "dc_actor d \<noteq> aq_requestedBy r" "dc_actor e \<noteq> aq_requestedBy r"
    using assms by (auto simp add: four_eyes_kept_def)
  ultimately show ?thesis by blast
qed

lemma other_approvers:
  assumes "four_eyes_kept ds r" and "aq_roleKind r = Some FOUR_EYES_APPROVAL_KIND" and "sa_status r = RequestApproved"
  shows "2 \<le> card (approvers (sa_tenant r) (aq_id r) ds - {aq_requestedBy r})"
proof -
  have "aq_requestedBy r \<notin> approvers (sa_tenant r) (aq_id r) ds"
    using assms by (auto simp add: four_eyes_kept_def approvers_def)
  then show ?thesis using assms by (simp add: four_eyes_kept_def)
qed

lemma settled_fields:
  assumes "settled_part r = settled_part q"
  shows "aq_id q = aq_id r \<and> sa_status q = sa_status r \<and> aq_decidedBy q = aq_decidedBy r
     \<and> aq_decidedOnBehalf q = aq_decidedOnBehalf r \<and> aq_decidedAt q = aq_decidedAt r \<and> aq_note q = aq_note r
     \<and> aq_requestedBy q = aq_requestedBy r"
proof -
  have "f (settled_part r) = f (settled_part q)" for f :: "approval_request \<Rightarrow> 'z" using assms by simp
  from this [of aq_id] this [of sa_status] this [of aq_decidedBy] this [of aq_decidedOnBehalf] this [of aq_decidedAt]
    this [of aq_note] this [of aq_requestedBy]
  show ?thesis by (simp add: settled_part_def)
qed

text \<open>A small company: everybody administers it, and one report waits for four eyes.\<close>

definition admin_db :: authz_db where
  "admin_db = \<lparr>db_userType = Some (Some InternalUser),
     db_assignments = [\<lparr>as_roleKind = CompanyAdmin, as_scopeKind = ''WholeCompany'', as_departmentIds = [],
        as_selectedResourceIds = [], as_customRole = None, as_expiresAt = None\<rparr>],
     db_companyRules = [], db_companySod = [], db_platformRules = [], db_platformSod = []\<rparr>"

definition agency :: work_env where
  "agency = \<lparr>we_authz = \<lambda>u. admin_db, we_entitled = None, we_hierarchy = None, we_department = \<lambda>u. None,
     we_manager = \<lambda>u. None, we_employment = \<lambda>u. None, we_holders = \<lambda>k. [], we_raises = \<lambda>n. True,
     we_account = \<lambda>u. Some ''Active'', we_activeAgent = \<lambda>a. None, we_connections = [],
     we_budgetPolicy = False, we_departments = \<lambda>d. None, we_inSubtree = \<lambda>m u. False, we_signOff = None,
     we_runs = \<lambda>o'. [], we_settled = \<lambda>o'. [], we_exceptions = \<lambda>o'. []\<rparr>"

definition report_for :: "string option \<Rightarrow> task_row" where
  "report_for knd = \<lparr>ht_id = ''x'', ht_tenant = ''t'', ht_objective = ''o'', ht_objectiveVersion = ''v'', ht_node = ''n'',
     ht_title = ''Report'', ht_assignee = ''ann'', ht_dependsOn = [], ht_status = TaskAssigned, ht_version = 1,
     tk_dueAt = None, tk_expectedOutput = ''a report'', tk_evidenceRequirement = [], tk_approvalKind = knd,
     tk_startedAt = None, tk_submittedAt = None, tk_completedAt = None, tk_blockedReason = None,
     tk_draft = ''w'', tk_assignedBy = ''ann'', tk_inputDescription = [], tk_triggerDescription = []\<rparr>"

definition desk :: "task_row list \<Rightarrow> work_state" where
  "desk tasks = \<lparr>lg_seed = 0, lg_audits = [], lg_notices = [], ps_policies = [], ps_events = [], ps_badges = [],
     wk_tasks = tasks, wk_evidence = [], wk_notes = [], wk_requests = [], wk_decisions = [], wk_delegations = [],
     wk_objectives = [], wk_versions = [], wk_rewards = [], wk_pauses = [],
     wk_reviews = [], wk_drafts = [], wk_analyses = [], wk_expectations = [], wk_assignments = [],
     wk_completedWork = [], wk_released = [], wk_told = [], wk_tickets = [], wk_escalating = [], wk_publishing = []\<rparr>"

lemma handed_out_desk: "handed_out (desk [report_for knd])"
  by (simp add: handed_out_def desk_def report_for_def)

definition submitting :: "work_op list" where
  "submitting = [StartOp agency ''t'' ''ann'' 1 ''x'', SubmitOp agency ''t'' ''ann'' 2 ''x'']"

definition approving :: "uid \<Rightarrow> work_op list" where
  "approving u = [DecideOp agency ''t'' u 3 (fresh_id 0) Approve [], CommitOp agency 4 0]"

definition signed_off :: work_state where
  "signed_off = work_after (submitting @ approving ''bob'' @ approving ''cat'') (desk [report_for (Some ''FourEyes'')])"

lemma signed_off_rows:
  "map (\<lambda>r. (sa_status r, aq_roleKind r)) (wk_requests signed_off) = [(RequestApproved, Some ''FourEyes'')]
   \<and> map (\<lambda>t. (ht_status t, tk_approvalKind t)) (wk_tasks signed_off) = [(TaskCompleted, Some ''FourEyes'')]"
  by code_simp

definition refused :: work_state where
  "refused = work_after (submitting @ [DecideOp agency ''t'' ''bob'' 3 (fresh_id 0) Reject ''wrong'', CommitOp agency 4 0])
     (desk [report_for (Some ''Manager'')])"

section \<open>The properties\<close>

text \<open>
  C2. Four eyes take two people: however requests are raised, decided, delegated and withdrawn and
  however the two halves of concurrent decisions interleave, an approved four-eyes request carries
  approvals of two different people, neither of whom raised it.
\<close>

theorem four_eyes_need_two:
  assumes "handed_out st" and "r \<in> set (wk_requests (work_after ops st))"
    and "aq_roleKind r = Some ''FourEyes''" and "sa_status r = RequestApproved"
  shows "\<exists>d \<in> set (wk_decisions (work_after ops st)). \<exists>e \<in> set (wk_decisions (work_after ops st)).
     dc_actor d \<noteq> dc_actor e \<and> dc_actor d \<noteq> aq_requestedBy r \<and> dc_actor e \<noteq> aq_requestedBy r
     \<and> dc_request d = aq_id r \<and> dc_request e = aq_id r \<and> dc_decision d = Approve \<and> dc_decision e = Approve"
proof -
  have k: "four_eyes_kept (wk_decisions (work_after ops st)) r" using reached [OF assms(1)] assms(2) by (simp add: work_ok_def)
  have "aq_roleKind r = Some FOUR_EYES_APPROVAL_KIND" using assms(3) by (simp only: FOUR_EYES_APPROVAL_KIND_def)
  from two_approvers [OF k this assms(4)] show ?thesis .
qed

theorem four_eyes_need_two_witness:
  "\<exists>r \<in> set (wk_requests signed_off). \<exists>d \<in> set (wk_decisions signed_off). \<exists>e \<in> set (wk_decisions signed_off).
     dc_actor d \<noteq> dc_actor e \<and> dc_actor d \<noteq> aq_requestedBy r \<and> dc_actor e \<noteq> aq_requestedBy r"
proof -
  obtain r where r: "r \<in> set (wk_requests signed_off)" "aq_roleKind r = Some ''FourEyes''" "sa_status r = RequestApproved"
    using signed_off_rows by (auto simp add: map_eq_Cons_conv)
  note two = four_eyes_need_two [OF handed_out_desk r(1) [unfolded signed_off_def] r(2,3), folded signed_off_def]
  show ?thesis using two r(1) by blast
qed

text \<open>
  C13. What is decided stays decided: once a request is approved, rejected, sent back or cancelled,
  nothing that happens later changes its outcome, who decided it, for whom, when and with what note,
  and no recorded decision is altered or removed.
\<close>

theorem settled_requests_never_change:
  assumes "handed_out st" and "r \<in> set (wk_requests (work_after ops st))" and "sa_status r \<noteq> RequestPending"
  shows "prefix (wk_decisions (work_after ops st)) (wk_decisions (work_after later (work_after ops st)))
     \<and> (\<exists>r' \<in> set (wk_requests (work_after later (work_after ops st))). aq_id r' = aq_id r \<and> sa_status r' = sa_status r
          \<and> aq_decidedBy r' = aq_decidedBy r \<and> aq_decidedOnBehalf r' = aq_decidedOnBehalf r
          \<and> aq_decidedAt r' = aq_decidedAt r \<and> aq_note r' = aq_note r \<and> aq_requestedBy r' = aq_requestedBy r)"
proof -
  have g: "work_grows (work_after ops st) (work_after later (work_after ops st))" by (rule grown [OF reached [OF assms(1)]])
  then have t: "table_grows request_kept (wk_requests (work_after ops st)) (wk_requests (work_after later (work_after ops st)))"
    and p: "prefix (wk_decisions (work_after ops st)) (wk_decisions (work_after later (work_after ops st)))"
    by (simp_all add: work_grows_def)
  obtain r' where r': "r' \<in> set (wk_requests (work_after later (work_after ops st)))" "request_kept r r'"
    using table_grows_in [OF t assms(2)] by blast
  have "settled_part r = settled_part r'" using r'(2) assms(3) by (simp add: request_kept_def)
  from settled_fields [OF this] r'(1) p show ?thesis by blast
qed

theorem settled_requests_never_change_witness:
  "\<exists>r \<in> set (wk_requests (work_after (StartOp agency ''t'' ''ann'' 9 ''x'' # approving ''cat'') refused)). sa_status r = RequestRejected"
proof -
  have "map sa_status (wk_requests refused) = [RequestRejected]" by code_simp
  then obtain r where r: "r \<in> set (wk_requests refused)" "sa_status r = RequestRejected" by (auto simp add: map_eq_Cons_conv)
  have "sa_status r \<noteq> RequestPending" by (simp add: r(2))
  from settled_requests_never_change [OF handed_out_desk r(1) [unfolded refused_def] this] r(2)
  show ?thesis unfolding refused_def by metis
qed

text \<open>
  C3. Nothing is completed without the approval it asked for: a completed task whose plan names an
  approval has an approved request of that kind about it, and two people other than whoever
  submitted it approved when the plan asked for four eyes.
\<close>

theorem completed_work_was_approved:
  assumes "handed_out st" and "t \<in> set (wk_tasks (work_after ops st))" and "ht_status t = TaskCompleted"
    and "needs_approval (tk_approvalKind t)"
  shows "\<exists>r \<in> set (wk_requests (work_after ops st)). about_task (ht_tenant t) (ht_id t) r \<and> sa_status r = RequestApproved
     \<and> aq_roleKind r = tk_approvalKind t
     \<and> (tk_approvalKind t = Some ''FourEyes'' \<longrightarrow>
          2 \<le> card (approvers (ht_tenant t) (aq_id r) (wk_decisions (work_after ops st)) - {aq_requestedBy r}))"
proof -
  have ok: "work_ok (work_after ops st)" by (rule reached [OF assms(1)])
  then have "backed (wk_requests (work_after ops st)) t" using assms(2) by (simp add: work_ok_def)
  then obtain r where r: "r \<in> set (wk_requests (work_after ops st))" "backs t r" "sa_status r = RequestApproved"
    using assms(3,4) by (auto simp add: backed_def)
  have k: "four_eyes_kept (wk_decisions (work_after ops st)) r" using ok r(1) by (simp add: work_ok_def)
  have "2 \<le> card (approvers (ht_tenant t) (aq_id r) (wk_decisions (work_after ops st)) - {aq_requestedBy r})"
    if "tk_approvalKind t = Some ''FourEyes''"
    using other_approvers [OF k] that r(2,3) by (simp add: backs_def about_task_def FOUR_EYES_APPROVAL_KIND_def)
  then show ?thesis using r by (auto simp add: backs_def)
qed

theorem completed_work_was_approved_witness:
  "\<exists>t \<in> set (wk_tasks signed_off). \<exists>r \<in> set (wk_requests signed_off). ht_status t = TaskCompleted
     \<and> about_task (ht_tenant t) (ht_id t) r \<and> sa_status r = RequestApproved"
proof -
  obtain t where t: "t \<in> set (wk_tasks signed_off)" "ht_status t = TaskCompleted" "tk_approvalKind t = Some ''FourEyes''"
    using signed_off_rows by (auto simp add: map_eq_Cons_conv)
  have "needs_approval (tk_approvalKind t)" by (simp add: t(3) needs_approval_def)
  from completed_work_was_approved [OF handed_out_desk t(1) [unfolded signed_off_def] t(2) this, folded signed_off_def]
  obtain r where "r \<in> set (wk_requests signed_off)" "about_task (ht_tenant t) (ht_id t) r" "sa_status r = RequestApproved" by blast
  with t(1,2) show ?thesis by blast
qed

text \<open>
  C31. Whoever decides for somebody else was named to: a decision taken under a delegation is by the
  person it was given to, for the person who gave it, and no delegation lasts longer than ninety-two
  days or is given to oneself.
\<close>

theorem stand_ins_are_named:
  assumes "handed_out st" and "d \<in> set (wk_decisions (work_after ops st))" and "dc_delegation d = Some i"
  shows "\<exists>g \<in> set (wk_delegations (work_after ops st)). dg_id g = i \<and> dg_tenant g = dc_tenant d \<and> dg_to g = dc_actor d
     \<and> dc_onBehalfOf d = Some (dg_from g) \<and> dg_from g \<noteq> dg_to g \<and> dg_startsAt g < dg_endsAt g
     \<and> dg_endsAt g - dg_startsAt g \<le> 92 * 24 * 60 * 60 * 1000"
proof -
  have ok: "work_ok (work_after ops st)" by (rule reached [OF assms(1)])
  then have "decision_ok (wk_delegations (work_after ops st)) d" using assms(2) by (simp add: work_ok_def)
  then obtain g where g: "g \<in> set (wk_delegations (work_after ops st))" "dg_id g = i" "dg_tenant g = dc_tenant d"
      "dg_to g = dc_actor d" "dc_onBehalfOf d = Some (dg_from g)"
    using assms(3) by (auto simp add: decision_ok_def stands_in_def)
  then have "delegation_ok g" using ok by (simp add: work_ok_def)
  with g show ?thesis by (auto simp add: delegation_ok_def)
qed

definition standing_in :: "work_op list" where
  "standing_in = [RaiseOp agency ''t'' 1 \<lparr>ra_type = GuestAccess, ra_title = ''Guest'', ra_detail = [], ra_subjectType = ''Guest'',
       ra_subject = None, ra_objective = None, ra_objectiveVersion = None, ra_workflowNode = None, ra_requestedBy = ''ann'',
       ra_named = Some ''bob'', ra_roleKind = None, ra_due = None, ra_supersedes = None, ra_byExecutor = False,
       ra_changeKind = None\<rparr>,
     DelegateOp agency ''t'' ''bob'' 2 ''bob'' ''cat'' [] 0 1000 ''leave'',
     DecideOp agency ''t'' ''cat'' 3 (fresh_id 0) Approve [], CommitOp agency 4 0]"

theorem stand_ins_are_named_witness:
  "\<exists>g \<in> set (wk_delegations (work_after standing_in (desk [report_for None]))). dg_to g = ''cat'' \<and> dg_endsAt g - dg_startsAt g \<le> 7948800000"
proof -
  let ?s = "work_after standing_in (desk [report_for None])"
  have "map (\<lambda>d. (dc_delegation d, dc_actor d)) (wk_decisions ?s) = [(Some (fresh_id 1), ''cat'')]" by code_simp
  then obtain d where d: "d \<in> set (wk_decisions ?s)" "dc_delegation d = Some (fresh_id 1)" "dc_actor d = ''cat''"
    by (auto simp add: map_eq_Cons_conv)
  from stand_ins_are_named [OF handed_out_desk d(1,2)] d(3) show ?thesis by auto
qed

lemma map_sum_is_Inr: "map_sum id f x = Inr y \<longleftrightarrow> (\<exists>a. x = Inr a \<and> f a = y)"
  by (cases x) auto

section \<open>What is offered\<close>













end
