(* ===== verification/Workflow_Editor.thy ===== *)
theory Workflow_Editor
  imports Work_State Doubles
begin

text \<open>
  \<open>src/apps/api/src/objectives/workflow-editor.service.ts\<close>: the workflow of an objective version while
  the company shapes it.  Every edit goes through \<open>mutate\<close>, which checks that nobody was assigned the
  work yet and that the editor saw the latest revision, applies a change to the graph and stores the
  result only if it is valid.  What the steps are doing (\<open>activity\<close>) is left out of the view.
\<close>

section \<open>Tools and connections\<close>

definition HIGH_RISK_TOOL_CATEGORIES :: "string list" where
  "HIGH_RISK_TOOL_CATEGORIES = [''Delete'', ''ExternalBulkSend'', ''SensitiveExport'', ''FinancialChange'', ''ProductionChange'']"

definition isHighRiskToolCategory :: "string \<Rightarrow> bool" where
  "isHighRiskToolCategory c \<longleftrightarrow> c \<in> set HIGH_RISK_TOOL_CATEGORIES"

definition CONNECTOR_DEFINITIONS :: "(string \<times> string list) list" where
  "CONNECTOR_DEFINITIONS =
     [(''custom-mcp'', [''Read'', ''Write'', ''Delete'', ''ExternalBulkSend'', ''SensitiveExport'', ''FinancialChange'', ''ProductionChange'']),
      (''mock-erp'', [''Read'', ''Write'', ''Delete'', ''SensitiveExport'', ''FinancialChange'', ''ProductionChange'']),
      (''mock-mailbox'', [''Read'', ''Write'', ''ExternalBulkSend''])]"

definition connectorDefinition :: "string \<Rightarrow> string list option" where
  "connectorDefinition k = map_of CONNECTOR_DEFINITIONS k"

definition connection_live :: "instant \<Rightarrow> connection_row \<Rightarrow> bool" where
  "connection_live now c \<longleftrightarrow> cn_disabledAt c = None \<and> \<not> cn_needsReauthorization c
     \<and> (case cn_credentialExpiresAt c of None \<Rightarrow> True | Some e \<Rightarrow> now < e)"

definition missingConnectionsFor :: "work_env \<Rightarrow> instant \<Rightarrow> string list \<Rightarrow> string list" where
  "missingConnectionsFor env now needed =
     (if needed = [] then []
      else (let provided = concat (map (\<lambda>c. case connectorDefinition (cn_connector c) of None \<Rightarrow> [] | Some cs \<Rightarrow> cs)
                  (filter (connection_live now) (we_connections env)))
            in filter (\<lambda>t. t \<notin> set provided) needed))"

section \<open>Finding a draft\<close>

definition objective_resource :: "objective_row \<Rightarrow> resource" where
  "objective_resource o' = \<lparr>re_id = ob_id o', ownerUserId = Some (ob_owner o'), createdByUserId = ob_createdBy o',
     re_departmentId = Some (ob_department o'), priorActorUserIds = None\<rparr>"

definition assertOnObjective :: "work_env \<Rightarrow> authz_context \<Rightarrow> objective_row \<Rightarrow> Action \<Rightarrow> work_error + unit" where
  "assertOnObjective env cx o' action = permit env cx ''objective'' action (Some (objective_resource o')) []"

text \<open>The version to plan when none is named: one being drafted, else one under analysis, else the latest.\<close>

definition planned_version :: "version_row list \<Rightarrow> version_row option" where
  "planned_version versions =
     (case List.find (\<lambda>v. ov_status v = ObjectiveWorkflowDraft) versions of
        Some v \<Rightarrow> Some v
      | None \<Rightarrow> (case List.find (\<lambda>v. ov_status v = ObjectiveAiAnalysis) versions of
            Some v \<Rightarrow> Some v
          | None \<Rightarrow> (case versions of [] \<Rightarrow> None | v # _ \<Rightarrow> Some v)))"

definition versions_of :: "objective_row \<Rightarrow> work_state \<Rightarrow> version_row list" where
  "versions_of o' st = sort_key (\<lambda>v. - int (ov_number v))
     (filter (\<lambda>v. ov_tenant v = ob_tenant o' \<and> ov_objective v = ob_id o') (wk_versions st))"

definition load_objective :: "uid \<Rightarrow> uid \<Rightarrow> work_state \<Rightarrow> work_error + objective_row" where
  "load_objective tenant i st = orthrow NoSuchObjective (List.find (\<lambda>o'. ob_tenant o' = tenant \<and> ob_id o' = i) (wk_objectives st))"

definition locate :: "uid \<Rightarrow> uid \<Rightarrow> uid option \<Rightarrow> work_state \<Rightarrow> work_error + (objective_row \<times> uid)" where
  "locate tenant i version st =
     bind_result (load_objective tenant i st) (\<lambda>o'.
       case version of
         Some v \<Rightarrow> (case List.find (\<lambda>r. ov_tenant r = tenant \<and> ov_id r = v) (wk_versions st) of
             None \<Rightarrow> Inl NoSuchVersion
           | Some r \<Rightarrow> if ov_objective r \<noteq> ob_id o' then Inl NoSuchVersion else Inr (o', ov_id r))
       | None \<Rightarrow> (case planned_version (versions_of o' st) of
             None \<Rightarrow> Inl (InWorkflow NoVersionToPlan)
           | Some r \<Rightarrow> Inr (o', ov_id r)))"

definition draft_for :: "uid \<Rightarrow> uid \<Rightarrow> work_state \<Rightarrow> draft_row option" where
  "draft_for tenant v st = List.find (\<lambda>d. wd_tenant d = tenant \<and> wd_objectiveVersion d = v) (wk_drafts st)"

definition load_draft :: "uid \<Rightarrow> uid \<Rightarrow> uid option \<Rightarrow> work_state \<Rightarrow> work_error + (objective_row \<times> draft_row)" where
  "load_draft tenant i version st =
     bind_result (locate tenant i version st) (\<lambda>(o', v).
       map_sum id (\<lambda>d. (o', d)) (orthrow (InWorkflow NoWorkflowDraft) (draft_for tenant v st)))"

definition graphOf :: "draft_row \<Rightarrow> work_error + workflow_plan" where
  "graphOf d = orthrow (InWorkflow (SchemaUnreadable (wd_schemaVersion d))) (upgradeWorkflowDraft (wd_graph d))"

text \<open>The completed analyses of a version, the latest first.\<close>

definition completed_at :: "analysis_run \<Rightarrow> instant" where
  "completed_at a = (case an_completedAt a of None \<Rightarrow> 0 | Some t \<Rightarrow> t)"

definition analyses_of :: "uid \<Rightarrow> uid \<Rightarrow> work_state \<Rightarrow> analysis_run list" where
  "analyses_of tenant v st = sort_key (\<lambda>a. - completed_at a)
     (filter (\<lambda>a. an_tenant a = tenant \<and> an_objectiveVersion a = v \<and> an_status a = AnalysisCompleted) (wk_analyses st))"

definition newerRunThan :: "draft_row \<Rightarrow> work_state \<Rightarrow> analysis_run option" where
  "newerRunThan d st =
     (case wd_seededFrom d of
        None \<Rightarrow> None
      | Some i \<Rightarrow> (case List.find (\<lambda>a. an_tenant a = wd_tenant d \<and> an_id a = i) (wk_analyses st) of
            None \<Rightarrow> None
          | Some seed \<Rightarrow> (case an_completedAt seed of
                None \<Rightarrow> None
              | Some t \<Rightarrow>
                  List.find (\<lambda>a. t < completed_at a) (analyses_of (wd_tenant d) (wd_objectiveVersion d) st))))"

record draft_view =
  vw_row :: draft_row
  vw_graph :: workflow_plan
  vw_editable :: bool
  vw_supersededBy :: "uid option"

definition draft_viewOf :: "work_state \<Rightarrow> draft_row \<Rightarrow> work_error + draft_view" where
  "draft_viewOf st d =
     map_sum id (\<lambda>g. \<lparr>vw_row = d, vw_graph = g, vw_editable = (wd_assignedAt d = None),
        vw_supersededBy = map_option an_id (newerRunThan d st)\<rparr>) (graphOf d)"

definition view_draft :: "work_env \<Rightarrow> uid \<Rightarrow> uid \<Rightarrow> instant \<Rightarrow> uid \<Rightarrow> uid option \<Rightarrow> work_state \<Rightarrow> work_error + draft_view" where
  "view_draft env tenant actor now i version st =
     (let cx = context_of env tenant actor now in
      bind_result (permit env cx ''objective'' ActView None []) (\<lambda>_.
      bind_result (load_draft tenant i version st) (\<lambda>(o', d).
      bind_result (assertOnObjective env cx o' ActView) (\<lambda>_. draft_viewOf st d))))"

section \<open>Opening\<close>

text \<open>What an analysis seeds a draft with: its plan, in the current shape and valid.\<close>

definition readable_seed :: "analysis_run \<Rightarrow> work_error + workflow_plan" where
  "readable_seed run =
     (case Option.bind (an_draft run) upgradeWorkflowDraft of
        None \<Rightarrow> Inl (InWorkflow (SchemaUnreadable (an_schemaVersion run)))
      | Some p \<Rightarrow> if validateWorkflowDraft p \<noteq> [] then Inl (InWorkflow (DraftInvalid (validateWorkflowDraft p))) else Inr p)"

definition opened_audit :: "uid \<Rightarrow> objective_row \<Rightarrow> draft_row \<Rightarrow> uid \<Rightarrow> nat \<Rightarrow> AuditEventInput" where
  "opened_audit actor o' d run nodes =
     audit_of ''objective.workflow_draft_opened'' ''objective'' (ob_id o') (Some actor) (Some (ob_code o')) None
       (''Opened the workflow for editing, seeded from the AI analysis. The analysis run is ''
        @ ''unchanged: it stays the record of what the AI proposed.'')
       [(''draftId'', JString (wd_id d)), (''seededFromRunId'', JString run), (''nodeCount'', JNumber (int nodes))]"

definition new_draft :: "uid \<Rightarrow> uid \<Rightarrow> uid \<Rightarrow> instant \<Rightarrow> objective_row \<Rightarrow> uid \<Rightarrow> analysis_run \<Rightarrow> workflow_plan \<Rightarrow> draft_row" where
  "new_draft i tenant actor now o' v run p =
     \<lparr>wd_id = i, wd_tenant = tenant, wd_objective = ob_id o', wd_objectiveVersion = v, wd_seededFrom = Some (an_id run),
      wd_graph = StoredCurrent p, wd_schemaVersion = ANALYSIS_SCHEMA_VERSION, wd_revision = 1, wd_assignedAt = None,
      wd_assignedBy = None, wd_createdBy = actor, wd_updatedBy = actor, wd_createdAt = now, wd_version = 1\<rparr>"

definition seed_draft ::
  "uid \<Rightarrow> uid \<Rightarrow> instant \<Rightarrow> objective_row \<Rightarrow> uid \<Rightarrow> work_state \<Rightarrow> work_error + (draft_row \<times> work_state)" where
  "seed_draft tenant actor now o' v st =
     (case analyses_of tenant v st of
        [] \<Rightarrow> Inl (InWorkflow NoCompletedAnalysis)
      | run # _ \<Rightarrow>
          if an_draft run = None then Inl (InWorkflow NoCompletedAnalysis)
          else bind_result (readable_seed run) (\<lambda>p.
            let d = new_draft (next_id st) tenant actor now o' v run p
            in Inr (d, append_audit tenant (opened_audit actor o' d (an_id run) (length (wp_nodes p)))
                      (issue (st\<lparr>wk_drafts := wk_drafts st @ [d]\<rparr>)))))"

definition open_workflow ::
  "work_env \<Rightarrow> uid \<Rightarrow> uid \<Rightarrow> instant \<Rightarrow> uid \<Rightarrow> uid option \<Rightarrow> work_state \<Rightarrow> work_error + (draft_view \<times> work_state)" where
  "open_workflow env tenant actor now i version st =
     (let cx = context_of env tenant actor now in
      bind_result (permit env cx ''objective'' ActEditDraft None []) (\<lambda>_.
      bind_result (locate tenant i version st) (\<lambda>(o', v).
      bind_result (assertOnObjective env cx o' ActEditDraft) (\<lambda>_.
      bind_result (case draft_for tenant v st of Some d \<Rightarrow> Inr (d, st) | None \<Rightarrow> seed_draft tenant actor now o' v st) (\<lambda>(d, st').
      bind_result (draft_viewOf st' d) (\<lambda>view. Inr (view, st')))))))"

section \<open>Storing an edited draft\<close>

text \<open>The checks every edit makes on the draft it found.\<close>

definition editable_draft :: "nat \<Rightarrow> draft_row \<Rightarrow> work_error + unit" where
  "editable_draft revision d =
     (if wd_assignedAt d \<noteq> None then Inl (InWorkflow WorkflowAssigned)
      else if wd_revision d \<noteq> revision then Inl (InWorkflow (RevisionStale revision (wd_revision d))) else Inr ())"

definition store_graph :: "uid \<Rightarrow> workflow_plan \<Rightarrow> draft_row \<Rightarrow> draft_row" where
  "store_graph actor p d =
     d\<lparr>wd_graph := StoredCurrent p, wd_schemaVersion := ANALYSIS_SCHEMA_VERSION, wd_revision := Suc (wd_revision d),
       wd_updatedBy := actor, wd_version := Suc (wd_version d)\<rparr>"

definition write_draft :: "uid \<Rightarrow> (draft_row \<Rightarrow> draft_row) \<Rightarrow> work_state \<Rightarrow> work_state" where
  "write_draft i f st = st\<lparr>wk_drafts := update_where (\<lambda>d. wd_id d = i) f (wk_drafts st)\<rparr>"

record edit_outcome =
  eo_summary :: string
  eo_action :: string
  eo_node :: "uid option"

type_synonym plan_edit = "workflow_plan \<Rightarrow> work_error + (edit_outcome \<times> workflow_plan)"

definition edit_audit :: "uid \<Rightarrow> objective_row \<Rightarrow> draft_row \<Rightarrow> edit_outcome \<Rightarrow> workflow_plan \<Rightarrow> AuditEventInput" where
  "edit_audit actor o' d e p =
     audit_of (eo_action e) ''objective'' (ob_id o') (Some actor) (Some (ob_code o')) (Some (wd_version d)) (eo_summary e)
       ([(''draftId'', JString (wd_id d)), (''revision'', JNumber (int (wd_revision d)))]
        @ (case eo_node e of None \<Rightarrow> [] | Some n \<Rightarrow> [(''nodeId'', JString n)])
        @ [(''nodeCount'', JNumber (int (length (wp_nodes p)))), (''edgeCount'', JNumber (int (length (wp_edges p))))])"

definition save_edit ::
  "uid \<Rightarrow> uid \<Rightarrow> objective_row \<Rightarrow> draft_row \<Rightarrow> edit_outcome \<Rightarrow> workflow_plan \<Rightarrow> work_state \<Rightarrow> draft_row \<times> work_state" where
  "save_edit tenant actor o' d e p st =
     (let saved = store_graph actor p d
      in (saved, append_audit tenant (edit_audit actor o' saved e p) (write_draft (wd_id d) (store_graph actor p) st)))"

definition mutate_draft ::
  "work_env \<Rightarrow> uid \<Rightarrow> uid \<Rightarrow> instant \<Rightarrow> uid \<Rightarrow> uid option \<Rightarrow> nat \<Rightarrow> plan_edit \<Rightarrow> work_state
   \<Rightarrow> work_error + (draft_view \<times> work_state)" where
  "mutate_draft env tenant actor now i version revision change st =
     (let cx = context_of env tenant actor now in
      bind_result (permit env cx ''objective'' ActEditDraft None []) (\<lambda>_.
      bind_result (load_draft tenant i version st) (\<lambda>(o', d).
      bind_result (assertOnObjective env cx o' ActEditDraft) (\<lambda>_.
      bind_result (editable_draft revision d) (\<lambda>_.
      bind_result (graphOf d) (\<lambda>p.
      bind_result (change p) (\<lambda>(e, p').
        if validateWorkflowDraft p' \<noteq> [] then Inl (InWorkflow (DraftInvalid (validateWorkflowDraft p')))
        else (let (saved, st') = save_edit tenant actor o' d e p' st
              in bind_result (draft_viewOf st' saved) (\<lambda>view. Inr (view, st'))))))))))"

section \<open>A later analysis\<close>

definition reseed :: "uid \<Rightarrow> analysis_run \<Rightarrow> workflow_plan \<Rightarrow> draft_row \<Rightarrow> draft_row" where
  "reseed actor run p d = (store_graph actor p d)\<lparr>wd_seededFrom := Some (an_id run)\<rparr>"

definition reseeded_audit :: "uid \<Rightarrow> objective_row \<Rightarrow> draft_row \<Rightarrow> draft_row \<Rightarrow> nat \<Rightarrow> nat \<Rightarrow> AuditEventInput" where
  "reseeded_audit actor o' old saved discarded nodes =
     audit_of ''objective.workflow_draft_reseeded'' ''objective'' (ob_id o') (Some actor) (Some (ob_code o')) (Some (wd_version saved))
       (''Replaced the workflow with the later analysis. The '' @ show_nat discarded @ '' steps that ''
        @ ''were being edited were discarded for the '' @ show_nat nodes @ '' the analysis produced; ''
        @ ''both runs stay in the record as what the AI proposed each time.'')
       [(''draftId'', JString (wd_id saved)), (''revision'', JNumber (int (wd_revision saved))),
        (''previousRunId'', jtext (wd_seededFrom old)), (''seededFromRunId'', jtext (wd_seededFrom saved)),
        (''discardedNodeCount'', JNumber (int discarded)), (''nodeCount'', JNumber (int nodes))]"

definition replace_draft ::
  "uid \<Rightarrow> uid \<Rightarrow> objective_row \<Rightarrow> draft_row \<Rightarrow> analysis_run \<Rightarrow> workflow_plan \<Rightarrow> workflow_plan \<Rightarrow> work_state \<Rightarrow> draft_row \<times> work_state" where
  "replace_draft tenant actor o' d run old p st =
     (let saved = reseed actor run p d
      in (saved, append_audit tenant (reseeded_audit actor o' d saved (length (wp_nodes old)) (length (wp_nodes p)))
                   (write_draft (wd_id d) (reseed actor run p) st)))"

definition applyLatestAnalysis ::
  "work_env \<Rightarrow> uid \<Rightarrow> uid \<Rightarrow> instant \<Rightarrow> uid \<Rightarrow> uid option \<Rightarrow> nat \<Rightarrow> work_state \<Rightarrow> work_error + (draft_view \<times> work_state)" where
  "applyLatestAnalysis env tenant actor now i version revision st =
     (let cx = context_of env tenant actor now in
      bind_result (permit env cx ''objective'' ActEditDraft None []) (\<lambda>_.
      bind_result (load_draft tenant i version st) (\<lambda>(o', d).
      bind_result (assertOnObjective env cx o' ActEditDraft) (\<lambda>_.
      bind_result (editable_draft revision d) (\<lambda>_.
      bind_result (orthrow (InWorkflow AnalysisIsLatest) (newerRunThan d st)) (\<lambda>run.
      bind_result (readable_seed run) (\<lambda>p.
      bind_result (graphOf d) (\<lambda>old.
        (let (saved, st') = replace_draft tenant actor o' d run old p st
         in bind_result (draft_viewOf st' saved) (\<lambda>view. Inr (view, st')))))))))))"

section \<open>Changes of one step\<close>

definition has_node :: "uid \<Rightarrow> workflow_plan \<Rightarrow> bool" where
  "has_node i p \<longleftrightarrow> list_ex (\<lambda>n. pn_id n = i) (wp_nodes p)"

definition nodeOrThrow :: "workflow_plan \<Rightarrow> uid \<Rightarrow> work_error + plan_node" where
  "nodeOrThrow p i = orthrow (InWorkflow (NoSuchNode i)) (List.find (\<lambda>n. pn_id n = i) (wp_nodes p))"

text \<open>An assignment to the node found: the first of that identifier.\<close>

fun at_first :: "('a \<Rightarrow> bool) \<Rightarrow> ('a \<Rightarrow> 'a) \<Rightarrow> 'a list \<Rightarrow> 'a list" where
  "at_first P f [] = []"
| "at_first P f (x # xs) = (if P x then f x # xs else x # at_first P f xs)"

definition at_node :: "uid \<Rightarrow> (plan_node \<Rightarrow> plan_node) \<Rightarrow> workflow_plan \<Rightarrow> workflow_plan" where
  "at_node i f p = p\<lparr>wp_nodes := at_first (\<lambda>n. pn_id n = i) f (wp_nodes p)\<rparr>"

record dod_patch =
  dq_expectedOutput :: "string option"
  dq_criteria :: "string option"
  dq_evidence :: "string option"
  dq_dependencies :: "uid list option"
  dq_tools :: "string list option"
  dq_approval :: "string option option"
  dq_failureCondition :: "string option"

record node_patch =
  np_label :: "string option"
  np_owner :: "uid option option"
  np_ownerDesignation :: "string option option"
  np_trigger :: "string option option"
  np_dod :: "dod_patch option"

definition or_kept :: "'a option \<Rightarrow> 'a \<Rightarrow> 'a" where
  "or_kept new old = (case new of None \<Rightarrow> old | Some x \<Rightarrow> x)"

definition patch_dod :: "dod_patch \<Rightarrow> definition_of_done \<Rightarrow> definition_of_done" where
  "patch_dod q d =
     d\<lparr>dd_expectedOutput := or_kept (dq_expectedOutput q) (dd_expectedOutput d), dd_criteria := or_kept (dq_criteria q) (dd_criteria d),
       dd_evidence := or_kept (dq_evidence q) (dd_evidence d), dd_dependencies := or_kept (dq_dependencies q) (dd_dependencies d),
       dd_tools := or_kept (dq_tools q) (dd_tools d), dd_approval := or_kept (dq_approval q) (dd_approval d),
       dd_failureCondition := or_kept (dq_failureCondition q) (dd_failureCondition d),
       dd_toolsInferred := (if dq_tools q \<noteq> None then Some False else dd_toolsInferred d)\<rparr>"

definition patch_node :: "node_patch \<Rightarrow> plan_node \<Rightarrow> plan_node" where
  "patch_node q n =
     n\<lparr>pn_label := or_kept (np_label q) (pn_label n), pn_owner := or_kept (np_owner q) (pn_owner n),
       pn_ownerDesignation := or_kept (np_ownerDesignation q) (pn_ownerDesignation n), pn_trigger := or_kept (np_trigger q) (pn_trigger n),
       pn_dod := (case np_dod q of None \<Rightarrow> pn_dod n | Some d \<Rightarrow> patch_dod d (pn_dod n)),
       pn_approvalKind := (case np_dod q of None \<Rightarrow> pn_approvalKind n | Some d \<Rightarrow> or_kept (dq_approval d) (pn_approvalKind n))\<rparr>"

definition editNode :: "uid \<Rightarrow> node_patch \<Rightarrow> plan_edit" where
  "editNode i q p =
     bind_result (nodeOrThrow p i) (\<lambda>n.
       if (case np_label q of None \<Rightarrow> False | Some l \<Rightarrow> blank l) then Inl (InWorkflow NodeNeedsLabel)
       else Inr (\<lparr>eo_summary = ''Edited node '' @ i @ ''.'', eo_action = ''objective.workflow_node_edited'', eo_node = None\<rparr>,
                 at_node i (patch_node q) p))"

definition clamp_position :: "rat \<Rightarrow> int" where
  "clamp_position x = max (-20000) (min 20000 (js_round x))"

definition moveNode :: "uid \<Rightarrow> (rat \<times> rat) option \<Rightarrow> plan_edit" where
  "moveNode i target p =
     bind_result (nodeOrThrow p i) (\<lambda>n.
       case target of
         None \<Rightarrow> Inr (\<lparr>eo_summary = ''Returned node '' @ i @ '' to the computed layout.'', eo_action = ''objective.workflow_node_moved'',
             eo_node = Some i\<rparr>, at_node i (pn_position_update (\<lambda>_. None)) p)
       | Some (x, y) \<Rightarrow> Inr (\<lparr>eo_summary = ''Moved node '' @ i @ '' on the canvas.'', eo_action = ''objective.workflow_node_moved'',
             eo_node = Some i\<rparr>, at_node i (pn_position_update (\<lambda>_. Some (clamp_position x, clamp_position y))) p))"

definition resetLayout :: plan_edit where
  "resetLayout p =
     (let cleared = length (filter (\<lambda>n. pn_position n \<noteq> None) (wp_nodes p))
      in Inr (\<lparr>eo_summary = (if cleared = 1 then ''Returned 1 node to the computed layout.''
                  else ''Returned '' @ show_nat cleared @ '' nodes to the computed layout.''),
                eo_action = ''objective.workflow_layout_reset'', eo_node = None\<rparr>,
              p\<lparr>wp_nodes := map (pn_position_update (\<lambda>_. None)) (wp_nodes p)\<rparr>))"

definition converted :: "AnalysisNodeKind \<Rightarrow> plan_node \<Rightarrow> plan_node" where
  "converted target n =
     (let n' = n\<lparr>pn_kind := target, pn_shape := nodeShapeFor target\<rparr>
      in if target = HumanNode then n'\<lparr>pn_skillVersion := None, pn_skillName := None\<rparr> else n'\<lparr>pn_owner := None\<rparr>)"

definition convertNode :: "uid \<Rightarrow> AnalysisNodeKind \<Rightarrow> plan_edit" where
  "convertNode i target p =
     bind_result (nodeOrThrow p i) (\<lambda>n.
     bind_result (map_sum (\<lambda>why. InWorkflow (ConversionRefused why)) id (mayConvertNode (pn_kind n) target (pn_skillVersion n \<noteq> None))) (\<lambda>_.
       Inr (\<lparr>eo_summary = ''Converted node '' @ i @ '' to '' @ node_kind_name target @ '' work.'',
              eo_action = ''objective.workflow_node_converted'', eo_node = None\<rparr>,
            at_node i (converted target) p)))"

definition setDependencies :: "uid \<Rightarrow> uid list \<Rightarrow> plan_edit" where
  "setDependencies i deps p =
     bind_result (nodeOrThrow p i) (\<lambda>n.
       Inr (\<lparr>eo_summary = ''Set '' @ show_nat (length deps) @ '' dependencies on node '' @ i @ ''.'',
              eo_action = ''objective.workflow_dependencies_set'', eo_node = None\<rparr>,
            at_node i (\<lambda>n. n\<lparr>pn_dod := (pn_dod n)\<lparr>dd_dependencies := dedupe deps\<rparr>\<rparr>) p))"

definition setEdges :: "plan_edge list \<Rightarrow> plan_edit" where
  "setEdges edges p =
     Inr (\<lparr>eo_summary = ''Reconnected the workflow: '' @ show_nat (length edges) @ '' edges.'',
            eo_action = ''objective.workflow_reconnected'', eo_node = None\<rparr>, p\<lparr>wp_edges := edges\<rparr>)"

section \<open>Adding and deleting a step\<close>

definition node_name :: "string \<Rightarrow> nat \<Rightarrow> uid" where
  "node_name stem k = stem @ ''-'' @ show_nat k"

lemma node_name_inj [simp]: "node_name stem j = node_name stem k \<longleftrightarrow> j = k"
  by (simp add: node_name_def)

lemma finite_names: "finite {j. k \<le> j \<and> node_name stem j \<in> set taken}"
proof -
  have "{j. k \<le> j \<and> node_name stem j \<in> set taken} \<subseteq> node_name stem -` set taken" by auto
  moreover have "finite (node_name stem -` set taken)" by (rule finite_vimageI) (auto simp add: inj_def)
  ultimately show ?thesis by (rule finite_subset)
qed

text \<open>The loop that counts up while the identifier is taken.\<close>

function fresh_from :: "string \<Rightarrow> uid list \<Rightarrow> nat \<Rightarrow> uid" where
  "fresh_from stem taken k = (if node_name stem k \<in> set taken then fresh_from stem taken (Suc k) else node_name stem k)"
  by pat_completeness auto

termination
proof (relation "measure (\<lambda>(stem, taken, k). card {j. k \<le> j \<and> node_name stem j \<in> set taken})")
  fix stem :: string and taken k
  assume "node_name stem k \<in> set taken"
  then have "{j. Suc k \<le> j \<and> node_name stem j \<in> set taken} = {j. k \<le> j \<and> node_name stem j \<in> set taken} - {k}"
    "k \<in> {j. k \<le> j \<and> node_name stem j \<in> set taken}" by auto
  then show "((stem, taken, Suc k), stem, taken, k) \<in> measure (\<lambda>(stem, taken, k). card {j. k \<le> j \<and> node_name stem j \<in> set taken})"
    by (simp only: in_measure prod.case) (rule card_Diff1_less [OF finite_names])
qed simp

declare fresh_from.simps [simp del]

definition freshNodeId :: "workflow_plan \<Rightarrow> AnalysisNodeKind \<Rightarrow> uid" where
  "freshNodeId p k =
     (let stem = map lower_char (node_kind_name k); taken = map pn_id (wp_nodes p)
      in fresh_from stem taken (length (filter (\<lambda>i. take (length stem) i = stem) taken) + 1))"

definition blank_node :: "uid \<Rightarrow> AnalysisNodeKind \<Rightarrow> string \<Rightarrow> plan_node" where
  "blank_node i k label =
     \<lparr>pn_id = i, pn_kind = k, pn_label = label, pn_shape = nodeShapeFor k, pn_fromStepPosition = None, pn_owner = None,
      pn_ownerDesignation = None, pn_unmatchedOwnerName = None, pn_skillVersion = None, pn_skillName = None, pn_position = None,
      pn_dod = \<lparr>dd_expectedOutput = [], dd_criteria = [], dd_evidence = [], dd_dependencies = [], dd_tools = [],
                dd_toolsInferred = None, dd_approval = None, dd_failureCondition = []\<rparr>,
      pn_approvalKind = None, pn_trigger = (if k = TriggerNode then Some ''To be named'' else None)\<rparr>"

definition edge_after :: "uid option \<Rightarrow> uid \<Rightarrow> plan_edge list" where
  "edge_after prev i =
     (case prev of None \<Rightarrow> [] | Some a \<Rightarrow> [\<lparr>pe_from = a, pe_to = i, pe_kind = Sequential, pe_condition = None\<rparr>])"

definition addNode :: "AnalysisNodeKind \<Rightarrow> string \<Rightarrow> uid option \<Rightarrow> plan_edit" where
  "addNode k label prev p =
     (if k = GoalNode then Inl (InWorkflow GoalIsFixed)
      else if blank label then Inl (InWorkflow NodeNeedsLabel)
      else (let i = freshNodeId p k; p1 = p\<lparr>wp_nodes := wp_nodes p @ [blank_node i k label]\<rparr>
            in bind_result (case prev of None \<Rightarrow> Inr () | Some a \<Rightarrow> map_sum id (\<lambda>n. ()) (nodeOrThrow p1 a)) (\<lambda>_.
                 Inr (\<lparr>eo_summary = ''Added a '' @ node_kind_name k @ '' node.'', eo_action = ''objective.workflow_node_added'',
                        eo_node = Some i\<rparr>,
                      p1\<lparr>wp_edges := wp_edges p @ edge_after prev i\<rparr>))))"

definition drop_dependency :: "uid \<Rightarrow> plan_node \<Rightarrow> plan_node" where
  "drop_dependency i n = n\<lparr>pn_dod := (pn_dod n)\<lparr>dd_dependencies := filter (\<lambda>d. d \<noteq> i) (dd_dependencies (pn_dod n))\<rparr>\<rparr>"

definition without_node :: "uid \<Rightarrow> workflow_plan \<Rightarrow> workflow_plan" where
  "without_node i p =
     p\<lparr>wp_nodes := map (drop_dependency i) (filter (\<lambda>n. pn_id n \<noteq> i) (wp_nodes p)),
       wp_edges := filter (\<lambda>e. pe_from e \<noteq> i \<and> pe_to e \<noteq> i) (wp_edges p)\<rparr>"

definition deleteNode :: "uid \<Rightarrow> plan_edit" where
  "deleteNode i p =
     bind_result (nodeOrThrow p i) (\<lambda>n.
       if pn_kind n = GoalNode then Inl (InWorkflow GoalIsFixed)
       else Inr (\<lparr>eo_summary = ''Deleted node '' @ i @ '' and everything that pointed at it.'',
                   eo_action = ''objective.workflow_node_deleted'', eo_node = None\<rparr>, without_node i p))"

end
