(* ===== verification/Workflow_Validity.thy ===== *)
theory Workflow_Validity
  imports Workflow_Editor
begin

text \<open>
  What the validation of a draft accepts, as a predicate on the graph, and what the edits that add
  and delete a step do to it.
\<close>

section \<open>Well-formed plans\<close>

definition well_formed_node :: "uid set \<Rightarrow> plan_node \<Rightarrow> bool" where
  "well_formed_node steps n \<longleftrightarrow>
     pn_shape n = nodeShapeFor (pn_kind n) \<and> \<not> blank (pn_label n)
     \<and> set (dd_dependencies (pn_dod n)) \<subseteq> steps - {pn_id n}
     \<and> (pn_kind n = TriggerNode \<longrightarrow> \<not> blank_option (pn_trigger n))"

definition well_formed_edge :: "uid set \<Rightarrow> plan_edge \<Rightarrow> bool" where
  "well_formed_edge steps e \<longleftrightarrow> pe_from e \<in> steps \<and> pe_to e \<in> steps \<and> pe_from e \<noteq> pe_to e
     \<and> (pe_kind e = Conditional \<longrightarrow> \<not> blank_option (pe_condition e))"

definition well_formed_usage :: "usage_estimate \<Rightarrow> bool" where
  "well_formed_usage u \<longleftrightarrow> 0 \<le> us_minTokens u \<and> us_minTokens u \<le> us_maxTokens u \<and> \<not> blank (us_basis u)"

definition steps_of :: "workflow_plan \<Rightarrow> uid set" where
  "steps_of p = pn_id ` set (wp_nodes p)"

definition well_formed :: "workflow_plan \<Rightarrow> bool" where
  "well_formed p \<longleftrightarrow>
     wp_schemaVersion p = 2 \<and> distinct (map pn_id (wp_nodes p))
     \<and> map pn_id (filter (\<lambda>n. pn_kind n = GoalNode) (wp_nodes p)) = [wp_goal p]
     \<and> (\<forall>n \<in> set (wp_nodes p). well_formed_node (steps_of p) n)
     \<and> (\<forall>e \<in> set (wp_edges p). well_formed_edge (steps_of p) e) \<and> well_formed_usage (wp_usage p)"

lemma if_so_Nil [simp]: "if_so b x = [] \<longleftrightarrow> \<not> b"
  by (simp add: if_so_def)

lemma dependency_problems_Nil:
  "dependency_problems nodes n = [] \<longleftrightarrow> set (dd_dependencies (pn_dod n)) \<subseteq> pn_id ` set nodes - {pn_id n}"
  by (auto simp add: dependency_problems_def list_ex_iff image_iff)

lemma node_problems_Nil:
  "node_problems nodes seen ns = [] \<longleftrightarrow>
     distinct (map pn_id ns) \<and> set (map pn_id ns) \<inter> set seen = {} \<and> (\<forall>n \<in> set ns. well_formed_node (pn_id ` set nodes) n)"
proof (induction ns arbitrary: seen)
  case (Cons n ns)
  show ?case
    by (simp add: Cons dependency_problems_Nil well_formed_node_def) blast
qed simp

lemma goal_problems_Nil:
  "goal_problems p = [] \<longleftrightarrow> map pn_id (filter (\<lambda>n. pn_kind n = GoalNode) (wp_nodes p)) = [wp_goal p]"
  by (auto simp add: goal_problems_def split: list.split)

lemma edge_problems_Nil: "edge_problems xs e = [] \<longleftrightarrow> well_formed_edge (set xs) e"
  by (auto simp add: edge_problems_def well_formed_edge_def)

lemma usage_problems_Nil: "usage_problems u = [] \<longleftrightarrow> well_formed_usage u"
  by (auto simp add: usage_problems_def well_formed_usage_def)

lemma valid_iff: "validateWorkflowDraft p = [] \<longleftrightarrow> well_formed p"
proof -
  have ne: "map pn_id (filter (\<lambda>n. pn_kind n = GoalNode) (wp_nodes p)) = [wp_goal p] \<Longrightarrow> wp_nodes p \<noteq> []" by auto
  show ?thesis
  proof (cases "wp_schemaVersion p = 2 \<and> wp_nodes p \<noteq> []")
    case True
    then show ?thesis
      by (simp add: validateWorkflowDraft_def ANALYSIS_SCHEMA_VERSION_def node_problems_Nil goal_problems_Nil edge_problems_Nil
          usage_problems_Nil well_formed_def steps_of_def) blast
  next
    case False
    then show ?thesis using ne by (auto simp add: validateWorkflowDraft_def ANALYSIS_SCHEMA_VERSION_def well_formed_def)
  qed
qed

section \<open>Fresh identifiers\<close>

lemma fresh_from_fresh: "fresh_from stem taken k \<notin> set taken"
proof (induction stem taken k rule: fresh_from.induct)
  case (1 stem taken k)
  then show ?case by (cases "node_name stem k \<in> set taken") (simp_all add: fresh_from.simps [of stem taken k])
qed

lemma freshNodeId_fresh: "freshNodeId p k \<notin> steps_of p"
  using fresh_from_fresh [where taken = "map pn_id (wp_nodes p)"] by (simp add: freshNodeId_def Let_def steps_of_def)

section \<open>Adding a step\<close>

definition grown_plan :: "workflow_plan \<Rightarrow> AnalysisNodeKind \<Rightarrow> string \<Rightarrow> uid option \<Rightarrow> workflow_plan" where
  "grown_plan p k label prev =
     p\<lparr>wp_nodes := wp_nodes p @ [blank_node (freshNodeId p k) k label],
       wp_edges := wp_edges p @ edge_after prev (freshNodeId p k)\<rparr>"

lemma find_id_iff: "(\<exists>n. List.find (\<lambda>n. pn_id n = i) ns = Some n) \<longleftrightarrow> i \<in> pn_id ` set ns"
  by (induction ns) auto

lemma addNode_success:
  assumes "addNode k label prev p = Inr (e, p')"
  shows "k \<noteq> GoalNode" "\<not> blank label" "p' = grown_plan p k label prev" "eo_node e = Some (freshNodeId p k)"
    "\<And>a. prev = Some a \<Longrightarrow> a \<in> insert (freshNodeId p k) (steps_of p)"
proof -
  let ?p1 = "p\<lparr>wp_nodes := wp_nodes p @ [blank_node (freshNodeId p k) k label]\<rparr>"
  have g: "k \<noteq> GoalNode" "\<not> blank label" using assms by (auto simp add: addNode_def split: if_splits)
  then have "(case prev of None \<Rightarrow> Inr () | Some a \<Rightarrow> map_sum id (\<lambda>n. ()) (nodeOrThrow ?p1 a)) = Inr ()"
    "p' = grown_plan p k label prev \<and> eo_node e = Some (freshNodeId p k)"
    using assms by (auto simp add: addNode_def Let_def bind_result_eq_Inr grown_plan_def)
  then show "k \<noteq> GoalNode" "\<not> blank label" "p' = grown_plan p k label prev" "eo_node e = Some (freshNodeId p k)"
    "\<And>a. prev = Some a \<Longrightarrow> a \<in> insert (freshNodeId p k) (steps_of p)"
    using g by (auto simp add: nodeOrThrow_def orthrow_def steps_of_def blank_node_def find_append find_Some_iff
        dest: find_SomeD split: option.splits if_splits)
qed

lemma wf_node_mono: "well_formed_node S n \<Longrightarrow> S \<subseteq> T \<Longrightarrow> well_formed_node T n"
  by (auto simp add: well_formed_node_def)

lemma wf_edge_mono: "well_formed_edge S e \<Longrightarrow> S \<subseteq> T \<Longrightarrow> well_formed_edge T e"
  by (auto simp add: well_formed_edge_def)

lemma not_blank_to_be_named: "\<not> blank ''To be named''"
  by code_simp

lemma grown_well_formed:
  assumes "well_formed p" and "k \<noteq> GoalNode" and "\<not> blank label" and "\<And>a. prev = Some a \<Longrightarrow> a \<in> steps_of p"
  shows "well_formed (grown_plan p k label prev)"
proof -
  let ?i = "freshNodeId p k" and ?q = "grown_plan p k label prev"
  have steps: "steps_of ?q = insert ?i (steps_of p)" by (auto simp add: steps_of_def grown_plan_def blank_node_def)
  have fresh: "?i \<notin> steps_of p" by (rule freshNodeId_fresh)
  have "well_formed_node (steps_of ?q) (blank_node ?i k label)"
    using assms(2,3) not_blank_to_be_named by (simp add: well_formed_node_def blank_node_def blank_option_def)
  moreover have "well_formed_node (steps_of ?q) n" if "n \<in> set (wp_nodes p)" for n
    using that assms(1) steps by (auto simp add: well_formed_def intro: wf_node_mono)
  moreover have "well_formed_edge (steps_of ?q) e" if "e \<in> set (wp_edges p)" for e
    using that assms(1) steps by (auto simp add: well_formed_def intro: wf_edge_mono)
  moreover have "well_formed_edge (steps_of ?q) e" if "e \<in> set (edge_after prev ?i)" for e
    using that assms(4) steps fresh by (auto simp add: edge_after_def well_formed_edge_def split: option.splits)
  moreover have "distinct (map pn_id (wp_nodes ?q))"
    using assms(1) fresh by (auto simp add: grown_plan_def well_formed_def steps_of_def blank_node_def)
  moreover have "map pn_id (filter (\<lambda>n. pn_kind n = GoalNode) (wp_nodes ?q)) = [wp_goal ?q]"
    using assms(1,2) by (simp add: grown_plan_def well_formed_def blank_node_def)
  moreover have "wp_schemaVersion ?q = 2" "well_formed_usage (wp_usage ?q)"
    using assms(1) by (simp_all add: grown_plan_def well_formed_def)
  ultimately show ?thesis unfolding well_formed_def by (auto simp add: grown_plan_def)
qed

section \<open>Deleting a step\<close>

lemma drop_dependency_fields [simp]: "pn_id (drop_dependency i n) = pn_id n" "pn_kind (drop_dependency i n) = pn_kind n"
  "pn_label (drop_dependency i n) = pn_label n" "pn_shape (drop_dependency i n) = pn_shape n"
  "pn_trigger (drop_dependency i n) = pn_trigger n"
  "dd_dependencies (pn_dod (drop_dependency i n)) = filter (\<lambda>d. d \<noteq> i) (dd_dependencies (pn_dod n))"
  by (simp_all add: drop_dependency_def)

lemma drop_dependency_id: "i \<notin> set (dd_dependencies (pn_dod n)) \<Longrightarrow> drop_dependency i n = n"
  by (cases n) (auto simp add: drop_dependency_def intro!: definition_of_done.equality filter_True)

lemma steps_without: "steps_of (without_node i p) = steps_of p - {i}"
  by (auto simp add: steps_of_def without_node_def image_iff)

lemma goal_of_without:
  assumes "g = i \<Longrightarrow> False"
  shows "map pn_id (filter (\<lambda>n. pn_kind n = GoalNode) ns) = [g]
    \<Longrightarrow> map pn_id (filter (\<lambda>n. pn_kind n = GoalNode) (map (drop_dependency i) (filter (\<lambda>n. pn_id n \<noteq> i) ns))) = [g]"
proof -
  assume "map pn_id (filter (\<lambda>n. pn_kind n = GoalNode) ns) = [g]"
  moreover have "map pn_id (filter (\<lambda>n. pn_kind n = GoalNode) (map (drop_dependency i) (filter (\<lambda>n. pn_id n \<noteq> i) ns)))
      = filter (\<lambda>j. j \<noteq> i) (map pn_id (filter (\<lambda>n. pn_kind n = GoalNode) ns))"
    by (induction ns) auto
  ultimately show ?thesis using assms by auto
qed

lemma without_well_formed:
  assumes "well_formed p" and "wp_goal p \<noteq> i"
  shows "well_formed (without_node i p)"
proof -
  let ?q = "without_node i p"
  have "well_formed_node (steps_of ?q) (drop_dependency i n)" if "n \<in> set (wp_nodes p)" for n
    using that assms(1) by (auto simp add: well_formed_def steps_without well_formed_node_def)
  moreover have "well_formed_edge (steps_of ?q) e" if "e \<in> set (wp_edges p)" "pe_from e \<noteq> i" "pe_to e \<noteq> i" for e
    using that assms(1) by (auto simp add: well_formed_def steps_without well_formed_edge_def)
  moreover have "distinct (map pn_id (wp_nodes ?q))"
    using assms(1) by (simp add: without_node_def well_formed_def o_def distinct_map_filter)
  moreover have "map pn_id (filter (\<lambda>n. pn_kind n = GoalNode) (wp_nodes ?q)) = [wp_goal ?q]"
    using assms goal_of_without by (simp add: without_node_def well_formed_def)
  moreover have "wp_schemaVersion ?q = 2" "well_formed_usage (wp_usage ?q)"
    using assms(1) by (simp_all add: without_node_def well_formed_def)
  ultimately show ?thesis unfolding well_formed_def by (auto simp add: without_node_def)
qed

text \<open>Deleting the step just added gives back the plan: nothing of a well-formed plan pointed at it.\<close>

lemma without_grown:
  assumes "well_formed p"
  shows "without_node (freshNodeId p k) (grown_plan p k label prev) = p"
proof -
  let ?i = "freshNodeId p k"
  have fresh: "?i \<notin> steps_of p" by (rule freshNodeId_fresh)
  have "drop_dependency ?i n = n" "pn_id n \<noteq> ?i" if "n \<in> set (wp_nodes p)" for n
  proof -
    show "pn_id n \<noteq> ?i" using that fresh unfolding steps_of_def by (metis imageI)
    have "?i \<notin> set (dd_dependencies (pn_dod n))"
      using that assms fresh by (auto simp add: well_formed_def well_formed_node_def)
    then show "drop_dependency ?i n = n" by (rule drop_dependency_id)
  qed
  moreover have "pe_from e \<noteq> ?i \<and> pe_to e \<noteq> ?i" if "e \<in> set (wp_edges p)" for e
    using that assms fresh by (auto simp add: well_formed_def well_formed_edge_def)
  ultimately have "map (drop_dependency ?i) (filter (\<lambda>n. pn_id n \<noteq> ?i) (wp_nodes (grown_plan p k label prev))) = wp_nodes p"
    "filter (\<lambda>e. pe_from e \<noteq> ?i \<and> pe_to e \<noteq> ?i) (wp_edges (grown_plan p k label prev)) = wp_edges p"
    by (auto simp add: grown_plan_def blank_node_def edge_after_def filter_id_conv [THEN iffD2] map_idI split: option.split)
  then show ?thesis by (simp add: without_node_def grown_plan_def)
qed

end
