(* ===== verification/Execution_Order.thy ===== *)
theory Execution_Order
  imports Workflow_Plan
begin

text \<open>
  The depth of a step against its specification, the longest chain of steps it waits for, and the
  chains a valid draft may have.
\<close>

section \<open>Chains\<close>

definition waits_for :: "plan_node list \<Rightarrow> (uid \<times> uid) set" where
  "waits_for nodes = {(a, b). b \<in> set (waits nodes a)}"

definition acyclic_plan :: "plan_node list \<Rightarrow> bool" where
  "acyclic_plan nodes \<longleftrightarrow> acyclic (waits_for nodes)"

definition chain :: "plan_node list \<Rightarrow> uid list \<Rightarrow> bool" where
  "chain nodes c \<longleftrightarrow> successively (\<lambda>a b. b \<in> set (waits nodes a)) c"

definition longest :: "plan_node list \<Rightarrow> uid \<Rightarrow> nat \<Rightarrow> bool" where
  "longest nodes i d \<longleftrightarrow>
     (\<exists>c. chain nodes (i # c) \<and> length c = d) \<and> (\<forall>c. chain nodes (i # c) \<longrightarrow> length c \<le> d)"

lemma chain_Cons: "chain nodes (i # c) \<longleftrightarrow> (c = [] \<or> (hd c \<in> set (waits nodes i) \<and> chain nodes c))"
  by (cases c) (auto simp add: chain_def)

lemma longest_leaf:
  assumes "waits nodes i = []"
  shows "longest nodes i 0"
proof -
  have "chain nodes (i # c) \<longleftrightarrow> c = []" for c using assms by (auto simp add: chain_Cons)
  then show ?thesis by (simp add: longest_def)
qed

lemma longest_step:
  assumes "waits nodes i \<noteq> []" and "list_all2 (longest nodes) (waits nodes i) ds"
  shows "longest nodes i (Max (set (map Suc ds)))"
proof -
  let ?ws = "waits nodes i" and ?m = "Max (set (map Suc ds))"
  have ds: "ds \<noteq> []" using assms by auto
  then have "?m \<in> Suc ` set ds" using Max_in [of "set (map Suc ds)"] by simp
  then obtain d where d: "d \<in> set ds" "?m = Suc d" by blast
  then obtain n where n: "n < length ds" "ds ! n = d" by (auto simp add: in_set_conv_nth)
  then have "longest nodes (?ws ! n) d" "?ws ! n \<in> set ?ws" using assms(2) by (auto simp add: list_all2_conv_all_nth)
  then obtain c where "chain nodes (i # ?ws ! n # c)" "length (?ws ! n # c) = ?m"
    using d(2) by (auto simp add: longest_def chain_Cons)
  moreover have "length c \<le> ?m" if "chain nodes (i # c)" for c
  proof (cases c)
    case (Cons w c')
    then have "w \<in> set ?ws" "chain nodes (w # c')" using that by (simp_all add: chain_Cons [of nodes i])
    then obtain k where k: "k < length ?ws" "?ws ! k = w" by (auto simp add: in_set_conv_nth)
    then have "longest nodes w (ds ! k)" "ds ! k \<in> set ds" using assms(2) by (auto simp add: list_all2_conv_all_nth)
    then have "length c' \<le> ds ! k" "Suc (ds ! k) \<le> ?m"
      using \<open>chain nodes (w # c')\<close> by (auto simp add: longest_def intro: Max_ge)
    then show ?thesis using Cons by simp
  qed simp
  ultimately show ?thesis unfolding longest_def by blast
qed

section \<open>The search\<close>

definition memo_ok :: "plan_node list \<Rightarrow> (uid \<rightharpoonup> nat) \<Rightarrow> bool" where
  "memo_ok nodes m \<longleftrightarrow> (\<forall>i d. m i = Some d \<longrightarrow> longest nodes i d)"

lemma memo_ok_upd: "memo_ok nodes m \<Longrightarrow> longest nodes i d \<Longrightarrow> memo_ok nodes (m(i \<mapsto> d))"
  by (simp add: memo_ok_def)

lemma map_le_new: "m i = None \<Longrightarrow> m \<subseteq>\<^sub>m m(i \<mapsto> d)"
  by (auto simp add: map_le_def dom_def)

lemma depth_of_longest:
  shows "depth_of nodes seen memo i = (d, m) \<Longrightarrow> acyclic_plan nodes \<Longrightarrow> memo_ok nodes memo
      \<Longrightarrow> (\<And>s. s \<in> seen \<Longrightarrow> (s, i) \<in> (waits_for nodes)\<^sup>+) \<Longrightarrow> longest nodes i d \<and> memo_ok nodes m \<and> memo \<subseteq>\<^sub>m m \<and> m i = Some d"
    and "depths_of nodes seen memo is = (ds, m) \<Longrightarrow> acyclic_plan nodes \<Longrightarrow> memo_ok nodes memo
      \<Longrightarrow> (\<And>s w. s \<in> seen \<Longrightarrow> w \<in> set is \<Longrightarrow> (s, w) \<in> (waits_for nodes)\<^sup>+)
      \<Longrightarrow> list_all2 (longest nodes) is ds \<and> memo_ok nodes m \<and> memo \<subseteq>\<^sub>m m"
proof (induction nodes seen memo i and nodes seen memo "is" arbitrary: d m and ds m rule: depth_of_depths_of.induct)
  case (1 nodes seen memo i)
  show ?case
  proof (cases "memo i")
    case (Some d')
    then show ?thesis using "1.prems" by (simp add: depth_of.simps memo_ok_def)
  next
    case None
    have fresh: "i \<notin> seen"
    proof
      assume "i \<in> seen"
      then have "(i, i) \<in> (waits_for nodes)\<^sup>+" by (rule "1.prems"(4))
      then show False using "1.prems"(2) by (simp add: acyclic_plan_def acyclic_def)
    qed
    show ?thesis
    proof (cases "waits nodes i = []")
      case True
      then have dm: "d = 0" "m = memo(i \<mapsto> 0)" using "1.prems"(1) None fresh by (simp_all add: depth_of.simps)
      show ?thesis using memo_ok_upd [OF "1.prems"(3) longest_leaf [OF True]] longest_leaf [OF True]
          map_le_new [where m = memo and i = i and d = 0, OF None]
        unfolding dm by (simp only: fun_upd_same simp_thms)
    next
      case False
      obtain ds m1 where rec: "depths_of nodes (insert i seen) memo (waits nodes i) = (ds, m1)" by fastforce
      then have dm: "d = Max (set (map Suc ds))" "m = m1(i \<mapsto> d)"
        using "1.prems"(1) None fresh False by (auto simp add: depth_of.simps [of nodes seen memo i] Let_def)
      have "(s, w) \<in> (waits_for nodes)\<^sup>+" if "s \<in> insert i seen" "w \<in> set (waits nodes i)" for s w
      proof -
        have w: "(i, w) \<in> waits_for nodes" using that(2) by (simp add: waits_for_def)
        from that(1) show ?thesis
        proof
          assume "s \<in> seen"
          then have "(s, i) \<in> (waits_for nodes)\<^sup>+" by (rule "1.prems"(4))
          with w show ?thesis by simp
        qed (use w in simp)
      qed
      then have sub: "list_all2 (longest nodes) (waits nodes i) ds \<and> memo_ok nodes m1 \<and> memo \<subseteq>\<^sub>m m1"
        using "1.IH" [OF None fresh False rec] "1.prems"(2,3) by blast
      have l: "longest nodes i d" using longest_step [OF False] sub dm(1) by simp
      have "memo_ok nodes (m1(i \<mapsto> d))" using memo_ok_upd sub l by blast
      moreover have "memo \<subseteq>\<^sub>m m1(i \<mapsto> d)" using sub None by (auto simp add: map_le_def dom_def)
      ultimately show ?thesis using l unfolding dm(2) by (simp only: fun_upd_same simp_thms)
    qed
  qed
next
  case (2 nodes seen memo)
  then show ?case by simp
next
  case (3 nodes seen memo i "is")
  obtain d m1 where a: "depth_of nodes seen memo i = (d, m1)" by fastforce
  obtain es m2 where b: "depths_of nodes seen m1 is = (es, m2)" by fastforce
  have e: "ds = d # es" "m = m2" using "3.prems"(1) a b by simp_all
  have first: "longest nodes i d \<and> memo_ok nodes m1 \<and> memo \<subseteq>\<^sub>m m1 \<and> m1 i = Some d"
    using "3.IH"(1) [OF a "3.prems"(2,3)] "3.prems"(4) by simp
  have "list_all2 (longest nodes) is es \<and> memo_ok nodes m2 \<and> m1 \<subseteq>\<^sub>m m2"
    using "3.IH"(2) [OF a [symmetric] refl b "3.prems"(2)] first "3.prems"(4) by simp
  with first show ?case by (auto simp add: e intro: map_le_trans)
qed

lemma foldl_depths:
  assumes "acyclic_plan nodes" and "memo_ok nodes memo"
  shows "memo_ok nodes (foldl (\<lambda>memo n. snd (depth_of nodes {} memo (pn_id n))) memo ns)
     \<and> memo \<subseteq>\<^sub>m foldl (\<lambda>memo n. snd (depth_of nodes {} memo (pn_id n))) memo ns
     \<and> (\<forall>n \<in> set ns. foldl (\<lambda>memo n. snd (depth_of nodes {} memo (pn_id n))) memo ns (pn_id n) \<noteq> None)"
  using assms(2)
proof (induction ns arbitrary: memo)
  case (Cons n ns)
  obtain d m where dm: "depth_of nodes {} memo (pn_id n) = (d, m)" by fastforce
  have m: "memo_ok nodes m" "memo \<subseteq>\<^sub>m m" "m (pn_id n) = Some d"
    using depth_of_longest(1) [OF dm assms(1) Cons.prems] by simp_all
  note IH = Cons.IH [OF m(1)]
  have "foldl (\<lambda>memo n. snd (depth_of nodes {} memo (pn_id n))) m ns (pn_id n) = Some d"
    using IH m(3) by (auto simp add: map_le_def dom_def)
  then show ?case using IH m(2) by (auto simp add: dm intro: map_le_trans)
qed simp

theorem depths_are_longest:
  assumes "acyclic_plan nodes" and "n \<in> set nodes"
  shows "\<exists>d. executionDepths nodes (pn_id n) = Some d \<and> longest nodes (pn_id n) d"
  using foldl_depths [OF assms(1), of Map.empty nodes] assms(2)
  by (auto simp add: executionDepths_def memo_ok_def)

end
