(* ===== verification/Workflow_Readiness.thy ===== *)
theory Workflow_Readiness
  imports Workflow_Editor
begin

text \<open>
  \<open>prePublishSummary\<close> of \<open>src/apps/api/src/objectives/workflow-editor.service.ts\<close>: what would stop a
  workflow from being handed out, and what a reviewer should know before it is.  The sentence of a
  finding is the constructor that stands for it.
\<close>

section \<open>Findings\<close>

datatype finding_severity = Blocker | Warning

datatype finding_reason =
    HumanStepWithoutOwner
  | AiStepWithoutSkill
  | ToolMissing string
  | InferredToolMissing string
  | HighRiskBehindApproval
  | HighRiskUnconfirmed
  | HighRiskUngated
  | SamePersonTwice nat
  | DoneMissing "string list"

record readiness_finding =
  rf_severity :: finding_severity
  rf_node :: "uid option"
  rf_reason :: finding_reason

text \<open>Which of the sentences contain the words \<open>high-risk\<close>.\<close>

fun mentions_high_risk :: "finding_reason \<Rightarrow> bool" where
  "mentions_high_risk HighRiskBehindApproval = True"
| "mentions_high_risk HighRiskUnconfirmed = True"
| "mentions_high_risk HighRiskUngated = True"
| "mentions_high_risk _ = False"

definition finding :: "finding_severity \<Rightarrow> uid option \<Rightarrow> finding_reason \<Rightarrow> readiness_finding" where
  "finding s n r = \<lparr>rf_severity = s, rf_node = n, rf_reason = r\<rparr>"

definition nodes_of_kind :: "AnalysisNodeKind \<Rightarrow> workflow_plan \<Rightarrow> plan_node list" where
  "nodes_of_kind k p = filter (\<lambda>n. pn_kind n = k) (wp_nodes p)"

definition affected_users :: "workflow_plan \<Rightarrow> uid list" where
  "affected_users p = dedupe (List.map_filter pn_owner (nodes_of_kind HumanNode p))"

definition owner_findings :: "workflow_plan \<Rightarrow> readiness_finding list" where
  "owner_findings p =
     map (\<lambda>n. finding Blocker (Some (pn_id n)) HumanStepWithoutOwner)
       (filter (\<lambda>n. pn_owner n = None) (nodes_of_kind HumanNode p))"

definition needing_skill :: "workflow_plan \<Rightarrow> uid list" where
  "needing_skill p = map pn_id (filter (\<lambda>n. pn_skillVersion n = None) (nodes_of_kind AiNode p))"

definition reusing_skill :: "workflow_plan \<Rightarrow> uid list" where
  "reusing_skill p = map pn_id (filter (\<lambda>n. pn_skillVersion n \<noteq> None) (nodes_of_kind AiNode p))"

section \<open>Tools\<close>

definition needed_tools :: "workflow_plan \<Rightarrow> string list" where
  "needed_tools p = dedupe (concat (map (\<lambda>n. dd_tools (pn_dod n)) (wp_nodes p)))"

definition confirmed_tools :: "workflow_plan \<Rightarrow> string list" where
  "confirmed_tools p =
     concat (map (\<lambda>n. dd_tools (pn_dod n)) (filter (\<lambda>n. dd_toolsInferred (pn_dod n) \<noteq> Some True) (wp_nodes p)))"

definition inferred_missing :: "workflow_plan \<Rightarrow> string list \<Rightarrow> string list" where
  "inferred_missing p missing = filter (\<lambda>c. c \<notin> set (confirmed_tools p) \<and> isHighRiskToolCategory c) missing"

definition tool_findings :: "workflow_plan \<Rightarrow> string list \<Rightarrow> readiness_finding list" where
  "tool_findings p missing =
     map (\<lambda>c. if c \<in> set (inferred_missing p missing) then finding Warning None (InferredToolMissing c)
              else finding Blocker None (ToolMissing c)) missing"

section \<open>High risk\<close>

definition high_risk_nodes :: "workflow_plan \<Rightarrow> uid list" where
  "high_risk_nodes p =
     map pn_id (filter (\<lambda>n. list_ex (\<lambda>t. t \<in> set HIGH_RISK_TOOL_CATEGORIES) (dd_tools (pn_dod n))) (wp_nodes p))"

definition find_node :: "workflow_plan \<Rightarrow> uid \<Rightarrow> plan_node option" where
  "find_node p i = List.find (\<lambda>n. pn_id n = i) (wp_nodes p)"

definition tools_inferred :: "workflow_plan \<Rightarrow> uid \<Rightarrow> bool" where
  "tools_inferred p i = (case find_node p i of None \<Rightarrow> False | Some n \<Rightarrow> dd_toolsInferred (pn_dod n) = Some True)"

text \<open>
  An approval of its own, or an edge into an approval gate; \<open>node?.dod.approval !== null\<close> holds of
  a missing step too, but the identifier is that of a step.
\<close>

definition gated :: "workflow_plan \<Rightarrow> uid \<Rightarrow> bool" where
  "gated p i \<longleftrightarrow>
     (case find_node p i of None \<Rightarrow> True | Some n \<Rightarrow> dd_approval (pn_dod n) \<noteq> None)
     \<or> list_ex (\<lambda>e. pe_from e = i \<and> map_option pn_kind (find_node p (pe_to e)) = Some ApprovalNode) (wp_edges p)"

definition risk_finding :: "workflow_plan \<Rightarrow> uid \<Rightarrow> readiness_finding" where
  "risk_finding p i =
     finding (if gated p i \<or> tools_inferred p i then Warning else Blocker) (Some i)
       (if gated p i then HighRiskBehindApproval else if tools_inferred p i then HighRiskUnconfirmed else HighRiskUngated)"

section \<open>Workload\<close>

text \<open>
  \<open>group_by\<close> is a Map from keys to lists filled in the order of the entries: its keys in the order
  they first occur.
\<close>

definition group_by :: "('k \<times> 'v) list \<Rightarrow> ('k \<times> 'v list) list" where
  "group_by xs = map (\<lambda>k. (k, map snd (filter (\<lambda>x. fst x = k) xs))) (dedupe (map fst xs))"

definition owned_by :: "workflow_plan \<Rightarrow> uid \<Rightarrow> (uid \<times> uid) option" where
  "owned_by p i = (case find_node p i of None \<Rightarrow> None | Some n \<Rightarrow> map_option (\<lambda>u. (u, i)) (pn_owner n))"

definition workloadConflicts :: "workflow_plan \<Rightarrow> (uid \<times> uid list) list" where
  "workloadConflicts p =
     (let bySource = group_by (map (\<lambda>e. (pe_from e, pe_to e)) (filter (\<lambda>e. pe_kind e = Parallel) (wp_edges p)))
      in concat (map (\<lambda>(source, targets). filter (\<lambda>(u, ns). 1 < length ns) (group_by (List.map_filter (owned_by p) targets))) bySource))"

definition incomplete_nodes :: "workflow_plan \<Rightarrow> (uid \<times> string list) list" where
  "incomplete_nodes p =
     filter (\<lambda>(i, missing). missing \<noteq> []) (map (\<lambda>n. (pn_id n, incompleteDodFields (pn_dod n))) (wp_nodes p))"

section \<open>The summary\<close>

record publish_summary =
  su_affected :: "uid list"
  su_humans :: nat
  su_ais :: nat
  su_gates :: nat
  su_skills :: "uid list"
  su_needingSkill :: "uid list"
  su_reusingSkill :: "uid list"
  su_missing :: "string list"
  su_inferredMissing :: "string list"
  su_highRisk :: "uid list"
  su_inferredHighRisk :: "uid list"
  su_usage :: usage_estimate
  su_conflicts :: "(uid \<times> uid list) list"
  su_incomplete :: "(uid \<times> string list) list"
  su_findings :: "readiness_finding list"
  su_ready :: bool

definition findings_of :: "workflow_plan \<Rightarrow> string list \<Rightarrow> readiness_finding list" where
  "findings_of p missing =
     owner_findings p
     @ map (\<lambda>i. finding Blocker (Some i) AiStepWithoutSkill) (needing_skill p)
     @ tool_findings p missing
     @ map (risk_finding p) (high_risk_nodes p)
     @ map (\<lambda>(u, ns). finding Warning None (SamePersonTwice (length ns))) (workloadConflicts p)
     @ map (\<lambda>(i, m). finding Warning (Some i) (DoneMissing m)) (incomplete_nodes p)"

definition readiness_summary :: "workflow_plan \<Rightarrow> string list \<Rightarrow> publish_summary" where
  "readiness_summary p missing =
     \<lparr>su_affected = affected_users p, su_humans = length (nodes_of_kind HumanNode p), su_ais = length (nodes_of_kind AiNode p),
      su_gates = length (nodes_of_kind ApprovalNode p),
      su_skills = dedupe (List.map_filter pn_skillVersion (nodes_of_kind AiNode p)),
      su_needingSkill = needing_skill p, su_reusingSkill = reusing_skill p, su_missing = missing,
      su_inferredMissing = inferred_missing p missing, su_highRisk = high_risk_nodes p,
      su_inferredHighRisk = filter (tools_inferred p) (high_risk_nodes p), su_usage = wp_usage p,
      su_conflicts = workloadConflicts p, su_incomplete = incomplete_nodes p, su_findings = findings_of p missing,
      su_ready = (\<not> list_ex (\<lambda>f. rf_severity f = Blocker) (findings_of p missing))\<rparr>"

definition prePublishSummary ::
  "work_env \<Rightarrow> uid \<Rightarrow> uid \<Rightarrow> instant \<Rightarrow> uid \<Rightarrow> uid option \<Rightarrow> work_state \<Rightarrow> work_error + publish_summary" where
  "prePublishSummary env tenant actor now i version st =
     (let cx = context_of env tenant actor now in
      bind_result (permit env cx ''objective'' ActView None []) (\<lambda>_.
      bind_result (load_draft tenant i version st) (\<lambda>(o', d).
      bind_result (assertOnObjective env cx o' ActView) (\<lambda>_.
      bind_result (graphOf d) (\<lambda>p. Inr (readiness_summary p (missingConnectionsFor env now (needed_tools p))))))))"

end
