(* ===== verification/Assignment_Service.thy ===== *)
theory Assignment_Service
  imports Workflow_Readiness Human_Tasks Iso_Dates
begin

text \<open>
  \<open>src/apps/api/src/objectives/assignment.service.ts\<close>: handing out the work of a workflow.  The workflow
  is loaded and checked in one transaction after another (one step here), then everything is created
  in a single one that looks again at whether somebody was faster.
\<close>

section \<open>The checks\<close>

definition node_refusals :: "plan_node \<Rightarrow> assignment_refusal list" where
  "node_refusals n =
     if_so (incompleteDodFields (pn_dod n) \<noteq> [])
       (CheckOwnersAndAssignees, Some (pn_id n), DoneIncomplete (incompleteDodFields (pn_dod n)))
     @ if_so (pn_kind n = HumanNode \<and> pn_owner n = None) (CheckOwnersAndAssignees, Some (pn_id n), StepWithoutOwner)
     @ if_so (pn_kind n = AiNode \<and> pn_skillVersion n = None) (CheckRequiredApprovals, Some (pn_id n), StepWithoutSkill)
     @ if_so (pn_kind n = ApprovalNode \<and> pn_owner n = None \<and> pn_approvalKind n = None)
         (CheckRequiredApprovals, Some (pn_id n), GateWithoutApprover)"

definition assignee_refusals :: "work_env \<Rightarrow> uid \<Rightarrow> assignment_refusal list" where
  "assignee_refusals env u =
     (case we_account env u of
        None \<Rightarrow> [(CheckPermissions, None, AssigneeNotMember u)]
      | Some s \<Rightarrow> if_so (s = ''Suspended'' \<or> s = ''Offboarded'') (CheckPermissions, None, AssigneeInactive u s))"

definition gate_resource :: "uid \<Rightarrow> uid option \<Rightarrow> uid \<Rightarrow> plan_node \<Rightarrow> resource" where
  "gate_resource actor department u n =
     \<lparr>re_id = pn_id n, ownerUserId = Some u, createdByUserId = Some actor, re_departmentId = department, priorActorUserIds = None\<rparr>"

definition gate_refusals ::
  "work_env \<Rightarrow> uid \<Rightarrow> uid \<Rightarrow> instant \<Rightarrow> uid option \<Rightarrow> plan_node \<Rightarrow> assignment_refusal list" where
  "gate_refusals env tenant actor now department n =
     (case pn_owner n of
        None \<Rightarrow> []
      | Some u \<Rightarrow>
          if dd_approval (pn_dod n) = Some FOUR_EYES_APPROVAL_KIND then [(CheckRequiredApprovals, Some (pn_id n), GateNeedsTwoNamesOne)]
          else if we_account env u \<noteq> Some ''Active'' then [(CheckPermissions, Some (pn_id n), ApproverNotMember)]
          else (let d = fst (authorize (context_of env tenant u now) (we_hierarchy env)
                      (asked (APPROVAL_TYPE_MODULE WorkflowStepApproval) ActApprove (Some (gate_resource actor department u n)) []))
                in if_so (\<not> de_allowed d) (CheckPermissions, Some (pn_id n), ApproverMayNot (de_message d))))"

definition connection_refusals :: "publish_summary \<Rightarrow> assignment_refusal list" where
  "connection_refusals s =
     map (\<lambda>c. (CheckConnectionReadiness, None, ToolNotProvided c)) (filter (\<lambda>c. c \<notin> set (su_inferredMissing s)) (su_missing s))"

definition risk_refusals :: "publish_summary \<Rightarrow> assignment_refusal list" where
  "risk_refusals s =
     map (\<lambda>f. (CheckNoProhibitedHighRiskPath, rf_node f, HighRiskStep))
       (filter (\<lambda>f. rf_severity f = Blocker \<and> mentions_high_risk (rf_reason f)) (su_findings s))"

definition budget_note :: "work_env \<Rightarrow> string" where
  "budget_note env =
     (if \<not> we_budgetPolicy env
      then ''No AI budget policy is configured, so there is no limit to check the estimate against.''
      else ''A budget policy is configured in currency and the estimate is in tokens. No provider ''
        @ ''pricing exists yet, so the estimate cannot be priced against the allowance. The hard '' @ ''stop is enforced when work runs.'')"

text \<open>
  \<open>validate\<close>: every refusal, in the order of the checks.  Reading the summary asks for the permission
  to view and finds the draft again, and throws when either fails.
\<close>

definition validate ::
  "work_env \<Rightarrow> uid \<Rightarrow> uid \<Rightarrow> instant \<Rightarrow> objective_row \<Rightarrow> version_row \<Rightarrow> bool \<Rightarrow> workflow_plan \<Rightarrow> work_state
   \<Rightarrow> work_error + assignment_refusal list" where
  "validate env tenant actor now o' v mayRelease p st =
     map_sum id (\<lambda>s.
        map (\<lambda>x. (CheckWorkflowSchemaVersion, None, PlanProblem x)) (validateWorkflowDraft p)
        @ if_so (isObjectiveWorkAssignable (ov_status v)) (CheckWorkflowSchemaVersion, None, AlreadyLive)
        @ concat (map node_refusals (wp_nodes p))
        @ concat (map (assignee_refusals env) (affected_users p))
        @ concat (map (gate_refusals env tenant actor now (Some (ob_department o'))) (nodes_of_kind ApprovalNode p))
        @ connection_refusals s @ risk_refusals s
        @ if_so (ov_approvedAt v = None \<and> \<not> mayRelease) (CheckRequiredApprovals, None, VersionNotApproved))
       (prePublishSummary env tenant actor now (ob_id o') (Some (ov_id v)) st)"

section \<open>Loading\<close>

text \<open>The draft of the named version, or the latest of the objective.\<close>

definition draft_to_assign :: "uid \<Rightarrow> uid \<Rightarrow> uid option \<Rightarrow> work_state \<Rightarrow> draft_row option" where
  "draft_to_assign tenant i version st =
     (case sort_key (\<lambda>d. - wd_createdAt d) (filter (\<lambda>d. wd_tenant d = tenant
         \<and> (case version of None \<Rightarrow> wd_objective d = i | Some v \<Rightarrow> wd_objectiveVersion d = v)) (wk_drafts st)) of
        [] \<Rightarrow> None | d # _ \<Rightarrow> Some d)"

definition load_version :: "uid \<Rightarrow> uid \<Rightarrow> work_state \<Rightarrow> work_error + version_row" where
  "load_version tenant i st = orthrow NoSuchVersion (List.find (\<lambda>v. ov_tenant v = tenant \<and> ov_id v = i) (wk_versions st))"

definition may_release_own_work :: "work_env \<Rightarrow> uid \<Rightarrow> uid \<Rightarrow> instant \<Rightarrow> bool" where
  "may_release_own_work env tenant actor now =
     de_allowed (fst (authorize (context_of env tenant actor now) (we_hierarchy env) (asked ''objective'' ActPublish None [])))"

definition assign_load ::
  "work_env \<Rightarrow> uid \<Rightarrow> uid \<Rightarrow> instant \<Rightarrow> uid \<Rightarrow> uid option \<Rightarrow> bool \<Rightarrow> work_state \<Rightarrow> work_error + publication" where
  "assign_load env tenant actor now i version acceptWarnings st =
     (let cx = context_of env tenant actor now; mayRelease = may_release_own_work env tenant actor now in
      bind_result (permit env cx ''objective'' ActAssign None []) (\<lambda>_.
      bind_result (load_objective tenant i st) (\<lambda>o'.
      bind_result (assertOnObjective env cx o' ActAssign) (\<lambda>_.
      bind_result (orthrow (InWorkflow NoWorkflowDraft) (draft_to_assign tenant (ob_id o') version st)) (\<lambda>d.
      bind_result (check_that (wd_assignedAt d = None) (InWorkflow WorkflowAssigned)) (\<lambda>_.
      bind_result (load_version tenant (wd_objectiveVersion d) st) (\<lambda>v.
      bind_result (graphOf d) (\<lambda>p.
      bind_result (validate env tenant actor now o' v mayRelease p st) (\<lambda>refusals.
        if refusals \<noteq> [] then Inl (InWorkflow (AssignmentRefused refusals))
        else Inr \<lparr>pb_tenant = tenant, pb_actor = actor, pb_objective = o', pb_draft = wd_id d, pb_objectiveVersion = ov_id v,
               pb_graph = p, pb_mayRelease = mayRelease, pb_acceptWarnings = acceptWarnings, pb_budgetNote = budget_note env\<rparr>)))))))))"

section \<open>Due times\<close>

text \<open>\<open>new Date(x)\<close> is invalid beyond a hundred million days of the epoch, and cannot be stored.\<close>

definition days_for :: "int \<Rightarrow> string \<Rightarrow> rat" where
  "days_for n unit =
     (if unit = ''Hours'' then js_div n 24 else if unit = ''Weeks'' then fl (of_int (n * 7))
      else if unit = ''Months'' then fl (of_int (n * 30)) else of_int n)"

definition dueTimeFor :: "instant \<Rightarrow> int option \<Rightarrow> string option \<Rightarrow> work_error + instant option" where
  "dueTimeFor now target unit =
     (case (target, unit) of
        (Some n, Some u) \<Rightarrow>
          (let t = js_trunc (fl (of_int now + fl (fl (fl (fl (days_for n u * 24) * 60) * 60) * 1000)))
           in if \<bar>t\<bar> \<le> 8640000000000000 then Inr (Some t) else Inl (InWorkflow DueDateOutOfRange))
      | _ \<Rightarrow> Inr None)"

definition inputDescriptionFor :: "plan_node \<Rightarrow> workflow_plan \<Rightarrow> string" where
  "inputDescriptionFor n p =
     (let incoming = filter (\<lambda>c. pn_kind c \<noteq> GoalNode)
            (List.map_filter (\<lambda>e. find_node p (pe_from e)) (filter (\<lambda>e. pe_to e = pn_id n) (wp_edges p)))
      in if incoming = [] then ''No upstream step; start from the objective itself.''
         else ''From: '' @ join '', '' (map pn_label incoming) @ ''.'')"

section \<open>Publishing the version\<close>

definition active_version :: "uid \<Rightarrow> uid \<Rightarrow> work_state \<Rightarrow> version_row option" where
  "active_version tenant i st =
     List.find (\<lambda>v. ov_tenant v = tenant \<and> ov_objective v = i \<and> ov_status v = ObjectiveActive) (wk_versions st)"

definition archive_version :: "version_row \<Rightarrow> version_row" where
  "archive_version v = v\<lparr>ov_status := ObjectiveArchived, ov_version := Suc (ov_version v)\<rparr>"

definition approve_version :: "uid \<Rightarrow> instant \<Rightarrow> version_row \<Rightarrow> version_row" where
  "approve_version actor now v =
     (if ov_approvedAt v \<noteq> None then v
      else v\<lparr>ov_approvedAt := Some now, ov_approvedBy := Some actor, ov_version := Suc (ov_version v)\<rparr>)"

definition publish_version :: "uid \<Rightarrow> instant \<Rightarrow> version_row \<Rightarrow> version_row" where
  "publish_version actor now v =
     (approve_version actor now v)\<lparr>ov_status := ObjectiveActive, ov_publishedAt := Some now,
        ov_version := Suc (ov_version (approve_version actor now v))\<rparr>"

definition write_version :: "uid \<Rightarrow> (version_row \<Rightarrow> version_row) \<Rightarrow> work_state \<Rightarrow> work_state" where
  "write_version i f st = st\<lparr>wk_versions := update_where (\<lambda>v. ov_id v = i) f (wk_versions st)\<rparr>"

definition point_at :: "version_row \<Rightarrow> objective_row \<Rightarrow> objective_row" where
  "point_at v o' = o'\<lparr>ob_activeVersion := Some (ov_id v), ob_department := fo_department (ov_content v), ob_owner := fo_owner (ov_content v),
     ob_version := Suc (ob_version o')\<rparr>"

definition go_live :: "publication \<Rightarrow> instant \<Rightarrow> version_row \<Rightarrow> work_state \<Rightarrow> work_state" where
  "go_live k now v st =
     (let st1 = (case active_version (pb_tenant k) (ob_id (pb_objective k)) st of
            None \<Rightarrow> st
          | Some a \<Rightarrow> if ov_id a = ov_id v then st else write_version (ov_id a) archive_version st);
          st2 = write_version (ov_id v) (publish_version (pb_actor k) now) st1
      in st2\<lparr>wk_objectives := update_where (\<lambda>r. ob_id r = ob_id (pb_objective k))
              (point_at (publish_version (pb_actor k) now v)) (wk_objectives st2)\<rparr>)"

section \<open>Handing out\<close>

text \<open>What every step is handed out with, and what has been handed out so far.\<close>

record hand_out =
  hd_publication :: publication
  hd_published :: version_row
  hd_planned :: "uid list"
  hd_now :: instant
  hd_agents :: "uid \<Rightarrow> string option"

record handed =
  ha_tasks :: "uid list"
  ha_assignments :: "uid list"
  ha_approvals :: "uid list"
  ha_expectations :: "uid list"
  ha_awaiting :: "uid list"
  ha_approvers :: "(uid \<times> uid \<times> string) list"
  ha_startable :: "released_task list"
  ha_reused :: "(uid \<times> string) list"

definition nothing_handed :: handed where
  "nothing_handed = \<lparr>ha_tasks = [], ha_assignments = [], ha_approvals = [], ha_expectations = [], ha_awaiting = [],
     ha_approvers = [], ha_startable = [], ha_reused = []\<rparr>"

definition expect ::
  "hand_out \<Rightarrow> plan_node \<Rightarrow> ExecutorExpectationKind \<Rightarrow> string \<Rightarrow> uid \<Rightarrow> string \<Rightarrow> instant option
   \<Rightarrow> handed \<times> work_state \<Rightarrow> handed \<times> work_state" where
  "expect h n knd subjectType subject detail due x =
     (case x of (ha, st) \<Rightarrow>
        (ha\<lparr>ha_expectations := ha_expectations ha @ [next_id st]\<rparr>,
         issue (st\<lparr>wk_expectations := wk_expectations st @ [\<lparr>xe_id = next_id st, xe_tenant = pb_tenant (hd_publication h),
             xe_objective = ob_id (pb_objective (hd_publication h)), xe_objectiveVersion = ov_id (hd_published h),
             xe_node = pn_id n, xe_kind = knd, xe_subjectType = subjectType, xe_subject = subject, xe_detail = detail,
             xe_dueAt = due, xe_registeredBy = pb_actor (hd_publication h)\<rparr>]\<rparr>)))"

definition new_task :: "hand_out \<Rightarrow> uid \<Rightarrow> plan_node \<Rightarrow> instant option \<Rightarrow> task_row" where
  "new_task h i n due =
     \<lparr>ht_id = i, ht_tenant = pb_tenant (hd_publication h), ht_objective = ob_id (pb_objective (hd_publication h)),
      ht_objectiveVersion = ov_id (hd_published h), ht_node = pn_id n, ht_title = pn_label n,
      ht_assignee = (case pn_owner n of None \<Rightarrow> [] | Some u \<Rightarrow> u), ht_dependsOn = dd_dependencies (pn_dod n),
      ht_status = (if dependenciesSatisfied (dd_dependencies (pn_dod n)) [] (hd_planned h) then TaskAssigned else TaskWaiting),
      ht_version = 1, tk_dueAt = due, tk_expectedOutput = dd_expectedOutput (pn_dod n),
      tk_evidenceRequirement = dd_evidence (pn_dod n), tk_approvalKind = dd_approval (pn_dod n), tk_startedAt = None,
      tk_submittedAt = None, tk_completedAt = None, tk_blockedReason = None, tk_draft = pb_draft (hd_publication h),
      tk_assignedBy = pb_actor (hd_publication h), tk_inputDescription = inputDescriptionFor n (pb_graph (hd_publication h)),
      tk_triggerDescription = text_or (pn_trigger n)\<rparr>"

definition add_task :: "task_row \<Rightarrow> handed \<times> work_state \<Rightarrow> handed \<times> work_state" where
  "add_task t x =
     (case x of (ha, st) \<Rightarrow>
        (ha\<lparr>ha_tasks := ha_tasks ha @ [ht_id t],
            ha_startable := ha_startable ha @ (if ht_status t = TaskAssigned then [released_from t] else [])\<rparr>,
         issue (st\<lparr>wk_tasks := wk_tasks st @ [t]\<rparr>)))"

definition overdue_detail :: "plan_node \<Rightarrow> instant \<Rightarrow> string" where
  "overdue_detail n due = quoted (pn_label n) @ '' is due by '' @ toISOString due @ ''.''"

definition evidence_detail :: "plan_node \<Rightarrow> string" where
  "evidence_detail n = quoted (pn_label n) @ '' requires evidence: '' @ dd_evidence (pn_dod n)"

definition hand_out_human :: "hand_out \<Rightarrow> plan_node \<Rightarrow> handed \<times> work_state \<Rightarrow> work_error + (handed \<times> work_state)" where
  "hand_out_human h n x =
     bind_result (dueTimeFor (hd_now h) (fo_targetCompletionTime (ov_content (hd_published h)))
         (map_option time_unit_name (fo_timeUnit (ov_content (hd_published h))))) (\<lambda>due.
       let i = next_id (snd x); x1 = add_task (new_task h i n due) x;
           x2 = (case due of None \<Rightarrow> x1 | Some t \<Rightarrow> expect h n HumanTaskOverdue ''HumanTask'' i (overdue_detail n t) (Some t) x1)
       in Inr (if blank (dd_evidence (pn_dod n)) then x2
               else expect h n MissingCompletionEvidence ''HumanTask'' i (evidence_detail n) None x2))"

definition prefill_of :: "hand_out \<Rightarrow> plan_node \<Rightarrow> setup_prefill" where
  "prefill_of h n =
     \<lparr>sp_suggestedAgentName = pn_label n, sp_objectiveCode = ob_code (pb_objective (hd_publication h)),
      sp_objectiveName = fo_objectiveName (ov_content (hd_published h)), sp_assignedWork = pn_label n,
      sp_owner = (case pn_owner n of None \<Rightarrow> fo_owner (ov_content (hd_published h)) | Some u \<Rightarrow> u),
      sp_skillVersions = (case pn_skillVersion n of None \<Rightarrow> [] | Some s \<Rightarrow> [s]), sp_toolCategories = dd_tools (pn_dod n),
      sp_approvalRequired = (dd_approval (pn_dod n) \<noteq> None \<and> dd_approval (pn_dod n) \<noteq> Some ''NotRequired''),
      sp_completionEvidence = dd_evidence (pn_dod n)\<rparr>"

text \<open>The agent set up for this step of the objective before, if it is still active.\<close>

definition reusable_agent :: "hand_out \<Rightarrow> plan_node \<Rightarrow> work_state \<Rightarrow> (uid \<times> string) option" where
  "reusable_agent h n st =
     (case sort_key (\<lambda>a. - aw_createdAt a) (filter (\<lambda>a. aw_tenant a = pb_tenant (hd_publication h)
         \<and> aw_objective a = Some (ob_id (pb_objective (hd_publication h))) \<and> aw_node a = Some (pn_id n)
         \<and> aw_title a = pn_label n \<and> aw_status a = MappedToEngineAgent
         \<and> Option.bind (aw_agent a) (hd_agents h) \<noteq> None) (wk_assignments st)) of
        [] \<Rightarrow> None
      | a # _ \<Rightarrow> (case aw_agent a of None \<Rightarrow> None | Some g \<Rightarrow> map_option (\<lambda>name. (g, name)) (hd_agents h g)))"

definition new_assignment :: "hand_out \<Rightarrow> uid \<Rightarrow> plan_node \<Rightarrow> (uid \<times> string) option \<Rightarrow> assigned_work" where
  "new_assignment h i n reuse =
     \<lparr>aw_id = i, aw_tenant = pb_tenant (hd_publication h), aw_agent = map_option fst reuse,
      aw_objective = Some (ob_id (pb_objective (hd_publication h))), aw_objectiveVersion = Some (ov_id (hd_published h)),
      aw_node = Some (pn_id n), aw_status = (if reuse = None then AwaitingAgentSetup else MappedToEngineAgent),
      aw_createdAt = hd_now h, aw_draft = pb_draft (hd_publication h), aw_title = pn_label n, aw_prefill = prefill_of h n,
      aw_assignedBy = pb_actor (hd_publication h)\<rparr>"

definition add_assignment :: "plan_node \<Rightarrow> (uid \<times> string) option \<Rightarrow> assigned_work \<Rightarrow> handed \<times> work_state \<Rightarrow> handed \<times> work_state" where
  "add_assignment n reuse a x =
     (case x of (ha, st) \<Rightarrow>
        (ha\<lparr>ha_assignments := ha_assignments ha @ [aw_id a],
            ha_awaiting := ha_awaiting ha @ (if reuse = None then [pn_id n] else []),
            ha_reused := ha_reused ha @ (case reuse of None \<Rightarrow> [] | Some (g, name) \<Rightarrow> [(pn_id n, name)])\<rparr>,
         issue (st\<lparr>wk_assignments := wk_assignments st @ [a]\<rparr>)))"

definition connection_detail :: "plan_node \<Rightarrow> string \<Rightarrow> string" where
  "connection_detail n c = quoted (pn_label n) @ '' needs a live '' @ quoted c @ '' connection to run.''"

definition hand_out_ai :: "hand_out \<Rightarrow> plan_node \<Rightarrow> handed \<times> work_state \<Rightarrow> handed \<times> work_state" where
  "hand_out_ai h n x =
     (let i = next_id (snd x); reuse = reusable_agent h n (snd x);
          x1 = add_assignment n reuse (new_assignment h i n reuse) x
      in case dd_tools (pn_dod n) of
           [] \<Rightarrow> x1
         | c # _ \<Rightarrow> expect h n ConnectionRequired ''AiWorkAssignment'' i (connection_detail n c) None x1)"

definition gate_detail :: "hand_out \<Rightarrow> plan_node \<Rightarrow> string" where
  "gate_detail h n =
     ''Approval gate in '' @ ob_code (pb_objective (hd_publication h)) @ '' V'' @ show_nat (ov_number (hd_published h)) @ ''. ''
     @ (if blank (dd_expectedOutput (pn_dod n)) then ''The plan records no expected output for this gate.''
        else ''Expected output: '' @ dd_expectedOutput (pn_dod n))"

definition gate_request :: "hand_out \<Rightarrow> uid \<Rightarrow> plan_node \<Rightarrow> approval_request" where
  "gate_request h i n =
     \<lparr>sa_tenant = pb_tenant (hd_publication h), sa_objectiveVersion = Some (ov_id (hd_published h)), sa_node = Some (pn_id n),
      sa_status = RequestPending, aq_id = i, aq_type = WorkflowStepApproval, aq_title = pn_label n, aq_detail = gate_detail h n,
      aq_subjectType = ''ObjectiveWorkflowNode'', aq_subject = None, aq_objective = Some (ob_id (pb_objective (hd_publication h))),
      aq_changeKind = None, aq_requestedBy = pb_actor (hd_publication h), aq_named = pn_owner n,
      aq_roleKind = (if pn_approvalKind n = Some ''NotRequired'' then None else pn_approvalKind n), aq_due = None,
      aq_decidedBy = None, aq_decidedOnBehalf = None, aq_decidedAt = None, aq_note = None, aq_supersedes = None,
      aq_escalatedAt = None, aq_escalatedTo = None, aq_createdAt = hd_now h, aq_version = 1\<rparr>"

definition add_gate :: "plan_node \<Rightarrow> approval_request \<Rightarrow> handed \<times> work_state \<Rightarrow> handed \<times> work_state" where
  "add_gate n r x =
     (case x of (ha, st) \<Rightarrow>
        (ha\<lparr>ha_approvals := ha_approvals ha @ [aq_id r],
            ha_approvers := ha_approvers ha @ (case pn_owner n of None \<Rightarrow> [] | Some u \<Rightarrow> [(u, aq_id r, pn_label n)])\<rparr>,
         add_request r st))"

definition waiting_detail :: "plan_node \<Rightarrow> string" where
  "waiting_detail n = quoted (pn_label n) @ '' is waiting on an approval decision.''"

definition hand_out_gate :: "hand_out \<Rightarrow> plan_node \<Rightarrow> handed \<times> work_state \<Rightarrow> handed \<times> work_state" where
  "hand_out_gate h n x =
     (let i = next_id (snd x)
      in expect h n ApprovalPending ''ApprovalRequest'' i (waiting_detail n) None (add_gate n (gate_request h i n) x))"

definition hand_out_node :: "hand_out \<Rightarrow> plan_node \<Rightarrow> handed \<times> work_state \<Rightarrow> work_error + (handed \<times> work_state)" where
  "hand_out_node h n x =
     (case pn_kind n of
        HumanNode \<Rightarrow> hand_out_human h n x
      | AiNode \<Rightarrow> Inr (hand_out_ai h n x)
      | ApprovalNode \<Rightarrow> Inr (hand_out_gate h n x)
      | _ \<Rightarrow> Inr x)"

fun hand_out_all :: "hand_out \<Rightarrow> plan_node list \<Rightarrow> handed \<times> work_state \<Rightarrow> work_error + (handed \<times> work_state)" where
  "hand_out_all h [] x = Inr x"
| "hand_out_all h (n # ns) x = bind_result (hand_out_node h n x) (hand_out_all h ns)"

section \<open>The transaction\<close>

definition planned_steps :: "workflow_plan \<Rightarrow> uid list" where
  "planned_steps p = map pn_id (filter (\<lambda>n. pn_kind n \<in> {HumanNode, AiNode, ApprovalNode}) (wp_nodes p))"

definition mark_assigned :: "uid \<Rightarrow> instant \<Rightarrow> draft_row \<Rightarrow> draft_row" where
  "mark_assigned actor now d = d\<lparr>wd_assignedAt := Some now, wd_assignedBy := Some actor, wd_revision := Suc (wd_revision d),
     wd_version := Suc (wd_version d)\<rparr>"

definition assigned_audit :: "publication \<Rightarrow> version_row \<Rightarrow> uid option \<Rightarrow> handed \<Rightarrow> AuditEventInput" where
  "assigned_audit k v superseded ha =
     audit_of ''objective.approved_and_assigned'' ''objective'' (ob_id (pb_objective k)) (Some (pb_actor k))
       (Some (ob_code (pb_objective k) @ '' V'' @ show_nat (ov_number v))) (Some (ov_version v))
       (''Assigned V'' @ show_nat (ov_number v) @ '': '' @ show_nat (length (ha_tasks ha)) @ '' human task(s), ''
        @ show_nat (length (ha_assignments ha)) @ '' AI assignment(s), '' @ show_nat (length (ha_approvals ha))
        @ '' approval(s). The version is now live and the workflow is frozen.'')
       [(''versionId'', JString (ov_id v)), (''versionNumber'', JNumber (int (ov_number v))),
        (''workflowDraftId'', JString (pb_draft k)), (''humanTaskCount'', JNumber (int (length (ha_tasks ha)))),
        (''aiAssignmentCount'', JNumber (int (length (ha_assignments ha)))),
        (''approvalRequestCount'', JNumber (int (length (ha_approvals ha)))),
        (''executorExpectationCount'', JNumber (int (length (ha_expectations ha)))),
        (''supersededVersionId'', jtext superseded), (''nodesAwaitingAgentSetup'', JString (join '', '' (ha_awaiting ha))),
        (''budgetCheck'', JString (pb_budgetNote k)), (''warningsAccepted'', JBool (pb_acceptWarnings k))]"

text \<open>What may stop the transaction when it looks again.\<close>

definition still_assignable :: "publication \<Rightarrow> draft_row \<Rightarrow> version_row \<Rightarrow> work_error + unit" where
  "still_assignable k d v =
     bind_result (check_that (wd_assignedAt d = None) (InWorkflow WorkflowAssigned)) (\<lambda>_.
     bind_result (check_that (ov_approvedAt v \<noteq> None \<or> pb_mayRelease k) (InWorkflow ApprovalMissing)) (\<lambda>_.
       check_that (ov_status v \<noteq> ObjectiveActive) (InWorkflow VersionIsLive)))"

definition hand_out_of :: "work_env \<Rightarrow> instant \<Rightarrow> publication \<Rightarrow> version_row \<Rightarrow> hand_out" where
  "hand_out_of env now k v =
     \<lparr>hd_publication = k, hd_published = publish_version (pb_actor k) now v, hd_planned = planned_steps (pb_graph k),
      hd_now = now, hd_agents = we_activeAgent env\<rparr>"

definition assign_commit ::
  "work_env \<Rightarrow> instant \<Rightarrow> publication \<Rightarrow> work_state \<Rightarrow> work_error + (handed \<times> work_state)" where
  "assign_commit env now k st =
     bind_result (orthrow (InWorkflow NoWorkflowDraft) (List.find (\<lambda>d. wd_tenant d = pb_tenant k \<and> wd_id d = pb_draft k) (wk_drafts st))) (\<lambda>d.
     bind_result (load_version (pb_tenant k) (pb_objectiveVersion k) st) (\<lambda>v.
     bind_result (still_assignable k d v) (\<lambda>_.
     bind_result (hand_out_all (hand_out_of env now k v) (wp_nodes (pb_graph k)) (nothing_handed, go_live k now v st)) (\<lambda>(ha, st').
       Inr (ha, append_audit (pb_tenant k)
              (assigned_audit k (publish_version (pb_actor k) now v)
                 (map_option ov_id (active_version (pb_tenant k) (ob_id (pb_objective k)) st)) ha)
              (write_draft (wd_id d) (mark_assigned (pb_actor k) now) st'))))))"

section \<open>Telling\<close>

definition gate_notice :: "publication \<Rightarrow> nat \<Rightarrow> uid \<times> uid \<times> string \<Rightarrow> notice" where
  "gate_notice k number x =
     (case x of (u, i, title) \<Rightarrow>
        \<lparr>no_tenant = pb_tenant k, no_recipient = u, no_kind = ''ApprovalWaiting'', no_severity = None,
         no_title = ''Approval needed: '' @ title,
         no_body = ob_code (pb_objective k) @ '' V'' @ show_nat number @ '' was assigned and this step is waiting on your decision.'',
         no_deepLink = ''/approvals/'' @ i, no_resourceType = ''approval_request'', no_resourceId = i,
         no_assignedToRecipient = Some True, no_dedupeKey = ''approval-request:'' @ i, no_escalatesAt = None, no_occurredAt = None\<rparr>)"

definition tell_assigned :: "work_env \<Rightarrow> publication \<Rightarrow> nat \<Rightarrow> handed \<Rightarrow> work_state \<Rightarrow> work_state" where
  "tell_assigned env k number ha st =
     (let st1 = foldl (\<lambda>s x. raise_notice (gate_notice k number x) s) st (ha_approvers ha)
      in st1\<lparr>wk_told := wk_told st1 @ announceAssigned (we_raises env) (pb_tenant k) (ha_startable ha)\<rparr>)"

definition version_number :: "publication \<Rightarrow> work_state \<Rightarrow> nat" where
  "version_number k st = (case load_version (pb_tenant k) (pb_objectiveVersion k) st of Inl e \<Rightarrow> 0 | Inr v \<Rightarrow> ov_number v)"

definition assign_finish :: "work_env \<Rightarrow> instant \<Rightarrow> publication \<Rightarrow> work_state \<Rightarrow> work_error + (handed \<times> work_state)" where
  "assign_finish env now k st =
     map_sum id (\<lambda>(ha, st'). (ha, tell_assigned env k (version_number k st) ha st')) (assign_commit env now k st)"

definition approveAndAssign ::
  "work_env \<Rightarrow> uid \<Rightarrow> uid \<Rightarrow> instant \<Rightarrow> uid \<Rightarrow> uid option \<Rightarrow> bool \<Rightarrow> work_state \<Rightarrow> work_error + (handed \<times> work_state)" where
  "approveAndAssign env tenant actor now i version acceptWarnings st =
     bind_result (assign_load env tenant actor now i version acceptWarnings st) (\<lambda>k. assign_finish env now k st)"

end
