(* ===== verification/Objective_Service.thy ===== *)
theory Objective_Service
  imports Assignment_Service Approval_Service
begin

text \<open>
  \<open>src/apps/api/src/objectives/objective.service.ts\<close>: an objective and its versions, from the first draft
  to the one that is live, the copies that later edits and rollbacks start from, and the reward
  recorded beside them.  The date on the form and the deadline of a reward are the text that was
  sent, since storing and reading them gives it back.
\<close>

section \<open>Loading\<close>

record loaded_objective =
  lo_objective :: objective_row
  lo_versions :: "version_row list"
  lo_reward :: "reward_row option"

definition grid_of :: "version_row \<Rightarrow> version_row" where
  "grid_of v = v\<lparr>ov_steps := sort_key fs_position (ov_steps v)\<rparr>"

definition load_everything :: "uid \<Rightarrow> uid \<Rightarrow> work_state \<Rightarrow> work_error + loaded_objective" where
  "load_everything tenant i st =
     map_sum id (\<lambda>o'. \<lparr>lo_objective = o', lo_versions = map grid_of (versions_of o' st),
         lo_reward = List.find (\<lambda>r. rw_tenant r = tenant \<and> rw_objective r = i) (wk_rewards st)\<rparr>)
       (load_objective tenant i st)"

section \<open>What a screen shows\<close>

definition reviewStageOf :: "version_row \<Rightarrow> string" where
  "reviewStageOf v =
     (if ov_status v = ObjectiveReadyForApproval
      then (if ov_approvedAt v = None then ''Awaiting approval'' else ''Approved - awaiting publish'')
      else if ov_status v = ObjectiveDraft \<and> ov_sentBackAt v \<noteq> None then ''Sent back for changes''
      else if ov_status v = ObjectiveUnderReview
      then (if ov_teamConfirmedAt v = None then ''Under review'' else ''Under review - execution team confirmed'')
      else OBJECTIVE_STATUS_LABELS (ov_status v))"

record version_view =
  vv_row :: version_row
  vv_statusLabel :: string
  vv_contentFrozen :: bool
  vv_workAssignable :: bool
  vv_reviewStage :: string
  vv_nextStatuses :: "ObjectiveStatus list"

definition versionViewOf :: "version_row \<Rightarrow> version_view" where
  "versionViewOf v =
     \<lparr>vv_row = v, vv_statusLabel = OBJECTIVE_STATUS_LABELS (ov_status v),
      vv_contentFrozen = (\<not> isObjectiveDraftEditable (ov_status v)), vv_workAssignable = isObjectiveWorkAssignable (ov_status v),
      vv_reviewStage = reviewStageOf v, vv_nextStatuses = ALLOWED_OBJECTIVE_TRANSITIONS (ov_status v)\<rparr>"

record objective_view =
  oy_objective :: objective_row
  oy_active :: "version_view option"
  oy_openDraft :: "version_view option"
  oy_versions :: "version_view list"
  oy_reward :: "reward_row option"

definition objective_viewOf :: "loaded_objective \<Rightarrow> objective_view" where
  "objective_viewOf l =
     (let views = map versionViewOf (lo_versions l)
      in \<lparr>oy_objective = lo_objective l, oy_active = List.find (\<lambda>w. ov_status (vv_row w) = ObjectiveActive) views,
          oy_openDraft = List.find (\<lambda>w. isObjectiveDraftEditable (ov_status (vv_row w))) views,
          oy_versions = views, oy_reward = lo_reward l\<rparr>)"

section \<open>The shape of an operation\<close>

text \<open>
  Every change of an objective loads it in its transaction, asks for the permission on it, does its
  work and answers with what the objective looks like afterwards.
\<close>

definition shown_after :: "uid \<Rightarrow> uid \<Rightarrow> work_state \<Rightarrow> work_error + (objective_view \<times> work_state)" where
  "shown_after tenant i st = map_sum id (\<lambda>l. (objective_viewOf l, st)) (load_everything tenant i st)"

definition in_objective ::
  "work_env \<Rightarrow> uid \<Rightarrow> uid \<Rightarrow> instant \<Rightarrow> Action \<Rightarrow> uid \<Rightarrow> (loaded_objective \<Rightarrow> work_error + work_state) \<Rightarrow> work_state
   \<Rightarrow> work_error + (objective_view \<times> work_state)" where
  "in_objective env tenant actor now action i body st =
     bind_result (load_everything tenant i st) (\<lambda>l.
     bind_result (assertOnObjective env (context_of env tenant actor now) (lo_objective l) action) (\<lambda>_.
     bind_result (body l) (shown_after tenant i)))"

definition on_objective ::
  "work_env \<Rightarrow> uid \<Rightarrow> uid \<Rightarrow> instant \<Rightarrow> Action \<Rightarrow> uid \<Rightarrow> (loaded_objective \<Rightarrow> work_error + work_state) \<Rightarrow> work_state
   \<Rightarrow> work_error + (objective_view \<times> work_state)" where
  "on_objective env tenant actor now action i body st =
     bind_result (permit env (context_of env tenant actor now) ''objective'' action None []) (\<lambda>_.
       in_objective env tenant actor now action i body st)"

definition read_objective :: "work_env \<Rightarrow> uid \<Rightarrow> uid \<Rightarrow> instant \<Rightarrow> uid \<Rightarrow> work_state \<Rightarrow> work_error + loaded_objective" where
  "read_objective env tenant actor now i st =
     (let cx = context_of env tenant actor now in
      bind_result (permit env cx ''objective'' ActView None []) (\<lambda>_.
      bind_result (load_everything tenant i st) (\<lambda>l.
        map_sum id (\<lambda>_. l) (assertOnObjective env cx (lo_objective l) ActView))))"

definition version_audit ::
  "string \<Rightarrow> uid \<Rightarrow> objective_row \<Rightarrow> version_row \<Rightarrow> string \<Rightarrow> TrailMetadata \<Rightarrow> AuditEventInput" where
  "version_audit action actor o' v summary metadata =
     audit_of action ''objective'' (ob_id o') (Some actor) (Some (ob_code o' @ '' V'' @ show_nat (ov_number v)))
       (Some (ov_version v)) summary metadata"

definition v_name :: "version_row \<Rightarrow> string" where
  "v_name v = ''V'' @ show_nat (ov_number v)"

section \<open>Departments, owners and codes\<close>

definition assertDepartmentIsOpen :: "work_env \<Rightarrow> uid \<Rightarrow> work_error + unit" where
  "assertDepartmentIsOpen env i =
     bind_result (orthrow (InObjective NoSuchDepartment) (we_departments env i)) (\<lambda>d.
       check_that (\<not> dp_archived d) (InObjective DepartmentArchived))"

datatype hierarchy_note = SamePerson | NotEvaluated | ReviewerAbove | ReviewerBelow

definition checkResponsibleOwner :: "work_env \<Rightarrow> uid \<Rightarrow> uid \<Rightarrow> work_error + hierarchy_note" where
  "checkResponsibleOwner env owner responsible =
     (if we_account env responsible \<noteq> Some ''Active'' then Inl (InObjective OwnerNotMember)
      else if responsible = owner then Inr SamePerson
      else if we_employment env owner = None \<or> we_employment env responsible = None then Inr NotEvaluated
      else if we_inSubtree env responsible owner then Inr ReviewerAbove
      else if we_inSubtree env owner responsible then Inr ReviewerBelow
      else Inl (InObjective OwnerNotInLine))"

definition eligibleResponsibleOwners :: "work_env \<Rightarrow> uid list \<Rightarrow> uid \<Rightarrow> uid list" where
  "eligibleResponsibleOwners env people owner =
     filter (\<lambda>u. case checkResponsibleOwner env owner u of Inl e \<Rightarrow> False | Inr n \<Rightarrow> True) people"

definition check_routing :: "work_env \<Rightarrow> form2_objective \<Rightarrow> work_error + unit" where
  "check_routing env c =
     (case fo_responsibleOwner c of
        None \<Rightarrow> Inr ()
      | Some u \<Rightarrow> map_sum id (\<lambda>_. ()) (checkResponsibleOwner env (fo_owner c) u))"

definition upper_char :: "char \<Rightarrow> char" where
  "upper_char c = (let n = (of_char c :: nat) in if 97 \<le> n \<and> n \<le> 122 then char_of (n - 32) else c)"

definition is_alnum :: "char \<Rightarrow> bool" where
  "is_alnum c \<longleftrightarrow> (let n = (of_char c :: nat) in (48 \<le> n \<and> n \<le> 57) \<or> (65 \<le> n \<and> n \<le> 90) \<or> (97 \<le> n \<and> n \<le> 122))"

definition code_stem :: "department_row option \<Rightarrow> string" where
  "code_stem d =
     (let source = (case d of None \<Rightarrow> ''OBJ'' | Some r \<Rightarrow> (case dp_code r of Some c \<Rightarrow> c | None \<Rightarrow> dp_name r));
          stem = map upper_char (take 3 (filter is_alnum source))
      in stem @ replicate (3 - length stem) (CHR ''X''))"

text \<open>\<open>parseInt(_, 10)\<close>, exact where the code has doubles: a number beyond 2 to the 53 is rounded there.\<close>

definition digit_of :: "char \<Rightarrow> nat option" where
  "digit_of c = (let n = (of_char c :: nat) in if 48 \<le> n \<and> n \<le> 57 then Some (n - 48) else None)"

fun leading_digits :: "string \<Rightarrow> nat list" where
  "leading_digits [] = []"
| "leading_digits (c # s) = (case digit_of c of None \<Rightarrow> [] | Some d \<Rightarrow> d # leading_digits s)"

definition parse_natural :: "string \<Rightarrow> nat option" where
  "parse_natural s = (if leading_digits s = [] then None else Some (foldl (\<lambda>n d. 10 * n + d) 0 (leading_digits s)))"

definition parseInt :: "string \<Rightarrow> int option" where
  "parseInt s =
     (case dropWhile is_space s of
        [] \<Rightarrow> None
      | c # t \<Rightarrow> if c = CHR ''-'' then map_option (\<lambda>n. - int n) (parse_natural t)
                 else if c = CHR ''+'' then map_option int (parse_natural t) else map_option int (parse_natural (c # t)))"

definition code_prefix :: "department_row option \<Rightarrow> instant \<Rightarrow> string" where
  "code_prefix d now = code_stem d @ ''-'' @ show_int (getUTCFullYear now) @ ''-''"

definition highest_code :: "string \<Rightarrow> string list \<Rightarrow> int" where
  "highest_code lead codes =
     foldl (\<lambda>best c. case parseInt (drop (length lead) c) of None \<Rightarrow> best | Some n \<Rightarrow> max best n) 0
       (filter (\<lambda>c. take (length lead) c = lead) codes)"

definition nextCode :: "work_env \<Rightarrow> uid \<Rightarrow> uid \<Rightarrow> instant \<Rightarrow> work_state \<Rightarrow> string" where
  "nextCode env tenant department now st =
     (let lead = code_prefix (we_departments env department) now
      in lead @ pad 3 (nat (highest_code lead (map ob_code (filter (\<lambda>o'. ob_tenant o' = tenant) (wk_objectives st))) + 1)))"

section \<open>Creating\<close>

definition form_problems :: "form2_objective \<Rightarrow> form2_step list \<Rightarrow> work_error + unit" where
  "form_problems c steps =
     (let problems = validateForm2Objective c @ validateForm2WorkflowSteps steps
      in check_that (problems = []) (InObjective (FormProblems problems)))"

definition created_resource :: "uid \<Rightarrow> form2_objective \<Rightarrow> resource" where
  "created_resource actor c = \<lparr>re_id = fo_department c, ownerUserId = Some (fo_owner c), createdByUserId = Some actor,
     re_departmentId = Some (fo_department c), priorActorUserIds = None\<rparr>"

definition new_objective :: "uid \<Rightarrow> uid \<Rightarrow> uid \<Rightarrow> string \<Rightarrow> form2_objective \<Rightarrow> objective_row" where
  "new_objective i tenant actor code c =
     \<lparr>ob_id = i, ob_tenant = tenant, ob_code = code, ob_department = fo_department c, ob_owner = fo_owner c,
      ob_createdBy = Some actor, ob_activeVersion = None, ob_version = 1\<rparr>"

definition new_version ::
  "uid \<Rightarrow> uid \<Rightarrow> uid \<Rightarrow> instant \<Rightarrow> uid \<Rightarrow> nat \<Rightarrow> VersionOrigin \<Rightarrow> uid option \<Rightarrow> form2_objective \<Rightarrow> form2_step list \<Rightarrow> version_row" where
  "new_version i tenant actor now objective number origin copied c steps =
     \<lparr>ov_id = i, ov_tenant = tenant, ov_objective = objective, ov_number = number, ov_status = ObjectiveDraft, ov_content = c,
      ov_steps = steps, ov_origin = origin, ov_copiedFrom = copied, ov_submittedAt = None, ov_submittedBy = None,
      ov_teamConfirmedAt = None, ov_teamConfirmedBy = None, ov_approvedAt = None, ov_approvedBy = None, ov_publishedAt = None,
      ov_sentBackAt = None, ov_sentBackBy = None, ov_sentBackReason = None, ov_createdBy = actor, ov_createdAt = now,
      ov_version = 1\<rparr>"

definition add_version :: "version_row \<Rightarrow> work_state \<Rightarrow> work_state" where
  "add_version v st = issue (st\<lparr>wk_versions := wk_versions st @ [v]\<rparr>)"

definition add_objective :: "objective_row \<Rightarrow> work_state \<Rightarrow> work_state" where
  "add_objective o' st = issue (st\<lparr>wk_objectives := wk_objectives st @ [o']\<rparr>)"

definition created_audit :: "uid \<Rightarrow> objective_row \<Rightarrow> form2_objective \<Rightarrow> nat \<Rightarrow> AuditEventInput" where
  "created_audit actor o' c steps =
     audit_of ''objective.created'' ''objective'' (ob_id o') (Some actor) (Some (ob_code o')) None
       (''Created the objective '' @ quoted (fo_objectiveName c) @ '' as a draft.'')
       [(''code'', JString (ob_code o')), (''departmentId'', JString (fo_department c)),
        (''objectiveOwnerUserId'', JString (fo_owner c)), (''versionNumber'', JNumber 1), (''stepCount'', JNumber (int steps))]"

definition store_objective ::
  "uid \<Rightarrow> uid \<Rightarrow> instant \<Rightarrow> string \<Rightarrow> form2_objective \<Rightarrow> form2_step list \<Rightarrow> work_state \<Rightarrow> uid \<times> work_state" where
  "store_objective tenant actor now code c steps st =
     (let o' = new_objective (next_id st) tenant actor code c; st1 = add_objective o' st;
          v = new_version (next_id st1) tenant actor now (ob_id o') 1 InitialOrigin None c steps
      in (ob_id o', append_audit tenant (created_audit actor o' c (length steps)) (add_version v st1)))"

definition create_objective ::
  "work_env \<Rightarrow> uid \<Rightarrow> uid \<Rightarrow> instant \<Rightarrow> string option \<Rightarrow> form2_objective \<Rightarrow> form2_step list \<Rightarrow> work_state
   \<Rightarrow> work_error + (objective_view \<times> work_state)" where
  "create_objective env tenant actor now given_code c steps st =
     bind_result (form_problems c steps) (\<lambda>_.
     bind_result (permit env (context_of env tenant actor now) ''objective'' ActCreate (Some (created_resource actor c)) []) (\<lambda>_.
     bind_result (assertDepartmentIsOpen env (fo_department c)) (\<lambda>_.
     bind_result (check_routing env c) (\<lambda>_.
       let code = (case given_code of Some k \<Rightarrow> k | None \<Rightarrow> nextCode env tenant (fo_department c) now st)
       in if list_ex (\<lambda>o'. ob_tenant o' = tenant \<and> ob_code o' = code) (wk_objectives st) then Inl (InObjective (CodeTaken code))
          else (let (i, st') = store_objective tenant actor now code c steps st in shown_after tenant i st')))))"

section \<open>Which version\<close>

definition named_one :: "uid \<Rightarrow> version_row list \<Rightarrow> work_error + version_row" where
  "named_one i versions = orthrow NoSuchVersion (List.find (\<lambda>v. ov_id v = i) versions)"

definition only_one :: "version_row list \<Rightarrow> objective_error \<Rightarrow> objective_error \<Rightarrow> work_error + version_row" where
  "only_one versions none several =
     (case versions of [] \<Rightarrow> Inl (InObjective none) | [v] \<Rightarrow> Inr v | _ \<Rightarrow> Inl (InObjective several))"

definition editableVersion :: "version_row list \<Rightarrow> uid option \<Rightarrow> work_error + version_row" where
  "editableVersion versions version =
     (case version of
        Some i \<Rightarrow> bind_result (named_one i versions) (\<lambda>v.
          if isObjectiveDraftEditable (ov_status v) then Inr v else Inl (InObjective (VersionNotEditable (ov_status v))))
      | None \<Rightarrow> only_one (filter (\<lambda>v. isObjectiveDraftEditable (ov_status v)) versions) NoEditableDraft SeveralDrafts)"

definition reviewable :: "bool \<Rightarrow> version_row \<Rightarrow> bool" where
  "reviewable ready v \<longleftrightarrow> ov_status v = ObjectiveUnderReview \<or> ov_status v = ObjectiveWorkflowDraft
     \<or> (ready \<and> ov_status v = ObjectiveReadyForApproval)"

definition reviewableVersion :: "version_row list \<Rightarrow> uid option \<Rightarrow> bool \<Rightarrow> work_error + version_row" where
  "reviewableVersion versions version ready =
     (case version of
        Some i \<Rightarrow> bind_result (named_one i versions) (\<lambda>v.
          if reviewable ready v then Inr v else Inl (InObjective (VersionNotReviewable (ov_status v))))
      | None \<Rightarrow> only_one (filter (reviewable ready) versions) NothingUnderReview SeveralUnderReview)"

definition namedVersion :: "version_row list \<Rightarrow> uid option \<Rightarrow> ObjectiveStatus \<Rightarrow> work_error + version_row" where
  "namedVersion versions version expected =
     (case version of
        Some i \<Rightarrow> bind_result (named_one i versions) (\<lambda>v.
          if ov_status v = expected then Inr v else Inl (InObjective (VersionStatusIs (ov_status v) expected)))
      | None \<Rightarrow> only_one (filter (\<lambda>v. ov_status v = expected) versions) (NoVersionInStatus expected) SeveralInStatus)"

definition assertIsResponsibleOwner :: "version_row \<Rightarrow> uid \<Rightarrow> work_error + unit" where
  "assertIsResponsibleOwner v actor =
     (case fo_responsibleOwner (ov_content v) of
        None \<Rightarrow> Inl (InObjective NobodyReviews)
      | Some u \<Rightarrow> check_that (u = actor) (InObjective NotTheReviewer))"

definition assert_transition :: "version_row \<Rightarrow> ObjectiveStatus \<Rightarrow> work_error + unit" where
  "assert_transition v target =
     check_that (mayTransitionObjective (ov_status v) target) (InObjective (TransitionRefused (ov_status v) target))"

section \<open>Copying into a new draft\<close>

definition copied_audit :: "uid \<Rightarrow> objective_row \<Rightarrow> version_row \<Rightarrow> version_row \<Rightarrow> string option \<Rightarrow> AuditEventInput" where
  "copied_audit actor o' v source reason =
     (audit_of (if ov_origin v = RollbackOrigin then ''objective.rolled_back'' else ''objective.new_draft_opened'') ''objective''
        (ob_id o') (Some actor) (Some (ob_code o' @ '' V'' @ show_nat (ov_number v))) None
        (if ov_origin v = RollbackOrigin
         then ''Rolled back to '' @ v_name source @ '' by opening '' @ v_name v @ '' as a '' @ ''draft copied from it. The live version keeps running until this one is approved and '' @ ''published.''
         else ''Opened '' @ v_name v @ '' as a draft copied from '' @ v_name source @ ''. ''
           @ ''The live version keeps running until this one is approved and published.'')
        [(''versionId'', JString (ov_id v)), (''versionNumber'', JNumber (int (ov_number v))),
         (''copiedFromVersionId'', JString (ov_id source)), (''copiedFromVersionNumber'', JNumber (int (ov_number source))),
         (''origin'', JString (if ov_origin v = RollbackOrigin then ''Rollback'' else ''Edit'')),
         (''stepCount'', JNumber (int (length (ov_steps source))))])\<lparr>ai_reason := reason\<rparr>"

definition copy_source :: "version_row list \<Rightarrow> uid option \<Rightarrow> version_row option" where
  "copy_source versions source =
     (case source of
        Some i \<Rightarrow> List.find (\<lambda>v. ov_id v = i) versions
      | None \<Rightarrow> (case List.find (\<lambda>v. ov_status v = ObjectiveActive) versions of
            Some v \<Rightarrow> Some v
          | None \<Rightarrow> (case versions of [] \<Rightarrow> None | v # _ \<Rightarrow> Some v)))"

definition highest_number :: "version_row list \<Rightarrow> nat" where
  "highest_number versions = foldl (\<lambda>best v. max best (ov_number v)) 0 versions"

definition open_drafts :: "version_row list \<Rightarrow> version_row list" where
  "open_drafts versions = filter (\<lambda>v. isObjectiveDraftEditable (ov_status v)) versions"

definition copyIntoNewDraft ::
  "uid \<Rightarrow> uid \<Rightarrow> instant \<Rightarrow> objective_row \<Rightarrow> version_row list \<Rightarrow> uid option \<Rightarrow> VersionOrigin \<Rightarrow> string option \<Rightarrow> work_state
   \<Rightarrow> work_error + (uid \<times> work_state)" where
  "copyIntoNewDraft tenant actor now o' versions source origin reason st =
     (case open_drafts versions of
        d # _ \<Rightarrow> Inl (InObjective (DraftAlreadyOpen (ov_number d)))
      | [] \<Rightarrow> bind_result (orthrow (InObjective NothingToCopy) (copy_source versions source)) (\<lambda>s.
          let v = new_version (next_id st) tenant actor now (ob_id o') (Suc (highest_number versions)) origin (Some (ov_id s))
                    (ov_content s) (ov_steps s)
          in Inr (ov_id v, append_audit tenant (copied_audit actor o' v s reason) (add_version v st))))"

definition startNewDraft ::
  "work_env \<Rightarrow> uid \<Rightarrow> uid \<Rightarrow> instant \<Rightarrow> uid \<Rightarrow> uid option \<Rightarrow> VersionOrigin \<Rightarrow> work_state \<Rightarrow> work_error + (objective_view \<times> work_state)" where
  "startNewDraft env tenant actor now i source origin st =
     on_objective env tenant actor now ActEditDraft i
       (\<lambda>l. map_sum id snd (copyIntoNewDraft tenant actor now (lo_objective l) (lo_versions l) source origin None st)) st"

definition rollbackTo ::
  "work_env \<Rightarrow> uid \<Rightarrow> uid \<Rightarrow> instant \<Rightarrow> uid \<Rightarrow> uid \<Rightarrow> string \<Rightarrow> work_state \<Rightarrow> work_error + (objective_view \<times> work_state)" where
  "rollbackTo env tenant actor now i version reason st =
     bind_result (check_that (\<not> blank reason) (InObjective ReasonNeeded)) (\<lambda>_.
     on_objective env tenant actor now ActEditDraft i
       (\<lambda>l. bind_result (named_one version (lo_versions l)) (\<lambda>s.
          map_sum id snd (copyIntoNewDraft tenant actor now (lo_objective l) (lo_versions l) (Some (ov_id s)) RollbackOrigin
            (Some reason) st))) st)"

section \<open>Editing a draft\<close>

definition rewritten :: "form2_objective \<Rightarrow> form2_step list \<Rightarrow> version_row \<Rightarrow> version_row" where
  "rewritten c steps v = v\<lparr>ov_content := c, ov_steps := steps, ov_version := Suc (ov_version v)\<rparr>"

definition refile :: "form2_objective \<Rightarrow> objective_row \<Rightarrow> objective_row" where
  "refile c o' = o'\<lparr>ob_department := fo_department c, ob_owner := fo_owner c, ob_version := Suc (ob_version o')\<rparr>"

definition write_objective :: "uid \<Rightarrow> (objective_row \<Rightarrow> objective_row) \<Rightarrow> work_state \<Rightarrow> work_state" where
  "write_objective i f st = st\<lparr>wk_objectives := update_where (\<lambda>o'. ob_id o' = i) f (wk_objectives st)\<rparr>"

definition saved_audit :: "uid \<Rightarrow> objective_row \<Rightarrow> version_row \<Rightarrow> form2_objective \<Rightarrow> nat \<Rightarrow> AuditEventInput" where
  "saved_audit actor o' v c steps =
     version_audit ''objective.draft_saved'' actor o' v (''Saved draft '' @ v_name v @ '' of '' @ quoted (fo_objectiveName c) @ ''.'')
       [(''versionNumber'', JNumber (int (ov_number v))), (''stepCount'', JNumber (int steps))]"

definition awaiting_decision :: "version_row \<Rightarrow> bool" where
  "awaiting_decision v \<longleftrightarrow> ov_status v = ObjectiveUnderReview \<or> ov_status v = ObjectiveReadyForApproval"

text \<open>The version to edit: opened first when everything of the objective is live or finished.\<close>

definition draft_to_edit ::
  "uid \<Rightarrow> uid \<Rightarrow> instant \<Rightarrow> loaded_objective \<Rightarrow> uid option \<Rightarrow> work_state \<Rightarrow> work_error + (version_row \<times> work_state)" where
  "draft_to_edit tenant actor now l version st =
     (if open_drafts (lo_versions l) = [] \<and> \<not> list_ex awaiting_decision (lo_versions l) \<and> version = None
      then bind_result (copyIntoNewDraft tenant actor now (lo_objective l) (lo_versions l) None EditOrigin None st) (\<lambda>(i, st').
           bind_result (load_everything tenant (ob_id (lo_objective l)) st') (\<lambda>l'.
             map_sum id (\<lambda>v. (v, st')) (editableVersion (lo_versions l') (Some i))))
      else map_sum id (\<lambda>v. (v, st)) (editableVersion (lo_versions l) version))"

definition refile_unpublished :: "objective_row \<Rightarrow> form2_objective \<Rightarrow> work_state \<Rightarrow> work_state" where
  "refile_unpublished o' c st =
     (if ob_activeVersion o' = None \<and> (ob_department o' \<noteq> fo_department c \<or> ob_owner o' \<noteq> fo_owner c)
      then write_objective (ob_id o') (refile c) st else st)"

definition save_draft ::
  "uid \<Rightarrow> uid \<Rightarrow> objective_row \<Rightarrow> version_row \<Rightarrow> form2_objective \<Rightarrow> form2_step list \<Rightarrow> work_state \<Rightarrow> work_state" where
  "save_draft tenant actor o' v c steps st =
     append_audit tenant (saved_audit actor o' v c (length steps))
       (refile_unpublished o' c (write_version (ov_id v) (rewritten c steps) st))"

definition updateDraft ::
  "work_env \<Rightarrow> uid \<Rightarrow> uid \<Rightarrow> instant \<Rightarrow> uid \<Rightarrow> uid option \<Rightarrow> form2_objective \<Rightarrow> form2_step list \<Rightarrow> work_state
   \<Rightarrow> work_error + (objective_view \<times> work_state)" where
  "updateDraft env tenant actor now i version c steps st =
     bind_result (permit env (context_of env tenant actor now) ''objective'' ActEditDraft None []) (\<lambda>_.
     bind_result (form_problems c steps) (\<lambda>_.
     in_objective env tenant actor now ActEditDraft i
       (\<lambda>l. bind_result (draft_to_edit tenant actor now l version st) (\<lambda>(v, st').
            bind_result (assertDepartmentIsOpen env (fo_department c)) (\<lambda>_.
            bind_result (check_routing env c) (\<lambda>_.
              Inr (save_draft tenant actor (lo_objective l) v c steps st'))))) st))"

section \<open>Review\<close>

definition submitted_version :: "uid \<Rightarrow> instant \<Rightarrow> version_row \<Rightarrow> version_row" where
  "submitted_version actor now v = v\<lparr>ov_status := ObjectiveUnderReview, ov_submittedAt := Some now, ov_submittedBy := Some actor,
     ov_version := Suc (ov_version v)\<rparr>"

definition submitted_audit :: "uid \<Rightarrow> objective_row \<Rightarrow> version_row \<Rightarrow> AuditEventInput" where
  "submitted_audit actor o' v =
     version_audit ''objective.submitted_for_review'' actor o' v
       (''Submitted '' @ v_name v @ '' of '' @ quoted (fo_objectiveName (ov_content v)) @ '' for review.'')
       [(''versionNumber'', JNumber (int (ov_number v))), (''responsibleOwnerUserId'', jtext (fo_responsibleOwner (ov_content v))),
        (''stepCount'', JNumber (int (length (ov_steps v))))]"

definition review_request :: "uid \<Rightarrow> uid \<Rightarrow> objective_row \<Rightarrow> version_row \<Rightarrow> raise_input" where
  "review_request actor i o' v =
     \<lparr>ra_type = ObjectiveReview, ra_title = ''Review '' @ quoted (fo_objectiveName (ov_content v)),
      ra_detail = ob_code o' @ '' '' @ v_name v @ '' has been submitted for review. ''
        @ ''Approve it to let an administrator run the analysis, or send it back with what needs '' @ ''to change.'',
      ra_subjectType = ''ObjectiveVersion'', ra_subject = Some (ov_id v), ra_objective = Some i,
      ra_objectiveVersion = Some (ov_id v), ra_workflowNode = None, ra_requestedBy = actor, ra_named = None,
      ra_roleKind = Some ''Head'', ra_due = None, ra_supersedes = None, ra_byExecutor = False, ra_changeKind = None\<rparr>"

definition submit_version ::
  "uid \<Rightarrow> uid \<Rightarrow> instant \<Rightarrow> uid option \<Rightarrow> loaded_objective \<Rightarrow> work_state \<Rightarrow> work_error + (version_row \<times> work_state)" where
  "submit_version tenant actor now version l st =
     bind_result (editableVersion (lo_versions l) version) (\<lambda>v.
     bind_result (assert_transition v ObjectiveUnderReview) (\<lambda>_.
     bind_result (check_that (validateObjectiveForSubmission (ov_content v) (ov_steps v) = [])
         (InObjective (FormProblems (validateObjectiveForSubmission (ov_content v) (ov_steps v))))) (\<lambda>_.
       Inr (v, append_audit tenant (submitted_audit actor (lo_objective l) v)
                 (write_version (ov_id v) (submitted_version actor now) st)))))"

text \<open>
  Two transactions: the version is under review first, then the request is raised.  What the second
  one throws reaches the caller with the first one done, which is the state that is returned with it.
\<close>

definition submitForReview ::
  "work_env \<Rightarrow> uid \<Rightarrow> uid \<Rightarrow> instant \<Rightarrow> uid \<Rightarrow> uid option \<Rightarrow> work_state
   \<Rightarrow> work_error + ((work_error + objective_view) \<times> work_state)" where
  "submitForReview env tenant actor now i version st =
     (let cx = context_of env tenant actor now in
      bind_result (permit env cx ''objective'' ActEditDraft None []) (\<lambda>_.
      bind_result (load_everything tenant i st) (\<lambda>l.
      bind_result (assertOnObjective env cx (lo_objective l) ActEditDraft) (\<lambda>_.
      bind_result (submit_version tenant actor now version l st) (\<lambda>(v, st1).
      bind_result (shown_after tenant i st1) (\<lambda>(view, st2).
        (case raise_request env tenant now (review_request actor i (lo_objective l) v) st2 of
           Inl e \<Rightarrow> Inr (Inl e, st2)
         | Inr st3 \<Rightarrow> Inr (Inr view, st3))))))))"

definition team_confirmed :: "uid \<Rightarrow> instant \<Rightarrow> string option \<Rightarrow> version_row \<Rightarrow> version_row" where
  "team_confirmed actor now team v =
     v\<lparr>ov_teamConfirmedAt := Some now, ov_teamConfirmedBy := Some actor,
       ov_content := (case team of None \<Rightarrow> ov_content v | Some t \<Rightarrow> (ov_content v)\<lparr>fo_executionTeam := Some t\<rparr>),
       ov_version := Suc (ov_version v)\<rparr>"

definition team_audit :: "uid \<Rightarrow> objective_row \<Rightarrow> version_row \<Rightarrow> string option \<Rightarrow> AuditEventInput" where
  "team_audit actor o' v team =
     version_audit ''objective.execution_team_confirmed'' actor o' v (''Confirmed the execution team for '' @ v_name v @ ''.'')
       [(''versionId'', JString (ov_id v)), (''versionNumber'', JNumber (int (ov_number v))),
        (''executionTeam'', jtext (case team of Some t \<Rightarrow> Some t | None \<Rightarrow> fo_executionTeam (ov_content v)))]"

definition confirmExecutionTeam ::
  "work_env \<Rightarrow> uid \<Rightarrow> uid \<Rightarrow> instant \<Rightarrow> uid \<Rightarrow> uid option \<Rightarrow> string option \<Rightarrow> work_state \<Rightarrow> work_error + (objective_view \<times> work_state)" where
  "confirmExecutionTeam env tenant actor now i version team st =
     on_objective env tenant actor now ActAssign i
       (\<lambda>l. bind_result (reviewableVersion (lo_versions l) version False) (\<lambda>v.
            bind_result (assertIsResponsibleOwner v actor) (\<lambda>_.
              Inr (append_audit tenant (team_audit actor (lo_objective l) v team)
                     (write_version (ov_id v) (team_confirmed actor now team) st))))) st"

definition returned :: "uid \<Rightarrow> instant \<Rightarrow> string \<Rightarrow> version_row \<Rightarrow> version_row" where
  "returned actor now reason v =
     v\<lparr>ov_status := ObjectiveDraft, ov_sentBackAt := Some now, ov_sentBackBy := Some actor, ov_sentBackReason := Some reason,
       ov_approvedAt := None, ov_approvedBy := None, ov_version := Suc (ov_version v)\<rparr>"

definition returned_audit :: "uid \<Rightarrow> objective_row \<Rightarrow> version_row \<Rightarrow> string \<Rightarrow> AuditEventInput" where
  "returned_audit actor o' v reason =
     (version_audit ''objective.sent_back'' actor o' v (''Sent '' @ v_name v @ '' back for changes.'')
        [(''versionId'', JString (ov_id v)), (''versionNumber'', JNumber (int (ov_number v))),
         (''clearedApproval'', JBool (ov_approvedAt v \<noteq> None))])\<lparr>ai_reason := Some reason\<rparr>"

definition sendBack ::
  "work_env \<Rightarrow> uid \<Rightarrow> uid \<Rightarrow> instant \<Rightarrow> uid \<Rightarrow> uid option \<Rightarrow> string \<Rightarrow> work_state \<Rightarrow> work_error + (objective_view \<times> work_state)" where
  "sendBack env tenant actor now i version reason st =
     bind_result (check_that (\<not> blank reason) (InObjective ReasonNeeded)) (\<lambda>_.
     on_objective env tenant actor now ActApprove i
       (\<lambda>l. bind_result (reviewableVersion (lo_versions l) version True) (\<lambda>v.
            bind_result (assertIsResponsibleOwner v actor) (\<lambda>_.
            bind_result (assert_transition v ObjectiveDraft) (\<lambda>_.
              Inr (append_audit tenant (returned_audit actor (lo_objective l) v reason)
                     (write_version (ov_id v) (returned actor now reason) st)))))) st)"

definition with_status :: "ObjectiveStatus \<Rightarrow> version_row \<Rightarrow> version_row" where
  "with_status s v = v\<lparr>ov_status := s, ov_version := Suc (ov_version v)\<rparr>"

definition reviewed_audit :: "uid \<Rightarrow> objective_row \<Rightarrow> version_row \<Rightarrow> AuditEventInput" where
  "reviewed_audit actor o' v =
     version_audit ''objective.review_completed'' actor o' v (''Reviewed '' @ v_name v @ '' and sent it for approval.'')
       [(''versionId'', JString (ov_id v)), (''versionNumber'', JNumber (int (ov_number v)))]"

definition completeReview ::
  "work_env \<Rightarrow> uid \<Rightarrow> uid \<Rightarrow> instant \<Rightarrow> uid \<Rightarrow> uid option \<Rightarrow> work_state \<Rightarrow> work_error + (objective_view \<times> work_state)" where
  "completeReview env tenant actor now i version st =
     on_objective env tenant actor now ActAssign i
       (\<lambda>l. bind_result (reviewableVersion (lo_versions l) version False) (\<lambda>v.
            bind_result (assertIsResponsibleOwner v actor) (\<lambda>_.
            bind_result (check_that (ov_teamConfirmedAt v \<noteq> None) (InObjective TeamNotConfirmed)) (\<lambda>_.
            bind_result (assert_transition v ObjectiveReadyForApproval) (\<lambda>_.
              Inr (append_audit tenant (reviewed_audit actor (lo_objective l) v)
                     (write_version (ov_id v) (with_status ObjectiveReadyForApproval) st))))))) st"

section \<open>Approving and publishing\<close>

definition approved_audit :: "uid \<Rightarrow> objective_row \<Rightarrow> version_row \<Rightarrow> string option \<Rightarrow> AuditEventInput" where
  "approved_audit actor o' v reason =
     (version_audit ''objective.approved'' actor o' v
        (''Approved '' @ v_name v @ ''. It is **not yet live**: publishing is a separate ''
         @ ''act, and until it happens the currently live version keeps running.'')
        [(''versionId'', JString (ov_id v)), (''versionNumber'', JNumber (int (ov_number v))), (''published'', JBool False)])
      \<lparr>ai_reason := reason\<rparr>"

definition approved_version :: "uid \<Rightarrow> instant \<Rightarrow> version_row \<Rightarrow> version_row" where
  "approved_version actor now v = v\<lparr>ov_approvedAt := Some now, ov_approvedBy := Some actor, ov_version := Suc (ov_version v)\<rparr>"

definition approve_objective ::
  "work_env \<Rightarrow> uid \<Rightarrow> uid \<Rightarrow> instant \<Rightarrow> uid \<Rightarrow> uid option \<Rightarrow> string option \<Rightarrow> work_state \<Rightarrow> work_error + (objective_view \<times> work_state)" where
  "approve_objective env tenant actor now i version reason st =
     on_objective env tenant actor now ActApprove i
       (\<lambda>l. bind_result (namedVersion (lo_versions l) version ObjectiveReadyForApproval) (\<lambda>v.
            bind_result (check_that (ov_approvedAt v = None) (InObjective AlreadyApproved)) (\<lambda>_.
              Inr (append_audit tenant (approved_audit actor (lo_objective l) v reason)
                     (write_version (ov_id v) (approved_version actor now) st))))) st"

text \<open>The column is read as it was stored, of whichever schema version; a version without nodes has none.\<close>

fun stored_kinds :: "stored_plan \<Rightarrow> AnalysisNodeKind list" where
  "stored_kinds (StoredCurrent p) = map pn_kind (wp_nodes p)"
| "stored_kinds (StoredFirst p) = map pn_kind (op_nodes p)"
| "stored_kinds (StoredUnknown n) = []"

definition work_not_handed_out :: "uid \<Rightarrow> uid \<Rightarrow> work_state \<Rightarrow> bool" where
  "work_not_handed_out tenant v st \<longleftrightarrow>
     (case draft_for tenant v st of
        None \<Rightarrow> False
      | Some d \<Rightarrow> list_ex (\<lambda>k. k = AiNode \<or> k = HumanNode) (stored_kinds (wd_graph d))
          \<and> filter (\<lambda>t. ht_tenant t = tenant \<and> ht_objectiveVersion t = v) (wk_tasks st) = []
          \<and> filter (\<lambda>a. aw_tenant a = tenant \<and> aw_objectiveVersion a = Some v) (wk_assignments st) = [])"

definition made_live :: "instant \<Rightarrow> version_row \<Rightarrow> version_row" where
  "made_live now v = v\<lparr>ov_status := ObjectiveActive, ov_publishedAt := Some now, ov_version := Suc (ov_version v)\<rparr>"

definition supersede :: "version_row option \<Rightarrow> objective_row \<Rightarrow> work_state \<Rightarrow> work_state" where
  "supersede previous o' st =
     (case previous of
        None \<Rightarrow> st
      | Some p \<Rightarrow> write_version (ov_id p) archive_version
                    (write_objective (ob_id o') (\<lambda>r. r\<lparr>ob_activeVersion := None\<rparr>) st))"

definition published_audit :: "uid \<Rightarrow> objective_row \<Rightarrow> version_row \<Rightarrow> version_row option \<Rightarrow> AuditEventInput" where
  "published_audit actor o' v previous =
     version_audit ''objective.published'' actor o' v
       (''Published '' @ v_name v @ ''. It is now the live version''
        @ (case previous of None \<Rightarrow> ''.'' | Some p \<Rightarrow> '', superseding '' @ v_name p @ ''.''))
       [(''versionId'', JString (ov_id v)), (''versionNumber'', JNumber (int (ov_number v))),
        (''approvedByUserId'', jtext (ov_approvedBy v)), (''supersededVersionId'', jtext (map_option ov_id previous)),
        (''supersededVersionNumber'', (case previous of None \<Rightarrow> JNull | Some p \<Rightarrow> JNumber (int (ov_number p))))]"

definition publish_now :: "uid \<Rightarrow> uid \<Rightarrow> instant \<Rightarrow> objective_row \<Rightarrow> version_row \<Rightarrow> version_row option \<Rightarrow> work_state \<Rightarrow> work_state" where
  "publish_now tenant actor now o' v previous st =
     append_audit tenant (published_audit actor o' (made_live now v) previous)
       (write_objective (ob_id o') (point_at (made_live now v))
          (write_version (ov_id v) (made_live now) (supersede previous o' st)))"

definition publish_objective ::
  "work_env \<Rightarrow> uid \<Rightarrow> uid \<Rightarrow> instant \<Rightarrow> uid \<Rightarrow> uid option \<Rightarrow> work_state \<Rightarrow> work_error + (objective_view \<times> work_state)" where
  "publish_objective env tenant actor now i version st =
     on_objective env tenant actor now ActPublish i
       (\<lambda>l. bind_result (namedVersion (lo_versions l) version ObjectiveReadyForApproval) (\<lambda>v.
            bind_result (check_that (ov_approvedAt v \<noteq> None) (InObjective NotApproved)) (\<lambda>_.
            bind_result (check_that (\<not> work_not_handed_out tenant (ov_id v) st) (InObjective WorkNotHandedOut)) (\<lambda>_.
              Inr (publish_now tenant actor now (lo_objective l) v
                     (List.find (\<lambda>p. ov_status p = ObjectiveActive) (lo_versions l)) st))))) st"

section \<open>Reading\<close>

record history_entry =
  hi_version :: version_row
  hi_reviewStage :: string
  hi_copiedFromNumber :: "nat option"
  hi_live :: bool
  hi_stepCount :: nat

definition history_entryOf :: "version_row list \<Rightarrow> version_row \<Rightarrow> history_entry" where
  "history_entryOf versions v =
     \<lparr>hi_version = v, hi_reviewStage = reviewStageOf v,
      hi_copiedFromNumber = Option.bind (ov_copiedFrom v) (\<lambda>i. map_option ov_number (List.find (\<lambda>p. ov_id p = i) versions)),
      hi_live = (ov_status v = ObjectiveActive), hi_stepCount = length (ov_steps v)\<rparr>"

definition history_of_objective ::
  "work_env \<Rightarrow> uid \<Rightarrow> uid \<Rightarrow> instant \<Rightarrow> uid \<Rightarrow> work_state \<Rightarrow> work_error + (string \<times> history_entry list)" where
  "history_of_objective env tenant actor now i st =
     map_sum id (\<lambda>l. (ob_code (lo_objective l), map (history_entryOf (lo_versions l)) (lo_versions l)))
       (read_objective env tenant actor now i st)"

definition compareVersions ::
  "work_env \<Rightarrow> uid \<Rightarrow> uid \<Rightarrow> instant \<Rightarrow> uid \<Rightarrow> uid \<Rightarrow> uid \<Rightarrow> work_state \<Rightarrow> work_error + version_diff" where
  "compareVersions env tenant actor now i first second st =
     bind_result (read_objective env tenant actor now i st) (\<lambda>l.
     bind_result (named_one first (lo_versions l)) (\<lambda>v.
     bind_result (named_one second (lo_versions l)) (\<lambda>w.
       Inr (diffObjectiveVersions (ov_content v) (ov_steps v) (ov_content w) (ov_steps w)))))"

definition view_objective :: "work_env \<Rightarrow> uid \<Rightarrow> uid \<Rightarrow> instant \<Rightarrow> uid \<Rightarrow> work_state \<Rightarrow> work_error + objective_view" where
  "view_objective env tenant actor now i st = map_sum id objective_viewOf (read_objective env tenant actor now i st)"

text \<open>The list shows the live version of each objective the reader may see, or else the newest.\<close>

record list_row =
  lr_objective :: objective_row
  lr_shown :: version_row
  lr_departmentName :: string
  lr_live :: bool

definition may_see :: "work_env \<Rightarrow> authz_context \<Rightarrow> objective_row \<Rightarrow> bool" where
  "may_see env cx o' = de_allowed (fst (authorize cx (we_hierarchy env) (asked ''objective'' ActView (Some (objective_resource o')) [])))"

definition found_by :: "string option \<Rightarrow> objective_row \<Rightarrow> version_row \<Rightarrow> bool" where
  "found_by search o' v \<longleftrightarrow>
     (case search of
        None \<Rightarrow> True
      | Some s \<Rightarrow> blank s
          \<or> occurs_in (map lower_char (trim s)) (map lower_char (fo_objectiveName (ov_content v) @ '' '' @ ob_code o')))"

definition list_row_of ::
  "work_env \<Rightarrow> authz_context \<Rightarrow> ObjectiveStatus option \<Rightarrow> string option \<Rightarrow> work_state \<Rightarrow> objective_row \<Rightarrow> list_row option" where
  "list_row_of env cx status search st o' =
     (if \<not> may_see env cx o' then None
      else (case copy_source (versions_of o' st) None of
              None \<Rightarrow> None
            | Some v \<Rightarrow>
                if (\<exists>s \<in> set_option status. ov_status v \<noteq> s) \<or> \<not> found_by search o' v then None
                else Some \<lparr>lr_objective = o', lr_shown = v,
                  lr_departmentName = (case we_departments env (ob_department o') of None \<Rightarrow> ''-'' | Some d \<Rightarrow> dp_name d),
                  lr_live = (ov_status v = ObjectiveActive)\<rparr>))"

definition list_objectives ::
  "work_env \<Rightarrow> uid \<Rightarrow> uid \<Rightarrow> instant \<Rightarrow> ObjectiveStatus option \<Rightarrow> uid option \<Rightarrow> string option \<Rightarrow> work_state \<Rightarrow> work_error + list_row list" where
  "list_objectives env tenant actor now status department search st =
     (let cx = context_of env tenant actor now in
      bind_result (permit env cx ''objective'' ActView None []) (\<lambda>_.
        Inr (List.map_filter (list_row_of env cx status search st)
          (filter (\<lambda>o'. ob_tenant o' = tenant \<and> (case department of None \<Rightarrow> True | Some d \<Rightarrow> ob_department o' = d)) (wk_objectives st)))))"

section \<open>The reward panel\<close>

definition new_reward :: "uid \<Rightarrow> uid \<Rightarrow> uid \<Rightarrow> reward_panel \<Rightarrow> reward_row" where
  "new_reward tenant actor i p = \<lparr>rw_tenant = tenant, rw_objective = i, rw_panel = p, rw_createdBy = actor, rw_version = 1\<rparr>"

definition reward_audit :: "uid \<Rightarrow> objective_row \<Rightarrow> reward_row \<Rightarrow> AuditEventInput" where
  "reward_audit actor o' r =
     (let p = rw_panel r; t = (case rp_rewardType p of None \<Rightarrow> JNull | Some k \<Rightarrow> JString (reward_type_name k)) in
      audit_of ''objective.reward_panel_saved'' ''objective'' (ob_id o') (Some actor) (Some (ob_code o')) (Some (rw_version r))
       (if rp_applicable p
        then ''Recorded a '' @ (case rp_rewardType p of None \<Rightarrow> ''reward'' | Some k \<Rightarrow> reward_type_name k) @ '' on ''
          @ quoted (ob_code o') @ ''. '' @ ''Nothing is payable: eligibility and approval are decided by the reward workflow.''
        else ''Recorded that no reward applies to '' @ quoted (ob_code o') @ ''.'')
       [(''applicable'', JBool (rp_applicable p)), (''rewardType'', t),
        (''amountMinorUnits'', (case rp_amountMinorUnits p of None \<Rightarrow> JNull | Some n \<Rightarrow> JNumber n)),
        (''approverUserId'', jtext (rp_approver p)), (''autoPaid'', JBool False)])"

definition keep_reward :: "uid \<Rightarrow> uid \<Rightarrow> objective_row \<Rightarrow> reward_row option \<Rightarrow> reward_panel \<Rightarrow> work_state \<Rightarrow> reward_row \<times> work_state" where
  "keep_reward tenant actor o' old p st =
     (case old of
        None \<Rightarrow> (let r = new_reward tenant actor (ob_id o') p in (r, st\<lparr>wk_rewards := wk_rewards st @ [r]\<rparr>))
      | Some r \<Rightarrow> (let r' = r\<lparr>rw_panel := p, rw_version := Suc (rw_version r)\<rparr>
                   in (r', st\<lparr>wk_rewards := update_where (\<lambda>x. rw_tenant x = tenant \<and> rw_objective x = ob_id o')
                              (\<lambda>x. x\<lparr>rw_panel := p, rw_version := Suc (rw_version x)\<rparr>) (wk_rewards st)\<rparr>)))"

definition saveReward ::
  "work_env \<Rightarrow> uid \<Rightarrow> uid \<Rightarrow> instant \<Rightarrow> uid \<Rightarrow> reward_panel \<Rightarrow> work_state \<Rightarrow> work_error + (reward_row \<times> work_state)" where
  "saveReward env tenant actor now i p st =
     (let cx = context_of env tenant actor now in
      bind_result (permit env cx ''objective'' ActAssign None []) (\<lambda>_.
      bind_result (check_that (validateRewardPanel p = []) (InObjective (FormProblems (validateRewardPanel p)))) (\<lambda>_.
      bind_result (load_everything tenant i st) (\<lambda>l.
      bind_result (assertOnObjective env cx (lo_objective l) ActAssign) (\<lambda>_.
        (let (r, st') = keep_reward tenant actor (lo_objective l) (lo_reward l) p st
         in Inr (r, append_audit tenant (reward_audit actor (lo_objective l) r) st')))))))"

definition readReward :: "work_env \<Rightarrow> uid \<Rightarrow> uid \<Rightarrow> instant \<Rightarrow> uid \<Rightarrow> work_state \<Rightarrow> work_error + reward_row option" where
  "readReward env tenant actor now i st = map_sum id lo_reward (read_objective env tenant actor now i st)"

end
