(* ===== verification/Objective_Analysis.thy ===== *)
theory Objective_Analysis
  imports Objective_Service
begin

text \<open>
  \<open>src/apps/api/src/objectives/objective-analysis.service.ts\<close>: the run that decomposes the steps of an
  objective into a workflow, and the workflow it builds.  The answers of the model (which part of a
  step is whose, which tools, when it is done), as parsed, the router of skills and the company's
  people are arguments.  Token counts of the run are left out of its row.
\<close>

section \<open>What the pipeline reads\<close>

record skill_match =
  sm_version :: uid
  sm_name :: string
  sm_unmet :: "string list"

record employee =
  em_name :: string
  em_user :: uid
  em_designation :: "string option"

text \<open>The classification of a step is its part for an agent and its part for a person.\<close>

record pipeline_input =
  pi_name :: string
  pi_owner :: uid
  pi_result :: string
  pi_steps :: "form2_step list"
  pi_team :: "uid list"
  pi_classification :: "int \<rightharpoonup> string option \<times> string option"
  pi_tools :: "nat \<rightharpoonup> string list"
  pi_route :: "form2_step \<Rightarrow> string list \<Rightarrow> skill_match option"
  pi_people :: "employee list"
  pi_done :: "nat \<rightharpoonup> string \<times> string"
  pi_promptTokens :: nat
  pi_realModel :: bool

record pipeline_state =
  pl_nodes :: "plan_node list"
  pl_risks :: "plan_risk list"
  pl_gaps :: "string list"

definition agent_part :: "pipeline_input \<Rightarrow> form2_step \<Rightarrow> string option" where
  "agent_part x s = Option.bind (pi_classification x (fs_position s)) fst"

definition person_part :: "pipeline_input \<Rightarrow> form2_step \<Rightarrow> string option" where
  "person_part x s = Option.bind (pi_classification x (fs_position s)) snd"

definition divides :: "pipeline_input \<Rightarrow> form2_step \<Rightarrow> bool" where
  "divides x s \<longleftrightarrow> agent_part x s \<noteq> None \<and> person_part x s \<noteq> None"

definition step_name :: "int \<Rightarrow> uid" where
  "step_name p = ''step-'' @ show_int p"

definition workNodeId :: "pipeline_input \<Rightarrow> form2_step \<Rightarrow> string \<Rightarrow> uid" where
  "workNodeId x s side = (if divides x s then step_name (fs_position s) @ ''-'' @ side else step_name (fs_position s))"

section \<open>Stages\<close>

definition plain_done :: "string \<Rightarrow> string \<Rightarrow> string \<Rightarrow> string list \<Rightarrow> bool option \<Rightarrow> string option \<Rightarrow> string \<Rightarrow> definition_of_done" where
  "plain_done output criteria evidence tools inferred approval failure =
     \<lparr>dd_expectedOutput = output, dd_criteria = criteria, dd_evidence = evidence, dd_dependencies = [], dd_tools = tools,
      dd_toolsInferred = inferred, dd_approval = approval, dd_failureCondition = failure\<rparr>"

definition proposed_node :: "uid \<Rightarrow> AnalysisNodeKind \<Rightarrow> string \<Rightarrow> int option \<Rightarrow> uid option \<Rightarrow> string option \<Rightarrow> definition_of_done \<Rightarrow> string option \<Rightarrow> plan_node" where
  "proposed_node i k label position owner designation done approval =
     \<lparr>pn_id = i, pn_kind = k, pn_label = label, pn_shape = nodeShapeFor k, pn_fromStepPosition = map_option nat position,
      pn_owner = owner, pn_ownerDesignation = designation, pn_unmatchedOwnerName = None, pn_skillVersion = None,
      pn_skillName = None, pn_position = None, pn_dod = done, pn_approvalKind = approval, pn_trigger = None\<rparr>"

definition goal_node :: "pipeline_input \<Rightarrow> plan_node" where
  "goal_node x = proposed_node ''goal'' GoalNode (''GOAL - '' @ pi_name x) None (Some (pi_owner x)) None
     (plain_done (pi_result x) (pi_result x)
        (''The expected final result, evidenced by whatever the last step produces and the '' @ ''approvals recorded along the way.'')
        [] None None []) None"

definition team_gaps :: "pipeline_input \<Rightarrow> string list" where
  "team_gaps x = problem_if (pi_team x = [])
     (''The objective owner has nobody reporting to them on record, so every step this plan ''
      @ ''assigns will be noted as crossing a team. Owners are still matched by name; complete ''
      @ ''the hierarchy if those lines should be the owner's own.'')"

definition split_steps :: "pipeline_input \<Rightarrow> int list" where
  "split_steps x = map fs_position (filter (divides x) (pi_steps x))"

definition split_gaps :: "pipeline_input \<Rightarrow> string list" where
  "split_gaps x =
     (let ps = split_steps x; one = length ps = 1 in
      problem_if (ps \<noteq> []) (''Step'' @ (if one then [] else ''s'') @ '' '' @ join '', '' (map show_int ps) @ '' divide''
        @ (if one then ''s'' else []) @ '' between an agent and a person. The agent's part is placed first, which is an assumption ''
        @ ''about order rather than something the analysis determined - check it in the editor.''))"

definition asked_approval :: "form2_step \<Rightarrow> string option" where
  "asked_approval s = (if fs_approval s = NotRequiredApproval then None else Some (step_approval_name (fs_approval s)))"

definition for_person :: "pipeline_input \<Rightarrow> form2_step \<Rightarrow> bool" where
  "for_person x s \<longleftrightarrow> (pi_classification x (fs_position s) = None \<or> person_part x s \<noteq> None)"

definition for_agent :: "pipeline_input \<Rightarrow> form2_step \<Rightarrow> bool" where
  "for_agent x s \<longleftrightarrow> (pi_classification x (fs_position s) = None \<or> agent_part x s \<noteq> None)"

definition human_node :: "pipeline_input \<Rightarrow> form2_step \<Rightarrow> plan_node" where
  "human_node x s =
     proposed_node (workNodeId x s ''human'') HumanNode (case person_part x s of None \<Rightarrow> fs_whatExactWork s | Some w \<Rightarrow> w)
       (Some (fs_position s)) None (fs_whoDesignation s)
       (plain_done (text_or (fs_outputWhatIsProduced s)) []
          (case fs_outputWhatIsProduced s of None \<Rightarrow> [] | Some out \<Rightarrow> out @ '', recorded against this step.'')
          [] None (asked_approval s) (text_or (fs_currentProblem s))) None"

definition output_gaps :: "pipeline_input \<Rightarrow> string list" where
  "output_gaps x = map (\<lambda>s. ''Step '' @ show_int (fs_position s) @ '' does not say what it produces, so its definition of done and ''
       @ ''its evidence had to be left general.'')
     (filter (\<lambda>s. for_person x s \<and> fs_outputWhatIsProduced s = None) (pi_steps x))"

definition tools_for :: "pipeline_input \<Rightarrow> nat \<Rightarrow> form2_step \<Rightarrow> string list" where
  "tools_for x k s =
     (case pi_tools x k of
        Some ts \<Rightarrow> ts
      | None \<Rightarrow> if fs_inputReceivedFrom s = None then [''Read''] else [''Read'', ''Write''])"

definition ai_node :: "pipeline_input \<Rightarrow> nat \<Rightarrow> form2_step \<Rightarrow> plan_node" where
  "ai_node x k s =
     proposed_node (workNodeId x s ''ai'') AiNode (case agent_part x s of None \<Rightarrow> fs_whatExactWork s | Some w \<Rightarrow> w)
       (Some (fs_position s)) None None
       (plain_done (text_or (fs_outputWhatIsProduced s)) []
          (''The AI output, its inputs and the Skill version that produced it, recorded for '' @ ''review.'')
          (tools_for x k s) (Some True) (asked_approval s) []) None"

definition executor_risks :: "pipeline_input \<Rightarrow> plan_risk list" where
  "executor_risks x = map (\<lambda>s. \<lparr>rk_node = Some (workNodeId x s ''ai''), rk_severity = LowSeverity,
       rk_summary = ''This is an Executor step: it monitors and validates. It must never approve ''
         @ ''high-risk work or replace a required human decision.''\<rparr>)
     (filter (\<lambda>s. for_agent x s \<and> fs_whoEngine s = ExecutorEngine) (pi_steps x))"

definition human_nodes :: "pipeline_input \<Rightarrow> plan_node list" where
  "human_nodes x = map (human_node x) (filter (for_person x) (pi_steps x))"

definition ai_nodes :: "pipeline_input \<Rightarrow> plan_node list" where
  "ai_nodes x = map (\<lambda>(k, s). ai_node x k s) (enumerate 0 (filter (for_agent x) (pi_steps x)))"

text \<open>The step a work node came from.\<close>

definition step_of :: "pipeline_input \<Rightarrow> plan_node \<Rightarrow> form2_step option" where
  "step_of x n = List.find (\<lambda>s. Some (nat (fs_position s)) = pn_fromStepPosition n) (pi_steps x)"

definition named_step :: "plan_node \<Rightarrow> string" where
  "named_step n = (case pn_fromStepPosition n of None \<Rightarrow> ''null'' | Some p \<Rightarrow> show_nat p)"

definition routed :: "skill_match \<Rightarrow> plan_node \<Rightarrow> plan_node" where
  "routed m n = n\<lparr>pn_skillVersion := Some (sm_version m), pn_skillName := Some (sm_name m)\<rparr>"

definition with_skill :: "pipeline_input \<Rightarrow> plan_node \<Rightarrow> plan_node" where
  "with_skill x n =
     (if pn_kind n \<noteq> AiNode then n
      else (case step_of x n of
              None \<Rightarrow> n
            | Some s \<Rightarrow> (case pi_route x s (dd_tools (pn_dod n)) of None \<Rightarrow> n | Some m \<Rightarrow> routed m n)))"

definition skill_report :: "pipeline_input \<Rightarrow> plan_node \<Rightarrow> string list \<times> plan_risk list" where
  "skill_report x n =
     (if pn_kind n \<noteq> AiNode then ([], [])
      else (case step_of x n of
              None \<Rightarrow> ([], [])
            | Some s \<Rightarrow> (case pi_route x s (dd_tools (pn_dod n)) of
                None \<Rightarrow>
                  ([''No approved Skill matches step '' @ named_step n @ '' ('' @ quoted (pn_label n) @ ''). A Skill ''
                    @ ''has to be authored and approved before this step can run as AI work.''],
                   [\<lparr>rk_node = Some (pn_id n), rk_severity = HighSeverity,
                     rk_summary = ''This AI step has no approved Skill behind it. It cannot run until one is authored '' @ ''and approved.''\<rparr>])
              | Some m \<Rightarrow>
                  if sm_unmet m = [] then ([], [])
                  else ([''Step '' @ named_step n @ '' ('' @ quoted (pn_label n) @ '') will use '' @ quoted (sm_name m) @ '', which ''
                          @ ''still needs '' @ join '', '' (sm_unmet m) @ ''. Name that input in the step's ''
                          @ quoted ''what is used'' @ '' column, or the step cannot run.''],
                        [\<lparr>rk_node = Some (pn_id n), rk_severity = MediumSeverity,
                          rk_summary = quoted (sm_name m) @ '' is the right capability for this step, but ''
                            @ join '', '' (sm_unmet m) @ '' is not available to it here.''\<rparr>]))))"

definition em_dash :: string where
  "em_dash = [CHR 0xE2, CHR 0x80, CHR 0x94]"

definition person_named :: "pipeline_input \<Rightarrow> plan_node \<Rightarrow> string" where
  "person_named x n = (case Option.bind (step_of x n) fs_whoPersonName of None \<Rightarrow> [] | Some t \<Rightarrow> trim t)"

definition employee_named :: "pipeline_input \<Rightarrow> string \<Rightarrow> employee option" where
  "employee_named x name = List.find (\<lambda>e. map lower_char (em_name e) = map lower_char name) (pi_people x)"

definition is_work :: "plan_node \<Rightarrow> bool" where
  "is_work n \<longleftrightarrow> pn_kind n = HumanNode \<or> pn_kind n = AiNode"

definition names_nobody :: "string \<Rightarrow> bool" where
  "names_nobody t \<longleftrightarrow> t = [] \<or> t = em_dash"

definition with_owner :: "pipeline_input \<Rightarrow> plan_node \<Rightarrow> plan_node" where
  "with_owner x n =
     (let t = person_named x n in
      if \<not> is_work n \<or> names_nobody t then n
      else (case employee_named x t of
              Some e \<Rightarrow> n\<lparr>pn_owner := Some (em_user e), pn_ownerDesignation :=
                  (case em_designation e of Some d \<Rightarrow> Some d | None \<Rightarrow> pn_ownerDesignation n)\<rparr>
            | None \<Rightarrow> n\<lparr>pn_unmatchedOwnerName := Some t\<rparr>))"

definition owner_gaps :: "pipeline_input \<Rightarrow> plan_node \<Rightarrow> string list" where
  "owner_gaps x n =
     (let t = person_named x n in
      if \<not> is_work n then []
      else if names_nobody t then [''Step '' @ named_step n @ '' names nobody, so no owner could be assigned to it.'']
      else (case employee_named x t of
              Some e \<Rightarrow> problem_if (em_user e \<notin> set (pi_team x))
                (''Step '' @ named_step n @ '' is owned by '' @ quoted (em_name e) @ '', who is ''
                 @ ''outside the objective owner's reporting line. The assignment stands - this is ''
                 @ ''noted so the reviewer knows the step crosses a team.'')
            | None \<Rightarrow> [''Step '' @ named_step n @ '' names '' @ quoted t @ '', who is not employed in this company ''
                @ ''on record. The owner was left unassigned rather than guessed at.'']))"

section \<open>Building\<close>

definition done_text :: "plan_node \<Rightarrow> string \<Rightarrow> string \<Rightarrow> string" where
  "done_text n general particular =
     (if blank (dd_expectedOutput (pn_dod n)) then general else dd_expectedOutput (pn_dod n) @ particular)"

definition defined :: "(string \<times> string) option \<Rightarrow> plan_node \<Rightarrow> plan_node" where
  "defined w n =
     n\<lparr>pn_dod := (pn_dod n)\<lparr>
         dd_criteria := (if \<not> blank (dd_criteria (pn_dod n)) then dd_criteria (pn_dod n)
           else (case w of Some (c, f) \<Rightarrow> c | None \<Rightarrow>
                   done_text n ''The work described by this step has been completed and recorded against it.''
                     '' exists and has been recorded against this step.'')),
         dd_failureCondition := (if \<not> blank (dd_failureCondition (pn_dod n)) then dd_failureCondition (pn_dod n)
           else (case w of Some (c, f) \<Rightarrow> f | None \<Rightarrow>
                   done_text n ''The step cannot be completed, or what it produces does not meet the criteria above.''
                     '' is not produced, or does not meet the criteria above.''))\<rparr>\<rparr>"

definition goal_defined :: "plan_node \<Rightarrow> plan_node" where
  "goal_defined n =
     (if blank (dd_failureCondition (pn_dod n))
      then n\<lparr>pn_dod := (pn_dod n)\<lparr>dd_failureCondition :=
          (if blank (dd_criteria (pn_dod n)) then ''The objective is not achieved.''
           else ''The objective closes without this being true: '' @ dd_criteria (pn_dod n))\<rparr>\<rparr>
      else n)"

definition gate_name :: "int \<Rightarrow> uid" where
  "gate_name p = ''approval-'' @ show_int p"

definition approval_node :: "form2_step \<Rightarrow> plan_node" where
  "approval_node s =
     (let k = step_approval_name (fs_approval s) in
      proposed_node (gate_name (fs_position s)) ApprovalNode (k @ '' sign-off'') (Some (fs_position s)) None None
        (plain_done (''A '' @ k @ '' decision.'') (''A '' @ k @ '' approver has decided.'')
           ''The decision, its author and its time, recorded in the audit trail.'' [] None (Some k)
           ''The approver refuses, or the decision is not made in time.'') (Some k))"

definition gated_steps :: "pipeline_input \<Rightarrow> form2_step list" where
  "gated_steps x = filter (\<lambda>s. fs_approval s \<noteq> NotRequiredApproval) (pi_steps x)"

definition gate_risks :: "pipeline_input \<Rightarrow> plan_risk list" where
  "gate_risks x = map (\<lambda>s. \<lparr>rk_node = Some (gate_name (fs_position s)), rk_severity = MediumSeverity,
       rk_summary = ''Four-eyes means two different people. The approval engine has to refuse the same ''
         @ ''person twice, not merely require a senior one.''\<rparr>)
     (filter (\<lambda>s. fs_approval s = FourEyesApproval) (pi_steps x))"

text \<open>One chain from the goal: of each step its agent's part, its person's part, then its gate.\<close>

definition step_chain :: "pipeline_input \<Rightarrow> form2_step \<Rightarrow> uid list" where
  "step_chain x s =
     (if for_agent x s then [workNodeId x s ''ai''] else [])
     @ (if for_person x s then [workNodeId x s ''human''] else [])
     @ (if fs_approval s \<noteq> NotRequiredApproval then [gate_name (fs_position s)] else [])"

definition chain_of :: "pipeline_input \<Rightarrow> uid list" where
  "chain_of x = concat (map (step_chain x) (sort_key fs_position (pi_steps x)))"

fun chain_edges :: "uid \<Rightarrow> uid list \<Rightarrow> plan_edge list" where
  "chain_edges previous [] = []"
| "chain_edges previous (i # is) =
     \<lparr>pe_from = previous, pe_to = i, pe_kind = Sequential, pe_condition = None\<rparr> # chain_edges i is"

definition after_edges :: "plan_edge list \<Rightarrow> plan_node \<Rightarrow> plan_node" where
  "after_edges edges n =
     (if pn_kind n = GoalNode then n
      else n\<lparr>pn_dod := (pn_dod n)\<lparr>dd_dependencies :=
          map pe_from (filter (\<lambda>e. pe_to e = pn_id n \<and> pe_from e \<noteq> ''goal'') edges)\<rparr>\<rparr>)"

definition estimateUsage :: "pipeline_input \<Rightarrow> nat \<Rightarrow> usage_estimate" where
  "estimateUsage x total_ai =
     (let perNode = (if total_ai = 0 then 0 else \<lceil>js_div (int (pi_promptTokens x)) (int total_ai)\<rceil>)
      in \<lparr>us_minTokens = perNode * int total_ai, us_maxTokens = perNode * int total_ai * 2, us_aiNodeCount = total_ai,
          us_basis = ''Derived from what this analysis consumed across '' @ show_nat total_ai @ '' AI step(s). ''
            @ (if pi_realModel x then ''An estimate, not a quote: a run consumes what its inputs and retries require.''
               else ''**The analysis ran against a mock model, so treat this as a shape rather than a figure.'')\<rparr>)"

definition work_nodes :: "pipeline_input \<Rightarrow> plan_node list" where
  "work_nodes x =
     map (\<lambda>(k, n). defined (pi_done x k) n)
       (enumerate 0 (map (with_owner x) (map (with_skill x) (human_nodes x @ ai_nodes x))))"

definition proposed_nodes :: "pipeline_input \<Rightarrow> plan_node list" where
  "proposed_nodes x =
     map (after_edges (chain_edges ''goal'' (chain_of x)))
       ((if work_nodes x = [] then goal_node x else goal_defined (goal_node x)) # work_nodes x @ map approval_node (gated_steps x))"

definition proposed_plan :: "pipeline_input \<Rightarrow> workflow_plan" where
  "proposed_plan x =
     \<lparr>wp_schemaVersion = ANALYSIS_SCHEMA_VERSION, wp_goal = ''goal'', wp_nodes = proposed_nodes x,
      wp_edges = chain_edges ''goal'' (chain_of x),
      wp_usage = estimateUsage x (length (ai_nodes x)),
      wp_risks = executor_risks x @ concat (map (snd \<circ> skill_report x) (ai_nodes x)) @ gate_risks x,
      wp_gaps = team_gaps x @ split_gaps x @ output_gaps x @ concat (map (fst \<circ> skill_report x) (ai_nodes x))
        @ concat (map (owner_gaps x) (human_nodes x @ map (with_skill x) (ai_nodes x)))\<rparr>"

datatype pipeline_failure = StepsLeftOut "int list" | DraftProblems "plan_problem list"

definition unclassified :: "pipeline_input \<Rightarrow> int list" where
  "unclassified x = filter (\<lambda>p. pi_classification x p = None) (map fs_position (pi_steps x))"

definition run_pipeline :: "pipeline_input \<Rightarrow> pipeline_failure + workflow_plan" where
  "run_pipeline x =
     (if unclassified x \<noteq> [] then Inl (StepsLeftOut (unclassified x))
      else if validateWorkflowDraft (proposed_plan x) \<noteq> [] then Inl (DraftProblems (validateWorkflowDraft (proposed_plan x)))
      else Inr (proposed_plan x))"

section \<open>The run\<close>

definition versions_with_grids :: "objective_row \<Rightarrow> work_state \<Rightarrow> version_row list" where
  "versions_with_grids o' st = map grid_of (versions_of o' st)"

definition analysable :: "ObjectiveStatus \<Rightarrow> bool" where
  "analysable s \<longleftrightarrow> s \<in> {ObjectiveDraft, ObjectiveUnderReview, ObjectiveAiAnalysis, ObjectiveWorkflowDraft}"

definition version_to_analyse :: "version_row list \<Rightarrow> uid option \<Rightarrow> version_row option" where
  "version_to_analyse versions version =
     (case version of
        None \<Rightarrow> List.find (\<lambda>v. analysable (ov_status v)) versions
      | Some i \<Rightarrow> List.find (\<lambda>v. ov_id v = i) versions)"

definition running_analysis :: "uid \<Rightarrow> uid \<Rightarrow> work_state \<Rightarrow> analysis_run option" where
  "running_analysis tenant v st =
     List.find (\<lambda>a. an_tenant a = tenant \<and> an_objectiveVersion a = v \<and> an_status a \<in> {AnalysisQueued, AnalysisRunning}) (wk_analyses st)"

definition new_analysis :: "uid \<Rightarrow> uid \<Rightarrow> uid \<Rightarrow> instant \<Rightarrow> version_row \<Rightarrow> analysis_run" where
  "new_analysis i tenant actor now v =
     \<lparr>an_id = i, an_tenant = tenant, an_objective = ov_objective v, an_objectiveVersion = ov_id v, an_status = AnalysisQueued,
      an_stage = None, an_stagesCompleted = 0, an_startedAt = None, an_completedAt = None, an_cancelledAt = None,
      an_cancelledBy = None, an_failureReason = None, an_draft = None, an_schemaVersion = ANALYSIS_SCHEMA_VERSION,
      an_requestedBy = actor, an_createdAt = now, an_version = 1\<rparr>"

definition analysis_started_audit :: "uid \<Rightarrow> objective_row \<Rightarrow> version_row \<Rightarrow> uid \<Rightarrow> string \<Rightarrow> bool \<Rightarrow> AuditEventInput" where
  "analysis_started_audit actor o' v run capability realModel =
     audit_of ''objective.analysis_started'' ''objective'' (ob_id o') (Some actor)
       (Some (ob_code o' @ '' V'' @ show_nat (ov_number v))) None
       (''Started AI analysis of '' @ v_name v @ ''. The output is a draft workflow; '' @ ''nothing goes live without a person approving and publishing it.'')
       [(''runId'', JString run), (''versionId'', JString (ov_id v)), (''versionNumber'', JNumber (int (ov_number v))),
        (''stepCount'', JNumber (int (length (ov_steps v)))), (''modelCapability'', JString capability), (''usesRealModel'', JBool realModel)]"

definition into_analysis :: "version_row \<Rightarrow> work_state \<Rightarrow> work_state" where
  "into_analysis v st =
     (if ov_status v = ObjectiveDraft \<or> ov_status v = ObjectiveUnderReview
      then write_version (ov_id v) (with_status ObjectiveAiAnalysis) st else st)"

definition start_analysis ::
  "work_env \<Rightarrow> uid \<Rightarrow> uid \<Rightarrow> instant \<Rightarrow> string \<Rightarrow> bool \<Rightarrow> uid \<Rightarrow> uid option \<Rightarrow> work_state \<Rightarrow> work_error + (analysis_run \<times> work_state)" where
  "start_analysis env tenant actor now capability realModel i version st =
     (let cx = context_of env tenant actor now in
      bind_result (permit env cx ''objective'' ActEditDraft None []) (\<lambda>_.
      bind_result (load_objective tenant i st) (\<lambda>o'.
      bind_result (assertOnObjective env cx o' ActEditDraft) (\<lambda>_.
      bind_result (orthrow (InAnalysis NothingToAnalyse) (version_to_analyse (versions_with_grids o' st) version)) (\<lambda>v.
      bind_result (check_that (ov_steps v \<noteq> []) (InAnalysis NoStepsToRead)) (\<lambda>_.
      bind_result (check_that (ov_status v = ObjectiveUnderReview \<longrightarrow> reviewApprovalOf tenant (ov_id v) st \<noteq> None)
          (InAnalysis ReviewStillOpen)) (\<lambda>_.
      bind_result (check_that (running_analysis tenant (ov_id v) st = None) (InAnalysis AnalysisAlreadyRunning)) (\<lambda>_.
        let run = new_analysis (next_id st) tenant actor now v
        in Inr (run, append_audit tenant (analysis_started_audit actor o' v (an_id run) capability realModel)
             (into_analysis v (issue (st\<lparr>wk_analyses := wk_analyses st @ [run]\<rparr>))))))))))))"

text \<open>
  The pipeline writes its run as it goes.  The trigger \<open>analysis_run_is_frozen_once_finished\<close> refuses to
  touch a run that has finished, so that a pipeline whose run was cancelled meanwhile throws there.
\<close>

definition load_run :: "uid \<Rightarrow> uid \<Rightarrow> work_state \<Rightarrow> work_error + analysis_run" where
  "load_run tenant i st =
     orthrow (InAnalysis NoSuchAnalysis) (List.find (\<lambda>a. an_tenant a = tenant \<and> an_id a = i) (wk_analyses st))"

definition open_run :: "uid \<Rightarrow> uid \<Rightarrow> work_state \<Rightarrow> work_error + analysis_run" where
  "open_run tenant i st =
     bind_result (load_run tenant i st) (\<lambda>a.
       if isAnalysisRunFinished (an_status a) then Inl (InAnalysis (AnalysisOver (an_status a))) else Inr a)"

definition write_run :: "uid \<Rightarrow> (analysis_run \<Rightarrow> analysis_run) \<Rightarrow> work_state \<Rightarrow> work_state" where
  "write_run i f st = st\<lparr>wk_analyses := update_where (\<lambda>a. an_id a = i) f (wk_analyses st)\<rparr>"

definition at_stage :: "instant \<Rightarrow> AnalysisStage \<Rightarrow> analysis_run \<Rightarrow> analysis_run" where
  "at_stage now s a =
     a\<lparr>an_status := AnalysisRunning, an_stage := Some s, an_stagesCompleted := analysisStageIndex s,
       an_startedAt := (if analysisStageIndex s = 0 then Some now else an_startedAt a), an_version := Suc (an_version a)\<rparr>"

definition enterStage :: "uid \<Rightarrow> instant \<Rightarrow> uid \<Rightarrow> AnalysisStage \<Rightarrow> work_state \<Rightarrow> work_error + work_state" where
  "enterStage tenant now i s st =
     map_sum id (\<lambda>a. write_run (an_id a) (at_stage now s) st) (open_run tenant i st)"

definition stopIfCancelled :: "uid \<Rightarrow> uid \<Rightarrow> work_state \<Rightarrow> work_error + bool" where
  "stopIfCancelled tenant i st = map_sum id (\<lambda>a. an_status a = AnalysisCancelled) (load_run tenant i st)"

definition finished_run :: "instant \<Rightarrow> workflow_plan \<Rightarrow> analysis_run \<Rightarrow> analysis_run" where
  "finished_run now p a =
     a\<lparr>an_status := AnalysisCompleted, an_stage := Some BuildingWorkflow, an_stagesCompleted := length ANALYSIS_STAGES,
       an_completedAt := Some now, an_draft := Some (StoredCurrent p), an_schemaVersion := ANALYSIS_SCHEMA_VERSION,
       an_version := Suc (an_version a)\<rparr>"

definition analysis_completed_audit :: "uid \<Rightarrow> uid \<Rightarrow> string \<Rightarrow> uid \<Rightarrow> workflow_plan \<Rightarrow> AuditEventInput" where
  "analysis_completed_audit actor objective code run p =
     audit_of ''objective.analysis_completed'' ''objective'' objective (Some actor) (Some code) None
       (''AI analysis produced a workflow draft with '' @ show_nat (length (wp_nodes p)) @ '' nodes and ''
        @ show_nat (length (wp_gaps p)) @ '' recorded gaps. **It is a draft** - nothing is live until a ''
        @ ''person approves and publishes it.'')
       [(''runId'', JString run), (''schemaVersion'', JNumber (int ANALYSIS_SCHEMA_VERSION)),
        (''nodeCount'', JNumber (int (length (wp_nodes p)))), (''aiNodeCount'', JNumber (int (us_aiNodeCount (wp_usage p)))),
        (''gapCount'', JNumber (int (length (wp_gaps p)))), (''riskCount'', JNumber (int (length (wp_risks p))))]"

definition out_of_analysis :: "version_row option \<Rightarrow> work_state \<Rightarrow> work_state" where
  "out_of_analysis v st =
     (case v of
        None \<Rightarrow> st
      | Some r \<Rightarrow> if ov_status r = ObjectiveAiAnalysis then write_version (ov_id r) (with_status ObjectiveWorkflowDraft) st else st)"

definition completeAnalysis ::
  "uid \<Rightarrow> uid \<Rightarrow> instant \<Rightarrow> string \<Rightarrow> uid \<Rightarrow> workflow_plan \<Rightarrow> work_state \<Rightarrow> work_error + work_state" where
  "completeAnalysis tenant actor now code i p st =
     (if validateWorkflowDraft p \<noteq> [] then Inl (InAnalysis (DraftNotValid (validateWorkflowDraft p)))
      else bind_result (open_run tenant i st) (\<lambda>a.
        Inr (append_audit tenant (analysis_completed_audit actor (an_objective a) code (an_id a) p)
               (out_of_analysis (List.find (\<lambda>v. ov_tenant v = tenant \<and> ov_id v = an_objectiveVersion a) (wk_versions st))
                  (write_run (an_id a) (finished_run now p) st)))))"

definition failed_run :: "string \<Rightarrow> analysis_run \<Rightarrow> analysis_run" where
  "failed_run reason a =
     a\<lparr>an_status := AnalysisFailed, an_failureReason := Some (take 2000 reason), an_version := Suc (an_version a)\<rparr>"

definition failAnalysis :: "uid \<Rightarrow> uid \<Rightarrow> string \<Rightarrow> work_state \<Rightarrow> work_state" where
  "failAnalysis tenant i reason st =
     (case open_run tenant i st of Inl e \<Rightarrow> st | Inr a \<Rightarrow> write_run (an_id a) (failed_run reason) st)"

definition cancelled_run :: "uid \<Rightarrow> instant \<Rightarrow> analysis_run \<Rightarrow> analysis_run" where
  "cancelled_run actor now a =
     a\<lparr>an_status := AnalysisCancelled, an_cancelledAt := Some now, an_cancelledBy := Some actor,
       an_startedAt := (if an_startedAt a = None then Some now else an_startedAt a), an_version := Suc (an_version a)\<rparr>"

definition cancelled_audit :: "uid \<Rightarrow> analysis_run \<Rightarrow> AuditEventInput" where
  "cancelled_audit actor a =
     audit_of ''objective.analysis_cancelled'' ''objective'' (an_objective a) (Some actor) None None
       ''Cancelled the AI analysis. Nothing was published; the objective is unchanged.''
       [(''runId'', JString (an_id a)), (''stagesCompleted'', JNumber (int (an_stagesCompleted a)))]"

definition cancelAnalysis :: "work_env \<Rightarrow> uid \<Rightarrow> uid \<Rightarrow> instant \<Rightarrow> uid \<Rightarrow> work_state \<Rightarrow> work_error + work_state" where
  "cancelAnalysis env tenant actor now i st =
     bind_result (permit env (context_of env tenant actor now) ''objective'' ActEditDraft None []) (\<lambda>_.
     bind_result (load_run tenant i st) (\<lambda>a.
       if \<not> mayCancelAnalysis (an_status a) then Inl (InAnalysis (AnalysisOver (an_status a)))
       else Inr (append_audit tenant (cancelled_audit actor a) (write_run (an_id a) (cancelled_run actor now) st))))"

section \<open>Reading a run\<close>

datatype StageState = StageFinished | StageInProgress | StageToDo

definition stage_state :: "analysis_run \<Rightarrow> nat \<Rightarrow> AnalysisStage \<Rightarrow> StageState" where
  "stage_state a k s =
     (if k < an_stagesCompleted a then StageFinished
      else if an_stage a = Some s \<and> an_status a = AnalysisRunning then StageInProgress else StageToDo)"

record analysis_view =
  ay_run :: analysis_run
  ay_stages :: "(AnalysisStage \<times> StageState) list"
  ay_draft :: "workflow_plan option"
  ay_unreadable :: bool

definition analysis_viewOf :: "analysis_run \<Rightarrow> analysis_view" where
  "analysis_viewOf a =
     \<lparr>ay_run = a, ay_stages = map (\<lambda>(k, s). (s, stage_state a k s)) (enumerate 0 ANALYSIS_STAGES),
      ay_draft = Option.bind (an_draft a) upgradeWorkflowDraft,
      ay_unreadable = (an_draft a \<noteq> None \<and> \<not> isReadableSchemaVersion (an_schemaVersion a))\<rparr>"

definition view_analysis :: "work_env \<Rightarrow> uid \<Rightarrow> uid \<Rightarrow> instant \<Rightarrow> uid \<Rightarrow> work_state \<Rightarrow> work_error + analysis_view" where
  "view_analysis env tenant actor now i st =
     bind_result (permit env (context_of env tenant actor now) ''objective'' ActView None []) (\<lambda>_.
       map_sum id analysis_viewOf (load_run tenant i st))"

definition latest_analysis :: "work_env \<Rightarrow> uid \<Rightarrow> uid \<Rightarrow> instant \<Rightarrow> uid \<Rightarrow> work_state \<Rightarrow> work_error + analysis_view option" where
  "latest_analysis env tenant actor now i st =
     bind_result (permit env (context_of env tenant actor now) ''objective'' ActView None []) (\<lambda>_.
       Inr (case sort_key (\<lambda>a. - an_createdAt a) (filter (\<lambda>a. an_tenant a = tenant \<and> an_objective a = i) (wk_analyses st)) of
              [] \<Rightarrow> None | a # _ \<Rightarrow> Some (analysis_viewOf a)))"

end
