(* ===== verification/Plan_Proposal.thy ===== *)
theory Plan_Proposal
  imports Objective_Analysis Workflow_Validity "HOL-Library.Multiset"
begin

text \<open>
  What the analysis proposes: whatever the model answered, the plan is a valid chain of the steps of
  the form in the order of their numbers.
\<close>

section \<open>Names of steps\<close>

lemma no_dash: "0 \<le> p \<Longrightarrow> CHR ''-'' \<notin> set (show_int p)"
  using show_nat_digit by (auto simp add: show_int_def)

lemma last_ai: "s @ ''-ai'' \<noteq> t @ ''-human''"
proof
  assume "s @ ''-ai'' = t @ ''-human''"
  then have "last (s @ ''-ai'') = last (t @ ''-human'')" by (rule arg_cong)
  then show False by simp
qed

definition names_of :: "int \<Rightarrow> uid set" where
  "names_of p = {step_name p, step_name p @ ''-ai'', step_name p @ ''-human'', gate_name p}"

lemma step_name_eq [simp]: "step_name p = step_name q \<longleftrightarrow> p = q"
  by (simp add: step_name_def)

lemma gate_name_eq [simp]: "gate_name p = gate_name q \<longleftrightarrow> p = q"
  by (simp add: gate_name_def)

lemma step_gate [simp]: "step_name p @ s \<noteq> gate_name q" "step_name p \<noteq> gate_name q" "gate_name q \<noteq> step_name p @ s" "gate_name q \<noteq> step_name p"
  by (simp_all add: step_name_def gate_name_def)

lemma step_name_dashed: "0 \<le> p \<Longrightarrow> step_name p \<noteq> step_name q @ CHR ''-'' # s"
  using no_dash [of p] by (auto simp add: step_name_def)

lemma names_of_same:
  assumes "i \<in> names_of p" and "i \<in> names_of q" and "0 \<le> p" and "0 \<le> q"
  shows "p = q"
  using assms step_name_dashed [of p q] step_name_dashed [of q p] last_ai [of "step_name p" "step_name q"]
    last_ai [of "step_name q" "step_name p"]
  by (auto simp add: names_of_def)

lemma goal_not_named: "''goal'' \<notin> names_of p"
  by (simp add: names_of_def step_name_def gate_name_def)

section \<open>The chain\<close>

definition human_name :: "pipeline_input \<Rightarrow> form2_step \<Rightarrow> uid" where
  "human_name x s = workNodeId x s ''human''"

definition ai_name :: "pipeline_input \<Rightarrow> form2_step \<Rightarrow> uid" where
  "ai_name x s = workNodeId x s ''ai''"

lemma step_chain_names: "set (step_chain x s) \<subseteq> names_of (fs_position s)"
  by (auto simp add: step_chain_def workNodeId_def names_of_def)

lemma distinct_step_chain:
  assumes "pi_classification x (fs_position s) \<noteq> None"
  shows "distinct (step_chain x s)"
proof (cases "divides x s")
  case True
  then show ?thesis using last_ai [of "step_name (fs_position s)" "step_name (fs_position s)"]
    by (simp add: step_chain_def workNodeId_def)
next
  case False
  then have "\<not> (for_agent x s \<and> for_person x s)" using assms by (auto simp add: divides_def for_agent_def for_person_def)
  then show ?thesis by (simp add: step_chain_def workNodeId_def)
qed

lemma distinct_chains:
  assumes "distinct (map fs_position ss)" and "\<forall>s \<in> set ss. 0 \<le> fs_position s \<and> pi_classification x (fs_position s) \<noteq> None"
  shows "distinct (concat (map (step_chain x) ss))"
  using assms
proof (induction ss)
  case (Cons s ss)
  have "i \<notin> set (step_chain x t)" if "t \<in> set ss" "i \<in> set (step_chain x s)" for t i
  proof
    assume "i \<in> set (step_chain x t)"
    then have "fs_position s = fs_position t"
      using that Cons.prems step_chain_names [of x s] step_chain_names [of x t]
      by (intro names_of_same [of i]) auto
    then show False using Cons.prems(1) that(1) by (auto simp add: rev_image_eqI)
  qed
  then show ?case using Cons distinct_step_chain [of x s] by auto
qed simp

lemma mset_chains:
  "mset (concat (map (step_chain x) ss)) =
     mset (map (human_name x) (filter (for_person x) ss)) + mset (map (ai_name x) (filter (for_agent x) ss))
     + mset (map (\<lambda>s. gate_name (fs_position s)) (filter (\<lambda>s. fs_approval s \<noteq> NotRequiredApproval) ss))"
  by (induction ss) (simp_all add: step_chain_def human_name_def ai_name_def)

lemma mset_chain_of:
  "mset (chain_of x) = mset (concat (map (step_chain x) (pi_steps x)))"
proof -
  have "mset (map mset (map (step_chain x) (sort_key fs_position (pi_steps x)))) = mset (map mset (map (step_chain x) (pi_steps x)))"
    by simp
  then show ?thesis unfolding chain_of_def mset_concat by (metis mset_map sum_mset_sum_list)
qed

section \<open>Edges\<close>

lemma chain_edges_ends: "e \<in> set (chain_edges a cs) \<Longrightarrow> pe_from e \<in> set (a # cs) \<and> pe_to e \<in> set cs \<and> pe_kind e = Sequential"
  by (induction a cs rule: chain_edges.induct) auto

lemma chain_edges_loopless: "distinct (a # cs) \<Longrightarrow> e \<in> set (chain_edges a cs) \<Longrightarrow> pe_from e \<noteq> pe_to e"
  by (induction a cs rule: chain_edges.induct) (auto dest: chain_edges_ends)

definition before_in :: "uid list \<Rightarrow> uid \<Rightarrow> uid list" where
  "before_in cs c = (case takeWhile (\<lambda>d. d \<noteq> c) cs of [] \<Rightarrow> [] | ds \<Rightarrow> [last ds])"

lemma before_in_Cons:
  "before_in (d # cs) c = (if c = d then [] else if before_in cs c = [] \<and> cs \<noteq> [] \<and> hd cs = c then [d] else if cs = [] then [d] else before_in cs c)"
  by (cases cs) (auto simp add: before_in_def split: list.split)

lemma chain_edges_into_none: "c \<notin> set cs \<Longrightarrow> filter (\<lambda>e. pe_to e = c \<and> pe_from e \<noteq> g) (chain_edges a cs) = []"
  by (induction a cs rule: chain_edges.induct) auto

lemma chain_edges_into:
  assumes "distinct cs" and "g \<notin> set cs" and "c \<in> set cs"
  shows "map pe_from (filter (\<lambda>e. pe_to e = c \<and> pe_from e \<noteq> g) (chain_edges a cs))
    = (if c = hd cs then (if a = g then [] else [a]) else before_in cs c)"
  using assms
proof (induction a cs rule: chain_edges.induct)
  case (2 a d cs)
  show ?case
  proof (cases "c = d")
    case True
    then show ?thesis using 2 chain_edges_into_none [of c cs g d] by simp
  next
    case False
    then have c: "c \<in> set cs" "cs \<noteq> []" using 2 by auto
    then have "map pe_from (filter (\<lambda>e. pe_to e = c \<and> pe_from e \<noteq> g) (chain_edges d cs))
      = (if c = hd cs then [d] else before_in cs c)" using 2 by auto
    moreover have "before_in (d # cs) c = (if c = hd cs then [d] else before_in cs c)"
      using False c 2(2) by (cases cs) (auto simp add: before_in_def split: list.split)
    ultimately show ?thesis using False by simp
  qed
qed simp

section \<open>The nodes\<close>

lemma kept_by_stages [simp]:
  "pn_id (with_skill x n) = pn_id n" "pn_kind (with_skill x n) = pn_kind n" "pn_label (with_skill x n) = pn_label n"
  "pn_shape (with_skill x n) = pn_shape n"
  "pn_id (with_owner x n) = pn_id n" "pn_kind (with_owner x n) = pn_kind n" "pn_label (with_owner x n) = pn_label n"
  "pn_shape (with_owner x n) = pn_shape n"
  "pn_id (defined w n) = pn_id n" "pn_kind (defined w n) = pn_kind n" "pn_label (defined w n) = pn_label n"
  "pn_shape (defined w n) = pn_shape n"
  "pn_id (goal_defined n) = pn_id n" "pn_kind (goal_defined n) = pn_kind n" "pn_label (goal_defined n) = pn_label n"
  "pn_shape (goal_defined n) = pn_shape n"
  "pn_id (after_edges es n) = pn_id n" "pn_kind (after_edges es n) = pn_kind n" "pn_label (after_edges es n) = pn_label n"
  "pn_shape (after_edges es n) = pn_shape n"
  by (simp_all add: with_skill_def routed_def with_owner_def Let_def defined_def goal_defined_def after_edges_def split: option.splits)

definition drawn :: "plan_node \<Rightarrow> bool" where
  "drawn n \<longleftrightarrow> pn_shape n = nodeShapeFor (pn_kind n) \<and> \<not> blank (pn_label n) \<and> pn_kind n \<noteq> TriggerNode"

lemma drawn_stages [simp]:
  "drawn (with_skill x n) = drawn n" "drawn (with_owner x n) = drawn n" "drawn (defined w n) = drawn n"
  "drawn (goal_defined n) = drawn n" "drawn (after_edges es n) = drawn n"
  by (simp_all add: drawn_def)

definition answered :: "pipeline_input \<Rightarrow> bool" where
  "answered x \<longleftrightarrow> (\<forall>s \<in> set (pi_steps x). \<not> blank (fs_whatExactWork s)
     \<and> (\<forall>w. agent_part x s = Some w \<longrightarrow> \<not> blank w) \<and> (\<forall>w. person_part x s = Some w \<longrightarrow> \<not> blank w))"

lemma drawn_human: "answered x \<Longrightarrow> s \<in> set (pi_steps x) \<Longrightarrow> drawn (human_node x s)"
  by (auto simp add: drawn_def human_node_def proposed_node_def answered_def split: option.split)

lemma drawn_ai: "answered x \<Longrightarrow> s \<in> set (pi_steps x) \<Longrightarrow> drawn (ai_node x k s)"
  by (auto simp add: drawn_def ai_node_def proposed_node_def answered_def split: option.split)

lemma drawn_goal: "drawn (goal_node x)"
  by (simp add: drawn_def goal_node_def proposed_node_def blank_iff is_space_def)

lemma drawn_gate: "drawn (approval_node s)"
  by (simp add: drawn_def approval_node_def proposed_node_def Let_def blank_iff is_space_def)

lemma map_over_enumerate: "map (\<lambda>z. h (snd z)) (enumerate m xs) = map h xs"
  by (induction xs arbitrary: m) simp_all

lemma work_ids: "map pn_id (work_nodes x) = map (human_name x) (filter (for_person x) (pi_steps x)) @ map (ai_name x) (filter (for_agent x) (pi_steps x))"
proof -
  have "map pn_id (work_nodes x) = map pn_id (human_nodes x @ ai_nodes x)"
    by (simp add: work_nodes_def o_def case_prod_unfold map_over_enumerate)
  moreover have "map pn_id (human_nodes x) = map (human_name x) (filter (for_person x) (pi_steps x))"
    by (simp add: human_nodes_def human_node_def proposed_node_def human_name_def)
  moreover have "map pn_id (ai_nodes x) = map (ai_name x) (filter (for_agent x) (pi_steps x))"
    by (simp add: ai_nodes_def o_def case_prod_unfold ai_node_def proposed_node_def ai_name_def map_over_enumerate [of "ai_name x", unfolded ai_name_def])
  ultimately show ?thesis by simp
qed

lemma in_enumerate: "(k, y) \<in> set (enumerate m xs) \<Longrightarrow> y \<in> set xs"
  by (induction xs arbitrary: m) auto

lemma proposed_ids:
  "mset (map pn_id (proposed_nodes x)) = add_mset ''goal'' (mset (chain_of x))"
proof -
  have "map pn_id (proposed_nodes x) = ''goal'' # map pn_id (work_nodes x) @ map (\<lambda>s. gate_name (fs_position s)) (gated_steps x)"
    by (auto simp add: proposed_nodes_def goal_node_def proposed_node_def approval_node_def o_def Let_def)
  then show ?thesis by (simp add: work_ids mset_chain_of mset_chains gated_steps_def add.assoc)
qed

lemma proposed_drawn:
  assumes "answered x" and "n \<in> set (proposed_nodes x)"
  shows "drawn n"
proof -
  have "drawn m" if "m \<in> set (human_nodes x @ ai_nodes x)" for m
    using that assms(1) by (auto simp add: human_nodes_def ai_nodes_def drawn_human dest!: in_enumerate intro!: drawn_ai)
  then have "drawn m" if "m \<in> set (work_nodes x)" for m
    using that by (auto simp add: work_nodes_def dest!: in_enumerate)
  then show ?thesis using assms(2) by (auto simp add: proposed_nodes_def drawn_goal drawn_gate split: if_splits)
qed

lemma work_not_goal:
  assumes "m \<in> set (work_nodes x)"
  shows "pn_kind m \<noteq> GoalNode"
proof -
  have "pn_kind m \<noteq> GoalNode" if "m \<in> set (human_nodes x @ ai_nodes x)" for m
    using that by (auto simp add: human_nodes_def ai_nodes_def human_node_def ai_node_def proposed_node_def)
  then show ?thesis using assms by (auto simp add: work_nodes_def dest!: in_enumerate)
qed

lemma gate_not_goal: "pn_kind (approval_node s) \<noteq> GoalNode"
  by (simp add: approval_node_def proposed_node_def Let_def)

lemma goal_fields:
  "pn_kind (goal_node x) = GoalNode" "pn_id (goal_node x) = ''goal''" "dd_dependencies (pn_dod (goal_node x)) = []"
  "dd_dependencies (pn_dod (goal_defined n)) = dd_dependencies (pn_dod n)"
  by (simp_all add: goal_node_def proposed_node_def plain_done_def goal_defined_def)

lemma proposed_goal:
  "map pn_id (filter (\<lambda>n. pn_kind n = GoalNode) (proposed_nodes x)) = [''goal'']"
proof -
  have "filter (\<lambda>n. pn_kind n = GoalNode) (map (after_edges es) (work_nodes x)) = []" for es
    using work_not_goal by (auto simp add: filter_empty_conv)
  moreover have "filter (\<lambda>n. pn_kind n = GoalNode) (map (after_edges es) (map approval_node ss)) = []" for es ss
    using gate_not_goal by (auto simp add: filter_empty_conv)
  ultimately show ?thesis by (simp add: proposed_nodes_def goal_fields)
qed

section \<open>Validity\<close>

lemma proposed_dependencies:
  assumes "n \<in> set (proposed_nodes x)"
  shows "dd_dependencies (pn_dod n) = (if pn_kind n = GoalNode then []
    else map pe_from (filter (\<lambda>e. pe_to e = pn_id n \<and> pe_from e \<noteq> ''goal'') (chain_edges ''goal'' (chain_of x))))"
proof -
  obtain m where m: "n = after_edges (chain_edges ''goal'' (chain_of x)) m"
    "m \<in> {goal_node x, goal_defined (goal_node x)} \<union> set (work_nodes x) \<union> approval_node ` set (gated_steps x)"
    using assms unfolding proposed_nodes_def by (auto split: if_splits)
  then have "pn_kind m = GoalNode \<Longrightarrow> dd_dependencies (pn_dod m) = []"
    using work_not_goal gate_not_goal goal_fields by fastforce
  then show ?thesis by (simp add: m(1) after_edges_def)
qed

definition numbered :: "pipeline_input \<Rightarrow> bool" where
  "numbered x \<longleftrightarrow> distinct (map fs_position (pi_steps x)) \<and> (\<forall>s \<in> set (pi_steps x). 0 \<le> fs_position s)"

lemma chain_distinct:
  assumes "numbered x" and "unclassified x = []"
  shows "distinct (''goal'' # chain_of x)"
proof -
  have c: "pi_classification x (fs_position s) \<noteq> None" if "s \<in> set (pi_steps x)" for s
    using assms(2) that by (auto simp add: unclassified_def filter_empty_conv)
  then have "distinct (concat (map (step_chain x) (pi_steps x)))" using assms(1) by (intro distinct_chains) (auto simp add: numbered_def)
  then have "distinct (chain_of x)" using mset_eq_imp_distinct_iff [OF mset_chain_of] by blast
  moreover have "''goal'' \<notin> set (chain_of x)"
    using step_chain_names goal_not_named by (fastforce simp add: chain_of_def)
  ultimately show ?thesis by simp
qed

lemma estimate_well_formed: "well_formed_usage (estimateUsage x m)"
proof -
  have "0 \<le> js_div (int a) (int b)" for a b by (simp add: js_div_def fl_nonneg)
  then have "0 \<le> \<lceil>js_div (int a) (int b)\<rceil>" for a b by (meson ceiling_mono ceiling_zero order_trans order_refl le_of_int_ceiling of_int_0_le_iff)
  then show ?thesis by (simp add: estimateUsage_def Let_def well_formed_usage_def blank_iff is_space_def)
qed

lemma proposed_well_formed:
  assumes "numbered x" and "answered x" and "unclassified x = []"
  shows "well_formed (proposed_plan x)"
proof -
  let ?c = "chain_of x"
  have d: "distinct (''goal'' # ?c)" by (rule chain_distinct [OF assms(1,3)])
  have same: "mset (map pn_id (proposed_nodes x)) = mset (''goal'' # ?c)" unfolding proposed_ids by simp
  have "distinct (map pn_id (proposed_nodes x))"
    using mset_eq_imp_distinct_iff [OF same] d by simp
  moreover have steps: "pn_id ` set (proposed_nodes x) = set (''goal'' # ?c)"
    using mset_eq_setD [OF same] by simp
  moreover have "well_formed_edge (set (''goal'' # ?c)) e" if "e \<in> set (chain_edges ''goal'' ?c)" for e
    using chain_edges_ends [OF that] chain_edges_loopless [OF d that] by (auto simp add: well_formed_edge_def)
  moreover have "well_formed_node (set (''goal'' # ?c)) n" if "n \<in> set (proposed_nodes x)" for n
  proof -
    note deps = proposed_dependencies [OF that]
    have "set (dd_dependencies (pn_dod n)) \<subseteq> set (''goal'' # ?c) - {pn_id n}"
    proof
      fix i assume "i \<in> set (dd_dependencies (pn_dod n))"
      then obtain e where e: "e \<in> set (chain_edges ''goal'' ?c)" "pe_to e = pn_id n" "i = pe_from e"
        by (auto simp add: deps split: if_splits)
      then show "i \<in> set (''goal'' # ?c) - {pn_id n}"
        using chain_edges_ends [OF e(1)] chain_edges_loopless [OF d e(1)] by simp
    qed
    then show ?thesis using proposed_drawn [OF assms(2) that] by (simp add: well_formed_node_def drawn_def)
  qed
  ultimately show ?thesis
    using estimate_well_formed proposed_goal [of x]
    by (simp add: well_formed_def steps_of_def proposed_plan_def ANALYSIS_SCHEMA_VERSION_def)
qed

text \<open>Every step but the first waits for the one before it, and for nothing else.\<close>

lemma proposed_waits:
  assumes "numbered x" and "unclassified x = []" and "n \<in> set (proposed_nodes x)" and "pn_id n = chain_of x ! k"
    and "k < length (chain_of x)"
  shows "dd_dependencies (pn_dod n) = (if k = 0 then [] else [chain_of x ! (k - 1)])"
proof -
  let ?c = "chain_of x"
  have d: "distinct ?c" "''goal'' \<notin> set ?c" using chain_distinct [OF assms(1,2)] by simp_all
  have "pn_kind n \<noteq> GoalNode"
  proof
    assume "pn_kind n = GoalNode"
    then have "pn_id n \<in> set (map pn_id (filter (\<lambda>n. pn_kind n = GoalNode) (proposed_nodes x)))" using assms(3) by simp
    then show False using d(2) assms(4,5) by (simp add: proposed_goal) (metis nth_mem)
  qed
  then have "dd_dependencies (pn_dod n) = (if ?c ! k = hd ?c then [] else before_in ?c (?c ! k))"
    using chain_edges_into [OF d(1,2), of "?c ! k" "''goal''"] assms(4,5) by (simp add: proposed_dependencies [OF assms(3)])
  moreover have "?c ! k = hd ?c \<longleftrightarrow> k = 0"
    using d(1) assms(5) by (metis hd_conv_nth length_0_conv less_nat_zero_code neq0_conv nth_eq_iff_index_eq)
  moreover have "before_in ?c (?c ! k) = [?c ! (k - 1)]" if "0 < k"
  proof -
    have "takeWhile (\<lambda>j. j \<noteq> ?c ! k) ?c = take k ?c"
      using d(1) assms(5) by (intro takeWhile_eq_take_P_nth) (auto simp add: nth_eq_iff_index_eq)
    moreover have ne: "take k ?c \<noteq> []" using that assms(5) by auto
    moreover have "last (take k ?c) = ?c ! (k - 1)" unfolding last_conv_nth [OF ne] using that assms(5) by simp
    ultimately show ?thesis by (auto simp add: before_in_def split: list.split)
  qed
  ultimately show ?thesis by simp
qed

lemma proposed_steps: "steps_of (proposed_plan x) = insert ''goal'' (set (chain_of x))"
  using arg_cong [OF proposed_ids [of x], of set_mset] by (simp add: steps_of_def proposed_plan_def)

lemma validated_numbered:
  assumes "validateForm2WorkflowSteps (pi_steps x) = []"
  shows "numbered x"
proof (cases "pi_steps x = []")
  case False
  then have d: "distinct (map fs_position (pi_steps x))" "contiguous (map fs_position (pi_steps x))"
    using assms by (auto simp add: validateForm2WorkflowSteps_def problem_if_def split: if_splits)
  then have "sort (map fs_position (pi_steps x)) = map int [1..<Suc (length (pi_steps x))]"
    by (simp add: contiguous_def list.rel_eq del: upt_Suc)
  then have "set (map fs_position (pi_steps x)) = int ` {1..<Suc (length (pi_steps x))}" by (metis set_map set_sort set_upt)
  then have "0 \<le> fs_position s" if "s \<in> set (pi_steps x)" for s using that by (metis imageE imageI of_nat_0_le_iff set_map)
  then show ?thesis using d(1) by (simp add: numbered_def)
qed (simp add: numbered_def)

end
