(* ===== verification/Form_Comparison.thy ===== *)
theory Form_Comparison
  imports Objective_Forms
begin

text \<open>
  What the comparison of two versions of an objective reports, against what the two forms show.
\<close>

section \<open>What a form shows\<close>

definition shown_fields :: "form2_objective \<Rightarrow> string option list" where
  "shown_fields c = map (\<lambda>f. displayOf (ff_value f c)) FORM2_OBJECTIVE_FIELDS"

definition shown_cells :: "form2_step \<Rightarrow> string option list" where
  "shown_cells s = map (\<lambda>k. displayOf (wc_value k s)) FORM2_WORKFLOW_COLUMNS"

definition grid :: "form2_step list \<Rightarrow> form2_step list" where
  "grid steps = sort_key fs_position steps"

lemma cell_changed_Nil: "cell_changed key label v w = [] \<longleftrightarrow> displayOf v = displayOf w"
  by (simp add: cell_changed_def)

lemma field_changes_Nil: "field_changes c d = [] \<longleftrightarrow> shown_fields c = shown_fields d"
  by (simp add: field_changes_def shown_fields_def cell_changed_Nil)

lemma cell_changes_Nil: "cell_changes s t = [] \<longleftrightarrow> shown_cells s = shown_cells t"
  by (simp add: cell_changes_def shown_cells_def cell_changed_Nil)

lemma step_diff_Nil:
  "step_diff xs ys p = [] \<longleftrightarrow> map_option shown_cells (step_numbered xs p) = map_option shown_cells (step_numbered ys p)"
  by (simp add: step_diff_def cell_changes_Nil split: option.split)

section \<open>Numbered steps\<close>

lemma map_insort_key: "map f (insort_key f x xs) = insort (f x) (map f xs)"
  by (induction xs) simp_all

lemma map_sort_key: "map f (sort_key f xs) = sort (map f xs)"
  by (induction xs) (simp_all add: map_insort_key)

lemma contiguous_grid:
  assumes "contiguous (map fs_position steps)"
  shows "map fs_position (grid steps) = map int [1..<Suc (length steps)]"
proof -
  have "sort (map fs_position steps) = map int [1..<Suc (length steps)]"
    using assms by (simp add: contiguous_def list.rel_eq del: upt_Suc)
  moreover have "map fs_position (grid steps) = sort (map fs_position steps)"
    by (simp add: grid_def map_sort_key)
  ultimately show ?thesis by simp
qed

lemma length_grid [simp]: "length (grid steps) = length steps"
  by (simp add: grid_def)

lemma grid_position: "contiguous (map fs_position steps) \<Longrightarrow> i < length steps \<Longrightarrow> fs_position (grid steps ! i) = int (Suc i)"
  using arg_cong [OF contiguous_grid, of steps "\<lambda>ps. ps ! i"] by (simp del: upt_Suc)

lemma step_numbered_grid:
  assumes "contiguous (map fs_position steps)"
  shows "step_numbered steps (int (Suc i)) = (if i < length steps then Some (grid steps ! i) else None)"
proof -
  have in_grid: "\<exists>j < length steps. s = grid steps ! j" if "s \<in> set steps" for s
    using that unfolding grid_def by (metis in_set_conv_nth length_sort set_sort)
  have only: "j = i" if "j < length steps" "fs_position (grid steps ! j) = int (Suc i)" for j
    using that grid_position [OF assms, of j] by simp
  show ?thesis
  proof (cases "step_numbered steps (int (Suc i))")
    case None
    then have "\<not> i < length steps"
      using grid_position [OF assms, of i] unfolding step_numbered_def find_None_iff grid_def by (metis length_sort nth_mem set_sort)
    then show ?thesis using None by simp
  next
    case (Some s)
    then have "s \<in> set steps" "fs_position s = int (Suc i)" by (auto simp add: step_numbered_def dest: find_SomeD)
    then show ?thesis using Some in_grid only by (metis (full_types))
  qed
qed

lemma lookup_equal_iff:
  "(\<forall>i < max (length xs) (length ys). (if i < length xs then Some (xs ! i) else None) = (if i < length ys then Some (ys ! i) else None))
   \<longleftrightarrow> xs = ys"
proof
  assume a: "\<forall>i < max (length xs) (length ys). (if i < length xs then Some (xs ! i) else None) = (if i < length ys then Some (ys ! i) else None)"
  have "length xs = length ys"
  proof (rule ccontr)
    assume "length xs \<noteq> length ys"
    then have "min (length xs) (length ys) < max (length xs) (length ys)" by linarith
    then show False using a \<open>length xs \<noteq> length ys\<close> by (auto simp add: min_def max_def split: if_splits)
  qed
  then show "xs = ys" using a by (auto intro: nth_equalityI)
qed auto

lemma step_changes_Nil:
  assumes "contiguous (map fs_position xs)" and "contiguous (map fs_position ys)"
  shows "step_changes xs ys = [] \<longleftrightarrow> map shown_cells (grid xs) = map shown_cells (grid ys)"
proof -
  let ?cells = "\<lambda>steps i. if i < length (map shown_cells (grid steps)) then Some (map shown_cells (grid steps) ! i) else None"
  have at: "map_option shown_cells (step_numbered steps (int (Suc i))) = ?cells steps i" if "contiguous (map fs_position steps)" for steps i
    by (simp only: step_numbered_grid [OF that] length_map length_grid) simp
  have "step_changes xs ys = [] \<longleftrightarrow> (\<forall>i < max (length xs) (length ys). step_diff xs ys (int (Suc i)) = [])"
    unfolding step_changes_def by (simp only: concat_eq_Nil_conv set_map) (auto simp del: of_nat_Suc)
  also have "\<dots> \<longleftrightarrow> (\<forall>i < max (length xs) (length ys). ?cells xs i = ?cells ys i)"
    by (simp only: step_diff_Nil at [OF assms(1)] at [OF assms(2)])
  also have "\<dots> \<longleftrightarrow> map shown_cells (grid xs) = map shown_cells (grid ys)"
    using lookup_equal_iff [of "map shown_cells (grid xs)" "map shown_cells (grid ys)"] by (simp only: length_map length_grid)
  finally show ?thesis .
qed

end
