(* ===== verification/Workflow_Properties.thy ===== *)
theory Workflow_Properties
  imports Workflow_Validity Execution_Order Plan_Proposal Form_Comparison
begin

text \<open>
  Properties of the graph of a workflow and of the forms it is made from.
\<close>

section \<open>Validity\<close>

text \<open>C24. A draft of a workflow is accepted exactly when it is in the current schema, its identifiers are
  distinct, it has one goal and the goal it names is that one, every step has a label and the shape
  of its kind and waits only for other steps of the plan, every edge joins two different steps and
  says its outcome when it is a condition, and the range of its estimate is a range.\<close>

theorem accepted_drafts_are_well_formed:
  "validateWorkflowDraft p = [] \<longleftrightarrow> well_formed p"
  by (rule valid_iff)

section \<open>Adding and deleting a step\<close>

definition sample_done :: definition_of_done where
  "sample_done = \<lparr>dd_expectedOutput = ''r'', dd_criteria = ''c'', dd_evidence = ''e'', dd_dependencies = [], dd_tools = [],
     dd_toolsInferred = None, dd_approval = None, dd_failureCondition = ''f''\<rparr>"

definition sample_node :: "uid \<Rightarrow> AnalysisNodeKind \<Rightarrow> uid list \<Rightarrow> plan_node" where
  "sample_node i k deps =
     \<lparr>pn_id = i, pn_kind = k, pn_label = i, pn_shape = nodeShapeFor k, pn_fromStepPosition = None, pn_owner = None,
      pn_ownerDesignation = None, pn_unmatchedOwnerName = None, pn_skillVersion = None, pn_skillName = None, pn_position = None,
      pn_dod = sample_done\<lparr>dd_dependencies := deps\<rparr>, pn_approvalKind = None, pn_trigger = None\<rparr>"

definition sample_plan :: workflow_plan where
  "sample_plan =
     \<lparr>wp_schemaVersion = 2, wp_goal = ''g'', wp_nodes = [sample_node ''g'' GoalNode [], sample_node ''a'' HumanNode [],
        sample_node ''b'' AiNode [''a'']],
      wp_edges = [\<lparr>pe_from = ''g'', pe_to = ''a'', pe_kind = Sequential, pe_condition = None\<rparr>],
      wp_usage = \<lparr>us_minTokens = 0, us_maxTokens = 0, us_aiNodeCount = 1, us_basis = ''x''\<rparr>, wp_risks = [], wp_gaps = []\<rparr>"

lemma has_node_iff: "has_node i p \<longleftrightarrow> i \<in> steps_of p"
  by (auto simp add: has_node_def list_ex_iff steps_of_def)

text \<open>C21. Adding a step to a valid workflow behind one of its steps, or behind none, keeps it valid, and
  deleting the step just added gives back the workflow as it was, edges and dependencies included.\<close>

theorem added_step_deletes_again:
  assumes "validateWorkflowDraft p = []" and "addNode k label prev p = Inr (e, p')" and "\<And>a. prev = Some a \<Longrightarrow> has_node a p"
  shows "validateWorkflowDraft p' = [] \<and> (\<exists>i e'. eo_node e = Some i \<and> \<not> has_node i p \<and> deleteNode i p' = Inr (e', p))"
proof -
  have wf: "well_formed p" using assms(1) by (simp add: valid_iff)
  note a = addNode_success [OF assms(2)]
  have "a \<in> steps_of p" if "prev = Some a" for a
    using assms(3) [OF that] by (simp add: has_node_iff)
  then have "well_formed p'" unfolding a(3) by (intro grown_well_formed) (use wf a in auto)
  moreover have "\<exists>e'. deleteNode (freshNodeId p k) p' = Inr (e', p)"
  proof -
    have "List.find (\<lambda>n. pn_id n = freshNodeId p k) (wp_nodes p) = None"
      using freshNodeId_fresh [of p k] unfolding find_None_iff steps_of_def by (metis imageI)
    then have "nodeOrThrow p' (freshNodeId p k) = Inr (blank_node (freshNodeId p k) k label)"
      unfolding a(3) by (simp add: nodeOrThrow_def orthrow_def grown_plan_def find_append blank_node_def)
    then show ?thesis
      using a(1) without_grown [OF wf, of k label prev] unfolding a(3) by (simp add: deleteNode_def blank_node_def)
  qed
  moreover have "\<not> has_node (freshNodeId p k) p" by (simp add: has_node_iff freshNodeId_fresh)
  ultimately show ?thesis using a(4) by (auto simp add: valid_iff)
qed

theorem added_step_deletes_again_witness:
  "\<exists>e p'. addNode HumanNode ''Call'' (Some ''a'') sample_plan = Inr (e, p') \<and> validateWorkflowDraft p' = []
     \<and> (\<exists>i e'. eo_node e = Some i \<and> \<not> has_node i sample_plan \<and> deleteNode i p' = Inr (e', sample_plan))"
proof -
  have ok: "validateWorkflowDraft sample_plan = []" by code_simp
  have "isl (addNode HumanNode ''Call'' (Some ''a'') sample_plan) = False" by code_simp
  then obtain x where "addNode HumanNode ''Call'' (Some ''a'') sample_plan = Inr x" by (cases "addNode HumanNode ''Call'' (Some ''a'') sample_plan") auto
  then obtain e p' where add: "addNode HumanNode ''Call'' (Some ''a'') sample_plan = Inr (e, p')" by (cases x) auto
  have "has_node a sample_plan" if "Some ''a'' = Some a" for a
  proof -
    have "has_node ''a'' sample_plan" by code_simp
    then show ?thesis using that by simp
  qed
  then show ?thesis using add added_step_deletes_again [OF ok add] by blast
qed

section \<open>Depth\<close>

text \<open>C22. The depth of a step in a plan without circular dependencies is the length of the longest chain of
  steps it waits for, however often steps share what they wait for.\<close>

theorem depth_is_the_longest_wait:
  assumes "acyclic_plan nodes" and "n \<in> set nodes"
  shows "\<exists>d. executionDepths nodes (pn_id n) = Some d \<and> longest nodes (pn_id n) d"
  by (rule depths_are_longest [OF assms])

theorem depth_is_the_longest_wait_witness:
  "acyclic_plan (wp_nodes sample_plan) \<and> executionDepths (wp_nodes sample_plan) ''b'' = Some 1
     \<and> longest (wp_nodes sample_plan) ''b'' 1"
proof -
  have "waits (wp_nodes sample_plan) i \<noteq> [] \<longrightarrow> i = ''b''" for i
    by (simp add: waits_def node_by_id_def sample_plan_def sample_node_def sample_done_def)
  moreover have "waits (wp_nodes sample_plan) ''b'' = [''a'']" by code_simp
  ultimately have "(i, j) \<in> {(''b'', ''a'')}" if "j \<in> set (waits (wp_nodes sample_plan) i)" for i j
    using that by (cases "i = ''b''") (force, metis empty_iff list.set(1))
  then have "waits_for (wp_nodes sample_plan) \<subseteq> {(''b'', ''a'')}" unfolding waits_for_def by blast
  moreover have "acyclic {(''b'', ''a'')}"
  proof -
    have "acyclic ({} :: (uid \<times> uid) set)" by (rule acyclicI) simp
    then show ?thesis by (simp add: acyclic_insert)
  qed
  ultimately have ac: "acyclic_plan (wp_nodes sample_plan)" unfolding acyclic_plan_def by (rule acyclic_subset [rotated])
  have "executionDepths (wp_nodes sample_plan) ''b'' = Some 1" by code_simp
  moreover have "sample_node ''b'' AiNode [''a''] \<in> set (wp_nodes sample_plan)" by (simp add: sample_plan_def)
  ultimately show ?thesis using ac depth_is_the_longest_wait [OF ac] by (fastforce simp add: sample_node_def)
qed

section \<open>Comparing versions\<close>

definition sample_form :: "string \<Rightarrow> form2_objective" where
  "sample_form name =
     \<lparr>fo_objectiveName = name, fo_department = ''d'', fo_owner = ''u'', fo_expectedFinalResult = ''r'', fo_currentWorkload = None,
      fo_unit = None, fo_targetCompletionTime = Some 3, fo_timeUnit = Some WeeksUnit, fo_preparedBy = None, fo_formDate = None,
      fo_responsibleOwner = Some ''u'', fo_executionTeam = None\<rparr>"

definition sample_step :: "int \<Rightarrow> string \<Rightarrow> StepApprovalKind \<Rightarrow> form2_step" where
  "sample_step k work approval =
     \<lparr>fs_position = k, fs_whoPersonName = Some ''Ada'', fs_whoDesignation = None, fs_whoEngine = EngineEngine, fs_whenTrigger = None,
      fs_whenFrequency = None, fs_whatExactWork = work, fs_inputWhatIsUsed = None, fs_inputReceivedFrom = None,
      fs_whereWorkIsDone = None, fs_outputWhatIsProduced = Some ''list'', fs_outputSentTo = None, fs_timeTaken = None,
      fs_currentProblem = None, fs_approval = approval\<rparr>"

text \<open>C23. Two versions with numbered steps are reported as identical exactly when they show the same value in
  every field of the form and, step by step in the order of their numbers, in every column of the
  grid, with equally many steps.\<close>

theorem identical_versions_show_the_same:
  assumes "contiguous (map fs_position xs)" and "contiguous (map fs_position ys)"
  shows "df_identical (diffObjectiveVersions c xs d ys)
    \<longleftrightarrow> shown_fields c = shown_fields d \<and> map shown_cells (grid xs) = map shown_cells (grid ys)"
  using step_changes_Nil [OF assms] by (simp add: diffObjectiveVersions_def field_changes_Nil)

theorem identical_versions_show_the_same_witness:
  "\<not> df_identical (diffObjectiveVersions (sample_form ''A'') [sample_step 2 ''x'' NotRequiredApproval, sample_step 1 ''y'' HeadApproval]
      (sample_form ''A'') [sample_step 1 ''y'' HeadApproval])
   \<and> map shown_cells (grid [sample_step 2 ''x'' NotRequiredApproval, sample_step 1 ''y'' HeadApproval])
      \<noteq> map shown_cells (grid [sample_step 1 ''y'' HeadApproval])"
proof -
  let ?xs = "[sample_step 2 ''x'' NotRequiredApproval, sample_step 1 ''y'' HeadApproval]" and ?ys = "[sample_step 1 ''y'' HeadApproval]"
  have "contiguous (map fs_position ?xs)" "contiguous (map fs_position ?ys)"
    by (simp_all add: contiguous_def sample_step_def upt_rec)
  moreover have "map shown_cells (grid ?xs) \<noteq> map shown_cells (grid ?ys)"
  proof
    assume "map shown_cells (grid ?xs) = map shown_cells (grid ?ys)"
    then have "length (map shown_cells (grid ?xs)) = length (map shown_cells (grid ?ys))" by (rule arg_cong)
    then show False by simp
  qed
  ultimately show ?thesis using identical_versions_show_the_same by blast
qed

section \<open>What the analysis proposes\<close>

definition sample_analysis :: pipeline_input where
  "sample_analysis =
     \<lparr>pi_name = ''Renewals'', pi_owner = ''u'', pi_result = ''r'', pi_steps = [sample_step 2 ''call'' HeadApproval,
        sample_step 1 ''list'' NotRequiredApproval], pi_team = [],
      pi_classification = [1 \<mapsto> (Some ''export'', Some ''check''), 2 \<mapsto> (None, Some ''call'')], pi_tools = Map.empty,
      pi_route = (\<lambda>s ts. None), pi_people = [], pi_done = Map.empty, pi_promptTokens = 7, pi_realModel = False\<rparr>"

text \<open>C15. For a form whose steps passed validation and a model that classified every step and left no part
  blank, the analysis does not fail: it proposes a valid workflow whatever else the model, the router
  and the directory answered, and in it each step waits for exactly the step before it, the agent's
  part of a step before the person's and both before the approval, in the order of their numbers.\<close>

theorem analysis_proposes_a_valid_chain:
  assumes "validateForm2WorkflowSteps (pi_steps x) = []" and "answered x" and "unclassified x = []"
  shows "run_pipeline x = Inr (proposed_plan x) \<and> validateWorkflowDraft (proposed_plan x) = []
    \<and> steps_of (proposed_plan x) = insert ''goal'' (set (chain_of x))
    \<and> (\<forall>n \<in> set (wp_nodes (proposed_plan x)). \<forall>k < length (chain_of x). pn_id n = chain_of x ! k
          \<longrightarrow> dd_dependencies (pn_dod n) = (if k = 0 then [] else [chain_of x ! (k - 1)]))"
proof -
  have n: "numbered x" by (rule validated_numbered [OF assms(1)])
  have "validateWorkflowDraft (proposed_plan x) = []" using proposed_well_formed [OF n assms(2,3)] by (simp add: valid_iff)
  moreover have "steps_of (proposed_plan x) = insert ''goal'' (set (chain_of x))" by (rule proposed_steps)
  ultimately show ?thesis
    using proposed_waits [OF n assms(3)] assms(3) by (simp add: run_pipeline_def proposed_plan_def)
qed

theorem analysis_proposes_a_valid_chain_witness:
  "run_pipeline sample_analysis = Inr (proposed_plan sample_analysis)
   \<and> chain_of sample_analysis = [''step-1-ai'', ''step-1-human'', ''step-2'', ''approval-2'']
   \<and> (\<exists>n \<in> set (wp_nodes (proposed_plan sample_analysis)). pn_id n = ''approval-2'' \<and> dd_dependencies (pn_dod n) = [''step-2''])"
proof -
  let ?p = "proposed_plan sample_analysis"
  have ok: "validateForm2WorkflowSteps (pi_steps sample_analysis) = []" by code_simp
  have answers: "answered sample_analysis"
    by (simp add: answered_def sample_analysis_def sample_step_def agent_part_def person_part_def blank_iff is_space_def)
  have "unclassified sample_analysis = []" by code_simp
  note all = analysis_proposes_a_valid_chain [OF ok answers this]
  have chain: "chain_of sample_analysis = [''step-1-ai'', ''step-1-human'', ''step-2'', ''approval-2'']" by code_simp
  have "''approval-2'' \<in> steps_of ?p" unfolding all [THEN conjunct2, THEN conjunct2, THEN conjunct1] chain by simp
  then obtain n where n: "''approval-2'' = pn_id n" "n \<in> set (wp_nodes ?p)"
    unfolding steps_of_def by (rule imageE)
  have "dd_dependencies (pn_dod n) = [''step-2'']"
    using bspec [OF all [THEN conjunct2, THEN conjunct2, THEN conjunct2] n(2), rule_format, of 3] n(1) [symmetric] by (simp add: chain)
  then have "\<exists>n \<in> set (wp_nodes ?p). pn_id n = ''approval-2'' \<and> dd_dependencies (pn_dod n) = [''step-2'']"
    using n(2) n(1) [symmetric] by (intro bexI [of _ n] conjI)
  then show ?thesis using all [THEN conjunct1] chain by (intro conjI)
qed

end
