(* ===== verification/Objective_Closure.thy ===== *)
theory Objective_Closure
  imports Objective_Service
begin

text \<open>
  \<open>src/apps/api/src/objectives/objective-closure.service.ts\<close> and \<open>packages/types/src/objective-closure.ts\<close>:
  pausing a live objective, completing it, comparing what it promised with what happened, the
  review, its sign-off, closing and archiving.
\<close>

section \<open>Rules\<close>

definition verdictRequiresExplanation :: "OutcomeVerdict \<Rightarrow> bool" where
  "verdictRequiresExplanation v \<longleftrightarrow> v \<noteq> VerdictMet"

definition MIN_OUTCOME_EXPLANATION_LENGTH :: nat where
  "MIN_OUTCOME_EXPLANATION_LENGTH = 40"

fun verdict_name :: "OutcomeVerdict \<Rightarrow> string" where
  "verdict_name VerdictMet = ''Met''"
| "verdict_name VerdictPartiallyMet = ''PartiallyMet''"
| "verdict_name VerdictNotMet = ''NotMet''"
| "verdict_name VerdictSuperseded = ''Superseded''"

fun sla_name :: "SlaOutcome \<Rightarrow> string" where
  "sla_name SlaOnTime = ''OnTime''"
| "sla_name SlaLate = ''Late''"
| "sla_name SlaUnknown = ''Unknown''"

fun pause_reason_name :: "PauseReason \<Rightarrow> string" where
  "pause_reason_name WaitingOnSomebody = ''WaitingOnSomebody''"
| "pause_reason_name WaitingOnBudget = ''WaitingOnBudget''"
| "pause_reason_name Deprioritised = ''Deprioritised''"
| "pause_reason_name BeingRethought = ''BeingRethought''"
| "pause_reason_name OtherPauseReason = ''Other''"

fun policy_name :: "ClosureSignOffPolicy \<Rightarrow> string" where
  "policy_name NeverSignOff = ''Never''"
| "policy_name OwnerSignOff = ''OwnerSignOff''"
| "policy_name ApprovalSignOff = ''Approval''"

definition DEFAULT_CLOSURE_SIGN_OFF_POLICY :: ClosureSignOffPolicy where
  "DEFAULT_CLOSURE_SIGN_OFF_POLICY = OwnerSignOff"

definition slaOutcome :: "instant option \<Rightarrow> instant option \<Rightarrow> SlaOutcome \<times> int option" where
  "slaOutcome target completed =
     (case (target, completed) of
        (Some t, Some c) \<Rightarrow>
          if c - t \<le> 0 then (SlaOnTime, Some 0) else (SlaLate, Some \<lceil>js_div (c - t) 86400000\<rceil>)
      | _ \<Rightarrow> (SlaUnknown, None))"

datatype review_problem = OpenTasks nat nat | UnresolvedExceptions nat nat | NoCompletionDate

record review_readiness =
  rr_ready :: bool
  rr_outstanding :: "review_problem list"
  rr_blocking :: "review_problem list"

definition readinessForReview :: "outcome_comparison \<Rightarrow> review_readiness" where
  "readinessForReview c =
     (let tasks = problem_if (oc_humanTasksCompleted c < oc_humanTasksTotal c)
            (OpenTasks (oc_humanTasksTotal c - oc_humanTasksCompleted c) (oc_humanTasksTotal c));
          exceptions = problem_if (0 < oc_exceptionsUnresolved c) (UnresolvedExceptions (oc_exceptionsUnresolved c) (oc_exceptionsTotal c));
          date = problem_if (oc_completedAt c = None) NoCompletionDate
      in \<lparr>rr_ready = (tasks @ date = []), rr_outstanding = tasks @ exceptions @ date, rr_blocking = tasks @ date\<rparr>)"

definition decideClosure :: "ClosureSignOffPolicy \<Rightarrow> uid \<Rightarrow> uid \<Rightarrow> uid option \<Rightarrow> uid option \<Rightarrow> closure_error + unit" where
  "decideClosure policy actor owner signedOff approval =
     (case policy of
        NeverSignOff \<Rightarrow> Inr ()
      | OwnerSignOff \<Rightarrow> check_that (actor = owner \<or> signedOff = Some owner) ClosureNotSigned
      | ApprovalSignOff \<Rightarrow> check_that (approval \<noteq> None) ClosureNotApproved)"

definition statusStartsNewWork :: "ObjectiveStatus \<Rightarrow> bool" where
  "statusStartsNewWork s \<longleftrightarrow> s = ObjectiveActive"

definition CLOSED_OBJECTIVE_STATUSES :: "ObjectiveStatus list" where
  "CLOSED_OBJECTIVE_STATUSES = [ObjectiveCompleted, ObjectiveOutcomeReview, ObjectiveClosed, ObjectiveArchived]"

definition isObjectiveFinished :: "ObjectiveStatus \<Rightarrow> bool" where
  "isObjectiveFinished s \<longleftrightarrow> s \<in> set CLOSED_OBJECTIVE_STATUSES"

section \<open>Finding a version\<close>

definition latest_where :: "uid \<Rightarrow> uid \<Rightarrow> (ObjectiveStatus \<Rightarrow> bool) \<Rightarrow> work_state \<Rightarrow> version_row option" where
  "latest_where tenant i P st =
     (case sort_key (\<lambda>v. - int (ov_number v))
         (filter (\<lambda>v. ov_tenant v = tenant \<and> ov_objective v = i \<and> P (ov_status v)) (wk_versions st)) of
        [] \<Rightarrow> None | v # _ \<Rightarrow> Some v)"

definition liveVersion :: "uid \<Rightarrow> uid \<Rightarrow> work_state \<Rightarrow> work_error + version_row" where
  "liveVersion tenant i st =
     orthrow (InClosure NoLiveVersion) (latest_where tenant i (\<lambda>s. s = ObjectiveActive \<or> s = ObjectivePaused) st)"

definition versionInStatus :: "uid \<Rightarrow> uid \<Rightarrow> ObjectiveStatus \<Rightarrow> work_state \<Rightarrow> work_error + version_row" where
  "versionInStatus tenant i s st = orthrow (InObjective (NoVersionInStatus s)) (latest_where tenant i (\<lambda>x. x = s) st)"

definition review_of :: "uid \<Rightarrow> uid \<Rightarrow> work_state \<Rightarrow> outcome_review option" where
  "review_of tenant v st = List.find (\<lambda>r. or_tenant r = tenant \<and> or_objectiveVersion r = v) (wk_reviews st)"

definition openReview :: "uid \<Rightarrow> uid \<Rightarrow> work_state \<Rightarrow> work_error + (outcome_review \<times> version_row)" where
  "openReview tenant i st =
     bind_result (orthrow (InClosure NoReview) (latest_where tenant i (\<lambda>s. s = ObjectiveOutcomeReview) st)) (\<lambda>v.
       map_sum id (\<lambda>r. (r, v)) (orthrow (InClosure NoReview) (review_of tenant (ov_id v) st)))"

section \<open>Pausing\<close>

definition open_pause :: "uid \<Rightarrow> uid \<Rightarrow> work_state \<Rightarrow> pause_row option" where
  "open_pause tenant i st = List.find (\<lambda>p. pz_tenant p = tenant \<and> pz_objective p = i \<and> pz_resumedAt p = None) (wk_pauses st)"

definition new_pause :: "uid \<Rightarrow> uid \<Rightarrow> uid \<Rightarrow> instant \<Rightarrow> uid \<Rightarrow> PauseReason \<Rightarrow> string \<Rightarrow> pause_row" where
  "new_pause newId tenant actor now i k reason =
     \<lparr>pz_id = newId, pz_tenant = tenant, pz_objective = i, pz_reasonKind = k, pz_reason = reason, pz_pausedBy = actor,
      pz_pausedAt = now, pz_resumedBy = None, pz_resumedAt = None, pz_resumeNote = None\<rparr>"

definition closure_audit :: "string \<Rightarrow> uid \<Rightarrow> uid \<Rightarrow> nat option \<Rightarrow> string \<Rightarrow> TrailMetadata \<Rightarrow> AuditEventInput" where
  "closure_audit action actor i version summary metadata = audit_of action ''objective'' i (Some actor) None version summary metadata"

definition paused_audit :: "uid \<Rightarrow> uid \<Rightarrow> pause_row \<Rightarrow> version_row \<Rightarrow> AuditEventInput" where
  "paused_audit actor i p v =
     closure_audit ''objective.paused'' actor i None (''Paused: '' @ pz_reason p)
       [(''reasonKind'', JString (pause_reason_name (pz_reasonKind p))), (''reason'', JString (pz_reason p)),
        (''versionId'', JString (ov_id v)), (''versionNumber'', JNumber (int (ov_number v)))]"

definition pause_objective ::
  "work_env \<Rightarrow> uid \<Rightarrow> uid \<Rightarrow> instant \<Rightarrow> uid \<Rightarrow> PauseReason \<Rightarrow> string \<Rightarrow> work_state \<Rightarrow> work_error + work_state" where
  "pause_objective env tenant actor now i k reason st =
     bind_result (permit env (context_of env tenant actor now) ''objective'' ActPublish None []) (\<lambda>_.
     bind_result (check_that (4 \<le> length (trim reason)) (InClosure PauseNeedsReason)) (\<lambda>_.
     bind_result (liveVersion tenant i st) (\<lambda>v.
     bind_result (assert_transition v ObjectivePaused) (\<lambda>_.
     bind_result (check_that (open_pause tenant i st = None) (InClosure AlreadyPaused)) (\<lambda>_.
       let p = new_pause (next_id st) tenant actor now i k reason
       in Inr (append_audit tenant (paused_audit actor i p v)
            (write_version (ov_id v) (with_status ObjectivePaused) (issue (st\<lparr>wk_pauses := wk_pauses st @ [p]\<rparr>)))))))))"

definition daysBetween :: "instant \<Rightarrow> instant \<Rightarrow> int" where
  "daysBetween start now = max 0 \<lfloor>js_div (now - start) 86400000\<rfloor>"

definition resumed :: "uid \<Rightarrow> instant \<Rightarrow> string option \<Rightarrow> pause_row \<Rightarrow> pause_row" where
  "resumed actor now n p =
     p\<lparr>pz_resumedAt := Some now, pz_resumedBy := Some actor,
       pz_resumeNote := (case n of None \<Rightarrow> pz_resumeNote p | Some t \<Rightarrow> if blank t then pz_resumeNote p else Some (trim t))\<rparr>"

definition resumed_audit :: "uid \<Rightarrow> uid \<Rightarrow> instant \<Rightarrow> string option \<Rightarrow> pause_row \<Rightarrow> AuditEventInput" where
  "resumed_audit actor i now n p =
     closure_audit ''objective.resumed'' actor i None
       (''Resumed after '' @ show_int (daysBetween (pz_pausedAt p) now) @ '' day(s) stopped.''
        @ (case n of None \<Rightarrow> [] | Some t \<Rightarrow> '' '' @ t))
       [(''pauseId'', JString (pz_id p)), (''reasonKind'', JString (pause_reason_name (pz_reasonKind p))),
        (''daysStopped'', JNumber (daysBetween (pz_pausedAt p) now))]"

definition write_pause :: "uid \<Rightarrow> (pause_row \<Rightarrow> pause_row) \<Rightarrow> work_state \<Rightarrow> work_state" where
  "write_pause i f st = st\<lparr>wk_pauses := update_where (\<lambda>p. pz_id p = i) f (wk_pauses st)\<rparr>"

text \<open>The index \<open>one_active_version_per_objective\<close> refuses a second live version.\<close>

definition resume_objective ::
  "work_env \<Rightarrow> uid \<Rightarrow> uid \<Rightarrow> instant \<Rightarrow> uid \<Rightarrow> string option \<Rightarrow> work_state \<Rightarrow> work_error + work_state" where
  "resume_objective env tenant actor now i n st =
     bind_result (permit env (context_of env tenant actor now) ''objective'' ActPublish None []) (\<lambda>_.
     bind_result (versionInStatus tenant i ObjectivePaused st) (\<lambda>v.
     bind_result (orthrow (InClosure NoOpenPause) (open_pause tenant i st)) (\<lambda>p.
     bind_result (check_that (active_version tenant i st = None) (InClosure AnotherVersionActive)) (\<lambda>_.
       Inr (append_audit tenant (resumed_audit actor i now n p)
              (write_version (ov_id v) (with_status ObjectiveActive) (write_pause (pz_id p) (resumed actor now n) st)))))))"

definition pauses_of ::
  "work_env \<Rightarrow> uid \<Rightarrow> uid \<Rightarrow> instant \<Rightarrow> uid \<Rightarrow> work_state \<Rightarrow> work_error + (pause_row \<times> int option) list" where
  "pauses_of env tenant actor now i st =
     bind_result (permit env (context_of env tenant actor now) ''objective'' ActView None []) (\<lambda>_.
       Inr (map (\<lambda>p. (p, map_option (daysBetween (pz_pausedAt p)) (pz_resumedAt p)))
         (sort_key (\<lambda>p. - pz_pausedAt p) (filter (\<lambda>p. pz_tenant p = tenant \<and> pz_objective p = i) (wk_pauses st)))))"

section \<open>What was promised and what happened\<close>

text \<open>The days in a unit of the target; a unit that is not in the table gives no date.\<close>

definition target_days :: "string \<Rightarrow> rat option" where
  "target_days u = map_of [(''Hours'', js_div 1 24), (''Days'', 1), (''Weeks'', 7), (''Months'', 30), (''Quarters'', 91), (''Years'', 365)] u"

definition targetDate :: "version_row \<Rightarrow> work_error + instant option" where
  "targetDate v =
     (case (fo_targetCompletionTime (ov_content v), fo_timeUnit (ov_content v), ov_publishedAt v) of
        (Some n, Some u, Some live) \<Rightarrow>
          (case target_days (time_unit_name u) of
             None \<Rightarrow> Inr None
           | Some d \<Rightarrow>
               (let t = js_trunc (fl (of_int live + fl (fl (of_int n * d) * 86400000)))
                in if \<bar>t\<bar> \<le> 8640000000000000 then Inr (Some t) else Inl (InClosure TargetDateOutOfRange)))
      | _ \<Rightarrow> Inr None)"

definition task_minutes :: "task_row \<Rightarrow> int option" where
  "task_minutes t =
     (case (tk_startedAt t, tk_completedAt t) of
        (Some s, Some c) \<Rightarrow> Some (max 0 (js_round (js_div (c - s) 60000)))
      | _ \<Rightarrow> None)"

definition comparison_of ::
  "work_env \<Rightarrow> uid \<Rightarrow> version_row \<Rightarrow> instant option \<Rightarrow> task_row list \<Rightarrow> outcome_comparison" where
  "comparison_of env i v target tasks =
     (let minutes = List.map_filter task_minutes tasks; finishes = List.map_filter id (we_runs env i) in
      \<lparr>oc_expectedFinalResult = fo_expectedFinalResult (ov_content v), oc_targetDate = target,
       oc_completedAt = (if finishes = [] then None else Some (Max (set finishes))),
       oc_humanTasksTotal = length tasks, oc_humanTasksCompleted = length (filter (\<lambda>t. ht_status t = TaskCompleted) tasks),
       oc_humanElapsedMinutes = (if minutes = [] then None else Some (sum_list minutes)),
       oc_aiCostMinor = sum_list (map fst (we_settled env i)),
       oc_aiCostCurrency = (case we_settled env i of [] \<Rightarrow> ''INR'' | (a, c) # _ \<Rightarrow> c),
       oc_agentRunsTotal = length (we_runs env i), oc_exceptionsTotal = length (we_exceptions env i),
       oc_exceptionsUnresolved = length (filter id (we_exceptions env i))\<rparr>)"

definition compare_outcome :: "work_env \<Rightarrow> uid \<Rightarrow> uid \<Rightarrow> version_row \<Rightarrow> work_state \<Rightarrow> work_error + outcome_comparison" where
  "compare_outcome env tenant i v st =
     map_sum id (\<lambda>target. comparison_of env i v target (filter (\<lambda>t. ht_tenant t = tenant \<and> ht_objective t = i) (wk_tasks st)))
       (targetDate v)"

section \<open>Completing\<close>

definition completed_audit :: "uid \<Rightarrow> uid \<Rightarrow> version_row \<Rightarrow> outcome_comparison \<Rightarrow> AuditEventInput" where
  "completed_audit actor i v c =
     closure_audit ''objective.completed'' actor i (Some (Suc (ov_version v))) (v_name v @ '' completed.'')
       [(''versionId'', JString (ov_id v)), (''versionNumber'', JNumber (int (ov_number v))),
        (''humanTasksCompleted'', JNumber (int (oc_humanTasksCompleted c))), (''humanTasksTotal'', JNumber (int (oc_humanTasksTotal c))),
        (''exceptionsUnresolved'', JNumber (int (oc_exceptionsUnresolved c)))]"

definition complete_objective ::
  "work_env \<Rightarrow> uid \<Rightarrow> uid \<Rightarrow> instant \<Rightarrow> uid \<Rightarrow> work_state \<Rightarrow> work_error + (review_readiness \<times> work_state)" where
  "complete_objective env tenant actor now i st =
     bind_result (permit env (context_of env tenant actor now) ''objective'' ActPublish None []) (\<lambda>_.
     bind_result (liveVersion tenant i st) (\<lambda>v.
     bind_result (assert_transition v ObjectiveCompleted) (\<lambda>_.
     bind_result (compare_outcome env tenant i v st) (\<lambda>c.
       Inr (readinessForReview c, append_audit tenant (completed_audit actor i v c)
              (write_version (ov_id v) (with_status ObjectiveCompleted) st))))))"

definition readiness ::
  "work_env \<Rightarrow> uid \<Rightarrow> uid \<Rightarrow> instant \<Rightarrow> uid \<Rightarrow> work_state \<Rightarrow> work_error + (outcome_comparison \<times> review_readiness)" where
  "readiness env tenant actor now i st =
     bind_result (permit env (context_of env tenant actor now) ''objective'' ActView None []) (\<lambda>_.
     bind_result (orthrow (InClosure NoLiveVersion)
         (latest_where tenant i (\<lambda>s. s \<in> {ObjectiveCompleted, ObjectiveOutcomeReview, ObjectiveClosed}) st)) (\<lambda>v.
       map_sum id (\<lambda>c. (c, readinessForReview c)) (compare_outcome env tenant i v st)))"

section \<open>Reviewing\<close>

definition signOffPolicy :: "work_env \<Rightarrow> ClosureSignOffPolicy" where
  "signOffPolicy env =
     (case we_signOff env of
        None \<Rightarrow> DEFAULT_CLOSURE_SIGN_OFF_POLICY
      | Some s \<Rightarrow> if s = ''Never'' then NeverSignOff else if s = ''OwnerSignOff'' then OwnerSignOff
                  else if s = ''Approval'' then ApprovalSignOff else DEFAULT_CLOSURE_SIGN_OFF_POLICY)"

definition unsaid :: "string \<Rightarrow> bool" where
  "unsaid result \<longleftrightarrow> length (trim result) < 10"

definition unexplained :: "OutcomeVerdict \<Rightarrow> string option \<Rightarrow> bool" where
  "unexplained v explanation \<longleftrightarrow>
     verdictRequiresExplanation v \<and> length (trim (case explanation of None \<Rightarrow> [] | Some e \<Rightarrow> e)) < MIN_OUTCOME_EXPLANATION_LENGTH"

definition new_review ::
  "uid \<Rightarrow> uid \<Rightarrow> uid \<Rightarrow> instant \<Rightarrow> uid \<Rightarrow> version_row \<Rightarrow> OutcomeVerdict \<Rightarrow> string \<Rightarrow> string option \<Rightarrow> outcome_comparison
   \<Rightarrow> ClosureSignOffPolicy \<Rightarrow> outcome_review" where
  "new_review newId tenant actor now i v verdict result explanation c policy =
     \<lparr>or_id = newId, or_tenant = tenant, or_objective = i, or_objectiveVersion = ov_id v, or_verdict = verdict,
      or_actualResult = trim result,
      or_explanation = (case explanation of None \<Rightarrow> None | Some e \<Rightarrow> if blank e then None else Some (trim e)),
      or_slaOutcome = fst (slaOutcome (oc_targetDate c) (oc_completedAt c)),
      or_daysLate = snd (slaOutcome (oc_targetDate c) (oc_completedAt c)), or_comparison = c, or_signOffPolicy = policy,
      or_reviewedBy = actor, or_reviewedAt = now, or_signedOffAt = None, or_signedOffBy = None, or_approvalRequest = None,
      or_closedAt = None, or_closedBy = None\<rparr>"

definition outcome_audit :: "uid \<Rightarrow> uid \<Rightarrow> outcome_review \<Rightarrow> AuditEventInput" where
  "outcome_audit actor i r =
     closure_audit ''objective.outcome_reviewed'' actor i None
       (''Outcome reviewed: '' @ verdict_name (or_verdict r) @ '', '' @ sla_name (or_slaOutcome r) @ ''.'')
       [(''verdict'', JString (verdict_name (or_verdict r))), (''slaOutcome'', JString (sla_name (or_slaOutcome r))),
        (''daysLate'', (case or_daysLate r of None \<Rightarrow> JNull | Some n \<Rightarrow> JNumber n)),
        (''versionId'', JString (or_objectiveVersion r)),
        (''exceptionsUnresolved'', JNumber (int (oc_exceptionsUnresolved (or_comparison r)))),
        (''aiCostMinor'', JNumber (oc_aiCostMinor (or_comparison r))), (''signOffPolicy'', JString (policy_name (or_signOffPolicy r)))]"

text \<open>The index on the version of a review refuses a second review of it.\<close>

definition review_outcome ::
  "work_env \<Rightarrow> uid \<Rightarrow> uid \<Rightarrow> instant \<Rightarrow> uid \<Rightarrow> OutcomeVerdict \<Rightarrow> string \<Rightarrow> string option \<Rightarrow> work_state
   \<Rightarrow> work_error + (outcome_review \<times> work_state)" where
  "review_outcome env tenant actor now i verdict result explanation st =
     bind_result (permit env (context_of env tenant actor now) ''objective'' ActApprove None []) (\<lambda>_.
     bind_result (check_that (\<not> unsaid result \<and> \<not> unexplained verdict explanation)
         (InClosure (ReviewProblems (unsaid result) (unexplained verdict explanation)))) (\<lambda>_.
     bind_result (versionInStatus tenant i ObjectiveCompleted st) (\<lambda>v.
     bind_result (assert_transition v ObjectiveOutcomeReview) (\<lambda>_.
     bind_result (compare_outcome env tenant i v st) (\<lambda>c.
     bind_result (check_that (rr_ready (readinessForReview c))
         (InClosure (NotReadyForReview (oc_humanTasksCompleted c < oc_humanTasksTotal c) (oc_completedAt c = None)))) (\<lambda>_.
     bind_result (check_that (review_of tenant (ov_id v) st = None) (InClosure AlreadyReviewed)) (\<lambda>_.
       let r = new_review (next_id st) tenant actor now i v verdict result explanation c (signOffPolicy env)
       in Inr (r, append_audit tenant (outcome_audit actor i r)
                 (write_version (ov_id v) (with_status ObjectiveOutcomeReview)
                    (issue (st\<lparr>wk_reviews := wk_reviews st @ [r]\<rparr>)))))))))))"

section \<open>Signing off and closing\<close>

definition write_review :: "uid \<Rightarrow> (outcome_review \<Rightarrow> outcome_review) \<Rightarrow> work_state \<Rightarrow> work_state" where
  "write_review i f st = st\<lparr>wk_reviews := update_where (\<lambda>r. or_id r = i) f (wk_reviews st)\<rparr>"

definition owner_signed :: "uid \<Rightarrow> instant \<Rightarrow> outcome_review \<Rightarrow> outcome_review" where
  "owner_signed actor now r = r\<lparr>or_signedOffAt := Some now, or_signedOffBy := Some actor\<rparr>"

definition signed_audit :: "uid \<Rightarrow> uid \<Rightarrow> outcome_review \<Rightarrow> AuditEventInput" where
  "signed_audit actor i r =
     closure_audit ''objective.outcome_signed_off'' actor i (Some 2)
       (''The owner signed off the outcome review ('' @ verdict_name (or_verdict r) @ '').'')
       [(''reviewId'', JString (or_id r)), (''verdict'', JString (verdict_name (or_verdict r)))]"

definition sign_off ::
  "work_env \<Rightarrow> uid \<Rightarrow> uid \<Rightarrow> instant \<Rightarrow> uid \<Rightarrow> work_state \<Rightarrow> work_error + (outcome_review \<times> work_state)" where
  "sign_off env tenant actor now i st =
     bind_result (permit env (context_of env tenant actor now) ''objective'' ActView None []) (\<lambda>_.
     bind_result (openReview tenant i st) (\<lambda>(r, v).
     bind_result (check_that (actor = fo_owner (ov_content v)) (InClosure NotTheOwner)) (\<lambda>_.
     bind_result (check_that (or_signedOffAt r = None) (InClosure AlreadySignedOff)) (\<lambda>_.
       Inr (owner_signed actor now r, append_audit tenant (signed_audit actor i r)
              (write_review (or_id r) (owner_signed actor now) st))))))"

definition closed_review :: "uid \<Rightarrow> instant \<Rightarrow> uid option \<Rightarrow> outcome_review \<Rightarrow> outcome_review" where
  "closed_review actor now approval r =
     r\<lparr>or_closedAt := Some now, or_closedBy := Some actor,
       or_approvalRequest := (if approval = None then or_approvalRequest r else approval)\<rparr>"

definition closed_audit :: "uid \<Rightarrow> uid \<Rightarrow> outcome_review \<Rightarrow> AuditEventInput" where
  "closed_audit actor i r =
     closure_audit ''objective.closed'' actor i (Some (if or_signedOffAt r = None then 2 else 3))
       (''Closed with a '' @ quoted (verdict_name (or_verdict r)) @ '' outcome.'')
       [(''reviewId'', JString (or_id r)), (''verdict'', JString (verdict_name (or_verdict r))),
        (''signOffPolicy'', JString (policy_name (or_signOffPolicy r))), (''signedOffByUserId'', jtext (or_signedOffBy r)),
        (''approvalRequestId'', jtext (or_approvalRequest r))]"

definition close_objective ::
  "work_env \<Rightarrow> uid \<Rightarrow> uid \<Rightarrow> instant \<Rightarrow> uid \<Rightarrow> uid option \<Rightarrow> work_state \<Rightarrow> work_error + (outcome_review \<times> work_state)" where
  "close_objective env tenant actor now i approval st =
     bind_result (permit env (context_of env tenant actor now) ''objective'' ActPublish None []) (\<lambda>_.
     bind_result (openReview tenant i st) (\<lambda>(r, v).
     bind_result (check_that (or_closedAt r = None) (InClosure AlreadyClosed)) (\<lambda>_.
     bind_result (map_sum InClosure id (decideClosure (or_signOffPolicy r) actor (fo_owner (ov_content v)) (or_signedOffBy r)
         (if approval = None then or_approvalRequest r else approval))) (\<lambda>_.
       let r' = closed_review actor now approval r
       in Inr (r', append_audit tenant (closed_audit actor i r')
                 (write_version (ov_id v) (with_status ObjectiveClosed)
                    (write_review (or_id r) (closed_review actor now approval) st)))))))"

section \<open>Archiving\<close>

definition archived_audit :: "uid \<Rightarrow> uid \<Rightarrow> version_row \<Rightarrow> AuditEventInput" where
  "archived_audit actor i v =
     closure_audit ''objective.archived'' actor i None
       (''Archived from '' @ (if ov_status v = ObjectiveCompleted then ''Completed'' else ''Closed'') @ ''.''
        @ (if ov_status v = ObjectiveCompleted
           then '' It was archived without an outcome review, which is permitted and recorded.'' else []))
       [(''versionId'', JString (ov_id v)), (''versionNumber'', JNumber (int (ov_number v))),
        (''archivedFrom'', JString (if ov_status v = ObjectiveCompleted then ''Completed'' else ''Closed'')),
        (''reviewed'', JBool (ov_status v = ObjectiveClosed))]"

definition archive_objective ::
  "work_env \<Rightarrow> uid \<Rightarrow> uid \<Rightarrow> instant \<Rightarrow> uid \<Rightarrow> work_state \<Rightarrow> work_error + work_state" where
  "archive_objective env tenant actor now i st =
     bind_result (permit env (context_of env tenant actor now) ''objective'' ActPublish None []) (\<lambda>_.
     bind_result (orthrow (InClosure NoLiveVersion) (latest_where tenant i (\<lambda>s. s = ObjectiveClosed \<or> s = ObjectiveCompleted) st)) (\<lambda>v.
     bind_result (assert_transition v ObjectiveArchived) (\<lambda>_.
       Inr (append_audit tenant (archived_audit actor i v)
         (let st1 = write_version (ov_id v) archive_version st
          in st1\<lparr>wk_objectives := update_where (\<lambda>o'. ob_tenant o' = tenant \<and> ob_id o' = i \<and> ob_activeVersion o' = Some (ov_id v))
                (\<lambda>o'. o'\<lparr>ob_activeVersion := None\<rparr>) (wk_objectives st1)\<rparr>)))))"

definition review_for ::
  "work_env \<Rightarrow> uid \<Rightarrow> uid \<Rightarrow> instant \<Rightarrow> uid \<Rightarrow> work_state \<Rightarrow> work_error + outcome_review option" where
  "review_for env tenant actor now i st =
     bind_result (permit env (context_of env tenant actor now) ''objective'' ActView None []) (\<lambda>_.
       Inr (case sort_key (\<lambda>r. - or_reviewedAt r) (filter (\<lambda>r. or_tenant r = tenant \<and> or_objective r = i) (wk_reviews st)) of
              [] \<Rightarrow> None | r # _ \<Rightarrow> Some r))"

end
