(* ===== verification/Company_Steps.thy ===== *)
theory Company_Steps
  imports Objective_Closure Objective_Analysis Workflow_Validity
begin

text \<open>
  What the people of a company do to its objectives, and what the analysis does on their behalf, as
  steps of one state that the operations on tasks and approvals share.  \<open>approveAndAssign\<close> is two
  steps: the workflow is loaded and checked, then the work is handed out; anything may happen in
  between.
\<close>

section \<open>Changes of a workflow\<close>

datatype plan_change =
    ChangeNode uid node_patch
  | PlaceNode uid "(rat \<times> rat) option"
  | ClearLayout
  | TurnNode uid AnalysisNodeKind
  | DependOn uid "uid list"
  | Reconnect "plan_edge list"
  | NewNode AnalysisNodeKind string "uid option"
  | RemoveNode uid

fun change_of :: "plan_change \<Rightarrow> plan_edit" where
  "change_of (ChangeNode i q) = editNode i q"
| "change_of (PlaceNode i target) = moveNode i target"
| "change_of ClearLayout = resetLayout"
| "change_of (TurnNode i k) = convertNode i k"
| "change_of (DependOn i deps) = setDependencies i deps"
| "change_of (Reconnect edges) = setEdges edges"
| "change_of (NewNode k label prev) = addNode k label prev"
| "change_of (RemoveNode i) = deleteNode i"

section \<open>Operations\<close>

datatype objective_act =
    CreateObjective "string option" form2_objective "form2_step list"
  | SaveDraft uid "uid option" form2_objective "form2_step list"
  | Submit uid "uid option"
  | ConfirmTeam uid "uid option" "string option"
  | SendBackVersion uid "uid option" string
  | CompleteReview uid "uid option"
  | ApproveVersion uid "uid option" "string option"
  | PublishVersion uid "uid option"
  | StartDraft uid "uid option" VersionOrigin
  | Rollback uid uid string
  | SaveReward uid reward_panel

datatype closure_act =
    Pause uid PauseReason string
  | Resume uid "string option"
  | Complete uid
  | Review uid OutcomeVerdict string "string option"
  | SignOff uid
  | Close uid "uid option"
  | ArchiveObjective uid

datatype workflow_act =
    OpenWorkflow uid "uid option"
  | EditWorkflow uid "uid option" nat plan_change
  | ReseedWorkflow uid "uid option" nat
  | LoadAssignment uid "uid option" bool

datatype analysis_act =
    StartAnalysis string bool uid "uid option"
  | EnterStage uid AnalysisStage
  | FinishAnalysis string uid workflow_plan
  | FailAnalysis uid string
  | CancelAnalysis uid

datatype company_op =
    TasksOp work_op
  | ObjectiveOp work_env uid uid instant objective_act
  | ClosureOp work_env uid uid instant closure_act
  | WorkflowOp work_env uid uid instant workflow_act
  | AnalysisOp work_env uid uid instant analysis_act
  | HandOutOp work_env instant nat

fun objective_step :: "work_env \<Rightarrow> uid \<Rightarrow> uid \<Rightarrow> instant \<Rightarrow> objective_act \<Rightarrow> work_state \<Rightarrow> work_error + work_state" where
  "objective_step env t u now (CreateObjective code c steps) st = map_sum id snd (create_objective env t u now code c steps st)"
| "objective_step env t u now (SaveDraft i v c steps) st = map_sum id snd (updateDraft env t u now i v c steps st)"
| "objective_step env t u now (Submit i v) st = map_sum id snd (submitForReview env t u now i v st)"
| "objective_step env t u now (ConfirmTeam i v team) st = map_sum id snd (confirmExecutionTeam env t u now i v team st)"
| "objective_step env t u now (SendBackVersion i v reason) st = map_sum id snd (sendBack env t u now i v reason st)"
| "objective_step env t u now (CompleteReview i v) st = map_sum id snd (completeReview env t u now i v st)"
| "objective_step env t u now (ApproveVersion i v reason) st = map_sum id snd (approve_objective env t u now i v reason st)"
| "objective_step env t u now (PublishVersion i v) st = map_sum id snd (publish_objective env t u now i v st)"
| "objective_step env t u now (StartDraft i v origin') st = map_sum id snd (startNewDraft env t u now i v origin' st)"
| "objective_step env t u now (Rollback i v reason) st = map_sum id snd (rollbackTo env t u now i v reason st)"
| "objective_step env t u now (SaveReward i p) st = map_sum id snd (saveReward env t u now i p st)"

fun closure_step :: "work_env \<Rightarrow> uid \<Rightarrow> uid \<Rightarrow> instant \<Rightarrow> closure_act \<Rightarrow> work_state \<Rightarrow> work_error + work_state" where
  "closure_step env t u now (Pause i k reason) st = pause_objective env t u now i k reason st"
| "closure_step env t u now (Resume i n) st = resume_objective env t u now i n st"
| "closure_step env t u now (Complete i) st = map_sum id snd (complete_objective env t u now i st)"
| "closure_step env t u now (Review i v result explanation) st = map_sum id snd (review_outcome env t u now i v result explanation st)"
| "closure_step env t u now (SignOff i) st = map_sum id snd (sign_off env t u now i st)"
| "closure_step env t u now (Close i approval) st = map_sum id snd (close_objective env t u now i approval st)"
| "closure_step env t u now (ArchiveObjective i) st = archive_objective env t u now i st"

fun workflow_step :: "work_env \<Rightarrow> uid \<Rightarrow> uid \<Rightarrow> instant \<Rightarrow> workflow_act \<Rightarrow> work_state \<Rightarrow> work_error + work_state" where
  "workflow_step env t u now (OpenWorkflow i v) st = map_sum id snd (open_workflow env t u now i v st)"
| "workflow_step env t u now (EditWorkflow i v revision c) st = map_sum id snd (mutate_draft env t u now i v revision (change_of c) st)"
| "workflow_step env t u now (ReseedWorkflow i v revision) st = map_sum id snd (applyLatestAnalysis env t u now i v revision st)"
| "workflow_step env t u now (LoadAssignment i v accept) st =
     map_sum id (\<lambda>k. st\<lparr>wk_publishing := wk_publishing st @ [k]\<rparr>) (assign_load env t u now i v accept st)"

fun analysis_step :: "work_env \<Rightarrow> uid \<Rightarrow> uid \<Rightarrow> instant \<Rightarrow> analysis_act \<Rightarrow> work_state \<Rightarrow> work_error + work_state" where
  "analysis_step env t u now (StartAnalysis capability realModel i v) st =
     map_sum id snd (start_analysis env t u now capability realModel i v st)"
| "analysis_step env t u now (EnterStage i s) st = enterStage t now i s st"
| "analysis_step env t u now (FinishAnalysis code i p) st = completeAnalysis t u now code i p st"
| "analysis_step env t u now (FailAnalysis i reason) st = Inr (failAnalysis t i reason st)"
| "analysis_step env t u now (CancelAnalysis i) st = cancelAnalysis env t u now i st"

definition hand_out_ticket :: "work_env \<Rightarrow> instant \<Rightarrow> nat \<Rightarrow> work_state \<Rightarrow> work_state" where
  "hand_out_ticket env now n st =
     (if length (wk_publishing st) \<le> n then st
      else (let k = wk_publishing st ! n; st1 = st\<lparr>wk_publishing := drop_at n (wk_publishing st)\<rparr>
            in case assign_finish env now k st1 of Inl e \<Rightarrow> st1 | Inr (ha, st2) \<Rightarrow> st2))"

fun company_step :: "company_op \<Rightarrow> work_state \<Rightarrow> work_error + work_state" where
  "company_step (TasksOp op) st = work_step op st"
| "company_step (ObjectiveOp env t u now a) st = objective_step env t u now a st"
| "company_step (ClosureOp env t u now a) st = closure_step env t u now a st"
| "company_step (WorkflowOp env t u now a) st = workflow_step env t u now a st"
| "company_step (AnalysisOp env t u now a) st = analysis_step env t u now a st"
| "company_step (HandOutOp env now n) st = Inr (hand_out_ticket env now n st)"

end
