(* ===== verification/Spec2Isabelle.thy ===== *)
theory Spec2Isabelle
  imports Cost_Properties Authorization_Properties Run_Properties Work_Properties Audit_Properties
    Performance_Properties Approval_Properties Workflow_Properties Company_Steps
begin

text \<open>
  A verification library for the core of UBoss: what an organisation's people and AI agents may do,
  what that work may cost, when and in which order it runs, and what is written down about it.  The
  program is the TypeScript monorepo under \<open>src/\<close>; the rules are in \<open>packages/types/src\<close> (pure
  functions shared by the API and the web app) and in the NestJS services of \<open>apps/api/src\<close>.

  \<^bold>\<open>The parts and how they interact.\<close>
  A principal asks for an action; \<open>authorization.service.ts\<close> decides it from the stored grants,
  policies and tenant state.  A run of an agent is queued by the scheduler or a person, leased by a
  worker and executed by \<open>run-engine.service.ts\<close>, which reserves the estimated cost with
  \<open>cost-engine.service.ts\<close> before the work and settles it after.  When a step of a workflow finishes,
  \<open>work-release.service.ts\<close> lets the human tasks that waited for it start.  Every change writes to the
  audit chain.

  \<^bold>\<open>Shared theories.\<close>
  \<open>UbossPrelude\<close> holds the type names, tables as lists of rows, guarded updates and the fact
  collections; \<open>Doubles\<close> IEEE-754 binary64 arithmetic as rationals with explicit rounding (JavaScript
  numbers); \<open>Rendering\<close>, \<open>Iso_Dates\<close> and \<open>Calendar\<close> strings and UTC dates as milliseconds;
  \<open>Services\<close> the two interfaces the services share, \<open>transactional\<close> (an operation that fails leaves the
  store as it was) and \<open>monotone_service\<close> (a run of steps carries an invariant and only adds to the
  log), each interpreted on the services of the cost engine, the run
  engine, the audit trail, performance scoring and approvals.

  \<^bold>\<open>Cost.\<close>
  \<open>Budget\<close> is \<open>packages/types/src/cost.ts\<close>: prices, estimates, hard stops, alerts and periods.
  \<open>Cost_Engine\<close> and \<open>Cost_Service\<close> are \<open>cost-engine.service.ts\<close>: estimate, reserve, settle,
  release, adjust over wallets, reservations and a ledger.  \<open>Budget_Reset\<close> is the reset runner: its
  loop over missed periods stops after 400 of them, which the model keeps and the lemmas show to
  suffice for a wallet that is not further behind.  \<open>Cost_Invariants\<close> and \<open>Cost_Safety\<close> carry the
  reconciliation invariant through every operation; \<open>Cost_Effects\<close> the audit rows and notices;
  \<open>Cost_Properties\<close> states the properties.  Amounts are doubles below 2 to the 53, where they are
  exact, and the bound is a premise where it is used.

  \<^bold>\<open>Authorization.\<close>
  \<open>Authorization_Types\<close>, \<open>Scope_Evaluation\<close>, \<open>Policy_Precedence\<close> and \<open>Role_Templates\<close> are
  \<open>authorization.ts\<close>, \<open>scope-evaluation.ts\<close>, \<open>policy-precedence.ts\<close>, \<open>roles.ts\<close> and
  \<open>access-levels.ts\<close>; \<open>Authorization_Service\<close> is \<open>authorization.service.ts\<close>.  The lemmas give the
  decision in closed form and the order in which reasons for a refusal are found.

  \<^bold>\<open>Runs and work.\<close>
  \<open>Runs\<close>, \<open>Schedules\<close> and \<open>Fair_Queue\<close> are \<open>runs.ts\<close>, \<open>schedule.ts\<close> and the fairness part of
  \<open>rate-limits.ts\<close>; a search for the next occurrence is a recursion on a measure and looks at most 366
  days ahead, which covers every weekly and monthly pattern.  \<open>Run_Engine\<close>, \<open>Run_Service\<close> and
  \<open>Run_Scheduler\<close> are \<open>run-engine.service.ts\<close> and \<open>run-scheduler.service.ts\<close>; \<open>Run_Invariants\<close> and
  \<open>Run_Safety\<close> relate the table of runs to an abstract machine for the life of one run.
  \<open>Assignments\<close> is \<open>assignments.ts\<close> and \<open>Work_Release\<close> \<open>work-release.service.ts\<close>.

  \<^bold>\<open>Audit.\<close>
  \<open>Json\<close> is the canonical JSON of \<open>audit-chain.ts\<close>, \<open>Audit_Chain\<close> the chain of hashes and its
  verification, with a locale for any chained log that is interpreted on both of the program's;
  \<open>Security_Actions\<close> the catalogue of recorded actions; \<open>Audit_Trail\<close> and \<open>Audit_Service\<close> the
  repositories, the recording services, verification and sealed checkpoints.

  \<^bold>\<open>Performance.\<close>
  \<open>Performance\<close> is \<open>performance.service.ts\<close>: policy versions, scored outcomes and badges, over the
  log of \<open>Work_Log\<close> (audit rows, notices and a counter that stands for the database's identifiers).
  \<open>Performance_Invariants\<close> shows what every operation keeps and only adds.

  \<^bold>\<open>Tasks and approvals.\<close>
  \<open>Approvals\<close> is \<open>approvals.ts\<close>; \<open>Work_State\<close> the tables tasks and approvals share; \<open>Human_Tasks\<close> is
  \<open>human-task.service.ts\<close> and \<open>objective-review.service.ts\<close>, \<open>Approval_Service\<close>
  \<open>approval.service.ts\<close>.  \<open>decide\<close> authorises in one transaction and writes in a second; the model
  keeps the decision in flight between the two, so that the properties hold of every interleaving.
  \<open>Approval_Invariants\<close> and \<open>Approval_Steps\<close> carry the invariant through every operation.

  \<^bold>\<open>Objectives and workflows.\<close>
  \<open>Objective_Forms\<close> is \<open>packages/types/src/objectives.ts\<close> (life cycle, form, comparison of versions) and
  \<open>Workflow_Plan\<close> \<open>objective-analysis.ts\<close> (the graph of a workflow, its validity, the depth of a step);
  \<open>Execution_Order\<close>, \<open>Workflow_Validity\<close>, \<open>Form_Comparison\<close> and \<open>Plan_Proposal\<close> relate them to
  specifications.  Under \<open>apps/api/src/objectives\<close>, \<open>Objective_Service\<close> is \<open>objective.service.ts\<close>
  (drafts, review, approval, publishing, rollback, rewards), \<open>Objective_Closure\<close>
  \<open>objective-closure.service.ts\<close>, \<open>Objective_Analysis\<close> \<open>objective-analysis.service.ts\<close> (the life of a
  run and the plan its pipeline proposes, the parsed answers of the model being arguments),
  \<open>Workflow_Editor\<close> and \<open>Workflow_Readiness\<close> \<open>workflow-editor.service.ts\<close>, \<open>Assignment_Service\<close>
  \<open>assignment.service.ts\<close>: an objective is written, analysed into a workflow, the workflow edited,
  approved and handed out as the tasks, assignments and approval requests of the services above.
  \<open>Company_Steps\<close> interleaves all of it over one state.

  \<^bold>\<open>Conventions.\<close>
  A table is the list of its rows in insertion order; \<open>updateMany\<close> with a condition is
  \<open>update_where\<close> and returns the number of rows; an error a service throws is the \<open>Inl\<close> of a sum, so
  that every early return is a branch.  Identifiers are strings, a JavaScript \<open>Date\<close> an integer of
  milliseconds.  A step relation interleaves whole transactions, since the code runs each under a row
  lock or as a guarded update.

  \<^bold>\<open>Parameters.\<close>
  SHA-256 and the storage of JSON columns, the time-zone database behind \<open>Intl\<close>, the company
  settings, the outcome of an agent's executor, the identifiers the database generates and whether
  the notification service accepts a message are arguments of the definitions that use them; a
  property that relies on one names what it relies on (for a hash: no collision between the two
  inputs at hand).

  \<^bold>\<open>Not modelled.\<close>
  Row-level security is the tenant filter of each read, and the advisory lock of the audit tables is
  that appends are serial.  JSON numbers are integers; characters are bytes, so an ellipsis is one
  byte and a dash a hyphen.  Of the columns with a width only the failure reason of a run is cut.
  The web app, the transport (controllers and request validation), and the services of organisation,
  knowledge, chat, billing, connections, agents and notifications are not modelled; of the objectives
  the parsing of the language model's answers, the spreadsheet export and what a workflow's steps are
  doing on screen are left out.  A transaction is atomic, where the database's READ COMMITTED lets two of them
  read before either writes; the security events of refused decisions, the names of people and the
  titles of the steps a task waits on are left out.
\<close>

end
